(* ===== verification/JsPrelude.thy ===== *)
theory JsPrelude
  imports Main "HOL-Library.Sublist"
begin

text \<open>
  The part of JavaScript every component uses: strings, arrays, the two defaulting operators
  and results that may be a thrown error.

  A JavaScript string is the list of the bytes of its UTF-8 encoding (\<^typ>\<open>string\<close>). White
  space and letter case are those of ASCII, so \<open>trim\<close> and \<open>toLowerCase\<close> agree with the
  engine on ASCII text, and leave every byte of a character outside ASCII alone.
  An optional property is an \<^typ>\<open>'a option\<close>, \<^const>\<open>None\<close> for a missing (undefined) one.
  A call that may throw returns a sum, \<^const>\<open>Inl\<close> for the thrown error.
\<close>

section \<open>Hint collections\<close>

named_theorems js_string \<open>facts on the string functions of the language\<close>
named_theorems js_array \<open>facts on the array functions of the language\<close>

section \<open>Characters and trimming\<close>

definition is_ws :: "char \<Rightarrow> bool" where
  "is_ws c \<longleftrightarrow> c \<in> set [CHR 0x09, CHR 0x0A, CHR 0x0B, CHR 0x0C, CHR 0x0D, CHR '' '']"

definition ltrim :: "string \<Rightarrow> string" where
  "ltrim s = dropWhile is_ws s"

definition rtrim :: "string \<Rightarrow> string" where
  "rtrim s = rev (dropWhile is_ws (rev s))"

definition trim :: "string \<Rightarrow> string" where
  "trim s = rtrim (ltrim s)"

definition lower_char :: "char \<Rightarrow> char" where
  "lower_char c = (let n = of_char c :: nat in if 65 \<le> n \<and> n \<le> 90 then char_of (n + 32) else c)"

definition lower :: "string \<Rightarrow> string" where
  "lower s = map lower_char s"

definition upper_char :: "char \<Rightarrow> char" where
  "upper_char c = (let n = of_char c :: nat in if 97 \<le> n \<and> n \<le> 122 then char_of (n - 32) else c)"

definition upper :: "string \<Rightarrow> string" where
  "upper s = map upper_char s"

section \<open>Searching and splitting\<close>

definition starts_with :: "string \<Rightarrow> string \<Rightarrow> bool" where
  "starts_with p s \<longleftrightarrow> take (length p) s = p"

definition ends_with :: "string \<Rightarrow> string \<Rightarrow> bool" where
  "ends_with p s \<longleftrightarrow> starts_with (rev p) (rev s)"

fun str_includes :: "string \<Rightarrow> string \<Rightarrow> bool" where
  "str_includes [] p = (p = [])"
| "str_includes (c # s) p = (starts_with p (c # s) \<or> str_includes s p)"

fun split_on :: "char \<Rightarrow> string \<Rightarrow> string list" where
  "split_on c [] = [[]]"
| "split_on c (x # s) =
     (if x = c then [] # split_on c s
      else (case split_on c s of [] \<Rightarrow> [[x]] | l # ls \<Rightarrow> (x # l) # ls))"

fun join_with :: "string \<Rightarrow> string list \<Rightarrow> string" where
  "join_with sep [] = []"
| "join_with sep [l] = l"
| "join_with sep (l # m # ls) = l @ sep @ join_with sep (m # ls)"

text \<open>\<open>s.replace(":", "=")\<close> with string arguments: the first occurrence only.\<close>

fun replace_first_char :: "char \<Rightarrow> char \<Rightarrow> string \<Rightarrow> string" where
  "replace_first_char a b [] = []"
| "replace_first_char a b (x # s) = (if x = a then b # s else x # replace_first_char a b s)"

text \<open>\<open>s.replace(/x/g, r)\<close> for a single character \<open>x\<close>.\<close>

definition replace_all_char :: "char \<Rightarrow> string \<Rightarrow> string \<Rightarrow> string" where
  "replace_all_char a r s = concat (map (\<lambda>x. if x = a then r else [x]) s)"

definition spaces :: "nat \<Rightarrow> string" where
  "spaces n = replicate n (CHR '' '')"

abbreviation newline :: string where
  "newline \<equiv> [CHR 0x0A]"

abbreviation dquote :: string where
  "dquote \<equiv> [CHR 0x22]"

abbreviation lines_of :: "string \<Rightarrow> string list" where
  "lines_of s \<equiv> split_on (CHR 0x0A) s"

abbreviation unlines :: "string list \<Rightarrow> string" where
  "unlines ls \<equiv> join_with newline ls"

section \<open>Numbers as text\<close>

fun digit_of :: "nat \<Rightarrow> char" where
  "digit_of n = char_of (48 + n mod 10)"

fun show_nat :: "nat \<Rightarrow> string" where
  "show_nat n = (if n < 10 then [digit_of n] else show_nat (n div 10) @ [digit_of n])"

declare show_nat.simps [simp del]

definition show_int :: "int \<Rightarrow> string" where
  "show_int i = (if i < 0 then CHR ''-'' # show_nat (nat (- i)) else show_nat (nat i))"

definition is_digit :: "char \<Rightarrow> bool" where
  "is_digit c \<longleftrightarrow> 48 \<le> (of_char c :: nat) \<and> (of_char c :: nat) \<le> 57"

definition digit_val :: "char \<Rightarrow> nat" where
  "digit_val c = of_char c - 48"

section \<open>Defaulting operators\<close>

text \<open>\<open>a ?? b\<close> on optional values, and \<open>a || b\<close> on strings, where the empty string is falsy.\<close>

definition nullish :: "'a option \<Rightarrow> 'a \<Rightarrow> 'a" where
  "nullish a b = (case a of None \<Rightarrow> b | Some x \<Rightarrow> x)"

definition nullish_opt :: "'a option \<Rightarrow> 'a option \<Rightarrow> 'a option" where
  "nullish_opt a b = (case a of None \<Rightarrow> b | Some x \<Rightarrow> Some x)"

definition or_str :: "string \<Rightarrow> string \<Rightarrow> string" where
  "or_str a b = (if a = [] then b else a)"

definition truthy_str :: "string option \<Rightarrow> bool" where
  "truthy_str a \<longleftrightarrow> (case a of None \<Rightarrow> False | Some s \<Rightarrow> s \<noteq> [])"

definition or_ostr :: "string option \<Rightarrow> string \<Rightarrow> string" where
  "or_ostr a b = (case a of None \<Rightarrow> b | Some s \<Rightarrow> or_str s b)"

section \<open>Arrays\<close>

text \<open>\<open>findIndex\<close> returns -1 when nothing matches; here \<^const>\<open>None\<close>.\<close>

fun find_index :: "('a \<Rightarrow> bool) \<Rightarrow> 'a list \<Rightarrow> nat option" where
  "find_index p [] = None"
| "find_index p (x # xs) = (if p x then Some 0 else map_option Suc (find_index p xs))"

definition remove_at :: "nat \<Rightarrow> 'a list \<Rightarrow> 'a list" where
  "remove_at i xs = take i xs @ drop (Suc i) xs"

definition insert_at :: "nat \<Rightarrow> 'a \<Rightarrow> 'a list \<Rightarrow> 'a list" where
  "insert_at i x xs = take i xs @ x # drop i xs"

text \<open>
  \<open>xs.find(p)\<close> followed by a mutation of the object found: the first match is updated in place.
\<close>

fun update_first :: "('a \<Rightarrow> bool) \<Rightarrow> ('a \<Rightarrow> 'a) \<Rightarrow> 'a list \<Rightarrow> 'a list" where
  "update_first p f [] = []"
| "update_first p f (x # xs) = (if p x then f x # xs else x # update_first p f xs)"

text \<open>An object used as a dictionary, with its keys in insertion order.\<close>

fun put :: "'k \<Rightarrow> 'v \<Rightarrow> ('k \<times> 'v) list \<Rightarrow> ('k \<times> 'v) list" where
  "put k v [] = [(k, v)]"
| "put k v ((k', v') # xs) = (if k' = k then (k, v) # xs else (k', v') # put k v xs)"

section \<open>Facts on strings\<close>

lemma ltrim_head [js_string]: "ltrim s = c # r \<Longrightarrow> \<not> is_ws c"
  unfolding ltrim_def by (metis dropWhile_eq_Cons_conv)

lemma ltrim_fix [js_string]: "s = [] \<or> \<not> is_ws (hd s) \<Longrightarrow> ltrim s = s"
  by (cases s) (auto simp: ltrim_def)

lemma rtrim_fix [js_string]: "s = [] \<or> \<not> is_ws (last s) \<Longrightarrow> rtrim s = s"
  by (cases s rule: rev_cases) (auto simp: rtrim_def)

lemma rtrim_last: "rtrim s \<noteq> [] \<Longrightarrow> \<not> is_ws (last (rtrim s))"
  unfolding rtrim_def by (metis Nil_is_rev_conv hd_dropWhile last_rev)

lemma rtrim_snoc: "rtrim (s @ [c]) = (if is_ws c then rtrim s else s @ [c])"
  by (simp add: rtrim_def)

lemma rtrim_prefix: "\<exists>w. s = rtrim s @ w \<and> (\<forall>c \<in> set w. is_ws c)"
proof (induction s rule: rev_induct)
  case Nil
  then show ?case by (simp add: rtrim_def)
next
  case (snoc c s)
  then obtain w where w: "s = rtrim s @ w" "\<forall>c \<in> set w. is_ws c" by blast
  show ?case
  proof (cases "is_ws c")
    case True
    with w have "s @ [c] = rtrim (s @ [c]) @ (w @ [c])" and "\<forall>c \<in> set (w @ [c]). is_ws c"
      by (auto simp: rtrim_snoc)
    then show ?thesis by blast
  next
    case False
    then have "s @ [c] = rtrim (s @ [c]) @ []" by (simp add: rtrim_snoc)
    then show ?thesis by force
  qed
qed

lemma rtrim_head: "rtrim s \<noteq> [] \<Longrightarrow> hd (rtrim s) = hd s"
proof -
  obtain w where "s = rtrim s @ w" using rtrim_prefix by blast
  then show "rtrim s \<noteq> [] \<Longrightarrow> hd (rtrim s) = hd s" by (metis hd_append2)
qed

lemma trim_ends [js_string]: "trim s \<noteq> [] \<Longrightarrow> \<not> is_ws (hd (trim s)) \<and> \<not> is_ws (last (trim s))"
  unfolding trim_def
  by (metis rtrim_def dropWhile.simps(1) hd_dropWhile list.exhaust_sel ltrim_head rev.simps(1)
      rtrim_head rtrim_last)

lemma trim_fix [js_string]:
  "s = [] \<or> \<not> is_ws (hd s) \<and> \<not> is_ws (last s) \<Longrightarrow> trim s = s"
  by (auto simp: trim_def ltrim_fix rtrim_fix)

lemma trim_idem [simp]: "trim (trim s) = trim s"
  by (metis trim_ends trim_fix)

lemma trim_Nil [simp]: "trim [] = []"
  by (simp add: trim_fix)

lemma set_ltrim: "set (ltrim s) \<subseteq> set s"
  by (auto simp: ltrim_def dest: set_dropWhileD)

lemma set_rtrim: "set (rtrim s) \<subseteq> set s"
  by (auto simp: rtrim_def dest: set_dropWhileD)

lemma set_trim [js_string]: "set (trim s) \<subseteq> set s"
  using set_ltrim set_rtrim unfolding trim_def by blast

lemma split_on_nonempty [simp]: "split_on c s \<noteq> []"
  by (induction s) (auto split: list.splits)

lemma join_split [js_string]: "join_with [c] (split_on c s) = s"
proof (induction s)
  case Nil
  then show ?case by simp
next
  case (Cons x s)
  then show ?case
    by (cases "split_on c s" rule: remdups_adj.cases) auto
qed

lemma split_on_pieces [js_string]: "l \<in> set (split_on c s) \<Longrightarrow> c \<notin> set l"
  by (induction s arbitrary: l) (force split: list.splits if_splits)+

lemma split_on_no_sep [js_string]: "c \<notin> set s \<Longrightarrow> split_on c s = [s]"
  by (induction s) auto

lemma split_on_append [js_string]:
  "c \<notin> set l \<Longrightarrow> split_on c (l @ c # s) = l # split_on c s"
  by (induction l) auto

lemma split_join [js_string]:
  "ls \<noteq> [] \<Longrightarrow> (\<forall>l \<in> set ls. c \<notin> set l) \<Longrightarrow> split_on c (join_with [c] ls) = ls"
proof (induction ls)
  case (Cons l ls)
  then show ?case
    by (cases ls) (auto simp: split_on_append split_on_no_sep)
qed simp

lemma join_with_Cons: "ls \<noteq> [] \<Longrightarrow> join_with sep (l # ls) = l @ sep @ join_with sep ls"
  by (cases ls) auto

text \<open>Equations for evaluation.\<close>

lemma starts_with_code [code]:
  "starts_with [] s = True"
  "starts_with (c # p) [] = False"
  "starts_with (c # p) (d # s) = (c = d \<and> starts_with p s)"
  by (auto simp: starts_with_def)

lemma lower_char_code [code]:
  "lower_char (Char b0 b1 b2 b3 b4 b5 b6 b7) =
     (if \<not> b7 \<and> b6 \<and> \<not> b5 \<and> (b0 \<or> b1 \<or> b2 \<or> b3 \<or> b4) \<and> \<not> (b4 \<and> b3 \<and> (b2 \<or> b1 \<and> b0))
      then Char b0 b1 b2 b3 b4 True b6 b7 else Char b0 b1 b2 b3 b4 b5 b6 b7)"
  by (cases b0; cases b1; cases b2; cases b3; cases b4; cases b5; cases b6; cases b7)
    (simp_all add: lower_char_def char_of_def bit_iff_odd)

lemma starts_with_append [simp]: "starts_with p (p @ s)"
  by (simp add: starts_with_def)

lemma starts_with_iff: "starts_with p s \<longleftrightarrow> (\<exists>r. s = p @ r)"
  unfolding starts_with_def by (metis append_eq_conv_conj)

lemma str_includes_iff: "str_includes s p \<longleftrightarrow> (\<exists>a b. s = a @ p @ b)"
proof (induction s)
  case Nil
  then show ?case by auto
next
  case (Cons c s)
  show ?case
  proof
    assume "str_includes (c # s) p"
    then show "\<exists>a b. c # s = a @ p @ b"
      using Cons by (auto simp: starts_with_iff) (metis append_Cons append_Nil)+
  next
    assume "\<exists>a b. c # s = a @ p @ b"
    then obtain a b where ab: "c # s = a @ p @ b" by blast
    show "str_includes (c # s) p"
    proof (cases a)
      case Nil
      with ab have "starts_with p (c # s)" by (auto simp: starts_with_iff)
      then show ?thesis by simp
    next
      case (Cons d a')
      with ab have "s = a' @ p @ b" by simp
      with \<open>str_includes s p = (\<exists>a b. s = a @ p @ b)\<close> show ?thesis by auto
    qed
  qed
qed

lemma lower_char_idem: "lower_char (lower_char c) = lower_char c"
  by (simp add: lower_char_def Let_def)

lemma lower_idem [simp]: "lower (lower s) = lower s"
  by (simp add: lower_def lower_char_idem)

section \<open>Facts on numerals\<close>

lemma show_nat_nonempty [simp]: "show_nat n \<noteq> []"
  by (subst show_nat.simps) simp

lemma is_digit_digit_of [simp]: "is_digit (digit_of n)"
proof -
  have "n mod 10 < 10" by simp
  then show ?thesis by (simp add: is_digit_def del: mod_less_divisor)
qed

lemma show_nat_digits: "\<forall>c \<in> set (show_nat n). is_digit c"
proof (induction n rule: show_nat.induct)
  case (1 n)
  show ?case
  proof (cases "n < 10")
    case True
    then show ?thesis using is_digit_digit_of by (subst show_nat.simps) (simp del: digit_of.simps)
  next
    case False
    with 1 show ?thesis
      using is_digit_digit_of by (subst show_nat.simps) (auto simp del: digit_of.simps)
  qed
qed

definition nat_of_digits :: "string \<Rightarrow> nat" where
  "nat_of_digits s = foldl (\<lambda>a c. 10 * a + digit_val c) 0 s"

text \<open>\<open>Number.parseInt(s, 10)\<close>, \<^const>\<open>None\<close> for NaN.\<close>

definition parseInt :: "string \<Rightarrow> int option" where
  "parseInt s =
     (let t = ltrim s;
          neg = starts_with ''-'' t;
          ds = takeWhile is_digit (if neg \<or> starts_with ''+'' t then tl t else t) in
      if ds = [] then None
      else Some (if neg then - int (nat_of_digits ds) else int (nat_of_digits ds)))"

lemma digit_val_digit_of [simp]: "digit_val (digit_of n) = n mod 10"
proof -
  have "n mod 10 < 10" by simp
  then show ?thesis by (simp add: digit_val_def del: mod_less_divisor)
qed

lemma nat_of_digits_snoc: "nat_of_digits (s @ [c]) = 10 * nat_of_digits s + digit_val c"
  by (simp add: nat_of_digits_def)

lemma nat_of_show [simp]: "nat_of_digits (show_nat n) = n"
proof (induction n rule: show_nat.induct)
  case (1 n)
  show ?case
  proof (cases "n < 10")
    case True
    have "nat_of_digits [digit_of n] = n mod 10"
      by (simp add: nat_of_digits_def del: digit_of.simps)
    then show ?thesis using True by (subst show_nat.simps) (simp del: digit_of.simps)
  next
    case False
    with 1 have "nat_of_digits (show_nat (n div 10)) = n div 10" by simp
    then have "nat_of_digits (show_nat (n div 10) @ [digit_of n]) = n"
      by (simp add: nat_of_digits_snoc del: digit_of.simps)
    then show ?thesis using False by (subst show_nat.simps) (simp del: digit_of.simps)
  qed
qed

lemma show_nat_inj: "show_nat m = show_nat n \<longleftrightarrow> m = n"
  by (metis nat_of_show)

section \<open>Facts on arrays and dictionaries\<close>

lemma find_index_Some:
  "find_index p xs = Some i \<longleftrightarrow> i < length xs \<and> p (xs ! i) \<and> (\<forall>j < i. \<not> p (xs ! j))"
proof (induction xs arbitrary: i)
  case Nil
  then show ?case by simp
next
  case (Cons x xs)
  show ?case
  proof (cases i)
    case 0
    then show ?thesis by auto
  next
    case (Suc k)
    have "(\<forall>j < Suc k. \<not> p ((x # xs) ! j)) \<longleftrightarrow> \<not> p x \<and> (\<forall>j < k. \<not> p (xs ! j))"
      by (auto simp: less_Suc_eq_0_disj)
    then show ?thesis using Cons Suc by auto
  qed
qed

lemma find_index_None: "find_index p xs = None \<longleftrightarrow> (\<forall>x \<in> set xs. \<not> p x)"
  by (induction xs) auto

lemma length_remove_at: "i < length xs \<Longrightarrow> length (remove_at i xs) = length xs - 1"
  by (simp add: remove_at_def)

lemma set_remove_at: "set (remove_at i xs) \<subseteq> set xs"
  by (auto simp: remove_at_def dest: in_set_takeD in_set_dropD)

lemma length_update_first [simp, js_array]: "length (update_first p f xs) = length xs"
  by (induction xs) auto

lemma map_update_first [js_array]:
  "(\<And>x. g (f x) = g x) \<Longrightarrow> map g (update_first p f xs) = map g xs"
  by (induction xs) auto

lemma update_first_none: "(\<forall>x \<in> set xs. \<not> p x) \<Longrightarrow> update_first p f xs = xs"
  by (induction xs) auto

lemma find_update_first:
  "(\<And>x. p (f x) = p x) \<Longrightarrow> find p (update_first p f xs) = map_option f (find p xs)"
  by (induction xs) auto

lemma update_first_distinct:
  assumes "distinct (map key xs)"
  shows "update_first (\<lambda>x. key x = k) f xs = map (\<lambda>x. if key x = k then f x else x) xs"
  using assms
proof (induction xs)
  case (Cons x xs)
  from Cons.prems have "key x = k \<Longrightarrow> \<forall>y \<in> set xs. key y \<noteq> k"
    by (metis distinct.simps(2) image_eqI list.set_map list.simps(9))
  then have "key x = k \<Longrightarrow> map (\<lambda>x. if key x = k then f x else x) xs = xs"
    by (simp add: map_idI)
  with Cons show ?case by auto
qed simp

lemma map_of_put [simp]: "map_of (put k v xs) = (map_of xs)(k \<mapsto> v)"
  by (induction k v xs rule: put.induct) auto

lemma keys_put: "fst ` set (put k v xs) = insert k (fst ` set xs)"
  by (induction k v xs rule: put.induct) auto

lemma distinct_put: "distinct (map fst xs) \<Longrightarrow> distinct (map fst (put k v xs))"
proof (induction k v xs rule: put.induct)
  case (2 k v k' v' xs)
  then show ?case using keys_put [of k v xs] by auto
qed simp

lemma put_new: "k \<notin> fst ` set xs \<Longrightarrow> put k v xs = xs @ [(k, v)]"
  by (induction k v xs rule: put.induct) auto

end
