(* ===== verification/Json.thy ===== *)
theory Json
  imports JsPrelude
begin

text \<open>
  Dynamic JavaScript values as the program meets them in response bodies and in browser
  storage, with \<open>JSON.stringify\<close> and \<open>JSON.parse\<close>. Numbers are integers: the values
  the program writes to storage hold no others. An object lists its members in insertion order.
  A value that may be undefined is a \<^typ>\<open>'a option\<close>.
\<close>

section \<open>Values\<close>

datatype json =
    JNull
  | JBool bool
  | JNum int
  | JStr string
  | JArr "json list"
  | JObj "(string \<times> json) list"

text \<open>Truthiness of a possibly undefined value, and the optional chaining operator \<open>v?.k\<close>.\<close>

fun truthy :: "json option \<Rightarrow> bool" where
  "truthy None = False"
| "truthy (Some JNull) = False"
| "truthy (Some (JBool b)) = b"
| "truthy (Some (JNum n)) = (n \<noteq> 0)"
| "truthy (Some (JStr s)) = (s \<noteq> [])"
| "truthy (Some (JArr vs)) = True"
| "truthy (Some (JObj m)) = True"

fun jget :: "string \<Rightarrow> json option \<Rightarrow> json option" where
  "jget k (Some (JObj m)) = map_of m k"
| "jget k v = None"

text \<open>\<open>v ?? d\<close> and \<open>v || d\<close> on dynamic values.\<close>

definition jnullish :: "json option \<Rightarrow> json option \<Rightarrow> json option" where
  "jnullish v d = (if v = None \<or> v = Some JNull then d else v)"

definition jor :: "json option \<Rightarrow> json option \<Rightarrow> json option" where
  "jor v d = (if truthy v then v else d)"

text \<open>
  Coercion of a value to a string, as a template literal does it. Arrays and objects are given
  the engine's generic text.
\<close>

fun jstring :: "json option \<Rightarrow> string" where
  "jstring None = ''undefined''"
| "jstring (Some JNull) = ''null''"
| "jstring (Some (JBool b)) = (if b then ''true'' else ''false'')"
| "jstring (Some (JNum n)) = show_int n"
| "jstring (Some (JStr s)) = s"
| "jstring (Some (JArr vs)) = join_with '','' (map (\<lambda>v. jstring (Some v)) vs)"
| "jstring (Some (JObj m)) = ''[object Object]''"

text \<open>An object literal leaves out the members whose value is undefined when it is stringified.\<close>

definition members :: "(string \<times> json option) list \<Rightarrow> (string \<times> json) list" where
  "members kvs = map (\<lambda>(k, v). (k, the v)) (filter (\<lambda>(k, v). v \<noteq> None) kvs)"

section \<open>JSON.stringify\<close>

definition hex_digit :: "nat \<Rightarrow> char" where
  "hex_digit n = (if n < 10 then char_of (48 + n) else char_of (87 + n))"

definition escape_char :: "char \<Rightarrow> string" where
  "escape_char c =
     (if c = CHR 0x22 then [CHR 0x5C, CHR 0x22]
      else if c = CHR 0x5C then [CHR 0x5C, CHR 0x5C]
      else if c = CHR 0x08 then [CHR 0x5C, CHR ''b'']
      else if c = CHR 0x0C then [CHR 0x5C, CHR ''f'']
      else if c = CHR 0x0A then [CHR 0x5C, CHR ''n'']
      else if c = CHR 0x0D then [CHR 0x5C, CHR ''r'']
      else if c = CHR 0x09 then [CHR 0x5C, CHR ''t'']
      else if (of_char c :: nat) < 32
        then [CHR 0x5C, CHR ''u'', CHR ''0'', CHR ''0'',
              hex_digit (of_char c div 16), hex_digit (of_char c mod 16)]
      else [c])"

definition str_body :: "string \<Rightarrow> string" where
  "str_body s = concat (map escape_char s)"

definition json_string :: "string \<Rightarrow> string" where
  "json_string s = CHR 0x22 # str_body s @ [CHR 0x22]"

fun json_text :: "json \<Rightarrow> string"
  and elems_text :: "json list \<Rightarrow> string"
  and members_text :: "(string \<times> json) list \<Rightarrow> string"
where
  "json_text JNull = ''null''"
| "json_text (JBool b) = (if b then ''true'' else ''false'')"
| "json_text (JNum n) = show_int n"
| "json_text (JStr s) = json_string s"
| "json_text (JArr vs) = ''['' @ elems_text vs @ '']''"
| "json_text (JObj m) = ''{'' @ members_text m @ ''}''"
| "elems_text [] = []"
| "elems_text [v] = json_text v"
| "elems_text (v # w # vs) = json_text v @ '','' @ elems_text (w # vs)"
| "members_text [] = []"
| "members_text [(k, v)] = json_string k @ '':'' @ json_text v"
| "members_text ((k, v) # p # ps) = json_string k @ '':'' @ json_text v @ '','' @ members_text (p # ps)"

section \<open>JSON.parse\<close>

definition json_ws :: "char \<Rightarrow> bool" where
  "json_ws c \<longleftrightarrow> c \<in> set [CHR 0x09, CHR 0x0A, CHR 0x0D, CHR '' '']"

definition skip :: "string \<Rightarrow> string" where
  "skip s = dropWhile json_ws s"

definition hex_val :: "char \<Rightarrow> nat option" where
  "hex_val c = (let n = of_char c :: nat in
     if 48 \<le> n \<and> n \<le> 57 then Some (n - 48)
     else if 97 \<le> n \<and> n \<le> 102 then Some (n - 87)
     else if 65 \<le> n \<and> n \<le> 70 then Some (n - 55)
     else None)"

text \<open>The UTF-8 bytes of a code point of the basic plane.\<close>

definition utf8 :: "nat \<Rightarrow> string" where
  "utf8 n =
     (if n < 128 then [char_of n]
      else if n < 2048 then [char_of (192 + n div 64), char_of (128 + n mod 64)]
      else [char_of (224 + n div 4096), char_of (128 + n div 64 mod 64), char_of (128 + n mod 64)])"

definition unescape_char :: "char \<Rightarrow> char option" where
  "unescape_char e =
     map_of [(CHR 0x22, CHR 0x22), (CHR 0x5C, CHR 0x5C), (CHR ''/'', CHR ''/''),
             (CHR ''b'', CHR 0x08), (CHR ''f'', CHR 0x0C), (CHR ''n'', CHR 0x0A),
             (CHR ''r'', CHR 0x0D), (CHR ''t'', CHR 0x09)] e"

fun hex4 :: "string \<Rightarrow> (nat \<times> string) option" where
  "hex4 (a # b # c # d # r) =
     (case (hex_val a, hex_val b, hex_val c, hex_val d) of
        (Some a', Some b', Some c', Some d') \<Rightarrow> Some (((a' * 16 + b') * 16 + c') * 16 + d', r)
      | _ \<Rightarrow> None)"
| "hex4 _ = None"

lemma hex4_shorter: "hex4 s = Some (n, r) \<Longrightarrow> length r < length s"
  by (induction s rule: hex4.induct) (auto split: option.splits)

text \<open>The body of a string literal, after its opening quote.\<close>

function parse_str :: "string \<Rightarrow> (string \<times> string) option" where
  "parse_str s =
     (case s of
        [] \<Rightarrow> None
      | c # r \<Rightarrow>
          if c = CHR 0x22 then Some ([], r)
          else if c = CHR 0x5C then
            (case r of
               [] \<Rightarrow> None
             | e # r' \<Rightarrow>
                 if e = CHR ''u'' then
                   (case hex4 r' of
                      None \<Rightarrow> None
                    | Some (n, q) \<Rightarrow> map_option (\<lambda>(t, z). (utf8 n @ t, z)) (parse_str q))
                 else
                   (case unescape_char e of
                      None \<Rightarrow> None
                    | Some x \<Rightarrow> map_option (\<lambda>(t, z). (x # t, z)) (parse_str r')))
          else if (of_char c :: nat) < 32 then None
          else map_option (\<lambda>(t, z). (c # t, z)) (parse_str r))"
  by pat_completeness auto
termination
  by (relation "measure length") (auto dest: hex4_shorter)

declare parse_str.simps [simp del]

text \<open>An integer literal: no leading zero, no fraction, no exponent.\<close>

definition parse_nat :: "string \<Rightarrow> (nat \<times> string) option" where
  "parse_nat s =
     (let d = takeWhile is_digit s; r = dropWhile is_digit s in
      if d = [] \<or> hd d = CHR ''0'' \<and> length d > 1
         \<or> r \<noteq> [] \<and> hd r \<in> set ''.eE''
      then None else Some (nat_of_digits d, r))"

definition dedup :: "(string \<times> json) list \<Rightarrow> (string \<times> json) list" where
  "dedup ms = foldl (\<lambda>acc (k, v). put k v acc) [] ms"

fun parse_value :: "nat \<Rightarrow> string \<Rightarrow> (json \<times> string) option"
  and parse_elems :: "nat \<Rightarrow> string \<Rightarrow> (json list \<times> string) option"
  and parse_members :: "nat \<Rightarrow> string \<Rightarrow> ((string \<times> json) list \<times> string) option"
where
  "parse_value 0 s = None"
| "parse_value (Suc n) s =
     (case skip s of
        [] \<Rightarrow> None
      | c # r \<Rightarrow>
          if c = CHR ''{'' then
            (case skip r of
               [] \<Rightarrow> None
             | d # q \<Rightarrow>
                 if d = CHR ''}'' then Some (JObj [], q)
                 else map_option (\<lambda>(m, z). (JObj (dedup m), z)) (parse_members n (d # q)))
          else if c = CHR ''['' then
            (case skip r of
               [] \<Rightarrow> None
             | d # q \<Rightarrow>
                 if d = CHR '']'' then Some (JArr [], q)
                 else map_option (\<lambda>(vs, z). (JArr vs, z)) (parse_elems n (d # q)))
          else if c = CHR 0x22 then map_option (\<lambda>(t, z). (JStr t, z)) (parse_str r)
          else if c = CHR ''-'' then map_option (\<lambda>(k, z). (JNum (- int k), z)) (parse_nat r)
          else if is_digit c then map_option (\<lambda>(k, z). (JNum (int k), z)) (parse_nat (c # r))
          else if starts_with ''null'' (c # r) then Some (JNull, drop 4 (c # r))
          else if starts_with ''true'' (c # r) then Some (JBool True, drop 4 (c # r))
          else if starts_with ''false'' (c # r) then Some (JBool False, drop 5 (c # r))
          else None)"
| "parse_elems 0 s = None"
| "parse_elems (Suc n) s =
     (case parse_value n s of
        None \<Rightarrow> None
      | Some (v, r) \<Rightarrow>
          (case skip r of
             [] \<Rightarrow> None
           | c # q \<Rightarrow>
               if c = CHR '']'' then Some ([v], q)
               else if c = CHR '','' then map_option (\<lambda>(vs, z). (v # vs, z)) (parse_elems n q)
               else None))"
| "parse_members 0 s = None"
| "parse_members (Suc n) s =
     (case skip s of
        [] \<Rightarrow> None
      | c # r \<Rightarrow>
          if c \<noteq> CHR 0x22 then None
          else (case parse_str r of
             None \<Rightarrow> None
           | Some (k, r1) \<Rightarrow>
               (case skip r1 of
                  [] \<Rightarrow> None
                | d # r2 \<Rightarrow>
                    if d \<noteq> CHR '':'' then None
                    else (case parse_value n r2 of
                       None \<Rightarrow> None
                     | Some (v, r3) \<Rightarrow>
                         (case skip r3 of
                            [] \<Rightarrow> None
                          | e # q \<Rightarrow>
                              if e = CHR ''}'' then Some ([(k, v)], q)
                              else if e = CHR '','' then
                                map_option (\<lambda>(ms, z). ((k, v) # ms, z)) (parse_members n q)
                              else None)))))"

text \<open>Every call consumes input after at most two units of fuel.\<close>

definition json_parse :: "string \<Rightarrow> json option" where
  "json_parse s =
     (case parse_value (2 * length s + 2) s of
        Some (v, r) \<Rightarrow> if skip r = [] then Some v else None
      | None \<Rightarrow> None)"

section \<open>Reading back what was written\<close>

text \<open>Objects have distinct keys, as the engine's objects do.\<close>

fun wf_json :: "json \<Rightarrow> bool"
  and wf_elems :: "json list \<Rightarrow> bool"
  and wf_members :: "(string \<times> json) list \<Rightarrow> bool"
where
  "wf_json (JArr vs) = wf_elems vs"
| "wf_json (JObj m) = (distinct (map fst m) \<and> wf_members m)"
| "wf_json _ = True"
| "wf_elems [] = True"
| "wf_elems (v # vs) = (wf_json v \<and> wf_elems vs)"
| "wf_members [] = True"
| "wf_members ((k, v) # ms) = (wf_json v \<and> wf_members ms)"

fun cost :: "json \<Rightarrow> nat"
  and cost_elems :: "json list \<Rightarrow> nat"
  and cost_members :: "(string \<times> json) list \<Rightarrow> nat"
where
  "cost (JArr vs) = Suc (cost_elems vs)"
| "cost (JObj m) = Suc (cost_members m)"
| "cost JNull = 1"
| "cost (JBool b) = 1"
| "cost (JNum i) = 1"
| "cost (JStr s) = 1"
| "cost_elems [] = 0"
| "cost_elems (v # vs) = Suc (max (cost v) (cost_elems vs))"
| "cost_members [] = 0"
| "cost_members ((k, v) # ms) = Suc (max (cost v) (cost_members ms))"

lemma hex_val_digit: "n < 16 \<Longrightarrow> hex_val (hex_digit n) = Some n"
  by (auto simp: hex_val_def hex_digit_def Let_def)

lemma parse_str_plain:
  "c \<noteq> CHR 0x22 \<Longrightarrow> c \<noteq> CHR 0x5C \<Longrightarrow> \<not> (of_char c :: nat) < 32 \<Longrightarrow>
   parse_str (c # r) = map_option (\<lambda>(t, z). (c # t, z)) (parse_str r)"
  by (subst parse_str.simps) simp

lemma parse_str_escape:
  "e \<noteq> CHR ''u'' \<Longrightarrow> unescape_char e = Some x \<Longrightarrow>
   parse_str (CHR 0x5C # e # r) = map_option (\<lambda>(t, z). (x # t, z)) (parse_str r)"
  by (subst parse_str.simps) simp

lemma parse_str_unicode:
  assumes "n < 32"
  shows "parse_str (CHR 0x5C # CHR ''u'' # CHR ''0'' # CHR ''0'' #
            hex_digit (n div 16) # hex_digit (n mod 16) # r)
         = map_option (\<lambda>(t, z). (char_of n # t, z)) (parse_str r)"
proof -
  have "hex4 (CHR ''0'' # CHR ''0'' # hex_digit (n div 16) # hex_digit (n mod 16) # r) = Some (n, r)"
    using assms hex_val_digit [of "n div 16"] hex_val_digit [of "n mod 16"]
    by (simp add: hex_val_def [of "CHR ''0''"] Let_def)
  moreover have "utf8 n = [char_of n]" using assms by (simp add: utf8_def)
  ultimately show ?thesis by (subst parse_str.simps) simp
qed

lemma parse_str_char:
  "parse_str (escape_char c @ r) = map_option (\<lambda>(t, z). (c # t, z)) (parse_str r)"
proof (cases "c \<in> set [CHR 0x22, CHR 0x5C, CHR 0x08, CHR 0x0C, CHR 0x0A, CHR 0x0D, CHR 0x09]")
  case True
  then show ?thesis by (auto simp: escape_char_def parse_str_escape unescape_char_def)
next
  case nesc: False
  show ?thesis
  proof (cases "(of_char c :: nat) < 32")
    case small: True
    with nesc show ?thesis
      using parse_str_unicode [OF small, of r] by (simp add: escape_char_def)
  next
    case False
    with nesc show ?thesis by (simp add: escape_char_def parse_str_plain)
  qed
qed

lemma parse_str_body: "parse_str (str_body s @ CHR 0x22 # r) = Some (s, r)"
proof (induction s)
  case Nil
  then show ?case by (simp add: str_body_def parse_str.simps)
next
  case (Cons c s)
  have "parse_str (str_body (c # s) @ CHR 0x22 # r)
      = parse_str (escape_char c @ (str_body s @ CHR 0x22 # r))"
    by (simp add: str_body_def)
  then show ?case using Cons by (simp add: parse_str_char)
qed

definition ends_number :: "string \<Rightarrow> bool" where
  "ends_number r \<longleftrightarrow> r = [] \<or> \<not> is_digit (hd r) \<and> hd r \<notin> set ''.eE''"

lemma show_nat_lead: "1 < length (show_nat n) \<Longrightarrow> hd (show_nat n) \<noteq> CHR ''0''"
proof (induction n rule: show_nat.induct)
  case (1 n)
  show ?case
  proof (cases "n < 10")
    case True
    then show ?thesis using "1.prems" by (simp add: show_nat.simps [of n])
  next
    case False
    then have eq: "show_nat n = show_nat (n div 10) @ [digit_of n]"
      by (subst show_nat.simps) (simp del: digit_of.simps)
    show ?thesis
    proof (cases "n div 10 < 10")
      case True
      then have "show_nat (n div 10) = [digit_of (n div 10)]" by (subst show_nat.simps) simp
      moreover have "digit_val (digit_of (n div 10)) \<noteq> 0"
        using False True by (simp del: digit_of.simps)
      ultimately show ?thesis using eq by (auto simp: digit_val_def simp del: digit_of.simps)
    next
      case big: False
      then have "1 < length (show_nat (n div 10))" by (subst show_nat.simps) (simp add: Suc_lessI)
      with "1.IH" False eq show ?thesis by simp
    qed
  qed
qed

lemma parse_nat_show: "ends_number r \<Longrightarrow> parse_nat (show_nat n @ r) = Some (n, r)"
proof -
  assume r: "ends_number r"
  have "takeWhile is_digit (show_nat n @ r) = show_nat n"
    "dropWhile is_digit (show_nat n @ r) = r"
    using show_nat_digits [of n] r
    by (cases r; auto simp: ends_number_def takeWhile_append2 dropWhile_append2)+
  with r show_nat_lead [of n] show ?thesis
    by (auto simp: parse_nat_def Let_def ends_number_def)
qed

lemma skip_id: "s = [] \<or> \<not> json_ws (hd s) \<Longrightarrow> skip s = s"
  by (cases s) (auto simp: skip_def)

lemma is_digit_not_ws: "is_digit c \<Longrightarrow> \<not> json_ws c \<and> c \<notin> set [CHR ''{'', CHR ''['', CHR 0x22, CHR ''-'']"
  by (auto simp: is_digit_def json_ws_def)

lemma json_text_head:
  "json_text v \<noteq> [] \<and> \<not> json_ws (hd (json_text v)) \<and> hd (json_text v) \<notin> set '']},:''"
proof (cases v)
  case (JNum n)
  obtain c r where "show_nat (nat \<bar>n\<bar>) = c # r" by (meson list.exhaust show_nat_nonempty)
  moreover from this have "is_digit c" using show_nat_digits [of "nat \<bar>n\<bar>"] by simp
  then have "\<not> json_ws c \<and> c \<notin> set '']},:''" by (auto simp: is_digit_def json_ws_def)
  ultimately show ?thesis using JNum by (auto simp: show_int_def json_ws_def)
qed (auto simp: json_string_def json_ws_def)

lemma skip_json_text: "skip (json_text v @ r) = json_text v @ r"
  using json_text_head [of v] by (simp add: skip_id)

lemma parse_int_text:
  assumes "ends_number r"
  shows "parse_value (Suc n) (show_int i @ r) = Some (JNum i, r)"
proof (cases "i < 0")
  case True
  have "skip (CHR ''-'' # show_nat (nat (- i)) @ r) = CHR ''-'' # show_nat (nat (- i)) @ r"
    by (simp add: skip_id json_ws_def)
  with True assms show ?thesis by (simp add: show_int_def parse_nat_show)
next
  case False
  obtain c q where cq: "show_nat (nat i) = c # q" by (meson list.exhaust show_nat_nonempty)
  then have d: "is_digit c" using show_nat_digits [of "nat i"] by simp
  have "parse_nat (c # q @ r) = Some (nat i, r)"
    using parse_nat_show [OF assms, of "nat i"] cq by simp
  with d False cq is_digit_not_ws [OF d] show ?thesis
    by (auto simp: show_int_def skip_id)
qed

lemma json_string_cons: "json_string k @ r = CHR 0x22 # str_body k @ CHR 0x22 # r"
  by (simp add: json_string_def)

lemma skip_cons: "\<not> json_ws c \<Longrightarrow> skip (c # r) = c # r"
  by (simp add: skip_id)

lemma not_json_ws [simp]:
  "\<not> json_ws (CHR 0x22)" "\<not> json_ws (CHR '','')" "\<not> json_ws (CHR '':'')" "\<not> json_ws (CHR '']'')"
  "\<not> json_ws (CHR ''}'')" "\<not> json_ws (CHR ''['')" "\<not> json_ws (CHR ''{'')"
  "\<not> json_ws (CHR ''n'')" "\<not> json_ws (CHR ''t'')" "\<not> json_ws (CHR ''f'')"
  by (simp_all add: json_ws_def)

lemma ends_number_punct [simp]:
  "ends_number ('','' @ r)" "ends_number ('']'' @ r)" "ends_number (''}'' @ r)" "ends_number []"
  "ends_number (CHR '','' # r)" "ends_number (CHR '']'' # r)" "ends_number (CHR ''}'' # r)"
  by (simp_all add: ends_number_def is_digit_def)

lemma foldl_put_append:
  "distinct (map fst (acc @ ms)) \<Longrightarrow> foldl (\<lambda>acc (k, v). put k v acc) acc ms = acc @ ms"
proof (induction ms arbitrary: acc)
  case (Cons p ms)
  obtain k v where p: "p = (k, v)" by fastforce
  with Cons.prems have "put k v acc = acc @ [(k, v)]" by (intro put_new) auto
  with Cons p show ?case by simp
qed simp

lemma dedup_distinct: "distinct (map fst ms) \<Longrightarrow> dedup ms = ms"
  using foldl_put_append [of "[]" ms] by (simp add: dedup_def)

lemma elems_text_Cons:
  "elems_text (v # vs) = json_text v @ (if vs = [] then [] else '','' @ elems_text vs)"
  by (cases vs) auto

lemma members_text_Cons:
  "members_text ((k, v) # ms) =
     json_string k @ '':'' @ json_text v @ (if ms = [] then [] else '','' @ members_text ms)"
  by (cases ms) auto

lemma parse_printed:
  "wf_json v \<Longrightarrow> cost v \<le> n \<Longrightarrow> ends_number r \<Longrightarrow>
     parse_value n (json_text v @ r) = Some (v, r)"
  "wf_elems vs \<Longrightarrow> cost_elems vs \<le> n \<Longrightarrow> vs \<noteq> [] \<Longrightarrow>
     parse_elems n (elems_text vs @ '']'' @ r) = Some (vs, r)"
  "wf_members ms \<Longrightarrow> cost_members ms \<le> n \<Longrightarrow> ms \<noteq> [] \<Longrightarrow>
     parse_members n (members_text ms @ ''}'' @ r) = Some (ms, r)"
proof (induction v and vs and ms arbitrary: n r and n r and n r
    rule: cost_cost_elems_cost_members.induct)
  case (1 vs)
  then obtain m where n: "n = Suc m" and m: "cost_elems vs \<le> m" by (cases n) auto
  show ?case
  proof (cases vs)
    case Nil
    with n show ?thesis by (simp add: skip_cons)
  next
    case (Cons w ws)
    have hd: "skip (elems_text vs @ '']'' @ r) = elems_text vs @ '']'' @ r"
      "elems_text vs \<noteq> []" "hd (elems_text vs) \<noteq> CHR '']''"
      using json_text_head [of w] Cons by (auto simp: elems_text_Cons skip_id)
    have "parse_elems m (elems_text vs @ '']'' @ r) = Some (vs, r)"
      using 1 m Cons by simp
    with n hd show ?thesis by (cases "elems_text vs") (auto simp: skip_cons)
  qed
next
  case (2 ms)
  then obtain m where n: "n = Suc m" and m: "cost_members ms \<le> m" by (cases n) auto
  show ?case
  proof (cases ms)
    case Nil
    with n show ?thesis by (simp add: skip_cons)
  next
    case (Cons p ps)
    then have hd: "\<exists>q. members_text ms = CHR 0x22 # q"
      by (cases p) (auto simp: members_text_Cons json_string_def)
    have "parse_members m (members_text ms @ ''}'' @ r) = Some (ms, r)"
      using 2 m Cons by simp
    with n hd 2 show ?thesis by (auto simp: skip_cons dedup_distinct)
  qed
next
  case (8 v vs)
  then obtain m where n: "n = Suc m" and m: "cost v \<le> m" "cost_elems vs \<le> m" by (cases n) auto
  show ?case
  proof (cases "vs = []")
    case True
    with 8 n m show ?thesis by (simp add: skip_cons)
  next
    case False
    with 8 n m show ?thesis by (simp add: elems_text_Cons skip_cons)
  qed
next
  case (10 k v ms)
  then obtain m where n: "n = Suc m" and m: "cost v \<le> m" "cost_members ms \<le> m" by (cases n) auto
  show ?case
  proof (cases "ms = []")
    case True
    with 10 n m show ?thesis by (simp add: skip_cons json_string_cons parse_str_body)
  next
    case False
    with 10 n m show ?thesis
      by (simp add: members_text_Cons skip_cons json_string_cons parse_str_body)
  qed
next
  case 3
  then show ?case by (cases n) (auto simp: skip_cons is_digit_def starts_with_def)
next
  case (4 b)
  then show ?case by (cases n) (auto simp: skip_cons is_digit_def starts_with_def)
next
  case (5 i)
  then show ?case by (cases n) (auto simp: parse_int_text simp del: parse_value.simps(2))
next
  case (6 s)
  then show ?case by (cases n) (auto simp: skip_cons json_string_cons parse_str_body)
qed simp_all

lemma json_text_length: "0 < length (json_text v)"
  using json_text_head [of v] by simp

lemma cost_bound:
  "cost v + 1 \<le> 2 * length (json_text v)"
  "cost_elems vs \<le> 2 * length (elems_text vs)"
  "cost_members ms \<le> 2 * length (members_text ms)"
proof (induction v and vs and ms rule: cost_cost_elems_cost_members.induct)
  case (8 v vs)
  then show ?case by (auto simp: elems_text_Cons)
next
  case (10 k v ms)
  then show ?case by (auto simp: members_text_Cons)
next
  case (5 i)
  show ?case using json_text_length [of "JNum i"] by (cases "show_int i") auto
qed (auto simp: json_string_def)

theorem parse_stringify: "wf_json v \<Longrightarrow> json_parse (json_text v) = Some v"
proof -
  assume wf: "wf_json v"
  have "cost v \<le> 2 * length (json_text v) + 2" using cost_bound(1) [of v] by simp
  from parse_printed(1) [OF wf this, of "[]"] show ?thesis
    by (simp add: json_parse_def skip_def)
qed

section \<open>The fuel is enough\<close>

text \<open>
  A value needs at most two units of fuel per byte, so with the fuel \<^const>\<open>json_parse\<close>
  starts with, no text is rejected for lack of fuel: more fuel gives the same answer.
\<close>

lemma length_skip: "length (skip s) \<le> length s"
  by (simp add: skip_def length_dropWhile_le)

lemma parse_str_shorter: "parse_str s = Some (t, r) \<Longrightarrow> length r < length s"
proof (induction "length s" arbitrary: s t r rule: less_induct)
  case less
  then have IH: "\<And>q t r. length q < length s \<Longrightarrow> parse_str q = Some (t, r) \<Longrightarrow> length r < length q"
    by blast
  have "\<And>q t r n z. length z < length s \<Longrightarrow> hex4 z = Some (n, q) \<Longrightarrow> parse_str q = Some (t, r) \<Longrightarrow>
      length r < length z"
    using IH hex4_shorter by (meson less_trans)
  with less.prems IH show ?case
    apply (subst (asm) parse_str.simps)
    apply (auto split: list.splits if_splits option.splits)
       apply (metis length_0_conv length_Cons lessI less_SucI not_less_zero)
      apply (metis length_Cons lessI less_SucI)+
    done
qed

lemma parse_nat_shorter: "parse_nat s = Some (k, r) \<Longrightarrow> length r < length s"
proof -
  assume *: "parse_nat s = Some (k, r)"
  then have "takeWhile is_digit s \<noteq> []" "r = dropWhile is_digit s"
    by (auto simp: parse_nat_def Let_def split: if_splits)
  moreover have "length s = length (takeWhile is_digit s) + length (dropWhile is_digit s)"
    by (metis length_append takeWhile_dropWhile_id)
  ultimately show ?thesis by (cases "takeWhile is_digit s") auto
qed

lemma skip_Cons_length: "skip s = c # q \<Longrightarrow> length q < length s"
  using length_skip [of s] by simp

lemma parse_shorter:
  "(\<forall>s v r. parse_value n s = Some (v, r) \<longrightarrow> length r < length s) \<and>
   (\<forall>s vs r. parse_elems n s = Some (vs, r) \<longrightarrow> length r < length s) \<and>
   (\<forall>s ms r. parse_members n s = Some (ms, r) \<longrightarrow> length r < length s)"
proof (induction n)
  case 0
  then show ?case by simp
next
  case (Suc n)
  have "parse_value (Suc n) s = Some (v, r) \<Longrightarrow> length r < length s" for s v r
    using Suc.IH
    by (fastforce split: list.splits if_splits
        dest: skip_Cons_length parse_str_shorter parse_nat_shorter)
  moreover have "parse_elems (Suc n) s = Some (vs, r) \<Longrightarrow> length r < length s" for s vs r
    using Suc.IH
    by (fastforce split: list.splits if_splits option.splits dest: skip_Cons_length)
  moreover have "parse_members (Suc n) s = Some (ms, r) \<Longrightarrow> length r < length s" for s ms r
    using Suc.IH
    by (fastforce split: list.splits if_splits option.splits
        dest: skip_Cons_length parse_str_shorter)
  ultimately show ?case by blast
qed

text \<open>One more level of fuel, given that the levels below agree on shorter inputs.\<close>

lemma value_fuel_step:
  assumes "\<And>q. length q < length s \<Longrightarrow> parse_elems n q = parse_elems k q"
    and "\<And>q. length q < length s \<Longrightarrow> parse_members n q = parse_members k q"
  shows "parse_value (Suc n) s = parse_value (Suc k) s"
proof (cases "skip s")
  case Nil
  then show ?thesis by simp
next
  case (Cons c r)
  then have r: "length r < length s" by (rule skip_Cons_length)
  show ?thesis
  proof (cases "skip r")
    case Nil
    with Cons show ?thesis by simp
  next
    case (Cons d q)
    then have "length (d # q) < length s" using r length_skip [of r] by simp
    then show ?thesis using assms \<open>skip s = c # r\<close> Cons by simp
  qed
qed

lemma elems_fuel_step:
  assumes v: "parse_value n s = parse_value k s"
    and e: "\<And>q. length q < length s \<Longrightarrow> parse_elems n q = parse_elems k q"
  shows "parse_elems (Suc n) s = parse_elems (Suc k) s"
proof (cases "parse_value k s")
  case None
  with v show ?thesis by simp
next
  case (Some a)
  then obtain w r where a: "parse_value k s = Some (w, r)" by (cases a) auto
  then have r: "length r < length s" using parse_shorter [of k] by blast
  show ?thesis
  proof (cases "skip r")
    case (Cons c q)
    then have "length q < length s" using r skip_Cons_length by fastforce
    with v a e Cons show ?thesis by simp
  qed (use v a in simp)
qed

lemma members_fuel_step:
  assumes v: "\<And>q. length q < length s \<Longrightarrow> parse_value n q = parse_value k q"
    and m: "\<And>q. length q < length s \<Longrightarrow> parse_members n q = parse_members k q"
  shows "parse_members (Suc n) s = parse_members (Suc k) s"
proof -
  have mem: "parse_members n q = parse_members k q"
    if "skip s = c # r" "parse_str r = Some (t, r1)" "skip r1 = d # r2"
      "parse_value k r2 = Some (w, r3)" "skip r3 = e # q" for c r t r1 d r2 w r3 e q
  proof -
    have "length q < length s"
      using that parse_shorter [of k] parse_str_shorter skip_Cons_length
      by (meson less_trans)
    then show ?thesis by (rule m)
  qed
  have val: "parse_value n r2 = parse_value k r2"
    if "skip s = c # r" "parse_str r = Some (t, r1)" "skip r1 = d # r2" for c r t r1 d r2
    using that v parse_str_shorter skip_Cons_length by (meson less_trans)
  show ?thesis
  proof (cases "skip s")
    case s: (Cons c r)
    show ?thesis
    proof (cases "parse_str r")
      case (Some a)
      then obtain t r1 where r: "parse_str r = Some (t, r1)" by (cases a) auto
      show ?thesis
      proof (cases "skip r1")
        case r1: (Cons d r2)
        show ?thesis
        proof (cases "parse_value k r2")
          case (Some b)
          then obtain w r3 where r2: "parse_value k r2 = Some (w, r3)" by (cases b) auto
          show ?thesis
          proof (cases "skip r3")
            case (Cons e q)
            show ?thesis using s r r1 r2 Cons val [OF s r r1] mem [OF s r r1 r2 Cons] by simp
          qed (use s r r1 r2 val [OF s r r1] in simp)
        qed (use s r r1 val [OF s r r1] in simp)
      qed (use s r in simp)
    qed (use s in simp)
  qed simp
qed

lemma parse_fuel:
  "(\<forall>s m. 2 * length s < n \<and> 2 * length s < m \<longrightarrow> parse_value n s = parse_value m s) \<and>
   (\<forall>s m. 2 * length s + 1 < n \<and> 2 * length s + 1 < m \<longrightarrow> parse_elems n s = parse_elems m s) \<and>
   (\<forall>s m. 2 * length s + 1 < n \<and> 2 * length s + 1 < m \<longrightarrow> parse_members n s = parse_members m s)"
proof (induction n)
  case 0
  then show ?case by simp
next
  case (Suc n)
  have iv: "parse_value n s = parse_value k s" if "2 * length s < n" "2 * length s < k" for s k
    using Suc.IH that by blast
  have ie: "parse_elems n s = parse_elems k s"
    if "2 * length s + 1 < n" "2 * length s + 1 < k" for s k
    using Suc.IH that by blast
  have im: "parse_members n s = parse_members k s"
    if "2 * length s + 1 < n" "2 * length s + 1 < k" for s k
    using Suc.IH that by blast
  have "parse_value (Suc n) s = parse_value m s"
    if l: "2 * length s < Suc n" "2 * length s < m" for s m
  proof -
    obtain k where k: "m = Suc k" using l by (cases m) auto
    show ?thesis unfolding k
    proof (rule value_fuel_step)
      fix q :: string
      assume "length q < length s"
      then have b: "2 * length q + 1 < n" "2 * length q + 1 < k" using l k by simp_all
      show "parse_elems n q = parse_elems k q" by (rule ie [OF b])
      show "parse_members n q = parse_members k q" by (rule im [OF b])
    qed
  qed
  moreover have "parse_elems (Suc n) s = parse_elems m s"
    if l: "2 * length s + 1 < Suc n" "2 * length s + 1 < m" for s m
  proof -
    obtain k where k: "m = Suc k" using l by (cases m) auto
    show ?thesis unfolding k
    proof (rule elems_fuel_step)
      show "parse_value n s = parse_value k s" by (rule iv) (use l k in simp_all)
      show "\<And>q. length q < length s \<Longrightarrow> parse_elems n q = parse_elems k q"
        by (rule ie) (use l k in simp_all)
    qed
  qed
  moreover have "parse_members (Suc n) s = parse_members m s"
    if l: "2 * length s + 1 < Suc n" "2 * length s + 1 < m" for s m
  proof -
    obtain k where k: "m = Suc k" using l by (cases m) auto
    show ?thesis unfolding k
    proof (rule members_fuel_step)
      show "\<And>q. length q < length s \<Longrightarrow> parse_value n q = parse_value k q"
        by (rule iv) (use l k in simp_all)
      show "\<And>q. length q < length s \<Longrightarrow> parse_members n q = parse_members k q"
        by (rule im) (use l k in simp_all)
    qed
  qed
  ultimately show ?case by blast
qed

theorem json_parse_enough:
  assumes "2 * length s + 2 \<le> n"
  shows "json_parse s = (case parse_value n s of
        Some (v, r) \<Rightarrow> if skip r = [] then Some v else None
      | None \<Rightarrow> None)"
proof -
  have "2 * length s < 2 * length s + 2" "2 * length s < n" using assms by simp_all
  then have "parse_value (2 * length s + 2) s = parse_value n s"
    using parse_fuel [of "2 * length s + 2"] by blast
  then show ?thesis by (simp only: json_parse_def)
qed

section \<open>What is read is well-formed\<close>

lemma wf_members_put: "wf_members m \<Longrightarrow> wf_json v \<Longrightarrow> wf_members (put k v m)"
  by (induction k v m rule: put.induct) auto

lemma dedup_wf: "wf_members ms \<Longrightarrow> wf_members (dedup ms) \<and> distinct (map fst (dedup ms))"
proof -
  have "wf_members acc \<Longrightarrow> distinct (map fst acc) \<Longrightarrow> wf_members ms \<Longrightarrow>
      wf_members (foldl (\<lambda>acc (k, v). put k v acc) acc ms) \<and>
      distinct (map fst (foldl (\<lambda>acc (k, v). put k v acc) acc ms))" for acc
  proof (induction ms arbitrary: acc)
    case (Cons p ms)
    obtain k v where "p = (k, v)" by fastforce
    with Cons show ?case by (simp add: wf_members_put distinct_put)
  qed simp
  from this [of "[]"] show "wf_members ms \<Longrightarrow> ?thesis" by (simp add: dedup_def)
qed

lemma parse_wf:
  "(\<forall>s v r. parse_value n s = Some (v, r) \<longrightarrow> wf_json v) \<and>
   (\<forall>s vs r. parse_elems n s = Some (vs, r) \<longrightarrow> wf_elems vs) \<and>
   (\<forall>s ms r. parse_members n s = Some (ms, r) \<longrightarrow> wf_members ms)"
proof (induction n)
  case 0
  then show ?case by simp
next
  case (Suc n)
  have "parse_value (Suc n) s = Some (v, r) \<Longrightarrow> wf_json v" for s v r
    using Suc.IH dedup_wf by (fastforce split: list.splits if_splits)
  moreover have "parse_elems (Suc n) s = Some (vs, r) \<Longrightarrow> wf_elems vs" for s vs r
    using Suc.IH by (fastforce split: list.splits if_splits option.splits)
  moreover have "parse_members (Suc n) s = Some (ms, r) \<Longrightarrow> wf_members ms" for s ms r
    using Suc.IH by (fastforce split: list.splits if_splits option.splits)
  ultimately show ?case by blast
qed

lemma json_parse_wf: "json_parse s = Some v \<Longrightarrow> wf_json v"
proof -
  assume "json_parse s = Some v"
  then obtain r where "parse_value (2 * length s + 2) s = Some (v, r)"
    unfolding json_parse_def by (cases "parse_value (2 * length s + 2) s") (auto split: if_splits)
  then show ?thesis using parse_wf [of "2 * length s + 2"] by blast
qed

end
