(* ===== verification/Url.thy ===== *)
theory Url
  imports Json
begin

text \<open>
  The web platform's text encodings of request addresses, as the program's clients use them:
  \<open>encodeURIComponent\<close> for a path segment, and \<open>URLSearchParams\<close> for a query. A
  parameter list is ordered; \<open>set\<close> replaces the value of a name, \<open>append\<close> adds a pair.
\<close>

section \<open>Percent encoding\<close>

definition hex_upper :: "nat \<Rightarrow> char" where
  "hex_upper n = (if n < 10 then char_of (48 + n) else char_of (55 + n))"

definition pct :: "char \<Rightarrow> string" where
  "pct c = [CHR 0x25, hex_upper (of_char c div 16), hex_upper (of_char c mod 16)]"

definition is_alnum :: "char \<Rightarrow> bool" where
  "is_alnum c \<longleftrightarrow> (let n = of_char c :: nat in
     48 \<le> n \<and> n \<le> 57 \<or> 65 \<le> n \<and> n \<le> 90 \<or> 97 \<le> n \<and> n \<le> 122)"

definition uri_unreserved :: "char \<Rightarrow> bool" where
  "uri_unreserved c \<longleftrightarrow> is_alnum c \<or> c \<in> set (CHR 0x27 # ''-_.!~*()'')"

definition encodeURIComponent :: "string \<Rightarrow> string" where
  "encodeURIComponent s = concat (map (\<lambda>c. if uri_unreserved c then [c] else pct c) s)"

definition form_char :: "char \<Rightarrow> string" where
  "form_char c =
     (if c = CHR '' '' then ''+''
      else if is_alnum c \<or> c \<in> set ''*-._'' then [c]
      else pct c)"

definition form_encode :: "string \<Rightarrow> string" where
  "form_encode s = concat (map form_char s)"

fun pct_decode :: "string \<Rightarrow> string" where
  "pct_decode (c # a # b # r) =
     (if c = CHR 0x25 then
        (case (hex_val a, hex_val b) of
           (Some x, Some y) \<Rightarrow> char_of (16 * x + y) # pct_decode r
         | _ \<Rightarrow> c # pct_decode (a # b # r))
      else c # pct_decode (a # b # r))"
| "pct_decode s = s"

definition form_decode :: "string \<Rightarrow> string" where
  "form_decode s = pct_decode (map (\<lambda>c. if c = CHR ''+'' then CHR '' '' else c) s)"

section \<open>URLSearchParams\<close>

type_synonym params = "(string \<times> string) list"

text \<open>\<open>params.set(k, v)\<close>: the first pair of the name takes the value, further ones go.\<close>

fun params_set :: "string \<Rightarrow> string \<Rightarrow> params \<Rightarrow> params" where
  "params_set k v [] = [(k, v)]"
| "params_set k v ((k', v') # ps) =
     (if k' = k then (k, v) # filter (\<lambda>p. fst p \<noteq> k) ps else (k', v') # params_set k v ps)"

definition pair_text :: "string \<times> string \<Rightarrow> string" where
  "pair_text p = form_encode (fst p) @ ''='' @ form_encode (snd p)"

definition params_text :: "params \<Rightarrow> string" where
  "params_text ps = join_with ''&'' (map pair_text ps)"

definition pair_parse :: "string \<Rightarrow> string \<times> string" where
  "pair_parse s =
     (form_decode (takeWhile (\<lambda>c. c \<noteq> CHR ''='') s),
      form_decode (drop 1 (dropWhile (\<lambda>c. c \<noteq> CHR ''='') s)))"

definition params_parse :: "string \<Rightarrow> params" where
  "params_parse s = map pair_parse (filter (\<lambda>p. p \<noteq> []) (split_on (CHR ''&'') s))"

text \<open>The suffix \<open>?query\<close> every list endpoint adds when it has a parameter.\<close>

definition query_suffix :: "params \<Rightarrow> string" where
  "query_suffix ps = (let q = params_text ps in if q = [] then [] else ''?'' @ q)"

section \<open>Facts\<close>

lemma hex_val_upper: "n < 16 \<Longrightarrow> hex_val (hex_upper n) = Some n"
  by (auto simp: hex_val_def hex_upper_def Let_def)

lemma of_char_lt: "(of_char c :: nat) < 256"
  by (metis of_char_mod_256 mod_less_divisor zero_less_numeral)

lemma pct_decode_pct: "pct_decode (pct c @ r) = c # pct_decode r"
proof -
  have "(of_char c :: nat) div 16 < 16" using of_char_lt [of c] by linarith
  moreover have "16 * (of_char c div 16) + of_char c mod 16 = (of_char c :: nat)" by simp
  ultimately show ?thesis by (simp add: pct_def hex_val_upper)
qed

lemma pct_decode_plain: "c \<noteq> CHR 0x25 \<Longrightarrow> pct_decode (c # r) = c # pct_decode r"
  by (cases r rule: pct_decode.cases) auto

lemma encode_no_pct: "is_alnum c \<Longrightarrow> c \<noteq> CHR 0x25 \<and> c \<noteq> CHR ''+'' \<and> c \<noteq> CHR ''&'' \<and> c \<noteq> CHR ''=''"
  by (auto simp: is_alnum_def)

lemma decode_encodeURIComponent [simp]: "pct_decode (encodeURIComponent s) = s"
proof (induction s)
  case Nil
  then show ?case by (simp add: encodeURIComponent_def)
next
  case (Cons c s)
  have "encodeURIComponent (c # s) = (if uri_unreserved c then [c] else pct c) @ encodeURIComponent s"
    by (simp add: encodeURIComponent_def)
  moreover have "uri_unreserved c \<Longrightarrow> c \<noteq> CHR 0x25"
    by (auto simp: uri_unreserved_def dest: encode_no_pct)
  ultimately show ?case using Cons by (simp add: pct_decode_pct pct_decode_plain)
qed

lemma hex_upper_alnum: "n < 16 \<Longrightarrow> is_alnum (hex_upper n)"
  by (auto simp: is_alnum_def hex_upper_def Let_def)

lemma pct_chars: "x \<in> set (pct c) \<Longrightarrow> x = CHR 0x25 \<or> is_alnum x"
proof -
  have "(of_char c :: nat) div 16 < 16" using of_char_lt [of c] by linarith
  then show "x \<in> set (pct c) \<Longrightarrow> x = CHR 0x25 \<or> is_alnum x"
    by (auto simp: pct_def hex_upper_alnum)
qed

lemma form_char_chars: "x \<in> set (form_char c) \<Longrightarrow> is_alnum x \<or> x \<in> set ''+*-._%''"
  by (auto simp: form_char_def split: if_splits dest: pct_chars)

lemma form_encode_chars: "x \<in> set (form_encode s) \<Longrightarrow> x \<noteq> CHR ''&'' \<and> x \<noteq> CHR ''=''"
  unfolding form_encode_def by (auto dest!: form_char_chars encode_no_pct)

lemma unplus_pct: "map (\<lambda>c. if c = CHR ''+'' then CHR '' '' else c) (pct c) = pct c"
  by (rule map_idI) (auto dest!: pct_chars encode_no_pct)

lemma form_decode_encode [simp]: "form_decode (form_encode s) = s"
proof (induction s)
  case Nil
  then show ?case by (simp add: form_decode_def form_encode_def)
next
  case (Cons c s)
  let ?u = "map (\<lambda>c. if c = CHR ''+'' then CHR '' '' else c)"
  have eq: "form_decode (form_encode (c # s)) = pct_decode (?u (form_char c) @ ?u (form_encode s))"
    by (simp add: form_decode_def form_encode_def)
  have IH: "pct_decode (?u (form_encode s)) = s" using Cons by (simp add: form_decode_def)
  have "form_char c = pct c \<or> form_char c = ''+'' \<and> c = CHR '' '' \<or>
      form_char c = [c] \<and> c \<noteq> CHR ''+'' \<and> c \<noteq> CHR 0x25"
    by (auto simp: form_char_def dest: encode_no_pct)
  then consider "form_char c = pct c" | "form_char c = ''+''" "c = CHR '' ''"
    | "form_char c = [c]" "c \<noteq> CHR ''+''" "c \<noteq> CHR 0x25"
    by blast
  then show ?case
  proof cases
    case 1
    then show ?thesis by (simp only: eq unplus_pct pct_decode_pct IH)
  next
    case 2
    have u: "?u (form_char c) = [c]" using 2(1) unfolding 2(2) by simp
    have "c \<noteq> CHR 0x25" using 2(2) by simp
    then show ?thesis unfolding eq u by (simp add: pct_decode_plain IH)
  next
    case 3
    then have u: "?u (form_char c) = [c]" by simp
    show ?thesis using 3(3) unfolding eq u by (simp add: pct_decode_plain IH)
  qed
qed

lemma pair_parse_text [simp]: "pair_parse (pair_text p) = p"
proof -
  have k: "\<forall>x \<in> set (form_encode (fst p)). x \<noteq> CHR ''=''"
    using form_encode_chars by blast
  then have "takeWhile (\<lambda>c. c \<noteq> CHR ''='') (pair_text p) = form_encode (fst p)"
    "drop 1 (dropWhile (\<lambda>c. c \<noteq> CHR ''='') (pair_text p)) = form_encode (snd p)"
    by (simp_all add: pair_text_def takeWhile_append2 dropWhile_append2)
  then show ?thesis by (simp add: pair_parse_def)
qed

lemma pair_text_no_amp: "CHR ''&'' \<notin> set (pair_text p)"
  by (auto simp: pair_text_def dest: form_encode_chars)

lemma params_parse_text: "params_parse (params_text ps) = ps"
proof (cases "ps = []")
  case True
  then show ?thesis by (simp add: params_parse_def params_text_def)
next
  case False
  have "split_on (CHR ''&'') (params_text ps) = map pair_text ps"
    unfolding params_text_def using False pair_text_no_amp by (intro split_join) auto
  moreover have "filter (\<lambda>p. p \<noteq> []) (map pair_text ps) = map pair_text ps"
    by (rule filter_True) (auto simp: pair_text_def)
  ultimately show ?thesis by (simp add: params_parse_def comp_def)
qed

lemma params_set_lookup: "map_of (params_set k v ps) = (map_of ps)(k \<mapsto> v)"
proof (induction k v ps rule: params_set.induct)
  case (2 k v k' v' ps)
  have "map_of (filter (\<lambda>p. fst p \<noteq> k) ps) x = (if x = k then None else map_of ps x)" for x
    by (induction ps) auto
  with 2 show ?case by (auto simp: fun_eq_iff)
qed simp

end
