(* ===== verification/Browser.thy ===== *)
theory Browser
  imports Url
begin

text \<open>
  What the program sees of the browser and of the server: local storage, the requests sent so
  far and the outcome of an asynchronous call.

  The server is a parameter: a function from the requests it has received and the new one to a
  response, or to \<^const>\<open>None\<close> when the connection fails. It may answer in any way that depends
  on the history, so a statement over all servers covers every server. Local storage is
  \<^const>\<open>None\<close> where there is no window (server-side rendering).
\<close>

section \<open>The world\<close>

datatype payload = NoBody | TextBody string | FormBody "(string \<times> string) list"

record request =
  rq_url :: string
  rq_method :: string
  rq_headers :: "(string \<times> string) list"
  rq_body :: payload
  rq_cache :: "string option"

record response =
  rs_status :: nat
  rs_body :: string

type_synonym server = "request list \<Rightarrow> request \<Rightarrow> response option"

record world =
  storage :: "(string \<rightharpoonup> string) option"
  sent :: "request list"

datatype thrown =
    NetworkError
  | TypeError
  | SyntaxError
  | Error string
  | ApiError nat string string "json option"

definition res_ok :: "response \<Rightarrow> bool" where
  "res_ok r \<longleftrightarrow> 200 \<le> rs_status r \<and> rs_status r \<le> 299"

section \<open>Effects\<close>

type_synonym 'a eff = "world \<Rightarrow> (thrown + 'a) \<times> world"

definition eff_ret :: "'a \<Rightarrow> 'a eff" where
  "eff_ret x w = (Inr x, w)"

definition eff_throw :: "thrown \<Rightarrow> 'a eff" where
  "eff_throw e w = (Inl e, w)"

definition eff_bind :: "'a eff \<Rightarrow> ('a \<Rightarrow> 'b eff) \<Rightarrow> 'b eff" where
  "eff_bind m f w = (case m w of (Inl e, w') \<Rightarrow> (Inl e, w') | (Inr x, w') \<Rightarrow> f x w')"

definition eff_catch :: "'a eff \<Rightarrow> (thrown \<Rightarrow> 'a eff) \<Rightarrow> 'a eff" where
  "eff_catch m h w = (case m w of (Inl e, w') \<Rightarrow> h e w' | (Inr x, w') \<Rightarrow> (Inr x, w'))"

definition fetch :: "server \<Rightarrow> request \<Rightarrow> response eff" where
  "fetch srv rq w =
     (let w' = w\<lparr>sent := sent w @ [rq]\<rparr> in
      case srv (sent w) rq of None \<Rightarrow> (Inl NetworkError, w') | Some r \<Rightarrow> (Inr r, w'))"

section \<open>Local storage\<close>

definition get_item :: "string \<Rightarrow> world \<Rightarrow> string option" where
  "get_item k w = (case storage w of None \<Rightarrow> None | Some m \<Rightarrow> m k)"

definition set_item :: "string \<Rightarrow> string \<Rightarrow> world \<Rightarrow> world" where
  "set_item k v w = w\<lparr>storage := map_option (\<lambda>m. m(k \<mapsto> v)) (storage w)\<rparr>"

definition remove_item :: "string \<Rightarrow> world \<Rightarrow> world" where
  "remove_item k w = w\<lparr>storage := map_option (\<lambda>m. m(k := None)) (storage w)\<rparr>"

text \<open>A value kept under one key as its JSON text, through an encoding of the value.\<close>

definition save_value :: "('a \<Rightarrow> json) \<Rightarrow> string \<Rightarrow> 'a \<Rightarrow> world \<Rightarrow> world" where
  "save_value enc k a w = set_item k (json_text (enc a)) w"

definition load_value :: "(json \<Rightarrow> 'a option) \<Rightarrow> string \<Rightarrow> world \<Rightarrow> 'a option" where
  "load_value dec k w =
     (case get_item k w of None \<Rightarrow> None | Some t \<Rightarrow> Option.bind (json_parse t) dec)"

lemma get_set [simp]:
  "storage w \<noteq> None \<Longrightarrow> get_item k (set_item k' v w) = (if k = k' then Some v else get_item k w)"
  by (auto simp: get_item_def set_item_def)

lemma get_remove [simp]:
  "get_item k (remove_item k' w) = (if k = k' then None else get_item k w)"
  by (auto simp: get_item_def remove_item_def split: option.splits)

lemma sent_storage [simp]:
  "sent (set_item k v w) = sent w" "sent (remove_item k w) = sent w"
  "storage (set_item k v w) = None \<longleftrightarrow> storage w = None"
  "storage (remove_item k w) = None \<longleftrightarrow> storage w = None"
  by (auto simp: set_item_def remove_item_def)

section \<open>The interface a stored value relies on\<close>

locale stored_value =
  fixes enc :: "'a \<Rightarrow> json"
    and dec :: "json \<Rightarrow> 'a option"
    and valid :: "'a \<Rightarrow> bool"
  assumes wf_enc: "valid a \<Longrightarrow> wf_json (enc a)"
    and dec_enc: "valid a \<Longrightarrow> dec (enc a) = Some a"
begin

lemma load_save:
  "valid a \<Longrightarrow> storage w \<noteq> None \<Longrightarrow> load_value dec k (save_value enc k a w) = Some a"
  by (simp add: load_value_def save_value_def parse_stringify wf_enc dec_enc)

lemma load_save_other:
  "storage w \<noteq> None \<Longrightarrow> k' \<noteq> k \<Longrightarrow> load_value d k' (save_value enc k a w) = load_value d k' w"
  by (simp add: load_value_def save_value_def)

lemma load_removed: "load_value dec k (remove_item k w) = None"
  by (simp add: load_value_def)

end

section \<open>Object spread\<close>

definition spread :: "('k \<times> 'v) list \<Rightarrow> ('k \<times> 'v) list \<Rightarrow> ('k \<times> 'v) list" where
  "spread a b = foldl (\<lambda>acc (k, v). put k v acc) a b"

lemma spread_Nil [simp]: "spread a [] = a"
  by (simp add: spread_def)

lemma spread_Cons [simp]: "spread a ((k, v) # b) = spread (put k v a) b"
  by (simp add: spread_def)

lemma map_of_spread_notin: "k \<notin> fst ` set b \<Longrightarrow> map_of (spread a b) k = map_of a k"
  by (induction b arbitrary: a) auto

section \<open>Reasoning about effects\<close>

named_theorems eff_simps \<open>unfolding the effect combinators\<close>

lemmas [eff_simps] = eff_ret_def eff_throw_def eff_bind_def eff_catch_def Let_def

lemma eff_bind_Inl: "m w = (Inl e, w') \<Longrightarrow> eff_bind m f w = (Inl e, w')"
  by (simp add: eff_bind_def)

lemma eff_bind_Inr: "m w = (Inr x, w') \<Longrightarrow> eff_bind m f w = f x w'"
  by (simp add: eff_bind_def)

lemma fetch_sent [simp]: "sent (snd (fetch srv rq w)) = sent w @ [rq]"
  by (simp add: fetch_def Let_def split: option.split)

lemma fetch_storage [simp]: "storage (snd (fetch srv rq w)) = storage w"
  by (simp add: fetch_def Let_def split: option.split)

end
