(* ===== verification/JsonCodec.thy ===== *)
theory JsonCodec
  imports Browser
begin

text \<open>
  Reading a typed record from a dynamic value, and the facts on object literals such codecs
  share. A reader is \<^const>\<open>None\<close> on a value of another type.
\<close>

section \<open>Readers\<close>

fun as_str :: "json \<Rightarrow> string option" where
  "as_str (JStr s) = Some s"
| "as_str v = None"

fun as_int :: "json \<Rightarrow> int option" where
  "as_int (JNum n) = Some n"
| "as_int v = None"

fun as_bool :: "json \<Rightarrow> bool option" where
  "as_bool (JBool b) = Some b"
| "as_bool v = None"

fun as_list :: "(json \<Rightarrow> 'a option) \<Rightarrow> json \<Rightarrow> 'a list option" where
  "as_list d (JArr vs) = those (map d vs)"
| "as_list d v = None"

text \<open>A required member, and an optional one.\<close>

definition req :: "(json \<Rightarrow> 'a option) \<Rightarrow> string \<Rightarrow> json \<Rightarrow> 'a option" where
  "req d k v = Option.bind (jget k (Some v)) d"

definition opt :: "(json \<Rightarrow> 'a option) \<Rightarrow> string \<Rightarrow> json \<Rightarrow> 'a option option" where
  "opt d k v = (case jget k (Some v) of None \<Rightarrow> Some None | Some x \<Rightarrow> map_option Some (d x))"

section \<open>Facts on object literals\<close>

lemma those_map_some: "(\<And>x. x \<in> set xs \<Longrightarrow> d (f x) = Some x) \<Longrightarrow> those (map d (map f xs)) = Some xs"
  by (induction xs) auto

lemma wf_members_iff: "wf_members m \<longleftrightarrow> (\<forall>(k, v) \<in> set m. wf_json v)"
  by (induction m) auto

lemma wf_elems_iff: "wf_elems vs \<longleftrightarrow> (\<forall>v \<in> set vs. wf_json v)"
  by (induction vs) auto

lemma members_Cons:
  "members ((k, v) # kvs) = (case v of None \<Rightarrow> members kvs | Some x \<Rightarrow> (k, x) # members kvs)"
  by (simp add: members_def split: option.split)

lemma keys_members: "fst ` set (members kvs) \<subseteq> fst ` set kvs"
  by (force simp: members_def)

lemma Some_map_option: "Some v = map_option f a \<longleftrightarrow> (\<exists>x. a = Some x \<and> v = f x)"
  by (cases a) auto

lemma wf_object:
  "distinct (map fst kvs) \<Longrightarrow> (\<forall>k v. (k, Some v) \<in> set kvs \<longrightarrow> wf_json v) \<Longrightarrow> wf_json (JObj (members kvs))"
proof (induction kvs)
  case (Cons p kvs)
  obtain k v where p: "p = (k, v)" by fastforce
  from Cons have IH: "wf_json (JObj (members kvs))" by auto
  show ?case
  proof (cases v)
    case None
    with IH p show ?thesis by (simp add: members_Cons)
  next
    case (Some x)
    have "k \<notin> fst ` set (members kvs)" using Cons.prems(1) p keys_members [of kvs] by auto
    with IH p Some Cons.prems(2) show ?thesis by (auto simp: members_Cons)
  qed
qed (simp add: members_def)

lemma jget_object:
  "distinct (map fst kvs) \<Longrightarrow>
     jget k (Some (JObj (members kvs))) = (case map_of kvs k of None \<Rightarrow> None | Some v \<Rightarrow> v)"
proof (induction kvs)
  case (Cons p kvs)
  obtain k' v where p: "p = (k', v)" by fastforce
  have "k' \<notin> fst ` set kvs" using Cons.prems p by auto
  then have "map_of (members kvs) k' = None"
    using keys_members [of kvs] by (auto simp: map_of_eq_None_iff)
  with Cons p show ?case by (auto simp: members_Cons split: option.split)
qed (simp add: members_def)

lemma req_object:
  "distinct (map fst kvs) \<Longrightarrow>
     req d k (JObj (members kvs)) = (case map_of kvs k of Some (Some x) \<Rightarrow> d x | _ \<Rightarrow> None)"
  unfolding req_def by (simp add: jget_object del: jget.simps split: option.split)

lemma opt_object:
  "distinct (map fst kvs) \<Longrightarrow>
     opt d k (JObj (members kvs))
       = (case_option (Some None) (case_option (Some None) (\<lambda>x. map_option Some (d x))) (map_of kvs k))"
  unfolding opt_def by (simp add: jget_object del: jget.simps split: option.split)

lemma opt_read [simp]:
  "case_option (Some None) (\<lambda>x. map_option Some (as_str x)) (map_option JStr a) = Some a"
  "case_option (Some None) (\<lambda>x. map_option Some (as_int x)) (map_option JNum b) = Some b"
  by (auto split: option.split)

end
