(* ===== verification/DockerPresets.thy ===== *)
theory DockerPresets
  imports JsonCodec Complex_Main
begin

text \<open>
  \<open>features/docker/runtime-image-presets.ts\<close>: what the console proposes for a container of a
  known image, and \<open>features/docker/pages/custom-template-store.ts\<close>: the user's own templates in
  local storage. The secrets drawn when the module is loaded are arguments.
\<close>

section \<open>Presets\<close>

record logging =
  lo_driver :: string
  lo_maxSize :: string
  lo_maxFile :: string

record ImageDeployPreset =
  ip_key :: string
  ip_match :: "string \<Rightarrow> bool"
  ip_suggestedPorts :: "string list"
  ip_volumeTargets :: "string list"
  ip_defaultContainerName :: string
  ip_suggestedMemory :: string
  ip_suggestedCpus :: string
  ip_healthcheckCommand :: string
  ip_logging :: logging
  ip_requiredEnvGroups :: "string list list"
  ip_defaultEnv :: "(string \<times> string) list"

definition alphabet :: string where
  "alphabet = ''abcdefghijkmnopqrstuvwxyzABCDEFGHJKLMNPQRSTUVWXYZ23456789''"

text \<open>
  \<open>random k\<close> is the \<open>k\<close>-th result of \<open>Math.random()\<close> while the module is loaded; each secret takes
  the next eighteen, in the order in which the list of presets is written.
\<close>

definition randomSecret :: "(nat \<Rightarrow> rat) \<Rightarrow> string" where
  "randomSecret random = map (\<lambda>k. alphabet ! nat \<lfloor>random k * of_nat (length alphabet)\<rfloor>) [0 ..< 18]"

record module_secrets =
  sc_postgres :: string
  sc_mariadb :: string
  sc_mysql :: string
  sc_keycloak :: string

definition loaded_secrets :: "(nat \<Rightarrow> rat) \<Rightarrow> module_secrets" where
  "loaded_secrets random =
     \<lparr>sc_postgres = randomSecret random, sc_mariadb = randomSecret (\<lambda>k. random (18 + k)),
      sc_mysql = randomSecret (\<lambda>k. random (36 + k)), sc_keycloak = randomSecret (\<lambda>k. random (54 + k))\<rparr>"

definition json_file_logging :: logging where
  "json_file_logging = \<lparr>lo_driver = ''json-file'', lo_maxSize = ''10m'', lo_maxFile = ''3''\<rparr>"

definition preset_of ::
  "string \<Rightarrow> (string \<Rightarrow> bool) \<Rightarrow> string \<Rightarrow> string \<Rightarrow> string \<Rightarrow> string \<Rightarrow> string \<Rightarrow> string list list
     \<Rightarrow> (string \<times> string) list \<Rightarrow> ImageDeployPreset" where
  "preset_of key match ports volume memory cpus health groups env =
     \<lparr>ip_key = key, ip_match = match, ip_suggestedPorts = [ports], ip_volumeTargets = [volume],
      ip_defaultContainerName = key, ip_suggestedMemory = memory, ip_suggestedCpus = cpus,
      ip_healthcheckCommand = health, ip_logging = json_file_logging, ip_requiredEnvGroups = groups,
      ip_defaultEnv = env\<rparr>"

definition presets :: "module_secrets \<Rightarrow> ImageDeployPreset list" where
  "presets s =
     [preset_of ''nexus'' (\<lambda>i. str_includes i ''sonatype/nexus'' \<or> str_includes i ''nexus3'')
        ''8081:8081'' ''/nexus-data'' ''2g'' ''1.0'' ''CMD curl -f http://localhost:8081 || exit 1'' [] [],
      preset_of ''nginx'' (\<lambda>i. str_includes i ''nginx'')
        ''80:80'' ''/usr/share/nginx/html'' ''256m'' ''0.50''
        ''CMD-SHELL wget -q -O- http://localhost || exit 1'' [] [],
      preset_of ''postgres'' (\<lambda>i. starts_with ''postgres:'' i \<or> ends_with ''/postgres'' i)
        ''5432:5432'' ''/var/lib/postgresql/data'' ''1g'' ''1.0''
        ''CMD-SHELL pg_isready -U postgres || exit 1''
        [[''POSTGRES_PASSWORD'']] [(''POSTGRES_PASSWORD'', sc_postgres s)],
      preset_of ''mariadb'' (\<lambda>i. starts_with ''mariadb:'' i \<or> str_includes i ''/mariadb'')
        ''3306:3306'' ''/var/lib/mysql'' ''1g'' ''1.0''
        (''CMD-SHELL mariadb-admin ping -uroot -p'' @ dquote @ ''$MARIADB_ROOT_PASSWORD'' @ dquote @ '' || exit 1'')
        [[''MARIADB_ROOT_PASSWORD'', ''MARIADB_ROOT_PASSWORD_HASH'', ''MARIADB_ALLOW_EMPTY_ROOT_PASSWORD'',
          ''MARIADB_RANDOM_ROOT_PASSWORD'']]
        [(''MARIADB_ROOT_PASSWORD'', sc_mariadb s)],
      preset_of ''mysql'' (\<lambda>i. starts_with ''mysql:'' i \<or> str_includes i ''/mysql'')
        ''3306:3306'' ''/var/lib/mysql'' ''1g'' ''1.0''
        (''CMD-SHELL mysqladmin ping -uroot -p'' @ dquote @ ''$MYSQL_ROOT_PASSWORD'' @ dquote @ '' || exit 1'')
        [[''MYSQL_ROOT_PASSWORD'', ''MYSQL_ALLOW_EMPTY_PASSWORD'', ''MYSQL_RANDOM_ROOT_PASSWORD'']]
        [(''MYSQL_ROOT_PASSWORD'', sc_mysql s)],
      preset_of ''redis'' (\<lambda>i. starts_with ''redis:'' i \<or> str_includes i ''/redis'')
        ''6379:6379'' ''/data'' ''512m'' ''0.50'' ''CMD redis-cli ping'' [] [],
      preset_of ''keycloak'' (\<lambda>i. str_includes i ''keycloak'')
        ''8080:8080'' ''/opt/keycloak/data'' ''1g'' ''1.0''
        ''CMD-SHELL /opt/keycloak/bin/kc.sh show-config >/dev/null 2>&1 || exit 1''
        [[''KEYCLOAK_ADMIN''], [''KEYCLOAK_ADMIN_PASSWORD'']]
        [(''KEYCLOAK_ADMIN'', ''admin''), (''KEYCLOAK_ADMIN_PASSWORD'', sc_keycloak s)]]"

definition getImageDeployPreset :: "module_secrets \<Rightarrow> string \<Rightarrow> ImageDeployPreset option" where
  "getImageDeployPreset s imageRef =
     (let normalized = lower (trim imageRef) in
      if normalized = [] then None else find (\<lambda>p. ip_match p normalized) (presets s))"

type_synonym environment = "(string \<times> string) list"

definition filled :: "environment \<Rightarrow> string \<Rightarrow> bool" where
  "filled e k \<longleftrightarrow> (case map_of e k of None \<Rightarrow> False | Some v \<Rightarrow> trim v \<noteq> [])"

record runtime_env =
  re_environment :: environment
  re_autofilled :: "string list"
  re_preset :: "ImageDeployPreset option"

definition set_if_missing ::
  "string \<times> string \<Rightarrow> environment \<times> string list \<Rightarrow> environment \<times> string list" where
  "set_if_missing kv st =
     (case (kv, st) of ((k, v), (next_env, autofilled)) \<Rightarrow>
        if filled next_env k then (next_env, autofilled) else (put k v next_env, autofilled @ [k]))"

definition fill_defaults :: "(string \<times> string) list \<Rightarrow> environment \<Rightarrow> environment \<times> string list" where
  "fill_defaults defaults current = foldl (\<lambda>st kv. set_if_missing kv st) (current, []) defaults"

definition buildRequiredRuntimeEnv :: "module_secrets \<Rightarrow> string \<Rightarrow> environment \<Rightarrow> runtime_env" where
  "buildRequiredRuntimeEnv s imageRef current =
     (let preset = getImageDeployPreset s imageRef;
          (next_env, autofilled) =
            (case preset of None \<Rightarrow> (current, []) | Some p \<Rightarrow> fill_defaults (ip_defaultEnv p) current) in
      \<lparr>re_environment = next_env, re_autofilled = autofilled, re_preset = preset\<rparr>)"

definition missing_group :: "string list \<Rightarrow> string" where
  "missing_group g = ''Missing one of: '' @ join_with '', '' g"

definition getRequiredEnvWarnings :: "module_secrets \<Rightarrow> string \<Rightarrow> environment \<Rightarrow> string list" where
  "getRequiredEnvWarnings s imageRef current =
     (case getImageDeployPreset s imageRef of
        None \<Rightarrow> []
      | Some p \<Rightarrow> map missing_group
          (filter (\<lambda>g. \<not> list_ex (filled current) g) (ip_requiredEnvGroups p)))"

definition getVolumeTargetWarnings :: "module_secrets \<Rightarrow> string \<Rightarrow> string list \<Rightarrow> string list" where
  "getVolumeTargetWarnings s imageRef targets =
     (case getImageDeployPreset s imageRef of
        None \<Rightarrow> []
      | Some p \<Rightarrow>
          let normalized = filter (\<lambda>t. t \<noteq> []) (map trim targets);
              warning = [''Recommended mount path: '' @ join_with '', '' (ip_volumeTargets p)] in
          if normalized = [] then warning
          else if list_ex (\<lambda>t. t \<in> set normalized) (ip_volumeTargets p) then [] else warning)"

definition getSuggestedPortMappings :: "module_secrets \<Rightarrow> string \<Rightarrow> string list" where
  "getSuggestedPortMappings s imageRef =
     (case getImageDeployPreset s imageRef of None \<Rightarrow> [] | Some p \<Rightarrow> ip_suggestedPorts p)"

section \<open>Filling an environment\<close>

text \<open>\<open>Math.random()\<close> is at least 0 and below 1.\<close>

definition unit_draws :: "(nat \<Rightarrow> rat) \<Rightarrow> bool" where
  "unit_draws random \<longleftrightarrow> (\<forall>k. 0 \<le> random k \<and> random k < 1)"

definition secrets_ok :: "module_secrets \<Rightarrow> bool" where
  "secrets_ok s \<longleftrightarrow> trim (sc_postgres s) \<noteq> [] \<and> trim (sc_mariadb s) \<noteq> [] \<and> trim (sc_mysql s) \<noteq> [] \<and>
     trim (sc_keycloak s) \<noteq> []"

lemma alphabet_size: "length alphabet = 57"
  by (simp add: alphabet_def)

lemma alphabet_no_space: "c \<in> set alphabet \<Longrightarrow> \<not> is_ws c"
proof -
  have "list_all (\<lambda>c. \<not> is_ws c) alphabet" by code_simp
  then show "c \<in> set alphabet \<Longrightarrow> \<not> is_ws c" by (simp add: list_all_iff)
qed

lemma secret_letters:
  assumes "unit_draws random"
  shows "randomSecret random \<noteq> [] \<and> set (randomSecret random) \<subseteq> set alphabet"
proof -
  have "alphabet ! nat \<lfloor>random k * of_nat (length alphabet)\<rfloor> \<in> set alphabet" for k
  proof -
    have "0 \<le> random k" "random k < 1" using assms by (simp_all add: unit_draws_def)
    then have "random k * 57 < 57" "0 \<le> random k * 57" by simp_all
    then have "\<lfloor>random k * 57\<rfloor> < 57" "0 \<le> \<lfloor>random k * 57\<rfloor>" by (simp_all add: floor_less_iff)
    then have "nat \<lfloor>random k * 57\<rfloor> < length alphabet" unfolding alphabet_size by linarith
    then show ?thesis by (simp only: alphabet_size of_nat_numeral nth_mem)
  qed
  then show ?thesis by (auto simp: randomSecret_def)
qed

lemma trim_secret: "unit_draws random \<Longrightarrow> trim (randomSecret random) \<noteq> []"
  using secret_letters [of random] alphabet_no_space trim_fix [of "randomSecret random"]
  by (metis hd_in_set last_in_set subsetD)

lemma loaded_secrets_ok: "unit_draws random \<Longrightarrow> secrets_ok (loaded_secrets random)"
  by (simp add: secrets_ok_def loaded_secrets_def) (simp add: trim_secret unit_draws_def)

lemma filled_put: "filled (put k v e) j = (if j = k then trim v \<noteq> [] else filled e j)"
  by (simp add: filled_def)

lemma set_if_missing_facts:
  "trim v \<noteq> [] \<Longrightarrow> set_if_missing (k, v) (e, a) = (e', a') \<Longrightarrow>
     filled e' k \<and> (\<forall>j. filled e j \<longrightarrow> filled e' j \<and> map_of e' j = map_of e j)"
  by (auto simp: set_if_missing_def filled_put split: if_splits)

lemma fill_defaults_facts:
  "\<forall>(k, v) \<in> set ds. trim v \<noteq> [] \<Longrightarrow> foldl (\<lambda>st kv. set_if_missing kv st) (e, a) ds = (e', a') \<Longrightarrow>
     (\<forall>k \<in> fst ` set ds. filled e' k) \<and> (\<forall>j. filled e j \<longrightarrow> filled e' j \<and> map_of e' j = map_of e j)"
proof (induction ds arbitrary: e a)
  case (Cons d ds)
  obtain k v where d: "d = (k, v)" by fastforce
  obtain e1 a1 where s: "set_if_missing (k, v) (e, a) = (e1, a1)" by fastforce
  have one: "filled e1 k \<and> (\<forall>j. filled e j \<longrightarrow> filled e1 j \<and> map_of e1 j = map_of e j)"
    using Cons.prems(1) d set_if_missing_facts [OF _ s] by simp
  have "(\<forall>k \<in> fst ` set ds. filled e' k) \<and> (\<forall>j. filled e1 j \<longrightarrow> filled e' j \<and> map_of e' j = map_of e1 j)"
    using Cons.IH [of e1 a1] Cons.prems d s by simp
  with one d show ?case by auto
qed simp

lemma presets_defaults:
  "secrets_ok s \<Longrightarrow> p \<in> set (presets s) \<Longrightarrow>
     (\<forall>(k, v) \<in> set (ip_defaultEnv p). trim v \<noteq> []) \<and>
     (\<forall>g \<in> set (ip_requiredEnvGroups p). \<exists>k \<in> set g. k \<in> fst ` set (ip_defaultEnv p))"
proof -
  have "trim ''admin'' \<noteq> []" by code_simp
  then show "secrets_ok s \<Longrightarrow> p \<in> set (presets s) \<Longrightarrow> ?thesis"
    by (auto simp: presets_def preset_of_def secrets_ok_def)
qed

text \<open>
  Filling the environment for an image answers every requirement of the image: no warning is
  left, whatever the environment was, and every variable the user had filled keeps its value.
\<close>

theorem filled_env_accepted:
  assumes "unit_draws random"
  shows "getRequiredEnvWarnings (loaded_secrets random) imageRef
      (re_environment (buildRequiredRuntimeEnv (loaded_secrets random) imageRef current)) = [] \<and>
    (filled current k \<longrightarrow>
       map_of (re_environment (buildRequiredRuntimeEnv (loaded_secrets random) imageRef current)) k
         = map_of current k)"
proof (cases "getImageDeployPreset (loaded_secrets random) imageRef")
  case None
  then show ?thesis by (simp add: getRequiredEnvWarnings_def buildRequiredRuntimeEnv_def)
next
  case (Some p)
  have p: "p \<in> set (presets (loaded_secrets random))"
    using Some by (auto simp: getImageDeployPreset_def Let_def find_Some_iff split: if_splits)
  note d = presets_defaults [OF loaded_secrets_ok [OF assms(1)] p]
  obtain e a where e: "fill_defaults (ip_defaultEnv p) current = (e, a)" by fastforce
  have f: "(\<forall>k \<in> fst ` set (ip_defaultEnv p). filled e k) \<and>
      (\<forall>j. filled current j \<longrightarrow> filled e j \<and> map_of e j = map_of current j)"
    using fill_defaults_facts [OF d [THEN conjunct1] e [unfolded fill_defaults_def]] .
  have env: "re_environment (buildRequiredRuntimeEnv (loaded_secrets random) imageRef current) = e"
    by (simp add: buildRequiredRuntimeEnv_def Some e)
  have "list_ex (filled e) g" if "g \<in> set (ip_requiredEnvGroups p)" for g
    using that d f by (force simp: list_ex_iff)
  then have "getRequiredEnvWarnings (loaded_secrets random) imageRef e = []"
    by (simp add: getRequiredEnvWarnings_def Some filter_empty_conv)
  with env f show ?thesis by simp
qed

theorem filled_env_accepted_witness:
  "getRequiredEnvWarnings (loaded_secrets (\<lambda>_. 0)) ''postgres:16''
     (re_environment (buildRequiredRuntimeEnv (loaded_secrets (\<lambda>_. 0)) ''postgres:16'' [])) = [] \<and>
   getRequiredEnvWarnings (loaded_secrets (\<lambda>_. 0)) ''postgres:16'' [] \<noteq> []"
proof -
  have "unit_draws (\<lambda>_. 0)" by (simp add: unit_draws_def)
  from filled_env_accepted [OF this, of "''postgres:16''" "[]"]
  have "getRequiredEnvWarnings (loaded_secrets (\<lambda>_. 0)) ''postgres:16''
      (re_environment (buildRequiredRuntimeEnv (loaded_secrets (\<lambda>_. 0)) ''postgres:16'' [])) = []" by blast
  moreover have "getRequiredEnvWarnings (loaded_secrets (\<lambda>_. 0)) ''postgres:16'' [] \<noteq> []" by code_simp
  ultimately show ?thesis by blast
qed

section \<open>Custom templates\<close>

record CustomTemplate =
  tp_id :: int
  tp_name :: string
  tp_type :: string
  tp_lastUpdated :: string
  tp_author :: string
  tp_content :: string
  tp_settings :: string

definition templates_key :: string where
  "templates_key = ''einfra_custom_templates''"

definition template_of ::
  "int \<Rightarrow> string \<Rightarrow> string \<Rightarrow> string \<Rightarrow> string \<Rightarrow> string list \<Rightarrow> string list \<Rightarrow> CustomTemplate" where
  "template_of i n ty d a content settings =
     \<lparr>tp_id = i, tp_name = n, tp_type = ty, tp_lastUpdated = d, tp_author = a,
      tp_content = unlines content, tp_settings = unlines settings\<rparr>"

definition initialTemplates :: "CustomTemplate list" where
  "initialTemplates =
     [template_of 1 ''Production Web Stack'' ''Compose'' ''2026-03-10'' ''Admin''
        [''services:'', ''  web:'', ''    image: nginx:stable-alpine''] [''environment=prod'', ''replicas=2''],
      template_of 2 ''Internal Tools (Metabase + Postgres)'' ''Compose'' ''2026-02-28'' ''Admin''
        [''services:'', ''  metabase:'', ''    image: metabase/metabase:latest''] [''db=postgres'', ''backup=true''],
      template_of 3 ''Redis Cache Cluster'' ''Container'' ''2026-03-05'' ''Admin''
        [''image: redis:7-alpine''] [''maxmemory-policy=allkeys-lru'']]"

definition template_json :: "CustomTemplate \<Rightarrow> json" where
  "template_json t = JObj (members
     [(''id'', Some (JNum (tp_id t))), (''name'', Some (JStr (tp_name t))), (''type'', Some (JStr (tp_type t))),
      (''lastUpdated'', Some (JStr (tp_lastUpdated t))), (''author'', Some (JStr (tp_author t))),
      (''content'', Some (JStr (tp_content t))), (''settings'', Some (JStr (tp_settings t)))])"

definition read_template :: "json \<Rightarrow> CustomTemplate option" where
  "read_template v =
     Option.bind (req as_int ''id'' v) (\<lambda>i.
     Option.bind (req as_str ''name'' v) (\<lambda>n.
     Option.bind (req as_str ''type'' v) (\<lambda>ty.
     Option.bind (req as_str ''lastUpdated'' v) (\<lambda>d.
     Option.bind (req as_str ''author'' v) (\<lambda>a.
     Option.bind (req as_str ''content'' v) (\<lambda>c.
     Option.bind (req as_str ''settings'' v) (\<lambda>s.
     Some \<lparr>tp_id = i, tp_name = n, tp_type = ty, tp_lastUpdated = d, tp_author = a, tp_content = c,
       tp_settings = s\<rparr>)))))))"

abbreviation templates_json :: "CustomTemplate list \<Rightarrow> json" where
  "templates_json ts \<equiv> JArr (map template_json ts)"

text \<open>Stored text that is not the JSON of a list of templates is taken as one that does not parse.\<close>

definition loadTemplates :: "world \<Rightarrow> CustomTemplate list" where
  "loadTemplates w =
     (if storage w = None \<or> \<not> truthy_str (get_item templates_key w) then initialTemplates
      else nullish (load_value (as_list read_template) templates_key w) initialTemplates)"

definition saveTemplates :: "CustomTemplate list \<Rightarrow> world \<Rightarrow> world" where
  "saveTemplates items w =
     (if storage w = None then w else save_value templates_json templates_key items w)"

definition findTemplateById :: "string option \<Rightarrow> world \<Rightarrow> CustomTemplate option" where
  "findTemplateById i w =
     (if \<not> truthy_str i then None else find (\<lambda>t. show_int (tp_id t) = the i) (loadTemplates w))"

lemma read_template_json: "read_template (template_json t) = Some t"
  unfolding read_template_def template_json_def by (simp add: req_object)

lemma wf_template: "wf_json (template_json t)"
  unfolding template_json_def by (rule wf_object) auto

interpretation stored_templates: stored_value templates_json "as_list read_template" "\<lambda>_. True"
  by unfold_locales
    (auto simp: wf_elems_iff wf_template read_template_json those_map_some simp del: map_map)

lemma show_int_inj: "show_int a = show_int b \<Longrightarrow> a = b"
proof -
  have dash: "CHR ''-'' # s \<noteq> show_nat n" for s n
  proof
    assume "CHR ''-'' # s = show_nat n"
    then have "CHR ''-'' \<in> set (show_nat n)" by (metis list.set_intros(1))
    then show False using show_nat_digits [of n] by (auto simp: is_digit_def)
  qed
  assume "show_int a = show_int b"
  then show ?thesis
    using dash dash [symmetric] by (auto simp: show_int_def show_nat_inj split: if_splits)
qed

text \<open>
  Saved templates are read back unchanged, an empty list included, and each is found under
  the text of its number when the numbers are distinct.
\<close>

theorem templates_roundtrip:
  assumes "storage w \<noteq> None" "distinct (map tp_id items)" "t \<in> set items"
  shows "loadTemplates (saveTemplates items w) = items \<and>
    loadTemplates (saveTemplates [] w) = [] \<and>
    findTemplateById (Some (show_int (tp_id t))) (saveTemplates items w) = Some t"
proof -
  have ld: "loadTemplates (saveTemplates ts w) = ts" for ts
  proof -
    have "json_text (templates_json ts) \<noteq> []" using json_text_length [of "templates_json ts"] by force
    moreover have "storage (saveTemplates ts w) \<noteq> None"
      using assms(1) by (auto simp: saveTemplates_def save_value_def set_item_def)
    ultimately show ?thesis
      using assms(1) stored_templates.load_save [where a = ts and w = w and k = templates_key]
      by (auto simp: loadTemplates_def saveTemplates_def truthy_str_def save_value_def nullish_def)
  qed
  have "show_int (tp_id t) \<noteq> []" by (simp add: show_int_def)
  moreover have "find (\<lambda>u. show_int (tp_id u) = show_int (tp_id t)) items = Some t"
  proof -
    have e: "(\<lambda>u. show_int (tp_id u) = show_int (tp_id t)) = (\<lambda>u. tp_id u = tp_id t)"
      using show_int_inj by (auto simp: fun_eq_iff)
    show ?thesis unfolding e using assms(2,3) by (induction items) (auto simp: image_iff)
  qed
  ultimately show ?thesis using ld by (simp add: findTemplateById_def truthy_str_def)
qed

theorem templates_roundtrip_witness:
  "loadTemplates (saveTemplates initialTemplates \<lparr>storage = Some Map.empty, sent = []\<rparr>) = initialTemplates"
proof -
  have h: "storage \<lparr>storage = Some Map.empty, sent = []\<rparr> \<noteq> None" "distinct (map tp_id initialTemplates)"
    "hd initialTemplates \<in> set initialTemplates"
    by (simp_all add: initialTemplates_def template_of_def)
  from templates_roundtrip [OF h] show ?thesis by blast
qed

end
