(* ===== verification/Auth.thy ===== *)
theory Auth
  imports Browser
begin

text \<open>
  The authentication feature: the session kept in local storage (\<open>auth-session.ts\<close>) and the
  calls that obtain, refresh and change it (\<open>api.ts\<close>). A session is the dynamic value the
  code stores and reads back without a check.
\<close>

section \<open>The stored session (auth-session.ts)\<close>

definition session_key :: string where
  "session_key = ''einfra_auth_session''"

definition getStoredSession :: "world \<Rightarrow> json \<times> world" where
  "getStoredSession w =
     (case storage w of
        None \<Rightarrow> (JNull, w)
      | Some m \<Rightarrow>
          (case m session_key of
             None \<Rightarrow> (JNull, w)
           | Some raw \<Rightarrow>
               if raw = [] then (JNull, w)
               else (case json_parse raw of
                  Some v \<Rightarrow> (v, w)
                | None \<Rightarrow> (JNull, remove_item session_key w))))"

definition saveSession :: "json \<Rightarrow> world \<Rightarrow> world" where
  "saveSession s w = (if storage w = None then w else set_item session_key (json_text s) w)"

definition clearSession :: "world \<Rightarrow> world" where
  "clearSession w = (if storage w = None then w else remove_item session_key w)"

section \<open>Calls to the authentication endpoints (api.ts)\<close>

definition auth_base :: string where
  "auth_base = ''/api/v1/auth''"

definition error_message :: "json \<Rightarrow> nat \<Rightarrow> string" where
  "error_message payload st =
     jstring (jnullish (jget ''message'' (jget ''error'' (Some payload)))
                       (Some (JStr (''HTTP '' @ show_nat st))))"

definition json_or_null :: "response \<Rightarrow> json" where
  "json_or_null r = (case json_parse (rs_body r) of None \<Rightarrow> JNull | Some v \<Rightarrow> v)"

definition checked :: "response \<Rightarrow> json eff" where
  "checked r =
     (let payload = json_or_null r in
      if \<not> res_ok r then eff_throw (Error (error_message payload (rs_status r)))
      else eff_ret payload)"

definition auth_request :: "string \<Rightarrow> string \<Rightarrow> (string \<times> string) list \<Rightarrow> payload \<Rightarrow> request" where
  "auth_request meth path hs body =
     \<lparr>rq_url = auth_base @ path, rq_method = meth, rq_headers = hs, rq_body = body,
      rq_cache = None\<rparr>"

definition auth_post :: "server \<Rightarrow> string \<Rightarrow> json \<Rightarrow> json eff" where
  "auth_post srv path body =
     eff_bind
       (fetch srv (auth_request ''POST'' path
          [(''Content-Type'', ''application/json''), (''Accept'', ''application/json'')]
          (TextBody (json_text body))))
       checked"

definition bearer :: "json option \<Rightarrow> string" where
  "bearer tok = ''Bearer '' @ jstring tok"

definition auth_get :: "server \<Rightarrow> string \<Rightarrow> json option \<Rightarrow> json eff" where
  "auth_get srv path token =
     eff_bind
       (fetch srv (auth_request ''GET'' path
          ((''Accept'', ''application/json'') #
           (if truthy token then [(''Authorization'', bearer token)] else []))
          NoBody))
       checked"

text \<open>Reading a property of \<open>null\<close> is a type error; of any other value it is a plain read.\<close>

definition session_of :: "json \<Rightarrow> json" where
  "session_of raw = JObj (members
     [(''accessToken'', jget ''access_token'' (Some raw)),
      (''refreshToken'', jget ''refresh_token'' (Some raw)),
      (''expiresAt'', jget ''expires_at'' (Some raw)),
      (''user'', jget ''user'' (Some raw)),
      (''organizations'', jnullish (jget ''organizations'' (Some raw)) (Some (JArr []))),
      (''principal'', jget ''principal'' (Some raw))])"

definition complete :: "json \<Rightarrow> bool" where
  "complete raw \<longleftrightarrow>
     truthy (jget ''access_token'' (Some raw)) \<and> truthy (jget ''refresh_token'' (Some raw)) \<and>
     truthy (jget ''expires_at'' (Some raw)) \<and> truthy (jget ''user'' (Some raw)) \<and>
     truthy (jget ''principal'' (Some raw))"

definition toSession :: "json \<Rightarrow> json eff" where
  "toSession raw w =
     (if raw = JNull then (Inl TypeError, w)
      else if \<not> complete raw then (Inl (Error ''Incomplete auth response''), w)
      else (Inr (session_of raw), saveSession (session_of raw) w))"

record login_result =
  lr_session :: "json option"
  lr_requiresMFA :: bool
  lr_mfaToken :: "json option"

definition login :: "server \<Rightarrow> string \<Rightarrow> string \<Rightarrow> string \<Rightarrow> login_result eff" where
  "login srv identifier password organization_id =
     eff_bind
       (auth_post srv ''/login'' (JObj
          [(''identifier'', JStr identifier), (''password'', JStr password),
           (''organization_id'', JStr organization_id)]))
       (\<lambda>raw. if raw = JNull then eff_throw TypeError
              else if truthy (jget ''requires_mfa'' (Some raw)) then
                eff_ret \<lparr>lr_session = None, lr_requiresMFA = True,
                         lr_mfaToken = jget ''mfa_token'' (Some raw)\<rparr>
              else eff_bind (toSession raw)
                (\<lambda>s. eff_ret \<lparr>lr_session = Some s, lr_requiresMFA = False, lr_mfaToken = None\<rparr>))"

definition loginWithTOTP :: "server \<Rightarrow> string \<Rightarrow> string \<Rightarrow> json eff" where
  "loginWithTOTP srv mfaToken code =
     eff_bind
       (auth_post srv ''/login/totp'' (JObj [(''mfa_token'', JStr mfaToken), (''code'', JStr code)]))
       toSession"

text \<open>The result is \<open>null\<close> when there is no session to refresh or the refresh failed.\<close>

definition refreshSession :: "server \<Rightarrow> json eff" where
  "refreshSession srv w =
     (let (current, w1) = getStoredSession w; tok = jget ''refreshToken'' (Some current) in
      if \<not> truthy tok then (Inr JNull, w1)
      else eff_catch
        (eff_bind
          (auth_post srv ''/refresh'' (JObj (members [(''refresh_token'', tok)])))
          toSession)
        (\<lambda>e w2. (Inr JNull, clearSession w2)) w1)"

definition fetchMe :: "server \<Rightarrow> json option \<Rightarrow> json eff" where
  "fetchMe srv token w =
     (let (current, w1) = getStoredSession w in
      auth_get srv ''/me'' (jnullish token (jget ''accessToken'' (Some current))) w1)"

definition requestPasswordReset :: "server \<Rightarrow> string \<Rightarrow> json eff" where
  "requestPasswordReset srv email =
     auth_post srv ''/password/forgot'' (JObj [(''email'', JStr email)])"

definition resetPassword :: "server \<Rightarrow> string \<Rightarrow> string \<Rightarrow> json eff" where
  "resetPassword srv token newPassword =
     auth_post srv ''/password/reset''
       (JObj [(''token'', JStr token), (''new_password'', JStr newPassword)])"

definition requestMFAReset :: "server \<Rightarrow> string \<Rightarrow> json eff" where
  "requestMFAReset srv email = auth_post srv ''/mfa/reset/request'' (JObj [(''email'', JStr email)])"

definition confirmMFAReset :: "server \<Rightarrow> string \<Rightarrow> json eff" where
  "confirmMFAReset srv token = auth_post srv ''/mfa/reset/confirm'' (JObj [(''token'', JStr token)])"

definition beginMFASetup :: "server \<Rightarrow> json eff" where
  "beginMFASetup srv w =
     (let (session, w1) = getStoredSession w in
      if \<not> truthy (Some session) then (Inl (Error ''No active session''), w1)
      else eff_bind
        (fetch srv (auth_request ''POST'' ''/mfa/setup''
           [(''Authorization'', bearer (jget ''accessToken'' (Some session))),
            (''Accept'', ''application/json'')] NoBody))
        checked w1)"

text \<open>
  After the confirmation the profile is fetched again, and the session in storage takes the
  profile's user, principal and organizations, the tokens unchanged.
\<close>

definition obj_members :: "json \<Rightarrow> (string \<times> json) list" where
  "obj_members v = (case v of JObj m \<Rightarrow> m | _ \<Rightarrow> [])"

definition refreshed_profile :: "json \<Rightarrow> json \<Rightarrow> json" where
  "refreshed_profile session me = JObj (spread (obj_members session) (members
     [(''user'', jget ''user'' (Some me)),
      (''principal'', jget ''principal'' (Some me)),
      (''organizations'',
        jnullish (jget ''organizations'' (Some me)) (jget ''organizations'' (Some session)))]))"

definition confirmMFASetup :: "server \<Rightarrow> string \<Rightarrow> string \<Rightarrow> json eff" where
  "confirmMFASetup srv setupToken code w =
     (let (session, w1) = getStoredSession w in
      if \<not> truthy (Some session) then (Inl (Error ''No active session''), w1)
      else eff_bind
        (eff_bind
          (fetch srv (auth_request ''POST'' ''/mfa/confirm''
             [(''Authorization'', bearer (jget ''accessToken'' (Some session))),
              (''Content-Type'', ''application/json''), (''Accept'', ''application/json'')]
             (TextBody (json_text (JObj [(''setup_token'', JStr setupToken), (''code'', JStr code)])))))
          checked)
        (\<lambda>payload. eff_bind (fetchMe srv (jget ''accessToken'' (Some session)))
          (\<lambda>me w2.
             if me = JNull then (Inl TypeError, w2)
             else if truthy (jget ''user'' (Some me)) \<and> truthy (jget ''principal'' (Some me))
               then (Inr payload, saveSession (refreshed_profile session me) w2)
             else (Inr payload, w2))) w1)"

section \<open>Facts on the stored session\<close>

text \<open>A session is stored as it is: the interface of stored values, on the identity encoding.\<close>

interpretation stored_session: stored_value "\<lambda>s :: json. s" Some wf_json
  by unfold_locales simp_all

named_theorems session_facts \<open>what the session operations leave unchanged\<close>

lemma saveSession_save_value:
  "storage w \<noteq> None \<Longrightarrow> saveSession s w = save_value (\<lambda>s. s) session_key s w"
  by (cases "storage w") (simp_all add: saveSession_def save_value_def)

lemma sent_saveSession [simp, session_facts]: "sent (saveSession s w) = sent w"
  by (simp add: saveSession_def)

lemma sent_clearSession [simp, session_facts]: "sent (clearSession w) = sent w"
  by (simp add: clearSession_def)

lemma sent_getStoredSession [simp, session_facts]: "sent (snd (getStoredSession w)) = sent w"
  by (simp add: getStoredSession_def split: option.split)

lemma storage_None [simp, session_facts]:
  "storage (saveSession s w) = None \<longleftrightarrow> storage w = None"
  "storage (clearSession w) = None \<longleftrightarrow> storage w = None"
  "storage (snd (getStoredSession w)) = None \<longleftrightarrow> storage w = None"
  by (auto simp: saveSession_def clearSession_def getStoredSession_def remove_item_def
      split: option.split)

lemma get_item_clearSession [simp]:
  "get_item k (clearSession w) = (if k = session_key then None else get_item k w)"
  by (auto simp: clearSession_def get_item_def remove_item_def split: option.split)

lemma getStoredSession_load:
  "storage w \<noteq> None \<Longrightarrow>
   fst (getStoredSession w) = (case load_value Some session_key w of None \<Rightarrow> JNull | Some v \<Rightarrow> v)"
proof -
  have "json_parse [] = None" by (simp add: json_parse_def skip_def eval_nat_numeral)
  then show "storage w \<noteq> None \<Longrightarrow> ?thesis"
    by (auto simp: getStoredSession_def load_value_def get_item_def split: option.split)
qed

lemma getStoredSession_keeps:
  "k \<noteq> session_key \<Longrightarrow> get_item k (snd (getStoredSession w)) = get_item k w"
  by (auto simp: getStoredSession_def split: option.split)

lemma getStoredSession_again:
  "getStoredSession (snd (getStoredSession w)) = (fst (getStoredSession w), snd (getStoredSession w))"
  by (auto simp: getStoredSession_def remove_item_def split: option.split)

lemma getStoredSession_fst_again [simp]:
  "fst (getStoredSession (snd (getStoredSession w))) = fst (getStoredSession w)"
  by (simp add: getStoredSession_again)

lemma saved_session_read:
  assumes "storage w \<noteq> None" and "wf_json s"
  shows "getStoredSession (saveSession s w) = (s, saveSession s w)"
proof -
  have "fst (getStoredSession (saveSession s w)) = s"
    using assms stored_session.load_save [of s w session_key]
    by (simp add: getStoredSession_load saveSession_save_value [symmetric])
  moreover have "json_text s \<noteq> []" using json_text_head [of s] by simp
  then have "snd (getStoredSession (saveSession s w)) = saveSession s w"
    using assms by (auto simp: getStoredSession_def saveSession_def set_item_def parse_stringify
        split: option.split)
  ultimately show ?thesis by (metis prod.collapse)
qed

lemma cleared_session_read: "fst (getStoredSession (clearSession w)) = JNull"
  by (auto simp: getStoredSession_def clearSession_def remove_item_def split: option.split)

lemma session_of_not_falsy [simp]: "truthy (Some (session_of raw))"
  by (simp add: session_of_def)

lemma jget_JObj_members:
  "distinct (map fst kvs) \<Longrightarrow> jget k (Some (JObj (members kvs))) =
     (case map_of kvs k of None \<Rightarrow> None | Some v \<Rightarrow> v)"
proof (induction kvs)
  case (Cons p kvs)
  obtain k' v where p: "p = (k', v)" by fastforce
  show ?case
  proof (cases "k = k'")
    case True
    with Cons.prems p have "map_of kvs k = None" by (simp add: map_of_eq_None_iff)
    with Cons p True show ?thesis by (cases v) (simp_all add: members_def)
  next
    case False
    with Cons p show ?thesis by (cases v) (simp_all add: members_def)
  qed
qed (simp add: members_def)

lemma session_of_accessToken [simp]:
  "jget ''accessToken'' (Some (session_of raw)) = jget ''access_token'' (Some raw)"
  "jget ''refreshToken'' (Some (session_of raw)) = jget ''refresh_token'' (Some raw)"
  by (simp_all add: session_of_def jget_JObj_members del: jget.simps)

text \<open>Values cut out of a well-formed response are well-formed.\<close>

lemma wf_members_map_of: "wf_members m \<Longrightarrow> map_of m k = Some v \<Longrightarrow> wf_json v"
proof (induction m)
  case (Cons p m)
  then show ?case by (cases p) (auto split: if_splits)
qed simp

lemma wf_jget: "wf_json raw \<Longrightarrow> jget k (Some raw) = Some v \<Longrightarrow> wf_json v"
  by (cases raw) (auto intro: wf_members_map_of)

lemma wf_members_members:
  "(\<And>k v. (k, Some v) \<in> set kvs \<Longrightarrow> wf_json v) \<Longrightarrow> wf_members (members kvs)"
proof (induction kvs)
  case (Cons p kvs)
  obtain k v where p: "p = (k, v)" by fastforce
  have "wf_members (members kvs)" by (rule Cons.IH) (use Cons.prems in auto)
  with Cons.prems p show ?case by (cases v) (auto simp: members_def)
qed (simp add: members_def)

lemma members_keys: "map fst (members kvs) = map fst (filter (\<lambda>(k, v). v \<noteq> None) kvs)"
  by (simp add: members_def comp_def case_prod_unfold)

lemma wf_session_of:
  assumes "wf_json raw"
  shows "wf_json (session_of raw)"
proof -
  let ?kvs = "[(''accessToken'', jget ''access_token'' (Some raw)),
      (''refreshToken'', jget ''refresh_token'' (Some raw)),
      (''expiresAt'', jget ''expires_at'' (Some raw)),
      (''user'', jget ''user'' (Some raw)),
      (''organizations'', jnullish (jget ''organizations'' (Some raw)) (Some (JArr []))),
      (''principal'', jget ''principal'' (Some raw))]"
  have "wf_members (members ?kvs)"
    by (rule wf_members_members) (auto simp: jnullish_def split: if_splits intro: wf_jget [OF assms])
  moreover have "distinct (map fst (members ?kvs))"
    unfolding members_keys by (rule distinct_map_filter) simp
  ultimately show ?thesis by (simp add: session_of_def)
qed

section \<open>Effects of the calls\<close>

lemma checked_world [simp]: "snd (checked r w) = w"
  by (simp add: checked_def eff_simps)

lemma checked_wf: "fst (checked r w) = Inr v \<Longrightarrow> wf_json v"
  by (auto simp: checked_def json_or_null_def eff_simps dest: json_parse_wf split: if_splits option.splits)

lemma bind_fetch_checked:
  "sent (snd (eff_bind (fetch srv rq) checked w)) = sent w @ [rq]"
  "storage (snd (eff_bind (fetch srv rq) checked w)) = storage w"
proof -
  obtain r w' where f: "fetch srv rq w = (r, w')" by fastforce
  have "sent w' = sent w @ [rq]" "storage w' = storage w"
    using fetch_sent [of srv rq w] fetch_storage [of srv rq w] by (simp_all add: f)
  then show "sent (snd (eff_bind (fetch srv rq) checked w)) = sent w @ [rq]"
    "storage (snd (eff_bind (fetch srv rq) checked w)) = storage w"
    by (cases r; simp add: eff_bind_def f)+
qed

lemma bind_fetch_checked_wf:
  "fst (eff_bind (fetch srv rq) checked w) = Inr v \<Longrightarrow> wf_json v"
  by (auto simp: eff_bind_def dest: checked_wf split: prod.splits sum.splits)

lemma auth_post_world:
  "\<exists>rq. sent (snd (auth_post srv p b w)) = sent w @ [rq] \<and> rq_url rq = auth_base @ p"
  "storage (snd (auth_post srv p b w)) = storage w"
  unfolding auth_post_def by (auto simp: bind_fetch_checked auth_request_def)

lemma auth_post_wf: "auth_post srv p b w = (Inr v, w') \<Longrightarrow> wf_json v"
  unfolding auth_post_def using bind_fetch_checked_wf by (metis fst_conv)

lemma storage_get_item: "storage w = storage w' \<Longrightarrow> get_item k w = get_item k w'"
  by (simp add: get_item_def)

lemma getStoredSession_storage:
  "storage w = storage w' \<Longrightarrow> fst (getStoredSession w) = fst (getStoredSession w')"
  by (auto simp: getStoredSession_def split: option.split)

text \<open>The three outcomes of a refresh.\<close>

lemma refresh_cases:
  obtains
    (no_token) "\<not> truthy (jget ''refreshToken'' (Some (fst (getStoredSession w))))"
      "refreshSession srv w = (Inr JNull, snd (getStoredSession w))"
  | (failed) rq w2 where "refreshSession srv w = (Inr JNull, clearSession w2)"
      "truthy (jget ''refreshToken'' (Some (fst (getStoredSession w))))"
      "sent w2 = sent w @ [rq]" "rq_url rq = auth_base @ ''/refresh''"
      "storage w2 = storage (snd (getStoredSession w))"
  | (renewed) rq w2 raw where
      "refreshSession srv w = (Inr (session_of raw), saveSession (session_of raw) w2)"
      "truthy (jget ''refreshToken'' (Some (fst (getStoredSession w))))"
      "complete raw" "wf_json raw"
      "sent w2 = sent w @ [rq]" "rq_url rq = auth_base @ ''/refresh''"
      "storage w2 = storage (snd (getStoredSession w))"
proof -
  obtain current w1 where c: "getStoredSession w = (current, w1)" by fastforce
  have s1: "sent w1 = sent w" using sent_getStoredSession [of w] by (simp add: c)
  let ?tok = "jget ''refreshToken'' (Some current)"
  show thesis
  proof (cases "truthy ?tok")
    case False
    then show thesis using no_token by (simp add: c refreshSession_def)
  next
    case True
    let ?b = "JObj (members [(''refresh_token'', ?tok)])"
    obtain r w2 where p: "auth_post srv ''/refresh'' ?b w1 = (r, w2)" by fastforce
    obtain rq where rq: "sent w2 = sent w @ [rq]" "rq_url rq = auth_base @ ''/refresh''"
      using auth_post_world(1) [of srv "''/refresh''" ?b w1] s1 by (auto simp: p)
    have st: "storage w2 = storage w1"
      using auth_post_world(2) [of srv "''/refresh''" ?b w1] by (simp add: p)
    show thesis
    proof (cases r)
      case (Inl e)
      have "refreshSession srv w = (Inr JNull, clearSession w2)"
        using True Inl p by (simp add: c refreshSession_def eff_simps)
      then show thesis using failed rq st True c by simp
    next
      case (Inr raw)
      have wf: "wf_json raw" using p Inr auth_post_wf by simp
      show thesis
      proof (cases "raw \<noteq> JNull \<and> complete raw")
        case True
        then have "refreshSession srv w = (Inr (session_of raw), saveSession (session_of raw) w2)"
          using \<open>truthy ?tok\<close> Inr p by (simp add: c refreshSession_def eff_simps toSession_def)
        then show thesis using renewed rq st True \<open>truthy ?tok\<close> c wf by simp
      next
        case False
        then have "refreshSession srv w = (Inr JNull, clearSession w2)"
          using \<open>truthy ?tok\<close> Inr p by (auto simp: c refreshSession_def eff_simps toSession_def)
        then show thesis using failed rq st \<open>truthy ?tok\<close> c by simp
      qed
    qed
  qed
qed

section \<open>Properties\<close>

text \<open>
  C13. A saved session is read back unchanged, whatever was stored before, and other keys of
  local storage are not touched.
\<close>

theorem session_roundtrip:
  assumes "storage w \<noteq> None" and "wf_json s"
  shows "getStoredSession (saveSession s w) = (s, saveSession s w) \<and>
    (\<forall>k. k \<noteq> session_key \<longrightarrow> get_item k (saveSession s w) = get_item k w)"
  using saved_session_read [OF assms] assms by (auto simp: saveSession_def)

definition sample_world :: world where
  "sample_world = \<lparr>storage = Some [''theme'' \<mapsto> ''dark''], sent = []\<rparr>"

definition sample_session :: json where
  "sample_session = JObj [(''accessToken'', JStr ''a1''), (''refreshToken'', JStr ''r1''),
     (''principal'', JObj [(''organization_id'', JStr ''org'')])]"

lemma sample_session_read:
  "getStoredSession (saveSession sample_session sample_world)
     = (sample_session, saveSession sample_session sample_world)"
  by (rule saved_session_read) (simp_all add: sample_world_def sample_session_def)

theorem session_roundtrip_witness:
  "getStoredSession (saveSession sample_session sample_world)
     = (sample_session, saveSession sample_session sample_world)"
proof -
  have h: "storage sample_world \<noteq> None" "wf_json sample_session"
    by (simp_all add: sample_world_def sample_session_def)
  show ?thesis using session_roundtrip [OF h] by simp
qed

lemma stored_session_again: "fst (getStoredSession (snd (getStoredSession w))) = fst (getStoredSession w)"
  by (auto simp: getStoredSession_def remove_item_def split: option.split)

text \<open>
  C4. In a browser with local storage, refreshing never throws. Without a refresh token in the stored session it returns null, sends
  nothing and leaves the stored session as it is. With one it sends exactly one request, to the
  refresh endpoint: it returns null with no session left in storage when the call failed or its
  response is incomplete, and otherwise the session that storage holds afterwards, which has
  both tokens.
\<close>

theorem refresh_outcome:
  assumes "storage w \<noteq> None"
  shows "case refreshSession srv w of
     (Inl e, w') \<Rightarrow> False
   | (Inr s, w') \<Rightarrow>
       if \<not> truthy (jget ''refreshToken'' (Some (fst (getStoredSession w))))
       then s = JNull \<and> sent w' = sent w \<and> fst (getStoredSession w') = fst (getStoredSession w)
       else (\<exists>rq. sent w' = sent w @ [rq] \<and> rq_url rq = ''/api/v1/auth/refresh'') \<and>
         (if s = JNull then get_item session_key w' = None
          else getStoredSession w' = (s, w') \<and> truthy (jget ''accessToken'' (Some s)) \<and>
            truthy (jget ''refreshToken'' (Some s)))"
proof (rule refresh_cases [of w srv])
  assume "\<not> truthy (jget ''refreshToken'' (Some (fst (getStoredSession w))))"
    "refreshSession srv w = (Inr JNull, snd (getStoredSession w))"
  then show ?thesis by (simp add: stored_session_again)
next
  fix rq w2
  assume "refreshSession srv w = (Inr JNull, clearSession w2)"
    "truthy (jget ''refreshToken'' (Some (fst (getStoredSession w))))"
    "sent w2 = sent w @ [rq]" "rq_url rq = auth_base @ ''/refresh''"
  then show ?thesis by (simp add: auth_base_def)
next
  fix rq w2 raw
  assume a: "refreshSession srv w = (Inr (session_of raw), saveSession (session_of raw) w2)"
    "truthy (jget ''refreshToken'' (Some (fst (getStoredSession w))))"
    "complete raw" "wf_json raw"
    "sent w2 = sent w @ [rq]" "rq_url rq = auth_base @ ''/refresh''"
    "storage w2 = storage (snd (getStoredSession w))"
  have "storage w2 \<noteq> None" using a assms by simp
  then have "getStoredSession (saveSession (session_of raw) w2)
      = (session_of raw, saveSession (session_of raw) w2)"
    by (rule saved_session_read) (rule wf_session_of [OF a(4)])
  moreover have "session_of raw \<noteq> JNull" by (simp add: session_of_def)
  ultimately show ?thesis using a by (simp add: auth_base_def complete_def del: jget.simps)
qed

theorem refresh_outcome_witness:
  "case refreshSession (\<lambda>_ _. None) (saveSession sample_session sample_world) of
     (Inl e, w') \<Rightarrow> False
   | (Inr s, w') \<Rightarrow> s = JNull \<longrightarrow> get_item session_key w' = None"
proof -
  let ?w = "saveSession sample_session sample_world"
  have h: "storage ?w \<noteq> None" by (simp add: sample_world_def)
  have "getStoredSession ?w = (sample_session, ?w)" by (rule sample_session_read)
  then show ?thesis
    using refresh_outcome [OF h, of "\<lambda>_ _. None"]
    by (auto simp: sample_session_def split: prod.splits sum.splits if_splits)
qed

text \<open>
  C12. Logging in sends one request. Storage changes only when the server returned a complete
  response that asks for no second factor; then it holds the session the caller receives. A
  caller told that a second factor is needed receives no session.
\<close>

theorem login_outcome:
  assumes "storage w \<noteq> None"
  shows "case login srv identifier password organization_id w of
     (Inl e, w') \<Rightarrow> storage w' = storage w \<and> length (sent w') = Suc (length (sent w))
   | (Inr r, w') \<Rightarrow> length (sent w') = Suc (length (sent w)) \<and>
       (case lr_session r of
          None \<Rightarrow> lr_requiresMFA r \<and> storage w' = storage w
        | Some s \<Rightarrow> \<not> lr_requiresMFA r \<and> getStoredSession w' = (s, w'))"
proof -
  let ?b = "JObj [(''identifier'', JStr identifier), (''password'', JStr password),
           (''organization_id'', JStr organization_id)]"
  obtain r w2 where p: "auth_post srv ''/login'' ?b w = (r, w2)" by fastforce
  have sent: "length (sent w2) = Suc (length (sent w))"
    using auth_post_world(1) [of srv "''/login''" ?b w] by (auto simp: p)
  have st: "storage w2 = storage w"
    using auth_post_world(2) [of srv "''/login''" ?b w] by (simp add: p)
  show ?thesis
  proof (cases r)
    case (Inl e)
    then show ?thesis using p sent st by (simp add: login_def eff_bind_def)
  next
    case (Inr raw)
    then have "wf_json raw" using p auth_post_wf by simp
    then have "getStoredSession (saveSession (session_of raw) w2)
        = (session_of raw, saveSession (session_of raw) w2)"
      using st assms by (intro saved_session_read wf_session_of) simp_all
    then show ?thesis using Inr p sent st by (simp add: login_def eff_simps toSession_def)
  qed
qed

theorem login_outcome_witness:
  "storage sample_world \<noteq> None \<and>
   (case login (\<lambda>_ _. None) ''u'' ''p'' ''o'' sample_world of
      (Inl e, w') \<Rightarrow> storage w' = storage sample_world
    | (Inr r, w') \<Rightarrow> lr_session r \<noteq> None \<longrightarrow> \<not> lr_requiresMFA r)"
proof -
  have h: "storage sample_world \<noteq> None" by (simp add: sample_world_def)
  show ?thesis
    using h login_outcome [OF h, of "\<lambda>_ _. None" "''u''" "''p''" "''o''"]
    by (auto split: prod.splits sum.splits option.splits)
qed

lemma refreshed_profile_tokens:
  assumes "k \<notin> {''user'', ''principal'', ''organizations''}"
  shows "jget k (Some (refreshed_profile session me)) = jget k (Some session)"
proof -
  let ?kvs = "[(''user'', jget ''user'' (Some me)), (''principal'', jget ''principal'' (Some me)),
     (''organizations'',
        jnullish (jget ''organizations'' (Some me)) (jget ''organizations'' (Some session)))]"
  have "fst ` set (members ?kvs) \<subseteq> {''user'', ''principal'', ''organizations''}"
    by (auto simp: members_def)
  with assms have "k \<notin> fst ` set (members ?kvs)" by blast
  then have "map_of (spread (obj_members session) (members ?kvs)) k = map_of (obj_members session) k"
    by (rule map_of_spread_notin)
  then show ?thesis by (cases session) (simp_all add: refreshed_profile_def obj_members_def)
qed

lemma spread_wf: "wf_members a \<Longrightarrow> wf_members b \<Longrightarrow> distinct (map fst a) \<Longrightarrow>
  wf_members (spread a b) \<and> distinct (map fst (spread a b))"
proof (induction b arbitrary: a)
  case (Cons p b)
  obtain k v where "p = (k, v)" by fastforce
  with Cons show ?case by (simp add: wf_members_put distinct_put)
qed simp

lemma wf_refreshed_profile:
  assumes "wf_json session" "wf_json me"
  shows "wf_json (refreshed_profile session me)"
proof -
  have "wf_members (obj_members session) \<and> distinct (map fst (obj_members session))"
    using assms(1) by (cases session) (auto simp: obj_members_def)
  moreover have "wf_members (members
     [(''user'', jget ''user'' (Some me)), (''principal'', jget ''principal'' (Some me)),
      (''organizations'',
        jnullish (jget ''organizations'' (Some me)) (jget ''organizations'' (Some session)))])"
    by (rule wf_members_members)
      (auto simp: jnullish_def split: if_splits intro: wf_jget [OF assms(1)] wf_jget [OF assms(2)])
  ultimately show ?thesis using spread_wf by (simp add: refreshed_profile_def)
qed

lemma wf_stored: "wf_json (fst (getStoredSession w))"
  by (auto simp: getStoredSession_def json_parse_wf split: option.split)

lemma fetchMe_world:
  "storage (snd (fetchMe srv tok w)) = storage (snd (getStoredSession w))"
  "fst (fetchMe srv tok w) = Inr me \<Longrightarrow> wf_json me"
proof -
  obtain s w1 where g: "getStoredSession w = (s, w1)" by fastforce
  show "storage (snd (fetchMe srv tok w)) = storage (snd (getStoredSession w))"
    by (simp add: fetchMe_def g auth_get_def bind_fetch_checked)
  show "fst (fetchMe srv tok w) = Inr me \<Longrightarrow> wf_json me"
    by (simp add: fetchMe_def g auth_get_def bind_fetch_checked_wf)
qed

text \<open>
  What a confirmation leaves: a world whose stored session is still the old one, or such a
  world with the refreshed profile saved.
\<close>

lemma confirmMFASetup_session:
  "\<exists>w'. fst (getStoredSession w') = fst (getStoredSession w) \<and>
     (snd (confirmMFASetup srv t c w) = w' \<or>
      (\<exists>me. wf_json me \<and> snd (confirmMFASetup srv t c w)
         = saveSession (refreshed_profile (fst (getStoredSession w)) me) w'))"
proof -
  obtain s w1 where g: "getStoredSession w = (s, w1)" by fastforce
  have s: "fst (getStoredSession w1) = s" using getStoredSession_again [of w] by (simp add: g)
  define m where "m = eff_bind (fetch srv (auth_request ''POST'' ''/mfa/confirm''
             [(''Authorization'', bearer (jget ''accessToken'' (Some s))),
              (''Content-Type'', ''application/json''), (''Accept'', ''application/json'')]
             (TextBody (json_text (JObj [(''setup_token'', JStr t), (''code'', JStr c)]))))) checked"
  have eq: "confirmMFASetup srv t c w =
      (if \<not> truthy (Some s) then (Inl (Error ''No active session''), w1)
       else eff_bind m (\<lambda>payload. eff_bind (fetchMe srv (jget ''accessToken'' (Some s)))
          (\<lambda>me w2. if me = JNull then (Inl TypeError, w2)
             else if truthy (jget ''user'' (Some me)) \<and> truthy (jget ''principal'' (Some me))
               then (Inr payload, saveSession (refreshed_profile s me) w2)
             else (Inr payload, w2))) w1)"
    by (simp only: confirmMFASetup_def g m_def Let_def prod.case)
  obtain r w2 where m: "m w1 = (r, w2)" by fastforce
  have "storage w2 = storage w1" using bind_fetch_checked(2) by (metis m m_def snd_conv)
  then have g2: "fst (getStoredSession w2) = s" using getStoredSession_storage s by metis
  obtain q w3 where f: "fetchMe srv (jget ''accessToken'' (Some s)) w2 = (q, w3)" by fastforce
  have "storage w3 = storage (snd (getStoredSession w2))"
    using fetchMe_world(1) by (metis f snd_conv)
  then have g3: "fst (getStoredSession w3) = s"
    using getStoredSession_storage [of w3 "snd (getStoredSession w2)"] g2 by simp
  consider "\<not> truthy (Some s)" | e where "truthy (Some s)" "r = Inl e"
    | payload where "truthy (Some s)" "r = Inr payload" by (cases r) auto
  then show ?thesis
  proof cases
    case 1
    then show ?thesis using eq g s by auto
  next
    case 2
    then show ?thesis
      using eq g g2 2(1) by (auto simp: eff_bind_Inl [of m w1, OF m [unfolded 2(2)]])
  next
    case 3
    then have c: "confirmMFASetup srv t c w =
        eff_bind (fetchMe srv (jget ''accessToken'' (Some s)))
          (\<lambda>me w2. if me = JNull then (Inl TypeError, w2)
             else if truthy (jget ''user'' (Some me)) \<and> truthy (jget ''principal'' (Some me))
               then (Inr payload, saveSession (refreshed_profile s me) w2)
             else (Inr payload, w2)) w2"
      using eq 3(1) by (simp add: eff_bind_Inr [of m w1, OF m [unfolded 3(2)]])
    show ?thesis
    proof (cases q)
      case (Inl e)
      then show ?thesis using c g g3 by (auto simp: eff_bind_Inl [of "fetchMe srv _" w2, OF f [unfolded Inl]])
    next
      case (Inr me)
      then have "wf_json me" using fetchMe_world(2) by (metis f fst_conv)
      then show ?thesis using c g g3 by (auto simp: eff_bind_Inr [of "fetchMe srv _" w2, OF f [unfolded Inr]])
    qed
  qed
qed

text \<open>
  Confirming the second factor keeps the session's tokens: whatever the server answers, the
  access token, the refresh token and the expiry read from storage afterwards are those of
  before.
\<close>

theorem mfa_keeps_tokens:
  assumes "k \<in> {''accessToken'', ''refreshToken'', ''expiresAt''}"
  shows "jget k (Some (fst (getStoredSession (snd (confirmMFASetup srv t c w)))))
       = jget k (Some (fst (getStoredSession w)))"
proof -
  let ?s = "fst (getStoredSession w)" and ?w = "snd (confirmMFASetup srv t c w)"
  obtain w' where w': "fst (getStoredSession w') = ?s"
    "?w = w' \<or> (\<exists>me. wf_json me \<and> ?w = saveSession (refreshed_profile ?s me) w')"
    using confirmMFASetup_session by blast
  have "jget k (Some (fst (getStoredSession (saveSession (refreshed_profile ?s me) w')))) = jget k (Some ?s)"
    if "wf_json me" for me
  proof (cases "storage w' = None")
    case True
    then show ?thesis using w'(1) by (simp add: saveSession_def)
  next
    case False
    from saved_session_read [OF False wf_refreshed_profile [OF wf_stored that]] show ?thesis
      using assms by (auto simp: refreshed_profile_tokens simp del: jget.simps)
  qed
  with w' show ?thesis by auto
qed

theorem mfa_keeps_tokens_witness:
  "jget ''refreshToken'' (Some (fst (getStoredSession (snd (confirmMFASetup (\<lambda>_ _. None) ''s'' ''1''
      (saveSession sample_session sample_world)))))) = Some (JStr ''r1'')"
proof -
  have h: "''refreshToken'' \<in> {''accessToken'', ''refreshToken'', ''expiresAt''}" by simp
  have "fst (getStoredSession (saveSession sample_session sample_world)) = sample_session"
    by (simp add: sample_session_read)
  then show ?thesis
    using mfa_keeps_tokens [OF h, of "\<lambda>_ _. None" "''s''" "''1''"
        "saveSession sample_session sample_world"]
    by (simp add: sample_session_def)
qed

end
