(* ===== verification/HttpClient.thy ===== *)
theory HttpClient
  imports Auth
begin

text \<open>
  The two HTTP clients: \<open>request\<close> of \<open>shared/api/client.ts\<close> with its envelope helpers, and
  \<open>apiFetch\<close>, \<open>apiFetchBlob\<close> and the address builders of \<open>core/api-client.ts\<close>. Both add the
  session's token, refresh the session once on a 401 and repeat the request.
\<close>

section \<open>shared/api/client.ts\<close>

definition api_base :: string where
  "api_base = ''/api/v1''"

text \<open>The headers of a session, as both clients spread them.\<close>

definition session_headers :: "json \<Rightarrow> (string \<times> string) list" where
  "session_headers session =
     (let tok = jget ''accessToken'' (Some session);
          org = jget ''organization_id'' (jget ''principal'' (Some session)) in
      (if truthy tok then [(''Authorization'', bearer tok)] else []) @
      (if truthy org then [(''X-Organization-ID'', jstring org)] else []))"

record request_init =
  init_headers :: "(string \<times> string) list"
  init_cache :: "string option"

definition safeParseJSON :: "string \<Rightarrow> json" where
  "safeParseJSON t = (case json_parse t of None \<Rightarrow> JStr t | Some v \<Rightarrow> v)"

definition client_headers :: "json \<Rightarrow> (string \<times> string) list \<Rightarrow> (string \<times> string) list" where
  "client_headers session extra =
     spread (spread [(''Content-Type'', ''application/json''), (''Accept'', ''application/json'')]
                    (session_headers session)) extra"

text \<open>What a final response becomes: a value, or the error thrown for a status outside 200 to 299.\<close>

definition client_result :: "string \<Rightarrow> string \<Rightarrow> response \<Rightarrow> thrown + json option" where
  "client_result meth url res =
     (let text = rs_body res;
          parsed = (if text = [] then None else Some (safeParseJSON text));
          err = jget ''error'' parsed in
      if \<not> res_ok res then
        Inl (ApiError (rs_status res) text
               (''['' @ meth @ '' '' @ url @ ''] '' @
                 jstring (jnullish (jget ''message'' err) (Some (JStr text))))
               (jget ''code'' err))
      else if rs_status res = 204 \<or> text = [] then Inr None
      else Inr parsed)"

definition client_request ::
  "string \<Rightarrow> string \<Rightarrow> json option \<Rightarrow> request_init \<Rightarrow> json \<Rightarrow> request" where
  "client_request meth path body init session =
     \<lparr>rq_url = api_base @ path, rq_method = meth,
      rq_headers = client_headers session (init_headers init),
      rq_body = (case body of None \<Rightarrow> NoBody | Some b \<Rightarrow> TextBody (json_text b)),
      rq_cache = init_cache init\<rparr>"

function requestWithRetry ::
  "server \<Rightarrow> string \<Rightarrow> string \<Rightarrow> json option \<Rightarrow> request_init \<Rightarrow> bool \<Rightarrow> json option eff" where
  "requestWithRetry srv meth path body init allowRefresh w =
     (let (session, w1) = getStoredSession w in
      case fetch srv (client_request meth path body init session) w1 of
        (Inl e, w2) \<Rightarrow> (Inl e, w2)
      | (Inr res, w2) \<Rightarrow>
          if rs_status res = 401 \<and> allowRefresh \<and> truthy (jget ''refreshToken'' (Some session)) then
            (case refreshSession srv w2 of
               (Inl e, w3) \<Rightarrow> (Inl e, w3)
             | (Inr refreshed, w3) \<Rightarrow>
                 if truthy (Some refreshed)
                 then requestWithRetry srv meth path body init False w3
                 else (client_result meth (api_base @ path) res, clearSession w3))
          else (client_result meth (api_base @ path) res, w2))"
  by pat_completeness auto
termination
  by (relation "measure (\<lambda>(srv, meth, path, body, init, allowRefresh, w).
       if allowRefresh then 1 else 0)") auto

declare requestWithRetry.simps [simp del]

definition no_init :: request_init where
  "no_init = \<lparr>init_headers = [], init_cache = None\<rparr>"

definition client_fetch ::
  "server \<Rightarrow> string \<Rightarrow> string \<Rightarrow> json option \<Rightarrow> request_init \<Rightarrow> json option eff" where
  "client_fetch srv meth path body init = requestWithRetry srv meth path body init True"

text \<open>The members of \<open>api\<close>.\<close>

definition api_get :: "server \<Rightarrow> string \<Rightarrow> json option eff" where
  "api_get srv path = client_fetch srv ''GET'' path None no_init"

definition api_post :: "server \<Rightarrow> string \<Rightarrow> json option \<Rightarrow> json option eff" where
  "api_post srv path body = client_fetch srv ''POST'' path body no_init"

definition api_put :: "server \<Rightarrow> string \<Rightarrow> json option \<Rightarrow> json option eff" where
  "api_put srv path body = client_fetch srv ''PUT'' path body no_init"

definition api_patch :: "server \<Rightarrow> string \<Rightarrow> json option \<Rightarrow> json option eff" where
  "api_patch srv path body = client_fetch srv ''PATCH'' path body no_init"

definition api_delete :: "server \<Rightarrow> string \<Rightarrow> json option eff" where
  "api_delete srv path = client_fetch srv ''DELETE'' path None no_init"

subsection \<open>Envelopes\<close>

text \<open>\<open>typeof v = "object"\<close> and \<open>k in v\<close>, with \<open>v\<close> truthy.\<close>

fun has_key :: "string \<Rightarrow> json option \<Rightarrow> bool" where
  "has_key k (Some (JObj m)) = (map_of m k \<noteq> None)"
| "has_key k v = False"

definition isErrorEnvelope :: "json option \<Rightarrow> bool" where
  "isErrorEnvelope v = has_key ''error'' v"

definition isSuccessEnvelope :: "json option \<Rightarrow> bool" where
  "isSuccessEnvelope v = (has_key ''status'' v \<and> \<not> has_key ''error'' v)"

text \<open>A missing message makes the empty one: \<open>new Error(undefined)\<close> has it.\<close>

definition envelope_error :: "json option \<Rightarrow> thrown option" where
  "envelope_error v =
     (let err = jget ''error'' v in
      if isErrorEnvelope v \<and> truthy err then
        Some (ApiError 500 (case v of None \<Rightarrow> [] | Some j \<Rightarrow> json_text j)
                (case jget ''message'' err of None \<Rightarrow> [] | Some m \<Rightarrow> jstring (Some m)) (jget ''code'' err))
      else None)"

definition unwrapItem :: "json option \<Rightarrow> thrown + json option" where
  "unwrapItem v =
     (case envelope_error v of
        Some e \<Rightarrow> Inl e
      | None \<Rightarrow>
          if isSuccessEnvelope v \<and> has_key ''item'' v then Inr (jget ''item'' v) else Inr v)"

definition meta_of :: "json option \<Rightarrow> json" where
  "meta_of v =
     (if isSuccessEnvelope v
      then (case jnullish (jget ''meta'' v) (Some (JObj [])) of None \<Rightarrow> JObj [] | Some m \<Rightarrow> m)
      else JObj [])"

definition unwrapItems :: "json option \<Rightarrow> thrown + json list \<times> json" where
  "unwrapItems v =
     (case envelope_error v of
        Some e \<Rightarrow> Inl e
      | None \<Rightarrow>
          Inr ((if isSuccessEnvelope v
                then (case jget ''items'' v of Some (JArr vs) \<Rightarrow> vs | _ \<Rightarrow> []) else []),
               meta_of v))"

record action_result =
  ar_command :: "json option"
  ar_result :: "json option"
  ar_meta :: json

definition unwrapAction :: "json option \<Rightarrow> thrown + action_result" where
  "unwrapAction v =
     (case envelope_error v of
        Some e \<Rightarrow> Inl e
      | None \<Rightarrow>
          Inr \<lparr>ar_command = (if isSuccessEnvelope v then jget ''command'' v else None),
               ar_result = (if isSuccessEnvelope v then jget ''result'' v else None),
               ar_meta = meta_of v\<rparr>)"

section \<open>core/api-client.ts\<close>

subsection \<open>Addresses\<close>

record url =
  protocol :: string
  hostname :: string
  port :: string
  pathname :: string
  search :: params

definition url_text :: "url \<Rightarrow> string" where
  "url_text u = protocol u @ ''//'' @ hostname u @
     (if port u = [] then [] else '':'' @ port u) @ pathname u @ query_suffix (search u)"

text \<open>
  The build environment and the page's address. \<open>abs_url\<close> is the platform's parser of an
  absolute address.
\<close>

record env =
  vite_base :: string
  vite_dev_port :: string
  is_dev :: bool
  location :: url
  abs_url :: "string \<Rightarrow> url"

definition origin :: "url \<Rightarrow> url" where
  "origin u = u\<lparr>pathname := ''/'', search := []\<rparr>"

definition set_pathname :: "string \<Rightarrow> url \<Rightarrow> url" where
  "set_pathname p u = u\<lparr>pathname := (if starts_with ''/'' p then p else CHR ''/'' # p)\<rparr>"

definition resolveApiBaseUrl :: "env \<Rightarrow> url" where
  "resolveApiBaseUrl e =
     (let configuredBase = or_str (vite_base e) ''/api'' in
      if starts_with ''http'' configuredBase then abs_url e configuredBase
      else set_pathname configuredBase (origin (location e)))"

definition drop_trailing_slash :: "string \<Rightarrow> string" where
  "drop_trailing_slash p = (if p \<noteq> [] \<and> last p = CHR ''/'' then butlast p else p)"

definition applyEndpoint :: "url \<Rightarrow> string \<Rightarrow> url" where
  "applyEndpoint base endpoint =
     (let parts = split_on (CHR ''?'') (trim endpoint);
          pathPart = hd parts;
          queryPart = (case parts of _ # q # _ \<Rightarrow> q | _ \<Rightarrow> []);
          b = (set_pathname (drop_trailing_slash (pathname base) @ pathPart) base)\<lparr>search := []\<rparr> in
      if queryPart = [] then b else b\<lparr>search := params_parse queryPart\<rparr>)"

definition buildApiUrl :: "env \<Rightarrow> string \<Rightarrow> string" where
  "buildApiUrl e endpoint = url_text (applyEndpoint (resolveApiBaseUrl e) endpoint)"

definition buildFallbackApiUrl :: "env \<Rightarrow> string \<Rightarrow> string" where
  "buildFallbackApiUrl e endpoint = url_text (applyEndpoint (origin (location e)) endpoint)"

definition shouldRetryWithoutApiPrefix :: "env \<Rightarrow> string \<Rightarrow> string \<Rightarrow> bool" where
  "shouldRetryWithoutApiPrefix e url endpoint =
     (let configuredBase = trim (or_str (vite_base e) ''/api'') in
      if configuredBase = [] \<or> configuredBase = ''/api''
      then starts_with ''/v1/'' (trim endpoint) \<and> str_includes url ''/api/v1/''
      else False)"

definition buildApiWebSocketUrl :: "env \<Rightarrow> string \<Rightarrow> world \<Rightarrow> string \<times> world" where
  "buildApiWebSocketUrl e endpoint w =
     (let base = (if trim (vite_base e) = [] \<and> is_dev e
                  then \<lparr>protocol = protocol (location e), hostname = hostname (location e),
                        port = or_str (vite_dev_port e) ''8080'', pathname = ''/'', search = []\<rparr>
                  else resolveApiBaseUrl e);
          (session, w1) = getStoredSession w;
          ws = base\<lparr>protocol := (if protocol base = ''https:'' then ''wss:'' else ''ws:'')\<rparr>;
          u = applyEndpoint ws endpoint;
          tok = jget ''accessToken'' (Some session) in
      (url_text (if truthy tok
                 then u\<lparr>search := params_set ''access_token'' (jstring tok) (search u)\<rparr> else u), w1))"

subsection \<open>Requests\<close>

record fetch_options =
  opt_method :: string
  opt_headers :: "(string \<times> string) list"
  opt_body :: payload

definition is_form :: "payload \<Rightarrow> bool" where
  "is_form b = (case b of FormBody _ \<Rightarrow> True | _ \<Rightarrow> False)"

definition api_headers :: "json \<Rightarrow> fetch_options \<Rightarrow> (string \<times> string) list" where
  "api_headers session opts =
     spread (spread [(''Accept'', ''application/json'')]
                    (spread (session_headers session) (opt_headers opts)))
            (if is_form (opt_body opts) then [] else [(''Content-Type'', ''application/json'')])"

definition blob_headers :: "json \<Rightarrow> fetch_options \<Rightarrow> (string \<times> string) list" where
  "blob_headers session opts =
     spread [(''Accept'', ''*/*'')] (spread (session_headers session) (opt_headers opts))"

definition api_request :: "string \<Rightarrow> fetch_options \<Rightarrow> (string \<times> string) list \<Rightarrow> request" where
  "api_request url opts hs =
     \<lparr>rq_url = url, rq_method = opt_method opts, rq_headers = hs, rq_body = opt_body opts,
      rq_cache = None\<rparr>"

definition api_error :: "response \<Rightarrow> thrown" where
  "api_error r =
     (let data = (case json_parse (rs_body r) of None \<Rightarrow> Some (JObj []) | Some v \<Rightarrow> Some v) in
      Error (jstring (jor (jget ''message'' (jget ''error'' data))
              (jor (jget ''message'' data) (Some (JStr (''API Error: '' @ show_nat (rs_status r))))))))"

definition api_result :: "response \<Rightarrow> thrown + json" where
  "api_result r =
     (if \<not> res_ok r then Inl (api_error r)
      else (case json_parse (rs_body r) of None \<Rightarrow> Inl SyntaxError | Some v \<Rightarrow> Inr v))"

definition blob_result :: "response \<Rightarrow> thrown + string" where
  "blob_result r = (if \<not> res_ok r then Inl (api_error r) else Inr (rs_body r))"

text \<open>A first request, and the second one without the \<open>/api\<close> prefix after a 404.\<close>

definition fetch_fallback ::
  "server \<Rightarrow> env \<Rightarrow> string \<Rightarrow> fetch_options \<Rightarrow> (string \<times> string) list \<Rightarrow> response eff" where
  "fetch_fallback srv e endpoint opts hs =
     (let url = buildApiUrl e endpoint in
      eff_bind (fetch srv (api_request url opts hs))
        (\<lambda>res. if rs_status res = 404 \<and> shouldRetryWithoutApiPrefix e url endpoint
               then fetch srv (api_request (buildFallbackApiUrl e endpoint) opts hs)
               else eff_ret res))"

function apiFetchWithRetry ::
  "server \<Rightarrow> env \<Rightarrow> string \<Rightarrow> fetch_options \<Rightarrow> bool \<Rightarrow> json eff" where
  "apiFetchWithRetry srv e endpoint opts allowRefresh w =
     (let (session, w1) = getStoredSession w in
      case fetch_fallback srv e endpoint opts (api_headers session opts) w1 of
        (Inl err, w2) \<Rightarrow> (Inl err, w2)
      | (Inr res, w2) \<Rightarrow>
          if rs_status res = 401 \<and> allowRefresh \<and> truthy (jget ''refreshToken'' (Some session)) then
            (case refreshSession srv w2 of
               (Inl err, w3) \<Rightarrow> (Inl err, w3)
             | (Inr refreshed, w3) \<Rightarrow>
                 if truthy (Some refreshed) then apiFetchWithRetry srv e endpoint opts False w3
                 else (api_result res, clearSession w3))
          else (api_result res, w2))"
  by pat_completeness auto
termination
  by (relation "measure (\<lambda>(srv, e, endpoint, opts, allowRefresh, w). if allowRefresh then 1 else 0)")
    auto

function apiFetchBlobWithRetry ::
  "server \<Rightarrow> env \<Rightarrow> string \<Rightarrow> fetch_options \<Rightarrow> bool \<Rightarrow> string eff" where
  "apiFetchBlobWithRetry srv e endpoint opts allowRefresh w =
     (let (session, w1) = getStoredSession w in
      case fetch_fallback srv e endpoint opts (blob_headers session opts) w1 of
        (Inl err, w2) \<Rightarrow> (Inl err, w2)
      | (Inr res, w2) \<Rightarrow>
          if rs_status res = 401 \<and> allowRefresh \<and> truthy (jget ''refreshToken'' (Some session)) then
            (case refreshSession srv w2 of
               (Inl err, w3) \<Rightarrow> (Inl err, w3)
             | (Inr refreshed, w3) \<Rightarrow>
                 if truthy (Some refreshed) then apiFetchBlobWithRetry srv e endpoint opts False w3
                 else (blob_result res, clearSession w3))
          else (blob_result res, w2))"
  by pat_completeness auto
termination
  by (relation "measure (\<lambda>(srv, e, endpoint, opts, allowRefresh, w). if allowRefresh then 1 else 0)")
    auto

declare apiFetchWithRetry.simps [simp del] apiFetchBlobWithRetry.simps [simp del]

definition apiFetch :: "server \<Rightarrow> env \<Rightarrow> string \<Rightarrow> fetch_options \<Rightarrow> json eff" where
  "apiFetch srv e endpoint opts = apiFetchWithRetry srv e endpoint opts True"

definition apiFetchBlob :: "server \<Rightarrow> env \<Rightarrow> string \<Rightarrow> fetch_options \<Rightarrow> string eff" where
  "apiFetchBlob srv e endpoint opts = apiFetchBlobWithRetry srv e endpoint opts True"

section \<open>The course of a request of client.ts\<close>

text \<open>Without the right to refresh, one request is sent and storage is only read.\<close>

lemma request_no_refresh:
  "sent (snd (requestWithRetry srv meth path body init False w))
     = sent w @ [client_request meth path body init (fst (getStoredSession w))]"
  "storage (snd (requestWithRetry srv meth path body init False w))
     = storage (snd (getStoredSession w))"
proof -
  obtain s w1 where g: "getStoredSession w = (s, w1)" by fastforce
  then have s1: "sent w1 = sent w" using sent_getStoredSession [of w] by simp
  obtain r w2 where f: "fetch srv (client_request meth path body init s) w1 = (r, w2)"
    by fastforce
  have "snd (requestWithRetry srv meth path body init False w) = w2"
    by (cases r) (simp_all add: requestWithRetry.simps [of srv meth path body init False w] g f)
  moreover have "sent w2 = sent w1 @ [client_request meth path body init s]" "storage w2 = storage w1"
    using fetch_sent [of srv _ w1] fetch_storage [of srv _ w1] f by (metis snd_conv)+
  ultimately show
    "sent (snd (requestWithRetry srv meth path body init False w))
       = sent w @ [client_request meth path body init (fst (getStoredSession w))]"
    "storage (snd (requestWithRetry srv meth path body init False w))
       = storage (snd (getStoredSession w))"
    by (simp_all add: g s1)
qed

text \<open>The three courses of a request: answered at once, given up after a refresh, or repeated.\<close>

lemma request_courses:
  obtains
    (once) w2 where "snd (client_fetch srv meth path body init w) = w2"
      "sent w2 = sent w @ [client_request meth path body init (fst (getStoredSession w))]"
      "storage w2 = storage (snd (getStoredSession w))"
  | (given_up) res rq w2 where
      "client_fetch srv meth path body init w
         = (client_result meth (api_base @ path) res, clearSession w2)"
      "rs_status res = 401" "rq_url rq = auth_base @ ''/refresh''"
      "sent w2 = sent w @ [client_request meth path body init (fst (getStoredSession w)), rq]"
      "truthy (jget ''refreshToken'' (Some (fst (getStoredSession w))))"
  | (repeated) rq raw w2 where
      "client_fetch srv meth path body init w
         = requestWithRetry srv meth path body init False (saveSession (session_of raw) w2)"
      "rq_url rq = auth_base @ ''/refresh''" "wf_json raw" "complete raw"
      "sent w2 = sent w @ [client_request meth path body init (fst (getStoredSession w)), rq]"
      "storage w2 = None \<longleftrightarrow> storage w = None"
proof -
  obtain s w1 where g: "getStoredSession w = (s, w1)" by fastforce
  have s1: "sent w1 = sent w" and n1: "storage w1 = None \<longleftrightarrow> storage w = None"
    using sent_getStoredSession [of w] storage_None(3) [of w] g by simp_all
  let ?rq = "client_request meth path body init s"
  obtain r w2 where f: "fetch srv ?rq w1 = (r, w2)" by fastforce
  have w2: "sent w2 = sent w @ [?rq]" "storage w2 = storage w1"
    using fetch_sent [of srv ?rq w1] fetch_storage [of srv ?rq w1] f s1 by simp_all
  have s2: "fst (getStoredSession w2) = s"
    using getStoredSession_storage [OF w2(2)] getStoredSession_again [of w] g by simp
  note unf = client_fetch_def requestWithRetry.simps [of srv meth path body init True w]
  show thesis
  proof (cases "\<exists>res. r = Inr res \<and> rs_status res = 401 \<and> truthy (jget ''refreshToken'' (Some s))")
    case False
    then have "snd (client_fetch srv meth path body init w) = w2"
      by (cases r) (auto simp: unf g f)
    with once w2 g show thesis by simp
  next
    case True
    then obtain res where res: "r = Inr res" "rs_status res = 401"
      "truthy (jget ''refreshToken'' (Some s))" by blast
    show thesis
    proof (rule refresh_cases [of w2 srv])
      assume "\<not> truthy (jget ''refreshToken'' (Some (fst (getStoredSession w2))))"
      with s2 res show thesis by simp
    next
      fix rq w3
      assume a: "refreshSession srv w2 = (Inr JNull, clearSession w3)"
        "sent w3 = sent w2 @ [rq]" "rq_url rq = auth_base @ ''/refresh''"
      have "client_fetch srv meth path body init w
          = (client_result meth (api_base @ path) res, clearSession (clearSession w3))"
        by (simp add: unf g f res a(1))
      moreover have "clearSession (clearSession w3) = clearSession w3"
        by (auto simp: clearSession_def remove_item_def split: option.split)
      ultimately show thesis using given_up a w2 res g by simp
    next
      fix rq w3 raw
      assume a: "refreshSession srv w2 = (Inr (session_of raw), saveSession (session_of raw) w3)"
        "complete raw" "wf_json raw" "sent w3 = sent w2 @ [rq]"
        "rq_url rq = auth_base @ ''/refresh''" "storage w3 = storage (snd (getStoredSession w2))"
      have "client_fetch srv meth path body init w
          = requestWithRetry srv meth path body init False (saveSession (session_of raw) w3)"
        by (simp add: unf g f res a(1) del: truthy.simps)
      moreover have "storage w3 = None \<longleftrightarrow> storage w = None" using a(6) w2 n1 by simp
      ultimately show thesis using repeated a w2 g by simp
    qed
  qed
qed

section \<open>Properties\<close>

definition is_request :: "string \<Rightarrow> string \<Rightarrow> json option \<Rightarrow> request \<Rightarrow> bool" where
  "is_request meth path body rq \<longleftrightarrow>
     rq_url rq = ''/api/v1'' @ path \<and> rq_method rq = meth \<and>
     rq_body rq = (case body of None \<Rightarrow> NoBody | Some b \<Rightarrow> TextBody (json_text b))"

lemma client_request_is [simp]: "is_request meth path body (client_request meth path body init s)"
  by (simp add: is_request_def client_request_def api_base_def)

text \<open>
  C1. A call of the client sends one, two or three requests: the request itself, then at most
  one refresh, then at most one repetition of the same address, method and body. So a request
  never loops on a server that keeps answering 401.
\<close>

theorem request_bounded:
  "\<exists>r1 rf r2 new. sent (snd (client_fetch srv meth path body init w)) = sent w @ new \<and>
     (new = [r1] \<or> new = [r1, rf] \<or> new = [r1, rf, r2]) \<and>
     is_request meth path body r1 \<and> is_request meth path body r2 \<and>
     rq_url rf = ''/api/v1/auth/refresh''"
proof -
  let ?rq = "\<lambda>s. client_request meth path body init s"
  let ?r1 = "?rq (fst (getStoredSession w))"
  show ?thesis
  proof (rule request_courses [of srv meth path body init w])
    fix w2
    assume a: "snd (client_fetch srv meth path body init w) = w2" "sent w2 = sent w @ [?r1]"
    obtain rf :: request where "rq_url rf = ''/api/v1/auth/refresh''"
      by (rule that [of "auth_request ''POST'' ''/refresh'' [] NoBody"])
        (simp add: auth_request_def auth_base_def)
    with a show ?thesis by (metis client_request_is)
  next
    fix res rq w2
    assume a: "client_fetch srv meth path body init w
         = (client_result meth (api_base @ path) res, clearSession w2)"
      "rq_url rq = auth_base @ ''/refresh''" "sent w2 = sent w @ [?r1, rq]"
    then show ?thesis
      by (intro exI [of _ ?r1] exI [of _ rq] exI [of _ "[?r1, rq]"]) (simp add: auth_base_def)
  next
    fix rq raw w2
    assume a: "client_fetch srv meth path body init w
         = requestWithRetry srv meth path body init False (saveSession (session_of raw) w2)"
      "rq_url rq = auth_base @ ''/refresh''" "sent w2 = sent w @ [?r1, rq]"
    let ?r2 = "?rq (fst (getStoredSession (saveSession (session_of raw) w2)))"
    show ?thesis using a
      by (intro exI [of _ ?r1] exI [of _ rq] exI [of _ ?r2] exI [of _ "[?r1, rq, ?r2]"])
        (simp add: auth_base_def request_no_refresh)
  qed
qed

lemma authorization_header:
  assumes "''Authorization'' \<notin> fst ` set (init_headers init)"
    and "truthy (jget ''accessToken'' (Some s))"
  shows "map_of (rq_headers (client_request meth path body init s)) ''Authorization''
    = Some (bearer (jget ''accessToken'' (Some s)))"
  using assms
  by (simp add: client_request_def client_headers_def map_of_spread_notin session_headers_def Let_def)

text \<open>
  C2. When a call is repeated after a refresh, the repeated request carries the access token
  that storage holds when the call ends, never the one that was refused, and the session it
  belongs to is usable (it has a refresh token again).
\<close>

theorem repeated_request_token:
  assumes "storage w \<noteq> None" and "''Authorization'' \<notin> fst ` set (init_headers init)"
    and "sent (snd (client_fetch srv meth path body init w)) = sent w @ [r1, rf, r2]"
  shows "map_of (rq_headers r2) ''Authorization''
       = Some (bearer (jget ''accessToken''
           (Some (fst (getStoredSession (snd (client_fetch srv meth path body init w)))))))
     \<and> truthy (jget ''refreshToken''
           (Some (fst (getStoredSession (snd (client_fetch srv meth path body init w))))))"
proof (rule request_courses [of srv meth path body init w])
  fix rq raw w2
  assume a: "client_fetch srv meth path body init w
       = requestWithRetry srv meth path body init False (saveSession (session_of raw) w2)"
    "wf_json raw" "complete raw"
    "sent w2 = sent w @ [client_request meth path body init (fst (getStoredSession w)), rq]"
    "storage w2 = None \<longleftrightarrow> storage w = None"
  let ?w = "saveSession (session_of raw) w2"
  have g: "getStoredSession ?w = (session_of raw, ?w)"
    using assms(1) a by (intro saved_session_read wf_session_of) simp_all
  have e: "fst (getStoredSession (snd (client_fetch srv meth path body init w))) = session_of raw"
    using request_no_refresh(2) [of srv meth path body init ?w] g a(1)
      getStoredSession_storage [of "snd (client_fetch srv meth path body init w)" ?w] by simp
  have "r2 = client_request meth path body init (session_of raw)"
    using assms(3) request_no_refresh(1) [of srv meth path body init ?w] g a by simp
  moreover have "truthy (jget ''accessToken'' (Some (session_of raw)))"
    "truthy (jget ''refreshToken'' (Some (session_of raw)))"
    using a(3) by (simp_all add: complete_def del: jget.simps)
  ultimately show ?thesis using authorization_header [OF assms(2)] by (simp only: e)
qed (use assms(3) in auto)

text \<open>A server that refuses the token \<open>a1\<close> and hands out \<open>a2\<close> for any refresh.\<close>

definition renewing_server :: server where
  "renewing_server h rq =
     Some (if rq_url rq = ''/api/v1/auth/refresh'' then
             \<lparr>rs_status = 200, rs_body = json_text (JObj
                [(''access_token'', JStr ''a2''), (''refresh_token'', JStr ''r2''),
                 (''expires_at'', JStr ''later''), (''user'', JObj []), (''principal'', JObj [])])\<rparr>
           else if map_of (rq_headers rq) ''Authorization'' = Some ''Bearer a2'' then
             \<lparr>rs_status = 200, rs_body = ''{}''\<rparr>
           else \<lparr>rs_status = 401, rs_body = []\<rparr>)"

theorem repeated_request_token_witness:
  "\<exists>r1 rf r2. sent (snd (client_fetch renewing_server ''GET'' ''/servers'' None no_init
        (saveSession sample_session sample_world))) = [r1, rf, r2] \<and>
     map_of (rq_headers r2) ''Authorization'' = Some ''Bearer a2''"
proof -
  let ?w = "saveSession sample_session sample_world"
  let ?c = "client_fetch renewing_server ''GET'' ''/servers'' None no_init ?w"
  have h1: "storage ?w \<noteq> None" by (simp add: sample_world_def)
  have h2: "''Authorization'' \<notin> fst ` set (init_headers no_init)" by (simp add: no_init_def)
  have len: "length (sent (snd ?c)) = 3"
    and tok: "jget ''accessToken'' (Some (fst (getStoredSession (snd ?c)))) = Some (JStr ''a2'')"
    by code_simp+
  then obtain r1 rf r2 where s: "sent (snd ?c) = [r1, rf, r2]"
    by (auto simp: eval_nat_numeral length_Suc_conv)
  moreover have "sent ?w = []" by (simp add: sample_world_def)
  ultimately have "sent (snd ?c) = sent ?w @ [r1, rf, r2]" by simp
  from repeated_request_token [OF h1 h2 this] s tok show ?thesis
    by (auto simp: bearer_def)
qed

text \<open>
  C3. When a call ends after the refresh request, the refresh failed: the caller gets the error
  of the refused response, with status 401, and the session is gone from storage.
\<close>

theorem failed_refresh_clears:
  assumes "sent (snd (client_fetch srv meth path body init w)) = sent w @ [r1, rf]"
  shows "(\<exists>text msg code. fst (client_fetch srv meth path body init w) = Inl (ApiError 401 text msg code))
     \<and> get_item session_key (snd (client_fetch srv meth path body init w)) = None
     \<and> fst (getStoredSession (snd (client_fetch srv meth path body init w))) = JNull"
proof (rule request_courses [of srv meth path body init w])
  fix res rq w2
  assume "client_fetch srv meth path body init w
       = (client_result meth (api_base @ path) res, clearSession w2)" "rs_status res = 401"
  then show ?thesis
    by (auto simp: client_result_def res_ok_def Let_def cleared_session_read)
next
  fix rq raw w2
  assume "client_fetch srv meth path body init w
       = requestWithRetry srv meth path body init False (saveSession (session_of raw) w2)"
    "sent w2 = sent w @ [client_request meth path body init (fst (getStoredSession w)), rq]"
  then show ?thesis using assms by (simp add: request_no_refresh)
qed (use assms in auto)

definition refusing_server :: server where
  "refusing_server h rq = Some \<lparr>rs_status = 401, rs_body = []\<rparr>"

theorem failed_refresh_clears_witness:
  "\<exists>r1 rf. sent (snd (client_fetch refusing_server ''GET'' ''/servers'' None no_init
        (saveSession sample_session sample_world))) = [r1, rf] \<and>
     get_item session_key (snd (client_fetch refusing_server ''GET'' ''/servers'' None no_init
        (saveSession sample_session sample_world))) = None"
proof -
  let ?w = "saveSession sample_session sample_world"
  let ?c = "client_fetch refusing_server ''GET'' ''/servers'' None no_init ?w"
  have "length (sent (snd ?c)) = 2" by code_simp
  then obtain r1 rf where s: "sent (snd ?c) = [r1, rf]"
    by (auto simp: eval_nat_numeral length_Suc_conv)
  moreover have "sent ?w = []" by (simp add: sample_world_def)
  ultimately have "sent (snd ?c) = sent ?w @ [r1, rf]" by simp
  from failed_refresh_clears [OF this] s show ?thesis by auto
qed

text \<open>
  The error of a failed response with an empty body carries no description: the message is
  the address alone, because the text of the body, even empty, shadows the intended fallback
  \<open>HTTP status\<close>.
\<close>

theorem empty_body_message:
  "client_result meth url \<lparr>rs_status = 500, rs_body = []\<rparr>
     = Inl (ApiError 500 [] (''['' @ meth @ '' '' @ url @ ''] '') None)"
  by (simp add: client_result_def res_ok_def jnullish_def)

section \<open>The course of a request of api-client.ts\<close>

definition api_urls :: "env \<Rightarrow> string \<Rightarrow> string set" where
  "api_urls e endpoint = {buildApiUrl e endpoint, buildFallbackApiUrl e endpoint}"

lemma fetch_fallback_world:
  "\<exists>new. sent (snd (fetch_fallback srv e endpoint opts hs w)) = sent w @ new \<and>
     length new \<in> {1, 2} \<and> rq_url ` set new \<subseteq> api_urls e endpoint"
  "storage (snd (fetch_fallback srv e endpoint opts hs w)) = storage w"
proof -
  let ?r1 = "api_request (buildApiUrl e endpoint) opts hs"
  let ?r2 = "api_request (buildFallbackApiUrl e endpoint) opts hs"
  obtain r w1 where f: "fetch srv ?r1 w = (r, w1)" by fastforce
  have w1: "sent w1 = sent w @ [?r1]" "storage w1 = storage w"
    using fetch_sent [of srv ?r1 w] fetch_storage [of srv ?r1 w] f by simp_all
  have "snd (fetch_fallback srv e endpoint opts hs w) = w1 \<or>
      snd (fetch_fallback srv e endpoint opts hs w) = snd (fetch srv ?r2 w1)"
    by (cases r) (auto simp: fetch_fallback_def Let_def eff_bind_def f eff_ret_def)
  then show "\<exists>new. sent (snd (fetch_fallback srv e endpoint opts hs w)) = sent w @ new \<and>
      length new \<in> {1, 2} \<and> rq_url ` set new \<subseteq> api_urls e endpoint"
    and "storage (snd (fetch_fallback srv e endpoint opts hs w)) = storage w"
    using w1 by (force simp: api_urls_def api_request_def)+
qed

lemma apiFetch_no_refresh:
  "\<exists>new. sent (snd (apiFetchWithRetry srv e endpoint opts False w)) = sent w @ new \<and>
     length new \<in> {1, 2} \<and> rq_url ` set new \<subseteq> api_urls e endpoint"
proof -
  obtain s w1 where g: "getStoredSession w = (s, w1)" by fastforce
  then have "sent w1 = sent w" using sent_getStoredSession [of w] by simp
  moreover obtain r w2 where f: "fetch_fallback srv e endpoint opts (api_headers s opts) w1 = (r, w2)"
    by fastforce
  have "snd (apiFetchWithRetry srv e endpoint opts False w) = w2"
    by (cases r) (simp_all add: apiFetchWithRetry.simps [of srv e endpoint opts False w] g f)
  ultimately show ?thesis
    using fetch_fallback_world(1) [of srv e endpoint opts "api_headers s opts" w1] f by simp
qed

lemma refresh_sent:
  "\<exists>ms. sent (snd (refreshSession srv w)) = sent w @ ms \<and> length ms \<le> 1 \<and>
     rq_url ` set ms \<subseteq> {''/api/v1/auth/refresh''}"
proof (rule refresh_cases [of w srv])
  assume "refreshSession srv w = (Inr JNull, snd (getStoredSession w))"
  then show ?thesis by (intro exI [of _ "[]"]) simp
next
  fix rq w4 assume "refreshSession srv w = (Inr JNull, clearSession w4)"
    "sent w4 = sent w @ [rq]" "rq_url rq = auth_base @ ''/refresh''"
  then show ?thesis by (intro exI [of _ "[rq]"]) (simp add: auth_base_def)
next
  fix rq w4 raw assume "refreshSession srv w = (Inr (session_of raw), saveSession (session_of raw) w4)"
    "sent w4 = sent w @ [rq]" "rq_url rq = auth_base @ ''/refresh''"
  then show ?thesis by (intro exI [of _ "[rq]"]) (simp add: auth_base_def)
qed

lemma refresh_success_sent:
  "refreshSession srv w = (Inr v, w') \<Longrightarrow> truthy (Some v) \<Longrightarrow> sent w' \<noteq> sent w"
  by (rule refresh_cases [of w srv]) auto

text \<open>After the first answer: done, or refreshed and given up, or refreshed and repeated.\<close>

lemma apiFetch_steps:
  assumes g: "getStoredSession w = (s, w1)"
    and f: "fetch_fallback srv e endpoint opts (api_headers s opts) w1 = (r, w2)"
    and rf: "refreshSession srv w2 = (q, w3)"
  shows "sent (snd (apiFetch srv e endpoint opts w)) = sent w2 \<or>
    sent (snd (apiFetch srv e endpoint opts w)) = sent w3 \<or>
    sent w3 \<noteq> sent w2 \<and> snd (apiFetch srv e endpoint opts w)
       = snd (apiFetchWithRetry srv e endpoint opts False w3)"
proof (cases r)
  case (Inl err)
  then show ?thesis by (simp add: apiFetch_def apiFetchWithRetry.simps [of srv e endpoint opts True w] g f)
next
  case (Inr res)
  show ?thesis
  proof (cases "\<exists>v. q = Inr v \<and> truthy (Some v)")
    case True
    then obtain v where v: "q = Inr v" "truthy (Some v)" by blast
    then have "sent w3 \<noteq> sent w2" using refresh_success_sent rf by blast
    then show ?thesis
      using v Inr by (simp add: apiFetch_def apiFetchWithRetry.simps [of srv e endpoint opts True w] g f rf)
  next
    case False
    then show ?thesis
      using Inr by (cases q) (auto simp: apiFetch_def
          apiFetchWithRetry.simps [of srv e endpoint opts True w] g f rf)
  qed
qed

lemma fetch_bounded:
  "\<exists>before between after. sent (snd (apiFetch srv e endpoint opts w)) = sent w @ before @ between @ after \<and>
     length before \<in> {1, 2} \<and> length between \<le> 1 \<and> length after \<le> 2 * length between \<and>
     rq_url ` set (before @ after) \<subseteq> api_urls e endpoint \<and>
     rq_url ` set between \<subseteq> {''/api/v1/auth/refresh''}"
proof -
  obtain s w1 where g: "getStoredSession w = (s, w1)" by fastforce
  then have s1: "sent w1 = sent w" using sent_getStoredSession [of w] by simp
  obtain r w2 where f: "fetch_fallback srv e endpoint opts (api_headers s opts) w1 = (r, w2)"
    by fastforce
  obtain bs where bs: "sent w2 = sent w @ bs" "length bs \<in> {1, 2}"
    "rq_url ` set bs \<subseteq> api_urls e endpoint"
    using fetch_fallback_world(1) [of srv e endpoint opts "api_headers s opts" w1] f s1 by auto
  obtain q w3 where rf: "refreshSession srv w2 = (q, w3)" by fastforce
  obtain ms where ms: "sent w3 = sent w2 @ ms" "length ms \<le> 1"
    "rq_url ` set ms \<subseteq> {''/api/v1/auth/refresh''}"
    using refresh_sent [of srv w2] rf by auto
  consider "sent (snd (apiFetch srv e endpoint opts w)) = sent w2"
    | "sent (snd (apiFetch srv e endpoint opts w)) = sent w3"
    | "ms \<noteq> []" "snd (apiFetch srv e endpoint opts w)
         = snd (apiFetchWithRetry srv e endpoint opts False w3)"
    using apiFetch_steps [OF g f rf] ms(1) by auto
  then show ?thesis
  proof cases
    case 1
    with bs show ?thesis by (intro exI [of _ bs] exI [of _ "[]"]) auto
  next
    case 2
    with bs ms show ?thesis by (intro exI [of _ bs] exI [of _ ms] exI [of _ "[]"]) auto
  next
    case 3
    obtain as where as: "sent (snd (apiFetchWithRetry srv e endpoint opts False w3)) = sent w3 @ as"
      "length as \<in> {1, 2}" "rq_url ` set as \<subseteq> api_urls e endpoint"
      using apiFetch_no_refresh by blast
    have "length ms = 1" using 3(1) ms(2) by (cases ms) auto
    with 3 as bs ms show ?thesis
      by (intro exI [of _ bs] exI [of _ ms] exI [of _ as]) auto
  qed
qed

text \<open>
  C14. A call of the second client sends at most five requests: up to two for the endpoint (with
  and without the \<open>/api\<close> prefix), one refresh, and up to two for the repetition. Every request
  goes to one of the endpoint's two addresses, but at most one, which goes to the refresh
  endpoint.
\<close>

theorem apiFetch_bounded:
  "\<exists>before between after. sent (snd (apiFetch srv e endpoint opts w)) = sent w @ before @ between @ after \<and>
     length before \<in> {1, 2} \<and> length between \<le> 1 \<and> length after \<le> 2 * length between \<and>
     rq_url ` set (before @ after) \<subseteq> api_urls e endpoint \<and>
     rq_url ` set between \<subseteq> {''/api/v1/auth/refresh''}"
  by (rule fetch_bounded)

section \<open>Addresses\<close>

lemma form_encode_safe: "x \<in> set (form_encode s) \<Longrightarrow> \<not> is_ws x \<and> x \<noteq> CHR ''?''"
  unfolding form_encode_def
  by (auto simp: is_ws_def is_alnum_def dest!: form_char_chars)

lemma join_with_chars: "x \<in> set (join_with sep ls) \<Longrightarrow> x \<in> set sep \<or> (\<exists>l \<in> set ls. x \<in> set l)"
  by (induction sep ls rule: join_with.induct) auto

lemma params_text_safe: "x \<in> set (params_text ps) \<Longrightarrow> \<not> is_ws x \<and> x \<noteq> CHR ''?''"
  by (auto simp: params_text_def pair_text_def is_ws_def
      dest!: join_with_chars form_encode_safe)

lemma params_text_empty: "params_text ps = [] \<longleftrightarrow> ps = []"
  by (cases ps) (auto simp: params_text_def join_with_Cons pair_text_def elim!: join_with.elims)

text \<open>
  An endpoint with a query keeps it: the built address has the endpoint's path behind the
  base's path, and exactly the endpoint's parameters, in order and decoded, whatever characters
  they hold.
\<close>

theorem endpoint_query_kept:
  assumes "starts_with ''/'' p" and "CHR ''?'' \<notin> set p" and "starts_with ''/'' (pathname base)"
    and "ps \<noteq> []"
  shows "search (applyEndpoint base (p @ query_suffix ps)) = ps \<and>
    pathname (applyEndpoint base (p @ query_suffix ps)) = drop_trailing_slash (pathname base) @ p"
proof -
  have q: "query_suffix ps = CHR ''?'' # params_text ps" "params_text ps \<noteq> []"
    using assms(4) by (simp_all add: query_suffix_def Let_def params_text_empty)
  obtain p' where p': "p = CHR ''/'' # p'" using assms(1) by (auto simp: starts_with_iff)
  have "\<not> is_ws (last (params_text ps))" using q(2) params_text_safe last_in_set by blast
  then have tr: "trim (p @ query_suffix ps) = p @ query_suffix ps"
    using q by (intro trim_fix) (simp add: p' is_ws_def)
  have "CHR ''?'' \<notin> set (params_text ps)" using params_text_safe by blast
  then have sp: "split_on (CHR ''?'') (p @ query_suffix ps) = [p, params_text ps]"
    using assms(2) by (simp add: q split_on_append split_on_no_sep)
  have "starts_with ''/'' (drop_trailing_slash (pathname base) @ p)"
    using assms(3) by (auto simp: drop_trailing_slash_def starts_with_iff p')
  then show ?thesis
    using q(2) by (simp add: applyEndpoint_def Let_def tr sp set_pathname_def params_parse_text)
qed

definition sample_url :: url where
  "sample_url = \<lparr>protocol = ''http:'', hostname = ''localhost'', port = ''3000'', pathname = ''/api'',
     search = []\<rparr>"

theorem endpoint_query_kept_witness:
  "search (applyEndpoint sample_url (''/v1/tags'' @ query_suffix [(''search'', ''a&b=c?'')]))
     = [(''search'', ''a&b=c?'')]"
proof -
  have h: "starts_with ''/'' ''/v1/tags''" "CHR ''?'' \<notin> set ''/v1/tags''"
    "starts_with ''/'' (pathname sample_url)" "[(''search'', ''a&b=c?'')] \<noteq> []"
    by (simp_all add: starts_with_def sample_url_def)
  show ?thesis using endpoint_query_kept [OF h] by simp
qed

end
