(* ===== verification/ServerApi.thy ===== *)
theory ServerApi
  imports HttpClient
begin

text \<open>
  The typed API objects of \<open>shared/api/client.ts\<close>: the query builders, the normalisation of
  services, cron jobs and backups, waiting for a command of a server to end, and the calls that
  resolve to the outcome of such a command. Values of the server stay dynamic (\<^typ>\<open>json\<close>): the
  code casts them to its interfaces without a check.
\<close>

section \<open>Reading dynamic values\<close>

text \<open>\<open>v.k\<close> throws on null and undefined; \<open>v.map(f)\<close> stops at the first throw.\<close>

definition jprop :: "string \<Rightarrow> json option \<Rightarrow> thrown + json option" where
  "jprop k v = (if v = None \<or> v = Some JNull then Inl TypeError else Inr (jget k v))"

definition eff_of :: "thrown + 'a \<Rightarrow> 'a eff" where
  "eff_of r w = (r, w)"

fun map_throwing :: "('a \<Rightarrow> thrown + 'b) \<Rightarrow> 'a list \<Rightarrow> thrown + 'b list" where
  "map_throwing f [] = Inr []"
| "map_throwing f (x # xs) =
     (case f x of Inl e \<Rightarrow> Inl e
      | Inr y \<Rightarrow> (case map_throwing f xs of Inl e \<Rightarrow> Inl e | Inr ys \<Rightarrow> Inr (y # ys)))"

text \<open>
  Setting a property of an object literal; a property set to undefined reads as a missing one.
  \<open>{...v}\<close> of anything that is not an object adds nothing.
\<close>

definition jset :: "string \<Rightarrow> json option \<Rightarrow> (string \<times> json) list \<Rightarrow> (string \<times> json) list" where
  "jset k v m = (case v of Some x \<Rightarrow> put k x m | None \<Rightarrow> filter (\<lambda>p. fst p \<noteq> k) m)"

fun own_props :: "json option \<Rightarrow> (string \<times> json) list" where
  "own_props (Some (JObj m)) = m"
| "own_props v = []"

text \<open>
  \<open>Number(v)\<close>, \<^const>\<open>None\<close> when the value is not an integer in decimal notation.
\<close>

definition number_of_text :: "string \<Rightarrow> int option" where
  "number_of_text s =
     (let t = trim s;
          neg = starts_with ''-'' t;
          ds = (if neg \<or> starts_with ''+'' t then tl t else t) in
      if t = [] then Some 0
      else if ds \<noteq> [] \<and> list_all is_digit ds
      then Some (if neg then - int (nat_of_digits ds) else int (nat_of_digits ds))
      else None)"

fun js_number :: "json option \<Rightarrow> int option" where
  "js_number None = None"
| "js_number (Some JNull) = Some 0"
| "js_number (Some (JBool b)) = Some (if b then 1 else 0)"
| "js_number (Some (JNum n)) = Some n"
| "js_number (Some (JStr s)) = number_of_text s"
| "js_number (Some (JArr vs)) = number_of_text (jstring (Some (JArr vs)))"
| "js_number (Some (JObj m)) = None"

text \<open>The message of what was thrown; those of the platform's own errors are an argument.\<close>

fun thrown_message :: "(thrown \<Rightarrow> string) \<Rightarrow> thrown \<Rightarrow> string" where
  "thrown_message platform (Error m) = m"
| "thrown_message platform (ApiError st body m c) = m"
| "thrown_message platform e = platform e"

text \<open>The three shapes of a call: one value, a list with its metadata, and an action.\<close>

definition item_of :: "json option eff \<Rightarrow> json option eff" where
  "item_of call = eff_bind call (\<lambda>v. eff_of (unwrapItem v))"

definition items_of :: "json option eff \<Rightarrow> (json list \<times> json) eff" where
  "items_of call = eff_bind call (\<lambda>v. eff_of (unwrapItems v))"

definition action_of :: "json option eff \<Rightarrow> action_result eff" where
  "action_of call = eff_bind call (\<lambda>v. eff_of (unwrapAction v))"

definition just_items :: "(json list \<times> json) eff \<Rightarrow> json list eff" where
  "just_items call = eff_bind call (\<lambda>r. eff_ret (fst r))"

definition obj :: "(string \<times> json option) list \<Rightarrow> json option" where
  "obj kvs = Some (JObj (members kvs))"

abbreviation ostr :: "string option \<Rightarrow> json option" where
  "ostr s \<equiv> map_option JStr s"

definition server_path :: "string \<Rightarrow> string \<Rightarrow> string" where
  "server_path sid rest = ''/servers/'' @ sid @ rest"

section \<open>Normalisation\<close>

definition normalizeService :: "json option \<Rightarrow> thrown + json" where
  "normalizeService dto =
     (if dto = None \<or> dto = Some JNull then Inl TypeError
      else Inr (JObj (jset ''boot_status''
        (jnullish (jget ''boot_status'' dto)
          (Some (JStr (if jget ''enabled'' dto = Some (JBool True) then ''enabled''
                       else if jget ''enabled'' dto = Some (JBool False) then ''disabled''
                       else ''unknown'')))) (own_props dto))))"

definition normalizeCronjob :: "json option \<Rightarrow> thrown + json" where
  "normalizeCronjob dto =
     (if dto = None \<or> dto = Some JNull then Inl TypeError
      else (let enabled = jnullish (jget ''enabled'' dto)
                  (Some (JBool (jget ''status'' dto \<noteq> Some (JStr ''disabled'')))) in
        Inr (JObj
          (jset ''next_run'' (jnullish (jget ''next_run'' dto) (jget ''next_run_at'' dto))
          (jset ''last_run'' (jnullish (jget ''last_run'' dto) (jget ''last_run_at'' dto))
          (jset ''schedule'' (jnullish (jget ''schedule'' dto) (jget ''cron_expression'' dto))
          (jset ''enabled'' enabled (own_props dto))))))))"

definition normalizeBackup :: "json option \<Rightarrow> thrown + json" where
  "normalizeBackup dto =
     (if dto = None \<or> dto = Some JNull then Inl TypeError
      else Inr (JObj
        (jset ''size'' (jnullish (jget ''size'' dto) (jget ''size_bytes'' dto))
        (jset ''path'' (jnullish (jget ''path'' dto) (jget ''backup_path'' dto))
        (jset ''label'' (jnullish (jget ''label'' dto) (jget ''name'' dto)) (own_props dto))))))"

definition normalized_list ::
  "(json option \<Rightarrow> thrown + json) \<Rightarrow> json option eff \<Rightarrow> json list eff" where
  "normalized_list f call =
     eff_bind (just_items (items_of call)) (\<lambda>vs. eff_of (map_throwing (\<lambda>v. f (Some v)) vs))"

definition normalized_item :: "(json option \<Rightarrow> thrown + json) \<Rightarrow> json option eff \<Rightarrow> json eff" where
  "normalized_item f call = eff_bind (item_of call) (\<lambda>v. eff_of (f v))"

section \<open>serversApi\<close>

record server_query =
  sq_page :: "int option"
  sq_page_size :: "int option"
  sq_status :: "string option"
  sq_os :: "string option"
  sq_location :: "string option"
  sq_provider :: "string option"
  sq_search :: "string option"

definition set_num :: "string \<Rightarrow> int option \<Rightarrow> params \<Rightarrow> params" where
  "set_num k v ps = (case v of Some n \<Rightarrow> if n \<noteq> 0 then params_set k (show_int n) ps else ps | None \<Rightarrow> ps)"

definition set_str :: "string \<Rightarrow> string option \<Rightarrow> params \<Rightarrow> params" where
  "set_str k v ps = (case v of Some s \<Rightarrow> if s \<noteq> [] then params_set k s ps else ps | None \<Rightarrow> ps)"

definition server_params :: "server_query option \<Rightarrow> params" where
  "server_params q =
     (case q of None \<Rightarrow> []
      | Some p \<Rightarrow>
          set_str ''search'' (map_option trim (sq_search p))
          (set_str ''provider'' (sq_provider p)
          (set_str ''location'' (sq_location p)
          (set_str ''os'' (sq_os p)
          (set_str ''status'' (sq_status p)
          (set_num ''page_size'' (sq_page_size p)
          (set_num ''page'' (sq_page p) [])))))))"

record server_list_response =
  sl_data :: "json list"
  sl_total :: "int option"
  sl_page :: "int option"
  sl_page_size :: "int option"

definition servers_list :: "server \<Rightarrow> server_query option \<Rightarrow> server_list_response eff" where
  "servers_list srv q =
     eff_bind (items_of (api_get srv (''/servers'' @ query_suffix (server_params q))))
       (\<lambda>(items, meta). 
          let asked = (\<lambda>f d. Some (JNum (case Option.bind q f of None \<Rightarrow> d | Some n \<Rightarrow> n))) in
          eff_ret \<lparr>sl_data = items,
            sl_total = js_number (jnullish (jget ''total'' (Some meta)) (Some (JNum (int (length items))))),
            sl_page = js_number (jnullish (jget ''page'' (Some meta)) (asked sq_page 1)),
            sl_page_size = js_number (jnullish (jget ''page_size'' (Some meta)) (asked sq_page_size 20))\<rparr>)"

definition servers_get :: "server \<Rightarrow> string \<Rightarrow> json option eff" where
  "servers_get srv sid = item_of (api_get srv (server_path sid []))"

definition servers_create :: "server \<Rightarrow> json \<Rightarrow> json option eff" where
  "servers_create srv body = item_of (api_post srv ''/servers'' (Some body))"

definition servers_update :: "server \<Rightarrow> string \<Rightarrow> json \<Rightarrow> json option eff" where
  "servers_update srv sid body = item_of (api_put srv (server_path sid []) (Some body))"

definition servers_delete :: "server \<Rightarrow> string \<Rightarrow> json option eff" where
  "servers_delete srv sid = api_delete srv (server_path sid [])"

definition servers_metrics :: "server \<Rightarrow> string \<Rightarrow> json option eff" where
  "servers_metrics srv sid = item_of (api_get srv (server_path sid ''/metrics''))"

definition servers_status :: "server \<Rightarrow> string \<Rightarrow> json option eff" where
  "servers_status srv sid = item_of (api_get srv (server_path sid ''/status''))"

definition servers_agentStatus :: "server \<Rightarrow> string \<Rightarrow> json option eff" where
  "servers_agentStatus srv sid = item_of (api_get srv (server_path sid ''/agent-status''))"

record health_check =
  hc_healthy :: bool
  hc_message :: string

definition servers_healthCheck :: "server \<Rightarrow> string \<Rightarrow> health_check eff" where
  "servers_healthCheck srv sid =
     eff_bind (servers_agentStatus srv sid)
       (\<lambda>item. eff_bind (eff_of (jprop ''online'' item))
         (\<lambda>online. eff_ret \<lparr>hc_healthy = truthy online,
            hc_message = (if truthy online then ''agent online'' else ''agent offline'')\<rparr>))"

definition servers_agentToken :: "server \<Rightarrow> string \<Rightarrow> json option eff" where
  "servers_agentToken srv sid = item_of (api_post srv (server_path sid ''/agent-token'') None)"

definition servers_installScript :: "server \<Rightarrow> string \<Rightarrow> json option eff" where
  "servers_installScript srv sid =
     item_of (client_fetch srv ''POST'' (server_path sid ''/agent/install-script'') None
       \<lparr>init_headers = [], init_cache = Some ''no-store''\<rparr>)"

section \<open>commandsApi\<close>

definition isTerminalCommandStatus :: "json option \<Rightarrow> bool" where
  "isTerminalCommandStatus st \<longleftrightarrow>
     lower (trim (jstring (jnullish st (Some (JStr []))))) \<in>
       set [''completed'', ''success'', ''failed'', ''cancelled'', ''canceled'', ''timed_out'',
            ''timeout'', ''error'']"

definition commands_list :: "server \<Rightarrow> string \<Rightarrow> int \<Rightarrow> json list eff" where
  "commands_list srv sid limit =
     just_items (items_of (api_get srv (server_path sid (''/commands?limit='' @ show_int limit))))"

definition commands_get :: "server \<Rightarrow> string \<Rightarrow> string \<Rightarrow> json option eff" where
  "commands_get srv sid cid = item_of (api_get srv (server_path sid (''/commands/'' @ cid)))"

definition commands_cancel :: "server \<Rightarrow> string \<Rightarrow> string \<Rightarrow> action_result eff" where
  "commands_cancel srv sid cid = action_of (api_delete srv (server_path sid (''/commands/'' @ cid)))"

text \<open>
  The polling loop. \<open>clock k\<close> is what the \<open>k\<close>-th call of \<open>Date.now\<close> returns; the loop takes
  reading 0 as its start. A loop that never ends is \<^const>\<open>None\<close>.
\<close>

type_synonym clock = "nat \<Rightarrow> int"

record wait_options =
  wo_timeoutMs :: "int option"
  wo_intervalMs :: "int option"

definition timed_out :: "string \<Rightarrow> thrown" where
  "timed_out cid = ApiError 408 [] (''Timed out while waiting for command '' @ cid) None"

definition poll_once :: "server \<Rightarrow> string \<Rightarrow> string \<Rightarrow> (json option \<times> bool) eff" where
  "poll_once srv sid cid =
     eff_bind (commands_get srv sid cid)
       (\<lambda>c. eff_bind (eff_of (jprop ''status'' c))
         (\<lambda>st. eff_ret (c, isTerminalCommandStatus st)))"

partial_function (option) wait_loop ::
  "server \<Rightarrow> clock \<Rightarrow> string \<Rightarrow> string \<Rightarrow> int \<Rightarrow> nat \<Rightarrow> world
     \<Rightarrow> ((thrown + json option) \<times> world) option" where
  "wait_loop srv clock sid cid timeoutMs k w =
     (if clock k - clock 0 < timeoutMs
      then (case poll_once srv sid cid w of
              (Inl e, w') \<Rightarrow> Some (Inl e, w')
            | (Inr (c, fin), w') \<Rightarrow>
                if fin then Some (Inr c, w')
                else wait_loop srv clock sid cid timeoutMs (Suc k) w')
      else Some (Inl (timed_out cid), w))"

definition timeout_of :: "wait_options option \<Rightarrow> int" where
  "timeout_of opts = nullish (Option.bind opts wo_timeoutMs) 60000"

definition interval_of :: "wait_options option \<Rightarrow> int" where
  "interval_of opts = nullish (Option.bind opts wo_intervalMs) 1500"

definition waitForResult ::
  "server \<Rightarrow> clock \<Rightarrow> string \<Rightarrow> string \<Rightarrow> wait_options option \<Rightarrow> world
     \<Rightarrow> ((thrown + json option) \<times> world) option" where
  "waitForResult srv clock sid cid opts w = wait_loop srv clock sid cid (timeout_of opts) 1 w"

text \<open>
  \<open>window.setTimeout\<close> fires no earlier than asked, so between two readings of the clock the
  loop lets at least its interval pass.
\<close>

definition sleeps :: "clock \<Rightarrow> int \<Rightarrow> bool" where
  "sleeps clock interval \<longleftrightarrow> (\<forall>k. clock (Suc k) \<ge> clock k + (if k = 0 then 0 else interval))"

section \<open>resolveCommandAction\<close>

record resolved_action = action_result +
  ar_raw_output :: "json option"

definition resolved :: "action_result \<Rightarrow> json option \<Rightarrow> resolved_action" where
  "resolved a raw = \<lparr>ar_command = ar_command a, ar_result = ar_result a, ar_meta = ar_meta a,
     ar_raw_output = raw\<rparr>"

definition text_of :: "json option \<Rightarrow> string option" where
  "text_of v = (case v of Some (JStr s) \<Rightarrow> if trim s = [] then None else Some (trim s) | _ \<Rightarrow> None)"

definition failure_message :: "json option \<Rightarrow> thrown + string" where
  "failure_message completed =
     (let typedResult = jget ''result'' completed;
          summary = jget ''summary'' typedResult in
      if (case summary of None \<Rightarrow> False | Some JNull \<Rightarrow> False | Some (JStr s) \<Rightarrow> False | Some _ \<Rightarrow> True)
      then Inl TypeError
      else Inr (case text_of summary of Some m \<Rightarrow> m | None \<Rightarrow>
        (case text_of (jget ''preview'' typedResult) of Some m \<Rightarrow> m | None \<Rightarrow>
        (case text_of (jget ''raw_output'' completed) of Some m \<Rightarrow> m | None \<Rightarrow>
        (case text_of (jget ''output_preview'' completed) of Some m \<Rightarrow> m | None \<Rightarrow>
           ''Command '' @ jstring (jget ''command'' completed) @ '' failed with status '' @
           jstring (jget ''status'' completed))))))"

definition command_failed :: "json option \<Rightarrow> bool" where
  "command_failed completed \<longleftrightarrow>
     upper (trim (jstring (jnullish (jget ''status'' completed) (Some (JStr []))))) \<in>
       set [''FAILED'', ''CANCELLED'', ''CANCELED'', ''TIMEOUT'', ''TIMED_OUT'', ''ERROR''] \<or>
     lower (trim (jstring (jnullish (jget ''status'' (jget ''result'' completed)) (Some (JStr [])))))
       = ''failed''"

definition completed_action :: "action_result \<Rightarrow> json option \<Rightarrow> thrown + resolved_action" where
  "completed_action a completed =
     (if command_failed completed
      then (case failure_message completed of
              Inl e \<Rightarrow> Inl e
            | Inr m \<Rightarrow> Inl (ApiError 500 m m None))
      else Inr (resolved (a\<lparr>ar_command := completed,
             ar_result := jnullish (jget ''result'' completed) (ar_result a)\<rparr>)
             (jnullish (jget ''raw_output'' completed) (jget ''output_preview'' completed))))"

definition resolveCommandAction ::
  "server \<Rightarrow> clock \<Rightarrow> string \<Rightarrow> action_result eff \<Rightarrow> wait_options option \<Rightarrow> world
     \<Rightarrow> ((thrown + resolved_action) \<times> world) option" where
  "resolveCommandAction srv clock sid action opts w =
     (case action w of
        (Inl e, w1) \<Rightarrow> Some (Inl e, w1)
      | (Inr a, w1) \<Rightarrow>
          let cid = jget ''id'' (ar_command a) in
          if \<not> truthy cid then Some (Inr (resolved a None), w1)
          else (case waitForResult srv clock sid (jstring cid) opts w1 of
                  None \<Rightarrow> None
                | Some (Inl e, w2) \<Rightarrow> Some (Inl e, w2)
                | Some (Inr completed, w2) \<Rightarrow> Some (completed_action a completed, w2)))"

section \<open>Requests a poll sends\<close>

lemma client_sent_le: "length (sent (snd (client_fetch srv meth path body init w))) \<le> length (sent w) + 3"
  by (rule request_courses [of srv meth path body init w]) (simp_all add: request_no_refresh)

lemma eff_of_world [simp]: "snd (eff_of r w) = w"
  by (simp add: eff_of_def)

lemma bind_eff_of_world [simp]: "snd (eff_bind m (\<lambda>v. eff_of (f v)) w) = snd (m w)"
  by (auto simp: eff_bind_def eff_of_def split: prod.split sum.split)

lemma poll_sent_le: "length (sent (snd (poll_once srv sid cid w))) \<le> length (sent w) + 3"
proof -
  have "snd (poll_once srv sid cid w)
      = snd (client_fetch srv ''GET'' (server_path sid (''/commands/'' @ cid)) None no_init w)"
    by (auto simp: poll_once_def commands_get_def item_of_def api_get_def eff_bind_def eff_of_def
        eff_ret_def split: prod.split sum.split)
  then show ?thesis using client_sent_le by simp
qed

lemma poll_terminal:
  "poll_once srv sid cid w = (Inr (c, fin), w') \<Longrightarrow>
     fin = isTerminalCommandStatus (jget ''status'' c) \<and> c \<noteq> None"
  by (auto simp: poll_once_def eff_bind_def eff_of_def eff_ret_def jprop_def
      split: prod.splits sum.splits if_splits)

section \<open>The polling loop ends\<close>

lemma sleeps_later:
  assumes "sleeps clock interval"
  shows "clock (Suc j) \<ge> clock 0 + int j * interval"
proof (induction j)
  case 0
  then show ?case using assms unfolding sleeps_def by (metis add.right_neutral mult_zero_left of_nat_0)
next
  case (Suc j)
  have "clock (Suc (Suc j)) \<ge> clock (Suc j) + interval"
    using assms unfolding sleeps_def by (metis nat.distinct(1))
  with Suc show ?case by (simp add: algebra_simps)
qed

lemma wait_loop_ends:
  assumes "sleeps clock interval" "0 < interval"
  shows "timeoutMs \<le> int (j + n) * interval \<Longrightarrow> \<exists>r w'. wait_loop srv clock sid cid timeoutMs (Suc j) w = Some (r, w') \<and>
    length (sent w') \<le> length (sent w) + 3 * n"
proof (induction n arbitrary: j w)
  case 0
  then have "\<not> clock (Suc j) - clock 0 < timeoutMs" using sleeps_later [OF assms(1), of j] by simp
  then show ?case by (simp add: wait_loop.simps)
next
  case (Suc n)
  show ?case
  proof (cases "clock (Suc j) - clock 0 < timeoutMs")
    case False
    then show ?thesis by (simp add: wait_loop.simps)
  next
    case True
    obtain r w1 where p: "poll_once srv sid cid w = (r, w1)" by fastforce
    then have l: "length (sent w1) \<le> length (sent w) + 3" using poll_sent_le [of srv sid cid w] by simp
    have "\<exists>r w'. wait_loop srv clock sid cid timeoutMs (Suc (Suc j)) w1 = Some (r, w') \<and>
        length (sent w') \<le> length (sent w1) + 3 * n"
      using Suc.IH [of "Suc j" w1] Suc.prems by (simp add: algebra_simps)
    then obtain q w2 where q: "wait_loop srv clock sid cid timeoutMs (Suc (Suc j)) w1 = Some (q, w2)"
      "length (sent w2) \<le> length (sent w1) + 3 * n" by blast
    show ?thesis using True p l q
      by (subst wait_loop.simps) (auto split: sum.split)
  qed
qed

text \<open>
  C6. Waiting for a command ends: with a positive interval and a clock whose timers never fire early,
  the loop returns or throws after at most one poll per interval of its time limit (and one
  more), each poll at most three requests. The last sleep may go beyond the limit.
\<close>

theorem wait_ends:
  assumes "sleeps clock (interval_of opts)" "0 < interval_of opts" 
  shows "\<exists>r w'. waitForResult srv clock sid cid opts w = Some (r, w') \<and>
    length (sent w') \<le> length (sent w) + 3 * (nat (timeout_of opts div interval_of opts) + 1)"
proof -
  let ?i = "interval_of opts" and ?t = "timeout_of opts"
  have "?t \<le> (?t div ?i + 1) * ?i"
    using assms(2) by (metis add.commute distrib_right le_less mult_1 pos_mod_bound
        add_le_cancel_left div_mult_mod_eq)
  also have "\<dots> \<le> int (0 + (nat (?t div ?i) + 1)) * ?i"
    using assms(2) by (intro mult_right_mono) auto
  finally show ?thesis
    unfolding waitForResult_def
    using wait_loop_ends [OF assms, of ?t 0 "nat (?t div ?i) + 1" srv sid cid w] by simp
qed

definition steady_clock :: clock where
  "steady_clock k = 1700000000000 + 1500 * (int k - 1)"

theorem wait_ends_witness:
  "\<exists>r w'. waitForResult refusing_server steady_clock ''s1'' ''c1'' None sample_world = Some (r, w') \<and>
     length (sent w') \<le> 123"
proof -
  have "sleeps steady_clock (interval_of None)" "0 < interval_of None"
    by (simp_all add: sleeps_def steady_clock_def interval_of_def nullish_def)
  from wait_ends [OF this, of refusing_server "''s1''" "''c1''" sample_world] show ?thesis
    by (simp add: timeout_of_def interval_of_def nullish_def sample_world_def)
qed

definition ended :: "json option \<Rightarrow> bool" where
  "ended c \<longleftrightarrow> c \<noteq> None \<and> isTerminalCommandStatus (jget ''status'' c)"

lemma wait_loop_result:
  assumes "wait_loop srv clock sid cid timeoutMs k w = Some out" "fst out = Inr c"
  shows "ended c"
proof -
  have "\<forall>c. fst out = Inr c \<longrightarrow> ended c"
  proof (rule wait_loop.raw_induct [OF _ assms(1), of "\<lambda>srv clock sid cid t k w out. \<forall>c. fst out = Inr c \<longrightarrow> ended c"])
    fix loop srv clock sid cid timeoutMs k w and out :: "(thrown + json option) \<times> world"
    assume IH: "\<And>srv clock sid cid t k w y. loop srv clock sid cid t k w = Some y
        \<Longrightarrow> \<forall>c. fst y = Inr c \<longrightarrow> ended c"
      and out: "(if clock k - clock 0 < timeoutMs
         then case poll_once srv sid cid w of (Inl e, w') \<Rightarrow> Some (Inl e, w')
              | (Inr (c, fin), w') \<Rightarrow> if fin then Some (Inr c, w')
                  else loop srv clock sid cid timeoutMs (Suc k) w'
         else Some (Inl (timed_out cid), w)) = Some out"
    obtain r w1 where p: "poll_once srv sid cid w = (r, w1)" by fastforce
    show "\<forall>c. fst out = Inr c \<longrightarrow> ended c"
    proof (cases r)
      case (Inl e)
      with out p show ?thesis by (auto split: if_splits)
    next
      case (Inr a)
      obtain c fin where a: "a = (c, fin)" by fastforce
      with Inr p have "fin \<Longrightarrow> ended c" using poll_terminal by (auto simp: ended_def)
      with Inr a p out IH show ?thesis by (auto split: if_splits)
    qed
  qed
  with assms(2) show ?thesis by blast
qed

end
