(* ===== verification/ApiHooks.thy ===== *)
theory ApiHooks
  imports ServerApi
begin

text \<open>
  The shape of the data hooks: what \<open>useQuery\<close> and \<open>useMutation\<close> are called with. A query has a
  key, an endpoint and, when the hook catches, the value it falls back to; a mutation has its
  request and the keys it invalidates when it succeeds. Whether a key is invalidated by another is
  decided by React Query, which documents that it matches by prefix; the matching is an argument
  and the documented behaviour a hypothesis.
\<close>

section \<open>Queries and mutations\<close>

type_synonym query_key = "json list"

record query =
  qu_key :: query_key
  qu_enabled :: bool
  qu_endpoint :: string
  qu_read :: "json \<Rightarrow> thrown + json"
  qu_catch :: "json option"
  qu_interval :: "int option"

record mutation =
  mu_endpoint :: string
  mu_options :: fetch_options
  mu_keys :: "query_key list"

definition get_query :: "query_key \<Rightarrow> bool \<Rightarrow> string \<Rightarrow> query" where
  "get_query k en endpoint = \<lparr>qu_key = k, qu_enabled = en, qu_endpoint = endpoint, qu_read = Inr,
     qu_catch = None, qu_interval = None\<rparr>"

definition or_catch :: "json \<Rightarrow> query \<Rightarrow> query" where
  "or_catch d q = q\<lparr>qu_catch := Some d\<rparr>"

definition every :: "int \<Rightarrow> query \<Rightarrow> query" where
  "every ms q = q\<lparr>qu_interval := Some ms\<rparr>"

definition send :: "string \<Rightarrow> string \<Rightarrow> payload \<Rightarrow> query_key list \<Rightarrow> mutation" where
  "send meth endpoint body ks =
     \<lparr>mu_endpoint = endpoint, mu_options = \<lparr>opt_method = meth, opt_headers = [], opt_body = body\<rparr>, mu_keys = ks\<rparr>"

text \<open>\<open>JSON.stringify\<close> of an object literal.\<close>

definition body :: "(string \<times> json option) list \<Rightarrow> payload" where
  "body kvs = TextBody (json_text (JObj (members kvs)))"

definition get_options :: fetch_options where
  "get_options = \<lparr>opt_method = ''GET'', opt_headers = [], opt_body = NoBody\<rparr>"

definition query_fn :: "server \<Rightarrow> env \<Rightarrow> query \<Rightarrow> json eff" where
  "query_fn srv e q =
     (let call = eff_bind (apiFetch srv e (qu_endpoint q) get_options) (\<lambda>v. eff_of (qu_read q v)) in
      case qu_catch q of None \<Rightarrow> call | Some d \<Rightarrow> eff_catch call (\<lambda>_. eff_ret d))"

definition mutate :: "server \<Rightarrow> env \<Rightarrow> mutation \<Rightarrow> json eff" where
  "mutate srv e m = apiFetch srv e (mu_endpoint m) (mu_options m)"

section \<open>Invalidation\<close>

definition prefix_matching :: "(query_key \<Rightarrow> query_key \<Rightarrow> bool) \<Rightarrow> bool" where
  "prefix_matching matches \<longleftrightarrow> (\<forall>p k. matches p k = (take (length p) k = p))"

definition invalidated ::
  "(query_key \<Rightarrow> query_key \<Rightarrow> bool) \<Rightarrow> mutation \<Rightarrow> thrown + json \<Rightarrow> query_key \<Rightarrow> bool" where
  "invalidated matches m r k =
     (case r of Inl _ \<Rightarrow> False | Inr _ \<Rightarrow> list_ex (\<lambda>p. matches p k) (mu_keys m))"

lemma invalidated_iff:
  "prefix_matching matches \<Longrightarrow>
     invalidated matches m r k \<longleftrightarrow> (\<exists>v. r = Inr v) \<and> (\<exists>p \<in> set (mu_keys m). take (length p) k = p)"
  by (auto simp: invalidated_def prefix_matching_def list_ex_iff split: sum.split)

text \<open>The documented matching itself, for the witnesses.\<close>

definition by_prefix :: "query_key \<Rightarrow> query_key \<Rightarrow> bool" where
  "by_prefix p k \<longleftrightarrow> take (length p) k = p"

lemma by_prefix_matching: "prefix_matching by_prefix"
  by (simp add: prefix_matching_def by_prefix_def)

lemma send_simps [simp]:
  "mu_keys (send meth endpoint b ks) = ks" "mu_endpoint (send meth endpoint b ks) = endpoint"
  by (simp_all add: send_def)

lemma query_simps [simp]:
  "qu_key (get_query k en endpoint) = k" "qu_endpoint (get_query k en endpoint) = endpoint"
  "qu_enabled (get_query k en endpoint) = en"
  "qu_key (or_catch d q) = qu_key q" "qu_endpoint (or_catch d q) = qu_endpoint q"
  "qu_key (every ms q) = qu_key q" "qu_endpoint (every ms q) = qu_endpoint q"
  by (simp_all add: get_query_def or_catch_def every_def)

section \<open>Addresses with encoded components\<close>

text \<open>
  \<open>?k=${encodeURIComponent(v)}&...\<close>. A number or a boolean is left as it is by the encoding, so
  the templates that insert one without encoding it are written the same way.
\<close>

definition uri_query :: "(string \<times> string) list \<Rightarrow> string" where
  "uri_query ps = CHR ''?'' # join_with ''&'' (map (\<lambda>(k, v). k @ ''='' @ encodeURIComponent v) ps)"

lemma encodeURIComponent_chars:
  "x \<in> set (encodeURIComponent s) \<Longrightarrow> x = CHR 0x25 \<or> uri_unreserved x"
  unfolding encodeURIComponent_def by (auto split: if_splits dest!: pct_chars simp: uri_unreserved_def)

lemma encodeURIComponent_safe:
  "x \<in> set (encodeURIComponent s) \<Longrightarrow>
     x \<noteq> CHR ''&'' \<and> x \<noteq> CHR ''='' \<and> x \<noteq> CHR ''?'' \<and> x \<noteq> CHR ''/'' \<and> x \<noteq> CHR ''+'' \<and> \<not> is_ws x"
  by (drule encodeURIComponent_chars) (auto simp: uri_unreserved_def is_alnum_def is_ws_def)

lemma form_decode_encodeURIComponent [simp]: "form_decode (encodeURIComponent s) = s"
proof -
  have "map (\<lambda>c. if c = CHR ''+'' then CHR '' '' else c) (encodeURIComponent s) = encodeURIComponent s"
    by (rule map_idI) (auto dest: encodeURIComponent_safe)
  then show ?thesis by (simp only: form_decode_def decode_encodeURIComponent)
qed

text \<open>A parameter name the templates write: letters and underscores.\<close>

definition param_name :: "string \<Rightarrow> bool" where
  "param_name k \<longleftrightarrow> k \<noteq> [] \<and> list_all (\<lambda>c. is_alnum c \<or> c = CHR ''_'') k"

lemma param_name_safe:
  "param_name k \<Longrightarrow> x \<in> set k \<Longrightarrow>
     x \<noteq> CHR ''&'' \<and> x \<noteq> CHR ''='' \<and> x \<noteq> CHR ''?'' \<and> x \<noteq> CHR ''+'' \<and> x \<noteq> CHR 0x25 \<and> \<not> is_ws x"
  by (auto simp: param_name_def list_all_iff is_alnum_def is_ws_def)

lemma pct_decode_no_pct: "CHR 0x25 \<notin> set s \<Longrightarrow> pct_decode s = s"
  by (induction s) (auto simp: pct_decode_plain)

lemma form_decode_name: "param_name k \<Longrightarrow> form_decode k = k"
proof -
  assume k: "param_name k"
  then have "map (\<lambda>c. if c = CHR ''+'' then CHR '' '' else c) k = k"
    by (intro map_idI) (auto dest: param_name_safe)
  moreover have "CHR 0x25 \<notin> set k" using k param_name_safe by blast
  ultimately show ?thesis by (simp add: form_decode_def pct_decode_no_pct)
qed

lemma pair_parse_uri:
  "param_name k \<Longrightarrow> pair_parse (k @ ''='' @ encodeURIComponent v) = (k, v)"
proof -
  assume k: "param_name k"
  then have "\<forall>x \<in> set k. x \<noteq> CHR ''=''" using param_name_safe by blast
  then have "takeWhile (\<lambda>c. c \<noteq> CHR ''='') (k @ ''='' @ encodeURIComponent v) = k"
    "drop 1 (dropWhile (\<lambda>c. c \<noteq> CHR ''='') (k @ ''='' @ encodeURIComponent v)) = encodeURIComponent v"
    by (simp_all add: takeWhile_append2 dropWhile_append2)
  then show ?thesis by (simp add: pair_parse_def form_decode_name k)
qed

definition uri_pair :: "string \<times> string \<Rightarrow> string" where
  "uri_pair p = fst p @ ''='' @ encodeURIComponent (snd p)"

lemma uri_query_pairs: "uri_query ps = CHR ''?'' # join_with ''&'' (map uri_pair ps)"
  by (simp add: uri_query_def uri_pair_def [abs_def] case_prod_unfold)

lemma uri_pair_chars:
  assumes "param_name (fst p)" "x \<in> set (uri_pair p)"
  shows "x \<noteq> CHR ''&'' \<and> x \<noteq> CHR ''?'' \<and> \<not> is_ws x"
proof -
  consider "x \<in> set (fst p)" | "x = CHR ''=''" | "x \<in> set (encodeURIComponent (snd p))"
    using assms(2) by (auto simp: uri_pair_def)
  then show ?thesis
  proof cases
    case 1
    then show ?thesis using param_name_safe [OF assms(1)] by blast
  next
    case 2
    then show ?thesis by (simp add: is_ws_def)
  next
    case 3
    then show ?thesis using encodeURIComponent_safe by blast
  qed
qed

lemma uri_query_text:
  assumes "ps \<noteq> []" "\<forall>p \<in> set ps. param_name (fst p)"
  shows "params_parse (tl (uri_query ps)) = ps" "CHR ''?'' \<notin> set (tl (uri_query ps))"
    "tl (uri_query ps) \<noteq> []" "\<forall>x \<in> set (tl (uri_query ps)). \<not> is_ws x"
proof -
  have no_amp: "\<forall>l \<in> set (map uri_pair ps). CHR ''&'' \<notin> set l"
    using assms(2) uri_pair_chars by fastforce
  have sp: "split_on (CHR ''&'') (join_with ''&'' (map uri_pair ps)) = map uri_pair ps"
    using assms(1) no_amp by (intro split_join) auto
  have ne: "filter (\<lambda>p. p \<noteq> []) (map uri_pair ps) = map uri_pair ps"
    by (rule filter_True) (auto simp: uri_pair_def)
  have parse: "pair_parse (uri_pair p) = p" if "p \<in> set ps" for p
    using that assms(2) pair_parse_uri [of "fst p" "snd p"] by (simp add: uri_pair_def)
  have "map pair_parse (map uri_pair ps) = ps"
    unfolding map_map by (rule map_idI) (simp add: parse)
  then show "params_parse (tl (uri_query ps)) = ps"
    by (simp add: uri_query_pairs params_parse_def sp ne del: map_map)
  have safe: "x \<noteq> CHR ''?'' \<and> \<not> is_ws x" if x: "x \<in> set (join_with ''&'' (map uri_pair ps))" for x
  proof -
    from join_with_chars [OF x] consider "x = CHR ''&''" | p where "p \<in> set ps" "x \<in> set (uri_pair p)"
      by auto
    then show ?thesis using assms(2) uri_pair_chars by cases (simp add: is_ws_def, blast)
  qed
  then show "CHR ''?'' \<notin> set (tl (uri_query ps))" "\<forall>x \<in> set (tl (uri_query ps)). \<not> is_ws x"
    by (auto simp: uri_query_pairs)
  show "tl (uri_query ps) \<noteq> []"
    using assms(1) by (cases ps) (auto simp: uri_query_pairs uri_pair_def join_with_Cons elim!: join_with.elims)
qed

lemma applyEndpoint_uri_query:
  assumes "starts_with ''/'' p" "CHR ''?'' \<notin> set p" "starts_with ''/'' (pathname base)"
    and "ps \<noteq> []" "\<forall>p \<in> set ps. param_name (fst p)"
  shows "search (applyEndpoint base (p @ uri_query ps)) = ps \<and>
    pathname (applyEndpoint base (p @ uri_query ps)) = drop_trailing_slash (pathname base) @ p"
proof -
  obtain qs where q: "uri_query ps = CHR ''?'' # qs" by (simp add: uri_query_def)
  note t = uri_query_text [OF assms(4,5), unfolded q list.sel]
  obtain p' where p': "p = CHR ''/'' # p'" using assms(1) by (auto simp: starts_with_iff)
  have "\<not> is_ws (last qs)" using t(3,4) by simp
  then have tr: "trim (p @ CHR ''?'' # qs) = p @ CHR ''?'' # qs"
    using t(3) by (intro trim_fix) (simp add: p' is_ws_def)
  have sp: "split_on (CHR ''?'') (p @ CHR ''?'' # qs) = [p, qs]"
    using assms(2) t(2) by (simp add: split_on_append split_on_no_sep)
  have "starts_with ''/'' (drop_trailing_slash (pathname base) @ p)"
    using assms(3) by (auto simp: drop_trailing_slash_def starts_with_iff p')
  then show ?thesis
    unfolding q using t(1,3) by (simp add: applyEndpoint_def Let_def tr sp set_pathname_def)
qed

end
