(* ===== verification/DockerApi.thy ===== *)
theory DockerApi
  imports ApiHooks
begin

text \<open>
  \<open>features/docker/api/useDockerHooks.ts\<close>: every query and mutation about the Docker runtime of an
  environment, with its key, its request and what it invalidates. A file to upload is its text.
  The two hooks that follow a web socket are in the theory of live streams.
\<close>

section \<open>Keys\<close>

definition docker_key :: "string \<Rightarrow> string \<Rightarrow> string list \<Rightarrow> query_key" where
  "docker_key family eid rest = map JStr ([''docker'', family, eid] @ rest)"

definition dk_containers :: "string \<Rightarrow> query_key" where
  "dk_containers eid = docker_key ''containers'' eid []"

definition dk_images :: "string \<Rightarrow> query_key" where
  "dk_images eid = docker_key ''images'' eid []"

definition dk_containerLogs :: "string \<Rightarrow> string \<Rightarrow> query_key" where
  "dk_containerLogs eid cid = docker_key ''containers'' eid [cid, ''logs'']"

definition dk_containerConfig :: "string \<Rightarrow> string \<Rightarrow> query_key" where
  "dk_containerConfig eid cid = docker_key ''containers'' eid [cid, ''config'']"

definition dk_containerStats :: "string \<Rightarrow> string \<Rightarrow> query_key" where
  "dk_containerStats eid cid = docker_key ''containers'' eid [cid, ''stats'']"

definition dk_containerFiles :: "string \<Rightarrow> string \<Rightarrow> string \<Rightarrow> query_key" where
  "dk_containerFiles eid cid path = docker_key ''containers'' eid [cid, ''files'', path]"

definition dk_stackDetail :: "string \<Rightarrow> string \<Rightarrow> query_key" where
  "dk_stackDetail eid stack = docker_key ''stack'' eid [stack]"

definition dk_stackServiceDetail :: "string \<Rightarrow> string \<Rightarrow> string \<Rightarrow> query_key" where
  "dk_stackServiceDetail eid stack svc = docker_key ''stack-service'' eid [stack, svc]"

definition dk_secrets :: "string \<Rightarrow> query_key" where
  "dk_secrets eid = docker_key ''secrets'' eid []"

definition dk_topology :: "string \<Rightarrow> query_key" where
  "dk_topology eid = docker_key ''topology'' eid []"

definition dk_audit :: "string \<Rightarrow> query_key" where
  "dk_audit eid = docker_key ''audit'' eid []"

definition dk_buildHistory :: "string \<Rightarrow> query_key" where
  "dk_buildHistory eid = docker_key ''build-history'' eid []"

definition dk_autoheal :: "string \<Rightarrow> query_key" where
  "dk_autoheal eid = docker_key ''autoheal'' eid []"

definition dk_networks :: "string \<Rightarrow> query_key" where
  "dk_networks eid = docker_key ''networks'' eid []"

definition dk_volumes :: "string \<Rightarrow> query_key" where
  "dk_volumes eid = docker_key ''volumes'' eid []"

definition dk_stacks :: "string \<Rightarrow> query_key" where
  "dk_stacks eid = docker_key ''stacks'' eid []"

definition dk_volumeFiles :: "string \<Rightarrow> string \<Rightarrow> string \<Rightarrow> query_key" where
  "dk_volumeFiles eid vol path = docker_key ''volumes'' eid [vol, ''files'', path]"

definition dk_diskUsage :: "string \<Rightarrow> query_key" where
  "dk_diskUsage eid = docker_key ''disk-usage'' eid []"

named_theorems docker_keys \<open>the keys of the Docker hooks\<close>

lemmas [docker_keys] = docker_key_def dk_containers_def dk_images_def dk_containerLogs_def
  dk_containerConfig_def dk_containerStats_def dk_containerFiles_def dk_stackDetail_def
  dk_stackServiceDetail_def dk_secrets_def dk_topology_def dk_audit_def dk_buildHistory_def
  dk_autoheal_def dk_networks_def dk_volumes_def dk_stacks_def dk_volumeFiles_def dk_diskUsage_def

section \<open>Addresses\<close>

definition docker_path :: "string \<Rightarrow> string \<Rightarrow> string" where
  "docker_path eid rest = ''/v1/environments/'' @ eid @ ''/docker'' @ rest"

definition seg :: "string \<Rightarrow> string" where
  "seg s = CHR ''/'' # encodeURIComponent s"

definition flag :: "bool \<Rightarrow> string" where
  "flag b = (if b then ''true'' else ''false'')"

abbreviation strs :: "string list \<Rightarrow> json" where
  "strs ss \<equiv> JArr (map JStr ss)"

abbreviation dict :: "(string \<times> string) list \<Rightarrow> json" where
  "dict kvs \<equiv> JObj (map (\<lambda>(k, v). (k, JStr v)) kvs)"

section \<open>Containers\<close>

definition useContainers :: "string \<Rightarrow> bool \<Rightarrow> query" where
  "useContainers eid everything = or_catch (JArr []) (get_query (dk_containers eid @ [JObj [(''all'', JBool everything)]])
     (eid \<noteq> []) (docker_path eid (''/containers?all='' @ flag everything)))"

definition useContainerAction :: "string \<Rightarrow> string \<Rightarrow> string \<Rightarrow> json option \<Rightarrow> mutation" where
  "useContainerAction eid cid action payload = send ''POST''
     (docker_path eid (''/containers/'' @ cid @ ''/'' @ action))
     (case payload of None \<Rightarrow> NoBody | Some p \<Rightarrow> TextBody (json_text p))
     [dk_containers eid, dk_images eid, dk_audit eid, dk_topology eid]"

definition useContainerLogs :: "string \<Rightarrow> string \<Rightarrow> int \<Rightarrow> query" where
  "useContainerLogs eid cid tail = every 5000 (or_catch (JObj [(''logs'', JStr [])])
     (get_query (dk_containerLogs eid cid) (eid \<noteq> [] \<and> cid \<noteq> [])
       (docker_path eid (''/containers/'' @ cid @ ''/logs?tail='' @ show_int tail))))"

definition useContainerExec :: "string \<Rightarrow> string \<Rightarrow> string list \<Rightarrow> mutation" where
  "useContainerExec eid cid cmd = send ''POST'' (docker_path eid (''/containers/'' @ cid @ ''/exec''))
     (body [(''command'', Some (strs cmd))]) []"

definition useContainerConfig :: "string \<Rightarrow> string \<Rightarrow> query" where
  "useContainerConfig eid cid = get_query (dk_containerConfig eid cid) (eid \<noteq> [] \<and> cid \<noteq> [])
     (docker_path eid (''/containers/'' @ cid))"

definition useContainerStats :: "string \<Rightarrow> string \<Rightarrow> query" where
  "useContainerStats eid cid = every 5000 (get_query (dk_containerStats eid cid) (eid \<noteq> [] \<and> cid \<noteq> [])
     (docker_path eid (''/containers/'' @ cid @ ''/stats'')))"

definition useDockerSystemLogs :: "string \<Rightarrow> int \<Rightarrow> query" where
  "useDockerSystemLogs eid ls = every 15000 (or_catch (JObj [(''raw_output'', JStr [])])
     (get_query (docker_key ''system-logs'' eid [] @ [JNum ls]) (eid \<noteq> [])
       (docker_path eid (''/system-logs?lines='' @ show_int ls))))"

definition useDockerDiskUsage :: "string \<Rightarrow> query" where
  "useDockerDiskUsage eid = get_query (dk_diskUsage eid) (eid \<noteq> []) (docker_path eid ''/disk-usage'')"

definition useReclaimDiskSpace :: "string \<Rightarrow> mutation" where
  "useReclaimDiskSpace eid = send ''POST'' (docker_path eid ''/system/prune'') NoBody
     [dk_diskUsage eid, dk_containers eid, dk_images eid, dk_networks eid, dk_volumes eid,
      dk_topology eid, dk_audit eid]"

definition useDockerSwarmStatus :: "string \<Rightarrow> query" where
  "useDockerSwarmStatus eid = every 30000 (get_query (docker_key ''swarm-status'' eid []) (eid \<noteq> [])
     (docker_path eid ''/swarm/status''))"

definition useContainerFiles :: "string \<Rightarrow> string \<Rightarrow> string \<Rightarrow> query" where
  "useContainerFiles eid cid path = get_query (dk_containerFiles eid cid path) (eid \<noteq> [] \<and> cid \<noteq> [])
     (docker_path eid (''/containers/'' @ cid @ ''/files'') @ uri_query [(''path'', path)])"

definition useReadContainerFile :: "string \<Rightarrow> string \<Rightarrow> string \<Rightarrow> query" where
  "useReadContainerFile eid cid path =
     get_query (dk_containerFiles eid cid path @ [JStr ''content'']) (eid \<noteq> [] \<and> cid \<noteq> [] \<and> path \<noteq> [])
     (docker_path eid (''/containers/'' @ cid @ ''/files/read'') @ uri_query [(''path'', path)])"

definition useSaveContainerFile :: "string \<Rightarrow> string \<Rightarrow> string \<Rightarrow> string \<Rightarrow> mutation" where
  "useSaveContainerFile eid cid path content = send ''POST''
     (docker_path eid (''/containers/'' @ cid @ ''/files/save''))
     (body [(''path'', Some (JStr path)), (''content'', Some (JStr content))])
     [dk_containerFiles eid cid path]"

record DockerContainerCreateRequest =
  cr_name :: "string option"
  cr_image :: string
  cr_command :: "string list option"
  cr_environment :: "(string \<times> string) list option"
  cr_ports :: "string list option"
  cr_volumes :: "string list option"
  cr_labels :: "(string \<times> string) list option"
  cr_restart_policy :: "string option"
  cr_registry_id :: "string option"
  cr_auto_start :: "bool option"
  cr_healthcheck_command :: "string option"
  cr_healthcheck_interval :: "string option"
  cr_healthcheck_timeout :: "string option"
  cr_healthcheck_start_period :: "string option"
  cr_healthcheck_retries :: "int option"
  cr_healthcheck_disabled :: "bool option"

definition healthcheck_members :: "DockerContainerCreateRequest \<Rightarrow> (string \<times> json option) list" where
  "healthcheck_members p =
     [(''healthcheck_command'', ostr (cr_healthcheck_command p)),
      (''healthcheck_interval'', ostr (cr_healthcheck_interval p)),
      (''healthcheck_timeout'', ostr (cr_healthcheck_timeout p)),
      (''healthcheck_start_period'', ostr (cr_healthcheck_start_period p)),
      (''healthcheck_retries'', map_option JNum (cr_healthcheck_retries p)),
      (''healthcheck_disabled'', map_option JBool (cr_healthcheck_disabled p))]"

definition create_members :: "DockerContainerCreateRequest \<Rightarrow> (string \<times> json option) list" where
  "create_members p =
     [(''name'', ostr (cr_name p)), (''image'', Some (JStr (cr_image p))),
      (''command'', Some (strs (nullish (cr_command p) []))),
      (''environment'', Some (dict (nullish (cr_environment p) []))),
      (''ports'', Some (strs (nullish (cr_ports p) []))),
      (''volumes'', Some (strs (nullish (cr_volumes p) []))),
      (''labels'', Some (dict (nullish (cr_labels p) []))),
      (''restart_policy'', Some (JStr (nullish (cr_restart_policy p) ''unless-stopped''))),
      (''registry_id'', ostr (cr_registry_id p)),
      (''auto_start'', Some (JBool (nullish (cr_auto_start p) True)))] @ healthcheck_members p"

definition useCreateContainer :: "string \<Rightarrow> DockerContainerCreateRequest \<Rightarrow> mutation" where
  "useCreateContainer eid p = send ''POST'' (docker_path eid ''/containers/create'') (body (create_members p))
     [dk_containers eid, dk_images eid, dk_audit eid, dk_topology eid]"

definition update_members :: "DockerContainerCreateRequest \<Rightarrow> bool \<Rightarrow> (string \<times> json option) list" where
  "update_members p recreate =
     [(''name'', ostr (cr_name p)), (''image'', Some (JStr (cr_image p))),
      (''command'', map_option strs (cr_command p)), (''environment'', map_option dict (cr_environment p)),
      (''ports'', map_option strs (cr_ports p)), (''volumes'', map_option strs (cr_volumes p)),
      (''labels'', Some (dict (nullish (cr_labels p) []))),
      (''restart_policy'', ostr (cr_restart_policy p)), (''registry_id'', ostr (cr_registry_id p)),
      (''auto_start'', map_option JBool (cr_auto_start p)), (''recreate'', Some (JBool recreate))] @
     healthcheck_members p"

definition useUpdateContainer ::
  "string \<Rightarrow> string \<Rightarrow> DockerContainerCreateRequest \<Rightarrow> bool \<Rightarrow> mutation" where
  "useUpdateContainer eid cid p recreate = send ''POST''
     (docker_path eid (''/containers/'' @ cid @ ''/update'')) (body (update_members p recreate))
     [dk_containers eid, dk_audit eid, dk_topology eid]"

section \<open>Images\<close>

definition useImages :: "string \<Rightarrow> query" where
  "useImages eid = get_query (dk_images eid) (eid \<noteq> []) (docker_path eid ''/images'')"

definition usePullImage :: "string \<Rightarrow> string \<Rightarrow> string option \<Rightarrow> mutation" where
  "usePullImage eid imageName registryId = send ''POST'' (docker_path eid ''/images/pull'')
     (body [(''image_name'', Some (JStr imageName)), (''registry_id'', ostr registryId)])
     [dk_images eid, dk_audit eid]"

definition usePushImage :: "string \<Rightarrow> string \<Rightarrow> string option \<Rightarrow> mutation" where
  "usePushImage eid imageRef registryId = send ''POST'' (docker_path eid ''/images/push'')
     (body [(''image_ref'', Some (JStr imageRef)), (''registry_id'', ostr registryId)])
     [dk_images eid, dk_audit eid]"

definition useExportImage :: "string \<Rightarrow> string \<Rightarrow> mutation" where
  "useExportImage eid imageRef = send ''POST'' (docker_path eid ''/images/export'')
     (body [(''image_ref'', Some (JStr imageRef))]) [dk_audit eid]"

definition useBuildImage :: "string \<Rightarrow> string \<Rightarrow> string option \<Rightarrow> string list \<Rightarrow> mutation" where
  "useBuildImage eid file dockerfile tags = send ''POST'' (docker_path eid ''/images/build'')
     (FormBody ([(''file'', file), (''dockerfile'', or_ostr (map_option trim dockerfile) ''Dockerfile'')] @
       map (\<lambda>t. (''tags'', trim t)) (filter (\<lambda>t. trim t \<noteq> []) tags)))
     [dk_images eid, dk_buildHistory eid, dk_audit eid]"

definition useImportImageArchive :: "string \<Rightarrow> string \<Rightarrow> mutation" where
  "useImportImageArchive eid archive = send ''POST'' (docker_path eid ''/images/import'')
     (FormBody [(''archive'', archive)]) [dk_images eid, dk_audit eid]"

definition useRetagImage :: "string \<Rightarrow> string \<Rightarrow> string \<Rightarrow> mutation" where
  "useRetagImage eid sourceRef targetRef = send ''POST'' (docker_path eid ''/images/retag'')
     (body [(''source_ref'', Some (JStr sourceRef)), (''target_ref'', Some (JStr targetRef))])
     [dk_images eid]"

definition useRemoveImage :: "string \<Rightarrow> string \<Rightarrow> bool \<Rightarrow> mutation" where
  "useRemoveImage eid imageRef force = send ''DELETE''
     (docker_path eid (''/images'' @ seg imageRef @ ''?force='' @ flag force)) NoBody
     [dk_images eid, dk_audit eid]"

section \<open>Networks and volumes\<close>

definition useNetworks :: "string \<Rightarrow> query" where
  "useNetworks eid = or_catch (JArr []) (get_query (dk_networks eid) (eid \<noteq> []) (docker_path eid ''/networks''))"

definition or_seg :: "string option \<Rightarrow> string" where
  "or_seg name = (if truthy_str name then seg (the name) else [])"

definition useSaveNetwork ::
  "string \<Rightarrow> string option \<Rightarrow> string \<Rightarrow> string \<Rightarrow> bool \<Rightarrow> (string \<times> string) list option \<Rightarrow> mutation" where
  "useSaveNetwork eid originalId name driver internal labels = send ''POST''
     (docker_path eid (''/networks'' @ or_seg originalId))
     (body [(''name'', Some (JStr name)), (''driver'', Some (JStr driver)), (''internal'', Some (JBool internal)),
        (''labels'', Some (dict (nullish labels [])))])
     [dk_networks eid, dk_topology eid, dk_audit eid]"

definition useDeleteNetwork :: "string \<Rightarrow> string \<Rightarrow> mutation" where
  "useDeleteNetwork eid networkId = send ''DELETE'' (docker_path eid (''/networks'' @ seg networkId)) NoBody
     [dk_networks eid, dk_topology eid]"

definition useNetworkAttachment ::
  "string \<Rightarrow> string \<Rightarrow> string \<Rightarrow> string \<Rightarrow> bool option \<Rightarrow> mutation" where
  "useNetworkAttachment eid networkId action cid force = send ''POST''
     (docker_path eid (''/networks'' @ seg networkId @ ''/'' @ action))
     (body [(''container_id'', Some (JStr cid)), (''force'', map_option JBool force)])
     [dk_networks eid, dk_topology eid, dk_containers eid]"

definition useVolumes :: "string \<Rightarrow> query" where
  "useVolumes eid = or_catch (JArr [])
     (get_query (dk_volumes eid) (eid \<noteq> []) (docker_path eid ''/volumes''))
     \<lparr>qu_read := (\<lambda>res. if res = JNull then Inl TypeError
        else Inr (case jor (jget ''Volumes'' (Some res)) (Some (JArr [])) of Some v \<Rightarrow> v | None \<Rightarrow> JArr [])),
      qu_catch := Some (JArr [])\<rparr>"

definition useSaveVolume ::
  "string \<Rightarrow> string option \<Rightarrow> string \<Rightarrow> string \<Rightarrow> (string \<times> string) list option
     \<Rightarrow> (string \<times> string) list option \<Rightarrow> mutation" where
  "useSaveVolume eid originalName name driver labels options = send ''POST''
     (docker_path eid (''/volumes'' @ or_seg originalName))
     (body [(''name'', Some (JStr name)), (''driver'', Some (JStr driver)),
        (''labels'', Some (dict (nullish labels []))), (''options'', Some (dict (nullish options [])))])
     [dk_volumes eid, dk_topology eid, dk_audit eid]"

definition useDeleteVolume :: "string \<Rightarrow> string \<Rightarrow> bool \<Rightarrow> mutation" where
  "useDeleteVolume eid vol force = send ''DELETE''
     (docker_path eid (''/volumes'' @ seg vol @ ''?force='' @ flag force)) NoBody
     [dk_volumes eid, dk_topology eid]"

definition useVolumeFiles :: "string \<Rightarrow> string \<Rightarrow> string \<Rightarrow> query" where
  "useVolumeFiles eid vol path = get_query (dk_volumeFiles eid vol path) (eid \<noteq> [] \<and> vol \<noteq> [])
     (docker_path eid (''/volumes'' @ seg vol @ ''/files'') @ uri_query [(''path'', path)])"

definition useReadVolumeFile :: "string \<Rightarrow> string \<Rightarrow> string \<Rightarrow> query" where
  "useReadVolumeFile eid vol path = get_query (dk_volumeFiles eid vol path @ [JStr ''content''])
     (eid \<noteq> [] \<and> vol \<noteq> [] \<and> path \<noteq> [])
     (docker_path eid (''/volumes'' @ seg vol @ ''/files/read'') @ uri_query [(''path'', path)])"

definition useSaveVolumeFile :: "string \<Rightarrow> string \<Rightarrow> string \<Rightarrow> string \<Rightarrow> mutation" where
  "useSaveVolumeFile eid vol path content = send ''POST'' (docker_path eid (''/volumes'' @ seg vol @ ''/files/save''))
     (body [(''path'', Some (JStr path)), (''content'', Some (JStr content))]) [dk_volumeFiles eid vol path]"

definition useDeleteVolumeFile :: "string \<Rightarrow> string \<Rightarrow> string \<Rightarrow> mutation" where
  "useDeleteVolumeFile eid vol path = send ''DELETE''
     (docker_path eid (''/volumes'' @ seg vol @ ''/files'') @ uri_query [(''path'', path)]) NoBody
     [dk_volumeFiles eid vol ''/'', dk_volumes eid]"

definition useBackupVolume :: "string \<Rightarrow> string \<Rightarrow> mutation" where
  "useBackupVolume eid vol = send ''POST'' (docker_path eid (''/volumes'' @ seg vol @ ''/backup'')) NoBody []"

definition useCloneVolume :: "string \<Rightarrow> string \<Rightarrow> string \<Rightarrow> mutation" where
  "useCloneVolume eid vol target = send ''POST'' (docker_path eid (''/volumes'' @ seg vol @ ''/clone''))
     (body [(''target_name'', Some (JStr target))]) [dk_volumes eid, dk_topology eid]"

section \<open>Stacks, secrets and policies\<close>

definition stack_path :: "string \<Rightarrow> string \<Rightarrow> string \<Rightarrow> string" where
  "stack_path eid stack rest = docker_path eid (''/stacks'' @ seg stack @ rest)"

definition useStacks :: "string \<Rightarrow> query" where
  "useStacks eid = or_catch (JArr []) (get_query (dk_stacks eid) (eid \<noteq> []) (docker_path eid ''/stacks''))"

definition useStackDetail :: "string \<Rightarrow> string \<Rightarrow> query" where
  "useStackDetail eid stack = get_query (dk_stackDetail eid stack) (eid \<noteq> [] \<and> stack \<noteq> []) (stack_path eid stack [])"

definition useStackServices :: "string \<Rightarrow> string \<Rightarrow> query" where
  "useStackServices eid stack = get_query (dk_stackDetail eid stack @ [JStr ''services''])
     (eid \<noteq> [] \<and> stack \<noteq> []) (stack_path eid stack ''/services'')"

definition useStackServiceDetail :: "string \<Rightarrow> string \<Rightarrow> string \<Rightarrow> query" where
  "useStackServiceDetail eid stack svc = get_query (dk_stackServiceDetail eid stack svc)
     (eid \<noteq> [] \<and> stack \<noteq> [] \<and> svc \<noteq> []) (stack_path eid stack (''/services'' @ seg svc))"

definition useStackServiceLogs :: "string \<Rightarrow> string \<Rightarrow> string \<Rightarrow> int \<Rightarrow> query" where
  "useStackServiceLogs eid stack svc tail = every 5000
     (get_query (dk_stackServiceDetail eid stack svc @ [JStr ''logs'', JNum tail])
       (eid \<noteq> [] \<and> stack \<noteq> [] \<and> svc \<noteq> [])
       (stack_path eid stack (''/services'' @ seg svc @ ''/logs?tail='' @ show_int tail)))"

definition useDeployStack ::
  "string \<Rightarrow> string \<Rightarrow> string \<Rightarrow> (string \<times> string) list \<Rightarrow> (string \<times> string) list option
     \<Rightarrow> (string \<times> string) list option \<Rightarrow> string list option \<Rightarrow> mutation" where
  "useDeployStack eid name compose environment secrets configs tags = send ''POST''
     (docker_path eid ''/stacks/deploy'')
     (body [(''name'', Some (JStr name)), (''compose'', Some (JStr compose)),
        (''environment'', Some (dict environment)), (''secrets'', Some (dict (nullish secrets []))),
        (''configs'', Some (dict (nullish configs []))), (''tags'', Some (strs (nullish tags [])))])
     [dk_stacks eid, dk_audit eid]"

definition useDockerSecrets :: "string \<Rightarrow> query" where
  "useDockerSecrets eid = get_query (dk_secrets eid) (eid \<noteq> []) (docker_path eid ''/secrets'')"

definition useSaveDockerSecret :: "string \<Rightarrow> string \<Rightarrow> string \<Rightarrow> string option \<Rightarrow> mutation" where
  "useSaveDockerSecret eid name v updatedAt = send ''POST'' (docker_path eid ''/secrets'')
     (body [(''name'', Some (JStr name)), (''value'', Some (JStr v)), (''updated_at'', ostr updatedAt)])
     [dk_secrets eid]"

definition useDeleteDockerSecret :: "string \<Rightarrow> string \<Rightarrow> mutation" where
  "useDeleteDockerSecret eid name = send ''DELETE'' (docker_path eid (''/secrets'' @ seg name)) NoBody [dk_secrets eid]"

definition useRollbackStack :: "string \<Rightarrow> string \<Rightarrow> string \<Rightarrow> mutation" where
  "useRollbackStack eid stack revision = send ''POST'' (stack_path eid stack ''/rollback'')
     (body [(''revision'', Some (JStr revision))]) [dk_stacks eid, dk_stackDetail eid stack, dk_audit eid]"

datatype stack_action = StartStack | StopStack | DeleteStack

fun stack_action_text :: "stack_action \<Rightarrow> string" where
  "stack_action_text StartStack = ''start''"
| "stack_action_text StopStack = ''stop''"
| "stack_action_text DeleteStack = ''delete''"

definition useStackAction :: "string \<Rightarrow> string \<Rightarrow> stack_action \<Rightarrow> bool \<Rightarrow> mutation" where
  "useStackAction eid stack action purge =
     (if action = DeleteStack
      then send ''DELETE'' (stack_path eid stack (''?purge='' @ flag purge)) NoBody [dk_stacks eid, dk_audit eid]
      else send ''POST'' (stack_path eid stack (''/'' @ stack_action_text action)) NoBody
        [dk_stacks eid, dk_audit eid])"

definition useScaleStackService :: "string \<Rightarrow> string \<Rightarrow> string \<Rightarrow> int \<Rightarrow> mutation" where
  "useScaleStackService eid stack svc replicas = send ''POST''
     (stack_path eid stack (''/services'' @ seg svc @ ''/scale'')) (body [(''replicas'', Some (JNum replicas))])
     [dk_stacks eid, dk_stackDetail eid stack @ [JStr ''services''], dk_audit eid]"

definition useRestartStackService :: "string \<Rightarrow> string \<Rightarrow> string \<Rightarrow> mutation" where
  "useRestartStackService eid stack svc = send ''POST''
     (stack_path eid stack (''/services'' @ seg svc @ ''/restart'')) NoBody
     [dk_stackDetail eid stack @ [JStr ''services''], dk_stackServiceDetail eid stack svc, dk_audit eid]"

definition useDockerTopology :: "string \<Rightarrow> query" where
  "useDockerTopology eid = every 15000 (get_query (dk_topology eid) (eid \<noteq> []) (docker_path eid ''/topology''))"

definition useBuildHistory :: "string \<Rightarrow> int \<Rightarrow> query" where
  "useBuildHistory eid limit = every 15000 (or_catch (JArr [])
     (get_query (dk_buildHistory eid @ [JNum limit]) (eid \<noteq> [])
       (docker_path eid (''/build-history?limit='' @ show_int limit))))"

definition audit_filters :: "int \<Rightarrow> (string \<times> string) list \<Rightarrow> params" where
  "audit_filters limit filters =
     foldl (\<lambda>ps (k, v). if trim v \<noteq> [] then params_set k (trim v) ps else ps)
       (params_set ''limit'' (show_int limit) []) filters"

definition useRuntimeAudit :: "string \<Rightarrow> int \<Rightarrow> (string \<times> string) list \<Rightarrow> query" where
  "useRuntimeAudit eid limit filters = every 10000 (or_catch (JArr [])
     (get_query (dk_audit eid @ [JNum limit, dict filters]) (eid \<noteq> [])
       (''/v1/environments/'' @ eid @ ''/audit?'' @ params_text (audit_filters limit filters))))"

definition useDockerAutoHealPolicies :: "string \<Rightarrow> query" where
  "useDockerAutoHealPolicies eid = every 15000 (get_query (dk_autoheal eid) (eid \<noteq> [])
     (docker_path eid ''/autoheal/policies''))"

definition useSaveDockerAutoHealPolicy :: "string \<Rightarrow> json \<Rightarrow> mutation" where
  "useSaveDockerAutoHealPolicy eid policy = send ''POST'' (docker_path eid ''/autoheal/policies'')
     (TextBody (json_text policy)) [dk_autoheal eid, dk_audit eid]"

definition useDeleteDockerAutoHealPolicy :: "string \<Rightarrow> string \<Rightarrow> mutation" where
  "useDeleteDockerAutoHealPolicy eid policyId = send ''DELETE''
     (docker_path eid (''/autoheal/policies/'' @ policyId)) NoBody [dk_autoheal eid, dk_audit eid]"

definition useRunDockerAutoHeal :: "string \<Rightarrow> string option \<Rightarrow> mutation" where
  "useRunDockerAutoHeal eid policyId = send ''POST''
     (docker_path eid ''/autoheal/run'' @
        (if truthy_str policyId then uri_query [(''policy_id'', the policyId)] else [])) NoBody
     [dk_autoheal eid, dk_audit eid, dk_containers eid]"

definition useRegistryCatalog :: "string \<Rightarrow> string option \<Rightarrow> query" where
  "useRegistryCatalog registryId repository = get_query
     (map JStr [''registry-catalog'', registryId, nullish repository []]) (registryId \<noteq> [])
     (''/v1/registries'' @ seg registryId @ ''/catalog'' @
        (if truthy_str repository then uri_query [(''repository'', the repository)] else []))"

section \<open>The calls of one environment\<close>

text \<open>The queries and the mutations the hooks make for an environment.\<close>

inductive docker_query :: "string \<Rightarrow> query \<Rightarrow> bool" for eid where
  "docker_query eid (useContainers eid b)"
| "docker_query eid (useContainerLogs eid cid tail)"
| "docker_query eid (useContainerConfig eid cid)"
| "docker_query eid (useContainerStats eid cid)"
| "docker_query eid (useDockerSystemLogs eid ls)"
| "docker_query eid (useDockerDiskUsage eid)"
| "docker_query eid (useDockerSwarmStatus eid)"
| "docker_query eid (useContainerFiles eid cid path)"
| "docker_query eid (useReadContainerFile eid cid path)"
| "docker_query eid (useImages eid)"
| "docker_query eid (useNetworks eid)"
| "docker_query eid (useVolumes eid)"
| "docker_query eid (useVolumeFiles eid vol path)"
| "docker_query eid (useReadVolumeFile eid vol path)"
| "docker_query eid (useStacks eid)"
| "docker_query eid (useStackDetail eid stack)"
| "docker_query eid (useStackServices eid stack)"
| "docker_query eid (useStackServiceDetail eid stack svc)"
| "docker_query eid (useStackServiceLogs eid stack svc tail)"
| "docker_query eid (useDockerSecrets eid)"
| "docker_query eid (useDockerTopology eid)"
| "docker_query eid (useBuildHistory eid limit)"
| "docker_query eid (useRuntimeAudit eid limit filters)"
| "docker_query eid (useDockerAutoHealPolicies eid)"

inductive docker_mutation :: "string \<Rightarrow> mutation \<Rightarrow> bool" for eid where
  "docker_mutation eid (useContainerAction eid cid action payload)"
| "docker_mutation eid (useContainerExec eid cid cmd)"
| "docker_mutation eid (useReclaimDiskSpace eid)"
| "docker_mutation eid (useSaveContainerFile eid cid path content)"
| "docker_mutation eid (useCreateContainer eid p)"
| "docker_mutation eid (useUpdateContainer eid cid p recreate)"
| "docker_mutation eid (usePullImage eid imageName registryId)"
| "docker_mutation eid (usePushImage eid imageRef registryId)"
| "docker_mutation eid (useExportImage eid imageRef)"
| "docker_mutation eid (useBuildImage eid file dockerfile tags)"
| "docker_mutation eid (useImportImageArchive eid file)"
| "docker_mutation eid (useRetagImage eid sourceRef targetRef)"
| "docker_mutation eid (useRemoveImage eid imageRef force)"
| "docker_mutation eid (useSaveNetwork eid originalId name driver internal labels)"
| "docker_mutation eid (useDeleteNetwork eid networkId)"
| "docker_mutation eid (useNetworkAttachment eid networkId action cid force')"
| "docker_mutation eid (useSaveVolume eid originalName name driver labels options)"
| "docker_mutation eid (useDeleteVolume eid vol force)"
| "docker_mutation eid (useSaveVolumeFile eid vol path content)"
| "docker_mutation eid (useDeleteVolumeFile eid vol path)"
| "docker_mutation eid (useBackupVolume eid vol)"
| "docker_mutation eid (useCloneVolume eid vol target)"
| "docker_mutation eid (useDeployStack eid name compose environment secrets configs tags')"
| "docker_mutation eid (useSaveDockerSecret eid name v updatedAt)"
| "docker_mutation eid (useDeleteDockerSecret eid name)"
| "docker_mutation eid (useRollbackStack eid stack revision)"
| "docker_mutation eid (useStackAction eid stack act purge)"
| "docker_mutation eid (useScaleStackService eid stack svc replicas)"
| "docker_mutation eid (useRestartStackService eid stack svc)"
| "docker_mutation eid (useSaveDockerAutoHealPolicy eid policy)"
| "docker_mutation eid (useDeleteDockerAutoHealPolicy eid policyId)"
| "docker_mutation eid (useRunDockerAutoHeal eid policyOpt)"

lemmas docker_queries = useContainers_def useContainerLogs_def useContainerConfig_def useContainerStats_def
  useDockerSystemLogs_def useDockerDiskUsage_def useDockerSwarmStatus_def useContainerFiles_def
  useReadContainerFile_def useImages_def useNetworks_def useVolumes_def useVolumeFiles_def
  useReadVolumeFile_def useStacks_def useStackDetail_def useStackServices_def useStackServiceDetail_def
  useStackServiceLogs_def useDockerSecrets_def useDockerTopology_def useBuildHistory_def
  useRuntimeAudit_def useDockerAutoHealPolicies_def

lemmas docker_mutations = useContainerAction_def useContainerExec_def useReclaimDiskSpace_def
  useSaveContainerFile_def useCreateContainer_def useUpdateContainer_def usePullImage_def usePushImage_def
  useExportImage_def useBuildImage_def useImportImageArchive_def useRetagImage_def useRemoveImage_def
  useSaveNetwork_def useDeleteNetwork_def useNetworkAttachment_def useSaveVolume_def useDeleteVolume_def
  useSaveVolumeFile_def useDeleteVolumeFile_def useBackupVolume_def useCloneVolume_def useDeployStack_def
  useSaveDockerSecret_def useDeleteDockerSecret_def useRollbackStack_def useStackAction_def
  useScaleStackService_def useRestartStackService_def useSaveDockerAutoHealPolicy_def
  useDeleteDockerAutoHealPolicy_def useRunDockerAutoHeal_def

text \<open>The environment a key belongs to.\<close>

definition docker_scope :: "string \<Rightarrow> query_key \<Rightarrow> bool" where
  "docker_scope eid k \<longleftrightarrow> (\<exists>family rest. k = JStr ''docker'' # family # JStr eid # rest)"

lemma docker_query_scope: "docker_query eid q \<Longrightarrow> docker_scope eid (qu_key q)"
  by (induction rule: docker_query.induct)
    (simp_all add: docker_queries docker_keys docker_scope_def)

lemma docker_mutation_scope: "docker_mutation eid m \<Longrightarrow> p \<in> set (mu_keys m) \<Longrightarrow> docker_scope eid p"
  by (induction rule: docker_mutation.induct)
    (auto simp: docker_mutations docker_keys docker_scope_def split: if_splits)

lemma scope_prefix: "docker_scope eid p \<Longrightarrow> take (length p) k = p \<Longrightarrow> docker_scope eid k"
  by (auto simp: docker_scope_def) (metis append_Cons append_take_drop_id)

lemma scope_unique: "docker_scope a k \<Longrightarrow> docker_scope b k \<Longrightarrow> a = b"
  by (auto simp: docker_scope_def)

text \<open>
  A mutation in one environment never refreshes what another environment shows: the queries it
  invalidates are queries of its own environment, and a mutation that fails invalidates none.
\<close>

theorem docker_isolated:
  assumes "prefix_matching matches" "docker_mutation a m" "docker_query b q" "invalidated matches m r (qu_key q)"
  shows "a = b \<and> (\<exists>v. r = Inr v)"
proof -
  obtain p where "p \<in> set (mu_keys m)" "take (length p) (qu_key q) = p" "\<exists>v. r = Inr v"
    using assms(4) invalidated_iff [OF assms(1)] by blast
  moreover from this have "docker_scope a (qu_key q)"
    using docker_mutation_scope [OF assms(2)] scope_prefix by blast
  ultimately show ?thesis using docker_query_scope [OF assms(3)] scope_unique by blast
qed

theorem docker_isolated_witness:
  "invalidated by_prefix (useContainerAction ''e1'' ''c1'' ''stop'' None) (Inr JNull)
     (qu_key (useContainerStats ''e1'' ''c1'')) \<and>
   \<not> invalidated by_prefix (useContainerAction ''e1'' ''c1'' ''stop'' None) (Inr JNull)
     (qu_key (useContainerStats ''e2'' ''c1''))"
proof -
  have m: "docker_mutation ''e1'' (useContainerAction ''e1'' ''c1'' ''stop'' None)"
    by (rule docker_mutation.intros)
  have q: "docker_query ''e2'' (useContainerStats ''e2'' ''c1'')" by (rule docker_query.intros)
  have "invalidated by_prefix (useContainerAction ''e1'' ''c1'' ''stop'' None) (Inr JNull)
      (qu_key (useContainerStats ''e1'' ''c1''))"
    by (simp add: invalidated_def by_prefix_def docker_mutations docker_queries docker_keys)
  moreover have "''e1'' \<noteq> ''e2''" by simp
  then have "\<not> invalidated by_prefix (useContainerAction ''e1'' ''c1'' ''stop'' None) (Inr JNull)
      (qu_key (useContainerStats ''e2'' ''c1''))"
    using docker_isolated [OF by_prefix_matching m q] by blast
  ultimately show ?thesis by blast
qed

text \<open>
  A successful action on a container refreshes everything shown about the environment's
  containers: the list, and the logs, configuration, statistics and files of each.
\<close>

theorem container_action_refreshes:
  assumes "prefix_matching matches" "q \<in> {useContainers eid b, useContainerLogs eid c tail,
      useContainerConfig eid c, useContainerStats eid c, useContainerFiles eid c path,
      useReadContainerFile eid c path, useImages eid, useDockerTopology eid, useRuntimeAudit eid n filters}"
  shows "invalidated matches (useContainerAction eid cid action payload) (Inr v) (qu_key q)"
  using assms(2) by (auto simp: invalidated_iff [OF assms(1)] docker_mutations docker_queries docker_keys)

theorem container_action_refreshes_witness:
  "invalidated by_prefix (useContainerAction ''e1'' ''c1'' ''stop'' None) (Inr JNull)
     (qu_key (useContainerLogs ''e1'' ''c2'' 100))"
  by (rule container_action_refreshes [OF by_prefix_matching]) blast

section \<open>Names in addresses\<close>

text \<open>The identifiers the server gives out: letters, digits and dashes.\<close>

definition plain_id :: "string \<Rightarrow> bool" where
  "plain_id s \<longleftrightarrow> list_all (\<lambda>c. is_alnum c \<or> c = CHR ''-'') s"

lemma plain_id_safe:
  "plain_id s \<Longrightarrow> CHR ''?'' \<notin> set s \<and> CHR ''/'' \<notin> set s \<and> CHR 0x25 \<notin> set s"
  by (auto simp: plain_id_def list_all_iff is_alnum_def)

lemma encoded_safe: "CHR ''?'' \<notin> set (encodeURIComponent s)" "CHR ''/'' \<notin> set (encodeURIComponent s)"
  using encodeURIComponent_safe by blast+

lemma volume_file_path:
  "docker_path eid (''/volumes'' @ seg vol @ ''/files'')
     = join_with ''/'' [[], ''v1'', ''environments'', eid, ''docker'', ''volumes'', encodeURIComponent vol, ''files'']"
  by (simp add: docker_path_def seg_def)

text \<open>
  A name or a path with any characters reaches the server unchanged: the name of a volume is
  one segment of the address and the path of a file its one parameter, and both decode to what
  was asked for.
\<close>

theorem file_address_kept:
  assumes "plain_id eid" "starts_with ''/'' (pathname base)"
  shows "search (applyEndpoint base (qu_endpoint (useVolumeFiles eid vol path))) = [(''path'', path)] \<and>
    map pct_decode (split_on (CHR ''/'')
      (drop (length (drop_trailing_slash (pathname base)))
        (pathname (applyEndpoint base (qu_endpoint (useVolumeFiles eid vol path))))))
      = [[], ''v1'', ''environments'', eid, ''docker'', ''volumes'', vol, ''files'']"
proof -
  let ?p = "docker_path eid (''/volumes'' @ seg vol @ ''/files'')"
  note safe = plain_id_safe [OF assms(1)]
  have "starts_with ''/'' ?p" by (simp add: docker_path_def starts_with_iff)
  moreover have "CHR ''?'' \<notin> set ?p"
    using safe encoded_safe by (simp add: docker_path_def seg_def)
  moreover have "\<forall>p \<in> set [(''path'', path)]. param_name (fst p)" by (simp add: param_name_def is_alnum_def)
  ultimately have a: "search (applyEndpoint base (?p @ uri_query [(''path'', path)])) = [(''path'', path)]"
    "pathname (applyEndpoint base (?p @ uri_query [(''path'', path)])) = drop_trailing_slash (pathname base) @ ?p"
    using applyEndpoint_uri_query [OF _ _ assms(2), of ?p "[(''path'', path)]"] by simp_all
  have "split_on (CHR ''/'') ?p
      = [[], ''v1'', ''environments'', eid, ''docker'', ''volumes'', encodeURIComponent vol, ''files'']"
    unfolding volume_file_path using safe encoded_safe by (intro split_join) auto
  then show ?thesis using a safe by (simp add: useVolumeFiles_def pct_decode_no_pct)
qed

theorem file_address_kept_witness:
  "search (applyEndpoint sample_url (qu_endpoint (useVolumeFiles ''e-1'' ''my data/x'' ''/a b?c=d&e'')))
     = [(''path'', ''/a b?c=d&e'')]"
proof -
  have "plain_id ''e-1''" by code_simp
  moreover have "starts_with ''/'' (pathname sample_url)" by (simp add: sample_url_def starts_with_def)
  ultimately show ?thesis using file_address_kept by blast
qed

end
