(* ===== verification/Manifest.thy ===== *)
theory Manifest
  imports Json
begin

text \<open>
  \<open>features/kubernetes/manifest-assistant.ts\<close>: the helper form of the Kubernetes editor. It
  reads values from a manifest by regular expressions, merges names and labels into it, and
  builds a manifest from the form. Each regular expression is written out as the search it
  performs; \<open>.\<close> and the anchors of its multi-line mode stop at a line feed or a carriage return.
  Random identifiers are an argument.
\<close>

section \<open>Searching\<close>

definition is_lt :: "char \<Rightarrow> bool" where
  "is_lt c \<longleftrightarrow> c = CHR 0x0A \<or> c = CHR 0x0D"

text \<open>The suffixes of a text at its line starts, in order, where \<open>^\<close> matches.\<close>

fun after_breaks :: "string \<Rightarrow> string list" where
  "after_breaks [] = []"
| "after_breaks (c # s) = (if is_lt c then s # after_breaks s else after_breaks s)"

definition line_starts :: "string \<Rightarrow> string list" where
  "line_starts s = s # after_breaks s"

fun suffixes_of :: "string \<Rightarrow> string list" where
  "suffixes_of [] = [[]]"
| "suffixes_of (c # s) = (c # s) # suffixes_of s"

fun first_some :: "('a \<Rightarrow> 'b option) \<Rightarrow> 'a list \<Rightarrow> 'b option" where
  "first_some f [] = None"
| "first_some f (x # xs) = (case f x of None \<Rightarrow> first_some f xs | Some y \<Rightarrow> Some y)"

text \<open>The same search without the list of suffixes, for evaluation.\<close>

fun scan :: "(string \<Rightarrow> 'b option) \<Rightarrow> string \<Rightarrow> 'b option" where
  "scan f [] = f []"
| "scan f (c # s) = (case f (c # s) of None \<Rightarrow> scan f s | Some y \<Rightarrow> Some y)"

lemma scan_suffixes [code_unfold]: "first_some f (suffixes_of s) = scan f s"
  by (induction s) (simp_all split: option.split)

fun scan_breaks :: "(string \<Rightarrow> 'b option) \<Rightarrow> string \<Rightarrow> 'b option" where
  "scan_breaks f [] = None"
| "scan_breaks f (c # s) =
     (if is_lt c then (case f s of None \<Rightarrow> scan_breaks f s | Some y \<Rightarrow> Some y) else scan_breaks f s)"

lemma scan_after_breaks: "first_some f (after_breaks s) = scan_breaks f s"
  by (induction s) (simp_all split: option.split)

lemma scan_line_starts [code_unfold]:
  "first_some f (line_starts s) = (case f s of None \<Rightarrow> scan_breaks f s | Some y \<Rightarrow> Some y)"
  by (simp add: line_starts_def) (simp add: scan_after_breaks split: option.split)

definition after_prefix :: "string \<Rightarrow> string \<Rightarrow> string option" where
  "after_prefix p s = (if starts_with p s then Some (drop (length p) s) else None)"

text \<open>
  \<open>/^\s*key\s*(.+)\s*$/m\<close>, and the same with a dash before the key. White space may span lines,
  so the value is the rest of the line that holds the next other character.
\<close>

definition key_at :: "string \<Rightarrow> string \<Rightarrow> string option" where
  "key_at key s = after_prefix key (ltrim s)"

definition dash_key_at :: "string \<Rightarrow> string \<Rightarrow> string option" where
  "dash_key_at key s = Option.bind (after_prefix ''-'' (ltrim s)) (\<lambda>r. after_prefix key (ltrim r))"

definition value_line :: "string \<Rightarrow> string" where
  "value_line r = trim (takeWhile (\<lambda>c. \<not> is_lt c) (ltrim r))"

definition extractManifestValue :: "string \<Rightarrow> (string \<Rightarrow> string option) \<Rightarrow> string" where
  "extractManifestValue manifest pattern =
     (case first_some pattern (line_starts manifest) of None \<Rightarrow> [] | Some r \<Rightarrow> value_line r)"

section \<open>Merging metadata\<close>

record entry =
  en_id :: string
  en_key :: string
  en_value :: string
  en_error :: "string option"

text \<open>\<open>replace(/[^a-z0-9-]+/g, "-")\<close> and \<open>replace(/^-+|-+$/g, "")\<close>.\<close>

definition slug_char :: "char \<Rightarrow> bool" where
  "slug_char c \<longleftrightarrow> (let n = of_char c :: nat in
     97 \<le> n \<and> n \<le> 122 \<or> 48 \<le> n \<and> n \<le> 57 \<or> c = CHR ''-'')"

fun dash_runs :: "bool \<Rightarrow> string \<Rightarrow> string" where
  "dash_runs in_run [] = []"
| "dash_runs in_run (c # s) =
     (if slug_char c then c # dash_runs False s
      else if in_run then dash_runs True s
      else CHR ''-'' # dash_runs True s)"

definition strip_dashes :: "string \<Rightarrow> string" where
  "strip_dashes s = rev (dropWhile (\<lambda>c. c = CHR ''-'') (rev (dropWhile (\<lambda>c. c = CHR ''-'') s)))"

definition slugifyK8sLabel :: "string \<Rightarrow> string" where
  "slugifyK8sLabel v = strip_dashes (dash_runs False (lower (trim v)))"

fun drop_crlf :: "string \<Rightarrow> string" where
  "drop_crlf [] = []"
| "drop_crlf [c] = [c]"
| "drop_crlf (c # d # s) =
     (if c = CHR 0x0D \<and> d = CHR 0x0A then d # drop_crlf s else c # drop_crlf (d # s))"

definition indent_of :: "string \<Rightarrow> nat" where
  "indent_of l = length (takeWhile is_ws l)"

text \<open>\<open>new RegExp("^\\s{n}key:\\s*.*$")\<close> on one line.\<close>

definition field_line :: "nat \<Rightarrow> string \<Rightarrow> string \<Rightarrow> bool" where
  "field_line n key l \<longleftrightarrow> n \<le> length l \<and> list_all is_ws (take n l) \<and>
     (case after_prefix (key @ '':'') (drop n l) of None \<Rightarrow> False | Some r \<Rightarrow> CHR 0x0D \<notin> set (ltrim r))"

definition set_field :: "nat \<Rightarrow> string \<Rightarrow> string \<Rightarrow> string list \<Rightarrow> string list" where
  "set_field n key v block =
     (let new = spaces n @ key @ '': '' @ v in
      if list_ex (field_line n key) block then update_first (field_line n key) (\<lambda>_. new) block
      else block @ [new])"

text \<open>
  The lines before the metadata line, that line, the lines of its block (blank or indented
  deeper) and the rest. The first line of the key in the block is replaced, or a new one ends the
  block.
\<close>

definition in_block :: "nat \<Rightarrow> string \<Rightarrow> bool" where
  "in_block ind l \<longleftrightarrow> trim l = [] \<or> ind < indent_of l"

definition replaceOrInsertMetadataValue :: "string \<Rightarrow> string \<Rightarrow> string \<Rightarrow> string" where
  "replaceOrInsertMetadataValue manifest key v =
     (let normalized = drop_crlf manifest;
          ls = lines_of normalized;
          before = takeWhile (\<lambda>l. trim l \<noteq> ''metadata:'') ls in
      case dropWhile (\<lambda>l. trim l \<noteq> ''metadata:'') ls of
        [] \<Rightarrow> ''metadata:'' @ newline @ ''  '' @ key @ '': '' @ v @ newline @ normalized
      | meta # rest \<Rightarrow>
          let ind = indent_of meta;
              block = takeWhile (in_block ind) rest;
              after = dropWhile (in_block ind) rest in
          unlines (before @ meta # set_field (ind + 2) key v block @ after))"

text \<open>
  \<open>text.replace(/^\s*key\s*$/m, replacement)\<close>: the first match, from its line start over white
  space to the last line end that white space reaches, and the replacement with its dollar
  patterns expanded.
\<close>

definition line_end_splits :: "string \<Rightarrow> string list" where
  "line_end_splits r =
     filter (\<lambda>s. s = [] \<or> is_lt (hd s))
       (map (\<lambda>n. drop n r) (rev [0 ..< Suc (length (takeWhile is_ws r))]))"

fun expand_dollars :: "string \<Rightarrow> string \<Rightarrow> string \<Rightarrow> string \<Rightarrow> string" where
  "expand_dollars pre mat post [] = []"
| "expand_dollars pre mat post [c] = [c]"
| "expand_dollars pre mat post (c # d # s) =
     (if c \<noteq> CHR ''$'' then c # expand_dollars pre mat post (d # s)
      else if d = CHR ''$'' then CHR ''$'' # expand_dollars pre mat post s
      else if d = CHR ''&'' then mat @ expand_dollars pre mat post s
      else if d = CHR 0x60 then pre @ expand_dollars pre mat post s
      else if d = CHR 0x27 then post @ expand_dollars pre mat post s
      else c # expand_dollars pre mat post (d # s))"

definition key_line_match :: "string \<Rightarrow> string \<Rightarrow> (string \<times> string) option" where
  "key_line_match key text =
     first_some (\<lambda>s. case key_at key s of
         None \<Rightarrow> None
       | Some r \<Rightarrow> (case line_end_splits r of [] \<Rightarrow> None | q # _ \<Rightarrow> Some (s, q)))
       (line_starts text)"

definition replace_key_line :: "string \<Rightarrow> string \<Rightarrow> string \<Rightarrow> string" where
  "replace_key_line key replacement text =
     (case key_line_match key text of
        None \<Rightarrow> text
      | Some (s, q) \<Rightarrow>
          let pre = take (length text - length s) text;
              mat = take (length s - length q) s in
          pre @ expand_dollars pre mat q replacement @ q)"

record manifest_fields =
  mf_resourceName :: string
  mf_namespace :: string
  mf_labels :: "entry list"
  mf_tags :: "string list"

definition label_line :: "string \<Rightarrow> string" where
  "label_line entry =
     (let parts = split_on (CHR ''='') entry;
          v = (case parts of _ # w # _ \<Rightarrow> w | _ \<Rightarrow> []) in
      ''    '' @ trim (hd parts) @ '': '' @ trim v)"

definition merged_labels :: "manifest_fields \<Rightarrow> string list" where
  "merged_labels f =
     map (\<lambda>l. trim (en_key l) @ ''='' @ trim (en_value l)) (filter (\<lambda>l. trim (en_key l) \<noteq> []) (mf_labels f)) @
     map (\<lambda>tag. ''einfra.io/tag-'' @ slugifyK8sLabel tag @ ''=true'') (mf_tags f)"

definition hydrateManifest :: "string \<Rightarrow> manifest_fields \<Rightarrow> string" where
  "hydrateManifest manifest f =
     (let m1 = (if trim (mf_resourceName f) \<noteq> []
                then replaceOrInsertMetadataValue manifest ''name'' (trim (mf_resourceName f)) else manifest);
          m2 = (if trim (mf_namespace f) \<noteq> []
                then replaceOrInsertMetadataValue m1 ''namespace'' (trim (mf_namespace f)) else m1);
          labels = merged_labels f;
          labelLines = unlines (map label_line labels) in
      if labels = [] \<or> labelLines = [] then m2
      else if key_line_match ''labels:'' m2 \<noteq> None
      then replace_key_line ''labels:'' (''  labels:'' @ newline @ labelLines) m2
      else if key_line_match ''metadata:'' m2 \<noteq> None
      then replace_key_line ''metadata:'' (''metadata:'' @ newline @ ''  labels:'' @ newline @ labelLines) m2
      else m2)"

section \<open>Reading the form\<close>

datatype form_kind = Pod | Deployment | Service | ConfigMap | Ingress | Secret | NoKind

record AssistedFormState =
  af_kind :: form_kind
  af_containerName :: string
  af_image :: string
  af_port :: string
  af_command :: string
  af_replicas :: string
  af_serviceType :: string
  af_targetPort :: string
  af_selector :: string
  af_configEntries :: "entry list"
  af_host :: string
  af_path :: string
  af_serviceName :: string
  af_ingressClassName :: string
  af_tlsSecretName :: string
  af_secretType :: string
  af_secretEntries :: string

definition mapping_lines :: "string \<Rightarrow> string" where
  "mapping_lines s =
     unlines (map (replace_first_char (CHR '':'') (CHR ''=''))
       (filter (\<lambda>l. CHR '':'' \<in> set l) (map trim (lines_of s))))"

text \<open>\<open>/stringData:\n([\s\S]+)$/m\<close>.\<close>

definition rest_after :: "string \<Rightarrow> string \<Rightarrow> string option" where
  "rest_after p s =
     first_some (\<lambda>t. case after_prefix p t of Some (c # r) \<Rightarrow> Some (c # r) | _ \<Rightarrow> None) (suffixes_of s)"

definition extractSecretEntries :: "string \<Rightarrow> string" where
  "extractSecretEntries manifest =
     (case rest_after (''stringData:'' @ newline) manifest of
        None \<Rightarrow> ''username=admin'' @ newline @ ''password=change-me''
      | Some r \<Rightarrow> mapping_lines r)"

text \<open>
  \<open>/^data:\n([\s\S]+?)(?:^\w|$)/m\<close>: the shortest match, and \<open>$\<close> matches at the end of every line.
\<close>

definition word_char :: "char \<Rightarrow> bool" where
  "word_char c \<longleftrightarrow> (let n = of_char c :: nat in
     97 \<le> n \<and> n \<le> 122 \<or> 65 \<le> n \<and> n \<le> 90 \<or> 48 \<le> n \<and> n \<le> 57 \<or> c = CHR ''_'')"

fun shortest_data :: "string \<Rightarrow> string option" where
  "shortest_data [] = None"
| "shortest_data (c # r) =
     Some (if is_lt c \<and> r \<noteq> [] \<and> word_char (hd r) then [c] else c # takeWhile (\<lambda>d. \<not> is_lt d) r)"

definition top_data :: "string \<Rightarrow> string option" where
  "top_data manifest =
     first_some (\<lambda>s. Option.bind (after_prefix (''data:'' @ newline) s) shortest_data) (line_starts manifest)"

definition unquote :: "string \<Rightarrow> string" where
  "unquote s =
     (if starts_with [CHR 0x22] s \<and> ends_with [CHR 0x22] s \<or> starts_with [CHR 0x27] s \<and> ends_with [CHR 0x27] s
      then butlast (tl s) else s)"

definition config_line :: "string \<Rightarrow> (string \<times> string) option" where
  "config_line l =
     (let t = trim l in
      if t = [] \<or> starts_with ''#'' t \<or> CHR '':'' \<notin> set t then None
      else Some (unquote (trim (takeWhile (\<lambda>c. c \<noteq> CHR '':'') t)),
                 unquote (trim (tl (dropWhile (\<lambda>c. c \<noteq> CHR '':'') t)))))"

fun number_entries :: "(nat \<Rightarrow> string) \<Rightarrow> nat \<Rightarrow> (string \<times> string) list \<Rightarrow> entry list" where
  "number_entries ids n [] = []"
| "number_entries ids n ((k, v) # es) =
     \<lparr>en_id = ids n, en_key = k, en_value = v, en_error = None\<rparr> # number_entries ids (Suc n) es"

definition extractConfigEntries :: "(nat \<Rightarrow> string) \<Rightarrow> string \<Rightarrow> entry list" where
  "extractConfigEntries ids manifest =
     (case (case top_data manifest of None \<Rightarrow> rest_after (''data:'' @ newline) manifest | Some s \<Rightarrow> Some s) of
        None \<Rightarrow> number_entries ids 0 [(''APP_ENV'', ''production''), (''APP_NAME'', ''einfra'')]
      | Some s \<Rightarrow>
          let entries = List.map_filter config_line (lines_of s) in
          number_entries ids 0 (if entries = [] then [([], [])] else entries))"

text \<open>\<open>/selector:\n([\s\S]+?)(...|$)/m\<close>: again the shortest match ends with a line.\<close>

fun shortest_line :: "string \<Rightarrow> string option" where
  "shortest_line [] = None"
| "shortest_line (c # r) = Some (c # takeWhile (\<lambda>d. \<not> is_lt d) r)"

definition extractSelectorEntries :: "string \<Rightarrow> string" where
  "extractSelectorEntries manifest =
     (case first_some (\<lambda>t. Option.bind (after_prefix (''selector:'' @ newline) t) shortest_line)
             (suffixes_of manifest) of
        None \<Rightarrow> []
      | Some s \<Rightarrow> mapping_lines s)"

definition form_kind_of :: "string \<Rightarrow> form_kind" where
  "form_kind_of manifest =
     (let fp = lower manifest in
      if str_includes fp ''kind: pod'' then Pod
      else if str_includes fp ''kind: deployment'' then Deployment
      else if str_includes fp ''kind: service'' then Service
      else if str_includes fp ''kind: configmap'' then ConfigMap
      else if str_includes fp ''kind: ingress'' then Ingress
      else if str_includes fp ''kind: secret'' then Secret
      else NoKind)"

text \<open>
  The pattern for the service name has no group, so its value is always missing.
\<close>

definition buildAssistedFormState :: "(nat \<Rightarrow> string) \<Rightarrow> string \<Rightarrow> string \<Rightarrow> AssistedFormState" where
  "buildAssistedFormState ids manifest namespace =
     (let get = (\<lambda>key. extractManifestValue manifest (key_at key)) in
      \<lparr>af_kind = form_kind_of manifest,
       af_containerName = or_str (extractManifestValue manifest (dash_key_at ''name:'')) ''app'',
       af_image = or_str (get ''image:'') ''nginx:stable'',
       af_port = or_str (get ''containerPort:'') (or_str (get ''number:'') ''80''),
       af_command = [],
       af_replicas = or_str (get ''replicas:'') ''1'',
       af_serviceType = or_str (get ''type:'') ''ClusterIP'',
       af_targetPort = or_str (get ''targetPort:'') ''80'',
       af_selector = or_str (extractSelectorEntries manifest) ''app=sample-app'',
       af_configEntries = extractConfigEntries ids manifest,
       af_host = or_str (get ''host:'') ''sample.local'',
       af_path = or_str (get ''path:'') ''/'',
       af_serviceName = ''sample-service'',
       af_ingressClassName = or_str (get ''ingressClassName:'') ''nginx'',
       af_tlsSecretName = or_str (get ''secretName:'') (namespace @ ''-tls''),
       af_secretType = or_str (get ''type:'') ''Opaque'',
       af_secretEntries = extractSecretEntries manifest\<rparr>)"

section \<open>Writing a manifest\<close>

definition key_value_line :: "string \<Rightarrow> string \<Rightarrow> string" where
  "key_value_line pad line =
     (let parts = split_on (CHR ''='') line in
      pad @ trim (hd parts) @ '': '' @ trim (join_with ''='' (tl parts)))"

definition filled_lines :: "string \<Rightarrow> string list" where
  "filled_lines v = filter (\<lambda>l. l \<noteq> []) (map trim (lines_of v))"

definition toSecretYaml :: "string \<Rightarrow> string" where
  "toSecretYaml v = unlines (map (key_value_line ''  '') (filled_lines v))"

definition toKeyValueYaml :: "string \<Rightarrow> nat \<Rightarrow> string" where
  "toKeyValueYaml v indent =
     (let ls = map (key_value_line (spaces indent)) (filled_lines v) in
      if ls = [] then spaces indent @ (if indent = 4 then ''app: sample-app'' else ''APP_ENV: production'')
      else unlines ls)"

definition config_data_line :: "entry \<Rightarrow> string" where
  "config_data_line e =
     (let v = trim (en_value e); w = (if ends_with '':'' v then butlast v else v) in
      ''  '' @ trim (en_key e) @ '': '' @ json_string w)"

definition generateConfigMapDataYaml :: "entry list \<Rightarrow> string" where
  "generateConfigMapDataYaml entries =
     (let valid = filter (\<lambda>e. trim (en_key e) \<noteq> []) entries in
      if valid = [] then ''  APP_ENV: '' @ dquote @ ''production'' @ dquote
      else unlines (map config_data_line valid))"

definition escaped_command :: "string \<Rightarrow> string" where
  "escaped_command c = replace_all_char (CHR 0x22) [CHR 0x5C, CHR 0x22] (trim c)"

definition shell_command :: "string \<Rightarrow> string" where
  "shell_command c = ''command: ['' @ dquote @ ''sh'' @ dquote @ '', '' @ dquote @ ''-c'' @ dquote @ '', '' @
     dquote @ escaped_command c @ dquote @ '']''"

definition container_tail :: "string \<Rightarrow> AssistedFormState \<Rightarrow> string" where
  "container_tail pad form =
     (if trim (af_port form) \<noteq> []
      then newline @ pad @ ''ports:'' @ newline @ pad @ ''- containerPort: '' @ trim (af_port form) else []) @
     (if trim (af_command form) \<noteq> []
      then newline @ pad @ shell_command (af_command form) else [])"

definition head_lines :: "string \<Rightarrow> string \<Rightarrow> string \<Rightarrow> string \<Rightarrow> string list" where
  "head_lines version kind name namespace =
     [''apiVersion: '' @ version, ''kind: '' @ kind, ''metadata:'', ''  name: '' @ name,
      ''  namespace: '' @ namespace]"

definition buildAssistedManifest :: "AssistedFormState \<Rightarrow> string \<Rightarrow> string \<Rightarrow> string" where
  "buildAssistedManifest form namespace resourceName =
     (let name = or_str (trim resourceName) ''sample-resource'';
          container = or_str (af_containerName form) ''app'';
          image = or_str (af_image form) ''nginx:stable'';
          host = or_str (af_host form) ''sample.local'' in
      case af_kind form of
        Pod \<Rightarrow> unlines (head_lines ''v1'' ''Pod'' name namespace @
          [''  labels:'', ''    app: '' @ name, ''spec:'', ''  containers:'', ''  - name: '' @ container,
           ''    image: '' @ image @ container_tail ''    '' form, []])
      | Deployment \<Rightarrow> unlines (head_lines ''apps/v1'' ''Deployment'' name namespace @
          [''spec:'', ''  replicas: '' @ or_str (af_replicas form) ''1'', ''  selector:'', ''    matchLabels:'',
           ''      app: '' @ name, ''  template:'', ''    metadata:'', ''      labels:'', ''        app: '' @ name,
           ''    spec:'', ''      containers:'', ''      - name: '' @ container,
           ''        image: '' @ image @ container_tail ''        '' form, []])
      | Ingress \<Rightarrow> unlines (head_lines ''networking.k8s.io/v1'' ''Ingress'' name namespace @
          [''spec:'',
           ''  ingressClassName: '' @ or_str (af_ingressClassName form) ''nginx'' @
             (if trim (af_tlsSecretName form) \<noteq> []
              then newline @ ''  tls:'' @ newline @ ''  - hosts:'' @ newline @ ''    - '' @ host @ newline @
                   ''    secretName: '' @ trim (af_tlsSecretName form) else []),
           ''  rules:'', ''  - host: '' @ host, ''    http:'', ''      paths:'',
           ''      - path: '' @ or_str (af_path form) ''/'', ''        pathType: Prefix'', ''        backend:'',
           ''          service:'', ''            name: '' @ or_str (af_serviceName form) ''sample-service'',
           ''            port:'', ''              number: '' @ or_str (af_port form) ''80'', []])
      | Service \<Rightarrow> unlines (head_lines ''v1'' ''Service'' name namespace @
          [''spec:'', ''  selector:'', toKeyValueYaml (af_selector form) 4, ''  ports:'', ''  - name: http'',
           ''    port: '' @ or_str (af_port form) ''80'',
           ''    targetPort: '' @ or_str (af_targetPort form) (or_str (af_port form) ''80''),
           ''  type: '' @ or_str (af_serviceType form) ''ClusterIP'', []])
      | ConfigMap \<Rightarrow> unlines (head_lines ''v1'' ''ConfigMap'' name namespace @
          [''data:'', generateConfigMapDataYaml (af_configEntries form), []])
      | Secret \<Rightarrow> unlines (head_lines ''v1'' ''Secret'' name namespace @
          [''type: '' @ or_str (af_secretType form) ''Opaque'', ''stringData:'',
           toSecretYaml (af_secretEntries form), []])
      | NoKind \<Rightarrow> [])"

section \<open>Guides\<close>

record ResourceGuide =
  rg_title :: string
  rg_notes :: "string list"
  rg_steps :: "string list"

definition guide :: "string \<Rightarrow> string list \<Rightarrow> string list \<Rightarrow> ResourceGuide" where
  "guide t ns ss = \<lparr>rg_title = t, rg_notes = ns, rg_steps = ss\<rparr>"

definition getResourceGuide :: "string \<Rightarrow> string \<Rightarrow> ResourceGuide" where
  "getResourceGuide title manifest =
     (let fp = lower (title @ newline @ manifest); has = (\<lambda>p. str_includes fp p) in
      if has ''kind: pod'' \<or> has ''add pod'' \<or> has ''create pod'' then
        guide ''Pod Guide''
          [''Set a stable metadata.name and verify the namespace before apply.'',
           ''At least one container needs both name and image.'',
           ''Use labels like app=demo so Services and selectors can target the Pod later.'']
          [''Start with metadata and image, then add ports, env, and probes only if needed.'',
           ''Use Apply Form To YAML when you want helper values merged without hand-editing metadata.'',
           ''Review the final YAML one last time, then apply into the selected namespace.'']
      else if has ''kind: deployment'' \<or> has ''deployment'' then
        guide ''Deployment Guide''
          [''Keep spec.selector.matchLabels aligned with template.metadata.labels.'',
           ''Check desired replicas, container image, and rollout-safe labels before applying.'',
           ''Use tags and labels to make audit, topology, and alert routing easier later.'']
          [''Set replica count and labels first.'',
           ''Confirm the pod template image, ports, and env values.'',
           ''Apply once selectors and template labels match exactly.'']
      else if has ''kind: ingress'' \<or> has ''ingress'' then
        guide ''Ingress Guide''
          [''Define host, path, and backend service together so traffic routing is obvious.'',
           ''If your cluster uses an ingress class, set ingressClassName explicitly.'',
           ''TLS sections should reference an existing secret in the same namespace.'']
          [''Start with host and path rules.'',
           ''Point each rule to the correct Service name and port.'',
           ''Add TLS only after the secret name is ready.'']
      else if has ''kind: service'' \<or> has ''add service'' \<or> has ''create service'' then
        guide ''Service Guide''
          [''Keep selector labels aligned with the workload labels you want this Service to target.'',
           ''Port is the Service-facing port, targetPort is the container-facing port.'',
           ''Switch the type carefully because NodePort or LoadBalancer changes exposure immediately.'']
          [''Name the service and confirm namespace first.'',
           ''Set selector, port mapping, and service type.'',
           ''Review the final YAML preview before applying network exposure changes.'']
      else if has ''kind: configmap'' \<or> has ''configmap'' then
        guide ''ConfigMap Guide''
          [''Use clear key names because workload mounts and env references depend on exact keys.'',
           ''Prefer a few high-signal entries instead of very large blobs when editing inline.'',
           ''If the ConfigMap is shared, keep labels consistent so consumers are easier to trace later.'']
          [''Define name and namespace first.'',
           ''Add key-value entries in the helper, then merge them into YAML.'',
           ''Review final YAML to avoid accidental formatting changes in multi-line config.'']
      else if has ''kind: secret'' \<or> has ''secret'' then
        guide ''Secret Guide''
          [''Use stringData for readable authoring; Kubernetes will convert it to data.'',
           ''Avoid pasting already base64-encoded values unless the manifest explicitly expects data.'',
           ''Add labels carefully because Secret metadata may show up in audits even if values stay hidden.'']
          [''Choose the secret type and metadata first.'',
           ''Fill stringData keys with plain values.'',
           ''Review namespace and key names before apply.'']
      else
        guide ''Quick Notes''
          [''Labels use comma-separated key=value pairs.'',
           ''Selected tags are converted to Kubernetes-safe labels automatically.'',
           ''Use Apply Form To YAML when you want the helper values merged into the editor.'']
          [''Choose namespace and helper values.'',
           ''Merge helper values into YAML if useful.'',
           ''Review the final manifest, then apply.''])"

section \<open>Labels made from tags\<close>

lemma dash_runs_chars: "c \<in> set (dash_runs b s) \<Longrightarrow> slug_char c"
  by (induction b s rule: dash_runs.induct) (auto simp: slug_char_def split: if_splits)

lemma strip_dashes_ends:
  "strip_dashes s \<noteq> [] \<Longrightarrow> hd (strip_dashes s) \<noteq> CHR ''-'' \<and> last (strip_dashes s) \<noteq> CHR ''-''"
proof -
  let ?d = "\<lambda>c. c = CHR ''-''"
  assume ne: "strip_dashes s \<noteq> []"
  let ?t = "dropWhile ?d s"
  have last: "last (strip_dashes s) \<noteq> CHR ''-''"
    using ne unfolding strip_dashes_def by (metis (mono_tags, lifting) hd_dropWhile last_rev rev_is_Nil_conv)
  obtain w where w: "rev ?t = w @ dropWhile ?d (rev ?t)" by (metis takeWhile_dropWhile_id)
  then have "?t = strip_dashes s @ rev w" unfolding strip_dashes_def by (metis rev_append rev_rev_ident)
  then have "hd (strip_dashes s) = hd ?t" "?t \<noteq> []" using ne by (metis hd_append2, auto)
  with last show ?thesis using hd_dropWhile [of ?d s] by metis
qed

lemma strip_dashes_fix: "s = [] \<or> hd s \<noteq> CHR ''-'' \<and> last s \<noteq> CHR ''-'' \<Longrightarrow> strip_dashes s = s"
proof -
  assume e: "s = [] \<or> hd s \<noteq> CHR ''-'' \<and> last s \<noteq> CHR ''-''"
  let ?d = "\<lambda>c. c = CHR ''-''"
  have "dropWhile ?d s = s" using e by (cases s) auto
  moreover have "dropWhile ?d (rev s) = rev s" using e by (cases s rule: rev_cases) auto
  ultimately show ?thesis by (simp add: strip_dashes_def)
qed

lemma set_strip_dashes: "set (strip_dashes s) \<subseteq> set s"
  unfolding strip_dashes_def by (auto dest!: set_dropWhileD)

lemma dash_runs_fix: "list_all slug_char s \<Longrightarrow> dash_runs b s = s"
  by (induction b s rule: dash_runs.induct) auto

lemma slug_chars: "c \<in> set (slugifyK8sLabel v) \<Longrightarrow> slug_char c"
  using set_strip_dashes dash_runs_chars unfolding slugifyK8sLabel_def by blast

lemma slug_char_lower: "slug_char c \<Longrightarrow> lower_char c = c \<and> \<not> is_ws c"
  by (auto simp: slug_char_def lower_char_def is_ws_def Let_def)

text \<open>
  A label made from a tag has only lower-case letters, digits and dashes, neither starts nor
  ends with a dash, and is a fixed point: a label made from it again is the same.
\<close>

theorem slug_is_label:
  "list_all slug_char (slugifyK8sLabel v) \<and> hd (slugifyK8sLabel v @ ''x'') \<noteq> CHR ''-'' \<and>
   last (CHR ''x'' # slugifyK8sLabel v) \<noteq> CHR ''-'' \<and>
   slugifyK8sLabel (slugifyK8sLabel v) = slugifyK8sLabel v"
proof -
  let ?s = "slugifyK8sLabel v"
  have all: "list_all slug_char ?s" using slug_chars by (simp add: list_all_iff)
  have ends: "?s = [] \<or> hd ?s \<noteq> CHR ''-'' \<and> last ?s \<noteq> CHR ''-''"
    using strip_dashes_ends unfolding slugifyK8sLabel_def by blast
  have "map lower_char ?s = ?s" using slug_chars slug_char_lower by (simp add: map_idI)
  moreover have "trim ?s = ?s"
    using slug_chars slug_char_lower by (intro trim_fix) (metis hd_in_set last_in_set)
  ultimately have "slugifyK8sLabel ?s = ?s"
    using all ends by (simp add: slugifyK8sLabel_def [of ?s] lower_def dash_runs_fix strip_dashes_fix)
  with all ends show ?thesis by (cases ?s) auto
qed

section \<open>The entries of a config map\<close>

lemma shortest_data_lines: "shortest_data r = Some s \<Longrightarrow> length (List.map_filter config_line (lines_of s)) \<le> 1"
proof -
  assume s: "shortest_data r = Some s"
  have one: "length (List.map_filter config_line [a]) \<le> 1" for a
    by (simp add: List.map_filter_def)
  have nolf: "CHR 0x0A \<notin> set (takeWhile (\<lambda>d. \<not> is_lt d) t)" for t
    by (auto simp: is_lt_def dest: set_takeWhileD)
  have empty: "config_line [] = None" by (simp add: config_line_def)
  obtain c t where r: "r = c # t" using s by (cases r) auto
  show ?thesis
  proof (cases "is_lt c \<and> t \<noteq> [] \<and> word_char (hd t)")
    case True
    then have "s = [c]" using s r by simp
    then show ?thesis by (auto simp: List.map_filter_def config_line_def is_lt_def)
  next
    case False
    then have s': "s = c # takeWhile (\<lambda>d. \<not> is_lt d) t" using s r by (auto split: if_splits)
    show ?thesis
    proof (cases "c = CHR 0x0A")
      case True
      then have "lines_of s = [[], takeWhile (\<lambda>d. \<not> is_lt d) t]"
        using nolf s' by (simp add: split_on_no_sep)
      then show ?thesis using empty by (simp add: List.map_filter_def)
    next
      case False
      then have "lines_of s = [s]" using nolf s' by (intro split_on_no_sep) auto
      then show ?thesis using one by simp
    qed
  qed
qed

lemma first_some_found: "first_some f xs = Some y \<Longrightarrow> \<exists>x \<in> set xs. f x = Some y"
  by (induction xs) (auto split: option.splits)

lemma length_number_entries [simp]: "length (number_entries ids n es) = length es"
  by (induction ids n es rule: number_entries.induct) auto

text \<open>
  Whenever a manifest has a top-level data block, the form reads at most one entry from it:
  the pattern's dollar sign ends its shortest match with the first line, so the other entries are
  not in the form and are lost when it is applied.
\<close>

theorem config_form_one_entry:
  assumes "top_data manifest \<noteq> None"
  shows "length (af_configEntries (buildAssistedFormState ids manifest namespace)) = 1"
proof -
  obtain s where s: "top_data manifest = Some s" using assms by blast
  then obtain t where "shortest_data t = Some s"
    unfolding top_data_def by (auto simp: bind_eq_Some_conv dest!: first_some_found)
  then have "length (List.map_filter config_line (lines_of s)) \<le> 1" by (rule shortest_data_lines)
  then have "length (let entries = List.map_filter config_line (lines_of s)
      in if entries = [] then [([], [])] else entries) = 1"
    by (cases "List.map_filter config_line (lines_of s)") (auto simp: Let_def)
  with s show ?thesis by (simp add: buildAssistedFormState_def extractConfigEntries_def Let_def)
qed

definition sample_config_map :: string where
  "sample_config_map = unlines
     [''apiVersion: v1'', ''kind: ConfigMap'', ''metadata:'', ''  name: sample-config'', ''data:'',
      ''  APP_ENV: production'', ''  APP_NAME: einfra'', []]"

theorem config_form_one_entry_witness:
  "length (af_configEntries (buildAssistedFormState show_nat sample_config_map ''default'')) = 1"
proof -
  have "top_data sample_config_map = Some ''  APP_ENV: production''" by code_simp
  then show ?thesis using config_form_one_entry by simp
qed

section \<open>Setting a metadata field\<close>

lemma drop_crlf_id: "CHR 0x0D \<notin> set s \<Longrightarrow> drop_crlf s = s"
  by (induction s rule: drop_crlf.induct) auto

lemma indent_field:
  "key \<noteq> [] \<Longrightarrow> \<forall>c \<in> set key. \<not> is_ws c \<Longrightarrow> indent_of (spaces n @ key @ r) = n"
proof -
  assume k: "key \<noteq> []" "\<forall>c \<in> set key. \<not> is_ws c"
  have sp: "\<forall>c \<in> set (spaces n). is_ws c" by (simp add: spaces_def is_ws_def)
  have "takeWhile is_ws (key @ r) = []" using k by (cases key) auto
  then have "takeWhile is_ws (spaces n @ key @ r) = spaces n"
    using takeWhile_append2 [of "spaces n" is_ws "key @ r"] sp by simp
  then show ?thesis by (simp add: indent_of_def) (simp add: spaces_def)
qed

lemma field_line_new:
  assumes "\<forall>c \<in> set v. \<not> is_lt c"
  shows "field_line n key (spaces n @ key @ '': '' @ v)"
proof -
  have "CHR 0x0D \<notin> set (ltrim ('' '' @ v))"
    using assms set_ltrim [of "'' '' @ v"] by (auto simp: is_lt_def)
  then show ?thesis
    by (simp add: field_line_def after_prefix_def spaces_def is_ws_def list_all_iff starts_with_def)
qed

lemma in_block_new:
  "key \<noteq> [] \<Longrightarrow> \<forall>c \<in> set key. \<not> is_ws c \<Longrightarrow> in_block ind (spaces (ind + 2) @ key @ r)"
  by (simp add: in_block_def indent_field)

lemma update_first_twice:
  "p y \<Longrightarrow> update_first p (\<lambda>_. z) (update_first p (\<lambda>_. y) xs) = update_first p (\<lambda>_. z) xs"
  by (induction xs) auto

lemma update_first_snoc: "\<not> list_ex p xs \<Longrightarrow> p y \<Longrightarrow> update_first p f (xs @ [y]) = xs @ [f y]"
  by (induction xs) auto

lemma list_ex_update_first: "p y \<Longrightarrow> list_ex p (update_first p (\<lambda>_. y) xs) = list_ex p xs"
  by (induction xs) auto

lemma set_field_twice:
  assumes "\<forall>c \<in> set v. \<not> is_lt c"
  shows "set_field n key w (set_field n key v block) = set_field n key w block"
  using field_line_new [OF assms, of n key]
  by (simp add: set_field_def Let_def update_first_twice update_first_snoc list_ex_update_first)

lemma set_field_members: "set (set_field n key v block) \<subseteq> insert (spaces n @ key @ '': '' @ v) (set block)"
proof -
  have "set (update_first p (\<lambda>_. y) xs) \<subseteq> insert y (set xs)" for p and y :: string and xs
    by (induction xs) auto
  then show ?thesis by (simp add: set_field_def Let_def)
qed

lemma lines_no_break: "l \<in> set (lines_of s) \<Longrightarrow> CHR 0x0A \<notin> set l"
  by (rule split_on_pieces)

lemma set_field_block:
  assumes "key \<noteq> []" "\<forall>c \<in> set key. \<not> is_ws c" "\<forall>l \<in> set block. in_block ind l"
    and "after = [] \<or> \<not> in_block ind (hd after)"
  shows "takeWhile (in_block ind) (set_field (ind + 2) key v block @ after) = set_field (ind + 2) key v block \<and>
    dropWhile (in_block ind) (set_field (ind + 2) key v block @ after) = after"
proof -
  have "\<forall>l \<in> set (set_field (ind + 2) key v block). in_block ind l"
    using assms(3) set_field_members in_block_new [OF assms(1,2)] by blast
  moreover have "takeWhile (in_block ind) after = []" "dropWhile (in_block ind) after = after"
    using assms(4) by (cases after; auto)+
  ultimately show ?thesis by simp
qed

lemma chars_of_lines: "set s = set (unlines ls) \<Longrightarrow> l \<in> set ls \<Longrightarrow> set l \<subseteq> set s"
proof -
  have "l \<in> set ls \<Longrightarrow> set l \<subseteq> set (join_with sep ls)" for sep :: string
    by (induction sep ls rule: join_with.induct) auto
  then show "set s = set (unlines ls) \<Longrightarrow> l \<in> set ls \<Longrightarrow> set l \<subseteq> set s" by auto
qed

lemma join_with_set: "set (join_with sep ls) \<subseteq> set sep \<union> \<Union> (set ` set ls)"
  by (induction sep ls rule: join_with.induct) auto

lemma metadata_set_absent:
  assumes "CHR 0x0D \<notin> set m" "key \<noteq> []" "\<forall>c \<in> set key. \<not> is_ws c" "\<forall>c \<in> set v. \<not> is_lt c"
    and Nil: "dropWhile (\<lambda>l. trim l \<noteq> ''metadata:'') (lines_of m) = []"
  shows "replaceOrInsertMetadataValue (replaceOrInsertMetadataValue m key v) key w
       = replaceOrInsertMetadataValue m key w"
proof -
  let ?meta = "\<lambda>l. trim l \<noteq> ''metadata:''" and ?ls = "lines_of m"
  have key: "CHR 0x0A \<notin> set key" "CHR 0x0D \<notin> set key" using assms(3) by (auto simp: is_ws_def)
  have v: "CHR 0x0A \<notin> set v" "CHR 0x0D \<notin> set v" using assms(4) by (auto simp: is_lt_def)
  have m: "drop_crlf m = m" by (rule drop_crlf_id [OF assms(1)])
  have unl: "unlines ?ls = m" by (rule join_split)
  let ?f = "''  '' @ key @ '': '' @ v"
  let ?t = "''metadata:'' @ newline @ ?f @ newline @ m"
  have t: "replaceOrInsertMetadataValue m key v = ?t"
    unfolding replaceOrInsertMetadataValue_def Let_def m Nil by simp
  have f: "?f = spaces 2 @ key @ '': '' @ v" by (simp add: spaces_def eval_nat_numeral)
  have nf: "CHR 0x0A \<notin> set ?f" using key v by simp
  have "lines_of (?f @ newline @ m) = ?f # ?ls" using split_on_append [OF nf, of m] by simp
  moreover have "CHR 0x0A \<notin> set ''metadata:''" by simp
  ultimately have ls: "lines_of ?t = ''metadata:'' # ?f # ?ls"
    using split_on_append [of "CHR 0x0A" "''metadata:''" "?f @ newline @ m"] by simp
  have dt: "drop_crlf ?t = ?t" using assms(1) key v by (intro drop_crlf_id) simp
  have tm: "trim ''metadata:'' = ''metadata:''" "indent_of ''metadata:'' = 0"
    by (simp_all add: trim_fix is_ws_def indent_of_def)
  have ib: "in_block 0 ?f"
    using in_block_new [OF assms(2,3), of 0 "'': '' @ v"] unfolding f by (simp only: add_0)
  have fl: "field_line 2 key ?f" unfolding f by (rule field_line_new [OF assms(4)])
  have sf: "set_field (0 + 2) key w (?f # b) = (''  '' @ key @ '': '' @ w) # b" for b
    using fl by (simp only: add_0 set_field_def Let_def list_ex_Cons_iff update_first.simps simp_thms if_True)
      (simp add: spaces_def eval_nat_numeral)
  have e: "takeWhile ?meta (''metadata:'' # ?f # ?ls) = []"
      "dropWhile ?meta (''metadata:'' # ?f # ?ls) = ''metadata:'' # ?f # ?ls"
    by (simp_all add: tm(1))
  have b: "takeWhile (in_block 0) (?f # ?ls) = ?f # takeWhile (in_block 0) ?ls"
      "dropWhile (in_block 0) (?f # ?ls) = dropWhile (in_block 0) ?ls"
    using ib by simp_all
  have "replaceOrInsertMetadataValue ?t key w
      = unlines (''metadata:'' # (''  '' @ key @ '': '' @ w) # ?ls)"
    unfolding replaceOrInsertMetadataValue_def Let_def dt ls e
    by (simp only: list.case tm(2) b sf) (simp only: append_Nil append_Cons takeWhile_dropWhile_id)
  also have "\<dots> = replaceOrInsertMetadataValue m key w"
    unfolding replaceOrInsertMetadataValue_def Let_def m Nil list.case using unl
    by (simp only: join_with.simps join_with_Cons split_on_nonempty append_assoc append_Cons append_Nil
        not_False_eq_True)
  finally show ?thesis by (simp only: t)
qed

lemma metadata_set_present:
  assumes "CHR 0x0D \<notin> set m" "key \<noteq> []" "\<forall>c \<in> set key. \<not> is_ws c" "\<forall>c \<in> set v. \<not> is_lt c"
    and Cons: "dropWhile (\<lambda>l. trim l \<noteq> ''metadata:'') (lines_of m) = meta # rest"
  shows "replaceOrInsertMetadataValue (replaceOrInsertMetadataValue m key v) key w
       = replaceOrInsertMetadataValue m key w"
proof -
  let ?meta = "\<lambda>l. trim l \<noteq> ''metadata:''" and ?ls = "lines_of m"
  have key: "CHR 0x0A \<notin> set key" "CHR 0x0D \<notin> set key" using assms(3) by (auto simp: is_ws_def)
  have v: "CHR 0x0A \<notin> set v" "CHR 0x0D \<notin> set v" using assms(4) by (auto simp: is_lt_def)
  have m: "drop_crlf m = m" by (rule drop_crlf_id [OF assms(1)])
  have unl: "unlines ?ls = m" by (rule join_split)
  let ?before = "takeWhile ?meta ?ls" and ?ind = "indent_of meta"
  let ?block = "takeWhile (in_block ?ind) rest" and ?after = "dropWhile (in_block ?ind) rest"
  let ?new = "\<lambda>u. ?before @ meta # set_field (?ind + 2) key u ?block @ ?after"
  have r: "replaceOrInsertMetadataValue m key u = unlines (?new u)" for u
    unfolding replaceOrInsertMetadataValue_def Let_def m Cons by (simp only: list.case)
  have "set (dropWhile ?meta ?ls) \<subseteq> set ?ls" by (auto dest: set_dropWhileD)
  then have sub: "meta \<in> set ?ls" "set rest \<subseteq> set ?ls" unfolding Cons by simp_all
  have mt: "\<not> ?meta meta" using hd_dropWhile [of ?meta ?ls] unfolding Cons by simp
  have all: "set (?new v) \<subseteq> insert (spaces (?ind + 2) @ key @ '': '' @ v) (set ?ls)"
  proof -
    have "set ?before \<subseteq> set ?ls" "set ?block \<subseteq> set rest" "set ?after \<subseteq> set rest"
      by (auto dest: set_takeWhileD set_dropWhileD)
    then show ?thesis
      using sub set_field_members [of "?ind + 2" key v ?block] by (simp only: set_append list.set) blast
  qed
  have nolf: "\<forall>l \<in> set (?new v). CHR 0x0A \<notin> set l"
  proof
    fix l assume "l \<in> set (?new v)"
    then have "l = spaces (?ind + 2) @ key @ '': '' @ v \<or> l \<in> set ?ls" using all by blast
    then show "CHR 0x0A \<notin> set l" using lines_no_break key v by (auto simp: spaces_def)
  qed
  have "\<forall>l \<in> set ?ls. CHR 0x0D \<notin> set l"
    using assms(1) chars_of_lines [of m ?ls] unl by auto
  moreover have "CHR 0x0D \<notin> set (spaces (?ind + 2) @ key @ '': '' @ v)"
    using key v by (simp add: spaces_def)
  ultimately have "\<forall>l \<in> set (?new v). CHR 0x0D \<notin> set l" using all by blast
  moreover have "CHR 0x0D \<notin> set newline" by simp
  ultimately have "CHR 0x0D \<notin> set (unlines (?new v))"
    using join_with_set [of newline "?new v"] by blast
  then have d: "drop_crlf (unlines (?new v)) = unlines (?new v)" by (rule drop_crlf_id)
  have "?new v \<noteq> []" by simp
  then have l: "lines_of (unlines (?new v)) = ?new v" using nolf by (rule split_join)
  have "\<forall>x \<in> set ?before. ?meta x" by (auto dest: set_takeWhileD)
  then have tw: "takeWhile ?meta (?new v) = ?before"
      "dropWhile ?meta (?new v) = meta # set_field (?ind + 2) key v ?block @ ?after"
    using mt by simp_all
  have "?after = [] \<or> \<not> in_block ?ind (hd ?after)" by (metis hd_dropWhile)
  then have b: "takeWhile (in_block ?ind) (set_field (?ind + 2) key v ?block @ ?after)
      = set_field (?ind + 2) key v ?block"
      "dropWhile (in_block ?ind) (set_field (?ind + 2) key v ?block @ ?after) = ?after"
    using set_field_block [OF assms(2,3), of ?block ?ind ?after v] by (auto dest: set_takeWhileD)
  have "replaceOrInsertMetadataValue (unlines (?new v)) key w = unlines (?new w)"
    unfolding replaceOrInsertMetadataValue_def Let_def d l tw
    by (simp only: list.case b set_field_twice [OF assms(4)])
  then show ?thesis by (simp only: r)
qed

text \<open>
  Setting a metadata field twice leaves the manifest as if only the second value had been
  set, wherever the metadata block is and whether or not the field was there before: values
  replace each other and nothing accumulates.
\<close>

theorem metadata_set_again:
  assumes "CHR 0x0D \<notin> set m" "key \<noteq> []" "\<forall>c \<in> set key. \<not> is_ws c" "\<forall>c \<in> set v. \<not> is_lt c"
  shows "replaceOrInsertMetadataValue (replaceOrInsertMetadataValue m key v) key w
       = replaceOrInsertMetadataValue m key w"
proof (cases "dropWhile (\<lambda>l. trim l \<noteq> ''metadata:'') (lines_of m)")
  case Nil
  with assms show ?thesis by (intro metadata_set_absent)
next
  case (Cons meta rest)
  with assms show ?thesis by (intro metadata_set_present)
qed

theorem metadata_set_again_witness:
  "replaceOrInsertMetadataValue (replaceOrInsertMetadataValue sample_config_map ''namespace'' ''dev'') ''namespace'' ''prod''
     = replaceOrInsertMetadataValue sample_config_map ''namespace'' ''prod''"
proof -
  have "CHR 0x0D \<notin> set sample_config_map" "''namespace'' \<noteq> []" "\<forall>c \<in> set ''namespace''. \<not> is_ws c"
    "\<forall>c \<in> set ''dev''. \<not> is_lt c"
    by (simp_all add: sample_config_map_def is_ws_def is_lt_def)
  then show ?thesis by (rule metadata_set_again)
qed

end
