(* ===== verification/DockerCompose.thy ===== *)
theory DockerCompose
  imports DockerPresets DockerApi Manifest
begin

text \<open>
  The documents of \<open>features/docker/components/DeployContainerModal.tsx\<close>: the rows of its editors,
  the labels of tags, and the text of a container and of a Docker Compose file.
\<close>

section \<open>Rows\<close>

record KeyValueRow =
  kv_key :: string
  kv_value :: string

datatype protocol_name = Tcp | Udp

record PortRow =
  pr_hostPort :: string
  pr_containerPort :: string
  pr_protocol :: protocol_name

datatype volume_mode = ReadWrite | ReadOnly

datatype source_type = NamedSource | BindSource

record VolumeRow =
  vr_source :: string
  vr_target :: string
  vr_mode :: volume_mode
  vr_sourceType :: source_type

datatype restart_policy = NoRestart | Always | UnlessStopped | OnFailure

fun restart_text :: "restart_policy \<Rightarrow> string" where
  "restart_text NoRestart = ''no''"
| "restart_text Always = ''always''"
| "restart_text UnlessStopped = ''unless-stopped''"
| "restart_text OnFailure = ''on-failure''"

record ServiceDraft =
  sd_id :: string
  sd_name :: string
  sd_image :: string
  sd_env :: "KeyValueRow list"
  sd_ports :: "PortRow list"
  sd_volumes :: "VolumeRow list"
  sd_networks :: "string list"
  sd_dependsOn :: "string list"
  sd_secretRefs :: "string list"
  sd_configRefs :: "string list"
  sd_tags :: "string list"
  sd_restartPolicy :: restart_policy
  sd_containerName :: string
  sd_memoryLimit :: string
  sd_cpuLimit :: string
  sd_healthcheckCommand :: string
  sd_healthcheckInterval :: string
  sd_healthcheckTimeout :: string
  sd_healthcheckRetries :: string
  sd_loggingDriver :: string
  sd_loggingMaxSize :: string
  sd_loggingMaxFile :: string
  sd_expanded :: bool
  sd_advancedOpen :: bool

definition emptyEnv :: KeyValueRow where
  "emptyEnv = \<lparr>kv_key = [], kv_value = []\<rparr>"

definition emptyPort :: PortRow where
  "emptyPort = \<lparr>pr_hostPort = [], pr_containerPort = [], pr_protocol = Tcp\<rparr>"

definition emptyVolume :: VolumeRow where
  "emptyVolume = \<lparr>vr_source = [], vr_target = [], vr_mode = ReadWrite, vr_sourceType = NamedSource\<rparr>"

text \<open>The identifier of a draft is drawn from the clock and at random; it is an argument.\<close>

definition createService :: "string \<Rightarrow> string \<Rightarrow> string \<Rightarrow> ServiceDraft" where
  "createService uid name img =
     \<lparr>sd_id = uid, sd_name = name, sd_image = img, sd_env = [emptyEnv], sd_ports = [emptyPort],
      sd_volumes = [emptyVolume], sd_networks = [''default''], sd_dependsOn = [], sd_secretRefs = [],
      sd_configRefs = [], sd_tags = [], sd_restartPolicy = UnlessStopped, sd_containerName = [],
      sd_memoryLimit = [], sd_cpuLimit = [], sd_healthcheckCommand = [], sd_healthcheckInterval = ''30s'',
      sd_healthcheckTimeout = ''5s'', sd_healthcheckRetries = ''3'', sd_loggingDriver = ''json-file'',
      sd_loggingMaxSize = ''10m'', sd_loggingMaxFile = ''3'', sd_expanded = True, sd_advancedOpen = False\<rparr>"

definition toRecord :: "KeyValueRow list \<Rightarrow> (string \<times> string) list" where
  "toRecord rows =
     foldl (\<lambda>acc row. if trim (kv_key row) \<noteq> [] then put (trim (kv_key row)) (kv_value row) acc else acc) [] rows"

definition port_text :: "PortRow \<Rightarrow> string" where
  "port_text row = trim (pr_hostPort row) @ '':'' @ trim (pr_containerPort row) @
     (if pr_protocol row = Udp then ''/udp'' else [])"

definition toPortList :: "PortRow list \<Rightarrow> string list" where
  "toPortList rows =
     map port_text (filter (\<lambda>row. trim (pr_hostPort row) \<noteq> [] \<and> trim (pr_containerPort row) \<noteq> []) rows)"

definition volume_text :: "VolumeRow \<Rightarrow> string" where
  "volume_text row = trim (vr_source row) @ '':'' @ trim (vr_target row) @
     (if vr_mode row = ReadOnly then '':ro'' else [])"

definition toVolumeList :: "VolumeRow list \<Rightarrow> string list" where
  "toVolumeList rows =
     map volume_text (filter (\<lambda>row. trim (vr_source row) \<noteq> [] \<and> trim (vr_target row) \<noteq> []) rows)"

section \<open>Sources of volumes\<close>

abbreviation backslash :: char where
  "backslash \<equiv> CHR 0x5C"

definition is_letter :: "char \<Rightarrow> bool" where
  "is_letter c \<longleftrightarrow> is_alnum c \<and> \<not> is_digit c"

text \<open>A drive letter, a colon and a backslash; what follows is the result.\<close>

fun drive_rest :: "string \<Rightarrow> string option" where
  "drive_rest (c # d # e # r) = (if is_letter c \<and> d = CHR '':'' \<and> e = backslash then Some r else None)"
| "drive_rest s = None"

definition isBindSource :: "string \<Rightarrow> bool" where
  "isBindSource v \<longleftrightarrow> (let s = trim v in
     starts_with ''/'' s \<or> starts_with ''./'' s \<or> starts_with ''../'' s \<or> drive_rest s \<noteq> None \<or>
     starts_with [backslash, backslash] s)"

text \<open>The dot of a pattern matches no line terminator: two control characters and two of Unicode.\<close>

definition has_terminator :: "string \<Rightarrow> bool" where
  "has_terminator s \<longleftrightarrow> CHR 0x0A \<in> set s \<or> CHR 0x0D \<in> set s \<or>
     str_includes s [CHR 0xE2, CHR 0x80, CHR 0xA8] \<or> str_includes s [CHR 0xE2, CHR 0x80, CHR 0xA9]"

text \<open>The host, the share and the rest of a network path after its two backslashes.\<close>

definition share_path :: "string \<Rightarrow> bool" where
  "share_path s \<longleftrightarrow>
     (let host = takeWhile (\<lambda>c. c \<noteq> backslash) s; r = dropWhile (\<lambda>c. c \<noteq> backslash) s;
          share = takeWhile (\<lambda>c. c \<noteq> backslash) (drop 1 r) in
      host \<noteq> [] \<and> r \<noteq> [] \<and> share \<noteq> [] \<and>
      \<not> has_terminator (dropWhile (\<lambda>c. c \<noteq> backslash) (drop 1 r)))"

definition isValidBindPath :: "string \<Rightarrow> bool" where
  "isValidBindPath v \<longleftrightarrow> (let s = trim v in
     (CHR 0x00 \<notin> set s \<and> (starts_with ''/'' s \<or> starts_with ''./'' s \<or> starts_with ''../'' s \<or> drive_rest s \<noteq> None)) \<or>
     (starts_with [backslash, backslash] s \<and> share_path (drop 2 s)))"

definition isValidNamedVolume :: "string \<Rightarrow> bool" where
  "isValidNamedVolume v \<longleftrightarrow> (case trim v of [] \<Rightarrow> False | c # s \<Rightarrow>
     is_alnum c \<and> list_all (\<lambda>x. is_alnum x \<or> x \<in> {CHR ''_'', CHR ''.'', CHR ''-''}) s)"

section \<open>Labels of tags\<close>

definition tag_char :: "char \<Rightarrow> bool" where
  "tag_char c \<longleftrightarrow> slug_char c \<and> c \<noteq> CHR ''-''"

fun tag_runs :: "bool \<Rightarrow> string \<Rightarrow> string" where
  "tag_runs in_run [] = []"
| "tag_runs in_run (c # s) =
     (if tag_char c then c # tag_runs False s
      else if in_run then tag_runs True s
      else CHR ''-'' # tag_runs True s)"

definition slugifyTag :: "string \<Rightarrow> string" where
  "slugifyTag v = strip_dashes (tag_runs False (lower (trim v)))"

text \<open>\<open>Array.from(new Set(xs))\<close> keeps the first of equal values.\<close>

definition js_set :: "'a list \<Rightarrow> 'a list" where
  "js_set xs = rev (remdups (rev xs))"

definition tag_names :: "string list \<Rightarrow> string list" where
  "tag_names tags = js_set (filter (\<lambda>t. t \<noteq> []) (map trim tags))"

definition buildTagLabels :: "string list \<Rightarrow> (string \<times> string) list" where
  "buildTagLabels tags =
     (let normalized = tag_names tags in
      foldl (\<lambda>acc tag. put ''einfra.tags'' (join_with '', '' normalized)
          (if slugifyTag tag \<noteq> [] then put (''einfra.tag.'' @ slugifyTag tag) ''true'' acc else acc))
        [] normalized)"

fun toSwarmRestartCondition :: "restart_policy \<Rightarrow> string" where
  "toSwarmRestartCondition Always = ''any''"
| "toSwarmRestartCondition UnlessStopped = ''any''"
| "toSwarmRestartCondition OnFailure = ''on-failure''"
| "toSwarmRestartCondition NoRestart = ''none''"

section \<open>The text of a Compose file\<close>

definition quoted :: "string \<Rightarrow> string" where
  "quoted s = dquote @ s @ dquote"

definition escape_quotes :: "string \<Rightarrow> string" where
  "escape_quotes s = replace_all_char (CHR 0x22) [backslash, CHR 0x22] s"

abbreviation filled_in :: "string \<Rightarrow> bool" where
  "filled_in s \<equiv> trim s \<noteq> []"

definition names_of :: "string list \<Rightarrow> string list" where
  "names_of items = filter (\<lambda>s. s \<noteq> []) (map trim items)"

definition block :: "string \<Rightarrow> string list \<Rightarrow> string list" where
  "block header items = (if items = [] then [] else header # items)"

definition field :: "string \<Rightarrow> string \<Rightarrow> string list" where
  "field label v = (if filled_in v then [label @ quoted (trim v)] else [])"

definition entry_lines :: "nat \<Rightarrow> (string \<times> string) list \<Rightarrow> string list" where
  "entry_lines n kvs = map (\<lambda>(k, v). spaces n @ k @ '': '' @ quoted v) kvs"

definition item_lines :: "(string \<Rightarrow> string) \<Rightarrow> string list \<Rightarrow> string list" where
  "item_lines f items = map (\<lambda>i. ''      - '' @ f i) items"

definition deploy_lines :: "ServiceDraft \<Rightarrow> string list" where
  "deploy_lines sv =
     [''    deploy:'', ''      restart_policy:'',
      ''        condition: '' @ toSwarmRestartCondition (sd_restartPolicy sv)] @
     block ''      resources:''
       (block ''        limits:''
         (field ''          memory: '' (sd_memoryLimit sv) @ field ''          cpus: '' (sd_cpuLimit sv)))"

definition healthcheck_lines :: "ServiceDraft \<Rightarrow> string list" where
  "healthcheck_lines sv =
     (if filled_in (sd_healthcheckCommand sv)
      then [''    healthcheck:'',
            ''      test: ['' @ quoted ''CMD-SHELL'' @ '', '' @ quoted (escape_quotes (sd_healthcheckCommand sv)) @ '']''] @
           field ''      interval: '' (sd_healthcheckInterval sv) @
           field ''      timeout: '' (sd_healthcheckTimeout sv) @
           (if filled_in (sd_healthcheckRetries sv) then [''      retries: '' @ trim (sd_healthcheckRetries sv)] else [])
      else [])"

definition logging_lines :: "ServiceDraft \<Rightarrow> string list" where
  "logging_lines sv =
     (if filled_in (sd_loggingDriver sv)
      then [''    logging:'', ''      driver: '' @ trim (sd_loggingDriver sv), ''      options:''] @
           field ''        max-size: '' (sd_loggingMaxSize sv) @ field ''        max-file: '' (sd_loggingMaxFile sv)
      else [])"

definition service_env :: "KeyValueRow list \<Rightarrow> ServiceDraft \<Rightarrow> (string \<times> string) list" where
  "service_env sharedEnvRows sv = spread (toRecord sharedEnvRows) (toRecord (sd_env sv))"

definition service_networks :: "string \<Rightarrow> ServiceDraft \<Rightarrow> string list" where
  "service_networks defaultNetwork sv =
     (if names_of (sd_networks sv) = [] then [defaultNetwork] else names_of (sd_networks sv))"

definition service_lines :: "KeyValueRow list \<Rightarrow> string list \<Rightarrow> string \<Rightarrow> ServiceDraft \<Rightarrow> string list" where
  "service_lines sharedEnvRows sharedTags defaultNetwork sv =
     [''  '' @ or_str (sd_name sv) ''service'' @ '':'',
      ''    image: '' @ or_str (sd_image sv) ''nginx:stable-alpine''] @
     block ''    environment:'' (entry_lines 6 (service_env sharedEnvRows sv)) @
     block ''    labels:'' (entry_lines 6 (buildTagLabels (sharedTags @ sd_tags sv))) @
     block ''    ports:'' (item_lines quoted (toPortList (sd_ports sv))) @
     block ''    volumes:'' (item_lines quoted (toVolumeList (sd_volumes sv))) @
     ''    networks:'' # item_lines id (service_networks defaultNetwork sv) @
     (if sd_dependsOn sv = [] then [] else ''    depends_on:'' # item_lines id (filter filled_in (sd_dependsOn sv))) @
     block ''    secrets:'' (item_lines id (filter filled_in (sd_secretRefs sv))) @
     block ''    configs:'' (item_lines id (filter filled_in (sd_configRefs sv))) @
     deploy_lines sv @ healthcheck_lines sv @ logging_lines sv"

definition default_network :: "string list \<Rightarrow> string" where
  "default_network normalizedNetworks = (case normalizedNetworks of [] \<Rightarrow> ''default'' | n # _ \<Rightarrow> n)"

text \<open>A block at the top level of the file: a name and, under each key, fixed lines.\<close>

definition top_block :: "string \<Rightarrow> (string \<Rightarrow> string) \<Rightarrow> string list \<Rightarrow> string" where
  "top_block header f items = (if items = [] then [] else newline @ header @ newline @ unlines (map f items))"

definition buildComposeYaml ::
  "ServiceDraft list \<Rightarrow> string list \<Rightarrow> string list \<Rightarrow> KeyValueRow list \<Rightarrow> string list
     \<Rightarrow> KeyValueRow list \<Rightarrow> KeyValueRow list \<Rightarrow> string" where
  "buildComposeYaml services namedVolumes namedNetworks sharedEnvRows sharedTags secretRows configRows =
     (let defaultNetwork = default_network (names_of namedNetworks);
          composeNetworks = js_set (names_of namedNetworks @ [defaultNetwork]);
          external = (\<lambda>s. ''  '' @ s @ '':'' @ newline @ ''    external: false'') in
      ''services:'' @ newline @
      unlines (map (\<lambda>sv. unlines (service_lines sharedEnvRows sharedTags defaultNetwork sv)) services) @
      top_block ''volumes:'' (\<lambda>v. ''  '' @ v @ '':'') (names_of namedVolumes) @
      top_block ''networks:'' (\<lambda>n. ''  '' @ n @ '':'' @ newline @ ''    driver: bridge'') composeNetworks @
      top_block ''secrets:'' external (map fst (toRecord secretRows)) @
      top_block ''configs:'' external (map fst (toRecord configRows)))"

section \<open>Lines of a Compose file\<close>

abbreviation one_line :: "string \<Rightarrow> bool" where
  "one_line s \<equiv> CHR 0x0A \<notin> set s"

text \<open>The entries of a block: a name and a fixed line under it.\<close>

definition two_lines :: "string \<Rightarrow> string list \<Rightarrow> string list" where
  "two_lines x ns = concat (map (\<lambda>n. [''  '' @ n @ '':'', x]) ns)"

definition compose_lines ::
  "ServiceDraft list \<Rightarrow> string list \<Rightarrow> string list \<Rightarrow> KeyValueRow list \<Rightarrow> string list
     \<Rightarrow> KeyValueRow list \<Rightarrow> KeyValueRow list \<Rightarrow> string list" where
  "compose_lines services namedVolumes namedNetworks sharedEnvRows sharedTags secretRows configRows =
     (let d = default_network (names_of namedNetworks) in
      ''services:'' # concat (map (service_lines sharedEnvRows sharedTags d) services) @
      block ''volumes:'' (map (\<lambda>v. ''  '' @ v @ '':'') (names_of namedVolumes)) @
      block ''networks:'' (two_lines ''    driver: bridge'' (js_set (names_of namedNetworks @ [d]))) @
      block ''secrets:'' (two_lines ''    external: false'' (map fst (toRecord secretRows))) @
      block ''configs:'' (two_lines ''    external: false'' (map fst (toRecord configRows))))"

lemma unlines_append: "xs \<noteq> [] \<Longrightarrow> ys \<noteq> [] \<Longrightarrow> unlines (xs @ ys) = unlines xs @ newline @ unlines ys"
proof (induction xs)
  case (Cons x xs)
  then show ?case by (cases "xs = []") (simp_all add: join_with_Cons)
qed simp

lemma unlines_concat: "\<forall>x \<in> set xs. f x \<noteq> [] \<Longrightarrow> unlines (map (\<lambda>x. unlines (f x)) xs) = unlines (concat (map f xs))"
proof (induction xs)
  case (Cons x xs)
  show ?case
  proof (cases "xs = []")
    case False
    then have "concat (map f xs) \<noteq> []" using Cons.prems by (cases xs) auto
    with Cons False show ?thesis by (simp add: join_with_Cons unlines_append)
  qed simp
qed simp

lemma unlines_top:
  assumes "\<And>i. f i \<noteq> []" "\<And>i. g i = unlines (f i)" "ls \<noteq> []"
  shows "unlines ls @ top_block header g items = unlines (ls @ block header (concat (map f items)))"
proof (cases "items = []")
  case False
  then have c: "concat (map f items) \<noteq> []" using assms(1) by (cases items) auto
  have "map g items = map (\<lambda>i. unlines (f i)) items" using assms(2) by simp
  moreover have "unlines (map (\<lambda>i. unlines (f i)) items) = unlines (concat (map f items))"
    by (rule unlines_concat) (simp add: assms(1))
  ultimately have "unlines (map g items) = unlines (concat (map f items))" by (simp only:)
  moreover have "unlines (ls @ header # concat (map f items))
      = unlines ls @ newline @ header @ newline @ unlines (concat (map f items))"
    using c assms(3) by (simp add: unlines_append join_with_Cons)
  ultimately show ?thesis using False c by (simp add: top_block_def block_def)
qed (simp add: top_block_def block_def)

lemma compose_text:
  assumes "services \<noteq> []"
  shows "buildComposeYaml services vs ns es ts ss cs = unlines (compose_lines services vs ns es ts ss cs)"
proof -
  define d where "d = default_network (names_of ns)"
  define body where "body = ''services:'' # concat (map (service_lines es ts d) services)"
  let ?volume = "\<lambda>v. ''  '' @ v @ '':''"
  let ?driver = "\<lambda>n. ''  '' @ n @ '':'' @ newline @ ''    driver: bridge''"
  let ?external = "\<lambda>s. ''  '' @ s @ '':'' @ newline @ ''    external: false''"
  have nonempty: "service_lines es ts d sv \<noteq> []" for sv by (simp add: service_lines_def)
  with assms have "concat (map (service_lines es ts d) services) \<noteq> []" by (cases services) auto
  then have body: "''services:'' @ newline @ unlines (map (\<lambda>sv. unlines (service_lines es ts d sv)) services) = unlines body"
    by (simp add: nonempty unlines_concat body_def join_with_Cons)
  have v: "ls \<noteq> [] \<Longrightarrow> unlines ls @ top_block h ?volume l = unlines (ls @ block h (map ?volume l))" for ls h l
    using unlines_top [of "\<lambda>v. [?volume v]" ?volume ls h l] by simp
  have n: "ls \<noteq> [] \<Longrightarrow> unlines ls @ top_block h ?driver l = unlines (ls @ block h (two_lines ''    driver: bridge'' l))" for ls h l
    unfolding two_lines_def by (rule unlines_top) simp_all
  have e: "ls \<noteq> [] \<Longrightarrow> unlines ls @ top_block h ?external l = unlines (ls @ block h (two_lines ''    external: false'' l))" for ls h l
    unfolding two_lines_def by (rule unlines_top) simp_all
  have "buildComposeYaml services vs ns es ts ss cs
      = (((unlines body @ top_block ''volumes:'' ?volume (names_of vs)) @
          top_block ''networks:'' ?driver (js_set (names_of ns @ [d]))) @
          top_block ''secrets:'' ?external (map fst (toRecord ss))) @
          top_block ''configs:'' ?external (map fst (toRecord cs))"
    unfolding body [symmetric] by (simp only: buildComposeYaml_def Let_def d_def append_assoc)
  also have "\<dots> = unlines (compose_lines services vs ns es ts ss cs)"
    by (simp only: v n e append_is_Nil_conv body_def list.distinct simp_thms not_False_eq_True)
      (simp add: compose_lines_def d_def Let_def)
  finally show ?thesis .
qed

text \<open>A line inside a top-level block: indented, and without a line break.\<close>

definition inner_line :: "string \<Rightarrow> bool" where
  "inner_line l \<longleftrightarrow> starts_with '' '' l \<and> one_line l"

lemma inner_Cons [simp]: "inner_line (c # l) \<longleftrightarrow> c = CHR '' '' \<and> one_line l"
  by (auto simp: inner_line_def starts_with_def)

lemma inner_block: "(items \<noteq> [] \<Longrightarrow> inner_line h) \<Longrightarrow> \<forall>i \<in> set items. inner_line i \<Longrightarrow> l \<in> set (block h items) \<Longrightarrow> inner_line l"
  by (auto simp: block_def split: if_splits)

lemma trim_one_line: "one_line s \<Longrightarrow> one_line (trim s)"
  using set_trim by blast

lemma quoted_one_line [simp]: "one_line (quoted s) \<longleftrightarrow> one_line s"
  by (simp add: quoted_def)

lemma escape_one_line: "one_line s \<Longrightarrow> one_line (escape_quotes s)"
  by (auto simp: escape_quotes_def replace_all_char_def)

lemma inner_field: "inner_line label \<Longrightarrow> one_line v \<Longrightarrow> \<forall>l \<in> set (field label v). inner_line l"
  by (auto simp: field_def inner_line_def starts_with_iff trim_one_line)

lemma names_of_one_line: "\<forall>i \<in> set items. one_line i \<Longrightarrow> \<forall>i \<in> set (names_of items). one_line i"
  by (auto simp: names_of_def trim_one_line)

text \<open>Entries whose key and value are on one line.\<close>

definition entries_ok :: "(string \<times> string) list \<Rightarrow> bool" where
  "entries_ok kvs \<longleftrightarrow> (\<forall>p \<in> set kvs. one_line (fst p) \<and> one_line (snd p))"

lemma put_ok: "one_line k \<Longrightarrow> one_line v \<Longrightarrow> entries_ok m \<Longrightarrow> entries_ok (put k v m)"
  by (induction k v m rule: put.induct) (auto simp: entries_ok_def)

lemma spread_ok: "entries_ok a \<Longrightarrow> entries_ok b \<Longrightarrow> entries_ok (spread a b)"
proof (induction b rule: rev_induct)
  case (snoc kv b)
  then show ?case by (cases kv) (simp add: spread_def put_ok entries_ok_def [of "b @ x" for x] entries_ok_def [of b])
qed (simp add: spread_def)

definition row_one_line :: "KeyValueRow \<Rightarrow> bool" where
  "row_one_line r \<longleftrightarrow> one_line (kv_key r) \<and> one_line (kv_value r)"

lemma toRecord_snoc:
  "toRecord (rows @ [row]) =
     (if trim (kv_key row) \<noteq> [] then put (trim (kv_key row)) (kv_value row) (toRecord rows) else toRecord rows)"
  by (simp add: toRecord_def)

lemma toRecord_ok: "\<forall>r \<in> set rows. row_one_line r \<Longrightarrow> entries_ok (toRecord rows)"
proof (induction rows rule: rev_induct)
  case (snoc row rows)
  then show ?case by (simp add: toRecord_snoc row_one_line_def trim_one_line put_ok)
qed (simp add: toRecord_def entries_ok_def)

lemma tag_runs_chars: "c \<in> set (tag_runs b s) \<Longrightarrow> slug_char c"
proof (induction b s rule: tag_runs.induct)
  case (2 b x s)
  have "slug_char (CHR ''-'')" by (simp add: slug_char_def)
  with 2 show ?case by (auto simp: tag_char_def split: if_splits)
qed simp

lemma slug_one_line [simp]: "one_line (slugifyTag s)"
proof
  assume "CHR 0x0A \<in> set (slugifyTag s)"
  then have "CHR 0x0A \<in> set (tag_runs False (lower (trim s)))"
    unfolding slugifyTag_def using set_strip_dashes by blast
  then have "slug_char (CHR 0x0A)" by (rule tag_runs_chars)
  then show False by (simp add: slug_char_def)
qed

lemma set_js_set [simp]: "set (js_set xs) = set xs"
  by (simp add: js_set_def)

lemma tag_names_one_line: "\<forall>t \<in> set tags. one_line t \<Longrightarrow> \<forall>t \<in> set (tag_names tags). one_line t"
  by (auto simp: tag_names_def trim_one_line)

lemma join_one_line: "one_line sep \<Longrightarrow> \<forall>l \<in> set ls. one_line l \<Longrightarrow> one_line (join_with sep ls)"
  by (induction sep ls rule: join_with.induct) auto

lemma tag_labels_ok:
  assumes "\<forall>t \<in> set tags. one_line t"
  shows "entries_ok (buildTagLabels tags)"
proof -
  define j where "j = join_with '', '' (tag_names tags)"
  have j: "one_line j"
    unfolding j_def using tag_names_one_line [OF assms] by (intro join_one_line) simp_all
  have "entries_ok (foldl (\<lambda>acc tag. put ''einfra.tags'' j
      (if slugifyTag tag \<noteq> [] then put (''einfra.tag.'' @ slugifyTag tag) ''true'' acc else acc)) [] ts)" for ts
    by (induction ts rule: rev_induct) (auto simp: j put_ok entries_ok_def [of "[]"])
  then show ?thesis by (simp add: buildTagLabels_def Let_def j_def)
qed

lemma inner_entries: "entries_ok kvs \<Longrightarrow> \<forall>l \<in> set (entry_lines 6 kvs). inner_line l"
  by (auto simp: entries_ok_def entry_lines_def spaces_def eval_nat_numeral)

lemma inner_items: "\<forall>i \<in> set items. one_line (f i) \<Longrightarrow> \<forall>l \<in> set (item_lines f items). inner_line l"
  by (auto simp: item_lines_def)

text \<open>What an input of one line lets the user type into a draft.\<close>

definition draft_ok :: "ServiceDraft \<Rightarrow> bool" where
  "draft_ok sv \<longleftrightarrow>
     (\<forall>s \<in> set ([sd_name sv, sd_image sv, sd_memoryLimit sv, sd_cpuLimit sv, sd_healthcheckCommand sv,
        sd_healthcheckInterval sv, sd_healthcheckTimeout sv, sd_healthcheckRetries sv, sd_loggingDriver sv,
        sd_loggingMaxSize sv, sd_loggingMaxFile sv] @ sd_networks sv @ sd_dependsOn sv @ sd_secretRefs sv @
        sd_configRefs sv @ sd_tags sv). one_line s) \<and>
     (\<forall>r \<in> set (sd_env sv). row_one_line r) \<and>
     (\<forall>r \<in> set (sd_ports sv). one_line (pr_hostPort r) \<and> one_line (pr_containerPort r)) \<and>
     (\<forall>r \<in> set (sd_volumes sv). one_line (vr_source r) \<and> one_line (vr_target r))"

lemma ports_one_line:
  "\<forall>r \<in> set rows. one_line (pr_hostPort r) \<and> one_line (pr_containerPort r) \<Longrightarrow>
     \<forall>p \<in> set (toPortList rows). one_line (quoted p)"
  by (auto simp: toPortList_def port_text_def trim_one_line)

lemma volumes_one_line:
  "\<forall>r \<in> set rows. one_line (vr_source r) \<and> one_line (vr_target r) \<Longrightarrow>
     \<forall>p \<in> set (toVolumeList rows). one_line (quoted p)"
  by (auto simp: toVolumeList_def volume_text_def trim_one_line)

lemma all_append: "\<forall>l \<in> set xs. P l \<Longrightarrow> \<forall>l \<in> set ys. P l \<Longrightarrow> \<forall>l \<in> set (xs @ ys). P l"
  by auto

lemma all_block: "inner_line h \<Longrightarrow> \<forall>l \<in> set items. inner_line l \<Longrightarrow> \<forall>l \<in> set (block h items). inner_line l"
  by (auto simp: block_def split: if_splits)

lemma or_str_one_line: "one_line a \<Longrightarrow> one_line b \<Longrightarrow> one_line (or_str a b)"
  by (simp add: or_str_def)

lemma deploy_inner: "draft_ok sv \<Longrightarrow> \<forall>l \<in> set (deploy_lines sv). inner_line l"
  unfolding deploy_lines_def
  by (intro all_append all_block inner_field) (auto simp: draft_ok_def intro: toSwarmRestartCondition.cases [of "sd_restartPolicy sv"])

lemma healthcheck_inner: "draft_ok sv \<Longrightarrow> \<forall>l \<in> set (healthcheck_lines sv). inner_line l"
proof (cases "filled_in (sd_healthcheckCommand sv)")
  case True
  assume d: "draft_ok sv"
  then have "one_line (escape_quotes (sd_healthcheckCommand sv))" "one_line (trim (sd_healthcheckRetries sv))"
    by (auto simp: draft_ok_def trim_one_line escape_one_line)
  with d True show ?thesis
    unfolding healthcheck_lines_def by (simp only: if_True not_False_eq_True) (intro all_append inner_field; simp add: draft_ok_def)
qed (simp add: healthcheck_lines_def)

lemma logging_inner: "draft_ok sv \<Longrightarrow> \<forall>l \<in> set (logging_lines sv). inner_line l"
proof (cases "filled_in (sd_loggingDriver sv)")
  case True
  assume d: "draft_ok sv"
  then have "one_line (trim (sd_loggingDriver sv))" by (auto simp: draft_ok_def trim_one_line)
  with d True show ?thesis
    unfolding logging_lines_def by (simp only: if_True not_False_eq_True) (intro all_append inner_field; simp add: draft_ok_def)
qed (simp add: logging_lines_def)

lemma service_inner:
  assumes "draft_ok sv" "\<forall>r \<in> set es. row_one_line r" "\<forall>t \<in> set ts. one_line t" "one_line d"
  shows "\<forall>l \<in> set (service_lines es ts d sv). inner_line l"
proof -
  note d = assms(1) [unfolded draft_ok_def]
  have env: "\<forall>l \<in> set (entry_lines 6 (service_env es sv)). inner_line l"
    unfolding service_env_def using d assms(2) by (intro inner_entries spread_ok toRecord_ok) auto
  have labels: "\<forall>l \<in> set (entry_lines 6 (buildTagLabels (ts @ sd_tags sv))). inner_line l"
    using d assms(3) by (intro inner_entries tag_labels_ok) auto
  have ports: "\<forall>l \<in> set (item_lines quoted (toPortList (sd_ports sv))). inner_line l"
    using d by (intro inner_items ports_one_line) auto
  have volumes: "\<forall>l \<in> set (item_lines quoted (toVolumeList (sd_volumes sv))). inner_line l"
    using d by (intro inner_items volumes_one_line) auto
  have "\<forall>n \<in> set (service_networks d sv). one_line n"
    using d assms(4) names_of_one_line [of "sd_networks sv"] by (auto simp: service_networks_def)
  then have networks: "\<forall>l \<in> set (item_lines id (service_networks d sv)). inner_line l"
    by (intro inner_items) simp
  have refs: "\<forall>l \<in> set (item_lines id (filter filled_in xs)). inner_line l" if "\<forall>x \<in> set xs. one_line x" for xs
    using that by (intro inner_items) auto
  have head: "\<forall>l \<in> set [''  '' @ or_str (sd_name sv) ''service'' @ '':'',
      ''    image: '' @ or_str (sd_image sv) ''nginx:stable-alpine'']. inner_line l"
    using d by (auto simp: or_str_one_line)
  have deps: "\<forall>l \<in> set (if sd_dependsOn sv = [] then []
      else ''    depends_on:'' # item_lines id (filter filled_in (sd_dependsOn sv))). inner_line l"
    using refs [of "sd_dependsOn sv"] d by auto
  have nets: "\<forall>l \<in> set (''    networks:'' # item_lines id (service_networks d sv)). inner_line l"
    using networks by simp
  have secrets: "\<forall>l \<in> set (item_lines id (filter filled_in (sd_secretRefs sv))). inner_line l"
    and configs: "\<forall>l \<in> set (item_lines id (filter filled_in (sd_configRefs sv))). inner_line l"
    using d by (intro refs; auto)+
  note blocks = env [THEN all_block [rotated, of _ "''    environment:''"]] labels [THEN all_block [rotated, of _ "''    labels:''"]]
    ports [THEN all_block [rotated, of _ "''    ports:''"]] volumes [THEN all_block [rotated, of _ "''    volumes:''"]]
    secrets [THEN all_block [rotated, of _ "''    secrets:''"]] configs [THEN all_block [rotated, of _ "''    configs:''"]]
  show ?thesis
    unfolding service_lines_def
    using blocks head deps nets deploy_inner [OF assms(1)] healthcheck_inner [OF assms(1)] logging_inner [OF assms(1)]
    by (intro all_append) (auto simp: ball_Un)
qed

section \<open>The sections of a Compose file\<close>

definition at_top :: "string \<Rightarrow> bool" where
  "at_top l \<longleftrightarrow> \<not> starts_with '' '' l"

lemma at_top_inner: "\<forall>l \<in> set ls. inner_line l \<Longrightarrow> filter at_top ls = []"
  by (auto simp: at_top_def inner_line_def filter_empty_conv)

lemma at_top_block:
  "\<forall>l \<in> set items. inner_line l \<Longrightarrow> at_top h \<Longrightarrow> filter at_top (block h items) = (if items = [] then [] else [h])"
  by (simp add: block_def at_top_inner)

lemma two_lines_Nil [simp]: "two_lines x ns = [] \<longleftrightarrow> ns = []"
  by (cases ns) (auto simp: two_lines_def)

lemma inner_two_lines: "\<forall>n \<in> set ns. one_line n \<Longrightarrow> inner_line x \<Longrightarrow> \<forall>l \<in> set (two_lines x ns). inner_line l"
  by (auto simp: two_lines_def)

lemma inner_names: "\<forall>n \<in> set ns. one_line n \<Longrightarrow> \<forall>l \<in> set (map (\<lambda>n. ''  '' @ n @ '':'') ns). inner_line l"
  by auto

lemma block_one_line: "one_line h \<Longrightarrow> \<forall>l \<in> set items. one_line l \<Longrightarrow> \<forall>l \<in> set (block h items). one_line l"
  by (auto simp: block_def split: if_splits)

lemma inner_one_line: "\<forall>l \<in> set ls. inner_line l \<Longrightarrow> \<forall>l \<in> set ls. one_line l"
  by (auto simp: inner_line_def)

text \<open>
  C17. Whatever the user types into the fields of a stack, each on one line, the generated file has
  exactly the sections the form means: the services, the networks and, when the form has entries
  for them, the volumes, the secrets and the configurations, each once and in this order. Every
  other line is indented, so no value opens a section of its own.
\<close>

theorem compose_sections:
  assumes "services \<noteq> []" "\<forall>sv \<in> set services. draft_ok sv"
    and "\<forall>s \<in> set (volumes @ networks @ tags). one_line s"
    and "\<forall>r \<in> set (env @ secrets @ configs). row_one_line r"
  shows "filter at_top (lines_of (buildComposeYaml services volumes networks env tags secrets configs))
    = [''services:''] @
      (if names_of volumes = [] then [] else [''volumes:'']) @ [''networks:''] @
      (if toRecord secrets = [] then [] else [''secrets:'']) @
      (if toRecord configs = [] then [] else [''configs:''])"
proof -
  define d where "d = default_network (names_of networks)"
  have nets: "\<forall>n \<in> set (names_of networks). one_line n" "\<forall>n \<in> set (names_of volumes). one_line n"
    using assms(3) by (auto intro!: names_of_one_line)
  have d: "one_line d"
    using nets(1) by (auto simp: d_def default_network_def split: list.split)
  have keys: "\<forall>k \<in> set (map fst (toRecord secrets)). one_line k" "\<forall>k \<in> set (map fst (toRecord configs)). one_line k"
    using toRecord_ok [of secrets] toRecord_ok [of configs] assms(4) by (auto simp: entries_ok_def)
  have drafts: "\<forall>l \<in> set (concat (map (service_lines env tags d) services)). inner_line l"
    using service_inner [where es = env and ts = tags and d = d] assms(2-4) d by fastforce
  let ?ns = "js_set (names_of networks @ [d])"
  have ns: "\<forall>n \<in> set ?ns. one_line n" "?ns \<noteq> []"
    using nets(1) d by (auto simp: js_set_def)
  note inner = inner_two_lines [OF ns(1), of "''    driver: bridge''", simplified]
    inner_two_lines [OF keys(1), of "''    external: false''", simplified]
    inner_two_lines [OF keys(2), of "''    external: false''", simplified] inner_names [OF nets(2)]
  let ?ls = "compose_lines services volumes networks env tags secrets configs"
  have "\<forall>l \<in> set ?ls. one_line l"
    unfolding compose_lines_def Let_def d_def [symmetric] list.set ball_simps set_append ball_Un
    by (intro conjI block_one_line inner_one_line inner drafts) simp_all
  then have "lines_of (buildComposeYaml services volumes networks env tags secrets configs) = ?ls"
    by (simp add: compose_text assms(1) split_join compose_lines_def Let_def)
  moreover have "at_top ''services:''" "at_top ''volumes:''" "at_top ''networks:''" "at_top ''secrets:''" "at_top ''configs:''"
    by (simp_all add: at_top_def starts_with_def)
  ultimately show ?thesis
    using inner drafts ns(2)
    by (simp add: compose_lines_def Let_def d_def [symmetric] at_top_block at_top_inner)
qed

theorem compose_sections_witness:
  "filter at_top (lines_of (buildComposeYaml [createService ''u1'' ''app'' ''nginx''] [''app-data''] [''edge'']
      [emptyEnv] [''prod''] [\<lparr>kv_key = ''db'', kv_value = ''x: y''\<rparr>] []))
    = [''services:'', ''volumes:'', ''networks:'', ''secrets:'']"
proof -
  have "draft_ok (createService ''u1'' ''app'' ''nginx'')"
    by (simp add: draft_ok_def createService_def row_one_line_def emptyEnv_def emptyPort_def emptyVolume_def)
  moreover have "names_of [''app-data''] \<noteq> []" "toRecord [\<lparr>kv_key = ''db'', kv_value = ''x: y''\<rparr>] \<noteq> []" "toRecord [] = []"
    by code_simp+
  ultimately show ?thesis
    using compose_sections [of "[createService ''u1'' ''app'' ''nginx'']" "[''app-data'']" "[''edge'']" "[''prod'']"
        "[emptyEnv]" "[\<lparr>kv_key = ''db'', kv_value = ''x: y''\<rparr>]" "[]"]
    by (simp add: row_one_line_def emptyEnv_def)
qed

section \<open>The environment of a service\<close>

text \<open>The value a list of rows gives to a variable: the last row with its name, spaces around it aside.\<close>

definition last_value :: "KeyValueRow list \<Rightarrow> string \<Rightarrow> string option" where
  "last_value rows k =
     (if k = [] then None else map_option kv_value (find (\<lambda>r. trim (kv_key r) = k) (rev rows)))"

lemma map_of_toRecord: "map_of (toRecord rows) k = last_value rows k"
  by (induction rows rule: rev_induct) (auto simp: toRecord_snoc last_value_def toRecord_def)

lemma map_of_spread: "distinct (map fst b) \<Longrightarrow> map_of (spread a b) k = (case map_of b k of Some v \<Rightarrow> Some v | None \<Rightarrow> map_of a k)"
proof (induction b rule: rev_induct)
  case (snoc kv b)
  obtain j v where kv: "kv = (j, v)" by fastforce
  have "spread a (b @ [kv]) = put j v (spread a b)" by (simp add: spread_def kv)
  moreover have "map_of b j = None" using snoc.prems kv by (simp add: map_of_eq_None_iff)
  ultimately show ?case using snoc kv by (auto simp: map_add_def split: option.splits)
qed (simp add: spread_def)

lemma distinct_toRecord: "distinct (map fst (toRecord rows))"
  by (induction rows rule: rev_induct) (auto simp: toRecord_snoc distinct_put toRecord_def simp del: set_map)

lemma service_env_lookup:
  "map_of (service_env shared sv) k =
     (case last_value (sd_env sv) k of Some v \<Rightarrow> Some v | None \<Rightarrow> last_value shared k)"
  by (simp add: service_env_def map_of_spread distinct_toRecord map_of_toRecord split: option.split)

section \<open>Labels\<close>

lemma slug_ends: "slugifyTag t \<noteq> [] \<Longrightarrow> hd (slugifyTag t) \<noteq> CHR ''-'' \<and> last (slugifyTag t) \<noteq> CHR ''-''"
  unfolding slugifyTag_def using strip_dashes_ends by blast

lemma slug_tag_chars: "c \<in> set (slugifyTag t) \<Longrightarrow> slug_char c"
  unfolding slugifyTag_def using set_strip_dashes tag_runs_chars by blast

lemma label_fold:
  fixes j :: string
  defines "f \<equiv> \<lambda>acc tag. put ''einfra.tags'' j
    (if slugifyTag tag \<noteq> [] then put (''einfra.tag.'' @ slugifyTag tag) ''true'' acc else acc)"
  shows "map_of (foldl f [] ts) k =
    (if k = ''einfra.tags'' \<and> ts \<noteq> [] then Some j
     else if \<exists>t \<in> set ts. slugifyTag t \<noteq> [] \<and> k = ''einfra.tag.'' @ slugifyTag t then Some ''true'' else None)"
proof (induction ts rule: rev_induct)
  case (snoc t ts)
  then show ?case by (auto simp: f_def)
qed simp

text \<open>
  The labels of a list of tags are those of an object with one label for all of them, the
  tags without blanks and repetitions, and one label per name: each name is made of lower-case
  letters, digits and inner dashes, whatever the tag was.
\<close>

theorem tag_labels:
  "map_of (buildTagLabels tags) ''einfra.tags'' =
     (if names_of tags = [] then None else Some (join_with '', '' (tag_names tags))) \<and>
   (k \<noteq> ''einfra.tags'' \<longrightarrow> map_of (buildTagLabels tags) k =
     (if \<exists>t \<in> set (names_of tags). slugifyTag t \<noteq> [] \<and> k = ''einfra.tag.'' @ slugifyTag t then Some ''true'' else None)) \<and>
   (\<forall>t. slugifyTag t \<noteq> [] \<longrightarrow> list_all slug_char (slugifyTag t) \<and>
      hd (slugifyTag t) \<noteq> CHR ''-'' \<and> last (slugifyTag t) \<noteq> CHR ''-'')"
proof -
  have names: "set (tag_names tags) = set (names_of tags)"
    by (simp add: tag_names_def names_of_def)
  then have "tag_names tags = [] \<longleftrightarrow> names_of tags = []" by (metis set_empty)
  then show ?thesis
    using names by (auto simp: buildTagLabels_def Let_def label_fold slug_ends list_all_iff slug_tag_chars)
qed

theorem tag_labels_witness:
  "map_of (buildTagLabels ['' Prod EU '', [], ''Prod EU'']) ''einfra.tag.prod-eu'' = Some ''true''"
proof -
  have "slugifyTag ''Prod EU'' = ''prod-eu''" "''Prod EU'' \<in> set (names_of ['' Prod EU '', [], ''Prod EU''])"
    by code_simp+
  then have "\<exists>t \<in> set (names_of ['' Prod EU '', [], ''Prod EU'']). slugifyTag t \<noteq> [] \<and>
      ''einfra.tag.prod-eu'' = ''einfra.tag.'' @ slugifyTag t"
    by (intro bexI [of _ "''Prod EU''"]) simp_all
  moreover have "''einfra.tag.prod-eu'' \<noteq> ''einfra.tags''" by simp
  ultimately show ?thesis
    using tag_labels [of "['' Prod EU '', [], ''Prod EU'']" "''einfra.tag.prod-eu''"] by presburger
qed

end
