(* ===== verification/Machine.thy ===== *)
theory Machine
  imports Main
begin

text \<open>
  What the pages share: the notifications they show, the choice of tags, and state machines, that is the states a step
  relation reaches from an initial one with the interface of an invariant. The agent's socket, the
  onboarding service and the pages with their own timers are machines of this kind.
\<close>

section \<open>Notifications\<close>

record toast =
  to_type :: string
  to_message :: string
  to_description :: string

definition toast_of :: "string \<Rightarrow> string \<Rightarrow> string \<Rightarrow> toast" where
  "toast_of ty msg d = \<lparr>to_type = ty, to_message = msg, to_description = d\<rparr>"

text \<open>Choosing a tag that is chosen gives it up.\<close>

definition toggle_tag :: "string \<Rightarrow> string list \<Rightarrow> string list" where
  "toggle_tag tag current =
     (if tag \<in> set current then filter (\<lambda>t. t \<noteq> tag) current else current @ [tag])"

section \<open>State machines\<close>

inductive reached :: "('s \<Rightarrow> 's \<Rightarrow> bool) \<Rightarrow> 's \<Rightarrow> 's \<Rightarrow> bool" for step init where
  start: "reached step init init"
| further: "reached step init s \<Longrightarrow> step s t \<Longrightarrow> reached step init t"

lemma reached_trans: "reached step s t \<Longrightarrow> reached step init s \<Longrightarrow> reached step init t"
  by (induction rule: reached.induct) (auto intro: reached.further)

locale machine =
  fixes init :: 's
    and step :: "'s \<Rightarrow> 's \<Rightarrow> bool"
    and inv :: "'s \<Rightarrow> bool"
  assumes init_inv: "inv init"
    and step_inv: "step s t \<Longrightarrow> inv s \<Longrightarrow> inv t"
begin

lemma reached_inv: "reached step init s \<Longrightarrow> inv s"
  by (induction rule: reached.induct) (blast intro: init_inv step_inv)+

lemma reached_inv_from: "reached step s t \<Longrightarrow> inv s \<Longrightarrow> inv t"
  by (induction rule: reached.induct) (blast intro: step_inv)+

end

end
