(* ===== verification/DeployModal.thy ===== *)
theory DeployModal
  imports DockerCompose Machine
begin

text \<open>
  \<open>features/docker/components/DeployContainerModal.tsx\<close>, the component: the text of a single
  container, the state of the form, its editors, effects and buttons. What the page reads from
  elsewhere (registries, feature flags, the state of the swarm, the secrets of the presets, the
  initial image) is an argument or a part of the state that changes on its own.
\<close>

section \<open>The form\<close>

datatype deploy_mode = Single | Compose

record single_form =
  m_name :: string
  m_image :: string
  m_envRows :: "KeyValueRow list"
  m_portRows :: "PortRow list"
  m_volumeRows :: "VolumeRow list"
  m_restartPolicy :: restart_policy
  m_registryId :: string
  m_containerName :: string
  m_memoryLimit :: string
  m_cpuLimit :: string
  m_healthcheckCommand :: string
  m_healthcheckInterval :: string
  m_healthcheckTimeout :: string
  m_healthcheckStartPeriod :: string
  m_healthcheckRetries :: string
  m_healthcheckDisabled :: bool

record stack_form =
  m_namedNetworks :: "string list"
  m_namedVolumes :: "string list"
  m_services :: "ServiceDraft list"
  m_stackEnvRows :: "KeyValueRow list"
  m_stackSecretRows :: "KeyValueRow list"
  m_stackConfigRows :: "KeyValueRow list"

record modal =
  m_mode :: deploy_mode
  m_single :: single_form
  m_stack :: stack_form
  m_stackName :: string
  m_selectedTags :: "string list"
  m_composeYaml :: string
  m_flagsLoading :: bool
  m_composeEnabled :: bool

subsection \<open>useRuntimeFeatureFlags\<close>

record RuntimeFeatureFlag =
  ff_key :: string
  ff_enabled :: bool

definition byKey :: "RuntimeFeatureFlag list \<Rightarrow> (string \<times> RuntimeFeatureFlag) list" where
  "byKey flags = foldl (\<lambda>acc item. put (ff_key item) item acc) [] flags"

definition isEnabled :: "RuntimeFeatureFlag list \<Rightarrow> string \<Rightarrow> bool \<Rightarrow> bool" where
  "isEnabled flags k fallback =
     (case map_of (byKey flags) k of None \<Rightarrow> fallback | Some f \<Rightarrow> ff_enabled f)"

subsection \<open>The text of a single container\<close>

definition optional_line :: "string \<Rightarrow> string \<Rightarrow> string list" where
  "optional_line label v = (if filled_in v then [label @ trim v] else [])"

definition list_or :: "string \<Rightarrow> string list \<Rightarrow> string list" where
  "list_or none ls = (if ls = [] then [none] else ls)"

definition buildSingleContainerYaml :: "single_form \<Rightarrow> string option \<Rightarrow> string list \<Rightarrow> string" where
  "buildSingleContainerYaml f selectedRegistryName selectedTags = unlines
     ([''image: '' @ or_str (m_image f) ''nginx:stable-alpine'',
       ''name: '' @ or_str (or_str (m_name f) (m_containerName f)) ''auto'',
       ''restart: '' @ restart_text (m_restartPolicy f)] @
      optional_line ''container_name: '' (m_containerName f) @
      block ''registry:''
        (optional_line ''  name: '' (nullish selectedRegistryName []) @ optional_line ''  id: '' (m_registryId f)) @
      ''ports:'' # list_or ''  []'' (map (\<lambda>p. ''  - '' @ quoted p) (toPortList (m_portRows f))) @
      ''volumes:'' # list_or ''  []'' (map (\<lambda>p. ''  - '' @ quoted p) (toVolumeList (m_volumeRows f))) @
      ''environment:'' # list_or ''  {}'' (entry_lines 2 (toRecord (m_envRows f))) @
      block ''labels:'' (entry_lines 2 (buildTagLabels selectedTags)) @
      block ''resources:'' (field ''  memory: '' (m_memoryLimit f) @ field ''  cpus: '' (m_cpuLimit f)) @
      (if m_healthcheckDisabled f then [''healthcheck:'', ''  disabled: true'']
       else if filled_in (m_healthcheckCommand f)
       then [''healthcheck:'', ''  test: '' @ quoted (escape_quotes (trim (m_healthcheckCommand f)))] @
         field ''  interval: '' (m_healthcheckInterval f) @ field ''  timeout: '' (m_healthcheckTimeout f) @
         field ''  start_period: '' (m_healthcheckStartPeriod f) @
         optional_line ''  retries: '' (m_healthcheckRetries f)
       else []))"

subsection \<open>The first state\<close>

definition first_single :: "string \<Rightarrow> single_form" where
  "first_single initialImage =
     \<lparr>m_name = [], m_image = initialImage, m_envRows = [emptyEnv], m_portRows = [emptyPort],
      m_volumeRows = [emptyVolume], m_restartPolicy = UnlessStopped, m_registryId = [], m_containerName = [],
      m_memoryLimit = [], m_cpuLimit = [], m_healthcheckCommand = [], m_healthcheckInterval = ''30s'',
      m_healthcheckTimeout = ''5s'', m_healthcheckStartPeriod = [], m_healthcheckRetries = ''3'',
      m_healthcheckDisabled = False\<rparr>"

definition first_stack :: "string \<Rightarrow> string \<Rightarrow> stack_form" where
  "first_stack uid initialImage =
     \<lparr>m_namedNetworks = [''app-network''], m_namedVolumes = [''app-data''],
      m_services = [createService uid ''app'' (or_str initialImage ''nginx:stable-alpine'')],
      m_stackEnvRows = [emptyEnv], m_stackSecretRows = [emptyEnv], m_stackConfigRows = [emptyEnv]\<rparr>"

definition compose_of :: "stack_form \<Rightarrow> string list \<Rightarrow> string" where
  "compose_of f tags = buildComposeYaml (m_services f) (m_namedVolumes f) (m_namedNetworks f)
     (m_stackEnvRows f) tags (m_stackSecretRows f) (m_stackConfigRows f)"

definition first_modal :: "string \<Rightarrow> string \<Rightarrow> deploy_mode \<Rightarrow> string \<Rightarrow> modal" where
  "first_modal uid uid' initialMode initialImage =
     \<lparr>m_mode = initialMode, m_single = first_single initialImage, m_stack = first_stack uid initialImage,
      m_stackName = ''app-stack'', m_selectedTags = [],
      m_composeYaml = compose_of (first_stack uid' initialImage) [], m_flagsLoading = True, m_composeEnabled = True\<rparr>"

section \<open>Effects\<close>

text \<open>The initial image is a property of the component; the effect runs at the start and when it changes.\<close>

definition set_first_image :: "string \<Rightarrow> ServiceDraft list \<Rightarrow> ServiceDraft list" where
  "set_first_image img services =
     (case services of [] \<Rightarrow> [] | sv # rest \<Rightarrow> sv\<lparr>sd_image := img\<rparr> # rest)"

definition initial_image_effect :: "string \<Rightarrow> modal \<Rightarrow> modal" where
  "initial_image_effect initialImage m =
     (if trim initialImage = [] then m
      else m\<lparr>m_single := (m_single m)\<lparr>m_image := trim initialImage\<rparr>,
             m_stack := (m_stack m)\<lparr>m_services := set_first_image (trim initialImage) (m_services (m_stack m))\<rparr>\<rparr>)"

definition env_rows :: "(string \<times> string) list \<Rightarrow> KeyValueRow list" where
  "env_rows kvs = map (\<lambda>(k, v). \<lparr>kv_key = k, kv_value = v\<rparr>) kvs"

definition filled_env_rows :: "module_secrets \<Rightarrow> string \<Rightarrow> KeyValueRow list \<Rightarrow> KeyValueRow list" where
  "filled_env_rows s img current =
     (let preset = buildRequiredRuntimeEnv s img (toRecord current) in
      if re_autofilled preset = [] \<and> toRecord current \<noteq> [] then current
      else env_rows (re_environment preset))"

definition suggested_port :: "string \<Rightarrow> PortRow" where
  "suggested_port entry =
     (case split_on (CHR '':'') entry of
        h # c # _ \<Rightarrow> \<lparr>pr_hostPort = h, pr_containerPort = c, pr_protocol = Tcp\<rparr>
      | h # _ \<Rightarrow> \<lparr>pr_hostPort = h, pr_containerPort = [], pr_protocol = Tcp\<rparr>
      | [] \<Rightarrow> emptyPort)"

text \<open>\<open>replace(/\s+/g, "-")\<close>.\<close>

fun dash_spaces :: "bool \<Rightarrow> string \<Rightarrow> string" where
  "dash_spaces in_run [] = []"
| "dash_spaces in_run (c # s) =
     (if \<not> is_ws c then c # dash_spaces False s
      else if in_run then dash_spaces True s
      else CHR ''-'' # dash_spaces True s)"

definition suggested_volume :: "string \<Rightarrow> string \<Rightarrow> VolumeRow" where
  "suggested_volume base target =
     \<lparr>vr_source = dash_spaces False base @ ''-data'', vr_target = target, vr_mode = ReadWrite,
      vr_sourceType = NamedSource\<rparr>"

definition unless_filled :: "string \<Rightarrow> string \<Rightarrow> string" where
  "unless_filled current suggestion = (if suggestion \<noteq> [] \<and> \<not> filled_in current then suggestion else current)"

definition apply_preset :: "ImageDeployPreset \<Rightarrow> single_form \<Rightarrow> single_form" where
  "apply_preset p f = f\<lparr>
     m_portRows :=
       (if ip_suggestedPorts p \<noteq> [] \<and>
           \<not> list_ex (\<lambda>r. filled_in (pr_hostPort r) \<or> filled_in (pr_containerPort r)) (m_portRows f)
        then map suggested_port (ip_suggestedPorts p) else m_portRows f),
     m_volumeRows :=
       (if ip_volumeTargets p \<noteq> [] \<and> \<not> list_ex (\<lambda>r. filled_in (vr_target r)) (m_volumeRows f)
        then map (suggested_volume (or_str (or_str (m_name f) (ip_defaultContainerName p)) ''app'')) (ip_volumeTargets p)
        else m_volumeRows f),
     m_containerName := unless_filled (m_containerName f) (ip_defaultContainerName p),
     m_memoryLimit := unless_filled (m_memoryLimit f) (ip_suggestedMemory p),
     m_cpuLimit := unless_filled (m_cpuLimit f) (ip_suggestedCpus p),
     m_healthcheckCommand := unless_filled (m_healthcheckCommand f) (ip_healthcheckCommand p)\<rparr>"

definition image_effect :: "module_secrets \<Rightarrow> single_form \<Rightarrow> single_form" where
  "image_effect s f =
     (if \<not> filled_in (m_image f) then f
      else (let f1 = f\<lparr>m_envRows := filled_env_rows s (m_image f) (m_envRows f)\<rparr> in
        case getImageDeployPreset s (m_image f) of None \<Rightarrow> f1 | Some p \<Rightarrow> apply_preset p f1))"

definition compose_effect :: "modal \<Rightarrow> modal" where
  "compose_effect m = m\<lparr>m_composeYaml := compose_of (m_stack m) (m_selectedTags m)\<rparr>"

definition flags_effect :: "modal \<Rightarrow> modal" where
  "flags_effect m =
     (if \<not> m_flagsLoading m \<and> \<not> m_composeEnabled m \<and> m_mode m = Compose then m\<lparr>m_mode := Single\<rparr> else m)"

text \<open>
  After a render the effects run whose dependencies differ from those of the render before. None
  of them writes a dependency of another, so once is enough.
\<close>

definition after_render :: "module_secrets \<Rightarrow> modal \<Rightarrow> modal \<Rightarrow> modal" where
  "after_render s prev m =
     (let m1 = (if m_image (m_single m) \<noteq> m_image (m_single prev)
                then m\<lparr>m_single := image_effect s (m_single m)\<rparr> else m);
          m2 = (if (m_stack m, m_selectedTags m) \<noteq> (m_stack prev, m_selectedTags prev)
                then compose_effect m1 else m1) in
      flags_effect m2)"

text \<open>At the start all of them run, the one of the initial image among them; then those it triggers.\<close>

definition mount :: "module_secrets \<Rightarrow> string \<Rightarrow> modal \<Rightarrow> modal" where
  "mount s initialImage m =
     after_render s m (initial_image_effect initialImage
       (flags_effect (compose_effect (m\<lparr>m_single := image_effect s (m_single m)\<rparr>))))"

section \<open>Editors\<close>

definition edit_row :: "nat \<Rightarrow> ('r \<Rightarrow> 'r) \<Rightarrow> 'r list \<Rightarrow> 'r list" where
  "edit_row i f rows = (if i < length rows then rows[i := f (rows ! i)] else rows)"

definition remove_row :: "'r \<Rightarrow> nat \<Rightarrow> 'r list \<Rightarrow> 'r list" where
  "remove_row blank i rows = (if 1 < length rows then remove_at i rows else [blank])"

text \<open>What the editor of a list of rows can do to it.\<close>

inductive rows_edited :: "'r \<Rightarrow> ('r \<Rightarrow> 'r) set \<Rightarrow> 'r list \<Rightarrow> 'r list \<Rightarrow> bool" for blank edits where
  edits_row: "f \<in> edits \<Longrightarrow> rows_edited blank edits rows (edit_row i f rows)"
| adds_row: "rows_edited blank edits rows (rows @ [blank])"
| removes_row: "rows_edited blank edits rows (remove_row blank i rows)"

definition env_edits :: "(KeyValueRow \<Rightarrow> KeyValueRow) set" where
  "env_edits = range (\<lambda>v r. r\<lparr>kv_key := v\<rparr>) \<union> range (\<lambda>v r. r\<lparr>kv_value := v\<rparr>)"

definition port_edits :: "(PortRow \<Rightarrow> PortRow) set" where
  "port_edits = range (\<lambda>v r. r\<lparr>pr_hostPort := v\<rparr>) \<union> range (\<lambda>v r. r\<lparr>pr_containerPort := v\<rparr>)"

definition volume_edits :: "(VolumeRow \<Rightarrow> VolumeRow) set" where
  "volume_edits = range (\<lambda>v r. r\<lparr>vr_sourceType := v\<rparr>) \<union> range (\<lambda>v r. r\<lparr>vr_source := v\<rparr>) \<union>
     range (\<lambda>v r. r\<lparr>vr_target := v\<rparr>) \<union> range (\<lambda>v r. r\<lparr>vr_mode := v\<rparr>) \<union>
     range (\<lambda>v r. r\<lparr>vr_source := v, vr_sourceType := BindSource\<rparr>)"

definition add_service :: "string \<Rightarrow> ServiceDraft list \<Rightarrow> ServiceDraft list" where
  "add_service uid current =
     current @ [createService uid (''service-'' @ show_nat (length current + 1)) ''nginx:stable-alpine'']"

definition change_service :: "string \<Rightarrow> ServiceDraft \<Rightarrow> ServiceDraft list \<Rightarrow> ServiceDraft list" where
  "change_service uid new_service current = map (\<lambda>sv. if sd_id sv = uid then new_service else sv) current"

definition remove_service :: "string \<Rightarrow> ServiceDraft list \<Rightarrow> ServiceDraft list" where
  "remove_service uid current =
     (if 1 < length current then filter (\<lambda>sv. sd_id sv \<noteq> uid) current else current)"

definition named_edits :: "(string \<Rightarrow> string) set" where
  "named_edits = range (\<lambda>v _. v)"

text \<open>The changes the card of a service makes to it.\<close>

inductive service_edited :: "ServiceDraft \<Rightarrow> ServiceDraft \<Rightarrow> bool" for sv where
  "service_edited sv (sv\<lparr>sd_expanded := \<not> sd_expanded sv\<rparr>)"
| "service_edited sv (sv\<lparr>sd_name := v\<rparr>)"
| "service_edited sv (sv\<lparr>sd_image := v\<rparr>)"
| "service_edited sv (sv\<lparr>sd_containerName := v\<rparr>)"
| "service_edited sv (sv\<lparr>sd_restartPolicy := p\<rparr>)"
| "rows_edited emptyPort port_edits (sd_ports sv) rows \<Longrightarrow> service_edited sv (sv\<lparr>sd_ports := rows\<rparr>)"
| "rows_edited emptyVolume volume_edits (sd_volumes sv) vrows \<Longrightarrow> service_edited sv (sv\<lparr>sd_volumes := vrows\<rparr>)"
| "rows_edited emptyEnv env_edits (sd_env sv) erows \<Longrightarrow> service_edited sv (sv\<lparr>sd_env := erows\<rparr>)"
| "rows_edited [] named_edits (sd_networks sv) items \<Longrightarrow> service_edited sv (sv\<lparr>sd_networks := items\<rparr>)"
| "rows_edited [] named_edits (sd_dependsOn sv) items \<Longrightarrow> service_edited sv (sv\<lparr>sd_dependsOn := items\<rparr>)"
| "rows_edited [] named_edits (sd_secretRefs sv) items \<Longrightarrow> service_edited sv (sv\<lparr>sd_secretRefs := items\<rparr>)"
| "rows_edited [] named_edits (sd_configRefs sv) items \<Longrightarrow> service_edited sv (sv\<lparr>sd_configRefs := items\<rparr>)"
| "service_edited sv (sv\<lparr>sd_tags := toggle_tag tag (sd_tags sv)\<rparr>)"
| "service_edited sv (sv\<lparr>sd_advancedOpen := \<not> sd_advancedOpen sv\<rparr>)"
| "service_edited sv (sv\<lparr>sd_memoryLimit := v\<rparr>)"
| "service_edited sv (sv\<lparr>sd_cpuLimit := v\<rparr>)"
| "service_edited sv (sv\<lparr>sd_healthcheckCommand := v\<rparr>)"
| "service_edited sv (sv\<lparr>sd_healthcheckInterval := v\<rparr>)"
| "service_edited sv (sv\<lparr>sd_healthcheckTimeout := v\<rparr>)"
| "service_edited sv (sv\<lparr>sd_healthcheckRetries := v\<rparr>)"
| "service_edited sv (sv\<lparr>sd_loggingDriver := v\<rparr>)"
| "service_edited sv (sv\<lparr>sd_loggingMaxSize := v\<rparr>)"
| "service_edited sv (sv\<lparr>sd_loggingMaxFile := v\<rparr>)"

inductive single_edited :: "single_form \<Rightarrow> single_form \<Rightarrow> bool" for f where
  "single_edited f (f\<lparr>m_name := v\<rparr>)"
| types_image: "single_edited f (f\<lparr>m_image := v\<rparr>)"
| "single_edited f (f\<lparr>m_registryId := v\<rparr>)"
| "single_edited f (f\<lparr>m_restartPolicy := p\<rparr>)"
| "single_edited f (f\<lparr>m_containerName := v\<rparr>)"
| "rows_edited emptyPort port_edits (m_portRows f) rows \<Longrightarrow> single_edited f (f\<lparr>m_portRows := rows\<rparr>)"
| "rows_edited emptyVolume volume_edits (m_volumeRows f) vrows \<Longrightarrow> single_edited f (f\<lparr>m_volumeRows := vrows\<rparr>)"
| "rows_edited emptyEnv env_edits (m_envRows f) erows \<Longrightarrow> single_edited f (f\<lparr>m_envRows := erows\<rparr>)"
| "single_edited f (f\<lparr>m_memoryLimit := v\<rparr>)"
| "single_edited f (f\<lparr>m_cpuLimit := v\<rparr>)"
| "single_edited f (f\<lparr>m_healthcheckCommand := v\<rparr>)"
| "single_edited f (f\<lparr>m_healthcheckInterval := v\<rparr>)"
| "single_edited f (f\<lparr>m_healthcheckTimeout := v\<rparr>)"
| "single_edited f (f\<lparr>m_healthcheckStartPeriod := v\<rparr>)"
| "single_edited f (f\<lparr>m_healthcheckRetries := v\<rparr>)"
| "single_edited f (f\<lparr>m_healthcheckDisabled := b\<rparr>)"

inductive stack_edited :: "stack_form \<Rightarrow> stack_form \<Rightarrow> bool" for f where
  "rows_edited [] named_edits (m_namedNetworks f) items \<Longrightarrow> stack_edited f (f\<lparr>m_namedNetworks := items\<rparr>)"
| "rows_edited [] named_edits (m_namedVolumes f) items \<Longrightarrow> stack_edited f (f\<lparr>m_namedVolumes := items\<rparr>)"
| "rows_edited emptyEnv env_edits (m_stackEnvRows f) rows \<Longrightarrow> stack_edited f (f\<lparr>m_stackEnvRows := rows\<rparr>)"
| "rows_edited emptyEnv env_edits (m_stackSecretRows f) rows \<Longrightarrow> stack_edited f (f\<lparr>m_stackSecretRows := rows\<rparr>)"
| "rows_edited emptyEnv env_edits (m_stackConfigRows f) rows \<Longrightarrow> stack_edited f (f\<lparr>m_stackConfigRows := rows\<rparr>)"
| "uid \<notin> sd_id ` set (m_services f) \<Longrightarrow> stack_edited f (f\<lparr>m_services := add_service uid (m_services f)\<rparr>)"
| "sv \<in> set (m_services f) \<Longrightarrow> service_edited sv sv' \<Longrightarrow>
    stack_edited f (f\<lparr>m_services := change_service (sd_id sv) sv' (m_services f)\<rparr>)"
| "sv \<in> set (m_services f) \<Longrightarrow> stack_edited f (f\<lparr>m_services := remove_service (sd_id sv) (m_services f)\<rparr>)"

section \<open>The life of the form\<close>

inductive modal_step :: "module_secrets \<Rightarrow> modal \<Rightarrow> modal \<Rightarrow> bool" for s where
  edits_single: "single_edited (m_single m) f \<Longrightarrow> modal_step s m (after_render s m (m\<lparr>m_single := f\<rparr>))"
| edits_stack: "stack_edited (m_stack m) g \<Longrightarrow> modal_step s m (after_render s m (m\<lparr>m_stack := g\<rparr>))"
| names_stack: "modal_step s m (after_render s m (m\<lparr>m_stackName := v\<rparr>))"
| toggles_tag: "modal_step s m (after_render s m (m\<lparr>m_selectedTags := toggle_tag tag (m_selectedTags m)\<rparr>))"
| chooses_single: "modal_step s m (after_render s m (m\<lparr>m_mode := Single\<rparr>))"
| chooses_compose: "m_composeEnabled m \<Longrightarrow> modal_step s m (after_render s m (m\<lparr>m_mode := Compose\<rparr>))"
| flags_arrive: "modal_step s m (after_render s m (m\<lparr>m_flagsLoading := False,
    m_composeEnabled := isEnabled flags ''docker_compose_runtime'' True\<rparr>))"
| image_given: "modal_step s m (after_render s m (initial_image_effect img m))"

section \<open>Deploying\<close>

text \<open>\<open>ports.filter((port, index) => ports.indexOf(port) !== index)\<close>.\<close>

definition repeats :: "string list \<Rightarrow> string list" where
  "repeats xs = map fst (filter (\<lambda>(x, i). find_index (\<lambda>y. y = x) xs \<noteq> Some i) (zip xs [0 ..< length xs]))"

fun protocol_text :: "protocol_name \<Rightarrow> string" where
  "protocol_text Tcp = ''tcp''"
| "protocol_text Udp = ''udp''"

definition host_ports :: "PortRow list \<Rightarrow> string list" where
  "host_ports rows = map (\<lambda>r. trim (pr_hostPort r) @ ''/'' @ protocol_text (pr_protocol r))
     (filter (\<lambda>r. filled_in (pr_hostPort r)) rows)"

definition singlePortConflicts :: "single_form \<Rightarrow> string list" where
  "singlePortConflicts f = js_set (repeats (host_ports (m_portRows f)))"

definition composePortConflicts :: "ServiceDraft list \<Rightarrow> string list" where
  "composePortConflicts services = js_set (repeats (concat (map (\<lambda>sv. host_ports (sd_ports sv)) services)))"

record registry =
  rg_id :: string
  rg_name :: string
  rg_is_default :: bool

definition selectedRegistry :: "registry list \<Rightarrow> string \<Rightarrow> registry option" where
  "selectedRegistry registries registryId =
     nullish_opt (find (\<lambda>r. rg_id r = registryId) registries) (find rg_is_default registries)"

definition some_text :: "string \<Rightarrow> string option" where
  "some_text v = (if v = [] then None else Some v)"

definition single_request ::
  "module_secrets \<Rightarrow> registry list \<Rightarrow> string list \<Rightarrow> single_form \<Rightarrow> DockerContainerCreateRequest" where
  "single_request s registries tags f =
     \<lparr>cr_name = some_text (or_str (m_name f) (m_containerName f)), cr_image = m_image f, cr_command = None,
      cr_environment = Some (re_environment (buildRequiredRuntimeEnv s (m_image f) (toRecord (m_envRows f)))),
      cr_ports = Some (toPortList (m_portRows f)), cr_volumes = Some (toVolumeList (m_volumeRows f)),
      cr_labels = Some (buildTagLabels tags), cr_restart_policy = Some (restart_text (m_restartPolicy f)),
      cr_registry_id = (if m_registryId f \<noteq> [] then Some (m_registryId f)
        else map_option rg_id (selectedRegistry registries (m_registryId f))),
      cr_auto_start = Some True, cr_healthcheck_command = some_text (m_healthcheckCommand f),
      cr_healthcheck_interval = some_text (m_healthcheckInterval f),
      cr_healthcheck_timeout = some_text (m_healthcheckTimeout f),
      cr_healthcheck_start_period = some_text (m_healthcheckStartPeriod f),
      cr_healthcheck_retries = (case number_of_text (m_healthcheckRetries f) of None \<Rightarrow> None
        | Some n \<Rightarrow> if n = 0 then None else Some n),
      cr_healthcheck_disabled = Some (m_healthcheckDisabled f)\<rparr>"

text \<open>The notices shown and the request sent.\<close>

definition submitSingle ::
  "module_secrets \<Rightarrow> registry list \<Rightarrow> modal \<Rightarrow> toast list \<times> DockerContainerCreateRequest option" where
  "submitSingle s registries m =
     (let f = m_single m; preset = buildRequiredRuntimeEnv s (m_image f) (toRecord (m_envRows f)) in
      if singlePortConflicts f \<noteq> []
      then ([toast_of ''error'' ''Port conflict detected'' ''Resolve duplicate host ports before deploy.''], None)
      else
        ((if re_autofilled preset \<noteq> []
          then [toast_of ''info'' ''Required environment values generated''
            (''Auto-filled '' @ join_with '', '' (re_autofilled preset) @ '' for '' @ m_image f @ ''.'')]
          else []),
         Some (single_request s registries (m_selectedTags m) f)))"

text \<open>What is shown when the answer arrives, and whether the form closes.\<close>

definition single_answered :: "(thrown \<Rightarrow> string) \<Rightarrow> string \<Rightarrow> thrown + json \<Rightarrow> toast \<times> bool" where
  "single_answered platform img r =
     (case r of
        Inr v \<Rightarrow> (toast_of ''success'' ''Container deployed''
          (jstring (jor (jget ''container_id'' (Some v)) (Some (JStr img)))), True)
      | Inl e \<Rightarrow> (toast_of ''error'' ''Container deploy failed''
          (or_str (thrown_message platform e) ''Unable to create container.''), False))"

definition submitCompose :: "string \<Rightarrow> modal \<Rightarrow> toast list \<times> mutation option" where
  "submitCompose eid m =
     (if \<not> filled_in (m_stackName m)
      then ([toast_of ''error'' ''Stack name required'' ''Provide a Docker Compose stack name.''], None)
      else if composePortConflicts (m_services (m_stack m)) \<noteq> []
      then ([toast_of ''error'' ''Port conflict detected''
              ''Resolve duplicate host ports across services before deploy.''], None)
      else ([], Some (useDeployStack eid (trim (m_stackName m)) (m_composeYaml m)
              (toRecord (m_stackEnvRows (m_stack m))) (Some (toRecord (m_stackSecretRows (m_stack m))))
              (Some (toRecord (m_stackConfigRows (m_stack m)))) (Some (m_selectedTags m)))))"

definition compose_answered :: "(thrown \<Rightarrow> string) \<Rightarrow> string \<Rightarrow> thrown + json \<Rightarrow> toast \<times> bool" where
  "compose_answered platform stack r =
     (case r of
        Inr _ \<Rightarrow> (toast_of ''success'' ''Compose stack deployed'' (trim stack), True)
      | Inl e \<Rightarrow> (toast_of ''error'' ''Compose deploy failed''
          (or_str (thrown_message platform e) ''Unable to deploy the compose stack.''), False))"

text \<open>The warnings of the Compose form; the state of the swarm is an argument, its role and its name.\<close>

definition prefixed :: "ServiceDraft \<Rightarrow> string \<Rightarrow> string" where
  "prefixed sv warning = or_str (sd_name sv) ''service'' @ '': '' @ warning"

definition service_warnings :: "module_secrets \<Rightarrow> KeyValueRow list \<Rightarrow> ServiceDraft \<Rightarrow> string list" where
  "service_warnings s stackEnvRows sv =
     map (prefixed sv)
       (getVolumeTargetWarnings s (sd_image sv) (map vr_target (sd_volumes sv)) @
        getRequiredEnvWarnings s (sd_image sv) (service_env stackEnvRows sv) @
        (if names_of (sd_networks sv) = []
         then [''no network selected, default will be attached automatically.''] else []) @
        (if filled_in (sd_containerName sv)
         then [''container_name is ignored for swarm stack deploy and will not be applied.''] else []) @
        (if sd_restartPolicy sv = UnlessStopped
         then [''unless-stopped is converted to swarm restart policy '' @ [CHR 0x27] @ ''any'' @ [CHR 0x27] @ ''.'']
         else []))"

definition composeWarnings ::
  "module_secrets \<Rightarrow> (bool \<times> string option) option \<Rightarrow> stack_form \<Rightarrow> string list" where
  "composeWarnings s swarm f =
     concat (map (service_warnings s (m_stackEnvRows f)) (m_services f)) @
     (case swarm of
        Some (False, node) \<Rightarrow>
          [''This Docker environment is not a Swarm manager ('' @ or_ostr node ''inactive'' @
           ''). The runtime will fall back to docker compose up -d for this deploy.'']
      | _ \<Rightarrow> [])"

section \<open>The form keeps its document\<close>

definition modal_ok :: "modal \<Rightarrow> bool" where
  "modal_ok m \<longleftrightarrow> m_composeYaml m = compose_of (m_stack m) (m_selectedTags m) \<and>
     m_services (m_stack m) \<noteq> [] \<and> distinct (map sd_id (m_services (m_stack m))) \<and>
     (\<not> m_flagsLoading m \<longrightarrow> \<not> m_composeEnabled m \<longrightarrow> m_mode m = Single)"

text \<open>What the services of a form need: some, with different identifiers.\<close>

definition services_ok :: "ServiceDraft list \<Rightarrow> bool" where
  "services_ok svs \<longleftrightarrow> svs \<noteq> [] \<and> distinct (map sd_id svs)"

lemma after_render_fields [simp]:
  "m_stack (after_render s prev m) = m_stack m" "m_selectedTags (after_render s prev m) = m_selectedTags m"
  "m_flagsLoading (after_render s prev m) = m_flagsLoading m"
  "m_composeEnabled (after_render s prev m) = m_composeEnabled m"
  by (simp_all add: after_render_def flags_effect_def compose_effect_def Let_def)

lemma flags_effect_mode:
  "\<not> m_flagsLoading m \<Longrightarrow> \<not> m_composeEnabled m \<Longrightarrow> m_mode (flags_effect m) = Single"
  by (cases "m_mode m") (auto simp: flags_effect_def)

lemma after_render_mode:
  "\<not> m_flagsLoading m \<Longrightarrow> \<not> m_composeEnabled m \<Longrightarrow> m_mode (after_render s prev m) = Single"
  by (auto simp: after_render_def Let_def compose_effect_def intro!: flags_effect_mode)

lemma after_render_yaml:
  "m_composeYaml prev = compose_of (m_stack prev) (m_selectedTags prev) \<Longrightarrow> m_composeYaml m = m_composeYaml prev \<Longrightarrow>
     m_composeYaml (after_render s prev m) = compose_of (m_stack m) (m_selectedTags m)"
  by (simp add: after_render_def flags_effect_def compose_effect_def Let_def)

lemma after_render_ok:
  assumes "modal_ok prev" "m_composeYaml m = m_composeYaml prev" "services_ok (m_services (m_stack m))"
  shows "modal_ok (after_render s prev m)"
  using assms after_render_yaml [of prev m s] after_render_mode [of m s prev] by (auto simp: modal_ok_def services_ok_def)

lemma service_edited_id: "service_edited sv sv' \<Longrightarrow> sd_id sv' = sd_id sv"
  by (induction rule: service_edited.induct) simp_all

lemma change_ids: "sd_id sv' = uid \<Longrightarrow> map sd_id (change_service uid sv' svs) = map sd_id svs"
  by (induction svs) (auto simp: change_service_def)

lemma remove_services_ok: "services_ok svs \<Longrightarrow> services_ok (remove_service uid svs)"
proof (cases svs)
  case (Cons a rest)
  assume ok: "services_ok svs"
  show ?thesis
  proof (cases rest)
    case (Cons b more)
    then have "filter (\<lambda>sv. sd_id sv \<noteq> uid) svs \<noteq> []"
      using ok \<open>svs = a # rest\<close> by (auto simp: services_ok_def)
    with ok show ?thesis
      by (simp add: services_ok_def remove_service_def distinct_map_filter)
  qed (use ok \<open>svs = a # rest\<close> in \<open>simp add: remove_service_def\<close>)
qed (simp add: services_ok_def)

lemma services_ok_ids: "map sd_id a = map sd_id b \<Longrightarrow> services_ok b \<Longrightarrow> services_ok a"
  by (auto simp: services_ok_def)

lemma stack_edited_ok: "stack_edited f g \<Longrightarrow> services_ok (m_services f) \<Longrightarrow> services_ok (m_services g)"
proof (induction rule: stack_edited.induct)
  case (6 uid)
  then show ?case by (auto simp: services_ok_def add_service_def createService_def)
next
  case (7 sv sv')
  then have "map sd_id (change_service (sd_id sv) sv' (m_services f)) = map sd_id (m_services f)"
    by (intro change_ids service_edited_id)
  then show ?case using 7 services_ok_ids by simp
qed (simp_all add: remove_services_ok)

lemma first_image_ok: "services_ok svs \<Longrightarrow> services_ok (set_first_image img svs)"
  by (cases svs) (auto simp: services_ok_def set_first_image_def)

lemma initial_image_ok:
  "services_ok (m_services (m_stack m)) \<Longrightarrow> services_ok (m_services (m_stack (initial_image_effect img m)))"
  by (simp add: initial_image_effect_def first_image_ok)

lemma modal_services_ok: "modal_ok m \<Longrightarrow> services_ok (m_services (m_stack m))"
  by (simp add: modal_ok_def services_ok_def)

lemma modal_step_ok: "modal_step s m m' \<Longrightarrow> modal_ok m \<Longrightarrow> modal_ok m'"
proof (induction rule: modal_step.induct)
  case (edits_stack m g)
  then show ?case by (intro after_render_ok) (auto intro: stack_edited_ok modal_services_ok)
next
  case (image_given m img)
  then show ?case
    by (intro after_render_ok initial_image_ok modal_services_ok) (simp_all add: initial_image_effect_def)
qed (rule after_render_ok, assumption, simp, simp add: modal_services_ok)+

definition opened_modal :: "module_secrets \<Rightarrow> string \<Rightarrow> string \<Rightarrow> deploy_mode \<Rightarrow> string \<Rightarrow> modal" where
  "opened_modal s uid uid' mode initialImage = mount s initialImage (first_modal uid uid' mode initialImage)"

text \<open>The identifier of a draft is not in the document.\<close>

lemma service_lines_id: "service_lines es ts d (sv\<lparr>sd_id := x\<rparr>) = service_lines es ts d sv"
  by (simp add: service_lines_def service_env_def service_networks_def deploy_lines_def healthcheck_lines_def
      logging_lines_def)

lemma first_compose: "compose_of (first_stack uid img) ts = compose_of (first_stack uid' img) ts"
proof -
  have "createService uid n i = (createService uid' n i)\<lparr>sd_id := uid\<rparr>" for n i
    by (simp add: createService_def)
  then have "service_lines es ts d (createService uid n i) = service_lines es ts d (createService uid' n i)" for es d n i
    by (metis service_lines_id)
  then show ?thesis by (simp add: compose_of_def buildComposeYaml_def first_stack_def)
qed

lemma opened_ok: "modal_ok (opened_modal s uid uid' mode img)"
  unfolding opened_modal_def mount_def
proof (rule after_render_ok)
  let ?m = "first_modal uid uid' mode img"
  have yaml: "m_composeYaml ?m = compose_of (m_stack ?m) (m_selectedTags ?m)"
    by (simp add: first_modal_def first_compose [of uid'])
  have ok: "services_ok (m_services (m_stack ?m))"
    by (simp add: services_ok_def first_modal_def first_stack_def)
  show "modal_ok ?m" using yaml ok by (simp add: modal_ok_def services_ok_def) (simp add: first_modal_def)
  show "m_composeYaml (initial_image_effect img (flags_effect (compose_effect (?m\<lparr>m_single := image_effect s (m_single ?m)\<rparr>))))
      = m_composeYaml ?m"
    using yaml by (simp add: initial_image_effect_def flags_effect_def compose_effect_def)
  show "services_ok (m_services (m_stack (initial_image_effect img
      (flags_effect (compose_effect (?m\<lparr>m_single := image_effect s (m_single ?m)\<rparr>))))))"
    using ok by (intro initial_image_ok) (simp add: flags_effect_def compose_effect_def)
qed

text \<open>
  C18. Whatever is typed, added, removed or chosen, the Compose document the form holds is the one
  of its current fields, so a deployment sends what the form shows; the list of services is never
  empty, and the Compose mode is never open when its feature flag is known to be off.
\<close>

theorem deployed_document:
  assumes "reached (modal_step s) (opened_modal s uid uid' mode img) m"
  shows "snd (submitCompose eid m) \<in>
      {None, Some (useDeployStack eid (trim (m_stackName m)) (compose_of (m_stack m) (m_selectedTags m))
         (toRecord (m_stackEnvRows (m_stack m))) (Some (toRecord (m_stackSecretRows (m_stack m))))
         (Some (toRecord (m_stackConfigRows (m_stack m)))) (Some (m_selectedTags m)))} \<and>
    m_services (m_stack m) \<noteq> [] \<and>
    (\<not> m_flagsLoading m \<and> \<not> m_composeEnabled m \<longrightarrow> m_mode m = Single)"
proof -
  have "machine (opened_modal s uid uid' mode img) (modal_step s) modal_ok"
    by unfold_locales (rule opened_ok, rule modal_step_ok)
  from machine.reached_inv [OF this assms] show ?thesis
    by (auto simp: modal_ok_def submitCompose_def)
qed

theorem deployed_document_witness:
  "\<forall>s. m_mode (after_render s (opened_modal s ''a'' ''b'' Compose [])
      ((opened_modal s ''a'' ''b'' Compose [])\<lparr>m_flagsLoading := False,
        m_composeEnabled := isEnabled [\<lparr>ff_key = ''docker_compose_runtime'', ff_enabled = False\<rparr>]
          ''docker_compose_runtime'' True\<rparr>)) = Single"
proof
  fix s
  let ?o = "opened_modal s ''a'' ''b'' Compose []"
  let ?off = "isEnabled [\<lparr>ff_key = ''docker_compose_runtime'', ff_enabled = False\<rparr>] ''docker_compose_runtime'' True"
  let ?m = "after_render s ?o (?o\<lparr>m_flagsLoading := False, m_composeEnabled := ?off\<rparr>)"
  have "reached (modal_step s) ?o ?m"
    by (rule reached.further [OF reached.start]) (rule flags_arrive)
  moreover have "\<not> m_flagsLoading ?m" by simp
  moreover have "\<not> ?off" by code_simp
  then have "\<not> m_composeEnabled ?m" by simp
  ultimately show "m_mode ?m = Single" using deployed_document [of s "''a''" "''b''" Compose "[]" ?m] by blast
qed

section \<open>What a single deployment sends\<close>

lemma find_index_distinct: "distinct xs \<Longrightarrow> i < length xs \<Longrightarrow> find_index (\<lambda>y. y = xs ! i) xs = Some i"
proof (induction xs arbitrary: i)
  case (Cons x xs)
  show ?case
  proof (cases i)
    case (Suc k)
    then have "xs ! k \<in> set xs" using Cons.prems by simp
    then have "x \<noteq> xs ! k" using Cons.prems(1) by auto
    with Suc Cons show ?thesis by simp
  qed simp
qed simp

lemma repeats_iff: "repeats xs = [] \<longleftrightarrow> distinct xs"
proof
  assume "repeats xs = []"
  then have first: "find_index (\<lambda>y. y = xs ! i) xs = Some i" if "i < length xs" for i
  proof -
    have "(xs ! i, i) \<in> set (zip xs [0 ..< length xs])" using that by (auto simp: set_zip intro: exI [of _ i])
    with \<open>repeats xs = []\<close> show ?thesis by (auto simp: repeats_def filter_empty_conv)
  qed
  show "distinct xs"
    unfolding distinct_conv_nth
  proof (intro allI impI)
    fix i j assume "i < length xs" "j < length xs" "i \<noteq> j"
    then show "xs ! i \<noteq> xs ! j" using first [of i] first [of j] by auto
  qed
next
  assume "distinct xs"
  then show "repeats xs = []" by (auto simp: repeats_def filter_empty_conv set_zip find_index_distinct)
qed

lemma js_set_Nil [simp]: "js_set xs = [] \<longleftrightarrow> xs = []"
  by (simp add: js_set_def)

lemma submitSingle_sent:
  "submitSingle s registries m = (ts, Some r) \<longleftrightarrow>
     distinct (host_ports (m_portRows (m_single m))) \<and> ts = fst (submitSingle s registries m) \<and>
     r = single_request s registries (m_selectedTags m) (m_single m)"
  by (auto simp: submitSingle_def Let_def singlePortConflicts_def repeats_iff)

text \<open>
  A container is created with no host port twice, with an environment that answers every
  requirement known for its image, and with the variables of the form unchanged; a form with a
  port twice sends nothing.
\<close>

theorem single_sent:
  assumes "unit_draws random"
  shows "case submitSingle (loaded_secrets random) registries m of
      (ts, None) \<Rightarrow> \<not> distinct (host_ports (m_portRows (m_single m)))
    | (ts, Some r) \<Rightarrow> distinct (host_ports (m_portRows (m_single m))) \<and> cr_image r = m_image (m_single m) \<and>
        (\<exists>e. cr_environment r = Some e \<and> getRequiredEnvWarnings (loaded_secrets random) (cr_image r) e = [] \<and>
          (\<forall>k v. last_value (m_envRows (m_single m)) k = Some v \<longrightarrow> trim v \<noteq> [] \<longrightarrow> map_of e k = Some v))"
proof (cases "distinct (host_ports (m_portRows (m_single m)))")
  case True
  let ?f = "m_single m"
  let ?e = "re_environment (buildRequiredRuntimeEnv (loaded_secrets random) (m_image ?f) (toRecord (m_envRows ?f)))"
  have "getRequiredEnvWarnings (loaded_secrets random) (m_image ?f) ?e = []"
    using filled_env_accepted [OF assms] by blast
  moreover have "map_of ?e k = Some v" if "last_value (m_envRows ?f) k = Some v" "trim v \<noteq> []" for k v
    using filled_env_accepted [OF assms, of "m_image ?f" "toRecord (m_envRows ?f)" k] that
    by (simp add: filled_def map_of_toRecord)
  ultimately show ?thesis
    using True by (simp add: submitSingle_def Let_def singlePortConflicts_def repeats_iff single_request_def)
qed (simp add: submitSingle_def Let_def singlePortConflicts_def repeats_iff)

definition sample_form :: single_form where
  "sample_form = (first_single ''postgres:16'')\<lparr>m_envRows := [\<lparr>kv_key = '' TZ '', kv_value = ''UTC''\<rparr>]\<rparr>"

theorem single_sent_witness:
  "\<exists>r e. snd (submitSingle (loaded_secrets (\<lambda>_. 0)) [] ((first_modal [] [] Single [])\<lparr>m_single := sample_form\<rparr>)) = Some r \<and>
     cr_environment r = Some e \<and> map_of e ''TZ'' = Some ''UTC''"
proof -
  let ?m = "(first_modal [] [] Single [])\<lparr>m_single := sample_form\<rparr>"
  have "unit_draws (\<lambda>_. 0)" by (simp add: unit_draws_def)
  note c = single_sent [OF this, where registries = "[]" and m = ?m]
  have "host_ports (m_portRows sample_form) = []" by code_simp
  then have d: "distinct (host_ports (m_portRows (m_single ?m)))" by simp
  have v: "last_value (m_envRows (m_single ?m)) ''TZ'' = Some ''UTC''" "trim ''UTC'' \<noteq> []" by code_simp+
  obtain ts r where r: "submitSingle (loaded_secrets (\<lambda>_. 0)) [] ?m = (ts, r)" by fastforce
  with c d obtain r' where r': "r = Some r'" by (cases r) auto
  show ?thesis using c [unfolded r r' prod.case option.case] v by (auto simp: r r')
qed

text \<open>
  The limits of memory and processor the form shows, and fills in for known images, are never
  sent: two forms that differ in nothing else make the same request.
\<close>

theorem limits_unsent:
  "submitSingle s registries (m\<lparr>m_single := (m_single m)\<lparr>m_memoryLimit := a, m_cpuLimit := b\<rparr>\<rparr>)
     = submitSingle s registries m"
  by (simp add: submitSingle_def singlePortConflicts_def single_request_def Let_def)

section \<open>Suggestions\<close>

text \<open>What every preset has, so that its suggestions count as filled in.\<close>

definition preset_texts :: "ImageDeployPreset \<Rightarrow> string list \<times> string \<times> string" where
  "preset_texts p = (ip_suggestedPorts p, ip_healthcheckCommand p, ip_defaultContainerName p)"

definition suggestions_ok :: "string list \<times> string \<times> string \<Rightarrow> bool" where
  "suggestions_ok = (\<lambda>(ports, health, name). ports \<noteq> [] \<and> health \<noteq> [] \<and> name \<noteq> [] \<and> filled_in health \<and> filled_in name \<and>
     toPortList (map suggested_port ports) = ports \<and>
     list_ex (\<lambda>r. filled_in (pr_hostPort r) \<or> filled_in (pr_containerPort r)) (map suggested_port ports))"

lemma preset_suggestions: "p \<in> set (presets s) \<Longrightarrow> suggestions_ok (preset_texts p)"
proof -
  have "map preset_texts (presets s) = map preset_texts (presets \<lparr>sc_postgres = [], sc_mariadb = [], sc_mysql = [], sc_keycloak = []\<rparr>)"
    by (simp add: presets_def preset_of_def preset_texts_def)
  moreover have "list_all suggestions_ok (map preset_texts (presets \<lparr>sc_postgres = [], sc_mariadb = [], sc_mysql = [], sc_keycloak = []\<rparr>))"
    by code_simp
  ultimately have "list_all suggestions_ok (map preset_texts (presets s))" by (simp only:)
  then show "p \<in> set (presets s) \<Longrightarrow> ?thesis" by (simp add: list_all_iff)
qed

lemmas preset_fields = preset_suggestions [unfolded suggestions_ok_def preset_texts_def prod.case]

text \<open>An image typed into the form, and the effects that follow.\<close>

definition type_image :: "module_secrets \<Rightarrow> string \<Rightarrow> modal \<Rightarrow> modal" where
  "type_image s img m = after_render s m (m\<lparr>m_single := (m_single m)\<lparr>m_image := img\<rparr>\<rparr>)"

lemma type_image_single:
  "m_single (type_image s img m) =
     (if img = m_image (m_single m) then m_single m else image_effect s ((m_single m)\<lparr>m_image := img\<rparr>))"
  by (simp add: type_image_def after_render_def flags_effect_def compose_effect_def Let_def)

lemma image_effect_fresh:
  assumes "getImageDeployPreset s (m_image f) = Some p" "m_portRows f = [emptyPort]" "m_healthcheckCommand f = []"
    "m_containerName f = []"
  shows "m_portRows (image_effect s f) = map suggested_port (ip_suggestedPorts p) \<and>
    m_healthcheckCommand (image_effect s f) = ip_healthcheckCommand p \<and>
    m_containerName (image_effect s f) = ip_defaultContainerName p \<and> p \<in> set (presets s)"
proof -
  have p: "p \<in> set (presets s)" "filled_in (m_image f)"
    using assms(1) by (auto simp: getImageDeployPreset_def Let_def find_Some_iff lower_def split: if_splits)
  show ?thesis
    using preset_fields [OF p(1)] p assms
    by (auto simp: image_effect_def apply_preset_def unless_filled_def emptyPort_def Let_def)
qed

lemma image_effect_keeps:
  assumes "list_ex (\<lambda>r. filled_in (pr_hostPort r) \<or> filled_in (pr_containerPort r)) (m_portRows f)"
    "filled_in (m_healthcheckCommand f)" "filled_in (m_containerName f)"
  shows "m_portRows (image_effect s f) = m_portRows f \<and>
    m_healthcheckCommand (image_effect s f) = m_healthcheckCommand f \<and>
    m_containerName (image_effect s f) = m_containerName f"
  using assms by (simp add: image_effect_def apply_preset_def unless_filled_def Let_def split: option.split)

text \<open>
  The suggestions for the first known image typed into an empty form stay when another image
  is typed over it: the container of the second image is created with the ports, the health check
  and the name of the first.
\<close>

theorem first_suggestion_kept:
  assumes "getImageDeployPreset s img = Some p" "m_single m = first_single []"
  shows "let r = single_request s registries tags (m_single (type_image s other (type_image s img m))) in
    cr_image r = other \<and> cr_ports r = Some (ip_suggestedPorts p) \<and>
    cr_healthcheck_command r = Some (ip_healthcheckCommand p) \<and> cr_name r = Some (ip_defaultContainerName p)"
proof -
  have img: "img \<noteq> []" using assms(1) by (auto simp: getImageDeployPreset_def Let_def lower_def)
  let ?f = "(first_single [])\<lparr>m_image := img\<rparr>"
  let ?g = "image_effect s ?f"
  define m1 where "m1 = type_image s img m"
  have first: "m_single m1 = ?g"
    using img assms(2) by (simp add: m1_def type_image_single) (simp add: first_single_def)
  have g: "m_portRows ?g = map suggested_port (ip_suggestedPorts p)" "m_healthcheckCommand ?g = ip_healthcheckCommand p"
    "m_containerName ?g = ip_defaultContainerName p" and p: "p \<in> set (presets s)"
    using image_effect_fresh [of s ?f p] assms(1) by (simp_all add: first_single_def)
  note fields = preset_fields [OF p]
  let ?h = "m_single (type_image s other m1)"
  have second: "m_portRows ?h = m_portRows ?g \<and> m_healthcheckCommand ?h = m_healthcheckCommand ?g \<and>
      m_containerName ?h = m_containerName ?g"
    using image_effect_keeps [of "?g\<lparr>m_image := other\<rparr>" s] fields
    by (simp add: type_image_single [of s other m1] first g)
  have effect: "m_name (image_effect s f) = m_name f" "m_image (image_effect s f) = m_image f" for f
    by (simp_all add: image_effect_def apply_preset_def Let_def split: option.split)
  have "m_name ?h = []" "m_image ?h = other"
    by (simp_all add: type_image_single [of s other m1] first effect) (simp add: first_single_def)
  then show ?thesis
    unfolding m1_def [symmetric]
    using second g fields by (simp add: Let_def single_request_def some_text_def or_str_def)
qed

theorem first_suggestion_kept_witness:
  "\<forall>s. cr_healthcheck_command (single_request s [] []
      (m_single (type_image s ''mysql:8'' (type_image s ''nginx'' (first_modal [] [] Single [])))))
    = Some ''CMD-SHELL wget -q -O- http://localhost || exit 1''"
proof
  fix s
  have "\<exists>p. getImageDeployPreset s ''nginx'' = Some p \<and>
      ip_healthcheckCommand p = ''CMD-SHELL wget -q -O- http://localhost || exit 1''"
  proof -
    have "lower (trim ''nginx'') = ''nginx''" by code_simp
    then show ?thesis by (simp add: getImageDeployPreset_def presets_def preset_of_def starts_with_def Let_def)
  qed
  then obtain p where p: "getImageDeployPreset s ''nginx'' = Some p"
    "ip_healthcheckCommand p = ''CMD-SHELL wget -q -O- http://localhost || exit 1''" by blast
  have "m_single (first_modal [] [] Single []) = first_single []" by (simp add: first_modal_def)
  then show "cr_healthcheck_command (single_request s [] []
      (m_single (type_image s ''mysql:8'' (type_image s ''nginx'' (first_modal [] [] Single [])))))
    = Some ''CMD-SHELL wget -q -O- http://localhost || exit 1''"
    using first_suggestion_kept [OF p(1), where m = "first_modal [] [] Single []" and other = "''mysql:8''" and registries = "[]" and tags = "[]"]
    by (simp add: Let_def p(2))
qed

end
