(* ===== verification/ServerFeatures.thy ===== *)
theory ServerFeatures
  imports ServerApi Complex_Main
begin

text \<open>
  The remaining API objects of \<open>shared/api/client.ts\<close>: services, cron jobs, backups, network,
  firewall, monitoring with its alerts, audit, disks, environments, and the control calls that
  wait for their command.
\<close>

section \<open>servicesApi\<close>

definition services_list :: "server \<Rightarrow> string \<Rightarrow> json list eff" where
  "services_list srv sid = normalized_list normalizeService (api_get srv (server_path sid ''/services''))"

definition services_listInstallPlans :: "server \<Rightarrow> string \<Rightarrow> json list eff" where
  "services_listInstallPlans srv sid =
     just_items (items_of (api_get srv (server_path sid ''/service-install-plans'')))"

definition services_createInstallPlan :: "server \<Rightarrow> string \<Rightarrow> json \<Rightarrow> json option eff" where
  "services_createInstallPlan srv sid body =
     item_of (api_post srv (server_path sid ''/service-install-plans'') (Some body))"

definition services_get :: "server \<Rightarrow> string \<Rightarrow> string \<Rightarrow> json eff" where
  "services_get srv sid serviceName =
     normalized_item normalizeService (api_get srv (server_path sid (''/services/'' @ serviceName)))"

definition services_action :: "server \<Rightarrow> string \<Rightarrow> string \<Rightarrow> string \<Rightarrow> action_result eff" where
  "services_action srv sid serviceName action =
     action_of (api_post srv (server_path sid (''/services/'' @ serviceName @ ''/actions''))
       (Some (JObj [(''action'', JStr action)])))"

definition services_discovery :: "server \<Rightarrow> string \<Rightarrow> action_result eff" where
  "services_discovery srv sid = action_of (api_post srv (server_path sid ''/services/discovery'') None)"

definition services_logs ::
  "server \<Rightarrow> clock \<Rightarrow> string \<Rightarrow> string \<Rightarrow> int \<Rightarrow> world
     \<Rightarrow> ((thrown + resolved_action) \<times> world) option" where
  "services_logs srv clock sid serviceName ls =
     resolveCommandAction srv clock sid
       (action_of (api_post srv
         (server_path sid (''/services/'' @ serviceName @ ''/logs?lines='' @ show_int ls)) None))
       (Some \<lparr>wo_timeoutMs = Some 45000, wo_intervalMs = None\<rparr>)"

section \<open>cronjobsApi\<close>

record cron_request =
  cq_name :: "string option"
  cq_schedule :: string
  cq_command :: string
  cq_user :: "string option"
  cq_description :: "string option"
  cq_working_dir :: "string option"

definition cronjobs_list :: "server \<Rightarrow> string \<Rightarrow> json list eff" where
  "cronjobs_list srv sid = normalized_list normalizeCronjob (api_get srv (server_path sid ''/cronjobs''))"

definition cronjobs_create :: "server \<Rightarrow> string \<Rightarrow> cron_request \<Rightarrow> json eff" where
  "cronjobs_create srv sid body =
     normalized_item normalizeCronjob (api_post srv (server_path sid ''/cronjobs'') (obj
       [(''name'', ostr (cq_name body)),
        (''description'', ostr (cq_description body)),
        (''cron_expression'', Some (JStr (cq_schedule body))),
        (''command'', Some (JStr (cq_command body))),
        (''working_dir'', ostr (cq_working_dir body)),
        (''user'', ostr (cq_user body))]))"

definition cronjobs_get :: "server \<Rightarrow> string \<Rightarrow> json eff" where
  "cronjobs_get srv cronjobId = normalized_item normalizeCronjob (api_get srv (''/cronjobs/'' @ cronjobId))"

definition cronjob_patch :: "json option \<Rightarrow> json" where
  "cronjob_patch body =
     JObj (jset ''status''
             (if jget ''enabled'' body = None then jget ''status'' body
              else if truthy (jget ''enabled'' body) then Some (JStr ''active'')
              else Some (JStr ''disabled''))
          (jset ''cron_expression''
             (jnullish (jget ''cron_expression'' body) (jget ''schedule'' body)) (own_props body)))"

definition cronjobs_update :: "server \<Rightarrow> string \<Rightarrow> json \<Rightarrow> json eff" where
  "cronjobs_update srv cronjobId body =
     normalized_item normalizeCronjob
       (api_put srv (''/cronjobs/'' @ cronjobId) (Some (cronjob_patch (Some body))))"

definition cronjobs_delete :: "server \<Rightarrow> string \<Rightarrow> json option eff" where
  "cronjobs_delete srv cronjobId = api_delete srv (''/cronjobs/'' @ cronjobId)"

definition cronjobs_execute :: "server \<Rightarrow> string \<Rightarrow> action_result eff" where
  "cronjobs_execute srv cronjobId =
     action_of (api_post srv (''/cronjobs/'' @ cronjobId @ ''/execute'') None)"

definition cronjobs_history :: "server \<Rightarrow> string \<Rightarrow> json list eff" where
  "cronjobs_history srv cronjobId =
     just_items (items_of (api_get srv (''/cronjobs/'' @ cronjobId @ ''/history'')))"

section \<open>backupsApi\<close>

definition backups_list :: "server \<Rightarrow> string \<Rightarrow> json list eff" where
  "backups_list srv sid = normalized_list normalizeBackup (api_get srv (server_path sid ''/backups''))"

text \<open>\<open>now\<close> is the reading of \<open>Date.now()\<close>.\<close>

definition backups_create ::
  "server \<Rightarrow> int \<Rightarrow> string \<Rightarrow> string option \<Rightarrow> string option \<Rightarrow> action_result eff" where
  "backups_create srv now sid label path =
     action_of (api_post srv (server_path sid ''/backups'') (Some (JObj
       [(''name'', JStr (nullish label (''backup-'' @ show_int now))),
        (''type'', JStr ''full''),
        (''backup_path'', JStr (nullish path ''/var/backups'')),
        (''paths'', JArr [JStr (nullish path ''/etc'')])])))"

definition backups_get :: "server \<Rightarrow> string \<Rightarrow> json eff" where
  "backups_get srv backupId = normalized_item normalizeBackup (api_get srv (''/backups/'' @ backupId))"

definition backups_restore :: "server \<Rightarrow> string \<Rightarrow> action_result eff" where
  "backups_restore srv backupId = action_of (api_post srv (''/backups/'' @ backupId @ ''/restore'') None)"

definition backups_delete :: "server \<Rightarrow> string \<Rightarrow> json option eff" where
  "backups_delete srv backupId = api_delete srv (''/backups/'' @ backupId)"

section \<open>networkApi and iptablesApi\<close>

definition network_interfaces :: "server \<Rightarrow> string \<Rightarrow> json list eff" where
  "network_interfaces srv sid = just_items (items_of (api_get srv (server_path sid ''/network/interfaces'')))"

definition network_refresh :: "server \<Rightarrow> string \<Rightarrow> action_result eff" where
  "network_refresh srv sid = action_of (api_post srv (server_path sid ''/network/refresh'') None)"

definition network_check :: "server \<Rightarrow> string \<Rightarrow> string \<Rightarrow> action_result eff" where
  "network_check srv sid target =
     action_of (api_post srv (server_path sid ''/network/checks'') (Some (JObj
       [(''target_host'', JStr target), (''protocol'', JStr ''icmp'')])))"

definition network_testPort :: "server \<Rightarrow> string \<Rightarrow> string \<Rightarrow> int \<Rightarrow> action_result eff" where
  "network_testPort srv sid host p =
     action_of (api_post srv (server_path sid ''/network/checks'') (Some (JObj
       [(''target_host'', JStr host), (''target_port'', JNum p), (''protocol'', JStr ''tcp'')])))"

definition network_history :: "server \<Rightarrow> string \<Rightarrow> json list eff" where
  "network_history srv sid = just_items (items_of (api_get srv (server_path sid ''/network/checks'')))"

definition iptables_list :: "server \<Rightarrow> string \<Rightarrow> json list eff" where
  "iptables_list srv sid = just_items (items_of (api_get srv (server_path sid ''/iptables/rules'')))"

definition iptables_add :: "server \<Rightarrow> string \<Rightarrow> json \<Rightarrow> json option eff" where
  "iptables_add srv sid body = item_of (api_post srv (server_path sid ''/iptables/rules'') (Some body))"

definition iptables_update :: "server \<Rightarrow> string \<Rightarrow> string \<Rightarrow> json \<Rightarrow> json option eff" where
  "iptables_update srv sid ruleId body =
     item_of (api_put srv (server_path sid (''/iptables/rules/'' @ ruleId)) (Some body))"

definition iptables_delete :: "server \<Rightarrow> string \<Rightarrow> string \<Rightarrow> json option eff" where
  "iptables_delete srv sid ruleId = api_delete srv (server_path sid (''/iptables/rules/'' @ ruleId))"

definition iptables_apply :: "server \<Rightarrow> string \<Rightarrow> action_result eff" where
  "iptables_apply srv sid = action_of (api_post srv (server_path sid ''/iptables/apply'') None)"

definition iptables_backup :: "server \<Rightarrow> int \<Rightarrow> string \<Rightarrow> action_result eff" where
  "iptables_backup srv now sid =
     action_of (api_post srv (server_path sid ''/iptables/backups'') (Some (JObj
       [(''name'', JStr (''rules-'' @ show_int now))])))"

definition iptables_listBackups :: "server \<Rightarrow> string \<Rightarrow> json list eff" where
  "iptables_listBackups srv sid = just_items (items_of (api_get srv (server_path sid ''/iptables/backups'')))"

definition iptables_restore :: "server \<Rightarrow> string \<Rightarrow> action_result eff" where
  "iptables_restore srv backupId =
     action_of (api_post srv (''/iptables/backups/'' @ backupId @ ''/restore'') None)"

section \<open>auditApi, disksApi and environmentsApi\<close>

record audit_query =
  aq_tenant_id :: "string option"
  aq_policy_decision :: "string option"
  aq_action :: "string option"
  aq_limit :: "int option"

definition audit_params :: "audit_query option \<Rightarrow> params" where
  "audit_params q =
     (case q of None \<Rightarrow> []
      | Some p \<Rightarrow>
          set_num ''limit'' (aq_limit p)
          (set_str ''action'' (aq_action p)
          (set_str ''policy_decision'' (aq_policy_decision p)
          (set_str ''tenant_id'' (aq_tenant_id p) []))))"

definition audit_list :: "server \<Rightarrow> string \<Rightarrow> audit_query option \<Rightarrow> (json list \<times> json) eff" where
  "audit_list srv sid q =
     items_of (api_get srv (server_path sid (''/audit-logs'' @ query_suffix (audit_params q))))"

definition disks_list :: "server \<Rightarrow> string \<Rightarrow> json list eff" where
  "disks_list srv sid = just_items (items_of (api_get srv (server_path sid ''/disks'')))"

definition disks_refresh :: "server \<Rightarrow> string \<Rightarrow> action_result eff" where
  "disks_refresh srv sid = action_of (api_post srv (server_path sid ''/disks/refresh'') None)"

definition environments_discovered :: "server \<Rightarrow> json list eff" where
  "environments_discovered srv = just_items (items_of (api_get srv ''/environments/discovered''))"

section \<open>Calls that wait for their command\<close>

definition control_call ::
  "server \<Rightarrow> clock \<Rightarrow> string \<Rightarrow> string \<Rightarrow> json \<Rightarrow> int option \<Rightarrow> world
     \<Rightarrow> ((thrown + resolved_action) \<times> world) option" where
  "control_call srv clock sid rest body timeoutMs =
     resolveCommandAction srv clock sid (action_of (api_post srv (server_path sid rest) (Some body)))
       (case timeoutMs of None \<Rightarrow> None | Some t \<Rightarrow> Some \<lparr>wo_timeoutMs = Some t, wo_intervalMs = None\<rparr>)"

record exec_request =
  eq_command :: string
  eq_timeout_sec :: "int option"

definition terminal_exec ::
  "server \<Rightarrow> clock \<Rightarrow> string \<Rightarrow> exec_request \<Rightarrow> world \<Rightarrow> ((thrown + resolved_action) \<times> world) option" where
  "terminal_exec srv clock sid body =
     control_call srv clock sid ''/terminal/exec''
       (JObj (members [(''command'', Some (JStr (eq_command body))),
                       (''timeout_sec'', map_option JNum (eq_timeout_sec body))]))
       (Some (nullish (eq_timeout_sec body) 30 * 1000 + 15000))"

definition filesystem_list ::
  "server \<Rightarrow> clock \<Rightarrow> string \<Rightarrow> string \<Rightarrow> int option \<Rightarrow> world
     \<Rightarrow> ((thrown + resolved_action) \<times> world) option" where
  "filesystem_list srv clock sid path depth =
     control_call srv clock sid ''/filesystem/list''
       (JObj (members [(''path'', Some (JStr path)), (''depth'', map_option JNum depth)])) None"

definition filesystem_read ::
  "server \<Rightarrow> clock \<Rightarrow> string \<Rightarrow> string \<Rightarrow> int option \<Rightarrow> world
     \<Rightarrow> ((thrown + resolved_action) \<times> world) option" where
  "filesystem_read srv clock sid path ls =
     control_call srv clock sid ''/filesystem/read''
       (JObj (members [(''path'', Some (JStr path)), (''lines'', map_option JNum ls)])) None"

definition filesystem_write ::
  "server \<Rightarrow> clock \<Rightarrow> string \<Rightarrow> string \<Rightarrow> string \<Rightarrow> world
     \<Rightarrow> ((thrown + resolved_action) \<times> world) option" where
  "filesystem_write srv clock sid path content =
     control_call srv clock sid ''/filesystem/write''
       (JObj [(''path'', JStr path), (''content'', JStr content)]) None"

definition filesystem_chmod ::
  "server \<Rightarrow> clock \<Rightarrow> string \<Rightarrow> string \<Rightarrow> string \<Rightarrow> world
     \<Rightarrow> ((thrown + resolved_action) \<times> world) option" where
  "filesystem_chmod srv clock sid path mode =
     control_call srv clock sid ''/filesystem/chmod''
       (JObj [(''path'', JStr path), (''mode'', JStr mode)]) None"

record control_request =
  ct_action :: string
  ct_target :: "string option"
  ct_payload :: "string option"

definition control_body :: "control_request \<Rightarrow> json" where
  "control_body body =
     JObj [(''action'', JStr (ct_action body)),
           (''target'', JStr (nullish (ct_target body) [])),
           (''payload'', JStr (nullish (ct_payload body) []))]"

definition access_action ::
  "server \<Rightarrow> clock \<Rightarrow> string \<Rightarrow> control_request \<Rightarrow> world
     \<Rightarrow> ((thrown + resolved_action) \<times> world) option" where
  "access_action srv clock sid body =
     control_call srv clock sid ''/access/actions'' (control_body body) None"

definition config_action ::
  "server \<Rightarrow> clock \<Rightarrow> string \<Rightarrow> control_request \<Rightarrow> world
     \<Rightarrow> ((thrown + resolved_action) \<times> world) option" where
  "config_action srv clock sid body =
     control_call srv clock sid ''/config/actions'' (control_body body) None"

definition process_signal ::
  "server \<Rightarrow> clock \<Rightarrow> string \<Rightarrow> int \<Rightarrow> string \<Rightarrow> world
     \<Rightarrow> ((thrown + resolved_action) \<times> world) option" where
  "process_signal srv clock sid pid signal =
     control_call srv clock sid ''/processes/actions''
       (JObj [(''pid'', JNum pid), (''signal'', JStr signal)]) None"

definition packages_list ::
  "server \<Rightarrow> clock \<Rightarrow> string \<Rightarrow> world \<Rightarrow> ((thrown + resolved_action) \<times> world) option" where
  "packages_list srv clock sid =
     control_call srv clock sid ''/packages/actions''
       (JObj [(''action'', JStr ''list''), (''package_name'', JStr [])]) (Some 120000)"

definition packages_action ::
  "server \<Rightarrow> clock \<Rightarrow> string \<Rightarrow> string \<Rightarrow> string \<Rightarrow> world
     \<Rightarrow> ((thrown + resolved_action) \<times> world) option" where
  "packages_action srv clock sid action package_name =
     control_call srv clock sid ''/packages/actions''
       (JObj [(''action'', JStr action), (''package_name'', JStr package_name)]) (Some 120000)"

section \<open>monitoringApi\<close>

text \<open>
  Measurements are fractional numbers; here they are rationals, read at the types the interfaces
  declare. The three answers \<open>getMetrics\<close> and \<open>listAlerts\<close> wait for are arguments; a failed
  one of the agent is \<^const>\<open>None\<close>, as after the code's \<open>catch\<close>.
\<close>

record AgentStatusDTO =
  ag_online :: bool
  ag_cpu_percent :: "rat option"
  ag_mem_percent :: "rat option"
  ag_memory_gb :: "rat option"
  ag_uptime_seconds :: "rat option"

record metrics_item =
  mi_cpu_usage :: "rat option"
  mi_memory_usage :: "rat option"
  mi_uptime :: "rat option"
  mi_load_average :: "(rat \<times> rat \<times> rat) option"

record server_metrics =
  me_cpuUsage :: rat
  me_memTotal :: rat
  me_memUsed :: rat
  me_memPercent :: rat
  me_diskMounts :: "json list"
  me_netRxBytes :: rat
  me_netTxBytes :: rat
  me_uptimeSeconds :: rat
  me_loadAvg :: "rat \<times> rat \<times> rat"
  me_collectedAt :: string

definition getMetrics :: "metrics_item \<Rightarrow> AgentStatusDTO option \<Rightarrow> string \<Rightarrow> server_metrics" where
  "getMetrics m agent now =
     \<lparr>me_cpuUsage = nullish (mi_cpu_usage m) (nullish (Option.bind agent ag_cpu_percent) 0),
      me_memTotal = nullish (Option.bind agent ag_memory_gb) 0 * 1024 * 1024 * 1024,
      me_memUsed = 0,
      me_memPercent = nullish (mi_memory_usage m) (nullish (Option.bind agent ag_mem_percent) 0),
      me_diskMounts = [],
      me_netRxBytes = 0,
      me_netTxBytes = 0,
      me_uptimeSeconds = nullish (mi_uptime m) (nullish (Option.bind agent ag_uptime_seconds) 0),
      me_loadAvg = nullish (mi_load_average m) (0, 0, 0),
      me_collectedAt = now\<rparr>"

definition monitoring_history :: "server \<Rightarrow> string \<Rightarrow> int \<Rightarrow> json list eff" where
  "monitoring_history srv sid limit =
     just_items (items_of (api_get srv (server_path sid (''/metrics/history?limit='' @ show_int limit))))"

record health =
  he_status :: string
  he_issues :: "string list"

definition getHealth :: "server \<Rightarrow> string \<Rightarrow> health eff" where
  "getHealth srv sid =
     eff_bind (servers_healthCheck srv sid)
       (\<lambda>r. eff_ret \<lparr>he_status = (if hc_healthy r then ''healthy'' else ''critical''),
          he_issues = (if hc_message r \<noteq> [] then [hc_message r] else [])\<rparr>)"

datatype severity = Info | Warning | Critical

record alert =
  al_id :: string
  al_severity :: severity
  al_title :: string
  al_description :: string

record DiskDTO =
  dk_id :: string
  dk_name :: string
  dk_mount_point :: "string option"
  dk_total_bytes :: "rat option"
  dk_used_bytes :: "rat option"

text \<open>\<open>x.toFixed(1)\<close> of a number that is not negative, and \<open>Math.round(x)\<close>.\<close>

definition to_fixed1 :: "rat \<Rightarrow> string" where
  "to_fixed1 x = (let n = \<lfloor>x * 10 + 1 / 2\<rfloor> in show_int (n div 10) @ ''.'' @ show_int (n mod 10))"

definition math_round :: "rat \<Rightarrow> int" where
  "math_round x = \<lfloor>x + 1 / 2\<rfloor>"

definition grade :: "rat \<Rightarrow> severity" where
  "grade p = (if p \<ge> 95 then Critical else Warning)"

definition disk_percent :: "DiskDTO \<Rightarrow> int" where
  "disk_percent d =
     (case dk_total_bytes d of
        None \<Rightarrow> 0
      | Some t \<Rightarrow> if t > 0 then math_round (nullish (dk_used_bytes d) 0 / t * 100) else 0)"

definition disk_alert :: "DiskDTO \<Rightarrow> alert list" where
  "disk_alert d =
     (let percent = disk_percent d; place = or_ostr (dk_mount_point d) (dk_name d) in
      if percent \<ge> 85
      then [\<lparr>al_id = ''disk-'' @ dk_id d,
             al_severity = grade (of_int percent),
             al_title = ''Disk usage high on '' @ place,
             al_description = ''Disk usage is '' @ show_int percent @ ''% on '' @ place @ ''.''\<rparr>]
      else [])"

definition offline_alert :: alert where
  "offline_alert = \<lparr>al_id = ''agent-offline'', al_severity = Critical, al_title = ''Agent offline'',
     al_description = ''The node is not currently connected to the control plane.''\<rparr>"

definition cpu_alert :: "rat \<Rightarrow> alert" where
  "cpu_alert p = \<lparr>al_id = ''cpu-high'', al_severity = grade p, al_title = ''High CPU usage'',
     al_description = ''CPU load is '' @ to_fixed1 p @ ''%.''\<rparr>"

definition memory_alert :: "rat \<Rightarrow> alert" where
  "memory_alert p = \<lparr>al_id = ''memory-high'', al_severity = grade p, al_title = ''High memory usage'',
     al_description = ''Memory usage is '' @ to_fixed1 p @ ''%.''\<rparr>"

definition healthy_alert :: alert where
  "healthy_alert = \<lparr>al_id = ''healthy'', al_severity = Info, al_title = ''No active alerts'',
     al_description = ''The latest agent, disk, and metrics checks look healthy.''\<rparr>"

definition listAlerts :: "server_metrics \<Rightarrow> DiskDTO list \<Rightarrow> AgentStatusDTO option \<Rightarrow> alert list" where
  "listAlerts metrics disks agent =
     (let alerts =
        (if \<not> (case agent of None \<Rightarrow> False | Some a \<Rightarrow> ag_online a) then [offline_alert] else []) @
        (if me_cpuUsage metrics \<ge> 85 then [cpu_alert (me_cpuUsage metrics)] else []) @
        (if me_memPercent metrics \<ge> 85 then [memory_alert (me_memPercent metrics)] else []) @
        concat (map disk_alert disks) in
      if alerts = [] then [healthy_alert] else alerts)"

section \<open>What a resolved call returns\<close>

lemma upper_lower: "upper (lower s) = upper s"
  by (simp add: upper_def lower_def upper_char_def lower_char_def Let_def)

lemma ended_not_failed:
  assumes "ended c" "\<not> command_failed c"
  shows "lower (trim (jstring (jget ''status'' c))) \<in> {''completed'', ''success''}"
proof -
  let ?s = "trim (jstring (jnullish (jget ''status'' c) (Some (JStr []))))"
  have nn: "jnullish (jget ''status'' c) (Some (JStr [])) = jget ''status'' c"
  proof (rule ccontr)
    assume "\<not> ?thesis"
    then have "?s = []" by (auto simp: jnullish_def split: if_splits)
    with assms(1) show False by (simp add: ended_def isTerminalCommandStatus_def lower_def)
  qed
  have "upper ?s = upper (lower ?s)" by (simp add: upper_lower)
  moreover have "upper ''failed'' = ''FAILED''" "upper ''cancelled'' = ''CANCELLED''"
    "upper ''canceled'' = ''CANCELED''" "upper ''timed_out'' = ''TIMED_OUT''"
    "upper ''timeout'' = ''TIMEOUT''" "upper ''error'' = ''ERROR''" by code_simp+
  moreover have "lower ?s \<in> {''completed'', ''success'', ''failed'', ''cancelled'', ''canceled'',
      ''timed_out'', ''timeout'', ''error''}"
    using assms(1) by (simp add: ended_def isTerminalCommandStatus_def)
  moreover have "upper ?s \<notin> {''FAILED'', ''CANCELLED'', ''CANCELED'', ''TIMEOUT'', ''TIMED_OUT'', ''ERROR''}"
    using assms(2) by (simp add: command_failed_def)
  ultimately have "lower ?s \<in> {''completed'', ''success''}"
    by (elim insertE) (simp_all only: insert_iff simp_thms empty_iff)
  with nn show ?thesis by simp
qed

text \<open>
  C5. A call that waits for its command returns a value only in two cases: the server's answer
  named no command, or the command ended as completed or successful and its typed result does not
  say failed. Every other end of the command is thrown.
\<close>

theorem resolve_success:
  assumes "resolveCommandAction srv clock sid action opts w = Some (Inr r, w')"
  shows "(\<exists>a. fst (action w) = Inr a \<and> \<not> truthy (jget ''id'' (ar_command a)) \<and> r = resolved a None) \<or>
    (lower (trim (jstring (jget ''status'' (ar_command r)))) \<in> {''completed'', ''success''} \<and>
     lower (trim (jstring (jget ''status'' (jget ''result'' (ar_command r))))) \<noteq> ''failed'')"
proof -
  obtain a w1 where a: "action w = (Inr a, w1)"
    using assms by (cases "action w") (auto simp: resolveCommandAction_def split: sum.splits)
  show ?thesis
  proof (cases "truthy (jget ''id'' (ar_command a))")
    case False
    with a assms show ?thesis by (auto simp: resolveCommandAction_def)
  next
    case True
    with a assms obtain c w2 where c: "waitForResult srv clock sid
        (jstring (jget ''id'' (ar_command a))) opts w1 = Some (Inr c, w2)"
      and r: "completed_action a c = Inr r"
      by (auto simp: resolveCommandAction_def Let_def split: option.splits sum.splits)
    have "ended c" using c wait_loop_result unfolding waitForResult_def by fastforce
    moreover have nf: "\<not> command_failed c" and rc: "ar_command r = c"
      using r by (auto simp: completed_action_def resolved_def split: if_splits sum.splits)
    ultimately have "lower (trim (jstring (jget ''status'' c))) \<in> {''completed'', ''success''}"
      using ended_not_failed by blast
    moreover have "lower (trim (jstring (jget ''status'' (jget ''result'' c)))) \<noteq> ''failed''"
    proof
      assume f: "lower (trim (jstring (jget ''status'' (jget ''result'' c)))) = ''failed''"
      have "jnullish (jget ''status'' (jget ''result'' c)) (Some (JStr []))
          = jget ''status'' (jget ''result'' c)"
      proof (rule ccontr)
        assume "\<not> ?thesis"
        then have "jget ''status'' (jget ''result'' c) \<in> {None, Some JNull}"
          by (auto simp: jnullish_def split: if_splits)
        moreover have "lower (trim ''undefined'') \<noteq> ''failed''" "lower (trim ''null'') \<noteq> ''failed''"
          by code_simp+
        ultimately show False using f by auto
      qed
      with f nf show False by (simp add: command_failed_def)
    qed
    ultimately show ?thesis using rc by simp
  qed
qed

definition command_server :: server where
  "command_server h rq =
     Some \<lparr>rs_status = 200,
       rs_body = json_text (if rq_method rq = ''POST''
         then JObj [(''status'', JStr ''accepted''), (''command'', JObj [(''id'', JStr ''c1'')])]
         else JObj [(''status'', JStr ''ok''), (''item'', JObj [(''id'', JStr ''c1''),
           (''status'', JStr (if length h < 2 then ''RUNNING'' else ''SUCCESS'')),
           (''raw_output'', JStr ''done'')])])\<rparr>"

definition sample_exec :: "((thrown + resolved_action) \<times> world) option" where
  "sample_exec = terminal_exec command_server steady_clock ''s1''
     \<lparr>eq_command = ''ls'', eq_timeout_sec = None\<rparr> sample_world"

declare wait_loop.simps [code]

lemma sample_exec_value:
  "map_option (\<lambda>(r, w). case r of Inl e \<Rightarrow> None | Inr a \<Rightarrow> Some (ar_raw_output a, ar_command a)) sample_exec
     = Some (Some (Some (JStr ''done''), Some (JObj [(''id'', JStr ''c1''), (''status'', JStr ''SUCCESS''),
         (''raw_output'', JStr ''done'')])))"
  by code_simp

theorem resolve_success_witness:
  "\<exists>r w'. sample_exec = Some (Inr r, w') \<and>
     lower (trim (jstring (jget ''status'' (ar_command r)))) \<in> {''completed'', ''success''}"
proof -
  obtain r w' where e: "sample_exec = Some (Inr r, w')"
    and c: "ar_command r = Some (JObj [(''id'', JStr ''c1''), (''status'', JStr ''SUCCESS''),
         (''raw_output'', JStr ''done'')])" "ar_raw_output r = Some (JStr ''done'')"
    using sample_exec_value by (auto split: sum.splits prod.splits) (metis sum.exhaust)
  from resolve_success [OF e [unfolded sample_exec_def terminal_exec_def control_call_def]] e c
  show ?thesis by (auto simp: resolved_def)
qed

section \<open>Normalisation is stable\<close>

lemma map_of_filter_ne: "map_of (filter (\<lambda>p. fst p \<noteq> k) m) = (map_of m)(k := None)"
  by (induction m) (auto simp: fun_eq_iff)

lemma map_of_jset: "map_of (jset k v m) = (map_of m)(k := v)"
  by (auto simp: jset_def map_of_filter_ne split: option.split)

lemma put_same: "map_of m k = Some v \<Longrightarrow> put k v m = m"
  by (induction k v m rule: put.induct) (auto split: if_splits)

lemma jset_same: "map_of m k = v \<Longrightarrow> jset k v m = m"
  by (auto simp: jset_def put_same filter_id_conv map_of_eq_None_iff image_iff split: option.split)
    (metis fst_conv)

lemma jnullish_same [simp]: "jnullish (jnullish a b) b = jnullish a b"
  by (simp add: jnullish_def)

lemma jnullish_idem: "b \<noteq> None \<Longrightarrow> b \<noteq> Some JNull \<Longrightarrow> jnullish (jnullish a b) c = jnullish a b"
  by (auto simp: jnullish_def)

lemma map_of_own_props [simp]: "map_of (own_props v) k = jget k v"
  by (induction v rule: own_props.induct) auto

text \<open>
  The normalisations of services, cron jobs and backups are idempotent: a value normalised
  again is unchanged, so a list that passes through two of them is the list that passed one.
\<close>

theorem normalize_idempotent:
  "(normalizeService dto = Inr s \<longrightarrow> normalizeService (Some s) = Inr s) \<and>
   (normalizeCronjob dto = Inr c \<longrightarrow> normalizeCronjob (Some c) = Inr c) \<and>
   (normalizeBackup dto = Inr b \<longrightarrow> normalizeBackup (Some b) = Inr b)"
proof (intro conjI impI)
  show "normalizeService dto = Inr s \<Longrightarrow> normalizeService (Some s) = Inr s"
    by (auto simp: normalizeService_def map_of_jset jnullish_idem jset_same split: if_splits)
  show "normalizeCronjob dto = Inr c \<Longrightarrow> normalizeCronjob (Some c) = Inr c"
    by (auto simp: normalizeCronjob_def Let_def map_of_jset jnullish_idem jset_same split: if_splits)
  show "normalizeBackup dto = Inr b \<Longrightarrow> normalizeBackup (Some b) = Inr b"
    by (auto simp: normalizeBackup_def map_of_jset jset_same split: if_splits)
qed

theorem normalize_idempotent_witness:
  "normalizeService (Some (JObj [(''name'', JStr ''ssh''), (''enabled'', JBool True)]))
     = Inr (JObj [(''name'', JStr ''ssh''), (''enabled'', JBool True), (''boot_status'', JStr ''enabled'')]) \<and>
   normalizeService (Some (JObj [(''name'', JStr ''ssh''), (''enabled'', JBool True), (''boot_status'', JStr ''enabled'')]))
     = Inr (JObj [(''name'', JStr ''ssh''), (''enabled'', JBool True), (''boot_status'', JStr ''enabled'')])"
proof -
  have h: "normalizeService (Some (JObj [(''name'', JStr ''ssh''), (''enabled'', JBool True)]))
     = Inr (JObj [(''name'', JStr ''ssh''), (''enabled'', JBool True), (''boot_status'', JStr ''enabled'')])"
    by code_simp
  from normalize_idempotent [THEN conjunct1, rule_format, OF h] h show ?thesis by blast
qed

section \<open>Alerts\<close>

definition agent_up :: "AgentStatusDTO option \<Rightarrow> bool" where
  "agent_up agent \<longleftrightarrow> (case agent of None \<Rightarrow> False | Some a \<Rightarrow> ag_online a)"

text \<open>The abstract specification: the measures a server is judged by, each against a limit.\<close>

definition over :: "rat \<Rightarrow> server_metrics \<Rightarrow> DiskDTO list \<Rightarrow> bool" where
  "over limit metrics disks \<longleftrightarrow> me_cpuUsage metrics \<ge> limit \<or> me_memPercent metrics \<ge> limit \<or>
     (\<exists>d \<in> set disks. of_int (disk_percent d) \<ge> limit)"

lemma disk_alert_cases:
  "disk_alert d = (if of_int (disk_percent d) \<ge> (85::rat)
     then [\<lparr>al_id = ''disk-'' @ dk_id d, al_severity = grade (of_int (disk_percent d)),
       al_title = ''Disk usage high on '' @ or_ostr (dk_mount_point d) (dk_name d),
       al_description = ''Disk usage is '' @ show_int (disk_percent d) @ ''% on '' @
         or_ostr (dk_mount_point d) (dk_name d) @ ''.''\<rparr>] else [])"
proof -
  have "of_int (disk_percent d) \<ge> (85::rat) \<longleftrightarrow> disk_percent d \<ge> 85" by linarith
  then show ?thesis by (simp add: disk_alert_def Let_def)
qed

lemma alerts_raised:
  assumes "\<not> agent_up agent \<or> over 85 metrics disks"
  shows "set (listAlerts metrics disks agent) =
     (if agent_up agent then {} else {offline_alert}) \<union>
     (if me_cpuUsage metrics \<ge> 85 then {cpu_alert (me_cpuUsage metrics)} else {}) \<union>
     (if me_memPercent metrics \<ge> 85 then {memory_alert (me_memPercent metrics)} else {}) \<union>
     (\<Union>d \<in> set disks. set (disk_alert d))"
proof -
  let ?as = "(if \<not> (case agent of None \<Rightarrow> False | Some a \<Rightarrow> ag_online a) then [offline_alert] else []) @
        (if me_cpuUsage metrics \<ge> 85 then [cpu_alert (me_cpuUsage metrics)] else []) @
        (if me_memPercent metrics \<ge> 85 then [memory_alert (me_memPercent metrics)] else []) @
        concat (map disk_alert disks)"
  have "?as \<noteq> []"
    using assms by (auto simp: agent_up_def over_def disk_alert_cases)
  then have "listAlerts metrics disks agent = ?as" by (simp add: listAlerts_def Let_def del: append_is_Nil_conv)
  then show ?thesis by (auto simp: agent_up_def split: if_splits)
qed

lemma alerts_none:
  assumes "agent_up agent" "\<not> over 85 metrics disks"
  shows "listAlerts metrics disks agent = [healthy_alert]"
proof -
  have "\<forall>d \<in> set disks. disk_alert d = []" using assms(2) by (auto simp: over_def disk_alert_cases)
  then have "concat (map disk_alert disks) = []" by simp
  then show ?thesis using assms by (simp add: listAlerts_def agent_up_def over_def)
qed

text \<open>
  The alerts of a server are sound and complete for its measures: it is reported healthy
  exactly when its agent is online and no processor, memory or disk measure reaches 85 percent,
  some alert is critical exactly when the agent is offline or a measure reaches 95 percent, and
  the list is never empty.
\<close>

theorem alerts_complete:
  "listAlerts metrics disks agent \<noteq> [] \<and>
   (healthy_alert \<in> set (listAlerts metrics disks agent) \<longleftrightarrow> agent_up agent \<and> \<not> over 85 metrics disks) \<and>
   (list_all (\<lambda>a. al_severity a \<noteq> Critical) (listAlerts metrics disks agent)
      \<longleftrightarrow> agent_up agent \<and> \<not> over 95 metrics disks)"
proof (cases "agent_up agent \<and> \<not> over 85 metrics disks")
  case True
  then have "\<not> over 95 metrics disks" by (auto simp: over_def)
  with True show ?thesis by (simp add: alerts_none) (simp add: healthy_alert_def)
next
  case False
  then have s: "\<not> agent_up agent \<or> over 85 metrics disks" by blast
  note as = alerts_raised [OF s]
  have "healthy_alert \<notin> set (listAlerts metrics disks agent)"
    unfolding as by (auto simp: healthy_alert_def offline_alert_def cpu_alert_def memory_alert_def
        disk_alert_cases)
  moreover have "listAlerts metrics disks agent \<noteq> []"
    by (simp add: listAlerts_def Let_def)
  moreover have "(\<exists>a \<in> set (listAlerts metrics disks agent). al_severity a = Critical)
      \<longleftrightarrow> \<not> (agent_up agent \<and> \<not> over 95 metrics disks)"
    unfolding as by (force simp: offline_alert_def cpu_alert_def memory_alert_def disk_alert_cases
        grade_def over_def split: if_splits)
  ultimately show ?thesis using s unfolding list_all_iff by blast
qed

end
