(* ===== verification/KubernetesApi.thy ===== *)
theory KubernetesApi
  imports ApiHooks ServerFeatures
begin

text \<open>
  \<open>features/kubernetes/api\<close>: the inventory of environments and the queries and mutations about a
  cluster, with their keys, requests and what they invalidate. The hooks that follow a web socket
  are in the theory of live streams.
\<close>

section \<open>The inventory\<close>

text \<open>\<open>useEnvironmentInventory.ts\<close>. An environment is the object the code builds from a record.\<close>

definition docker_stats :: "json option \<Rightarrow> json option" where
  "docker_stats d = obj
     [(''stacks'', jnullish (jget ''stacks'' d) (Some (JNum 0))),
      (''containers'', jnullish (jget ''total'' d) (Some (JNum 0))),
      (''images'', jnullish (jget ''images'' d) (Some (JNum 0))),
      (''volumes'', jnullish (jget ''volumes'' d) (Some (JNum 0))),
      (''serverVersion'', jget ''server_version'' d), (''storageDriver'', jget ''storage_driver'' d),
      (''kernelVersion'', jget ''kernel_version'' d), (''dockerRootDir'', jget ''docker_root_dir'' d),
      (''memTotal'', jget ''mem_total'' d), (''currentContext'', jget ''current_context'' d),
      (''operatingSystem'', jget ''operating_system'' d)]"

definition cluster_stats :: "json option \<Rightarrow> json option" where
  "cluster_stats k = obj
     [(''nodes'', jnullish (jget ''nodes'' k) (Some (JNum 0))),
      (''readyNodes'', jnullish (jget ''ready_nodes'' k) (Some (JNum 0))),
      (''namespaces'', jnullish (jget ''namespaces'' k) (Some (JNum 0))),
      (''pods'', jnullish (jget ''pods'' k) (Some (JNum 0)))]"

definition mapInventory :: "json \<Rightarrow> thrown + json" where
  "mapInventory dto =
     (let d = Some dto in
      if dto = JNull then Inl TypeError
      else Inr (JObj (members
        [(''id'', jget ''id'' d), (''serverId'', jget ''server_id'' d), (''name'', jget ''server_name'' d),
         (''type'', jget ''platform'' d),
         (''status'', Some (JStr (if jget ''status'' d = Some (JStr ''up'') then ''up'' else ''down''))),
         (''url'', jnullish (jget ''endpoint'' d) (jget ''server_ip'' d)), (''selfHost'', jget ''self_host'' d),
         (''os'', jget ''os'' d), (''arch'', jget ''arch'' d), (''lastSeen'', jget ''last_seen'' d),
         (''cpuCores'', jget ''cpu_cores'' d), (''memoryGB'', jget ''memory_gb'' d), (''diskGB'', jget ''disk_gb'' d),
         (''cpuPercent'', jget ''cpu_percent'' d), (''memPercent'', jget ''mem_percent'' d),
         (''diskPercent'', jget ''disk_percent'' d),
         (''stats'', if jget ''platform'' d = Some (JStr ''docker'')
            then docker_stats (jget ''docker'' d) else cluster_stats (jget ''kubernetes'' d))])))"

definition useEnvironmentInventory :: "server \<Rightarrow> json list eff" where
  "useEnvironmentInventory srv =
     eff_bind (environments_discovered srv) (\<lambda>items. eff_of (map_throwing mapInventory items))"

text \<open>The clusters among them, and whether the page shows itself as loading.\<close>

definition cluster_of :: "json \<Rightarrow> json" where
  "cluster_of e = JObj (members
     [(''id'', jget ''id'' (Some e)), (''name'', jget ''name'' (Some e)),
      (''server_id'', jnullish (jget ''serverId'' (Some e)) (Some (JStr []))),
      (''status'', jget ''status'' (Some e)), (''version'', Some (JStr ''self-host'')),
      (''node_count'', jnullish (jget ''nodes'' (jget ''stats'' (Some e))) (Some (JNum 0)))])"

definition useClusters :: "json list option \<Rightarrow> bool \<Rightarrow> bool option \<Rightarrow> json list \<times> bool" where
  "useClusters inventory isLoading en =
     (map cluster_of (filter (\<lambda>e. jget ''type'' (Some e) = Some (JStr ''kubernetes'')) (nullish inventory [])),
      isLoading \<and> en \<noteq> Some False)"

section \<open>Keys\<close>

definition k8s_key :: "string list \<Rightarrow> query_key" where
  "k8s_key rest = map JStr (''kubernetes'' # rest)"

definition kk_all :: query_key where
  "kk_all = k8s_key []"

definition kk_namespaced :: "string \<Rightarrow> string \<Rightarrow> string \<Rightarrow> query_key" where
  "kk_namespaced family cid ns = k8s_key [family, cid, ns]"

definition kk_cluster :: "string \<Rightarrow> string \<Rightarrow> query_key" where
  "kk_cluster family cid = k8s_key [family, cid]"

definition kk_nodeDetail :: "string \<Rightarrow> string \<Rightarrow> query_key" where
  "kk_nodeDetail cid node = k8s_key [''nodeDetail'', cid, node]"

definition kk_podLogs :: "string \<Rightarrow> string \<Rightarrow> string \<Rightarrow> int \<Rightarrow> query_key" where
  "kk_podLogs cid ns pod tail = k8s_key [''podLogs'', cid, ns, pod] @ [JNum tail]"

definition kk_genericResources :: "string \<Rightarrow> string \<Rightarrow> string \<Rightarrow> query_key" where
  "kk_genericResources cid kind ns = k8s_key [''genericResources'', cid, kind, ns]"

definition kk_resourceHistory :: "string \<Rightarrow> string \<Rightarrow> string \<Rightarrow> string \<Rightarrow> query_key" where
  "kk_resourceHistory cid kind ns name = k8s_key [''resourceHistory'', cid, kind, ns, name]"

definition kk_search :: "string \<Rightarrow> string \<Rightarrow> string \<Rightarrow> query_key" where
  "kk_search cid ns q = k8s_key [''search'', cid, ns, q]"

named_theorems k8s_keys \<open>the keys of the Kubernetes hooks\<close>

lemmas [k8s_keys] = k8s_key_def kk_all_def kk_namespaced_def kk_cluster_def kk_nodeDetail_def
  kk_podLogs_def kk_genericResources_def kk_resourceHistory_def kk_search_def

section \<open>Queries\<close>

record K8sQueryOptions =
  ko_watch :: "bool option"
  ko_enabled :: "bool option"

definition active :: "K8sQueryOptions option \<Rightarrow> bool" where
  "active opts = (case opts of None \<Rightarrow> True | Some r \<Rightarrow> ko_enabled r \<noteq> Some False)"

definition watched :: "int \<Rightarrow> K8sQueryOptions option \<Rightarrow> query \<Rightarrow> query" where
  "watched ms opts q =
     (case opts of None \<Rightarrow> q | Some r \<Rightarrow> if ko_watch r = Some True then every ms q else q)"

definition k8s_path :: "string \<Rightarrow> string \<Rightarrow> string" where
  "k8s_path cid rest = ''/v1/environments/'' @ cid @ ''/kubernetes/'' @ rest"

text \<open>The list of the resources of a namespace.\<close>

definition namespace_query :: "string \<Rightarrow> string \<Rightarrow> string \<Rightarrow> string \<Rightarrow> bool \<Rightarrow> query" where
  "namespace_query family path cid ns en =
     get_query (kk_namespaced family cid ns) en (k8s_path cid path @ uri_query [(''namespace'', ns)])"

definition usePods :: "string \<Rightarrow> string \<Rightarrow> K8sQueryOptions option \<Rightarrow> query" where
  "usePods cid ns opts = watched 5000 opts (namespace_query ''pods'' ''pods'' cid ns (active opts \<and> cid \<noteq> []))"

definition usePodLogs :: "string \<Rightarrow> string \<Rightarrow> string \<Rightarrow> int \<Rightarrow> bool \<Rightarrow> query" where
  "usePodLogs cid ns pod tail en = get_query (kk_podLogs cid ns pod tail) (cid \<noteq> [] \<and> pod \<noteq> [] \<and> en)
     (k8s_path cid (''pods/'' @ encodeURIComponent pod @ ''/logs'') @
        uri_query [(''namespace'', ns), (''tail'', show_int tail)])"

definition useDeployments :: "string \<Rightarrow> string \<Rightarrow> K8sQueryOptions option \<Rightarrow> query" where
  "useDeployments cid ns opts =
     watched 5000 opts (namespace_query ''deployments'' ''deployments'' cid ns (active opts \<and> cid \<noteq> []))"

definition useServices :: "string \<Rightarrow> string \<Rightarrow> K8sQueryOptions option \<Rightarrow> query" where
  "useServices cid ns opts =
     watched 5000 opts (namespace_query ''services'' ''services'' cid ns (active opts \<and> cid \<noteq> []))"

definition useIngresses :: "string \<Rightarrow> string \<Rightarrow> query" where
  "useIngresses cid ns = namespace_query ''ingresses'' ''ingresses'' cid ns (cid \<noteq> [])"

definition useConfigMaps :: "string \<Rightarrow> string \<Rightarrow> query" where
  "useConfigMaps cid ns = namespace_query ''configmaps'' ''configmaps'' cid ns (cid \<noteq> [])"

definition useSecrets :: "string \<Rightarrow> string \<Rightarrow> query" where
  "useSecrets cid ns = namespace_query ''secrets'' ''secrets'' cid ns (cid \<noteq> [])"

definition useNodes :: "string \<Rightarrow> K8sQueryOptions option \<Rightarrow> query" where
  "useNodes cid opts =
     watched 5000 opts (get_query (kk_cluster ''nodes'' cid) (active opts \<and> cid \<noteq> []) (k8s_path cid ''nodes''))"

definition useKubernetesNodeDetail :: "string \<Rightarrow> string \<Rightarrow> K8sQueryOptions option \<Rightarrow> query" where
  "useKubernetesNodeDetail cid node opts = watched 5000 opts
     (get_query (kk_nodeDetail cid node) (active opts \<and> cid \<noteq> [] \<and> node \<noteq> [])
       (k8s_path cid (''nodes/'' @ encodeURIComponent node)))"

definition useNamespaces :: "string \<Rightarrow> K8sQueryOptions option \<Rightarrow> query" where
  "useNamespaces cid opts = watched 7000 opts
     (get_query (kk_cluster ''namespaces'' cid) (active opts \<and> cid \<noteq> []) (k8s_path cid ''namespaces''))"

definition usePersistentVolumes :: "string \<Rightarrow> query" where
  "usePersistentVolumes cid =
     get_query (kk_cluster ''persistentVolumes'' cid) (cid \<noteq> []) (k8s_path cid ''persistentvolumes'')"

definition usePersistentVolumeClaims :: "string \<Rightarrow> string \<Rightarrow> query" where
  "usePersistentVolumeClaims cid ns =
     namespace_query ''persistentVolumeClaims'' ''persistentvolumeclaims'' cid ns (cid \<noteq> [])"

definition useJobs :: "string \<Rightarrow> string \<Rightarrow> query" where
  "useJobs cid ns = namespace_query ''jobs'' ''jobs'' cid ns (cid \<noteq> [])"

definition useCronJobs :: "string \<Rightarrow> string \<Rightarrow> query" where
  "useCronJobs cid ns = namespace_query ''cronjobs'' ''cronjobs'' cid ns (cid \<noteq> [])"

definition useHelmReleases :: "string \<Rightarrow> query" where
  "useHelmReleases cid =
     get_query (kk_cluster ''helmReleases'' cid) (cid \<noteq> []) (k8s_path cid ''helm/releases'')"

text \<open>The namespace of a resource in an address, when its kind has namespaces.\<close>

definition scope_query :: "string \<Rightarrow> bool \<Rightarrow> string" where
  "scope_query ns namespaced =
     (if namespaced then uri_query [(''namespace'', ns)] else ''?namespaced=false'')"

definition scope_name :: "string \<Rightarrow> bool \<Rightarrow> string" where
  "scope_name ns namespaced = (if namespaced then ns else ''_cluster'')"

definition useGenericKubernetesResources ::
  "string \<Rightarrow> string \<Rightarrow> string \<Rightarrow> bool \<Rightarrow> K8sQueryOptions option \<Rightarrow> query" where
  "useGenericKubernetesResources cid kind ns namespaced opts = watched 5000 opts
     (get_query (kk_genericResources cid kind (scope_name ns namespaced)) (active opts \<and> cid \<noteq> [] \<and> kind \<noteq> [])
       (k8s_path cid (''resources/'' @ encodeURIComponent kind) @ scope_query ns namespaced))"

definition useKubernetesTopology :: "string \<Rightarrow> query" where
  "useKubernetesTopology cid = get_query (kk_cluster ''topology'' cid) (cid \<noteq> []) (k8s_path cid ''topology'')"

definition resource_path :: "string \<Rightarrow> string \<Rightarrow> string \<Rightarrow> string \<Rightarrow> string" where
  "resource_path cid kind name rest =
     k8s_path cid (''resources/'' @ encodeURIComponent kind @ ''/'' @ encodeURIComponent name @ rest)"

definition useKubernetesResourceHistory :: "string \<Rightarrow> string \<Rightarrow> string \<Rightarrow> string \<Rightarrow> bool \<Rightarrow> query" where
  "useKubernetesResourceHistory cid kind ns name namespaced =
     get_query (kk_resourceHistory cid kind (scope_name ns namespaced) name) (cid \<noteq> [] \<and> kind \<noteq> [] \<and> name \<noteq> [])
       (resource_path cid kind name ''/history'' @ scope_query ns namespaced)"

text \<open>The length of a string in code units of UTF-16, counted on its bytes.\<close>

fun code_units :: "char \<Rightarrow> nat" where
  "code_units c = (let b = of_char c :: nat in if b < 128 then 1 else if b < 192 then 0 else if b < 240 then 1 else 2)"

definition utf16_length :: "string \<Rightarrow> nat" where
  "utf16_length s = sum_list (map code_units s)"

definition search_params :: "string \<Rightarrow> string \<Rightarrow> params" where
  "search_params ns q =
     (let ps = params_set ''q'' q [] in
      if ns \<noteq> [] \<and> ns \<noteq> ''all'' then params_set ''namespace'' ns ps else ps)"

definition useKubernetesSearch :: "string \<Rightarrow> string \<Rightarrow> string \<Rightarrow> query" where
  "useKubernetesSearch cid ns q = get_query (kk_search cid ns q) (cid \<noteq> [] \<and> 2 \<le> utf16_length (trim q))
     (k8s_path cid (''search?'' @ params_text (search_params ns q)))"

definition useKubeAgentBootstrap :: "string \<Rightarrow> string \<Rightarrow> string option \<Rightarrow> bool \<Rightarrow> query" where
  "useKubeAgentBootstrap cid token img en =
     get_query (k8s_key [''agentBootstrap'', cid, token, or_ostr img []]) (cid \<noteq> [] \<and> token \<noteq> [] \<and> en)
       (k8s_path cid ''agent/bootstrap'' @
          uri_query ([(''token'', token)] @ (if truthy_str img then [(''image'', the img)] else [])))"

section \<open>Mutations\<close>

definition usePodExec :: "string \<Rightarrow> string \<Rightarrow> string \<Rightarrow> string list \<Rightarrow> mutation" where
  "usePodExec cid ns pod cmd = send ''POST'' (k8s_path cid (''pods/'' @ encodeURIComponent pod @ ''/exec''))
     (body [(''namespace'', Some (JStr ns)), (''command'', Some (JArr (map JStr cmd)))]) []"

definition useScaleDeployment :: "string \<Rightarrow> string \<Rightarrow> string \<Rightarrow> int \<Rightarrow> mutation" where
  "useScaleDeployment cid ns dep replicas = send ''POST''
     (k8s_path cid (''deployments/'' @ encodeURIComponent dep @ ''/scale''))
     (body [(''namespace'', Some (JStr ns)), (''replicas'', Some (JNum replicas))])
     [kk_namespaced ''deployments'' cid ''default'', kk_all]"

definition useRestartDeployment :: "string \<Rightarrow> string \<Rightarrow> string \<Rightarrow> mutation" where
  "useRestartDeployment cid ns dep = send ''POST''
     (k8s_path cid (''deployments/'' @ encodeURIComponent dep @ ''/restart''))
     (body [(''namespace'', Some (JStr ns))]) [kk_namespaced ''deployments'' cid ''default'']"

datatype node_action = Cordon | Uncordon | Drain

fun node_action_text :: "node_action \<Rightarrow> string" where
  "node_action_text Cordon = ''cordon''"
| "node_action_text Uncordon = ''uncordon''"
| "node_action_text Drain = ''drain''"

definition useKubernetesNodeAction :: "string \<Rightarrow> node_action \<Rightarrow> string \<Rightarrow> mutation" where
  "useKubernetesNodeAction cid action node = send ''POST''
     (k8s_path cid (''nodes/'' @ encodeURIComponent node @ ''/'' @ node_action_text action)) NoBody
     [kk_cluster ''nodes'' cid, kk_all]"

definition useStartKubernetesNodeDebugSession ::
  "string \<Rightarrow> string \<Rightarrow> string option \<Rightarrow> string option \<Rightarrow> mutation" where
  "useStartKubernetesNodeDebugSession cid node ns img = send ''POST''
     (k8s_path cid (''nodes/'' @ encodeURIComponent node @ ''/debug''))
     (body [(''namespace'', ostr ns), (''image'', ostr img)]) []"

definition useApplyManifest :: "string \<Rightarrow> string option \<Rightarrow> string \<Rightarrow> mutation" where
  "useApplyManifest cid ns manifest = send ''POST'' (k8s_path cid ''apply'')
     (body [(''namespace'', ostr ns), (''manifest'', Some (JStr manifest))]) [kk_all]"

definition useRollbackKubernetesResource ::
  "string \<Rightarrow> string \<Rightarrow> string \<Rightarrow> string \<Rightarrow> string \<Rightarrow> bool \<Rightarrow> mutation" where
  "useRollbackKubernetesResource cid kind ns name revisionId namespaced = send ''POST''
     (resource_path cid kind name ''/rollback'' @ scope_query ns namespaced)
     (body [(''revision_id'', Some (JStr revisionId))]) [kk_all]"

definition useInstallHelmRelease :: "string \<Rightarrow> string \<Rightarrow> string \<Rightarrow> string \<Rightarrow> string option \<Rightarrow> mutation" where
  "useInstallHelmRelease cid ns name chart valuesYaml = send ''POST'' (k8s_path cid ''helm/releases'')
     (body [(''namespace'', Some (JStr ns)), (''name'', Some (JStr name)), (''chart'', Some (JStr chart)),
        (''values_yaml'', Some (JStr (or_ostr valuesYaml [])))])
     [kk_cluster ''helmReleases'' cid, kk_all]"

definition useUninstallHelmRelease :: "string \<Rightarrow> string \<Rightarrow> string \<Rightarrow> mutation" where
  "useUninstallHelmRelease cid ns name = send ''DELETE''
     (k8s_path cid (''helm/releases/'' @ encodeURIComponent name) @ uri_query [(''namespace'', ns)]) NoBody
     [kk_cluster ''helmReleases'' cid, kk_all]"

text \<open>The import of a kubeconfig file is a plain request, outside the client.\<close>

definition import_error :: "response \<Rightarrow> thrown" where
  "import_error r =
     (let payload = (case json_parse (rs_body r) of None \<Rightarrow> Some (JObj []) | Some v \<Rightarrow> Some v) in
      Error (jstring (jor (jget ''message'' (jget ''error'' payload))
        (jor (jget ''message'' payload) (Some (JStr ''Failed to import kubeconfig''))))))"

definition import_result :: "response \<Rightarrow> thrown + json option" where
  "import_result r =
     (if \<not> res_ok r then Inl (import_error r)
      else (case json_parse (rs_body r) of None \<Rightarrow> Inl SyntaxError
        | Some v \<Rightarrow> Inr (jnullish (jget ''items'' (Some v)) (Some (JArr [])))))"

definition useImportKubeconfig :: "server \<Rightarrow> string \<Rightarrow> string option \<Rightarrow> json option eff" where
  "useImportKubeconfig srv file name w =
     (let (session, w1) = getStoredSession w;
          form = [(''file'', file)] @
            (if truthy_str (map_option trim name) then [(''name'', trim (the name))] else []) in
      eff_bind (fetch srv \<lparr>rq_url = ''/api/v1/environments/kubernetes/import'', rq_method = ''POST'',
          rq_headers = session_headers session, rq_body = FormBody form, rq_cache = None\<rparr>)
        (\<lambda>r. eff_of (import_result r)) w1)"

section \<open>What a change refreshes\<close>

text \<open>The queries about a cluster, and the mutations that change it.\<close>

inductive k8s_query :: "string \<Rightarrow> query \<Rightarrow> bool" for cid where
  "k8s_query cid (usePods cid ns opts)"
| "k8s_query cid (usePodLogs cid ns pod tail en)"
| "k8s_query cid (useDeployments cid ns opts)"
| "k8s_query cid (useServices cid ns opts)"
| "k8s_query cid (useIngresses cid ns)"
| "k8s_query cid (useConfigMaps cid ns)"
| "k8s_query cid (useSecrets cid ns)"
| "k8s_query cid (useNodes cid opts)"
| "k8s_query cid (useKubernetesNodeDetail cid node opts)"
| "k8s_query cid (useNamespaces cid opts)"
| "k8s_query cid (usePersistentVolumes cid)"
| "k8s_query cid (usePersistentVolumeClaims cid ns)"
| "k8s_query cid (useJobs cid ns)"
| "k8s_query cid (useCronJobs cid ns)"
| "k8s_query cid (useHelmReleases cid)"
| "k8s_query cid (useGenericKubernetesResources cid kind ns namespaced opts)"
| "k8s_query cid (useKubernetesTopology cid)"
| "k8s_query cid (useKubernetesResourceHistory cid kind ns name namespaced)"
| "k8s_query cid (useKubernetesSearch cid ns text)"
| "k8s_query cid (useKubeAgentBootstrap cid token img en)"

inductive cluster_change :: "string \<Rightarrow> mutation \<Rightarrow> bool" for cid where
  "cluster_change cid (useScaleDeployment cid ns dep replicas)"
| "cluster_change cid (useKubernetesNodeAction cid action node)"
| "cluster_change cid (useApplyManifest cid ns' manifest)"
| "cluster_change cid (useRollbackKubernetesResource cid kind ns name revisionId namespaced)"
| "cluster_change cid (useInstallHelmRelease cid ns name chart valuesYaml)"
| "cluster_change cid (useUninstallHelmRelease cid ns name)"

lemma watched_key [simp]: "qu_key (watched ms opts q) = qu_key q"
  by (simp add: watched_def split: option.split)

lemma namespace_query_key [simp]:
  "qu_key (namespace_query family path cid ns en) = kk_namespaced family cid ns"
  by (simp add: namespace_query_def)

lemmas k8s_queries = usePods_def usePodLogs_def useDeployments_def useServices_def useIngresses_def
  useConfigMaps_def useSecrets_def useNodes_def useKubernetesNodeDetail_def useNamespaces_def
  usePersistentVolumes_def usePersistentVolumeClaims_def useJobs_def useCronJobs_def useHelmReleases_def
  useGenericKubernetesResources_def useKubernetesTopology_def useKubernetesResourceHistory_def
  useKubernetesSearch_def useKubeAgentBootstrap_def

lemma k8s_query_key: "k8s_query cid q \<Longrightarrow> \<exists>rest. qu_key q = JStr ''kubernetes'' # rest"
  by (induction rule: k8s_query.induct) (simp_all add: k8s_queries k8s_keys)

lemma cluster_change_keys: "cluster_change cid m \<Longrightarrow> kk_all \<in> set (mu_keys m)"
  by (induction rule: cluster_change.induct)
    (simp_all add: useScaleDeployment_def useKubernetesNodeAction_def useApplyManifest_def
      useRollbackKubernetesResource_def useInstallHelmRelease_def useUninstallHelmRelease_def)

lemma all_refreshed:
  assumes "prefix_matching matches" "cluster_change cid m" "k8s_query cid' q"
  shows "invalidated matches m (Inr v) (qu_key q)"
proof -
  obtain rest where "qu_key q = JStr ''kubernetes'' # rest" using k8s_query_key [OF assms(3)] by blast
  then have "take (length kk_all) (qu_key q) = kk_all" by (simp add: k8s_keys)
  then show ?thesis
    using cluster_change_keys [OF assms(2)] by (auto simp: invalidated_iff [OF assms(1)])
qed

text \<open>
  A successful change of a cluster refreshes every query of every cluster, except a restart:
  it refreshes the list of deployments of the namespace \<open>default\<close>, whatever the namespace of the
  deployment it restarted.
\<close>

theorem change_refreshes:
  assumes "prefix_matching matches" "cluster_change cid m" "k8s_query cid' q"
  shows "invalidated matches m (Inr v) (qu_key q) \<and>
    (invalidated matches (useRestartDeployment cid ns dep) (Inr v) (qu_key (useDeployments cid shown opts))
       \<longleftrightarrow> shown = ''default'')"
proof -
  have "invalidated matches (useRestartDeployment cid ns dep) (Inr v) (qu_key (useDeployments cid shown opts))
      \<longleftrightarrow> shown = ''default''"
    unfolding invalidated_iff [OF assms(1)] by (auto simp: useRestartDeployment_def useDeployments_def k8s_keys)
  then show ?thesis using all_refreshed [OF assms] by blast
qed

theorem change_refreshes_witness:
  "invalidated by_prefix (useScaleDeployment ''c1'' ''shop'' ''web'' 3) (Inr JNull)
     (qu_key (usePods ''c1'' ''shop'' None)) \<and>
   \<not> invalidated by_prefix (useRestartDeployment ''c1'' ''shop'' ''web'') (Inr JNull)
     (qu_key (useDeployments ''c1'' ''shop'' None))"
proof -
  have m: "cluster_change ''c1'' (useScaleDeployment ''c1'' ''shop'' ''web'' 3)" by (rule cluster_change.intros)
  have q: "k8s_query ''c1'' (usePods ''c1'' ''shop'' None)" by (rule k8s_query.intros)
  have "''shop'' \<noteq> ''default''" by simp
  then show ?thesis
    using change_refreshes [OF by_prefix_matching m q, of JNull "''shop''" "''web''" "''shop''" None] by blast
qed

end
