(* ===== verification/LiveStream.thy ===== *)
theory LiveStream
  imports KubernetesApi DockerApi Machine
begin

text \<open>
  The hooks that follow a web socket: \<open>useLiveContainerLogs\<close> and \<open>useLiveContainerStats\<close> of
  \<open>features/docker/api/useDockerHooks.ts\<close> and \<open>useKubernetesListStream\<close> of
  \<open>features/kubernetes/api/useKubernetesHooks.ts\<close>. What a hook shows is a record and its callbacks
  are updates of it; the life of its sockets is one step relation for the three.
\<close>

section \<open>The callbacks\<close>

record 'v live_hook =
  on_disable :: "'v \<Rightarrow> 'v"
  on_start :: "'v \<Rightarrow> 'v"
  on_open :: "'v \<Rightarrow> 'v"
  on_text :: "string \<Rightarrow> 'v \<Rightarrow> 'v"
  on_error :: "'v \<Rightarrow> 'v"
  on_close :: "'v \<Rightarrow> 'v"

datatype live_status = Idle | Connecting | Connected | Closed | Failed

definition closed_status :: "live_status \<Rightarrow> live_status" where
  "closed_status current = (if current = Failed then Failed else Closed)"

text \<open>
  The type of a message: reading a member of \<open>null\<close> throws inside the \<open>try\<close>, so it is handled as
  text that does not parse.
\<close>

definition live_payload :: "string \<Rightarrow> json option" where
  "live_payload data =
     (case json_parse data of None \<Rightarrow> None | Some p \<Rightarrow> if p = JNull then None else Some p)"

definition has_type :: "string \<Rightarrow> json \<Rightarrow> bool" where
  "has_type t p \<longleftrightarrow> jget ''type'' (Some p) = Some (JStr t)"

subsection \<open>useLiveContainerLogs\<close>

record logs_view =
  lv_logs :: json
  lv_status :: live_status

definition logs_initial :: logs_view where
  "logs_initial = \<lparr>lv_logs = JStr [], lv_status = Idle\<rparr>"

definition logs_text :: "string \<Rightarrow> logs_view \<Rightarrow> logs_view" where
  "logs_text data v =
     (case live_payload data of
        None \<Rightarrow> v\<lparr>lv_logs := JStr data\<rparr>
      | Some p \<Rightarrow>
          if has_type ''snapshot'' p
          then v\<lparr>lv_logs := nullish (jnullish (jget ''logs'' (Some p)) None) (JStr []), lv_status := Connected\<rparr>
          else if has_type ''error'' p then v\<lparr>lv_status := Failed\<rparr> else v)"

definition useLiveContainerLogs :: "logs_view live_hook" where
  "useLiveContainerLogs = \<lparr>
     on_disable = (\<lambda>v. v\<lparr>lv_status := Idle\<rparr>),
     on_start = (\<lambda>v. v\<lparr>lv_logs := JStr [], lv_status := Connecting\<rparr>),
     on_open = (\<lambda>v. v\<lparr>lv_status := Connected\<rparr>),
     on_text = logs_text,
     on_error = (\<lambda>v. v\<lparr>lv_status := Failed\<rparr>),
     on_close = (\<lambda>v. v\<lparr>lv_status := closed_status (lv_status v)\<rparr>)\<rparr>"

definition logs_target :: "string \<Rightarrow> string \<Rightarrow> int \<Rightarrow> bool \<Rightarrow> string option" where
  "logs_target eid cid tail en =
     (if eid = [] \<or> cid = [] \<or> \<not> en then None
      else Some (docker_path eid (''/containers/'' @ cid @ ''/logs/ws?tail='' @ show_int tail)))"

subsection \<open>useLiveContainerStats\<close>

record stats_view =
  sv_stats :: "json option"
  sv_status :: live_status

definition stats_initial :: stats_view where
  "stats_initial = \<lparr>sv_stats = None, sv_status = Idle\<rparr>"

definition stats_text :: "string \<Rightarrow> stats_view \<Rightarrow> stats_view" where
  "stats_text data v =
     (case live_payload data of
        None \<Rightarrow> v\<lparr>sv_status := Failed\<rparr>
      | Some p \<Rightarrow>
          if has_type ''snapshot'' p \<and> truthy (jget ''data'' (Some p))
          then v\<lparr>sv_stats := jget ''data'' (Some p), sv_status := Connected\<rparr>
          else if has_type ''error'' p then v\<lparr>sv_status := Failed\<rparr> else v)"

definition useLiveContainerStats :: "stats_view live_hook" where
  "useLiveContainerStats = \<lparr>
     on_disable = (\<lambda>v. v\<lparr>sv_status := Idle\<rparr>),
     on_start = (\<lambda>v. v\<lparr>sv_status := Connecting\<rparr>),
     on_open = (\<lambda>v. v\<lparr>sv_status := Connected\<rparr>),
     on_text = stats_text,
     on_error = (\<lambda>v. v\<lparr>sv_status := Failed\<rparr>),
     on_close = (\<lambda>v. v\<lparr>sv_status := closed_status (sv_status v)\<rparr>)\<rparr>"

definition stats_target :: "string \<Rightarrow> string \<Rightarrow> bool \<Rightarrow> string option" where
  "stats_target eid cid en =
     (if eid = [] \<or> cid = [] \<or> \<not> en then None
      else Some (docker_path eid (''/containers/'' @ cid @ ''/stats/ws'')))"

subsection \<open>useKubernetesListStream\<close>

record list_view =
  kv_data :: "json list option"
  kv_isConnected :: bool
  kv_error :: "string option"

definition list_initial :: list_view where
  "list_initial = \<lparr>kv_data = None, kv_isConnected = False, kv_error = None\<rparr>"

definition list_text :: "string \<Rightarrow> list_view \<Rightarrow> list_view" where
  "list_text data v =
     (case live_payload data of
        None \<Rightarrow> v\<lparr>kv_error := Some ''Invalid live stream payload.''\<rparr>
      | Some p \<Rightarrow>
          if has_type ''snapshot'' p
          then v\<lparr>kv_data := Some (case jget ''items'' (Some p) of Some (JArr vs) \<Rightarrow> vs | _ \<Rightarrow> [])\<rparr>
          else if has_type ''error'' p
          then v\<lparr>kv_error := Some (jstring (jor (jget ''message'' (Some p)) (Some (JStr ''Live stream failed.''))))\<rparr>
          else v)"

definition useKubernetesListStream :: "list_view live_hook" where
  "useKubernetesListStream = \<lparr>
     on_disable = (\<lambda>v. list_initial),
     on_start = (\<lambda>v. v),
     on_open = (\<lambda>v. v\<lparr>kv_isConnected := True, kv_error := None\<rparr>),
     on_text = list_text,
     on_error = (\<lambda>v. v\<lparr>kv_isConnected := False, kv_error := Some ''Unable to connect live stream.''\<rparr>),
     on_close = (\<lambda>v. v\<lparr>kv_isConnected := False\<rparr>)\<rparr>"

definition list_target :: "string \<Rightarrow> bool \<Rightarrow> string option" where
  "list_target endpoint en = (if en then Some endpoint else None)"

definition useLivePods :: "string \<Rightarrow> string \<Rightarrow> bool \<Rightarrow> string option" where
  "useLivePods cid ns en = list_target (k8s_path cid ''pods/ws'' @ uri_query [(''namespace'', ns)]) (en \<and> cid \<noteq> [])"

definition useLiveDeployments :: "string \<Rightarrow> string \<Rightarrow> bool \<Rightarrow> string option" where
  "useLiveDeployments cid ns en =
     list_target (k8s_path cid ''deployments/ws'' @ uri_query [(''namespace'', ns)]) (en \<and> cid \<noteq> [])"

definition useLiveServices :: "string \<Rightarrow> string \<Rightarrow> bool \<Rightarrow> string option" where
  "useLiveServices cid ns en =
     list_target (k8s_path cid ''services/ws'' @ uri_query [(''namespace'', ns)]) (en \<and> cid \<noteq> [])"

definition useLiveNodes :: "string \<Rightarrow> bool \<Rightarrow> string option" where
  "useLiveNodes cid en = list_target (k8s_path cid ''nodes/ws'') (en \<and> cid \<noteq> [])"

definition useLiveGenericKubernetesResources ::
  "string \<Rightarrow> string \<Rightarrow> string \<Rightarrow> bool \<Rightarrow> bool \<Rightarrow> string option" where
  "useLiveGenericKubernetesResources cid kind ns namespaced en =
     list_target (k8s_path cid (''resources/'' @ encodeURIComponent kind @ ''/ws'') @ scope_query ns namespaced)
       (en \<and> cid \<noteq> [] \<and> kind \<noteq> [])"

section \<open>The life of the sockets\<close>

text \<open>
  A run of the effect, with the endpoint to follow or none, closes the socket of the run before.
  As the platform documents, a socket that was asked to close delivers no more messages, and its
  close event, after an error event when the connection did not stand yet, comes later.
\<close>

record 'v live =
  shown :: 'v
  socket :: "(string \<times> bool) option"
  closing :: "string list"

definition live_start :: "'v \<Rightarrow> 'v live" where
  "live_start v = \<lparr>shown = v, socket = None, closing = []\<rparr>"

definition cleanup :: "'v live \<Rightarrow> 'v live" where
  "cleanup s = (case socket s of None \<Rightarrow> s | Some (u, _) \<Rightarrow> s\<lparr>socket := None, closing := u # closing s\<rparr>)"

definition run_effect :: "'v live_hook \<Rightarrow> string option \<Rightarrow> 'v live \<Rightarrow> 'v live" where
  "run_effect h target s =
     (case target of
        None \<Rightarrow> (cleanup s)\<lparr>shown := on_disable h (shown s)\<rparr>
      | Some u \<Rightarrow> (cleanup s)\<lparr>shown := on_start h (shown s), socket := Some (u, False)\<rparr>)"

inductive socket_step :: "'v live_hook \<Rightarrow> 'v live \<Rightarrow> 'v live \<Rightarrow> bool" for h where
  opens: "socket s = Some (u, False) \<Longrightarrow>
    socket_step h s (s\<lparr>shown := on_open h (shown s), socket := Some (u, True)\<rparr>)"
| errors: "socket s = Some (u, b) \<Longrightarrow> socket_step h s (s\<lparr>shown := on_error h (shown s)\<rparr>)"
| closes: "socket s = Some (u, b) \<Longrightarrow> socket_step h s (s\<lparr>shown := on_close h (shown s), socket := None\<rparr>)"
| old_errors: "u \<in> set (closing s) \<Longrightarrow> socket_step h s (s\<lparr>shown := on_error h (shown s)\<rparr>)"
| old_closes: "u \<in> set (closing s) \<Longrightarrow>
    socket_step h s (s\<lparr>shown := on_close h (shown s), closing := remove1 u (closing s)\<rparr>)"

inductive live_step :: "'v live_hook \<Rightarrow> 'v live \<Rightarrow> 'v live \<Rightarrow> bool" for h where
  effect_runs: "live_step h s (run_effect h target s)"
| socket_event: "socket_step h s t \<Longrightarrow> live_step h s t"
| receives: "socket s = Some (u, True) \<Longrightarrow> live_step h s (s\<lparr>shown := on_text h data (shown s)\<rparr>)"

inductive_cases socket_stepE: "socket_step h s t"
inductive_cases live_stepE: "live_step h s t"

lemma cleanup_shown [simp]: "shown (cleanup s) = shown s"
  by (simp add: cleanup_def split: option.split prod.split)

lemma run_effect_simps [simp]:
  "shown (run_effect h (Some u) s) = on_start h (shown s)"
  "socket (run_effect h (Some u) s) = Some (u, False)"
  "shown (run_effect h None s) = on_disable h (shown s)"
  by (simp_all add: run_effect_def)

definition opened :: "'v live_hook \<Rightarrow> 'v \<Rightarrow> string \<Rightarrow> 'v live" where
  "opened h v u = \<lparr>shown = on_open h (on_start h v), socket = Some (u, True), closing = []\<rparr>"

lemma opened_reached: "reached (live_step h) (live_start v) (opened h v u)"
proof -
  have "reached (live_step h) (live_start v) (run_effect h (Some u) (live_start v))"
    by (rule reached.further [OF reached.start]) (rule effect_runs)
  then show ?thesis
    by (rule reached.further, intro socket_event)
      (simp add: socket_step.simps run_effect_def cleanup_def live_start_def opened_def)
qed

section \<open>A connection that is shown exists\<close>

text \<open>
  What an indicator of the connection needs of the callbacks: it is off at the start, when the hook
  is disabled and after an error or a close.
\<close>

locale indicator =
  fixes h :: "'v live_hook" and init :: 'v and lit :: "'v \<Rightarrow> bool"
  assumes init_off: "\<not> lit init"
    and disable_off: "\<not> lit (on_disable h v)"
    and error_off: "\<not> lit (on_error h v)"
    and close_off: "\<not> lit (on_close h v)"
begin

definition backed :: "'v live \<Rightarrow> bool" where
  "backed s \<longleftrightarrow> (lit (shown s) \<longrightarrow> socket s \<noteq> None)"

lemma event_backed: "socket_step h s t \<Longrightarrow> backed s \<Longrightarrow> backed t"
  by (erule socket_stepE) (auto simp: backed_def error_off close_off)

lemma step_backed: "live_step h s t \<Longrightarrow> backed s \<Longrightarrow> backed t"
proof (erule live_stepE)
  fix target
  assume "t = run_effect h target s"
  then show "backed t" by (cases target) (simp_all add: backed_def disable_off)
qed (auto simp: backed_def event_backed [unfolded backed_def])

lemma reached_backed:
  assumes "reached (live_step h) (live_start init) s" "lit (shown s)"
  shows "socket s \<noteq> None"
proof -
  have "machine (live_start init) (live_step h) backed"
    by unfold_locales (simp add: backed_def live_start_def init_off, rule step_backed)
  from machine.reached_inv [OF this assms(1)] show ?thesis using assms(2) by (simp add: backed_def)
qed

end

interpretation logs: indicator useLiveContainerLogs logs_initial "\<lambda>v. lv_status v = Connected"
  by unfold_locales (simp_all add: useLiveContainerLogs_def logs_initial_def closed_status_def)

interpretation stats: indicator useLiveContainerStats stats_initial "\<lambda>v. sv_status v = Connected"
  by unfold_locales (simp_all add: useLiveContainerStats_def stats_initial_def closed_status_def)

interpretation resources: indicator useKubernetesListStream list_initial kv_isConnected
  by unfold_locales (simp_all add: useKubernetesListStream_def list_initial_def)

text \<open>
  Whenever a live view says it is connected, the hook holds a socket: after the hook is
  disabled, after an error and after the server closed the connection no view stays connected.
\<close>

theorem connected_has_socket:
  "(reached (live_step useLiveContainerLogs) (live_start logs_initial) s \<longrightarrow>
      lv_status (shown s) = Connected \<longrightarrow> socket s \<noteq> None) \<and>
   (reached (live_step useLiveContainerStats) (live_start stats_initial) t \<longrightarrow>
      sv_status (shown t) = Connected \<longrightarrow> socket t \<noteq> None) \<and>
   (reached (live_step useKubernetesListStream) (live_start list_initial) r \<longrightarrow>
      kv_isConnected (shown r) \<longrightarrow> socket r \<noteq> None)"
  using logs.reached_backed stats.reached_backed resources.reached_backed by blast

theorem connected_has_socket_witness:
  "kv_isConnected (shown (opened useKubernetesListStream list_initial ''pods'')) \<and>
   socket (opened useKubernetesListStream list_initial ''pods'') \<noteq> None"
proof -
  have "kv_isConnected (shown (opened useKubernetesListStream list_initial ''pods''))"
    by (simp add: opened_def useKubernetesListStream_def)
  moreover note connected_has_socket [of undefined undefined "opened useKubernetesListStream list_initial ''pods''"]
    opened_reached [of useKubernetesListStream list_initial "''pods''"]
  ultimately show ?thesis by blast
qed

section \<open>Changing what is followed\<close>

text \<open>The steps in which no message arrives.\<close>

definition silent :: "'v live_hook \<Rightarrow> 'v live \<Rightarrow> 'v live \<Rightarrow> bool" where
  "silent h = reached (socket_step h)"

lemma silent_keeps:
  assumes "silent h s t"
    and "\<And>v. part (on_open h v) = part v" "\<And>v. part (on_error h v) = part v" "\<And>v. part (on_close h v) = part v"
  shows "part (shown t) = part (shown s)"
  using assms(1) unfolding silent_def
  by (induction rule: reached.induct) (auto elim!: socket_stepE simp: assms(2-4))

text \<open>
  When the container or the list to follow changes, the logs are emptied until the new socket
  sends its first message. The statistics and the lists are not: until then the page shows, under
  the new name, the statistics of the container and the resources of the namespace it followed
  before.
\<close>

theorem switch_keeps_data:
  assumes "silent useLiveContainerLogs (run_effect useLiveContainerLogs (Some u) s) s'"
    and "silent useLiveContainerStats (run_effect useLiveContainerStats (Some v) t) t'"
    and "silent useKubernetesListStream (run_effect useKubernetesListStream (Some x) r) r'"
  shows "lv_logs (shown s') = JStr [] \<and> sv_stats (shown t') = sv_stats (shown t) \<and>
    kv_data (shown r') = kv_data (shown r)"
proof -
  have "lv_logs (shown s') = lv_logs (shown (run_effect useLiveContainerLogs (Some u) s))"
    by (rule silent_keeps [OF assms(1)]) (simp_all add: useLiveContainerLogs_def)
  moreover have "sv_stats (shown t') = sv_stats (shown (run_effect useLiveContainerStats (Some v) t))"
    by (rule silent_keeps [OF assms(2)]) (simp_all add: useLiveContainerStats_def)
  moreover have "kv_data (shown r') = kv_data (shown (run_effect useKubernetesListStream (Some x) r))"
    by (rule silent_keeps [OF assms(3)]) (simp_all add: useKubernetesListStream_def)
  ultimately show ?thesis
    by (simp add: useLiveContainerLogs_def useLiveContainerStats_def useKubernetesListStream_def)
qed

text \<open>A page that follows a first list, then a second one.\<close>

definition first_list :: "list_view live" where
  "first_list = \<lparr>shown = \<lparr>kv_data = Some [JStr ''pod-a''], kv_isConnected = True, kv_error = None\<rparr>,
     socket = Some (''ns-a'', True), closing = []\<rparr>"

definition second_list :: "list_view live" where
  "second_list = \<lparr>shown = \<lparr>kv_data = Some [JStr ''pod-a''], kv_isConnected = True, kv_error = None\<rparr>,
     socket = Some (''ns-b'', False), closing = [''ns-a'']\<rparr>"

lemma switched_list: "run_effect useKubernetesListStream (Some ''ns-b'') first_list = second_list"
  by (simp add: run_effect_def cleanup_def useKubernetesListStream_def first_list_def second_list_def)

lemma silent_refl: "silent h s s"
  unfolding silent_def by (rule reached.start)

theorem switch_keeps_data_witness:
  "kv_data (shown (run_effect useKubernetesListStream (Some ''ns-b'') first_list)) = Some [JStr ''pod-a'']"
  using switch_keeps_data [OF silent_refl silent_refl silent_refl [of _ "run_effect useKubernetesListStream (Some ''ns-b'') first_list"]]
  by (simp add: first_list_def)

definition after_late_close :: "'v live_hook \<Rightarrow> 'v \<Rightarrow> string \<Rightarrow> 'v live" where
  "after_late_close h v u =
     \<lparr>shown = on_close h (on_open h (on_start h (on_open h (on_start h v)))), socket = Some (u, True), closing = []\<rparr>"

lemma late_close_reached: "reached (live_step h) (live_start v) (after_late_close h v u)"
proof -
  let ?r = "reached (live_step h) (live_start v)"
  note b = opened_reached [of h v]
  have c: "?r \<lparr>shown = on_start h (on_open h (on_start h v)), socket = Some (u, False), closing = [w]\<rparr>" for w
    by (rule reached.further [OF b [of w]])
      (simp add: live_step.simps run_effect_def cleanup_def opened_def exI [of _ "Some u"])
  have d: "?r \<lparr>shown = on_open h (on_start h (on_open h (on_start h v))), socket = Some (u, True), closing = [w]\<rparr>" for w
    by (rule reached.further [OF c [of w]], rule socket_event) (simp add: socket_step.simps)
  show ?thesis
    unfolding after_late_close_def
    by (rule reached.further [OF d [of "[]"]], rule socket_event) (simp add: socket_step.simps)
qed

text \<open>
  The close event of the socket a hook gave up turns off the indicator of the socket that
  replaced it: each view reaches a state in which its socket is open, no other socket is left, and
  the view says it is closed or not connected.
\<close>

theorem late_close_disconnects:
  "(\<exists>s. reached (live_step useLiveContainerLogs) (live_start logs_initial) s \<and>
      socket s = Some (u, True) \<and> closing s = [] \<and> lv_status (shown s) = Closed) \<and>
   (\<exists>s. reached (live_step useLiveContainerStats) (live_start stats_initial) s \<and>
      socket s = Some (u, True) \<and> closing s = [] \<and> sv_status (shown s) = Closed) \<and>
   (\<exists>s. reached (live_step useKubernetesListStream) (live_start list_initial) s \<and>
      socket s = Some (u, True) \<and> closing s = [] \<and> \<not> kv_isConnected (shown s))"
proof (intro conjI)
  show "\<exists>s. reached (live_step useLiveContainerLogs) (live_start logs_initial) s \<and>
      socket s = Some (u, True) \<and> closing s = [] \<and> lv_status (shown s) = Closed"
    by (rule exI [of _ "after_late_close useLiveContainerLogs logs_initial u"], rule conjI [OF late_close_reached])
      (simp add: after_late_close_def useLiveContainerLogs_def closed_status_def)
  show "\<exists>s. reached (live_step useLiveContainerStats) (live_start stats_initial) s \<and>
      socket s = Some (u, True) \<and> closing s = [] \<and> sv_status (shown s) = Closed"
    by (rule exI [of _ "after_late_close useLiveContainerStats stats_initial u"], rule conjI [OF late_close_reached])
      (simp add: after_late_close_def useLiveContainerStats_def closed_status_def)
  show "\<exists>s. reached (live_step useKubernetesListStream) (live_start list_initial) s \<and>
      socket s = Some (u, True) \<and> closing s = [] \<and> \<not> kv_isConnected (shown s)"
    by (rule exI [of _ "after_late_close useKubernetesListStream list_initial u"], rule conjI [OF late_close_reached])
      (simp add: after_late_close_def useKubernetesListStream_def)
qed

end
