(* ===== verification/AgentSocket.thy ===== *)
theory AgentSocket
  imports HttpClient Machine
begin

text \<open>
  \<open>features/servers/hooks/useAgentSocket.ts\<close>: the hook that follows the commands of an agent
  over a web socket. Its state is a record, each message and each callback one update of it, and
  the life of its sockets and timers a step relation.

  Components of a message the code casts without a check stay dynamic; an identifier used as a
  key is coerced to a string, as the engine does.
\<close>

section \<open>State\<close>

record LogLine =
  ll_ts :: "json option"
  ll_chunk :: "json option"
  ll_seq :: "json option"

datatype CommandStatus = PENDING | RUNNING | SUCCESS | FAILED | CANCELLED | TIMEOUT

record CommandState =
  cs_id :: string
  cs_cmd :: string
  cs_status :: CommandStatus
  cs_logs :: "LogLine list"
  cs_exitCode :: "json option"
  cs_startedAt :: "int option"
  cs_doneAt :: "int option"

datatype AgentConnectionState = connecting | online | offline | reconnecting

record agent_state =
  wsConnected :: bool
  agentStatus :: AgentConnectionState
  metrics :: "json option"
  commands :: "string \<rightharpoonup> CommandState"
  commandIds :: "string list"

definition initial_state :: agent_state where
  "initial_state = \<lparr>wsConnected = False, agentStatus = connecting, metrics = None,
     commands = Map.empty, commandIds = []\<rparr>"

section \<open>Messages\<close>

definition fresh_command :: "string \<Rightarrow> CommandState" where
  "fresh_command cid = \<lparr>cs_id = cid, cs_cmd = [], cs_status = RUNNING, cs_logs = [],
     cs_exitCode = None, cs_startedAt = None, cs_doneAt = None\<rparr>"

definition updateCommand ::
  "string \<Rightarrow> (CommandState \<Rightarrow> CommandState) \<Rightarrow> agent_state \<Rightarrow> agent_state" where
  "updateCommand cid updater s =
     s\<lparr>commands := (commands s)(cid \<mapsto> updater (nullish (commands s cid) (fresh_command cid)))\<rparr>"

definition payload_of :: "json option \<Rightarrow> json option" where
  "payload_of msg = jnullish (jget ''payload'' msg) (Some (JObj []))"

definition command_of :: "json option \<Rightarrow> string" where
  "command_of msg = jstring (jget ''command_id'' (payload_of msg))"

text \<open>A timestamp of the message, or the reading of the clock when it has none.\<close>

definition log_line :: "int \<Rightarrow> json option \<Rightarrow> LogLine" where
  "log_line now msg =
     \<lparr>ll_ts = jnullish (jget ''ts'' msg) (Some (JNum now)),
      ll_chunk = jget ''chunk'' (payload_of msg),
      ll_seq = jget ''seq'' (payload_of msg)\<rparr>"

definition output_update :: "int \<Rightarrow> json option \<Rightarrow> CommandState \<Rightarrow> CommandState" where
  "output_update now msg prev = prev\<lparr>cs_status := RUNNING, cs_logs := cs_logs prev @ [log_line now msg]\<rparr>"

definition done_update :: "int \<Rightarrow> json option \<Rightarrow> CommandState \<Rightarrow> CommandState" where
  "done_update now msg prev =
     prev\<lparr>cs_status := SUCCESS, cs_exitCode := jget ''exit_code'' (payload_of msg),
          cs_doneAt := Some now\<rparr>"

definition error_update :: "int \<Rightarrow> json option \<Rightarrow> CommandState \<Rightarrow> CommandState" where
  "error_update now msg prev =
     prev\<lparr>cs_status := FAILED,
          cs_exitCode := jnullish (jget ''exit_code'' (payload_of msg)) (Some (JNum 1)),
          cs_doneAt := Some now\<rparr>"

definition handleMessage :: "int \<Rightarrow> json option \<Rightarrow> agent_state \<Rightarrow> agent_state" where
  "handleMessage now msg s =
     (let kind = jget ''type'' msg in
      if kind = Some (JStr ''AGENT_STATUS'') then
        s\<lparr>agentStatus := (if truthy (jget ''online'' (payload_of msg)) then online else offline)\<rparr>
      else if kind = Some (JStr ''AGENT_ONLINE'') then s\<lparr>agentStatus := online\<rparr>
      else if kind = Some (JStr ''AGENT_OFFLINE'') then s\<lparr>agentStatus := offline\<rparr>
      else if kind = Some (JStr ''METRICS_UPDATE'') then s\<lparr>metrics := payload_of msg\<rparr>
      else if kind = Some (JStr ''COMMAND_OUTPUT'') then
        updateCommand (command_of msg) (output_update now msg) s
      else if kind = Some (JStr ''COMMAND_DONE'') then
        updateCommand (command_of msg) (done_update now msg) s
      else if kind = Some (JStr ''COMMAND_ERROR'') then
        updateCommand (command_of msg) (error_update now msg) s
      else s)"

text \<open>A frame that is no JSON, or is null, is logged and dropped.\<close>

definition onmessage :: "int \<Rightarrow> string \<Rightarrow> agent_state \<Rightarrow> agent_state" where
  "onmessage now frame s =
     (case json_parse frame of None \<Rightarrow> s | Some msg \<Rightarrow> if msg = JNull then s else handleMessage now (Some msg) s)"

section \<open>Sending a command\<close>

record agent_options =
  ao_serverId :: string
  ao_baseUrl :: string
  ao_authToken :: string

definition command_request :: "agent_options \<Rightarrow> string \<Rightarrow> int \<Rightarrow> request" where
  "command_request opts cmd timeoutSec =
     \<lparr>rq_url = ao_baseUrl opts @ ''/api/v1/servers/'' @ ao_serverId opts @ ''/commands'',
      rq_method = ''POST'',
      rq_headers = (''Content-Type'', ''application/json'') #
        (if ao_authToken opts \<noteq> [] then [(''Authorization'', ''Bearer '' @ ao_authToken opts)] else []),
      rq_body = TextBody (json_text (JObj [(''cmd'', JStr cmd), (''timeout_sec'', JNum timeoutSec)])),
      rq_cache = None\<rparr>"

definition dispatch_error :: "response \<Rightarrow> thrown" where
  "dispatch_error res =
     (let err = (case json_parse (rs_body res) of
                   None \<Rightarrow> JObj [(''error'', JStr ''unknown error'')] | Some v \<Rightarrow> v) in
      if err = JNull then TypeError
      else Error (jstring (jnullish (jget ''error'' (Some err)) (Some (JStr ''Failed to dispatch command'')))))"

definition register_command :: "string \<Rightarrow> string \<Rightarrow> int \<Rightarrow> agent_state \<Rightarrow> agent_state" where
  "register_command cid cmd now s =
     s\<lparr>commands := (commands s)(cid \<mapsto> \<lparr>cs_id = cid, cs_cmd = cmd, cs_status = PENDING, cs_logs = [],
          cs_exitCode = None, cs_startedAt = Some now, cs_doneAt = None\<rparr>),
       commandIds := cid # commandIds s\<rparr>"

text \<open>
  \<open>sendCommand\<close>: the request, and what its answer does to the state. Messages of the socket may
  be handled between the two.
\<close>

definition dispatched :: "response \<Rightarrow> thrown + string" where
  "dispatched res =
     (if \<not> res_ok res then Inl (dispatch_error res)
      else (case json_parse (rs_body res) of
              None \<Rightarrow> Inl SyntaxError
            | Some data \<Rightarrow> if data = JNull then Inl TypeError else Inr (jstring (jget ''id'' (Some data)))))"

definition sendCommand :: "server \<Rightarrow> agent_options \<Rightarrow> string \<Rightarrow> int \<Rightarrow> string eff" where
  "sendCommand srv opts cmd timeoutSec =
     eff_bind (fetch srv (command_request opts cmd timeoutSec)) (\<lambda>res w. (dispatched res, w))"

definition command_answered ::
  "thrown + string \<Rightarrow> string \<Rightarrow> int \<Rightarrow> agent_state \<Rightarrow> agent_state" where
  "command_answered r cmd now s = (case r of Inl e \<Rightarrow> s | Inr cid \<Rightarrow> register_command cid cmd now s)"

definition clearCommands :: "agent_state \<Rightarrow> agent_state" where
  "clearCommands s = s\<lparr>commands := Map.empty, commandIds := []\<rparr>"

section \<open>The socket's address\<close>

definition ws_scheme :: "string \<Rightarrow> string" where
  "ws_scheme u = (if starts_with ''http'' u then ''ws'' @ drop 4 u else u)"

definition wss_scheme :: "string \<Rightarrow> string" where
  "wss_scheme u = (if starts_with ''https'' u then ''wss'' @ drop 5 u else u)"

definition socket_url :: "string \<Rightarrow> string \<Rightarrow> string \<Rightarrow> string \<Rightarrow> string" where
  "socket_url baseUrl page_protocol page_host serverId =
     or_str (wss_scheme (ws_scheme baseUrl))
       ((if page_protocol = ''https:'' then ''wss'' else ''ws'') @ ''://'' @ page_host)
     @ ''/ws/client/'' @ serverId"

section \<open>Sockets and timers\<close>

text \<open>
  The effect runs when the hook is mounted and whenever its server changes. A run opens a socket
  for its server (\<open>connect\<close>); its cleanup asks the current socket to close. Every close event
  starts a timer that connects again.
\<close>

record hook_state = agent_state +
  sockets :: "string list"
  timers :: "string list"
  current :: "string option"
  runs :: nat
  mounted :: bool

definition hook_start :: hook_state where
  "hook_start = agent_state.extend initial_state
     \<lparr>sockets = [], timers = [], current = None, runs = 0, mounted = True\<rparr>"

definition connect :: "string \<Rightarrow> hook_state \<Rightarrow> hook_state" where
  "connect sid h = h\<lparr>sockets := sid # sockets h, current := Some sid, agentStatus := connecting\<rparr>"

definition onclose :: "string \<Rightarrow> hook_state \<Rightarrow> hook_state" where
  "onclose sid h =
     h\<lparr>sockets := remove1 sid (sockets h), timers := sid # timers h,
       wsConnected := False, agentStatus := reconnecting\<rparr>"

definition lift_state :: "(agent_state \<Rightarrow> agent_state) \<Rightarrow> hook_state \<Rightarrow> hook_state" where
  "lift_state f h = agent_state.extend (f (agent_state.truncate h))
     \<lparr>sockets = sockets h, timers = timers h, current = current h, runs = runs h, mounted = mounted h\<rparr>"

inductive hook_step :: "hook_state \<Rightarrow> hook_state \<Rightarrow> bool" where
  effect_runs: "mounted h \<Longrightarrow> sid \<noteq> [] \<Longrightarrow> hook_step h ((connect sid h)\<lparr>runs := Suc (runs h)\<rparr>)"
| unmounts: "mounted h \<Longrightarrow> hook_step h (h\<lparr>mounted := False\<rparr>)"
| opens: "sid \<in> set (sockets h) \<Longrightarrow> hook_step h (h\<lparr>wsConnected := True\<rparr>)"
| closes: "sid \<in> set (sockets h) \<Longrightarrow> hook_step h (onclose sid h)"
| fires: "sid \<in> set (timers h) \<Longrightarrow> hook_step h (connect sid (h\<lparr>timers := remove1 sid (timers h)\<rparr>))"
| receives: "sockets h \<noteq> [] \<Longrightarrow> hook_step h (lift_state (onmessage now frame) h)"
| answered: "hook_step h (lift_state (command_answered r cmd now) h)"
| clears: "hook_step h (lift_state clearCommands h)"

inductive_cases hook_stepE: "hook_step h h'"

abbreviation hook_reachable :: "hook_state \<Rightarrow> bool" where
  "hook_reachable \<equiv> reached hook_step hook_start"

section \<open>The commands of the hook\<close>

lemma lift_state_fields [simp]:
  "sockets (lift_state f h) = sockets h" "timers (lift_state f h) = timers h"
  "runs (lift_state f h) = runs h" "mounted (lift_state f h) = mounted h"
  "commands (lift_state f h) = commands (f (agent_state.truncate h))"
  "commandIds (lift_state f h) = commandIds (f (agent_state.truncate h))"
  by (simp_all add: lift_state_def agent_state.defs hook_state.defs)

lemma truncate_fields [simp]:
  "commands (agent_state.truncate h) = commands h" "commandIds (agent_state.truncate h) = commandIds h"
  by (simp_all add: agent_state.defs)

lemma handle_commands:
  "commandIds (handleMessage now msg s) = commandIds s"
  "commands (handleMessage now msg s) = commands s \<or>
   (\<exists>f. (\<forall>c. cs_id (f c) = cs_id c) \<and> handleMessage now msg s = updateCommand (command_of msg) f s)"
  by (auto simp: handleMessage_def Let_def updateCommand_def output_update_def done_update_def
      error_update_def intro: exI [of _ "output_update now msg"] exI [of _ "done_update now msg"]
      exI [of _ "error_update now msg"])

definition well_keyed :: "agent_state \<Rightarrow> bool" where
  "well_keyed s \<longleftrightarrow> set (commandIds s) \<subseteq> dom (commands s) \<and>
     (\<forall>cid c. commands s cid = Some c \<longrightarrow> cs_id c = cid)"

lemma updateCommand_keyed:
  "well_keyed s \<Longrightarrow> (\<And>c. cs_id (f c) = cs_id c) \<Longrightarrow> well_keyed (updateCommand cid f s)"
  by (auto simp: well_keyed_def updateCommand_def nullish_def fresh_command_def split: option.splits)

lemma handleMessage_keyed: "well_keyed s \<Longrightarrow> well_keyed (handleMessage now msg s)"
  using handle_commands(2) [of now msg s]
proof
  assume "well_keyed s" "commands (handleMessage now msg s) = commands s"
  then show ?thesis by (simp add: well_keyed_def handle_commands(1))
next
  assume "well_keyed s" "\<exists>f. (\<forall>c. cs_id (f c) = cs_id c) \<and>
    handleMessage now msg s = updateCommand (command_of msg) f s"
  then show ?thesis using updateCommand_keyed by metis
qed

lemma onmessage_keyed: "well_keyed s \<Longrightarrow> well_keyed (onmessage now frame s)"
  by (auto simp: onmessage_def handleMessage_keyed split: option.split)

lemma answered_keyed: "well_keyed s \<Longrightarrow> well_keyed (command_answered r cmd now s)"
  by (auto simp: command_answered_def register_command_def well_keyed_def split: sum.split)

definition hook_inv :: "hook_state \<Rightarrow> bool" where
  "hook_inv h \<longleftrightarrow> well_keyed (agent_state.truncate h) \<and>
     length (sockets h) + length (timers h) = runs h"

lemma well_keyed_cong:
  "commands s = commands t \<Longrightarrow> commandIds s = commandIds t \<Longrightarrow> well_keyed s = well_keyed t"
  by (simp add: well_keyed_def)

lemma hook_step_inv: "hook_step h h' \<Longrightarrow> hook_inv h \<Longrightarrow> hook_inv h'"
proof (induction rule: hook_step.induct)
  case (receives h now frame)
  then have "well_keyed (onmessage now frame (agent_state.truncate h))"
    by (simp add: hook_inv_def onmessage_keyed)
  with receives show ?case by (simp add: hook_inv_def well_keyed_def)
next
  case (answered h r cmd now)
  then have "well_keyed (command_answered r cmd now (agent_state.truncate h))"
    by (simp add: hook_inv_def answered_keyed)
  with answered show ?case by (simp add: hook_inv_def well_keyed_def)
next
  case (closes sid h)
  then have "Suc (length (sockets h) - Suc 0) = length (sockets h)" by (cases "sockets h") auto
  with closes show ?case by (auto simp: hook_inv_def well_keyed_def onclose_def length_remove1)
next
  case (fires sid h)
  then have "Suc (length (timers h) - Suc 0) = length (timers h)" by (cases "timers h") auto
  with fires show ?case by (auto simp: hook_inv_def well_keyed_def connect_def length_remove1)
qed (auto simp: hook_inv_def well_keyed_def connect_def clearCommands_def)

interpretation hook: machine hook_start hook_step hook_inv
proof
  show "hook_inv hook_start"
    by (simp add: hook_inv_def hook_start_def initial_state_def well_keyed_def agent_state.defs hook_state.defs)
qed (rule hook_step_inv)

text \<open>
  In every state the hook reaches, each listed command has an entry, and each entry is filed
  under its own identifier: the console never shows a command without a state.
\<close>

theorem listed_commands_known:
  assumes "hook_reachable h"
  shows "(\<forall>cid \<in> set (commandIds h). commands h cid \<noteq> None) \<and>
    (\<forall>cid c. commands h cid = Some c \<longrightarrow> cs_id c = cid)"
  using hook.reached_inv [OF assms] by (auto simp: hook_inv_def well_keyed_def)

definition sample_hook :: hook_state where
  "sample_hook = lift_state (command_answered (Inr ''c1'') ''ls'' 5)
     ((connect ''s1'' hook_start)\<lparr>runs := 1\<rparr>)"

lemma sample_hook_reachable: "hook_reachable sample_hook"
proof -
  have "mounted hook_start" "runs hook_start = 0"
    by (simp_all add: hook_start_def agent_state.defs hook_state.defs initial_state_def)
  then have "hook_step hook_start ((connect ''s1'' hook_start)\<lparr>runs := 1\<rparr>)"
    using effect_runs [of hook_start "''s1''"] by simp
  then have "hook_reachable ((connect ''s1'' hook_start)\<lparr>runs := 1\<rparr>)"
    by (rule reached.further [OF reached.start])
  then show ?thesis unfolding sample_hook_def by (rule reached.further) (rule answered)
qed

theorem listed_commands_known_witness:
  "''c1'' \<in> set (commandIds sample_hook) \<and> commands sample_hook ''c1'' \<noteq> None"
proof -
  have "''c1'' \<in> set (commandIds sample_hook)"
    by (simp add: sample_hook_def command_answered_def register_command_def)
  with listed_commands_known [OF sample_hook_reachable] show ?thesis by blast
qed

text \<open>
  C15. The sockets and the reconnect timers are together as many as the effect has run: each
  server the hook was shown keeps a socket or a timer for ever, and after the hook is unmounted
  a further step still gives it a live socket.
\<close>

theorem sockets_conserved:
  assumes "hook_reachable h"
  shows "length (sockets h) + length (timers h) = runs h \<and>
    (runs h \<noteq> 0 \<longrightarrow> (\<exists>h'. hook_step\<^sup>*\<^sup>* h h' \<and> mounted h' = mounted h \<and> sockets h' \<noteq> []))"
proof (intro conjI impI)
  show l: "length (sockets h) + length (timers h) = runs h"
    using hook.reached_inv [OF assms] by (simp add: hook_inv_def)
  assume r: "runs h \<noteq> 0"
  show "\<exists>h'. hook_step\<^sup>*\<^sup>* h h' \<and> mounted h' = mounted h \<and> sockets h' \<noteq> []"
  proof (cases "sockets h = []")
    case False
    then show ?thesis by blast
  next
    case True
    with l r obtain sid where "sid \<in> set (timers h)" by (cases "timers h") auto
    from fires [OF this] show ?thesis by (intro exI conjI, rule r_into_rtranclp) (auto simp: connect_def)
  qed
qed

theorem sockets_conserved_witness:
  "length (sockets sample_hook) + length (timers sample_hook) = 1 \<and>
   (\<exists>h'. hook_step\<^sup>*\<^sup>* sample_hook h' \<and> sockets h' \<noteq> [])"
proof -
  have "runs sample_hook = 1" by (simp add: sample_hook_def)
  with sockets_conserved [OF sample_hook_reachable] show ?thesis by auto
qed

section \<open>The log and the status of a command\<close>

fun handle_all :: "(int \<times> json option) list \<Rightarrow> agent_state \<Rightarrow> agent_state" where
  "handle_all [] s = s"
| "handle_all ((now, msg) # ms) s = handle_all ms (handleMessage now msg s)"

definition command_log :: "string \<Rightarrow> agent_state \<Rightarrow> LogLine list" where
  "command_log cid s = (case commands s cid of None \<Rightarrow> [] | Some c \<Rightarrow> cs_logs c)"

definition command_status :: "string \<Rightarrow> agent_state \<Rightarrow> CommandStatus option" where
  "command_status cid s = map_option cs_status (commands s cid)"

text \<open>What one message says about one command.\<close>

definition says :: "string \<Rightarrow> json option \<Rightarrow> CommandStatus option" where
  "says cid msg =
     (if command_of msg \<noteq> cid then None
      else if jget ''type'' msg = Some (JStr ''COMMAND_OUTPUT'') then Some RUNNING
      else if jget ''type'' msg = Some (JStr ''COMMAND_DONE'') then Some SUCCESS
      else if jget ''type'' msg = Some (JStr ''COMMAND_ERROR'') then Some FAILED
      else None)"

definition output_lines :: "string \<Rightarrow> (int \<times> json option) list \<Rightarrow> LogLine list" where
  "output_lines cid ms = map (\<lambda>(now, msg). log_line now msg) (filter (\<lambda>(now, msg). says cid msg = Some RUNNING) ms)"

lemma handle_log:
  "command_log cid (handleMessage now msg s)
     = command_log cid s @ (if says cid msg = Some RUNNING then [log_line now msg] else [])"
  by (auto simp: command_log_def handleMessage_def Let_def says_def updateCommand_def output_update_def
      done_update_def error_update_def nullish_def fresh_command_def split: option.splits)

lemma handle_status:
  "command_status cid (handleMessage now msg s) = nullish_opt (says cid msg) (command_status cid s)"
  by (auto simp: command_status_def handleMessage_def Let_def says_def updateCommand_def output_update_def
      done_update_def error_update_def nullish_opt_def)

lemma handle_all_log: "command_log cid (handle_all ms s) = command_log cid s @ output_lines cid ms"
  by (induction ms s rule: handle_all.induct) (auto simp: handle_log output_lines_def)

lemma handle_all_status:
  "command_status cid (handle_all ms s)
     = foldl (\<lambda>st (now, msg). nullish_opt (says cid msg) st) (command_status cid s) ms"
  by (induction ms s rule: handle_all.induct) (auto simp: handle_status)

text \<open>
  C11. Over any run of messages, the log of a command grows by exactly the chunks sent for it, in
  their order and with none lost, and its status is what the last message about it says. So a
  chunk that comes after the end of a command sets it running again, and registering a command
  when the answer to its request arrives drops the chunks that came before.
\<close>

theorem followed_command:
  "command_log cid (handle_all ms s) = command_log cid s @ output_lines cid ms \<and>
   command_status cid (handle_all (ms @ [(now, msg)]) s)
     = nullish_opt (says cid msg) (command_status cid (handle_all ms s)) \<and>
   command_log cid (command_answered (Inr cid) cmd now (handle_all ms s)) = []"
proof (intro conjI)
  show "command_log cid (handle_all ms s) = command_log cid s @ output_lines cid ms"
    by (rule handle_all_log)
  show "command_status cid (handle_all (ms @ [(now, msg)]) s)
      = nullish_opt (says cid msg) (command_status cid (handle_all ms s))"
    by (simp add: handle_all_status)
  show "command_log cid (command_answered (Inr cid) cmd now (handle_all ms s)) = []"
    by (simp add: command_log_def command_answered_def register_command_def)
qed

end
