(* ===== verification/Repository.thy ===== *)
theory Repository
  imports Browser
begin

text \<open>
  The interface of the program's entity lists: a store that lists its entities, files them by a
  key, appends new ones and deletes by key. The laws are what the code of a provider promises;
  the lemmas are what its clients rely on, whichever store it is.
\<close>

section \<open>Looking up by key\<close>

definition lookup :: "('e \<Rightarrow> 'k) \<Rightarrow> 'k \<Rightarrow> 'e list \<Rightarrow> 'e option" where
  "lookup key k es = find (\<lambda>e. key e = k) es"

lemma find_append: "find p (xs @ ys) = (case find p xs of None \<Rightarrow> find p ys | Some x \<Rightarrow> Some x)"
  by (induction xs) auto

lemma lookup_None: "lookup key k es = None \<longleftrightarrow> k \<notin> key ` set es"
  by (auto simp: lookup_def find_None_iff)

lemma lookup_Some_key: "lookup key k es = Some e \<Longrightarrow> key e = k \<and> e \<in> set es"
  by (auto simp: lookup_def find_Some_iff)

lemma lookup_append:
  "key e \<notin> key ` set es \<Longrightarrow> lookup key k (es @ [e]) = (if key e = k then Some e else lookup key k es)"
  using lookup_None [of key "key e" es]
  by (auto simp: lookup_def find_append split: option.split)

lemma lookup_filter:
  "lookup key k (filter (\<lambda>e. key e \<noteq> d) es) = (if k = d then None else lookup key k es)"
  by (induction es) (auto simp: lookup_def)

lemma lookup_update:
  "(\<And>e. key e = d \<Longrightarrow> key (f e) = d) \<Longrightarrow>
     lookup key k (update_first (\<lambda>e. key e = d) f es)
       = (if k = d then map_option f (lookup key k es) else lookup key k es)"
  by (induction es) (auto simp: lookup_def)

lemma lookup_map:
  "(\<And>e. key (f e) = key e) \<Longrightarrow> lookup key k (map f es) = map_option f (lookup key k es)"
  by (induction es) (auto simp: lookup_def)

lemma distinct_filter_key: "distinct (map key es) \<Longrightarrow> distinct (map key (filter p es))"
  by (rule distinct_map_filter)

section \<open>The interface\<close>

text \<open>A change that keeps the key of an entity, and an entity well formed.\<close>

definition keeps :: "('e \<Rightarrow> 'k) \<Rightarrow> ('e \<Rightarrow> bool) \<Rightarrow> ('e \<Rightarrow> 'e) \<Rightarrow> bool" where
  "keeps key valid f \<longleftrightarrow> (\<forall>e. key (f e) = key e) \<and> (\<forall>e. valid e \<longrightarrow> valid (f e))"

locale repository =
  fixes items :: "'s \<Rightarrow> 'e list"
    and key :: "'e \<Rightarrow> 'k"
    and valid :: "'e \<Rightarrow> bool"
    and ok :: "'s \<Rightarrow> bool"
    and add :: "'e \<Rightarrow> 's \<Rightarrow> 's"
    and del :: "'k \<Rightarrow> 's \<Rightarrow> 's"
  assumes ok_distinct: "ok s \<Longrightarrow> distinct (map key (items s))"
    and items_add: "ok s \<Longrightarrow> valid e \<Longrightarrow> key e \<notin> key ` set (items s) \<Longrightarrow> items (add e s) = items s @ [e]"
    and items_del: "ok s \<Longrightarrow> items (del k s) = filter (\<lambda>e. key e \<noteq> k) (items s)"
    and ok_add: "ok s \<Longrightarrow> valid e \<Longrightarrow> key e \<notin> key ` set (items s) \<Longrightarrow> ok (add e s)"
    and ok_del: "ok s \<Longrightarrow> ok (del k s)"
begin

lemma lookup_added:
  "ok s \<Longrightarrow> valid e \<Longrightarrow> key e \<notin> key ` set (items s) \<Longrightarrow>
     lookup key k (items (add e s)) = (if key e = k then Some e else lookup key k (items s))"
  by (simp add: items_add lookup_append)

lemma lookup_deleted:
  "ok s \<Longrightarrow> lookup key k (items (del d s)) = (if k = d then None else lookup key k (items s))"
  by (simp add: items_del lookup_filter)

lemma delete_added:
  "ok s \<Longrightarrow> valid e \<Longrightarrow> key e \<notin> key ` set (items s) \<Longrightarrow> items (del (key e) (add e s)) = items s"
  by (auto simp: items_add items_del ok_add filter_id_conv image_iff)

lemma delete_twice: "ok s \<Longrightarrow> items (del k (del k s)) = items (del k s)"
  by (simp add: items_del ok_del)

lemma delete_commutes: "ok s \<Longrightarrow> items (del j (del k s)) = items (del k (del j s))"
  by (simp add: items_del ok_del conj_commute)

lemma keys_added: "ok s \<Longrightarrow> valid e \<Longrightarrow> key e \<notin> key ` set (items s) \<Longrightarrow> key ` set (items (add e s)) = insert (key e) (key ` set (items s))"
  by (simp add: items_add)

lemma keys_deleted: "ok s \<Longrightarrow> key ` set (items (del k s)) = key ` set (items s) - {k}"
  by (auto simp: items_del)

end

text \<open>A repository whose entities can also be changed in place, their key kept.\<close>

locale editable_repository = repository items key valid ok add del
  for items :: "'s \<Rightarrow> 'e list" and key :: "'e \<Rightarrow> 'k" and valid ok add del +
  fixes edit :: "'k \<Rightarrow> ('e \<Rightarrow> 'e) \<Rightarrow> 's \<Rightarrow> 's"
  assumes items_edit: "ok s \<Longrightarrow> keeps key valid f \<Longrightarrow>
      items (edit k f s) = update_first (\<lambda>e. key e = k) f (items s)"
    and ok_edit: "ok s \<Longrightarrow> keeps key valid f \<Longrightarrow> ok (edit k f s)"
begin

lemma lookup_edited:
  "ok s \<Longrightarrow> keeps key valid f \<Longrightarrow>
     lookup key k (items (edit d f s))
       = (if k = d then map_option f (lookup key k (items s)) else lookup key k (items s))"
  by (simp add: items_edit keeps_def lookup_update)

lemma keys_edited:
  "ok s \<Longrightarrow> keeps key valid f \<Longrightarrow> map key (items (edit d f s)) = map key (items s)"
  by (simp add: items_edit keeps_def map_update_first)

lemma edit_unknown:
  "ok s \<Longrightarrow> keeps key valid f \<Longrightarrow> k \<notin> key ` set (items s) \<Longrightarrow> items (edit k f s) = items s"
  by (simp add: items_edit) (rule update_first_none, auto)

end

end
