(* ===== verification/JsDate.thy ===== *)
theory JsDate
  imports JsPrelude
begin

text \<open>
  Instants in milliseconds since 1970 and the text \<open>toISOString\<close> gives them, with the reading
  back \<open>new Date(text).getTime()\<close> of that format. Years 0 to 9999.
\<close>

definition pad2 :: "int \<Rightarrow> string" where
  "pad2 n = (if n < 10 then ''0'' else '''') @ show_int n"

definition pad3 :: "int \<Rightarrow> string" where
  "pad3 n = (if n < 10 then ''00'' else if n < 100 then ''0'' else '''') @ show_int n"

definition pad4 :: "int \<Rightarrow> string" where
  "pad4 n = (if n < 10 then ''000'' else if n < 100 then ''00'' else if n < 1000 then ''0'' else '''')
     @ show_int n"

text \<open>The civil date of a day number, days counted in eras of 400 years from 1 March.\<close>

definition civil_of_day :: "int \<Rightarrow> int \<times> int \<times> int" where
  "civil_of_day z =
     (let z' = z + 719468; era = z' div 146097; doe = z' mod 146097;
          yoe = (doe - doe div 1460 + doe div 36524 - doe div 146096) div 365;
          doy = doe - (365 * yoe + yoe div 4 - yoe div 100);
          mp = (5 * doy + 2) div 153;
          m = (if mp < 10 then mp + 3 else mp - 9) in
      (yoe + era * 400 + (if m \<le> 2 then 1 else 0), m, doy - (153 * mp + 2) div 5 + 1))"

definition day_of_civil :: "int \<Rightarrow> int \<Rightarrow> int \<Rightarrow> int" where
  "day_of_civil y m d =
     (let y' = (if m \<le> 2 then y - 1 else y); era = y' div 400; yoe = y' mod 400;
          mp = (if m > 2 then m - 3 else m + 9);
          doy = (153 * mp + 2) div 5 + d - 1;
          doe = yoe * 365 + yoe div 4 - yoe div 100 + doy in
      era * 146097 + doe - 719468)"

definition iso_string :: "int \<Rightarrow> string" where
  "iso_string t =
     (let (y, m, d) = civil_of_day (t div 86400000); r = t mod 86400000 in
      pad4 y @ ''-'' @ pad2 m @ ''-'' @ pad2 d @ ''T'' @ pad2 (r div 3600000) @ '':'' @
      pad2 (r div 60000 mod 60) @ '':'' @ pad2 (r div 1000 mod 60) @ ''.'' @ pad3 (r mod 1000) @ ''Z'')"

definition digits_at :: "nat \<Rightarrow> nat \<Rightarrow> string \<Rightarrow> int" where
  "digits_at i n s = int (nat_of_digits (take n (drop i s)))"

definition iso_ms :: "string \<Rightarrow> int" where
  "iso_ms s =
     day_of_civil (digits_at 0 4 s) (digits_at 5 2 s) (digits_at 8 2 s) * 86400000 +
     digits_at 11 2 s * 3600000 + digits_at 14 2 s * 60000 + digits_at 17 2 s * 1000 + digits_at 20 3 s"

lemma iso_examples:
  "iso_string 0 = ''1970-01-01T00:00:00.000Z''"
  "iso_string 1709210096789 = ''2024-02-29T12:34:56.789Z''"
  "iso_ms ''2024-02-29T12:34:56.789Z'' = 1709210096789"
  by code_simp+

end
