(* ===== verification/Cron.thy ===== *)
theory Cron
  imports Repository JsonCodec JsDate
begin

text \<open>
  \<open>features/cron/cronService.ts\<close> and \<open>types/cron.ts\<close>: cron jobs and their execution logs in
  local storage. Random identifiers, the outcome of a run and the clock are arguments.

  Stored text is read back at the types the code casts it to; a text that is not the JSON of
  such a list is taken as one \<open>JSON.parse\<close> rejects. The list of initial jobs is a variable of
  the module: while storage is empty, the list the code works on is that list itself, and what it
  pushes or replaces there stays in it.
\<close>

section \<open>Data (types/cron.ts)\<close>

datatype CronStatus = idle | running | success | failed | timeout

record CronExecutionLog =
  cl_id :: string
  cl_jobId :: string
  cl_startTime :: string
  cl_endTime :: "string option"
  cl_duration :: "int option"
  cl_exitCode :: "int option"
  cl_stdout :: string
  cl_stderr :: string
  cl_status :: CronStatus

record CronJob =
  cj_id :: string
  cj_title :: string
  cj_description :: "string option"
  cj_schedule :: string
  cj_timezone :: string
  cj_humanReadableSchedule :: "string option"
  cj_command :: string
  cj_user :: string
  cj_cwd :: "string option"
  cj_timeout :: "int option"
  cj_preventOverlap :: bool
  cj_enabled :: bool
  cj_lastRunAt :: "string option"
  cj_lastRunStatus :: "CronStatus option"
  cj_nextRunAt :: "string option"
  cj_env :: "(string \<times> string) list"

record CronJobFormData =
  cf_title :: string
  cf_description :: "string option"
  cf_schedule :: string
  cf_timezone :: "string option"
  cf_humanReadableSchedule :: "string option"
  cf_command :: string
  cf_user :: "string option"
  cf_cwd :: "string option"
  cf_timeout :: "int option"
  cf_preventOverlap :: "bool option"
  cf_env :: "(string \<times> string) list option"

section \<open>The JSON of jobs and logs\<close>

definition status_text :: "CronStatus \<Rightarrow> string" where
  "status_text s = (case s of idle \<Rightarrow> ''idle'' | running \<Rightarrow> ''running'' | success \<Rightarrow> ''success''
     | failed \<Rightarrow> ''failed'' | timeout \<Rightarrow> ''timeout'')"

definition status_of :: "string \<Rightarrow> CronStatus option" where
  "status_of t = map_of [(''idle'', idle), (''running'', running), (''success'', success),
     (''failed'', failed), (''timeout'', timeout)] t"

fun as_status :: "json \<Rightarrow> CronStatus option" where
  "as_status (JStr s) = status_of s"
| "as_status v = None"

fun as_env :: "json \<Rightarrow> (string \<times> string) list option" where
  "as_env (JObj m) = those (map (\<lambda>(k, v). map_option (Pair k) (as_str v)) m)"
| "as_env v = None"

definition job_json :: "CronJob \<Rightarrow> json" where
  "job_json j = JObj (members
     [(''id'', Some (JStr (cj_id j))),
      (''title'', Some (JStr (cj_title j))),
      (''description'', map_option JStr (cj_description j)),
      (''schedule'', Some (JStr (cj_schedule j))),
      (''timezone'', Some (JStr (cj_timezone j))),
      (''humanReadableSchedule'', map_option JStr (cj_humanReadableSchedule j)),
      (''command'', Some (JStr (cj_command j))),
      (''user'', Some (JStr (cj_user j))),
      (''cwd'', map_option JStr (cj_cwd j)),
      (''timeout'', map_option JNum (cj_timeout j)),
      (''preventOverlap'', Some (JBool (cj_preventOverlap j))),
      (''enabled'', Some (JBool (cj_enabled j))),
      (''lastRunAt'', map_option JStr (cj_lastRunAt j)),
      (''lastRunStatus'', map_option (\<lambda>s. JStr (status_text s)) (cj_lastRunStatus j)),
      (''nextRunAt'', map_option JStr (cj_nextRunAt j)),
      (''env'', Some (JObj (map (\<lambda>(k, v). (k, JStr v)) (cj_env j))))])"

definition job_of :: "json \<Rightarrow> CronJob option" where
  "job_of v =
     Option.bind (req as_str ''id'' v) (\<lambda>i.
     Option.bind (req as_str ''title'' v) (\<lambda>ti.
     Option.bind (opt as_str ''description'' v) (\<lambda>de.
     Option.bind (req as_str ''schedule'' v) (\<lambda>sc.
     Option.bind (req as_str ''timezone'' v) (\<lambda>tz.
     Option.bind (opt as_str ''humanReadableSchedule'' v) (\<lambda>hu.
     Option.bind (req as_str ''command'' v) (\<lambda>co.
     Option.bind (req as_str ''user'' v) (\<lambda>us.
     Option.bind (opt as_str ''cwd'' v) (\<lambda>cw.
     Option.bind (opt as_int ''timeout'' v) (\<lambda>tm.
     Option.bind (req as_bool ''preventOverlap'' v) (\<lambda>po.
     Option.bind (req as_bool ''enabled'' v) (\<lambda>en.
     Option.bind (opt as_str ''lastRunAt'' v) (\<lambda>la.
     Option.bind (opt as_status ''lastRunStatus'' v) (\<lambda>ls.
     Option.bind (opt as_str ''nextRunAt'' v) (\<lambda>ne.
     Option.bind (req as_env ''env'' v) (\<lambda>ev.
     Some \<lparr>cj_id = i, cj_title = ti, cj_description = de, cj_schedule = sc, cj_timezone = tz,
       cj_humanReadableSchedule = hu, cj_command = co, cj_user = us, cj_cwd = cw, cj_timeout = tm,
       cj_preventOverlap = po, cj_enabled = en, cj_lastRunAt = la, cj_lastRunStatus = ls,
       cj_nextRunAt = ne, cj_env = ev\<rparr>))))))))))))))))"

definition log_json :: "CronExecutionLog \<Rightarrow> json" where
  "log_json l = JObj (members
     [(''id'', Some (JStr (cl_id l))),
      (''jobId'', Some (JStr (cl_jobId l))),
      (''startTime'', Some (JStr (cl_startTime l))),
      (''endTime'', map_option JStr (cl_endTime l)),
      (''duration'', map_option JNum (cl_duration l)),
      (''status'', Some (JStr (status_text (cl_status l)))),
      (''exitCode'', map_option JNum (cl_exitCode l)),
      (''stdout'', Some (JStr (cl_stdout l))),
      (''stderr'', Some (JStr (cl_stderr l)))])"

definition log_of :: "json \<Rightarrow> CronExecutionLog option" where
  "log_of v =
     Option.bind (req as_str ''id'' v) (\<lambda>i.
     Option.bind (req as_str ''jobId'' v) (\<lambda>jo.
     Option.bind (req as_str ''startTime'' v) (\<lambda>st.
     Option.bind (opt as_str ''endTime'' v) (\<lambda>en.
     Option.bind (opt as_int ''duration'' v) (\<lambda>du.
     Option.bind (opt as_int ''exitCode'' v) (\<lambda>ex.
     Option.bind (req as_str ''stdout'' v) (\<lambda>so.
     Option.bind (req as_str ''stderr'' v) (\<lambda>se.
     Option.bind (req as_status ''status'' v) (\<lambda>sa.
     Some \<lparr>cl_id = i, cl_jobId = jo, cl_startTime = st, cl_endTime = en, cl_duration = du,
       cl_exitCode = ex, cl_stdout = so, cl_stderr = se, cl_status = sa\<rparr>)))))))))"

abbreviation jobs_json :: "CronJob list \<Rightarrow> json" where
  "jobs_json js \<equiv> JArr (map job_json js)"

abbreviation logs_json :: "CronExecutionLog list \<Rightarrow> json" where
  "logs_json ls \<equiv> JArr (map log_json ls)"

text \<open>An environment is an object: its keys are distinct.\<close>

definition valid_job :: "CronJob \<Rightarrow> bool" where
  "valid_job j \<longleftrightarrow> distinct (map fst (cj_env j))"

lemma status_of_text [simp]: "status_of (status_text s) = Some s"
  by (cases s) (simp_all add: status_of_def status_text_def)

lemma as_env_map [simp]: "as_env (JObj (map (\<lambda>(k, v). (k, JStr v)) e)) = Some e"
  by (induction e) auto

lemma wf_env: "distinct (map fst e) \<Longrightarrow> wf_json (JObj (map (\<lambda>(k, v). (k, JStr v)) e))"
proof (induction e)
  case (Cons p e)
  then show ?case by (cases p) (force simp: image_iff)
qed simp

lemma those_env [simp]:
  "those (map ((\<lambda>(k, v). map_option (Pair k) (as_str v)) \<circ> (\<lambda>(k, v). (k, JStr v))) e) = Some e"
  by (induction e) auto

lemma status_read [simp]:
  "case_option (Some None) (\<lambda>x. map_option Some (as_status x)) (map_option (\<lambda>s. JStr (status_text s)) c)
     = Some c"
  by (auto split: option.split)

lemma job_of_json: "job_of (job_json j) = Some j"
  unfolding job_of_def job_json_def by (simp add: req_object opt_object del: case_map_option)

lemma log_of_json: "log_of (log_json l) = Some l"
  unfolding log_of_def log_json_def by (simp add: req_object opt_object del: case_map_option)

lemma wf_job: "valid_job j \<Longrightarrow> wf_json (job_json j)"
  unfolding job_json_def by (rule wf_object) (auto simp: valid_job_def wf_env [simplified] Some_map_option)

lemma wf_log: "wf_json (log_json l)"
  unfolding log_json_def by (rule wf_object) (auto simp: Some_map_option)

interpretation stored_jobs: stored_value jobs_json "as_list job_of" "\<lambda>js. \<forall>j \<in> set js. valid_job j"
  by unfold_locales
    (auto simp: wf_elems_iff wf_job job_of_json those_map_some simp del: map_map)

interpretation stored_logs: stored_value logs_json "as_list log_of" "\<lambda>_. True"
  by unfold_locales
    (auto simp: wf_elems_iff wf_log log_of_json those_map_some simp del: map_map)

section \<open>The service\<close>

record cron_state =
  cr_world :: world
  cr_seed :: "CronJob list"

definition cron_jobs_key :: string where
  "cron_jobs_key = ''mock_cron_jobs''"

definition cron_logs_key :: string where
  "cron_logs_key = ''mock_cron_logs''"

text \<open>The initial jobs, with the instant the module is loaded.\<close>

definition INITIAL_JOBS :: "int \<Rightarrow> CronJob list" where
  "INITIAL_JOBS now =
     [\<lparr>cj_id = ''1'', cj_title = ''Daily Database Backup'', cj_description = None,
       cj_schedule = ''0 0 * * *'', cj_timezone = ''Asia/Ho_Chi_Minh'', cj_humanReadableSchedule = None,
       cj_command = ''/usr/bin/backup.sh'', cj_user = ''root'', cj_cwd = None, cj_timeout = Some 3600,
       cj_preventOverlap = True, cj_enabled = True, cj_lastRunAt = Some (iso_string (now - 86400000)),
       cj_lastRunStatus = Some success, cj_nextRunAt = None, cj_env = [(''DB_HOST'', ''localhost'')]\<rparr>,
      \<lparr>cj_id = ''2'', cj_title = ''Laravel Scheduler'', cj_description = None,
       cj_schedule = ''*/1 * * * *'', cj_timezone = ''UTC'', cj_humanReadableSchedule = None,
       cj_command = ''php artisan schedule:run'', cj_user = ''www-data'', cj_cwd = None,
       cj_timeout = None, cj_preventOverlap = False, cj_enabled = True,
       cj_lastRunAt = Some (iso_string (now - 60000)), cj_lastRunStatus = Some success,
       cj_nextRunAt = None, cj_env = []\<rparr>,
      \<lparr>cj_id = ''3'', cj_title = ''Cleanup Temp Files'', cj_description = None,
       cj_schedule = ''0 2 * * 0'', cj_timezone = ''Asia/Ho_Chi_Minh'', cj_humanReadableSchedule = None,
       cj_command = ''rm -rf /tmp/*'', cj_user = ''root'', cj_cwd = None, cj_timeout = None,
       cj_preventOverlap = False, cj_enabled = False, cj_lastRunAt = None, cj_lastRunStatus = None,
       cj_nextRunAt = None, cj_env = []\<rparr>]"

definition saveJobsToStorage :: "CronJob list \<Rightarrow> cron_state \<Rightarrow> cron_state" where
  "saveJobsToStorage js s = s\<lparr>cr_world := save_value jobs_json cron_jobs_key js (cr_world s)\<rparr>"

text \<open>The jobs read, and whether the list is the module's own initial list.\<close>

definition getJobsFromStorage :: "cron_state \<Rightarrow> (thrown + bool \<times> CronJob list) \<times> cron_state" where
  "getJobsFromStorage s =
     (let stored = get_item cron_jobs_key (cr_world s) in
      if \<not> truthy_str stored
      then (Inr (True, cr_seed s), saveJobsToStorage (cr_seed s) s)
      else (case load_value (as_list job_of) cron_jobs_key (cr_world s) of
              None \<Rightarrow> (Inl SyntaxError, s)
            | Some js \<Rightarrow> (Inr (False, js), s)))"

definition saveLogsToStorage :: "CronExecutionLog list \<Rightarrow> cron_state \<Rightarrow> cron_state" where
  "saveLogsToStorage ls s = s\<lparr>cr_world := save_value logs_json cron_logs_key ls (cr_world s)\<rparr>"

definition getLogsFromStorage :: "cron_state \<Rightarrow> thrown + CronExecutionLog list" where
  "getLogsFromStorage s =
     (if \<not> truthy_str (get_item cron_logs_key (cr_world s)) then Inr []
      else (case load_value (as_list log_of) cron_logs_key (cr_world s) of
              None \<Rightarrow> Inl SyntaxError | Some ls \<Rightarrow> Inr ls))"

text \<open>A list changed in place is changed in the module too when it is the module's own.\<close>

definition store_changed :: "bool \<Rightarrow> CronJob list \<Rightarrow> cron_state \<Rightarrow> cron_state" where
  "store_changed aliased js s = saveJobsToStorage js (if aliased then s\<lparr>cr_seed := js\<rparr> else s)"

definition next_run :: "int \<Rightarrow> CronJob \<Rightarrow> CronJob" where
  "next_run now j =
     (if \<not> cj_enabled j then j\<lparr>cj_nextRunAt := None\<rparr>
      else j\<lparr>cj_nextRunAt := Some (iso_string (now + 60 * 60 * 1000))\<rparr>)"

definition getJobs :: "int \<Rightarrow> cron_state \<Rightarrow> (thrown + CronJob list) \<times> cron_state" where
  "getJobs now s =
     (case getJobsFromStorage s of
        (Inl e, s1) \<Rightarrow> (Inl e, s1)
      | (Inr (_, js), s1) \<Rightarrow> (Inr (map (next_run now) js), s1))"

definition getJob :: "int \<Rightarrow> string \<Rightarrow> cron_state \<Rightarrow> (thrown + CronJob option) \<times> cron_state" where
  "getJob now i s =
     (case getJobs now s of
        (Inl e, s1) \<Rightarrow> (Inl e, s1)
      | (Inr js, s1) \<Rightarrow> (Inr (lookup cj_id i js), s1))"

definition new_job :: "CronJobFormData \<Rightarrow> string \<Rightarrow> CronJob" where
  "new_job d uuid =
     \<lparr>cj_id = uuid, cj_title = cf_title d, cj_description = cf_description d,
      cj_schedule = cf_schedule d, cj_timezone = or_ostr (cf_timezone d) ''UTC'',
      cj_humanReadableSchedule = cf_humanReadableSchedule d, cj_command = cf_command d,
      cj_user = or_ostr (cf_user d) ''root'', cj_cwd = cf_cwd d, cj_timeout = cf_timeout d,
      cj_preventOverlap = nullish (cf_preventOverlap d) False, cj_enabled = True,
      cj_lastRunAt = None, cj_lastRunStatus = None, cj_nextRunAt = None,
      cj_env = nullish (cf_env d) []\<rparr>"

definition push_job :: "CronJob \<Rightarrow> cron_state \<Rightarrow> (thrown + CronJob) \<times> cron_state" where
  "push_job j s =
     (case getJobsFromStorage s of
        (Inl e, s1) \<Rightarrow> (Inl e, s1)
      | (Inr (aliased, js), s1) \<Rightarrow> (Inr j, store_changed aliased (js @ [j]) s1))"

definition addJob :: "CronJobFormData \<Rightarrow> string \<Rightarrow> cron_state \<Rightarrow> (thrown + CronJob) \<times> cron_state" where
  "addJob d uuid = push_job (new_job d uuid)"

text \<open>A \<open>Partial\<close> job is the change it makes to a job.\<close>

definition updateJob ::
  "string \<Rightarrow> (CronJob \<Rightarrow> CronJob) \<Rightarrow> cron_state \<Rightarrow> (thrown + CronJob) \<times> cron_state" where
  "updateJob i f s =
     (case getJobsFromStorage s of
        (Inl e, s1) \<Rightarrow> (Inl e, s1)
      | (Inr (aliased, js), s1) \<Rightarrow>
          (case find_index (\<lambda>j. cj_id j = i) js of
             None \<Rightarrow> (Inl (Error ''Job not found''), s1)
           | Some n \<Rightarrow>
               let js' = js[n := f (js ! n)] in (Inr (js' ! n), store_changed aliased js' s1)))"

definition deleteJob :: "string \<Rightarrow> cron_state \<Rightarrow> (thrown + unit) \<times> cron_state" where
  "deleteJob i s =
     (case getJobsFromStorage s of
        (Inl e, s1) \<Rightarrow> (Inl e, s1)
      | (Inr (_, js), s1) \<Rightarrow> (Inr (), saveJobsToStorage (filter (\<lambda>j. cj_id j \<noteq> i) js) s1))"

definition toggleJob :: "string \<Rightarrow> bool \<Rightarrow> cron_state \<Rightarrow> (thrown + CronJob) \<times> cron_state" where
  "toggleJob i enabled = updateJob i (\<lambda>j. j\<lparr>cj_enabled := enabled\<rparr>)"

definition getLogs :: "string \<Rightarrow> cron_state \<Rightarrow> thrown + CronExecutionLog list" where
  "getLogs i s =
     (case getLogsFromStorage s of
        Inl e \<Rightarrow> Inl e
      | Inr ls \<Rightarrow> Inr (sort_key (\<lambda>l. - iso_ms (cl_startTime l)) (filter (\<lambda>l. cl_jobId l = i) ls)))"

section \<open>Running a job\<close>

text \<open>
  \<open>runJob\<close> reads the job, and later its timer fires. An error thrown in the timer is not caught:
  the promise of the run is then never settled.
\<close>

record pending_run =
  pr_job :: CronJob
  pr_jobId :: string
  pr_logId :: string
  pr_start :: int

definition runJob ::
  "int \<Rightarrow> string \<Rightarrow> string \<Rightarrow> cron_state \<Rightarrow> (thrown + pending_run option) \<times> cron_state" where
  "runJob now logId i s =
     (case getJob now i s of
        (Inl e, s1) \<Rightarrow> (Inl e, s1)
      | (Inr None, s1) \<Rightarrow> (Inr None, s1)
      | (Inr (Some j), s1) \<Rightarrow>
          (Inr (Some \<lparr>pr_job = j, pr_jobId = i, pr_logId = logId, pr_start = now\<rparr>), s1))"

definition run_status :: "bool \<Rightarrow> CronStatus" where
  "run_status isSuccess = (if isSuccess then success else failed)"

definition run_log :: "pending_run \<Rightarrow> int \<Rightarrow> bool \<Rightarrow> CronExecutionLog" where
  "run_log p endTime isSuccess =
     \<lparr>cl_id = pr_logId p, cl_jobId = pr_jobId p, cl_startTime = iso_string (pr_start p),
      cl_endTime = Some (iso_string endTime), cl_duration = Some (endTime - pr_start p),
      cl_exitCode = Some (if isSuccess then 0 else 1),
      cl_stdout = (if isSuccess
        then ''Job '' @ cj_title (pr_job p) @ '' executed successfully.'' @ newline @ ''Output: Done.''
        else ''Starting job...'' @ newline @ ''Processing...''),
      cl_stderr = (if isSuccess then []
        else ''Error: Command failed with exit code 1.'' @ newline @
             ''Module not found or permission denied.''),
      cl_status = run_status isSuccess\<rparr>"

definition retain :: "CronExecutionLog list \<Rightarrow> CronExecutionLog list" where
  "retain logs = (if length logs > 100 then butlast logs else logs)"

definition run_finishes ::
  "pending_run \<Rightarrow> int \<Rightarrow> bool \<Rightarrow> cron_state \<Rightarrow> (thrown + unit) \<times> cron_state" where
  "run_finishes p endTime isSuccess s =
     (case getLogsFromStorage s of
        Inl e \<Rightarrow> (Inl e, s)
      | Inr logs \<Rightarrow>
          let s1 = saveLogsToStorage (retain (run_log p endTime isSuccess # logs)) s in
          (case updateJob (pr_jobId p)
                  (\<lambda>j. j\<lparr>cj_lastRunAt := Some (iso_string (pr_start p)),
                         cj_lastRunStatus := Some (run_status isSuccess)\<rparr>) s1 of
             (Inl e, s2) \<Rightarrow> (Inl e, s2)
           | (Inr _, s2) \<Rightarrow> (Inr (), s2)))"

section \<open>The store as a repository\<close>

definition cron_jobs :: "cron_state \<Rightarrow> CronJob list" where
  "cron_jobs s = (case fst (getJobsFromStorage s) of Inl e \<Rightarrow> [] | Inr (_, js) \<Rightarrow> js)"

definition cron_logs :: "cron_state \<Rightarrow> CronExecutionLog list" where
  "cron_logs s = (case getLogsFromStorage s of Inl e \<Rightarrow> [] | Inr ls \<Rightarrow> ls)"

definition well_formed_jobs :: "CronJob list \<Rightarrow> bool" where
  "well_formed_jobs js \<longleftrightarrow> distinct (map cj_id js) \<and> (\<forall>j \<in> set js. valid_job j)"

definition cron_ok :: "cron_state \<Rightarrow> bool" where
  "cron_ok s \<longleftrightarrow> storage (cr_world s) \<noteq> None \<and>
     (\<exists>r. fst (getJobsFromStorage s) = Inr r \<and> well_formed_jobs (snd r))"

lemma saved_jobs_read:
  assumes "storage (cr_world s) \<noteq> None" "\<forall>j \<in> set js. valid_job j"
  shows "getJobsFromStorage (saveJobsToStorage js s) = (Inr (False, js), saveJobsToStorage js s)"
proof -
  have "json_text (jobs_json js) \<noteq> []" using json_text_length [of "jobs_json js"] by force
  with assms show ?thesis
    using stored_jobs.load_save [of js "cr_world s" cron_jobs_key]
    by (simp add: getJobsFromStorage_def saveJobsToStorage_def truthy_str_def save_value_def Let_def)
qed

lemma saved_jobs:
  "storage (cr_world s) \<noteq> None \<Longrightarrow> \<forall>j \<in> set js. valid_job j \<Longrightarrow> cron_jobs (saveJobsToStorage js s) = js"
  by (simp add: cron_jobs_def saved_jobs_read)

lemma saved_ok:
  "storage (cr_world s) \<noteq> None \<Longrightarrow> well_formed_jobs js \<Longrightarrow> cron_ok (saveJobsToStorage js s)"
  by (simp add: cron_ok_def saved_jobs_read well_formed_jobs_def)
    (auto simp: saveJobsToStorage_def save_value_def set_item_def)

lemma cron_okE:
  assumes "cron_ok s"
  obtains aliased s1 where "getJobsFromStorage s = (Inr (aliased, cron_jobs s), s1)"
    "storage (cr_world s1) \<noteq> None" "well_formed_jobs (cron_jobs s)"
    "getLogsFromStorage s1 = getLogsFromStorage s"
proof -
  obtain r s1 where g: "getJobsFromStorage s = (Inr r, s1)" and w: "well_formed_jobs (snd r)"
    and st: "storage (cr_world s) \<noteq> None"
    using assms unfolding cron_ok_def by (metis prod.collapse)
  have s1: "s1 = s \<or> s1 = saveJobsToStorage (cr_seed s) s"
    using g by (auto simp: getJobsFromStorage_def Let_def split: if_splits option.splits)
  then have "storage (cr_world s1) \<noteq> None" "getLogsFromStorage s1 = getLogsFromStorage s"
    using st by (auto simp: saveJobsToStorage_def save_value_def getLogsFromStorage_def load_value_def
        cron_jobs_key_def cron_logs_key_def) (auto simp: set_item_def)
  moreover have "r = (fst r, cron_jobs s)" using g by (cases r) (simp add: cron_jobs_def)
  ultimately show thesis using that g w by (metis snd_conv)
qed

lemma store_changed_save: "\<exists>s'. store_changed aliased js s = saveJobsToStorage js s' \<and> cr_world s' = cr_world s"
  by (auto simp: store_changed_def)

lemma store_changed_ok:
  assumes "storage (cr_world s) \<noteq> None" "well_formed_jobs js"
  shows "cron_jobs (store_changed aliased js s) = js \<and> cron_ok (store_changed aliased js s) \<and>
    getLogsFromStorage (store_changed aliased js s) = getLogsFromStorage s"
proof -
  obtain s' where s': "store_changed aliased js s = saveJobsToStorage js s'" "cr_world s' = cr_world s"
    using store_changed_save by blast
  have "getLogsFromStorage (saveJobsToStorage js s') = getLogsFromStorage s"
    using assms(1) s'(2) by (auto simp: saveJobsToStorage_def save_value_def getLogsFromStorage_def
        load_value_def cron_jobs_key_def cron_logs_key_def)
  with assms s' show ?thesis
    by (simp add: saved_jobs saved_ok well_formed_jobs_def)
qed

lemma update_at_index:
  "find_index p xs = Some n \<Longrightarrow> xs[n := f (xs ! n)] = update_first p f xs"
  by (induction xs arbitrary: n) (auto split: if_splits)

lemma well_formed_update:
  assumes "well_formed_jobs js" "keeps cj_id valid_job f"
  shows "well_formed_jobs (update_first p f js)"
proof -
  have "set (update_first p f xs) \<subseteq> set xs \<union> f ` set xs" for xs
    by (induction xs) auto
  then have "\<forall>j \<in> set (update_first p f js). valid_job j"
    using assms by (fastforce simp: well_formed_jobs_def keeps_def)
  with assms show ?thesis by (simp add: well_formed_jobs_def keeps_def map_update_first)
qed

lemma push_job_ok:
  assumes "cron_ok s" "valid_job j" "cj_id j \<notin> cj_id ` set (cron_jobs s)"
  shows "cron_jobs (snd (push_job j s)) = cron_jobs s @ [j]" "cron_ok (snd (push_job j s))"
    "getLogsFromStorage (snd (push_job j s)) = getLogsFromStorage s"
proof -
  obtain b s1 where *: "getJobsFromStorage s = (Inr (b, cron_jobs s), s1)"
    "storage (cr_world s1) \<noteq> None" "well_formed_jobs (cron_jobs s)"
    "getLogsFromStorage s1 = getLogsFromStorage s" using cron_okE [OF assms(1)] .
  then have "well_formed_jobs (cron_jobs s @ [j])" using assms(2,3) by (auto simp: well_formed_jobs_def)
  from store_changed_ok [OF *(2) this] * show "cron_jobs (snd (push_job j s)) = cron_jobs s @ [j]"
    "cron_ok (snd (push_job j s))" "getLogsFromStorage (snd (push_job j s)) = getLogsFromStorage s"
    by (simp_all add: push_job_def)
qed

lemma deleteJob_ok:
  assumes "cron_ok s"
  shows "cron_jobs (snd (deleteJob i s)) = filter (\<lambda>j. cj_id j \<noteq> i) (cron_jobs s)"
    "cron_ok (snd (deleteJob i s))" "getLogsFromStorage (snd (deleteJob i s)) = getLogsFromStorage s"
proof -
  obtain b s1 where *: "getJobsFromStorage s = (Inr (b, cron_jobs s), s1)"
    "storage (cr_world s1) \<noteq> None" "well_formed_jobs (cron_jobs s)"
    "getLogsFromStorage s1 = getLogsFromStorage s" using cron_okE [OF assms(1)] .
  then have "well_formed_jobs (filter (\<lambda>j. cj_id j \<noteq> i) (cron_jobs s))"
    by (auto simp: well_formed_jobs_def distinct_filter_key)
  from store_changed_ok [OF *(2) this, of False] *
  show "cron_jobs (snd (deleteJob i s)) = filter (\<lambda>j. cj_id j \<noteq> i) (cron_jobs s)"
    "cron_ok (snd (deleteJob i s))" "getLogsFromStorage (snd (deleteJob i s)) = getLogsFromStorage s"
    by (simp_all add: deleteJob_def store_changed_def)
qed

lemma updateJob_ok:
  assumes "cron_ok s" "keeps cj_id valid_job f"
  shows "cron_jobs (snd (updateJob i f s)) = update_first (\<lambda>j. cj_id j = i) f (cron_jobs s)"
    "cron_ok (snd (updateJob i f s))" "getLogsFromStorage (snd (updateJob i f s)) = getLogsFromStorage s"
    "fst (updateJob i f s) = (case lookup cj_id i (cron_jobs s) of
       None \<Rightarrow> Inl (Error ''Job not found'') | Some j \<Rightarrow> Inr (f j))"
proof -
  let ?p = "\<lambda>j. cj_id j = i" and ?js = "cron_jobs s"
  obtain b s1 where *: "getJobsFromStorage s = (Inr (b, ?js), s1)"
    "storage (cr_world s1) \<noteq> None" "well_formed_jobs ?js"
    "getLogsFromStorage s1 = getLogsFromStorage s" using cron_okE [OF assms(1)] .
  have "cron_jobs (snd (updateJob i f s)) = update_first ?p f ?js \<and> cron_ok (snd (updateJob i f s)) \<and>
    getLogsFromStorage (snd (updateJob i f s)) = getLogsFromStorage s \<and>
    fst (updateJob i f s) = (case find ?p ?js of
       None \<Rightarrow> Inl (Error ''Job not found'') | Some j \<Rightarrow> Inr (f j))"
  proof (cases "find_index ?p ?js")
    case None
    then have no: "\<forall>j \<in> set ?js. \<not> ?p j" by (simp add: find_index_None)
    then have "find ?p ?js = None" by (simp add: find_None_iff)
    moreover have "cron_jobs s1 = ?js \<and> cron_ok s1"
    proof (cases "s1 = s")
      case False
      then have "s1 = saveJobsToStorage ?js s"
        using *(1) by (auto simp: getJobsFromStorage_def Let_def split: if_splits option.splits)
      moreover have "storage (cr_world s) \<noteq> None" using assms(1) by (simp add: cron_ok_def)
      ultimately show ?thesis using *(3) by (simp add: saved_jobs saved_ok well_formed_jobs_def)
    qed (use assms(1) in simp)
    ultimately show ?thesis using None no * by (simp add: updateJob_def update_first_none)
  next
    case (Some n)
    then have n: "n < length ?js" "?p (?js ! n)" "\<forall>j < n. \<not> ?p (?js ! j)"
      by (simp_all add: find_index_Some)
    then have "find ?p ?js = Some (?js ! n)" by (auto simp: find_Some_iff)
    with store_changed_ok [OF *(2) well_formed_update [OF *(3) assms(2), of ?p], of b] n(1) Some *
    show ?thesis by (simp add: updateJob_def Let_def update_at_index [OF Some, symmetric])
  qed
  then show "cron_jobs (snd (updateJob i f s)) = update_first ?p f ?js" "cron_ok (snd (updateJob i f s))"
    "getLogsFromStorage (snd (updateJob i f s)) = getLogsFromStorage s"
    "fst (updateJob i f s) = (case lookup cj_id i ?js of
       None \<Rightarrow> Inl (Error ''Job not found'') | Some j \<Rightarrow> Inr (f j))"
    by (simp_all add: lookup_def)
qed

interpretation cron_repository: editable_repository cron_jobs cj_id valid_job cron_ok
  "\<lambda>j s. snd (push_job j s)" "\<lambda>i s. snd (deleteJob i s)" "\<lambda>i f s. snd (updateJob i f s)"
proof
  show "distinct (map cj_id (cron_jobs s))" if "cron_ok s" for s
    using that by (auto simp: well_formed_jobs_def elim: cron_okE)
qed (simp_all add: push_job_ok deleteJob_ok updateJob_ok)

section \<open>What the operations do to the jobs and the logs\<close>

text \<open>
  C10. The store is a map from identifiers to jobs: adding files the new job under its fresh
  identifier, deleting removes exactly the one named, switching a job on or off changes that flag
  of that job, every other job stays as it was, and the stored lists stay well formed.
\<close>

theorem cron_crud:
  assumes "cron_ok s" "uuid \<notin> cj_id ` set (cron_jobs s)" "distinct (map fst (nullish (cf_env d) []))"
  shows "lookup cj_id k (cron_jobs (snd (addJob d uuid s)))
       = (if uuid = k then Some (new_job d uuid) else lookup cj_id k (cron_jobs s)) \<and>
    lookup cj_id k (cron_jobs (snd (deleteJob i s)))
       = (if k = i then None else lookup cj_id k (cron_jobs s)) \<and>
    lookup cj_id k (cron_jobs (snd (toggleJob i en s)))
       = (if k = i then map_option (\<lambda>j. j\<lparr>cj_enabled := en\<rparr>) (lookup cj_id k (cron_jobs s))
          else lookup cj_id k (cron_jobs s)) \<and>
    cron_ok (snd (addJob d uuid s)) \<and> cron_ok (snd (deleteJob i s)) \<and> cron_ok (snd (toggleJob i en s))"
proof -
  have v: "valid_job (new_job d uuid)" "cj_id (new_job d uuid) = uuid"
    using assms(3) by (simp_all add: valid_job_def new_job_def)
  have f: "cj_id (new_job d uuid) \<notin> cj_id ` set (cron_jobs s)" using v(2) assms(2) by simp
  have k: "keeps cj_id valid_job (\<lambda>j. j\<lparr>cj_enabled := en\<rparr>)" by (simp add: keeps_def valid_job_def)
  show ?thesis
    unfolding addJob_def toggleJob_def
    using cron_repository.lookup_added [OF assms(1) v(1) f] cron_repository.lookup_deleted [OF assms(1)]
      cron_repository.lookup_edited [OF assms(1) k] push_job_ok(2) [OF assms(1) v(1) f]
      deleteJob_ok(2) [OF assms(1)] updateJob_ok(2) [OF assms(1) k] v(2)
    by simp
qed

definition sample_browser :: world where
  "sample_browser = \<lparr>storage = Some Map.empty, sent = []\<rparr>"

definition sample_cron :: cron_state where
  "sample_cron = \<lparr>cr_world = sample_browser, cr_seed = INITIAL_JOBS 1709210096789\<rparr>"

definition sample_form :: CronJobFormData where
  "sample_form = \<lparr>cf_title = ''Rotate'', cf_description = None, cf_schedule = ''0 3 * * *'',
     cf_timezone = None, cf_humanReadableSchedule = None, cf_command = ''logrotate'', cf_user = None,
     cf_cwd = None, cf_timeout = None, cf_preventOverlap = None, cf_env = None\<rparr>"

lemma sample_cron_jobs: "cron_jobs sample_cron = INITIAL_JOBS 1709210096789"
  by (simp add: cron_jobs_def getJobsFromStorage_def sample_cron_def sample_browser_def
      get_item_def truthy_str_def)

lemma sample_cron_ok: "cron_ok sample_cron"
proof -
  have "fst (getJobsFromStorage sample_cron) = Inr (True, INITIAL_JOBS 1709210096789)"
    "storage (cr_world sample_cron) \<noteq> None"
    by (simp_all add: getJobsFromStorage_def sample_cron_def sample_browser_def get_item_def truthy_str_def)
  moreover have "well_formed_jobs (INITIAL_JOBS now)" for now
    by (simp add: well_formed_jobs_def INITIAL_JOBS_def valid_job_def)
  ultimately show ?thesis by (simp add: cron_ok_def)
qed

theorem cron_crud_witness:
  "lookup cj_id ''u1'' (cron_jobs (snd (addJob sample_form ''u1'' sample_cron))) = Some (new_job sample_form ''u1'') \<and>
   lookup cj_id ''2'' (cron_jobs (snd (deleteJob ''2'' sample_cron))) = None \<and>
   map_option cj_enabled (lookup cj_id ''3'' (cron_jobs (snd (toggleJob ''3'' True sample_cron)))) = Some True"
proof -
  have h: "''u1'' \<notin> cj_id ` set (cron_jobs sample_cron)" "distinct (map fst (nullish (cf_env sample_form) []))"
    by (simp_all add: sample_cron_jobs INITIAL_JOBS_def sample_form_def nullish_def)
  have "map_option cj_enabled (map_option (\<lambda>j. j\<lparr>cj_enabled := True\<rparr>)
      (lookup cj_id ''3'' (cron_jobs sample_cron))) = Some True"
    by (simp add: sample_cron_jobs INITIAL_JOBS_def lookup_def)
  with cron_crud [OF sample_cron_ok h] show ?thesis by simp
qed

lemma saved_logs_read:
  "storage (cr_world s) \<noteq> None \<Longrightarrow> getLogsFromStorage (saveLogsToStorage ls s) = Inr ls"
proof -
  assume st: "storage (cr_world s) \<noteq> None"
  have "json_text (logs_json ls) \<noteq> []" using json_text_length [of "logs_json ls"] by force
  with st show ?thesis
    using stored_logs.load_save [where a = ls and w = "cr_world s" and k = cron_logs_key]
    by (simp add: getLogsFromStorage_def saveLogsToStorage_def truthy_str_def save_value_def)
qed

lemma saved_logs_jobs:
  assumes "cron_ok s"
  shows "cron_jobs (saveLogsToStorage ls s) = cron_jobs s" "cron_ok (saveLogsToStorage ls s)"
proof -
  have st: "storage (cr_world s) \<noteq> None" using assms by (simp add: cron_ok_def)
  then have "storage (cr_world (saveLogsToStorage ls s)) \<noteq> None"
    by (auto simp: saveLogsToStorage_def save_value_def set_item_def)
  moreover have "fst (getJobsFromStorage (saveLogsToStorage ls s)) = fst (getJobsFromStorage s)"
    using st by (auto simp: getJobsFromStorage_def saveLogsToStorage_def save_value_def Let_def load_value_def
        cron_jobs_key_def cron_logs_key_def split: option.split)
  ultimately show "cron_jobs (saveLogsToStorage ls s) = cron_jobs s" "cron_ok (saveLogsToStorage ls s)"
    using assms by (simp_all add: cron_jobs_def cron_ok_def)
qed

lemma retain_take: "length logs \<le> 100 \<Longrightarrow> retain (l # logs) = take 100 (l # logs)"
proof (cases "length logs = 100")
  case True
  then show ?thesis by (simp add: retain_def butlast_conv_take del: take_Suc_Cons)
qed (simp add: retain_def)

text \<open>
  C16. A finished run is always logged first, the newest hundred logs are kept, and the job's last
  run is updated; but when the job was deleted while it ran, the log is still written and the
  timer throws, so the promise of the run is never settled.
\<close>

theorem run_recorded:
  assumes "cron_ok s" "getLogsFromStorage s = Inr logs" "length logs \<le> 100"
  shows "cron_logs (snd (run_finishes p t b s)) = take 100 (run_log p t b # logs) \<and>
    (fst (run_finishes p t b s) = Inr () \<longleftrightarrow> pr_jobId p \<in> cj_id ` set (cron_jobs s)) \<and>
    map_option cj_lastRunStatus (lookup cj_id (pr_jobId p) (cron_jobs (snd (run_finishes p t b s))))
      = map_option (\<lambda>_. Some (run_status b)) (lookup cj_id (pr_jobId p) (cron_jobs s))"
proof -
  let ?f = "\<lambda>j. j\<lparr>cj_lastRunAt := Some (iso_string (pr_start p)), cj_lastRunStatus := Some (run_status b)\<rparr>"
  let ?s = "saveLogsToStorage (retain (run_log p t b # logs)) s"
  let ?u = "updateJob (pr_jobId p) ?f ?s"
  have k: "keeps cj_id valid_job ?f" by (simp add: keeps_def valid_job_def)
  have s: "cron_jobs ?s = cron_jobs s" "cron_ok ?s" using saved_logs_jobs [OF assms(1)] by blast+
  have st: "storage (cr_world s) \<noteq> None" using assms(1) by (simp add: cron_ok_def)
  have r: "snd (run_finishes p t b s) = snd ?u"
    "fst (run_finishes p t b s) = Inr () \<longleftrightarrow> (\<exists>j. fst ?u = Inr j)"
    using assms(2) by (auto simp: run_finishes_def Let_def split: prod.split sum.split)
  have "getLogsFromStorage (snd ?u) = Inr (take 100 (run_log p t b # logs))"
    using updateJob_ok(3) [OF s(2) k] saved_logs_read [OF st] retain_take [OF assms(3)] by simp
  moreover have "(\<exists>j. fst ?u = Inr j) \<longleftrightarrow> pr_jobId p \<in> cj_id ` set (cron_jobs s)"
    using updateJob_ok(4) [OF s(2) k, of "pr_jobId p"] s(1) lookup_None [of cj_id "pr_jobId p" "cron_jobs s"]
    by (auto split: option.splits)
  moreover have "lookup cj_id (pr_jobId p) (cron_jobs (snd ?u))
      = map_option ?f (lookup cj_id (pr_jobId p) (cron_jobs s))"
    using cron_repository.lookup_edited [OF s(2) k] s(1) by simp
  ultimately show ?thesis
    using r by (simp add: cron_logs_def option.map_comp comp_def del: take_Cons_numeral)
qed

definition sample_run :: pending_run where
  "sample_run = \<lparr>pr_job = new_job sample_form ''u1'', pr_jobId = ''gone'', pr_logId = ''l1'',
     pr_start = 1709210096789\<rparr>"

theorem run_recorded_witness:
  "cron_logs (snd (run_finishes sample_run 1709210099000 True sample_cron)) = [run_log sample_run 1709210099000 True] \<and>
   fst (run_finishes sample_run 1709210099000 True sample_cron) \<noteq> Inr ()"
proof -
  have h: "getLogsFromStorage sample_cron = Inr []" "length ([] :: CronExecutionLog list) \<le> 100"
    by (simp_all add: getLogsFromStorage_def sample_cron_def sample_browser_def get_item_def truthy_str_def)
  have "pr_jobId sample_run \<notin> cj_id ` set (cron_jobs sample_cron)"
    by (simp add: sample_run_def sample_cron_jobs INITIAL_JOBS_def)
  with run_recorded [OF sample_cron_ok h, of sample_run 1709210099000 True] show ?thesis by simp
qed

text \<open>The logs shown for a job are its own, newest first.\<close>

lemma getLogs_sorted:
  "getLogs i s = Inr ls \<Longrightarrow> sorted (map (\<lambda>l. - iso_ms (cl_startTime l)) ls) \<and> (\<forall>l \<in> set ls. cl_jobId l = i)"
  by (auto simp: getLogs_def split: sum.splits)

end
