(* ===== verification/Firewall.thy ===== *)
theory Firewall
  imports Repository
begin

text \<open>
  \<open>features/servers/pages/modules/shared/mockFirewallService.ts\<close> and
  \<open>types/firewall.types.ts\<close>: the in-memory firewall rules of a server. Each operation is what
  its timer does when it fires; a random identifier is an argument.

  A rule is created from a partial one by a cast, so any of its fields may be missing.
\<close>

section \<open>Rules\<close>

datatype FirewallAction = ALLOW | DENY | REJECT
datatype FirewallDirection = INBOUND | OUTBOUND
datatype FirewallProtocol = TCP | UDP | ICMP | ANY

record FirewallRule =
  fr_id :: "string option"
  fr_priority :: "int option"
  fr_direction :: "FirewallDirection option"
  fr_protocol :: "FirewallProtocol option"
  fr_port :: "string option"
  fr_source :: "string option"
  fr_action :: "FirewallAction option"
  fr_enabled :: "bool option"
  fr_note :: "string option"

definition full_rule ::
  "string \<Rightarrow> int \<Rightarrow> FirewallDirection \<Rightarrow> FirewallProtocol \<Rightarrow> string \<Rightarrow> string \<Rightarrow> FirewallAction \<Rightarrow> bool
     \<Rightarrow> string \<Rightarrow> FirewallRule" where
  "full_rule i p d pr po so a e n =
     \<lparr>fr_id = Some i, fr_priority = Some p, fr_direction = Some d, fr_protocol = Some pr,
      fr_port = Some po, fr_source = Some so, fr_action = Some a, fr_enabled = Some e, fr_note = Some n\<rparr>"

definition initialRules :: "FirewallRule list" where
  "initialRules =
     [full_rule ''1'' 1 INBOUND TCP ''22'' ''Any'' ALLOW True ''SSH Access'',
      full_rule ''2'' 2 INBOUND TCP ''80'' ''Any'' ALLOW True ''HTTP Traffic'',
      full_rule ''3'' 3 INBOUND TCP ''443'' ''Any'' ALLOW True ''HTTPS Traffic'',
      full_rule ''4'' 100 INBOUND ANY ''Any'' ''Any'' DENY True ''Default Deny Inbound'']"

text \<open>\<open>{...r, ...p}\<close>: the fields the patch has replace those of the rule.\<close>

definition merge_rule :: "FirewallRule \<Rightarrow> FirewallRule \<Rightarrow> FirewallRule" where
  "merge_rule r p =
     \<lparr>fr_id = nullish_opt (fr_id p) (fr_id r),
      fr_priority = nullish_opt (fr_priority p) (fr_priority r),
      fr_direction = nullish_opt (fr_direction p) (fr_direction r),
      fr_protocol = nullish_opt (fr_protocol p) (fr_protocol r),
      fr_port = nullish_opt (fr_port p) (fr_port r),
      fr_source = nullish_opt (fr_source p) (fr_source r),
      fr_action = nullish_opt (fr_action p) (fr_action r),
      fr_enabled = nullish_opt (fr_enabled p) (fr_enabled r),
      fr_note = nullish_opt (fr_note p) (fr_note r)\<rparr>"

section \<open>Operations\<close>

definition getRules :: "FirewallRule list \<Rightarrow> FirewallRule list" where
  "getRules rules = rules"

definition getRule :: "string \<Rightarrow> FirewallRule list \<Rightarrow> FirewallRule option" where
  "getRule i rules = lookup fr_id (Some i) rules"

definition new_rule :: "string \<Rightarrow> nat \<Rightarrow> FirewallRule \<Rightarrow> FirewallRule" where
  "new_rule random_id n rule =
     rule\<lparr>fr_id := Some random_id, fr_priority := Some (int n + 1), fr_enabled := Some True\<rparr>"

definition edit_rules :: "string option \<Rightarrow> (FirewallRule \<Rightarrow> FirewallRule) \<Rightarrow> FirewallRule list \<Rightarrow> FirewallRule list" where
  "edit_rules i f rules = map (\<lambda>r. if fr_id r = i then f r else r) rules"

definition push_rule :: "FirewallRule \<Rightarrow> FirewallRule list \<Rightarrow> FirewallRule list" where
  "push_rule r rules = rules @ [r]"

definition saveRule :: "string \<Rightarrow> FirewallRule \<Rightarrow> FirewallRule list \<Rightarrow> FirewallRule list" where
  "saveRule random_id rule rules =
     (if truthy_str (fr_id rule)
      then edit_rules (fr_id rule) (\<lambda>r. merge_rule r rule) rules
      else push_rule (new_rule random_id (length rules) rule) rules)"

definition updateRulesOrder :: "FirewallRule list \<Rightarrow> FirewallRule list \<Rightarrow> FirewallRule list" where
  "updateRulesOrder new rules = new"

definition deleteRule :: "string option \<Rightarrow> FirewallRule list \<Rightarrow> FirewallRule list" where
  "deleteRule i rules = filter (\<lambda>r. fr_id r \<noteq> i) rules"

subsection \<open>The connectivity test\<close>

definition protocol_text :: "FirewallProtocol \<Rightarrow> string" where
  "protocol_text p = (case p of TCP \<Rightarrow> ''TCP'' | UDP \<Rightarrow> ''UDP'' | ICMP \<Rightarrow> ''ICMP'' | ANY \<Rightarrow> ''ANY'')"

record test_result =
  tr_success :: bool
  tr_logs :: "string list"

definition testRuleConnectivity :: "FirewallRule \<Rightarrow> test_result" where
  "testRuleConnectivity rule =
     (let isAllow = (fr_action rule = Some ALLOW); protocol = nullish (fr_protocol rule) TCP in
      \<lparr>tr_success = isAllow,
       tr_logs =
         [''> Starting connectivity test for '' @ protocol_text protocol @ '' port '' @
            or_ostr (fr_port rule) ''ALL'' @ ''...'',
          ''> Resolving local server address... OK (127.0.0.1)''] @
         (if protocol = ICMP
          then ''> PING 127.0.0.1 (127.0.0.1): 56 data bytes'' #
            (if isAllow
             then [''> 64 bytes from 127.0.0.1: icmp_seq=0 ttl=64 time=0.045 ms'',
                   ''> 64 bytes from 127.0.0.1: icmp_seq=1 ttl=64 time=0.038 ms'',
                   ''> --- 127.0.0.1 ping statistics ---'',
                   ''> 2 packets transmitted, 2 packets received, 0.0% packet loss'']
             else [''> Request timeout for icmp_seq 0'',
                   ''> Request timeout for icmp_seq 1'',
                   ''> --- 127.0.0.1 ping statistics ---'',
                   ''> 2 packets transmitted, 0 packets received, 100.0% packet loss''])
          else (''> Connecting to 127.0.0.1:'' @ or_ostr (fr_port rule) ''random'' @ ''...'') #
            (if isAllow
             then [''> Connection established.'',
                   ''> Sending handshake... OK'',
                   ''> Received acknowledgment.'',
                   ''> Connection closed by foreign host.'']
             else [''> Connect to 127.0.0.1 port '' @ or_ostr (fr_port rule) ''80'' @ '': Connection refused'',
                   ''> Failed to establish connection.'']))\<rparr>)"

section \<open>The rules as a repository\<close>

definition rules_ok :: "FirewallRule list \<Rightarrow> bool" where
  "rules_ok rules \<longleftrightarrow> distinct (map fr_id rules)"

lemma edit_rules_first: "rules_ok rules \<Longrightarrow> edit_rules i f rules = update_first (\<lambda>r. fr_id r = i) f rules"
  by (simp add: edit_rules_def rules_ok_def update_first_distinct)

interpretation rule_repository: editable_repository "\<lambda>rules. rules" fr_id "\<lambda>_. True" rules_ok push_rule
  deleteRule edit_rules
proof
  show "rules_ok (edit_rules i f s)" if "rules_ok s" "keeps fr_id (\<lambda>_. True) f" for s f i
    using that by (simp add: edit_rules_first) (simp add: rules_ok_def keeps_def map_update_first)
qed (auto simp: rules_ok_def push_rule_def deleteRule_def distinct_filter_key edit_rules_first)

text \<open>
  Saving a rule files it: one with an identifier replaces the fields it has in the rule of
  that identifier and in no other, one without is added under its fresh identifier, enabled; and
  deleting removes exactly the rule named.
\<close>

theorem firewall_crud:
  assumes "rules_ok rules" "Some random_id \<notin> fr_id ` set rules"
  shows "lookup fr_id k (saveRule random_id rule rules)
       = (if truthy_str (fr_id rule) then
            (if k = fr_id rule then map_option (\<lambda>r. merge_rule r rule) (lookup fr_id k rules)
             else lookup fr_id k rules)
          else if k = Some random_id then Some (new_rule random_id (length rules) rule)
          else lookup fr_id k rules) \<and>
    lookup fr_id k (deleteRule d rules) = (if k = d then None else lookup fr_id k rules) \<and>
    rules_ok (saveRule random_id rule rules) \<and> rules_ok (deleteRule d rules)"
proof -
  let ?n = "new_rule random_id (length rules) rule"
  have n: "fr_id ?n = Some random_id" by (simp add: new_rule_def)
  then have f: "fr_id ?n \<notin> fr_id ` set rules" using assms(2) by simp
  have del: "lookup fr_id k (deleteRule d rules) = (if k = d then None else lookup fr_id k rules)"
    "rules_ok (deleteRule d rules)"
    using rule_repository.lookup_deleted [OF assms(1)] rule_repository.ok_del [OF assms(1)] by auto
  show ?thesis
  proof (cases "truthy_str (fr_id rule)")
    case False
    with del n rule_repository.lookup_added [OF assms(1) TrueI f] rule_repository.ok_add [OF assms(1) TrueI f]
    show ?thesis by (auto simp: saveRule_def)
  next
    case True
    let ?f = "\<lambda>r. if fr_id r = fr_id rule then merge_rule r rule else r"
    have id: "fr_id (merge_rule r rule) = fr_id rule" if "fr_id r = fr_id rule" for r
      using that by (simp add: merge_rule_def nullish_opt_def split: option.split)
    then have k: "keeps fr_id (\<lambda>_. True) ?f" by (simp add: keeps_def)
    have e: "saveRule random_id rule rules = edit_rules (fr_id rule) ?f rules"
      using True by (simp add: saveRule_def edit_rules_def)
    have "map_option ?f (lookup fr_id (fr_id rule) rules)
        = map_option (\<lambda>r. merge_rule r rule) (lookup fr_id (fr_id rule) rules)"
      by (auto dest: lookup_Some_key intro!: map_option_cong)
    with True e del rule_repository.lookup_edited [OF assms(1) k] rule_repository.ok_edit [OF assms(1) k]
    show ?thesis by (auto split: if_splits)
  qed
qed

definition web_rule :: FirewallRule where
  "web_rule = \<lparr>fr_id = None, fr_priority = None, fr_direction = Some INBOUND, fr_protocol = Some TCP,
     fr_port = Some ''8080'', fr_source = Some ''Any'', fr_action = Some ALLOW, fr_enabled = None,
     fr_note = None\<rparr>"

theorem firewall_crud_witness:
  "lookup fr_id (Some ''x1'') (saveRule ''x1'' web_rule initialRules) = Some (new_rule ''x1'' 4 web_rule) \<and>
   lookup fr_id (Some ''2'') (deleteRule (Some ''2'') initialRules) = None"
proof -
  have h: "rules_ok initialRules" "Some ''x1'' \<notin> fr_id ` set initialRules"
    by (simp_all add: rules_ok_def initialRules_def full_rule_def)
  have "\<not> truthy_str (fr_id web_rule)" "length initialRules = 4"
    by (simp_all add: web_rule_def truthy_str_def initialRules_def)
  with firewall_crud [OF h, of "Some ''x1''" web_rule] firewall_crud [OF h, of "Some ''2''" web_rule "Some ''2''"]
  show ?thesis by simp
qed

text \<open>
  A new rule's priority is one more than the number of rules, not one more than the largest
  priority: when a rule is added, an older one deleted and another added, the two new rules have
  the same priority, so their order is not determined.
\<close>

theorem priority_repeated:
  assumes "rules_ok rules" "Some a \<notin> fr_id ` set rules" "Some b \<notin> fr_id ` set rules" "a \<noteq> b"
    and "d \<in> fr_id ` set rules" "\<not> truthy_str (fr_id r)" "\<not> truthy_str (fr_id q)"
  shows "map_option fr_priority (getRule a (saveRule b q (deleteRule d (saveRule a r rules))))
       = map_option fr_priority (getRule b (saveRule b q (deleteRule d (saveRule a r rules)))) \<and>
    getRule a (saveRule b q (deleteRule d (saveRule a r rules))) \<noteq> None"
proof -
  let ?n = "new_rule a (length rules) r" and ?old = "deleteRule d rules"
  have da: "d \<noteq> Some a" using assms(2,5) by blast
  then have s1: "deleteRule d (saveRule a r rules) = ?old @ [?n]"
    using assms(6) by (simp add: saveRule_def push_rule_def deleteRule_def new_rule_def)
  obtain x where x: "x \<in> set rules" "fr_id x = d" using assms(5) by blast
  have "length ?old = length rules - 1"
  proof -
    have "length (filter (\<lambda>y. fr_id y = d) rules) = 1"
      using assms(1) x unfolding rules_ok_def
      by (induction rules) (auto simp: filter_empty_conv image_iff)
    then show ?thesis
      using sum_length_filter_compl [of "\<lambda>y. fr_id y = d" rules] by (simp add: deleteRule_def)
  qed
  moreover have "0 < length rules" using x(1) by (cases rules) auto
  ultimately have len: "length (?old @ [?n]) = length rules" by simp
  have s2: "saveRule b q (deleteRule d (saveRule a r rules)) = ?old @ [?n, new_rule b (length rules) q]"
    unfolding s1 using assms(7) len
    by (simp only: saveRule_def push_rule_def if_False append_assoc append_Cons append_Nil simp_thms)
  have "Some a \<notin> fr_id ` set ?old" "Some b \<notin> fr_id ` set ?old"
    using assms(2,3) by (auto simp: deleteRule_def)
  then have "find (\<lambda>e. fr_id e = Some a) ?old = None" "find (\<lambda>e. fr_id e = Some b) ?old = None"
    by (auto simp: find_None_iff image_iff)
  then show ?thesis
    using assms(4) by (simp add: getRule_def s2 lookup_def find_append) (simp add: new_rule_def)
qed

theorem priority_repeated_witness:
  "map_option fr_priority (getRule ''x1'' (saveRule ''x2'' web_rule (deleteRule (Some ''1'') (saveRule ''x1'' web_rule initialRules))))
     = map_option fr_priority (getRule ''x2'' (saveRule ''x2'' web_rule (deleteRule (Some ''1'') (saveRule ''x1'' web_rule initialRules))))"
proof -
  have h: "rules_ok initialRules" "Some ''x1'' \<notin> fr_id ` set initialRules"
    "Some ''x2'' \<notin> fr_id ` set initialRules" "''x1'' \<noteq> ''x2''" "Some ''1'' \<in> fr_id ` set initialRules"
    "\<not> truthy_str (fr_id web_rule)" "\<not> truthy_str (fr_id web_rule)"
    by (simp_all add: rules_ok_def initialRules_def full_rule_def web_rule_def truthy_str_def)
  from priority_repeated [OF h] show ?thesis by blast
qed

end
