(* ===== verification/Access.thy ===== *)
theory Access
  imports Repository JsDate
begin

text \<open>
  The users, groups and keys of \<open>mockSecurityService\<close> in
  \<open>features/servers/pages/modules/shared/mockServerService.ts\<close>. Each operation is what its
  timer does when it fires; random numbers and the clock are arguments.

  Membership is kept twice, in the groups and in the users. The contract is that both agree.
\<close>

section \<open>State\<close>

datatype role = admin | operator | read_only

record ServerUser =
  su_username :: string
  su_role :: role
  su_permissions :: "string list"
  su_groups :: "string list"
  su_lastLogin :: string

record ServerGroup =
  sg_name :: string
  sg_id :: int
  sg_members :: "string list"
  sg_permissions :: "string list"

record ServerSSHKey =
  sk_id :: string
  sk_name :: string
  sk_fingerprint :: string
  sk_addedBy :: string
  sk_createdAt :: string

record ServerAuditLog =
  sa_id :: string
  sa_action :: string
  sa_user :: string
  sa_timestamp :: string
  sa_details :: string
  sa_success :: bool

record security_state =
  users :: "ServerUser list"
  groups :: "ServerGroup list"
  sshKeys :: "ServerSSHKey list"
  auditLogs :: "ServerAuditLog list"

definition MOCK_GROUPS :: "ServerGroup list" where
  "MOCK_GROUPS =
     [\<lparr>sg_name = ''root'', sg_id = 0, sg_members = [''root''], sg_permissions = [''all'']\<rparr>,
      \<lparr>sg_name = ''wheel'', sg_id = 10, sg_members = [''root'', ''deploy''], sg_permissions = [''sudo'']\<rparr>,
      \<lparr>sg_name = ''docker'', sg_id = 999, sg_members = [''deploy''], sg_permissions = [''docker_socket'']\<rparr>,
      \<lparr>sg_name = ''developers'', sg_id = 1001, sg_members = [''monitor''], sg_permissions = []\<rparr>]"

definition MOCK_USERS :: "ServerUser list" where
  "MOCK_USERS =
     [\<lparr>su_username = ''root'', su_role = admin, su_permissions = [''all''], su_groups = [''root'', ''wheel''],
       su_lastLogin = ''2024-05-10T08:00:00Z''\<rparr>,
      \<lparr>su_username = ''deploy'', su_role = operator, su_permissions = [''restart_service'', ''view_logs''],
       su_groups = [''wheel'', ''docker''], su_lastLogin = ''2024-05-11T14:30:00Z''\<rparr>,
      \<lparr>su_username = ''monitor'', su_role = read_only, su_permissions = [''view_metrics''],
       su_groups = [''developers''], su_lastLogin = ''2024-05-12T09:15:00Z''\<rparr>]"

definition MOCK_SSH_KEYS :: "ServerSSHKey list" where
  "MOCK_SSH_KEYS =
     [\<lparr>sk_id = ''1'', sk_name = ''MacBook Pro'', sk_fingerprint = ''SHA256:Attributes...'',
       sk_addedBy = ''root'', sk_createdAt = ''2024-01-01T10:00:00Z''\<rparr>,
      \<lparr>sk_id = ''2'', sk_name = ''CI/CD Runner'', sk_fingerprint = ''SHA256:DeployKey...'',
       sk_addedBy = ''deploy'', sk_createdAt = ''2024-02-15T16:20:00Z''\<rparr>]"

definition MOCK_AUDIT_LOGS :: "ServerAuditLog list" where
  "MOCK_AUDIT_LOGS =
     [\<lparr>sa_id = ''1'', sa_action = ''Restart Service'', sa_user = ''deploy'',
       sa_timestamp = ''2024-05-12T10:00:00Z'', sa_details = ''Restarted nginx service'', sa_success = True\<rparr>,
      \<lparr>sa_id = ''2'', sa_action = ''Update Firewall'', sa_user = ''root'',
       sa_timestamp = ''2024-05-11T18:45:00Z'', sa_details = ''Added rule allowing port 8080'', sa_success = True\<rparr>,
      \<lparr>sa_id = ''3'', sa_action = ''Failed Login'', sa_user = ''unknown'',
       sa_timestamp = ''2024-05-10T03:12:00Z'', sa_details = ''SSH login failed from 192.168.1.5'', sa_success = False\<rparr>]"

definition mock_security :: security_state where
  "mock_security = \<lparr>users = MOCK_USERS, groups = MOCK_GROUPS, sshKeys = MOCK_SSH_KEYS,
     auditLogs = MOCK_AUDIT_LOGS\<rparr>"

section \<open>Operations\<close>

definition addSSHKey :: "ServerSSHKey \<Rightarrow> security_state \<Rightarrow> security_state" where
  "addSSHKey k s = s\<lparr>sshKeys := sshKeys s @ [k]\<rparr>"

text \<open>The key \<open>addSSHKey\<close> pushes, with its random identifier.\<close>

definition new_key :: "string \<Rightarrow> string \<Rightarrow> string \<Rightarrow> string \<Rightarrow> int \<Rightarrow> ServerSSHKey" where
  "new_key random_id name fingerprint addedBy now =
     \<lparr>sk_id = random_id, sk_name = name, sk_fingerprint = fingerprint, sk_addedBy = addedBy,
      sk_createdAt = iso_string now\<rparr>"

definition remove_first :: "('a \<Rightarrow> bool) \<Rightarrow> 'a list \<Rightarrow> 'a list" where
  "remove_first p xs = (case find_index p xs of None \<Rightarrow> xs | Some i \<Rightarrow> remove_at i xs)"

definition deleteSSHKey :: "string \<Rightarrow> security_state \<Rightarrow> security_state" where
  "deleteSSHKey i s = s\<lparr>sshKeys := remove_first (\<lambda>k. sk_id k = i) (sshKeys s)\<rparr>"

definition addUser ::
  "string \<Rightarrow> role \<Rightarrow> string list \<Rightarrow> string list \<Rightarrow> int \<Rightarrow> security_state \<Rightarrow> security_state" where
  "addUser name r permissions gs now s =
     s\<lparr>users := users s @ [\<lparr>su_username = name, su_role = r, su_permissions = permissions,
         su_groups = gs, su_lastLogin = iso_string now\<rparr>]\<rparr>"

definition push_group :: "ServerGroup \<Rightarrow> security_state \<Rightarrow> security_state" where
  "push_group g s = s\<lparr>groups := groups s @ [g]\<rparr>"

definition addGroup :: "string \<Rightarrow> int \<Rightarrow> security_state \<Rightarrow> security_state" where
  "addGroup name random_id s =
     push_group \<lparr>sg_name = name, sg_id = random_id, sg_members = [], sg_permissions = []\<rparr> s"

definition deleteGroup :: "int \<Rightarrow> security_state \<Rightarrow> security_state" where
  "deleteGroup i s = s\<lparr>groups := remove_first (\<lambda>g. sg_id g = i) (groups s)\<rparr>"

definition change_group ::
  "int \<Rightarrow> (ServerGroup \<Rightarrow> ServerGroup) \<Rightarrow> security_state \<Rightarrow> security_state" where
  "change_group i f s = s\<lparr>groups := update_first (\<lambda>g. sg_id g = i) f (groups s)\<rparr>"

definition change_user ::
  "string \<Rightarrow> (ServerUser \<Rightarrow> ServerUser) \<Rightarrow> security_state \<Rightarrow> security_state" where
  "change_user name f s = s\<lparr>users := update_first (\<lambda>u. su_username u = name) f (users s)\<rparr>"

definition updateGroup :: "int \<Rightarrow> string \<Rightarrow> security_state \<Rightarrow> security_state" where
  "updateGroup i name = change_group i (\<lambda>g. g\<lparr>sg_name := name\<rparr>)"

definition addGroupMember :: "int \<Rightarrow> string \<Rightarrow> security_state \<Rightarrow> security_state" where
  "addGroupMember groupId username s =
     (case lookup sg_id groupId (groups s) of
        None \<Rightarrow> s
      | Some g \<Rightarrow>
          if username \<in> set (sg_members g) then s
          else change_user username
                 (\<lambda>u. if sg_name g \<in> set (su_groups u) then u
                      else u\<lparr>su_groups := su_groups u @ [sg_name g]\<rparr>)
                 (change_group groupId (\<lambda>g. g\<lparr>sg_members := sg_members g @ [username]\<rparr>) s))"

definition removeGroupMember :: "int \<Rightarrow> string \<Rightarrow> security_state \<Rightarrow> security_state" where
  "removeGroupMember groupId username s =
     (case lookup sg_id groupId (groups s) of
        None \<Rightarrow> s
      | Some g \<Rightarrow>
          change_user username
            (\<lambda>u. u\<lparr>su_groups := filter (\<lambda>n. n \<noteq> sg_name g) (su_groups u)\<rparr>)
            (change_group groupId
               (\<lambda>g. g\<lparr>sg_members := filter (\<lambda>m. m \<noteq> username) (sg_members g)\<rparr>) s))"

definition updateUserGroups :: "string \<Rightarrow> string list \<Rightarrow> security_state \<Rightarrow> security_state" where
  "updateUserGroups username gs = change_user username (\<lambda>u. u\<lparr>su_groups := gs\<rparr>)"

definition updateUserPermissions :: "string \<Rightarrow> string list \<Rightarrow> security_state \<Rightarrow> security_state" where
  "updateUserPermissions username permissions =
     change_user username (\<lambda>u. u\<lparr>su_permissions := permissions\<rparr>)"

section \<open>Keys and groups as repositories\<close>

lemma remove_first_filter:
  "distinct (map key xs) \<Longrightarrow> remove_first (\<lambda>x. key x = k) xs = filter (\<lambda>x. key x \<noteq> k) xs"
proof (induction xs)
  case (Cons x xs)
  then have IH: "remove_first (\<lambda>x. key x = k) xs = filter (\<lambda>x. key x \<noteq> k) xs" by simp
  show ?case
  proof (cases "key x = k")
    case True
    with Cons.prems have "k \<notin> key ` set xs" by auto
    then have "\<forall>y \<in> set xs. key y \<noteq> k" by auto
    with True show ?thesis by (simp add: remove_first_def remove_at_def filter_True)
  next
    case False
    with IH show ?thesis by (simp add: remove_first_def remove_at_def split: option.splits)
  qed
qed (simp add: remove_first_def)

definition security_ok :: "security_state \<Rightarrow> bool" where
  "security_ok s \<longleftrightarrow> distinct (map sk_id (sshKeys s)) \<and> distinct (map sg_id (groups s)) \<and>
     distinct (map sg_name (groups s)) \<and> distinct (map su_username (users s))"

definition keys_ok :: "security_state \<Rightarrow> bool" where
  "keys_ok s \<longleftrightarrow> distinct (map sk_id (sshKeys s))"

definition groups_ok :: "security_state \<Rightarrow> bool" where
  "groups_ok s \<longleftrightarrow> distinct (map sg_id (groups s))"

interpretation key_repository: repository sshKeys sk_id "\<lambda>_. True" keys_ok addSSHKey deleteSSHKey
  by unfold_locales
    (auto simp: keys_ok_def addSSHKey_def deleteSSHKey_def remove_first_filter distinct_filter_key)

interpretation group_repository: editable_repository groups sg_id "\<lambda>_. True" groups_ok push_group
  deleteGroup change_group
  by unfold_locales
    (auto simp: groups_ok_def push_group_def deleteGroup_def change_group_def remove_first_filter
      distinct_filter_key keeps_def map_update_first)

section \<open>Both sides of a membership agree\<close>

definition consistent :: "security_state \<Rightarrow> bool" where
  "consistent s \<longleftrightarrow> (\<forall>g \<in> set (groups s). \<forall>u \<in> set (users s).
     su_username u \<in> set (sg_members g) \<longleftrightarrow> sg_name g \<in> set (su_groups u))"

lemma distinct_key_iff:
  "distinct (map key xs) \<Longrightarrow> x \<in> set xs \<Longrightarrow> y \<in> set xs \<Longrightarrow> key x = key y \<longleftrightarrow> x = y"
  by (auto simp: distinct_map inj_on_def)

lemma update_group_user:
  assumes "security_ok s" "lookup sg_id i (groups s) = Some g" 
    and f: "\<And>g. sg_id (f g) = sg_id g \<and> sg_name (f g) = sg_name g"
    and h: "\<And>u. su_username (h u) = su_username u"
    and agree: "\<And>u. su_username u = name \<Longrightarrow>
      name \<in> set (sg_members (f g)) \<longleftrightarrow> sg_name g \<in> set (su_groups (h u))"
    and others: "\<And>m. m \<noteq> name \<Longrightarrow> m \<in> set (sg_members (f g)) \<longleftrightarrow> m \<in> set (sg_members g)"
      "\<And>n u. n \<noteq> sg_name g \<Longrightarrow> n \<in> set (su_groups (h u)) \<longleftrightarrow> n \<in> set (su_groups u)"
    and c: "consistent s"
  shows "consistent (change_user name h (change_group i f s)) \<and>
    security_ok (change_user name h (change_group i f s))"
proof
  let ?s = "change_user name h (change_group i f s)"
  have d: "distinct (map sg_id (groups s))" "distinct (map sg_name (groups s))"
    "distinct (map su_username (users s))" using assms(1) by (simp_all add: security_ok_def)
  have gs: "groups ?s = map (\<lambda>g. if sg_id g = i then f g else g) (groups s)"
    and us: "users ?s = map (\<lambda>u. if su_username u = name then h u else u) (users s)"
    using d by (simp_all add: change_user_def change_group_def update_first_distinct)
  have g: "g \<in> set (groups s)" "sg_id g = i" using lookup_Some_key [OF assms(2)] by blast+
  have gi: "sg_id x = i \<longleftrightarrow> x = g" if "x \<in> set (groups s)" for x
    using distinct_key_iff [OF d(1) that g(1)] g(2) by simp
  have gn: "sg_name x = sg_name g \<longleftrightarrow> x = g" if "x \<in> set (groups s)" for x
    by (rule distinct_key_iff [OF d(2) that g(1)])
  show "consistent ?s"
    unfolding consistent_def gs us
  proof (intro ballI)
    fix g' u' assume a: "g' \<in> set (map (\<lambda>g. if sg_id g = i then f g else g) (groups s))"
      and b: "u' \<in> set (map (\<lambda>u. if su_username u = name then h u else u) (users s))"
    from a obtain x where x: "x \<in> set (groups s)" "g' = (if x = g then f g else x)"
      using gi by force
    from b obtain u where u: "u \<in> set (users s)" "u' = (if su_username u = name then h u else u)"
      by force
    have cu: "su_username u \<in> set (sg_members x) \<longleftrightarrow> sg_name x \<in> set (su_groups u)"
      using c x(1) u(1) by (simp add: consistent_def)
    have xg: "sg_name g' = sg_name x" using x(2) f by simp
    show "su_username u' \<in> set (sg_members g') \<longleftrightarrow> sg_name g' \<in> set (su_groups u')"
    proof (cases "su_username u = name")
      case False
      have "su_username u \<in> set (sg_members g') \<longleftrightarrow> su_username u \<in> set (sg_members x)"
        using x(2) others(1) [OF False] by simp
      with False u(2) cu xg show ?thesis by simp
    next
      case True
      then have hu: "u' = h u" "su_username u' = name" using u(2) h by simp_all
      show ?thesis
      proof (cases "x = g")
        case True
        with hu agree [OF \<open>su_username u = name\<close>] x(2) xg show ?thesis by simp
      next
        case False
        then have "sg_name x \<in> set (su_groups (h u)) \<longleftrightarrow> sg_name x \<in> set (su_groups u)"
          using others(2) gn [OF x(1)] by blast
        with False hu cu xg x(2) \<open>su_username u = name\<close> show ?thesis by simp
      qed
    qed
  qed
  show "security_ok ?s"
    using assms(1) f h by (simp add: security_ok_def change_user_def change_group_def map_update_first)
qed

text \<open>
  C9. While ids and names are unique, adding a member to a group, removing one, and adding an empty group
  with a new id under a name that no group has and no user lists keep this and keep both records of membership in agreement: a user is listed in a group exactly when the group is
  listed in the user.
\<close>

theorem membership_kept:
  assumes "security_ok s" "consistent s"
    and "name \<notin> sg_name ` set (groups s)" "i \<notin> sg_id ` set (groups s)"
    and "\<forall>u \<in> set (users s). name \<notin> set (su_groups u)"
  shows "consistent (addGroupMember gid m s) \<and> security_ok (addGroupMember gid m s) \<and>
    consistent (removeGroupMember gid m s) \<and> security_ok (removeGroupMember gid m s) \<and>
    consistent (addGroup name i s) \<and> security_ok (addGroup name i s)"
proof (intro conjI)
  show "consistent (addGroup name i s)" "security_ok (addGroup name i s)"
    using assms by (auto simp: consistent_def security_ok_def addGroup_def push_group_def)
  have "consistent (addGroupMember gid m s) \<and> security_ok (addGroupMember gid m s)"
  proof (cases "lookup sg_id gid (groups s)")
    case None
    with assms show ?thesis by (simp add: addGroupMember_def)
  next
    case (Some g)
    show ?thesis
    proof (cases "m \<in> set (sg_members g)")
      case True
      with assms Some show ?thesis by (simp add: addGroupMember_def)
    next
      case False
      with Some show ?thesis
        using update_group_user [OF assms(1) Some, of "\<lambda>g. g\<lparr>sg_members := sg_members g @ [m]\<rparr>"
            "\<lambda>u. if sg_name g \<in> set (su_groups u) then u else u\<lparr>su_groups := su_groups u @ [sg_name g]\<rparr>" m]
          assms(2) by (auto simp: addGroupMember_def)
    qed
  qed
  then show "consistent (addGroupMember gid m s)" "security_ok (addGroupMember gid m s)" by blast+
  have "consistent (removeGroupMember gid m s) \<and> security_ok (removeGroupMember gid m s)"
  proof (cases "lookup sg_id gid (groups s)")
    case None
    with assms show ?thesis by (simp add: removeGroupMember_def)
  next
    case (Some g)
    then show ?thesis
      using update_group_user [OF assms(1) Some, of "\<lambda>g. g\<lparr>sg_members := filter (\<lambda>x. x \<noteq> m) (sg_members g)\<rparr>"
          "\<lambda>u. u\<lparr>su_groups := filter (\<lambda>n. n \<noteq> sg_name g) (su_groups u)\<rparr>" m]
        assms(2) by (auto simp: removeGroupMember_def)
  qed
  then show "consistent (removeGroupMember gid m s)" "security_ok (removeGroupMember gid m s)" by blast+
qed

lemma mock_security_ok: "security_ok mock_security" "consistent mock_security"
  by (simp_all add: security_ok_def consistent_def mock_security_def MOCK_USERS_def MOCK_GROUPS_def
      MOCK_SSH_KEYS_def)

theorem membership_kept_witness:
  "consistent (addGroupMember 999 ''monitor'' mock_security) \<and>
   consistent (removeGroupMember 10 ''deploy'' mock_security) \<and>
   consistent (addGroup ''ops'' 4242 mock_security)"
proof -
  have h: "''ops'' \<notin> sg_name ` set (groups mock_security)" "4242 \<notin> sg_id ` set (groups mock_security)"
    "\<forall>u \<in> set (users mock_security). ''ops'' \<notin> set (su_groups u)"
    by (simp_all add: mock_security_def MOCK_USERS_def MOCK_GROUPS_def)
  from membership_kept [OF mock_security_ok h] show ?thesis by blast
qed

text \<open>
  Renaming a group that has a member, and setting the groups of a user, write one side only:
  from a consistent state they give an inconsistent one whenever the other side differs. A
  deleted group stays listed in its members.
\<close>

theorem membership_broken:
  assumes "security_ok s" "consistent s" "g \<in> set (groups s)" "u \<in> set (users s)"
    and "su_username u \<in> set (sg_members g)" "\<forall>u \<in> set (users s). name \<notin> set (su_groups u)"
    and "sg_name g \<notin> set gs"
  shows "\<not> consistent (updateGroup (sg_id g) name s) \<and>
    \<not> consistent (updateUserGroups (su_username u) gs s) \<and>
    g \<notin> set (groups (deleteGroup (sg_id g) s)) \<and>
    (\<exists>v \<in> set (users (deleteGroup (sg_id g) s)). sg_name g \<in> set (su_groups v))"
proof (intro conjI)
  have d: "distinct (map sg_id (groups s))" "distinct (map su_username (users s))"
    using assms(1) by (simp_all add: security_ok_def)
  have "groups (updateGroup (sg_id g) name s)
      = map (\<lambda>x. if sg_id x = sg_id g then x\<lparr>sg_name := name\<rparr> else x) (groups s)"
    using d(1) by (simp add: updateGroup_def change_group_def update_first_distinct)
  then have "g\<lparr>sg_name := name\<rparr> \<in> set (groups (updateGroup (sg_id g) name s))"
    using assms(3) by force
  moreover have "users (updateGroup (sg_id g) name s) = users s"
    by (simp add: updateGroup_def change_group_def)
  ultimately show "\<not> consistent (updateGroup (sg_id g) name s)"
    using assms(4,5,6) unfolding consistent_def by force
  have "users (updateUserGroups (su_username u) gs s)
      = map (\<lambda>x. if su_username x = su_username u then x\<lparr>su_groups := gs\<rparr> else x) (users s)"
    using d(2) by (simp add: updateUserGroups_def change_user_def update_first_distinct)
  then have "u\<lparr>su_groups := gs\<rparr> \<in> set (users (updateUserGroups (su_username u) gs s))"
    using assms(4) by force
  moreover have "groups (updateUserGroups (su_username u) gs s) = groups s"
    by (simp add: updateUserGroups_def change_user_def)
  ultimately show "\<not> consistent (updateUserGroups (su_username u) gs s)"
    using assms(3,5,7) unfolding consistent_def by force
  have "groups_ok s" using d(1) by (simp add: groups_ok_def)
  from group_repository.keys_deleted [OF this, of "sg_id g"]
  show "g \<notin> set (groups (deleteGroup (sg_id g) s))" by blast
  have "sg_name g \<in> set (su_groups u)" using assms(2-5) by (simp add: consistent_def)
  then show "\<exists>v \<in> set (users (deleteGroup (sg_id g) s)). sg_name g \<in> set (su_groups v)"
    using assms(4) by (auto simp: deleteGroup_def)
qed

theorem membership_broken_witness:
  "\<not> consistent (updateGroup 999 ''containers'' mock_security) \<and>
   \<not> consistent (updateUserGroups ''deploy'' [] mock_security)"
proof -
  let ?g = "\<lparr>sg_name = ''docker'', sg_id = 999, sg_members = [''deploy''], sg_permissions = [''docker_socket'']\<rparr>"
  let ?u = "\<lparr>su_username = ''deploy'', su_role = operator, su_permissions = [''restart_service'', ''view_logs''],
       su_groups = [''wheel'', ''docker''], su_lastLogin = ''2024-05-11T14:30:00Z''\<rparr>"
  have h: "?g \<in> set (groups mock_security)" "?u \<in> set (users mock_security)"
    "su_username ?u \<in> set (sg_members ?g)"
    "\<forall>u \<in> set (users mock_security). ''containers'' \<notin> set (su_groups u)" "sg_name ?g \<notin> set []"
    by (simp_all add: mock_security_def MOCK_USERS_def MOCK_GROUPS_def)
  from membership_broken [OF mock_security_ok h] show ?thesis by simp
qed

end
