(* ===== verification/ServerServices.thy ===== *)
theory ServerServices
  imports Repository JsDate ServerApi Complex_Main
begin

text \<open>
  The services of \<open>mockServerService\<close> in
  \<open>features/servers/pages/modules/shared/mockServerService.ts\<close>: their list, starting, stopping,
  enabling and disabling, their logs, and the search, templates, dry run and installation of
  packages. Each operation is what its timer does when it fires; the results of
  \<open>Math.random()\<close> and the clock are arguments. Fractional numbers are rationals.
\<close>

section \<open>Data\<close>

record ServiceMetrics =
  sm_cpu :: rat
  sm_memory :: rat
  sm_uptime :: string
  sm_pid :: int
  sm_openPorts :: "json list"

datatype log_level = LInfo | LWarn | LError

record ServiceLog =
  sl_timestamp :: string
  sl_level :: log_level
  sl_message :: string

datatype service_status = Active | Inactive | Failed | Reloading
datatype boot_status = Enabled | Disabled

record Service =
  sv_name :: string
  sv_description :: string
  sv_status :: service_status
  sv_bootStatus :: boot_status
  sv_unitFile :: string
  sv_execStart :: string
  sv_dependencies :: "string list"
  sv_metrics :: "ServiceMetrics option"

datatype field_type = FText | FNumber | FBoolean | FPassword

record config_field =
  cg_key :: string
  cg_label :: string
  cg_type :: field_type
  cg_defaultValue :: "json option"
  cg_required :: "bool option"

datatype category = web_server | database | cache | runtime | security

record ServiceTemplate =
  st_id :: string
  st_name :: string
  st_description :: string
  st_category :: category
  st_defaultPort :: "int option"
  st_configFields :: "config_field list"

record ServicePackage =
  sp_name :: string
  sp_version :: string
  sp_description :: string
  sp_repo :: string
  sp_size :: string

record DryRunResult =
  dr_diskUsage :: string
  dr_newPorts :: "int option list"
  dr_dependencies :: "string list"
  dr_commands :: "string list"

datatype install_status = pending | running | completed | failed

record InstallLog =
  il_step :: string
  il_status :: install_status
  il_detail :: string

definition metrics_of :: "rat \<Rightarrow> rat \<Rightarrow> string \<Rightarrow> int \<Rightarrow> int list \<Rightarrow> ServiceMetrics" where
  "metrics_of c m u p ports =
     \<lparr>sm_cpu = c, sm_memory = m, sm_uptime = u, sm_pid = p, sm_openPorts = map JNum ports\<rparr>"

definition service_of ::
  "string \<Rightarrow> string \<Rightarrow> service_status \<Rightarrow> boot_status \<Rightarrow> string \<Rightarrow> string \<Rightarrow> string list \<Rightarrow> ServiceMetrics
     \<Rightarrow> Service" where
  "service_of n d st b u e deps m =
     \<lparr>sv_name = n, sv_description = d, sv_status = st, sv_bootStatus = b, sv_unitFile = u,
      sv_execStart = e, sv_dependencies = deps, sv_metrics = Some m\<rparr>"

definition MOCK_SERVICES :: "Service list" where
  "MOCK_SERVICES =
     [service_of ''nginx'' ''A high performance web server'' Active Enabled
        ''/usr/lib/systemd/system/nginx.service'' ''/usr/sbin/nginx -g daemon on; master_process on;'' []
        (metrics_of (12 / 10) 128 ''2d 4h'' 1234 [80, 443]),
      service_of ''mysql'' ''MySQL Community Server'' Active Enabled
        ''/usr/lib/systemd/system/mysqld.service'' ''/usr/sbin/mysqld'' []
        (metrics_of (54 / 10) 512 ''5d 12h'' 1235 [3306]),
      service_of ''ssh'' ''OpenBSD Secure Shell server'' Active Enabled
        ''/usr/lib/systemd/system/sshd.service'' ''/usr/sbin/sshd -D'' []
        (metrics_of (1 / 10) 24 ''10d 1h'' 888 [22]),
      service_of ''docker'' ''Docker Application Container Engine'' Active Enabled
        ''/usr/lib/systemd/system/docker.service'' ''/usr/bin/dockerd -H fd://'' [''containerd'']
        (metrics_of (82 / 10) 1024 ''2d 4h'' 1100 []),
      service_of ''firewalld'' ''firewalld - dynamic firewall daemon'' Inactive Disabled
        ''/usr/lib/systemd/system/firewalld.service'' ''/usr/sbin/firewalld --nofork --nopid'' []
        (metrics_of 0 0 ''0s'' 0 []),
      service_of ''redis'' ''Redis persistent key-value database'' Active Enabled
        ''/usr/lib/systemd/system/redis.service'' ''/usr/bin/redis-server /etc/redis.conf'' []
        (metrics_of (5 / 10) 64 ''2d 4h'' 1567 [6379]),
      service_of ''postgresql'' ''PostgreSQL database server'' Inactive Disabled
        ''/usr/lib/systemd/system/postgresql.service'' ''/usr/bin/postmaster -D /var/lib/pgsql/data'' []
        (metrics_of 0 0 ''0s'' 0 [5432]),
      service_of ''fail2ban'' ''Fail2Ban Service'' Active Enabled
        ''/usr/lib/systemd/system/fail2ban.service'' ''/usr/bin/fail2ban-server -xf start'' []
        (metrics_of (8 / 10) 48 ''1d 2h'' 2020 [])]"

definition LOG_MESSAGES :: "(log_level \<times> string) list" where
  "LOG_MESSAGES =
     [(LInfo, ''Service started successfully''), (LInfo, ''Listening on configured ports''),
      (LWarn, ''High memory usage detected''), (LInfo, ''Connection received from 192.168.1.1''),
      (LError, ''Connection timeout''), (LInfo, ''Configuration reloaded''),
      (LWarn, ''Disk space warning''), (LInfo, ''Health check passed'')]"

section \<open>Service operations\<close>

definition change_service :: "string \<Rightarrow> (Service \<Rightarrow> Service) \<Rightarrow> Service list \<Rightarrow> Service list" where
  "change_service n f ss = update_first (\<lambda>s. sv_name s = n) f ss"

definition started_metrics :: "rat \<Rightarrow> rat \<Rightarrow> rat \<Rightarrow> ServiceMetrics" where
  "started_metrics r1 r2 r3 = metrics_of (r1 * 5) (r2 * 200 + 50) ''1s'' (\<lfloor>r3 * 30000\<rfloor> + 1000) []"

definition startService :: "string \<Rightarrow> rat \<Rightarrow> rat \<Rightarrow> rat \<Rightarrow> Service list \<Rightarrow> Service list" where
  "startService n r1 r2 r3 =
     change_service n (\<lambda>s. s\<lparr>sv_status := Active, sv_metrics := Some (started_metrics r1 r2 r3)\<rparr>)"

definition stopService :: "string \<Rightarrow> Service list \<Rightarrow> Service list" where
  "stopService n =
     change_service n (\<lambda>s. s\<lparr>sv_status := Inactive, sv_metrics := Some (metrics_of 0 0 ''0s'' 0 [])\<rparr>)"

definition restartService :: "string \<Rightarrow> Service list \<Rightarrow> Service list" where
  "restartService n ss = ss"

definition reloadService :: "string \<Rightarrow> Service list \<Rightarrow> Service list" where
  "reloadService n ss = ss"

definition enableService :: "string \<Rightarrow> Service list \<Rightarrow> Service list" where
  "enableService n = change_service n (\<lambda>s. s\<lparr>sv_bootStatus := Enabled\<rparr>)"

definition disableService :: "string \<Rightarrow> Service list \<Rightarrow> Service list" where
  "disableService n = change_service n (\<lambda>s. s\<lparr>sv_bootStatus := Disabled\<rparr>)"

text \<open>\<open>random k\<close> is the \<open>k\<close>-th random number and \<open>clock k\<close> the \<open>k\<close>-th reading of the clock.\<close>

definition service_log :: "string \<Rightarrow> (nat \<Rightarrow> rat) \<Rightarrow> (nat \<Rightarrow> int) \<Rightarrow> nat \<Rightarrow> ServiceLog" where
  "service_log n random clk i =
     (let (level, message) = LOG_MESSAGES ! nat \<lfloor>random i * 8\<rfloor> in
      \<lparr>sl_timestamp = iso_string (clk i - int i * 60000), sl_level = level,
       sl_message = ''['' @ n @ ''] '' @ message\<rparr>)"

fun log_loop ::
  "string \<Rightarrow> (nat \<Rightarrow> rat) \<Rightarrow> (nat \<Rightarrow> int) \<Rightarrow> nat \<Rightarrow> nat \<Rightarrow> ServiceLog list \<Rightarrow> ServiceLog list" where
  "log_loop n random clk i 0 logs = logs"
| "log_loop n random clk i (Suc k) logs =
     log_loop n random clk (Suc i) k (logs @ [service_log n random clk i])"

definition getLogs :: "string \<Rightarrow> nat \<Rightarrow> (nat \<Rightarrow> rat) \<Rightarrow> (nat \<Rightarrow> int) \<Rightarrow> ServiceLog list" where
  "getLogs n ls random clk = rev (log_loop n random clk 0 ls [])"

section \<open>Packages\<close>

definition PACKAGES :: "ServicePackage list" where
  "PACKAGES =
     [\<lparr>sp_name = ''nginx'', sp_version = ''1.24.0'',
       sp_description = ''High Performance, Web Server, Reverse Proxy'', sp_repo = ''official/nginx'',
       sp_size = ''2.4 MB''\<rparr>,
      \<lparr>sp_name = ''redis'', sp_version = ''7.2.3'', sp_description = ''Persistent key-value database'',
       sp_repo = ''official/redis'', sp_size = ''3.1 MB''\<rparr>,
      \<lparr>sp_name = ''postgresql'', sp_version = ''16.1'', sp_description = ''Object-relational database system'',
       sp_repo = ''official/postgres'', sp_size = ''14.5 MB''\<rparr>,
      \<lparr>sp_name = ''nodejs'', sp_version = ''20.10.0'', sp_description = ''JavaScript Runtime'',
       sp_repo = ''official/node'', sp_size = ''24 MB''\<rparr>,
      \<lparr>sp_name = ''docker'', sp_version = ''24.0.7'', sp_description = ''Container Engine'',
       sp_repo = ''official/docker-ce'', sp_size = ''65 MB''\<rparr>]"

text \<open>Only the first \<open>resolve\<close> of a promise counts.\<close>

definition searchPackages :: "string \<Rightarrow> ServicePackage list" where
  "searchPackages query =
     (if query = [] then PACKAGES else filter (\<lambda>p. str_includes (sp_name p) (lower query)) PACKAGES)"

definition field_of ::
  "string \<Rightarrow> string \<Rightarrow> field_type \<Rightarrow> json option \<Rightarrow> bool option \<Rightarrow> config_field" where
  "field_of k l t d r = \<lparr>cg_key = k, cg_label = l, cg_type = t, cg_defaultValue = d, cg_required = r\<rparr>"

definition getTemplate :: "string \<Rightarrow> ServiceTemplate" where
  "getTemplate pkgName =
     (if str_includes pkgName ''nginx'' then
        \<lparr>st_id = ''nginx'', st_name = ''Nginx'', st_description = ''Web Server'', st_category = web_server,
         st_defaultPort = Some 80,
         st_configFields =
           [field_of ''port'' ''Listen Port'' FNumber (Some (JNum 80)) (Some True),
            field_of ''worker_processes'' ''Worker Processes'' FNumber (Some (JStr ''auto'')) None,
            field_of ''enable_ssl'' ''Enable SSL (Self-signed)'' FBoolean (Some (JBool False)) None]\<rparr>
      else if str_includes pkgName ''mysql'' \<or> str_includes pkgName ''postgre'' then
        \<lparr>st_id = ''db'', st_name = ''Database'', st_description = ''SQL Database'', st_category = database,
         st_defaultPort = Some 5432,
         st_configFields =
           [field_of ''port'' ''Port'' FNumber (Some (JNum 5432)) (Some True),
            field_of ''data_dir'' ''Data Directory'' FText (Some (JStr ''/var/lib/data'')) None,
            field_of ''superuser_password'' ''Superuser Password'' FPassword None (Some True)]\<rparr>
      else
        \<lparr>st_id = ''generic'', st_name = ''Generic Service'', st_description = ''System Service'',
         st_category = runtime, st_defaultPort = None,
         st_configFields =
           [field_of ''auto_start'' ''Auto Start'' FBoolean (Some (JBool True)) None,
            field_of ''user'' ''Run as User'' FText (Some (JStr ''root'')) None]\<rparr>)"

type_synonym config = "(string \<times> json) list"

definition config_port :: "config \<Rightarrow> json option" where
  "config_port cfg = map_of cfg ''port''"

definition simulateDryRun :: "ServicePackage \<Rightarrow> config \<Rightarrow> DryRunResult" where
  "simulateDryRun pkg cfg =
     \<lparr>dr_diskUsage = sp_size pkg,
      dr_newPorts = (if truthy (config_port cfg) then [js_number (config_port cfg)] else []),
      dr_dependencies = [''openssl'', ''libc6'', ''systemd''],
      dr_commands =
        [''apt-get update'',
         ''apt-get install -y '' @ sp_name pkg @ ''='' @ sp_version pkg,
         ''systemctl enable '' @ sp_name pkg,
         ''# Applying config: '' @ json_text (JObj cfg)]\<rparr>"

subsection \<open>Installing\<close>

definition install_steps :: "ServicePackage \<Rightarrow> InstallLog list" where
  "install_steps pkg =
     [\<lparr>il_step = ''Initializing'', il_status = running, il_detail = ''Checking system compatibility...''\<rparr>,
      \<lparr>il_step = ''Downloading'', il_status = running,
       il_detail = ''Pulling '' @ sp_name pkg @ '' from '' @ sp_repo pkg @ ''...''\<rparr>,
      \<lparr>il_step = ''Verifying'', il_status = running, il_detail = ''Verifying package checksum...''\<rparr>,
      \<lparr>il_step = ''Installing'', il_status = running, il_detail = ''Unpacking and configuring...''\<rparr>,
      \<lparr>il_step = ''Configuring'', il_status = running, il_detail = ''Applying template settings...''\<rparr>,
      \<lparr>il_step = ''Starting'', il_status = running, il_detail = ''Starting service...''\<rparr>,
      \<lparr>il_step = ''Completed'', il_status = completed, il_detail = ''Service is ready.''\<rparr>]"

definition installed_service :: "ServicePackage \<Rightarrow> config \<Rightarrow> Service" where
  "installed_service pkg cfg =
     \<lparr>sv_name = sp_name pkg, sv_description = sp_description pkg, sv_status = Active,
      sv_bootStatus = Enabled,
      sv_unitFile = ''/usr/lib/systemd/system/'' @ sp_name pkg @ ''.service'',
      sv_execStart = ''/usr/bin/'' @ sp_name pkg, sv_dependencies = [],
      sv_metrics = Some \<lparr>sm_cpu = 1, sm_memory = 100, sm_uptime = ''0s'', sm_pid = 9999,
        sm_openPorts = (if truthy (config_port cfg) then [the (config_port cfg)] else [])\<rparr>\<rparr>"

text \<open>The interval's variables, the steps reported so far, and whether the promise is settled.\<close>

record install_run =
  ir_i :: nat
  ir_cleared :: bool
  ir_progress :: "InstallLog list"
  ir_services :: "Service list"

definition install_start :: "Service list \<Rightarrow> install_run" where
  "install_start ss = \<lparr>ir_i = 0, ir_cleared = False, ir_progress = [], ir_services = ss\<rparr>"

definition install_tick :: "ServicePackage \<Rightarrow> config \<Rightarrow> install_run \<Rightarrow> install_run" where
  "install_tick pkg cfg r =
     (if ir_cleared r then r
      else if ir_i r \<ge> length (install_steps pkg)
      then r\<lparr>ir_cleared := True, ir_services := ir_services r @ [installed_service pkg cfg]\<rparr>
      else r\<lparr>ir_progress := ir_progress r @ [install_steps pkg ! ir_i r], ir_i := Suc (ir_i r)\<rparr>)"

section \<open>Properties\<close>

text \<open>
  Starting, stopping, enabling and disabling change the one service named and nothing else:
  a started service is active with a process number from 1000 to 30999, a stopped one inactive
  with no load, and only the boot flag follows enabling and disabling.
\<close>

theorem service_switched:
  assumes "0 \<le> r3" "r3 < 1"
  shows "lookup sv_name k (startService n r1 r2 r3 ss)
       = (if k = n then map_option (\<lambda>s. s\<lparr>sv_status := Active,
            sv_metrics := Some (started_metrics r1 r2 r3)\<rparr>) (lookup sv_name k ss)
          else lookup sv_name k ss) \<and>
    1000 \<le> sm_pid (started_metrics r1 r2 r3) \<and> sm_pid (started_metrics r1 r2 r3) < 31000 \<and>
    map_option sv_status (lookup sv_name k (stopService n (startService n r1 r2 r3 ss)))
       = (if k = n then map_option (\<lambda>s. Inactive) (lookup sv_name k ss)
          else map_option sv_status (lookup sv_name k ss)) \<and>
    lookup sv_name k (disableService n (enableService n ss))
       = (if k = n then map_option (\<lambda>s. s\<lparr>sv_bootStatus := Disabled\<rparr>) (lookup sv_name k ss)
          else lookup sv_name k ss) \<and>
    map sv_name (startService n r1 r2 r3 ss) = map sv_name ss"
proof (intro conjI)
  note look = lookup_update [of sv_name n]
  show "lookup sv_name k (startService n r1 r2 r3 ss)
       = (if k = n then map_option (\<lambda>s. s\<lparr>sv_status := Active,
            sv_metrics := Some (started_metrics r1 r2 r3)\<rparr>) (lookup sv_name k ss)
          else lookup sv_name k ss)"
    by (simp add: startService_def change_service_def look)
  show "1000 \<le> sm_pid (started_metrics r1 r2 r3)"
    using assms(1) by (simp add: started_metrics_def metrics_of_def)
  have "r3 * 30000 < 30000" using assms(2) by simp
  then have "\<lfloor>r3 * 30000\<rfloor> < 30000" by linarith
  then show "sm_pid (started_metrics r1 r2 r3) < 31000"
    by (simp add: started_metrics_def metrics_of_def)
  show "map_option sv_status (lookup sv_name k (stopService n (startService n r1 r2 r3 ss)))
       = (if k = n then map_option (\<lambda>s. Inactive) (lookup sv_name k ss)
          else map_option sv_status (lookup sv_name k ss))"
    by (simp add: stopService_def startService_def change_service_def look option.map_comp comp_def)
  show "lookup sv_name k (disableService n (enableService n ss))
       = (if k = n then map_option (\<lambda>s. s\<lparr>sv_bootStatus := Disabled\<rparr>) (lookup sv_name k ss)
          else lookup sv_name k ss)"
    by (simp add: disableService_def enableService_def change_service_def look option.map_comp comp_def)
  show "map sv_name (startService n r1 r2 r3 ss) = map sv_name ss"
    by (simp add: startService_def change_service_def map_update_first)
qed

theorem service_switched_witness:
  "map_option sv_status (lookup sv_name ''firewalld''
       (startService ''firewalld'' (1 / 2) (1 / 2) (1 / 2) MOCK_SERVICES)) = Some Active \<and>
   sm_pid (started_metrics (1 / 2) (1 / 2) (1 / 2)) < 31000"
proof -
  have h: "0 \<le> (1 / 2 :: rat)" "(1 / 2 :: rat) < 1" by simp_all
  have "lookup sv_name ''firewalld'' MOCK_SERVICES \<noteq> None"
    by (simp add: lookup_def MOCK_SERVICES_def service_of_def)
  with service_switched [OF h, of "''firewalld''" "''firewalld''" "1 / 2" "1 / 2" MOCK_SERVICES]
  show ?thesis by auto
qed

lemma install_ticks:
  "n \<le> 7 \<Longrightarrow> (install_tick pkg cfg ^^ n) (install_start ss)
     = \<lparr>ir_i = n, ir_cleared = False, ir_progress = take n (install_steps pkg), ir_services = ss\<rparr>"
proof (induction n)
  case (Suc n)
  have "n < length (install_steps pkg)" using Suc.prems by (simp add: install_steps_def)
  with Suc show ?case by (simp add: install_tick_def take_Suc_conv_app_nth)
qed (simp add: install_start_def)

text \<open>
  An installation reports its seven steps once each and in order, one per tick of its timer,
  and the eighth tick adds the service, exactly once, however often the timer fires after that.
\<close>

theorem install_progress:
  "ir_progress ((install_tick pkg cfg ^^ n) (install_start ss)) = take n (install_steps pkg) \<and>
   ir_services ((install_tick pkg cfg ^^ n) (install_start ss))
     = ss @ (if n < 8 then [] else [installed_service pkg cfg]) \<and>
   (ir_cleared ((install_tick pkg cfg ^^ n) (install_start ss)) \<longleftrightarrow> 8 \<le> n)"
proof (cases "n \<le> 7")
  case True
  then show ?thesis by (simp add: install_ticks)
next
  case False
  let ?r = "\<lparr>ir_i = 7, ir_cleared = True, ir_progress = install_steps pkg,
    ir_services = ss @ [installed_service pkg cfg]\<rparr>"
  have len: "length (install_steps pkg) = 7" by (simp add: install_steps_def)
  have r: "(install_tick pkg cfg ^^ k) ?r = ?r" for k
    by (induction k) (simp_all add: install_tick_def)
  have "(install_tick pkg cfg ^^ Suc 7) (install_start ss)
      = install_tick pkg cfg ((install_tick pkg cfg ^^ 7) (install_start ss))"
    by (simp only: funpow.simps comp_apply)
  also have "\<dots> = ?r" using len by (simp add: install_ticks install_tick_def del: funpow.simps)
  finally have e: "(install_tick pkg cfg ^^ Suc 7) (install_start ss) = ?r" .
  have "n = (n - Suc 7) + Suc 7" using False by simp
  then have "(install_tick pkg cfg ^^ n) (install_start ss)
      = (install_tick pkg cfg ^^ (n - Suc 7)) ((install_tick pkg cfg ^^ Suc 7) (install_start ss))"
    by (metis funpow_add comp_apply)
  then have "(install_tick pkg cfg ^^ n) (install_start ss) = ?r" by (simp only: e r)
  with False len show ?thesis by simp
qed

end
