(* ===== verification/Onboarding.thy ===== *)
theory Onboarding
  imports JsPrelude Machine
begin

text \<open>
  \<open>features/servers/pages/modules/shared/mockOnboardingService.ts\<close>: the onboarding of a server.
  A run of the pipeline is the list of its actions; between two of them that are separated by
  an \<open>await\<close> other runs may act on the same session. The clock's readings are an argument.
\<close>

section \<open>Data\<close>

datatype ServerOnboardingStatus =
  PENDING | CONNECTING | AGENT_INSTALLING | VERIFYING | SYNCING | ACTIVE | FAILED

datatype OnboardingStepId = connection_test | agent_install | verify | sync_resources | complete

datatype StepStatus = pending | running | success | error | skipped

record OnboardingStep =
  os_id :: OnboardingStepId
  os_label :: string
  os_description :: string
  os_status :: StepStatus
  os_startedAt :: "int option"
  os_completedAt :: "int option"
  os_errorMessage :: "string option"

datatype level = info | warn | err | good | cmd

record OnboardingLogEntry =
  le_ts :: int
  le_level :: level
  le_message :: string

record DetectedSystemInfo =
  si_hostname :: string
  si_os :: string
  si_kernel :: string
  si_arch :: string
  si_cpu :: string
  si_cpuCores :: nat
  si_ramGb :: nat
  si_diskGb :: nat
  si_hasDocker :: bool
  si_dockerVersion :: "string option"
  si_hasKubernetes :: bool
  si_k8sVersion :: "string option"
  si_agentVersion :: string

datatype os_kind = linux | windows

record OnboardingSession =
  se_id :: string
  se_serverName :: string
  se_serverIp :: string
  se_os :: os_kind
  se_mode :: string
  se_overallStatus :: ServerOnboardingStatus
  se_steps :: "OnboardingStep list"
  se_logs :: "OnboardingLogEntry list"
  se_sysInfo :: "DetectedSystemInfo option"
  se_startedAt :: int
  se_completedAt :: "int option"

record OnboardingConfig =
  oc_serverName :: string
  oc_ip :: string
  oc_os :: os_kind
  oc_mode :: string

definition pending_step :: "OnboardingStepId \<Rightarrow> string \<Rightarrow> string \<Rightarrow> OnboardingStep" where
  "pending_step i l d = \<lparr>os_id = i, os_label = l, os_description = d, os_status = pending,
     os_startedAt = None, os_completedAt = None, os_errorMessage = None\<rparr>"

definition buildInitialSteps :: "os_kind \<Rightarrow> OnboardingStep list" where
  "buildInitialSteps os =
     [pending_step connection_test ''Test Connectivity'' ''Verify network reach + SSH/WinRM handshake'',
      pending_step agent_install ''Install Agent''
        (if os = linux then ''Deploy EINFRA agent via SSH bootstrap script''
         else ''Deploy EINFRA agent via WinRM PowerShell''),
      pending_step verify ''Verify Heartbeat'' ''Confirm agent is alive and reporting back'',
      pending_step sync_resources ''Sync Resources'' ''Collect system info, detect Docker & Kubernetes'',
      pending_step complete ''Node Ready'' ''Server registered and active in cluster'']"

definition createSession :: "int \<Rightarrow> int \<Rightarrow> OnboardingConfig \<Rightarrow> OnboardingSession" where
  "createSession now1 now2 c =
     \<lparr>se_id = ''session_'' @ show_int now1, se_serverName = oc_serverName c, se_serverIp = oc_ip c,
      se_os = oc_os c, se_mode = oc_mode c, se_overallStatus = PENDING,
      se_steps = buildInitialSteps (oc_os c), se_logs = [], se_sysInfo = None,
      se_startedAt = now2, se_completedAt = None\<rparr>"

section \<open>The actions of a run\<close>

text \<open>
  \<open>Overall\<close> assigns the overall status, which the observer sees with the next update;
  \<open>SetStep\<close> and \<open>Push\<close> update the session and notify; \<open>Await\<close> gives way for some
  milliseconds; \<open>Finish\<close> is the final assignment.
\<close>

datatype action =
    Overall ServerOnboardingStatus
  | SetStep OnboardingStepId StepStatus
  | Push level string
  | Await nat
  | Finish

text \<open>The bytes of the tick, the long dash and the box-drawing dash.\<close>

definition tick :: string where
  "tick = [CHR 0xE2, CHR 0x9C, CHR 0x93]"

definition em_dash :: string where
  "em_dash = [CHR 0xE2, CHR 0x80, CHR 0x94]"

definition box_dash :: string where
  "box_dash = [CHR 0xE2, CHR 0x94, CHR 0x80]"

definition step1 :: "string \<Rightarrow> action list" where
  "step1 ip =
     [Overall CONNECTING,
      SetStep connection_test running,
      Push info (''Initiating TCP connection to '' @ ip @ '':22 ...''),
      Await 700,
      Push cmd (''nc -zv '' @ ip @ '' 22''),
      Await 800,
      Push info (''TCP port open '' @ em_dash @ '' handshake accepted''),
      Await 400,
      Push cmd (''ssh -o ConnectTimeout=10 root@'' @ ip @ '' '' @ [CHR 0x27] @ ''echo OK'' @ [CHR 0x27]),
      Await 900,
      Push good (''SSH authentication successful '' @ tick),
      Await 300,
      Push info ''Checking sudo privileges ...'',
      Await 500,
      Push good (''Sudo access confirmed (NOPASSWD) '' @ tick),
      SetStep connection_test success]"

definition install_script :: "os_kind \<Rightarrow> string" where
  "install_script os =
     (if os = linux then ''curl -sSL https://get.einfra.io/agent | sudo bash -s -- --token $TOKEN''
      else ''iex ((New-Object System.Net.WebClient).DownloadString('' @ dquote @
           ''https://get.einfra.io/agent.ps1'' @ dquote @ ''))'')"

definition step2 :: "os_kind \<Rightarrow> string \<Rightarrow> action list" where
  "step2 os ip =
     [Overall AGENT_INSTALLING,
      SetStep agent_install running,
      Push info ''Uploading bootstrap installer...'',
      Await 600,
      Push cmd (''scp /tmp/einfra-bootstrap.sh root@'' @ ip @ '':/tmp/''),
      Await 700,
      Push info ''Running bootstrap installer on remote...'',
      Await 300,
      Push cmd (install_script os),
      Await 1200,
      Push info ''[remote] Detecting package manager: apt'',
      Await 400,
      Push info ''[remote] Updating package index...'',
      Await 900,
      Push cmd ''[remote] apt-get install -y einfra-agent=2.4.1'',
      Await 1100,
      Push info ''[remote] Enabling einfra-agent.service'',
      Await 500,
      Push cmd ''[remote] systemctl enable --now einfra-agent'',
      Await 600,
      Push good (''Agent v2.4.1 installed and started '' @ tick),
      SetStep agent_install success]"

definition step3 :: "action list" where
  "step3 =
     [Overall VERIFYING,
      SetStep verify running,
      Push info ''Waiting for agent heartbeat on control plane...'',
      Await 800,
      Push info ''Polling /v1/agents/heartbeat ...'',
      Await 700,
      Push info ''Heartbeat received (latency: 12ms)'',
      Await 400,
      Push info ''Verifying agent token signature ...'',
      Await 500,
      Push good (''Heartbeat verified '' @ em_dash @ '' agent is reporting '' @ tick),
      SetStep verify success]"

definition step4 :: "action list" where
  "step4 =
     [Overall SYNCING,
      SetStep sync_resources running,
      Push info ''Collecting system information...'',
      Await 500,
      Push cmd ''[agent] uname -a'',
      Await 400,
      Push info ''[agent] Linux prod-db-01 5.15.0-107-generic #117-Ubuntu SMP'',
      Await 300,
      Push cmd (''[agent] lscpu | grep -E '' @ dquote @ ''Model|CPU'' @ [CHR 0x5C] @ ''(s'' @ [CHR 0x5C] @ '')'' @ dquote),
      Await 500,
      Push info (''[agent] CPU: Intel(R) Xeon(R) Gold 6226R CPU @ 2.90GHz '' @ em_dash @ '' 16 cores''),
      Await 400,
      Push cmd ''[agent] free -g'',
      Await 400,
      Push info ''[agent] Memory: 64 GB total, 41 GB available'',
      Await 400,
      Push cmd ''[agent] df -h /'',
      Await 400,
      Push info ''[agent] Disk: 400 GB total, 128 GB used'',
      Await 300,
      Push info ''Detecting container runtimes...'',
      Await 600,
      Push cmd ''[agent] docker version --format json'',
      Await 700,
      Push good (''[agent] Docker Engine v24.0.7 detected '' @ tick),
      Await 300,
      Push cmd ''[agent] kubectl version --client --short 2>/dev/null'',
      Await 700,
      Push warn (''[agent] kubectl not found '' @ em_dash @ '' Kubernetes not detected''),
      Await 400,
      Push info ''Registering node into cluster inventory...'',
      Await 600,
      Push good (''Resource sync complete '' @ tick),
      SetStep sync_resources success]"

definition step5 :: "string \<Rightarrow> string \<Rightarrow> action list" where
  "step5 name ip =
     [SetStep complete running,
      Await 400,
      Push info ''Writing node registration to database...'',
      Await 500,
      Push good (''Node '' @ dquote @ name @ dquote @ '' ('' @ ip @ '') is now ACTIVE '' @ tick),
      SetStep complete success,
      Finish]"

definition pipeline :: "OnboardingSession \<Rightarrow> action list" where
  "pipeline s =
     step1 (se_serverIp s) @ step2 (se_os s) (se_serverIp s) @ step3 @ step4 @
     step5 (se_serverName s) (se_serverIp s)"

section \<open>The effect of an action\<close>

definition setStep ::
  "int \<Rightarrow> OnboardingStepId \<Rightarrow> StepStatus \<Rightarrow> string option \<Rightarrow> OnboardingSession \<Rightarrow> OnboardingSession" where
  "setStep now i st errorMessage s =
     s\<lparr>se_steps := map (\<lambda>p. if os_id p = i
         then p\<lparr>os_status := st,
                os_startedAt := (if st = running then Some now else os_startedAt p),
                os_completedAt := (if st = success \<or> st = error then Some now else os_completedAt p),
                os_errorMessage := (if truthy_str errorMessage then errorMessage else os_errorMessage p)\<rparr>
         else p) (se_steps s)\<rparr>"

definition push :: "int \<Rightarrow> level \<Rightarrow> string \<Rightarrow> OnboardingSession \<Rightarrow> OnboardingSession" where
  "push now l m s = s\<lparr>se_logs := se_logs s @ [\<lparr>le_ts = now, le_level = l, le_message = m\<rparr>]\<rparr>"

definition detected :: "string \<Rightarrow> DetectedSystemInfo" where
  "detected name =
     \<lparr>si_hostname = name, si_os = ''Ubuntu 22.04 LTS'', si_kernel = ''5.15.0-107-generic'',
      si_arch = ''x86_64'', si_cpu = ''Intel Xeon Gold 6226R @ 2.90GHz'', si_cpuCores = 16,
      si_ramGb = 64, si_diskGb = 400, si_hasDocker = True, si_dockerVersion = Some ''v24.0.7'',
      si_hasKubernetes = False, si_k8sVersion = None, si_agentVersion = ''2.4.1''\<rparr>"

fun act :: "int \<Rightarrow> action \<Rightarrow> OnboardingSession \<Rightarrow> OnboardingSession" where
  "act now (Overall st) s = s\<lparr>se_overallStatus := st\<rparr>"
| "act now (SetStep i st) s = setStep now i st None s"
| "act now (Push l m) s = push now l m s"
| "act now (Await ms) s = s"
| "act now Finish s =
     s\<lparr>se_overallStatus := ACTIVE, se_completedAt := Some now,
       se_sysInfo := Some (detected (se_serverName s))\<rparr>"

text \<open>The states after each action of a list.\<close>

fun run_actions :: "(nat \<Rightarrow> int) \<Rightarrow> nat \<Rightarrow> action list \<Rightarrow> OnboardingSession \<Rightarrow> OnboardingSession list" where
  "run_actions clk k [] s = []"
| "run_actions clk k (a # as) s = act (clk k) a s # run_actions clk (Suc k) as (act (clk k) a s)"

definition step_text :: "OnboardingStepId \<Rightarrow> string" where
  "step_text i = (case i of connection_test \<Rightarrow> ''connection_test'' | agent_install \<Rightarrow> ''agent_install''
     | verify \<Rightarrow> ''verify'' | sync_resources \<Rightarrow> ''sync_resources'' | complete \<Rightarrow> ''complete'')"

text \<open>
  \<open>retryFromStep\<close> up to its call of \<open>startOnboarding\<close>: the steps from the one named on are
  reset, and a line is logged. \<open>found\<close> is the variable its loop carries.
\<close>

fun reset_steps :: "OnboardingStepId \<Rightarrow> bool \<Rightarrow> OnboardingStep list \<Rightarrow> OnboardingStep list" where
  "reset_steps from found [] = []"
| "reset_steps from found (p # ps) =
     (let found' = (os_id p = from \<or> found) in
      (if found' then p\<lparr>os_status := pending, os_errorMessage := None\<rparr> else p) #
      reset_steps from found' ps)"

definition retry_reset :: "int \<Rightarrow> OnboardingStepId \<Rightarrow> OnboardingSession \<Rightarrow> OnboardingSession" where
  "retry_reset now from s =
     push now warn
       (box_dash @ box_dash @ box_dash @ '' Retrying from: '' @
        upper (replace_first_char (CHR ''_'') (CHR '' '') (step_text from)) @ '' '' @
        box_dash @ box_dash @ box_dash)
       (s\<lparr>se_steps := reset_steps from False (se_steps s), se_overallStatus := CONNECTING\<rparr>)"

section \<open>The service\<close>

text \<open>
  The sessions of the service, and for each the runs still under way. Any run may take its next
  action at any moment: the steps over-approximate the interleavings of the code, where a run
  gives way only at an \<open>await\<close>.
\<close>

record onboarding_state =
  ob_session :: OnboardingSession
  ob_runs :: "action list list"
  ob_started :: nat

definition startOnboarding ::
  "string \<Rightarrow> (string \<rightharpoonup> onboarding_state) \<Rightarrow> string + (string \<rightharpoonup> onboarding_state)" where
  "startOnboarding sid ss =
     (case ss sid of
        None \<Rightarrow> Inl ''Session not found''
      | Some ob \<Rightarrow> Inr (ss(sid \<mapsto> ob\<lparr>ob_runs := ob_runs ob @ [pipeline (ob_session ob)],
                                 ob_started := Suc (ob_started ob)\<rparr>)))"

definition retryFromStep ::
  "int \<Rightarrow> string \<Rightarrow> OnboardingStepId \<Rightarrow> (string \<rightharpoonup> onboarding_state) \<Rightarrow> string + (string \<rightharpoonup> onboarding_state)" where
  "retryFromStep now sid from ss =
     (case ss sid of
        None \<Rightarrow> Inl ''Session not found''
      | Some ob \<Rightarrow> startOnboarding sid (ss(sid \<mapsto> ob\<lparr>ob_session := retry_reset now from (ob_session ob)\<rparr>)))"

definition addSession ::
  "int \<Rightarrow> int \<Rightarrow> OnboardingConfig \<Rightarrow> (string \<rightharpoonup> onboarding_state) \<Rightarrow> (string \<rightharpoonup> onboarding_state)" where
  "addSession now1 now2 c ss =
     (let s = createSession now1 now2 c in
      ss(se_id s \<mapsto> \<lparr>ob_session = s, ob_runs = [], ob_started = 0\<rparr>))"

inductive service_step ::
  "(string \<rightharpoonup> onboarding_state) \<Rightarrow> (string \<rightharpoonup> onboarding_state) \<Rightarrow> bool" where
  creates: "service_step ss (addSession now1 now2 c ss)"
| starts: "startOnboarding sid ss = Inr ss' \<Longrightarrow> service_step ss ss'"
| retries: "retryFromStep now sid from ss = Inr ss' \<Longrightarrow> service_step ss ss'"
| acts: "ss sid = Some ob \<Longrightarrow> i < length (ob_runs ob) \<Longrightarrow> ob_runs ob ! i = a # rest \<Longrightarrow>
    service_step ss (ss(sid \<mapsto> ob\<lparr>ob_session := act now a (ob_session ob), ob_runs := (ob_runs ob)[i := rest]\<rparr>))"

abbreviation service_reachable :: "(string \<rightharpoonup> onboarding_state) \<Rightarrow> bool" where
  "service_reachable \<equiv> reached service_step Map.empty"

section \<open>One run\<close>

definition step_ids :: "OnboardingStepId list" where
  "step_ids = [connection_test, agent_install, verify, sync_resources, complete]"

definition statuses :: "OnboardingSession \<Rightarrow> StepStatus list" where
  "statuses s = map os_status (se_steps s)"

text \<open>What a list of actions does to the statuses alone, and the lines it logs.\<close>

fun set_status :: "OnboardingStepId list \<Rightarrow> action \<Rightarrow> StepStatus list \<Rightarrow> StepStatus list" where
  "set_status ids (SetStep i st) ss = map2 (\<lambda>j s. if j = i then st else s) ids ss"
| "set_status ids a ss = ss"

fun status_trace :: "OnboardingStepId list \<Rightarrow> action list \<Rightarrow> StepStatus list \<Rightarrow> StepStatus list list" where
  "status_trace ids [] ss = []"
| "status_trace ids (a # as) ss = set_status ids a ss # status_trace ids as (set_status ids a ss)"

definition pushed :: "action list \<Rightarrow> (level \<times> string) list" where
  "pushed as = concat (map (\<lambda>a. case a of Push l m \<Rightarrow> [(l, m)] | _ \<Rightarrow> []) as)"

definition logged :: "OnboardingSession \<Rightarrow> (level \<times> string) list" where
  "logged s = map (\<lambda>e. (le_level e, le_message e)) (se_logs s)"

lemma act_ids [simp]: "map os_id (se_steps (act now a s)) = map os_id (se_steps s)"
  by (cases a) (auto simp: setStep_def push_def)

lemma act_statuses: "statuses (act now a s) = set_status (map os_id (se_steps s)) a (statuses s)"
  by (cases a) (auto simp: statuses_def setStep_def push_def zip_map1 zip_map2 comp_def
      zip_same_conv_map intro: map_cong)

lemma act_logged: "logged (act now a s) = logged s @ pushed [a]"
  by (cases a) (auto simp: logged_def pushed_def setStep_def push_def)

lemma run_statuses:
  "map os_id (se_steps s) = ids \<Longrightarrow> map statuses (run_actions clk k as s) = status_trace ids as (statuses s)"
proof (induction clk k as s rule: run_actions.induct)
  case (2 clk k a as s)
  then have "map statuses (run_actions clk (Suc k) as (act (clk k) a s))
      = status_trace ids as (statuses (act (clk k) a s))" by simp
  with 2 show ?case by (simp add: act_statuses)
qed simp

definition final :: "(nat \<Rightarrow> int) \<Rightarrow> action list \<Rightarrow> OnboardingSession \<Rightarrow> OnboardingSession" where
  "final clk as s = last (s # run_actions clk 0 as s)"

text \<open>The abstract progress of a run: steps done, at most one running, the rest pending.\<close>

fun in_order :: "StepStatus list \<Rightarrow> bool" where
  "in_order [] = True"
| "in_order (success # ss) = in_order ss"
| "in_order (running # ss) = list_all (\<lambda>s. s = pending) ss"
| "in_order (pending # ss) = list_all (\<lambda>s. s = pending) ss"
| "in_order (_ # ss) = False"

lemma pipeline_trace:
  "status_trace step_ids (pipeline s) [pending, pending, pending, pending, pending] = tr \<Longrightarrow>
     list_all in_order tr"
  by (hypsubst, simp add: pipeline_def step1_def step2_def step3_def step4_def step5_def step_ids_def)

lemma pipeline_last:
  "length ss = 5 \<Longrightarrow> last (status_trace step_ids (pipeline s) ss) = [success, success, success, success, success]"
  by (auto simp: pipeline_def step1_def step2_def step3_def step4_def step5_def step_ids_def
      length_Suc_conv eval_nat_numeral)

lemma run_actions_append:
  "run_actions clk k (as @ bs) s
     = run_actions clk k as s @ run_actions clk (k + length as) bs (last (s # run_actions clk k as s))"
  by (induction clk k as s rule: run_actions.induct) auto

lemma final_statuses:
  "map os_id (se_steps s) = step_ids \<Longrightarrow> as \<noteq> [] \<Longrightarrow>
     statuses (final clk as s) = last (status_trace step_ids as (statuses s))"
proof -
  assume ids: "map os_id (se_steps s) = step_ids" and "as \<noteq> []"
  then have ne: "run_actions clk 0 as s \<noteq> []" by (cases as) simp_all
  then have "statuses (final clk as s) = last (map statuses (run_actions clk 0 as s))"
    by (simp add: final_def last_map)
  then show ?thesis by (simp only: run_statuses [OF ids])
qed

lemma logged_run: "logged (last (s # run_actions clk k as s)) = logged s @ pushed as"
proof (induction clk k as s rule: run_actions.induct)
  case (2 clk k a as s)
  then show ?case by (simp add: act_logged pushed_def split: if_splits)
qed (simp add: pushed_def)

lemma final_Finish: "final clk (as @ [Finish]) s = act (clk (length as)) Finish (final clk as s)"
  by (simp add: final_def run_actions_append)

lemma pipeline_Finish: "\<exists>as. pipeline s = as @ [Finish]"
  by (simp add: pipeline_def step5_def)

lemma five_statuses: "map os_id (se_steps s) = step_ids \<Longrightarrow> length (statuses s) = 5"
  by (drule arg_cong [of _ _ length]) (simp add: statuses_def step_ids_def)

lemma final_pipeline:
  assumes "map os_id (se_steps s) = step_ids"
  shows "statuses (final clk (pipeline s) s) = replicate 5 success \<and>
    se_overallStatus (final clk (pipeline s) s) = ACTIVE \<and> se_completedAt (final clk (pipeline s) s) \<noteq> None \<and>
    logged (final clk (pipeline s) s) = logged s @ pushed (pipeline s)"
proof -
  obtain as where as: "pipeline s = as @ [Finish]" using pipeline_Finish by blast
  have "pipeline s \<noteq> []" by (simp add: as)
  from final_statuses [OF assms this]
  have "statuses (final clk (pipeline s) s) = replicate 5 success"
    by (simp only: pipeline_last [OF five_statuses [OF assms]]) (simp add: eval_nat_numeral)
  moreover have "logged (final clk (pipeline s) s) = logged s @ pushed (pipeline s)"
    unfolding final_def by (rule logged_run)
  ultimately show ?thesis by (simp add: as final_Finish)
qed

lemma created_steps: "map os_id (se_steps (createSession n1 n2 c)) = step_ids"
  by (simp add: createSession_def buildInitialSteps_def pending_step_def step_ids_def)

lemma created_statuses: "statuses (createSession n1 n2 c) = [pending, pending, pending, pending, pending]"
  by (simp add: createSession_def buildInitialSteps_def pending_step_def statuses_def)

text \<open>
  The onboarding of a new session goes through its steps in order: at every moment some steps
  have succeeded, at most one is running and all after it are pending. It ends with every step
  successful, the session active, and the log holding every line of the pipeline once, in order.
\<close>

theorem onboarding_in_order:
  "list_all (\<lambda>s. in_order (statuses s))
     (run_actions clk 0 (pipeline (createSession n1 n2 c)) (createSession n1 n2 c)) \<and>
   statuses (final clk (pipeline (createSession n1 n2 c)) (createSession n1 n2 c)) = replicate 5 success \<and>
   se_overallStatus (final clk (pipeline (createSession n1 n2 c)) (createSession n1 n2 c)) = ACTIVE \<and>
   logged (final clk (pipeline (createSession n1 n2 c)) (createSession n1 n2 c))
     = pushed (pipeline (createSession n1 n2 c))"
proof -
  let ?s = "createSession n1 n2 c"
  have "list_all in_order (map statuses (run_actions clk 0 (pipeline ?s) ?s))"
    using run_statuses [OF created_steps] pipeline_trace created_statuses by metis
  moreover have "logged ?s = []" by (simp add: logged_def createSession_def)
  ultimately show ?thesis
    using final_pipeline [OF created_steps, of clk n1 n2 c] by (simp add: list.pred_map comp_def)
qed

section \<open>Retrying\<close>

lemma reset_ids: "map os_id (reset_steps from b ps) = map os_id ps"
  by (induction ps arbitrary: b) (auto simp: Let_def)

lemma reset_all: "list_all (\<lambda>p. os_status p = pending) (reset_steps from True ps)"
  by (induction ps) auto

lemma retry_facts:
  "map os_id (se_steps (retry_reset now from s)) = map os_id (se_steps s)"
  "pipeline (retry_reset now from s) = pipeline s"
  by (simp_all add: retry_reset_def push_def reset_ids pipeline_def)

text \<open>
  Retrying from a step does not continue there: whichever step is named, the second action of
  the new run sets the connection test running again, and the whole pipeline is run and logged a
  second time, until every step has succeeded and the session is active.
\<close>

theorem retry_runs_all:
  assumes "map os_id (se_steps s) = step_ids"
  shows "hd (statuses (run_actions clk 0 (pipeline (retry_reset now from s)) (retry_reset now from s) ! 1)) = running \<and>
    statuses (final clk (pipeline (retry_reset now from s)) (retry_reset now from s)) = replicate 5 success \<and>
    se_overallStatus (final clk (pipeline (retry_reset now from s)) (retry_reset now from s)) = ACTIVE \<and>
    logged (final clk (pipeline (retry_reset now from s)) (retry_reset now from s))
      = logged (retry_reset now from s) @ pushed (pipeline s)"
proof -
  let ?r = "retry_reset now from s"
  have ids: "map os_id (se_steps ?r) = step_ids" using assms by (simp add: retry_facts)
  then obtain p ps where p: "se_steps ?r = p # ps" "os_id p = connection_test"
    using ids by (cases "se_steps ?r") (auto simp: step_ids_def)
  then have "hd (statuses (run_actions clk 0 (pipeline ?r) ?r ! 1)) = running"
    by (simp add: pipeline_def step1_def statuses_def setStep_def)
  then show ?thesis using final_pipeline [OF ids, of clk] by (simp add: retry_facts)
qed

theorem retry_runs_all_witness:
  "statuses (final (\<lambda>k. int k) (pipeline (retry_reset 5 verify (createSession 1 2
       \<lparr>oc_serverName = ''db'', oc_ip = ''10.0.0.5'', oc_os = linux, oc_mode = ''agent''\<rparr>)))
     (retry_reset 5 verify (createSession 1 2
       \<lparr>oc_serverName = ''db'', oc_ip = ''10.0.0.5'', oc_os = linux, oc_mode = ''agent''\<rparr>))) = replicate 5 success"
  using retry_runs_all [OF created_steps] by blast

section \<open>Interleaved runs\<close>

text \<open>What the rest of a run still owes: a success for a step it set otherwise, and its end.\<close>

fun owes :: "action list \<Rightarrow> bool" where
  "owes [] = True"
| "owes (a # as) = (owes as \<and> (case a of
     SetStep i st \<Rightarrow> st = success \<or> SetStep i success \<in> set as | Overall st \<Rightarrow> Finish \<in> set as | _ \<Rightarrow> True))"

lemma pipeline_owes: "owes (pipeline s)"
  by (simp add: pipeline_def step1_def step2_def step3_def step4_def step5_def)

lemma pipeline_pays: "Finish \<in> set (pipeline s)" "SetStep i success \<in> set (pipeline s)"
  by (simp_all add: pipeline_def step1_def step2_def step3_def step4_def step5_def) (cases i; simp)

definition covered :: "onboarding_state \<Rightarrow> bool" where
  "covered ob \<longleftrightarrow>
     (\<forall>p \<in> set (se_steps (ob_session ob)). os_status p = success \<or>
        (\<exists>r \<in> set (ob_runs ob). SetStep (os_id p) success \<in> set r)) \<and>
     (se_overallStatus (ob_session ob) = ACTIVE \<or> (\<exists>r \<in> set (ob_runs ob). Finish \<in> set r))"

definition onboarding_inv :: "onboarding_state \<Rightarrow> bool" where
  "onboarding_inv ob \<longleftrightarrow> map os_id (se_steps (ob_session ob)) = step_ids \<and>
     (\<forall>r \<in> set (ob_runs ob). owes r) \<and> (ob_started ob = 0 \<or> covered ob)"

lemma created_inv: "onboarding_inv \<lparr>ob_session = createSession n1 n2 c, ob_runs = [], ob_started = 0\<rparr>"
  by (simp add: onboarding_inv_def created_steps)

lemma started_inv:
  "onboarding_inv ob \<Longrightarrow>
     onboarding_inv (ob\<lparr>ob_runs := ob_runs ob @ [pipeline (ob_session ob)], ob_started := n\<rparr>)"
  by (auto simp: onboarding_inv_def covered_def pipeline_owes pipeline_pays)

lemma retried_inv:
  assumes "onboarding_inv ob"
  shows "onboarding_inv (ob\<lparr>ob_session := retry_reset now from (ob_session ob),
    ob_runs := ob_runs ob @ [pipeline (retry_reset now from (ob_session ob))], ob_started := n\<rparr>)"
  using assms by (auto simp: onboarding_inv_def covered_def retry_facts pipeline_owes pipeline_pays)

lemma kept_in_runs:
  assumes "r \<in> set runs" "x \<in> set r" "x \<noteq> a" "i < length runs" "runs ! i = a # rest"
  shows "\<exists>q \<in> set (runs[i := rest]). x \<in> set q"
proof -
  obtain k where k: "k < length runs" "runs ! k = r" using assms(1) by (auto simp: in_set_conv_nth)
  show ?thesis
  proof (cases "k = i")
    case True
    with k assms have "x \<in> set rest" by auto
    with assms(4) show ?thesis using set_update_memI by metis
  next
    case False
    with k have "r \<in> set (runs[i := rest])" by (metis length_list_update nth_list_update_neq nth_mem)
    with assms(2) show ?thesis by blast
  qed
qed

lemma acted_covered:
  assumes c: "covered ob" and i: "i < length (ob_runs ob)" "ob_runs ob ! i = a # rest" and g: "owes (a # rest)"
  shows "covered (ob\<lparr>ob_session := act now a (ob_session ob), ob_runs := (ob_runs ob)[i := rest]\<rparr>)"
    (is "covered ?ob")
proof -
  let ?R = "(ob_runs ob)[i := rest]"
  have rest: "rest \<in> set ?R" using i(1) by (rule set_update_memI)
  note kept = kept_in_runs [OF _ _ _ i]
  have "\<exists>r \<in> set ?R. SetStep (os_id p) success \<in> set r"
    if p: "p \<in> set (se_steps (act now a (ob_session ob)))" and np: "os_status p \<noteq> success" for p
  proof (cases a)
    case (SetStep j st)
    from p obtain q where q: "q \<in> set (se_steps (ob_session ob))" "os_id p = os_id q"
      "os_status p = (if os_id q = j then st else os_status q)"
      by (auto simp: SetStep setStep_def)
    show ?thesis
    proof (cases "os_id q = j")
      case True
      with np q g SetStep have "SetStep (os_id p) success \<in> set rest" by auto
      with rest show ?thesis by blast
    next
      case False
      with c np q obtain r where "r \<in> set (ob_runs ob)" "SetStep (os_id p) success \<in> set r"
        by (auto simp: covered_def)
      from kept [OF this] show ?thesis using False q(2) SetStep by auto
    qed
  next
    case (Overall st)
    with c p np obtain r where "r \<in> set (ob_runs ob)" "SetStep (os_id p) success \<in> set r"
      by (auto simp: covered_def)
    from kept [OF this] show ?thesis using Overall by auto
  next
    case (Push l m)
    with c p np obtain r where "r \<in> set (ob_runs ob)" "SetStep (os_id p) success \<in> set r"
      by (auto simp: covered_def push_def)
    from kept [OF this] show ?thesis using Push by auto
  next
    case (Await ms)
    with c p np obtain r where "r \<in> set (ob_runs ob)" "SetStep (os_id p) success \<in> set r"
      by (auto simp: covered_def)
    from kept [OF this] show ?thesis using Await by auto
  next
    case Finish
    with c p np obtain r where "r \<in> set (ob_runs ob)" "SetStep (os_id p) success \<in> set r"
      by (auto simp: covered_def)
    from kept [OF this] show ?thesis using Finish by auto
  qed
  moreover have "se_overallStatus (act now a (ob_session ob)) = ACTIVE \<or> (\<exists>r \<in> set ?R. Finish \<in> set r)"
  proof (cases "a = Finish \<or> (\<exists>st. a = Overall st)")
    case True
    with g rest show ?thesis by auto
  next
    case False
    then have "se_overallStatus (act now a (ob_session ob)) = se_overallStatus (ob_session ob)"
      by (cases a) (auto simp: setStep_def push_def)
    moreover have "\<exists>r \<in> set ?R. Finish \<in> set r" if "r \<in> set (ob_runs ob)" "Finish \<in> set r" for r
      using kept [OF that] False by auto
    ultimately show ?thesis using c by (auto simp: covered_def)
  qed
  ultimately show ?thesis by (auto simp: covered_def)
qed

lemma acted_inv:
  assumes inv: "onboarding_inv ob" and i: "i < length (ob_runs ob)" "ob_runs ob ! i = a # rest"
  shows "onboarding_inv (ob\<lparr>ob_session := act now a (ob_session ob), ob_runs := (ob_runs ob)[i := rest]\<rparr>)"
proof -
  have "a # rest \<in> set (ob_runs ob)" using i by (metis nth_mem)
  then have g: "owes (a # rest)" using inv unfolding onboarding_inv_def by blast
  moreover have "\<forall>r \<in> set ((ob_runs ob)[i := rest]). owes r"
    using inv g set_update_subset_insert [of "ob_runs ob" i rest] by (auto simp: onboarding_inv_def)
  ultimately show ?thesis
    using inv acted_covered [OF _ i g] by (auto simp: onboarding_inv_def)
qed

lemma service_step_inv:
  "service_step ss ss' \<Longrightarrow> \<forall>sid ob. ss sid = Some ob \<longrightarrow> onboarding_inv ob \<Longrightarrow>
     \<forall>sid ob. ss' sid = Some ob \<longrightarrow> onboarding_inv ob"
proof (induction rule: service_step.induct)
  case (creates ss now1 now2 c)
  then show ?case by (auto simp: addSession_def Let_def created_inv)
next
  case (starts sid ss ss')
  then show ?case by (auto simp: startOnboarding_def started_inv split: option.splits if_splits)
next
  case (retries now sid frm ss ss')
  then show ?case
    by (auto simp: retryFromStep_def startOnboarding_def retried_inv split: option.splits if_splits)
next
  case (acts ss sid ob i a rest now)
  then show ?case using acted_inv by auto
qed

interpretation service: machine "Map.empty" service_step
    "\<lambda>ss. \<forall>sid ob. ss sid = Some ob \<longrightarrow> onboarding_inv ob"
  by unfold_locales (simp, use service_step_inv in blast)

text \<open>
  C8. However the runs of a session interleave, retries included: once it was started and no run
  has an action left, every step has succeeded and the session is active.
\<close>

theorem runs_end_active:
  assumes "service_reachable ss" "ss sid = Some ob" "ob_started ob \<noteq> 0" "\<forall>r \<in> set (ob_runs ob). r = []"
  shows "statuses (ob_session ob) = replicate 5 success \<and> se_overallStatus (ob_session ob) = ACTIVE"
proof -
  have inv: "onboarding_inv ob" using service.reached_inv assms(1,2) by blast
  then have c: "covered ob" using assms(3) by (simp add: onboarding_inv_def)
  have "length (statuses (ob_session ob)) = 5"
    using inv five_statuses by (simp add: onboarding_inv_def)
  moreover have "\<forall>st \<in> set (statuses (ob_session ob)). st = success"
    using c assms(4) by (force simp: covered_def statuses_def)
  ultimately have "statuses (ob_session ob) = replicate 5 success"
    by (metis replicate_length_same)
  then show ?thesis using c assms(4) by (force simp: covered_def)
qed

lemma service_further: "service_reachable ss \<Longrightarrow> service_step ss ss' \<Longrightarrow> service_reachable ss'"
  by (rule reached.further)

lemma run_to_end:
  "service_reachable ss \<Longrightarrow> ss sid = Some ob \<Longrightarrow> ob_runs ob = [as] \<Longrightarrow>
     \<exists>ss' ob'. service_reachable ss' \<and> ss' sid = Some ob' \<and> ob_runs ob' = [[]] \<and> ob_started ob' = ob_started ob"
proof (induction as arbitrary: ss ob)
  case (Cons a as)
  let ?ob = "ob\<lparr>ob_session := act 0 a (ob_session ob), ob_runs := (ob_runs ob)[0 := as]\<rparr>"
  have "service_step ss (ss(sid \<mapsto> ?ob))" using acts [where ss = ss and sid = sid and ob = ob and i = 0 and a = a and rest = as and now = 0]
      Cons.prems(2,3) by simp
  then have "service_reachable (ss(sid \<mapsto> ?ob))" by (rule service_further [OF Cons.prems(1)])
  from Cons.IH [OF this, of ?ob] Cons.prems(3) show ?case by simp
qed blast

theorem runs_end_active_witness:
  "\<exists>ss sid ob. service_reachable ss \<and> ss sid = Some ob \<and> (\<forall>r \<in> set (ob_runs ob). r = []) \<and>
     statuses (ob_session ob) = replicate 5 success \<and> se_overallStatus (ob_session ob) = ACTIVE"
proof -
  let ?c = "\<lparr>oc_serverName = ''db'', oc_ip = ''10.0.0.5'', oc_os = linux, oc_mode = ''agent''\<rparr>"
  let ?s = "createSession 1 2 ?c"
  let ?ss = "addSession 1 2 ?c Map.empty"
  let ?ob = "\<lparr>ob_session = ?s, ob_runs = [pipeline ?s], ob_started = Suc 0\<rparr>"
  have "service_reachable ?ss" by (rule service_further [OF reached.start creates])
  moreover have "service_step ?ss (?ss(se_id ?s \<mapsto> ?ob))"
    by (rule starts [of "se_id ?s"]) (simp add: startOnboarding_def addSession_def Let_def)
  ultimately have "service_reachable (?ss(se_id ?s \<mapsto> ?ob))" by (rule service_further)
  from run_to_end [OF this, of "se_id ?s" ?ob "pipeline ?s"]
  obtain ss' ob' where e: "service_reachable ss'" "ss' (se_id ?s) = Some ob'" "ob_runs ob' = [[]]"
    "ob_started ob' = Suc 0" by auto
  then have "ob_started ob' \<noteq> 0" "\<forall>r \<in> set (ob_runs ob'). r = []" by simp_all
  with runs_end_active [OF e(1,2) this] e(1,2) show ?thesis by blast
qed

end
