(* ===== verification/ServerForm.thy ===== *)
theory ServerForm
  imports JsPrelude
begin

text \<open>
  The form of \<open>features/servers/pages/ServerOnboardingPage.tsx\<close>: its fields, the effect that keeps
  the authentication method in line with the connection, the gate of each step and the validation
  before a server is created.
\<close>

section \<open>The form\<close>

datatype WizardStep = StepBasic | StepConnection | StepAuth | StepPrivilege | StepComplete

datatype os_choice = Linux | Windows

datatype environment_choice = Production | Staging | Development

datatype connection_mode = Agent | Ssh | Bastion

datatype auth_method = AgentToken | Password | SshKey

record privilege =
  pv_user :: string
  pv_escalation :: string

record FormState =
  fm_name :: string
  fm_description :: string
  fm_hostname :: string
  fm_ipAddress :: string
  fm_os :: os_choice
  fm_environment :: environment_choice
  fm_tags :: string
  fm_connectionMode :: connection_mode
  fm_port :: string
  fm_bastionHost :: string
  fm_authMethod :: auth_method
  fm_password :: string
  fm_sshKeyPath :: string
  fm_sshUser :: string
  fm_privilege :: privilege

datatype FieldErrorKey =
    ErrName | ErrHostname | ErrIpAddress | ErrPort | ErrBastionHost | ErrPassword | ErrSshKeyPath
  | ErrSshUser | ErrPrivilegeUser

type_synonym FieldErrors = "(FieldErrorKey \<times> string) list"

definition STEPS :: "WizardStep list" where
  "STEPS = [StepBasic, StepConnection, StepAuth, StepPrivilege, StepComplete]"

definition initialForm :: FormState where
  "initialForm =
     \<lparr>fm_name = [], fm_description = [], fm_hostname = [], fm_ipAddress = [], fm_os = Linux,
      fm_environment = Production, fm_tags = [], fm_connectionMode = Agent, fm_port = ''22'',
      fm_bastionHost = [], fm_authMethod = AgentToken, fm_password = [], fm_sshKeyPath = [],
      fm_sshUser = ''root'', fm_privilege = \<lparr>pv_user = ''root'', pv_escalation = ''sudo''\<rparr>\<rparr>"

abbreviation blank :: "string \<Rightarrow> bool" where
  "blank s \<equiv> trim s = []"

definition canGoNext :: "WizardStep \<Rightarrow> FormState \<Rightarrow> bool" where
  "canGoNext st f =
     (case st of
        StepBasic \<Rightarrow> \<not> blank (fm_name f) \<and> \<not> blank (fm_ipAddress f)
      | StepConnection \<Rightarrow>
          \<not> blank (fm_port f) \<and> (fm_connectionMode f \<noteq> Bastion \<or> \<not> blank (fm_bastionHost f))
      | StepAuth \<Rightarrow>
          if fm_connectionMode f = Agent then True
          else if fm_authMethod f = Password then \<not> blank (fm_password f)
          else if fm_authMethod f = SshKey then \<not> blank (fm_sshKeyPath f)
          else True
      | StepPrivilege \<Rightarrow> \<not> blank (pv_user (fm_privilege f))
      | StepComplete \<Rightarrow> True)"

text \<open>
  The first effect of the page. React runs it after a render in which one of its three
  dependencies changed, and again when its own update changed one of them.
\<close>

definition sync_auth :: "FormState \<Rightarrow> FormState" where
  "sync_auth f =
     (if fm_connectionMode f = Agent then f\<lparr>fm_authMethod := AgentToken\<rparr>
      else if fm_os f = Windows then
        f\<lparr>fm_authMethod := Password, fm_port := (if fm_port f = ''22'' then ''5985'' else fm_port f)\<rparr>
      else if fm_authMethod f = AgentToken then f\<lparr>fm_authMethod := Password\<rparr>
      else f)"

definition effect_deps :: "FormState \<Rightarrow> connection_mode \<times> os_choice \<times> auth_method" where
  "effect_deps f = (fm_connectionMode f, fm_os f, fm_authMethod f)"

definition run_effect :: "FormState \<Rightarrow> FormState \<Rightarrow> FormState" where
  "run_effect before f =
     (if effect_deps f = effect_deps before then f
      else let g = sync_auth f in if effect_deps g = effect_deps f then g else sync_auth g)"

section \<open>Validation\<close>

text \<open>The two equal patterns \<open>/^(?=.{1,253}$)(?!-)[a-zA-Z0-9.-]+(?<!-)$/\<close>.\<close>

definition host_char :: "char \<Rightarrow> bool" where
  "host_char c \<longleftrightarrow>
     (let n = of_char c :: nat in
      48 \<le> n \<and> n \<le> 57 \<or> 65 \<le> n \<and> n \<le> 90 \<or> 97 \<le> n \<and> n \<le> 122 \<or> n = 46 \<or> n = 45)"

definition hostnameRegex :: "string \<Rightarrow> bool" where
  "hostnameRegex s \<longleftrightarrow>
     1 \<le> length s \<and> length s \<le> 253 \<and> hd s \<noteq> CHR ''-'' \<and> list_all host_char s \<and> last s \<noteq> CHR ''-''"

definition ipv4_part :: "string \<Rightarrow> bool" where
  "ipv4_part part =
     (case parseInt part of None \<Rightarrow> False | Some n \<Rightarrow> show_int n = part \<and> 0 \<le> n \<and> n \<le> 255)"

definition isValidIPv4 :: "string \<Rightarrow> bool" where
  "isValidIPv4 v \<longleftrightarrow>
     (let parts = split_on (CHR ''.'') v in length parts = 4 \<and> list_all ipv4_part parts)"

definition hostnameValue :: "FormState \<Rightarrow> string" where
  "hostnameValue f = trim (or_str (fm_hostname f) (fm_name f))"

definition add_error :: "FieldErrorKey \<Rightarrow> string option \<Rightarrow> FieldErrors \<Rightarrow> FieldErrors" where
  "add_error k msg errs = (case msg of None \<Rightarrow> errs | Some m \<Rightarrow> put k m errs)"

definition when_msg :: "bool \<Rightarrow> string \<Rightarrow> string option" where
  "when_msg b m = (if b then Some m else None)"

definition ip_error :: "FormState \<Rightarrow> string option" where
  "ip_error f =
     (let v = trim (fm_ipAddress f) in
      if v = [] then Some ''IP or FQDN is required.''
      else when_msg (\<not> hostnameRegex v \<and> \<not> isValidIPv4 v) ''Enter a valid IPv4 address or host name.'')"

definition hostname_error :: "FormState \<Rightarrow> string option" where
  "hostname_error f =
     (if hostnameValue f = [] then Some ''Hostname is required.''
      else when_msg (\<not> hostnameRegex (hostnameValue f)) ''Hostname contains invalid characters.'')"

definition port_error :: "FormState \<Rightarrow> string option" where
  "port_error f =
     (if blank (fm_port f) then Some ''Port is required.''
      else when_msg (case parseInt (fm_port f) of None \<Rightarrow> True | Some n \<Rightarrow> n < 1 \<or> n > 65535)
        ''Port must be between 1 and 65535.'')"

definition validateForm :: "FormState \<Rightarrow> FieldErrors" where
  "validateForm f =
     (let direct = fm_connectionMode f \<noteq> Agent in
      foldl (\<lambda>errs (k, msg). add_error k msg errs) []
        [(ErrName, when_msg (blank (fm_name f)) ''Display name is required.''),
         (ErrIpAddress, ip_error f),
         (ErrHostname, hostname_error f),
         (ErrPort, port_error f),
         (ErrSshUser, when_msg (blank (fm_sshUser f) \<and> direct) ''Login user is required for direct access.''),
         (ErrBastionHost,
          when_msg (fm_connectionMode f = Bastion \<and> blank (fm_bastionHost f)) ''Bastion host is required.''),
         (ErrPassword, when_msg (direct \<and> fm_authMethod f = Password \<and> blank (fm_password f))
            ''Password is required.''),
         (ErrSshKeyPath, when_msg (direct \<and> fm_authMethod f = SshKey \<and> blank (fm_sshKeyPath f))
            ''SSH key path is required.''),
         (ErrPrivilegeUser, when_msg (blank (pv_user (fm_privilege f))) ''Execution user is required.'')])"

definition mapBackendFieldErrors :: "string \<Rightarrow> FieldErrors" where
  "mapBackendFieldErrors message =
     (let lowered = lower message;
          has = (\<lambda>p. str_includes lowered p) in
      add_error ErrPort (when_msg (has ''port'') ''Port value is invalid.'')
     (add_error ErrHostname (when_msg (has ''hostname'') ''Hostname is invalid or already in use.'')
     (add_error ErrIpAddress
       (when_msg (has ''already exists'' \<and> (has ''ip'' \<or> has ''host''))
         (if has ''127.0.0.1'' \<or> has ''localhost'' \<or> has ''loopback''
          then ''This local loopback address is still blocked by the current backend schema. Restart the updated API and try again.''
          else ''This IP or FQDN is already registered.'')) [])))"

definition has_error :: "FieldErrors \<Rightarrow> FieldErrorKey \<Rightarrow> bool" where
  "has_error errs k \<longleftrightarrow> truthy_str (map_of errs k)"

definition resolveStepForErrors :: "FieldErrors \<Rightarrow> WizardStep" where
  "resolveStepForErrors errs =
     (if has_error errs ErrName \<or> has_error errs ErrHostname \<or> has_error errs ErrIpAddress then StepBasic
      else if has_error errs ErrPort \<or> has_error errs ErrBastionHost \<or> has_error errs ErrSshUser
      then StepConnection
      else if has_error errs ErrPassword \<or> has_error errs ErrSshKeyPath then StepAuth
      else StepPrivilege)"

section \<open>The form and its effect\<close>

text \<open>What the effect establishes: each connection has a method it can use.\<close>

definition coherent :: "FormState \<Rightarrow> bool" where
  "coherent f \<longleftrightarrow>
     (fm_connectionMode f = Agent \<longleftrightarrow> fm_authMethod f = AgentToken) \<and>
     (fm_connectionMode f \<noteq> Agent \<and> fm_os f = Windows \<longrightarrow> fm_authMethod f = Password)"

lemma coherent_initial [simp]: "coherent initialForm"
  by (simp add: coherent_def initialForm_def)

lemma sync_auth_coherent: "coherent (sync_auth f)"
  by (cases "fm_authMethod f") (simp_all add: coherent_def sync_auth_def)

lemma run_effect_coherent: "coherent before \<Longrightarrow> coherent (run_effect before f)"
proof (cases "effect_deps f = effect_deps before")
  case True
  then show "coherent before \<Longrightarrow> ?thesis" by (simp add: run_effect_def coherent_def effect_deps_def)
qed (simp add: run_effect_def Let_def sync_auth_coherent)

text \<open>The effect does not loop: a second run changes nothing.\<close>

lemma sync_auth_idem: "sync_auth (sync_auth f) = sync_auth f"
  by (cases "fm_authMethod f") (auto simp: sync_auth_def)

section \<open>What validation guarantees\<close>

lemma map_of_add_error [simp]:
  "map_of (add_error k msg errs) j = (if j = k \<and> msg \<noteq> None then msg else map_of errs j)"
  by (auto simp: add_error_def split: option.split)

lemma when_msg_simps [simp]: "when_msg b m = None \<longleftrightarrow> \<not> b" "when_msg b m = Some x \<longleftrightarrow> b \<and> x = m"
  by (auto simp: when_msg_def)

lemma validateForm_errors:
  "map_of (validateForm f) k =
     (case k of
        ErrName \<Rightarrow> when_msg (blank (fm_name f)) ''Display name is required.''
      | ErrIpAddress \<Rightarrow> ip_error f
      | ErrHostname \<Rightarrow> hostname_error f
      | ErrPort \<Rightarrow> port_error f
      | ErrSshUser \<Rightarrow> when_msg (blank (fm_sshUser f) \<and> fm_connectionMode f \<noteq> Agent)
          ''Login user is required for direct access.''
      | ErrBastionHost \<Rightarrow> when_msg (fm_connectionMode f = Bastion \<and> blank (fm_bastionHost f))
          ''Bastion host is required.''
      | ErrPassword \<Rightarrow> when_msg (fm_connectionMode f \<noteq> Agent \<and> fm_authMethod f = Password \<and> blank (fm_password f))
          ''Password is required.''
      | ErrSshKeyPath \<Rightarrow> when_msg (fm_connectionMode f \<noteq> Agent \<and> fm_authMethod f = SshKey \<and> blank (fm_sshKeyPath f))
          ''SSH key path is required.''
      | ErrPrivilegeUser \<Rightarrow> when_msg (blank (pv_user (fm_privilege f))) ''Execution user is required.'')"
  by (cases k) (simp_all add: validateForm_def Let_def when_msg_def)

lemma error_texts: "map_of (validateForm f) k = Some m \<Longrightarrow> m \<noteq> []"
  by (cases k) (auto simp: validateForm_errors ip_error_def hostname_error_def port_error_def Let_def
      split: if_splits)

lemma has_error_iff: "has_error (validateForm f) k \<longleftrightarrow> map_of (validateForm f) k \<noteq> None"
  using error_texts [of f k] by (auto simp: has_error_def truthy_str_def split: option.splits)

lemma ipv4_part_digits: "ipv4_part p \<Longrightarrow> p \<noteq> [] \<and> list_all is_digit p \<and> length p \<le> 3"
proof -
  assume "ipv4_part p"
  then obtain n where n: "p = show_int n" "0 \<le> n" "n \<le> 255"
    by (auto simp: ipv4_part_def split: option.splits)
  have len: "length (show_nat m) \<le> 3" if "m \<le> 255" for m
    using that by (auto simp: show_nat.simps [of m] show_nat.simps [of "m div 10"]
      show_nat.simps [of "m div 10 div 10"])
  show ?thesis
    using n len [of "nat n"] show_nat_digits [of "nat n"] by (auto simp: show_int_def list_all_iff)
qed

lemma digit_host_char: "is_digit c \<Longrightarrow> host_char c \<and> c \<noteq> CHR ''-'' \<and> c \<noteq> CHR ''.''"
  by (auto simp: is_digit_def host_char_def)

lemma ipv4_is_host: "isValidIPv4 v \<Longrightarrow> hostnameRegex v"
proof -
  assume v: "isValidIPv4 v"
  obtain a b c d where p: "split_on (CHR ''.'') v = [a, b, c, d]"
    using v by (auto simp: isValidIPv4_def Let_def numeral_eq_Suc length_Suc_conv)
  then have parts: "ipv4_part a" "ipv4_part b" "ipv4_part c" "ipv4_part d"
    using v by (auto simp: isValidIPv4_def)
  note dig = parts [THEN ipv4_part_digits]
  have e: "v = a @ ''.'' @ b @ ''.'' @ c @ ''.'' @ d"
    using join_split [of "CHR ''.''" v] p by simp
  have chars: "\<forall>x \<in> set a \<union> set b \<union> set c \<union> set d. host_char x \<and> x \<noteq> CHR ''-''"
  proof -
    have "\<forall>x \<in> set a \<union> set b \<union> set c \<union> set d. is_digit x"
      using dig by (auto simp: list_all_iff)
    then show ?thesis using digit_host_char by blast
  qed
  have "hd v \<in> set a" "last v \<in> set d" using e dig by simp_all
  then have "hd v \<noteq> CHR ''-''" "last v \<noteq> CHR ''-''" using chars by blast+
  moreover have "host_char (CHR ''.'')" by (simp add: host_char_def)
  then have "list_all host_char v" using e chars by (auto simp: list_all_iff)
  moreover have "1 \<le> length v" "length v \<le> 253" using e dig by simp_all
  ultimately show ?thesis by (simp add: hostnameRegex_def)
qed

lemma ip_accepted: "map_of (validateForm f) ErrIpAddress = None \<longleftrightarrow> hostnameRegex (trim (fm_ipAddress f))"
  using ipv4_is_host [of "trim (fm_ipAddress f)"]
  by (auto simp: validateForm_errors ip_error_def Let_def hostnameRegex_def when_msg_def)

text \<open>
  The check of an IPv4 address never decides anything: each address in that form already
  matches the pattern of host names, so an address is accepted exactly when it matches that
  pattern, and an address such as 999.1.1.1 is accepted.
\<close>

theorem ipv4_check_idle:
  "(isValidIPv4 v \<longrightarrow> hostnameRegex v) \<and>
   (map_of (validateForm f) ErrIpAddress = None \<longleftrightarrow> hostnameRegex (trim (fm_ipAddress f))) \<and>
   map_of (validateForm (f\<lparr>fm_ipAddress := ''999.1.1.1''\<rparr>)) ErrIpAddress = None \<and> \<not> isValidIPv4 ''999.1.1.1''"
proof -
  have "ip_error (f\<lparr>fm_ipAddress := ''999.1.1.1''\<rparr>) = None"
  proof -
    have "trim ''999.1.1.1'' = ''999.1.1.1''" "hostnameRegex ''999.1.1.1''" by code_simp+
    then show ?thesis by (simp add: ip_error_def)
  qed
  moreover have "\<not> isValidIPv4 ''999.1.1.1''" by code_simp
  ultimately show ?thesis using ipv4_is_host ip_accepted by (auto simp: validateForm_errors)
qed

theorem ipv4_check_idle_witness: "hostnameRegex ''10.0.0.5''"
proof -
  have "isValidIPv4 ''10.0.0.5''" by code_simp
  with ipv4_check_idle [of "''10.0.0.5''" initialForm] show ?thesis by blast
qed

definition step_of_error :: "FieldErrorKey \<Rightarrow> WizardStep" where
  "step_of_error k =
     (if k \<in> {ErrName, ErrHostname, ErrIpAddress} then StepBasic
      else if k \<in> {ErrPort, ErrBastionHost, ErrSshUser} then StepConnection
      else if k \<in> {ErrPassword, ErrSshKeyPath} then StepAuth else StepPrivilege)"

text \<open>
  When validation finds something, the step the page moves to shows a field with one of the
  errors found.
\<close>

theorem error_step_shows:
  assumes "validateForm f \<noteq> []"
  shows "\<exists>k. has_error (validateForm f) k \<and> step_of_error k = resolveStepForErrors (validateForm f)"
proof -
  obtain k where k: "has_error (validateForm f) k"
  proof -
    obtain k m errs where "validateForm f = (k, m) # errs"
      using assms by (cases "validateForm f") auto
    then have "map_of (validateForm f) k \<noteq> None" by simp
    then show thesis using that has_error_iff by blast
  qed
  then show ?thesis
    by (cases k) (auto simp: resolveStepForErrors_def step_of_error_def)
qed

theorem error_step_shows_witness:
  "\<exists>k. has_error (validateForm initialForm) k \<and>
     step_of_error k = resolveStepForErrors (validateForm initialForm)"
proof -
  have "validateForm initialForm \<noteq> []" by code_simp
  from error_step_shows [OF this] show ?thesis .
qed

lemma valid_port:
  "validateForm f = [] \<Longrightarrow> \<exists>n. parseInt (fm_port f) = Some n \<and> 1 \<le> n \<and> n \<le> 65535"
  using validateForm_errors [of f ErrPort] by (auto simp: port_error_def when_msg_def split: if_splits option.splits)

text \<open>
  A form whose effect has settled and that passes validation can be sent: the names match the
  host pattern, the port is in range, and direct access has the one credential its method needs.
\<close>

theorem valid_form_complete:
  assumes "coherent f" "validateForm f = []"
  shows "trim (fm_name f) \<noteq> [] \<and> hostnameRegex (hostnameValue f) \<and>
    hostnameRegex (trim (fm_ipAddress f)) \<and>
    (\<exists>n. parseInt (fm_port f) = Some n \<and> 1 \<le> n \<and> n \<le> 65535) \<and>
    (fm_connectionMode f \<noteq> Agent \<longrightarrow> trim (fm_sshUser f) \<noteq> [] \<and>
      (fm_authMethod f = Password \<and> trim (fm_password f) \<noteq> [] \<or>
       fm_authMethod f = SshKey \<and> fm_os f = Linux \<and> trim (fm_sshKeyPath f) \<noteq> [])) \<and>
    (fm_connectionMode f = Bastion \<longrightarrow> trim (fm_bastionHost f) \<noteq> [])"
proof -
  have none: "map_of (validateForm f) k = None" for k using assms(2) by simp
  note v = none [unfolded validateForm_errors]
  have "hostnameRegex (trim (fm_ipAddress f))"
    using none [of ErrIpAddress] ip_accepted by blast
  moreover have "hostnameRegex (hostnameValue f)"
    using v [of ErrHostname] by (auto simp: hostname_error_def split: if_splits)
  moreover have "\<exists>n. parseInt (fm_port f) = Some n \<and> 1 \<le> n \<and> n \<le> 65535"
    using valid_port [OF assms(2)] .
  moreover have "fm_connectionMode f \<noteq> Agent \<Longrightarrow>
      fm_authMethod f = Password \<and> trim (fm_password f) \<noteq> [] \<or>
      fm_authMethod f = SshKey \<and> fm_os f = Linux \<and> trim (fm_sshKeyPath f) \<noteq> []"
    using v [of ErrPassword] v [of ErrSshKeyPath] assms(1)
    by (cases "fm_authMethod f"; cases "fm_os f") (auto simp: coherent_def)
  ultimately show ?thesis
    using v [of ErrName] v [of ErrSshUser] v [of ErrBastionHost] by auto
qed

definition sample_form :: FormState where
  "sample_form = initialForm\<lparr>fm_name := ''web-1'', fm_ipAddress := ''10.0.0.5'', fm_connectionMode := Ssh,
     fm_authMethod := Password, fm_password := ''secret''\<rparr>"

theorem valid_form_complete_witness:
  "coherent sample_form \<and> hostnameRegex (hostnameValue sample_form) \<and> trim (fm_password sample_form) \<noteq> []"
proof -
  have c: "coherent sample_form" by code_simp
  have "validateForm sample_form = []" by code_simp
  from valid_form_complete [OF c this] c show ?thesis by (simp add: sample_form_def initialForm_def)
qed

end
