(* ===== verification/OnboardingPage.thy ===== *)
theory OnboardingPage
  imports ServerApi ServerForm Machine
begin

text \<open>
  The wizard of \<open>features/servers/pages/ServerOnboardingPage.tsx\<close> over its form, with the two
  mutations of \<open>features/servers/api/useServerHooks.ts\<close> it calls: the state of the page, its
  handlers, its effects, and the steps a user and the timers can make it take. An asynchronous
  handler is one step. \<open>platform e\<close> is the text of an error the platform throws.
\<close>

section \<open>Mutations\<close>

definition or_default :: "string \<Rightarrow> json \<Rightarrow> json \<Rightarrow> json option" where
  "or_default k v d = jnullish (jget k (Some v)) (Some d)"

definition same :: "json \<Rightarrow> string \<Rightarrow> string \<times> json option" where
  "same v k = (k, jget k (Some v))"

definition create_body :: "json \<Rightarrow> json" where
  "create_body newServer = JObj (members
     ([(''name'', or_default ''name'' newServer (JStr ''new-server'')),
       (''hostname'', jnullish (jget ''hostname'' (Some newServer))
          (or_default ''name'' newServer (JStr ''new-server''))),
       (''ip_address'', or_default ''ip_address'' newServer (JStr [])),
       (''os'', or_default ''os'' newServer (JStr ''linux'')),
       same newServer ''os_version'', same newServer ''description'', same newServer ''environment'',
       (''connection_mode'', or_default ''connection_mode'' newServer (JStr ''agent''))] @
      map (same newServer)
       [''cpu_cores'', ''memory_gb'', ''disk_gb'', ''location'', ''provider'', ''ssh_port'', ''ssh_user'',
        ''ssh_password'', ''ssh_key_path'', ''tunnel_enabled'', ''tunnel_host'', ''tunnel_port'',
        ''tunnel_user'', ''tunnel_key_path'', ''tags'']))"

definition server_of_dto :: "json option \<Rightarrow> json \<Rightarrow> thrown + json" where
  "server_of_dto dto newServer =
     (case dto of
        None \<Rightarrow> Inl TypeError
      | Some JNull \<Rightarrow> Inl TypeError
      | Some d \<Rightarrow> Inr (JObj (members
          ([same d ''id'', same d ''name'',
            (''description'', or_default ''description'' d (JStr [])),
            (''hostname'', jnullish (jget ''hostname'' (Some d)) (jget ''name'' (Some d))),
            (''status'', or_default ''status'' d (JStr ''offline'')),
            same d ''ip_address'', same d ''os'',
            (''os_version'', or_default ''os_version'' d (JStr [])),
            same d ''environment'',
            (''connection_mode'', or_default ''connection_mode'' d (JStr ''agent'')),
            same d ''onboarding_status'',
            (''cpu_cores'', or_default ''cpu_cores'' d (JNum 0)),
            (''memory_gb'', or_default ''memory_gb'' d (JNum 0)),
            (''disk_gb'', or_default ''disk_gb'' d (JNum 0)),
            same d ''location'', same d ''provider'',
            (''ssh_port'', or_default ''ssh_port'' d (JNum 22)),
            (''ssh_user'', or_default ''ssh_user'' d (JStr ''root'')),
            same newServer ''ssh_password'', same d ''ssh_key_path'',
            (''tunnel_enabled'', or_default ''tunnel_enabled'' d (JBool False))] @
           map (same d) [''tunnel_host'', ''tunnel_port'', ''tunnel_user'', ''tunnel_key_path''] @
           [(''tags'', or_default ''tags'' d (JArr [])),
            same d ''agent_version'', same d ''created_at'', same d ''updated_at'']))))"

definition useAddServer :: "server \<Rightarrow> json \<Rightarrow> json eff" where
  "useAddServer srv newServer =
     eff_bind (servers_create srv (create_body newServer)) (\<lambda>dto. eff_of (server_of_dto dto newServer))"

definition useAgentToken :: "server \<Rightarrow> string \<Rightarrow> json option eff" where
  "useAgentToken srv sid = eff_bind (servers_agentToken srv sid) (\<lambda>data. eff_of (jprop ''token'' data))"

section \<open>The state of the page\<close>

record OnboardingResult =
  ob_server :: json
  ob_token :: "json option"
  ob_installScript :: "json option"
  ob_installCommand :: "json option"
  ob_installURL :: "json option"

datatype notice_type = NtSuccess | NtError | NtInfo | NtWarning

record NoticeState =
  nt_type :: notice_type
  nt_title :: string
  nt_description :: string

record agent_health =
  ah_online :: bool
  ah_message :: string

record page =
  pg_step :: WizardStep
  pg_form :: FormState
  pg_result :: "OnboardingResult option"
  pg_submitError :: string
  pg_agentHealth :: "agent_health option"
  pg_notice :: "NoticeState option"
  pg_announced :: bool
  pg_fieldErrors :: FieldErrors
  pg_shown :: "NoticeState list"

text \<open>
  \<^const>\<open>pg_shown\<close> holds the calls of \<open>showNotification\<close>, in order. \<open>isCheckingStatus\<close> is true only
  while a poll runs, which is inside one step here.
\<close>

definition initial_page :: page where
  "initial_page = \<lparr>pg_step = StepBasic, pg_form = initialForm, pg_result = None, pg_submitError = [],
     pg_agentHealth = None, pg_notice = None, pg_announced = False, pg_fieldErrors = [], pg_shown = []\<rparr>"

definition notice_of :: "notice_type \<Rightarrow> string \<Rightarrow> string \<Rightarrow> NoticeState" where
  "notice_of ty title d = \<lparr>nt_type = ty, nt_title = title, nt_description = d\<rparr>"

definition show_note :: "NoticeState \<Rightarrow> page \<Rightarrow> page" where
  "show_note n p = p\<lparr>pg_shown := pg_shown p @ [n]\<rparr>"

section \<open>Editing\<close>

datatype field_update =
    SetName string | SetDescription string | SetHostname string | SetIpAddress string
  | SetOs os_choice | SetEnvironment environment_choice | SetTags string
  | SetConnectionMode connection_mode | SetPort string | SetBastionHost string
  | SetAuthMethod auth_method | SetPassword string | SetSshKeyPath string | SetSshUser string
  | SetPrivilege privilege

fun apply_field :: "field_update \<Rightarrow> FormState \<Rightarrow> FormState" where
  "apply_field (SetName v) f = f\<lparr>fm_name := v\<rparr>"
| "apply_field (SetDescription v) f = f\<lparr>fm_description := v\<rparr>"
| "apply_field (SetHostname v) f = f\<lparr>fm_hostname := v\<rparr>"
| "apply_field (SetIpAddress v) f = f\<lparr>fm_ipAddress := v\<rparr>"
| "apply_field (SetOs v) f = f\<lparr>fm_os := v\<rparr>"
| "apply_field (SetEnvironment v) f = f\<lparr>fm_environment := v\<rparr>"
| "apply_field (SetTags v) f = f\<lparr>fm_tags := v\<rparr>"
| "apply_field (SetConnectionMode v) f = f\<lparr>fm_connectionMode := v\<rparr>"
| "apply_field (SetPort v) f = f\<lparr>fm_port := v\<rparr>"
| "apply_field (SetBastionHost v) f = f\<lparr>fm_bastionHost := v\<rparr>"
| "apply_field (SetAuthMethod v) f = f\<lparr>fm_authMethod := v\<rparr>"
| "apply_field (SetPassword v) f = f\<lparr>fm_password := v\<rparr>"
| "apply_field (SetSshKeyPath v) f = f\<lparr>fm_sshKeyPath := v\<rparr>"
| "apply_field (SetSshUser v) f = f\<lparr>fm_sshUser := v\<rparr>"
| "apply_field (SetPrivilege v) f = f\<lparr>fm_privilege := v\<rparr>"

fun mapped_key :: "field_update \<Rightarrow> FieldErrorKey option" where
  "mapped_key (SetIpAddress v) = Some ErrIpAddress"
| "mapped_key (SetSshUser v) = Some ErrSshUser"
| "mapped_key (SetHostname v) = Some ErrHostname"
| "mapped_key (SetPort v) = Some ErrPort"
| "mapped_key u = None"

definition updateField :: "field_update \<Rightarrow> page \<Rightarrow> page" where
  "updateField u p =
     p\<lparr>pg_form := apply_field u (pg_form p),
       pg_fieldErrors := (case mapped_key u of
           None \<Rightarrow> pg_fieldErrors p
         | Some k \<Rightarrow> filter (\<lambda>e. fst e \<noteq> k) (pg_fieldErrors p))\<rparr>"

definition updates :: "field_update list \<Rightarrow> page \<Rightarrow> page" where
  "updates us p = foldl (\<lambda>q u. updateField u q) p us"

definition default_port :: "FormState \<Rightarrow> string" where
  "default_port f = (if fm_os f = Windows then ''5985'' else ''22'')"

definition chooseOs :: "os_choice \<Rightarrow> page \<Rightarrow> page" where
  "chooseOs system p =
     (let f = pg_form p in
      case system of
        Linux \<Rightarrow> updates
          [SetOs Linux, SetPort (if fm_connectionMode f = Agent then ''22'' else or_str (fm_port f) ''22''),
           SetSshUser ''root'', SetPrivilege \<lparr>pv_user = ''root'', pv_escalation = ''sudo''\<rparr>] p
      | Windows \<Rightarrow> updates
          [SetOs Windows, SetPort ''5985'', SetConnectionMode Agent,
           SetPrivilege \<lparr>pv_user = ''Administrator'', pv_escalation = ''admin''\<rparr>] p)"

definition chooseMode :: "connection_mode \<Rightarrow> page \<Rightarrow> page" where
  "chooseMode m p =
     (let d = default_port (pg_form p) in
      case m of
        Agent \<Rightarrow> updates [SetConnectionMode Agent, SetAuthMethod AgentToken, SetPort d] p
      | Ssh \<Rightarrow> updates [SetConnectionMode Ssh, SetAuthMethod Password, SetPort d] p
      | Bastion \<Rightarrow> updates [SetConnectionMode Bastion, SetAuthMethod Password] p)"

section \<open>Effects\<close>

definition server_name :: "page \<Rightarrow> string" where
  "server_name p =
     jstring (jnullish (Option.bind (pg_result p) (\<lambda>r. jget ''name'' (Some (ob_server r))))
       (Some (JStr ''Server'')))"

definition announce :: "page \<Rightarrow> page" where
  "announce p =
     (if \<not> (case pg_agentHealth p of None \<Rightarrow> False | Some h \<Rightarrow> ah_online h) \<or> pg_announced p then p
      else show_note (notice_of NtSuccess ''Agent online'' (server_name p @ '' is now connected.''))
        (p\<lparr>pg_announced := True,
           pg_notice := Some (notice_of NtSuccess ''Agent connected successfully''
             ''This node is now online and ready for remote operations.'')\<rparr>))"

definition rendered :: "page \<Rightarrow> page \<Rightarrow> page" where
  "rendered before p = announce (p\<lparr>pg_form := run_effect (pg_form before) (pg_form p)\<rparr>)"

text \<open>The server whose agent is polled, at once and every ten seconds.\<close>

definition polled_server :: "page \<Rightarrow> string option" where
  "polled_server p =
     (case pg_result p of
        None \<Rightarrow> None
      | Some r \<Rightarrow>
          let sid = jget ''id'' (Some (ob_server r)) in
          if \<not> truthy sid \<or> jget ''connection_mode'' (Some (ob_server r)) \<noteq> Some (JStr ''agent'') then None
          else Some (jstring sid))"

definition poll :: "(thrown \<Rightarrow> string) \<Rightarrow> server \<Rightarrow> page \<Rightarrow> world \<Rightarrow> page \<times> world" where
  "poll platform srv p w =
     (case polled_server p of
        None \<Rightarrow> (p, w)
      | Some sid \<Rightarrow>
          (case servers_healthCheck srv sid w of
             (Inr h, w1) \<Rightarrow>
               (p\<lparr>pg_agentHealth := Some \<lparr>ah_online = hc_healthy h, ah_message = hc_message h\<rparr>\<rparr>, w1)
           | (Inl e, w1) \<Rightarrow>
               (p\<lparr>pg_agentHealth := Some \<lparr>ah_online = False, ah_message = thrown_message platform e\<rparr>\<rparr>, w1)))"

section \<open>Submitting\<close>

fun os_text :: "os_choice \<Rightarrow> string" where
  "os_text Linux = ''linux''"
| "os_text Windows = ''windows''"

fun environment_text :: "environment_choice \<Rightarrow> string" where
  "environment_text Production = ''production''"
| "environment_text Staging = ''staging''"
| "environment_text Development = ''development''"

fun mode_text :: "connection_mode \<Rightarrow> string" where
  "mode_text Agent = ''agent''"
| "mode_text Ssh = ''ssh''"
| "mode_text Bastion = ''bastion''"

definition parseTags :: "string \<Rightarrow> string list" where
  "parseTags v = filter (\<lambda>t. t \<noteq> []) (map trim (split_on (CHR '','') v))"

definition port_or_default :: "FormState \<Rightarrow> int" where
  "port_or_default f =
     (case parseInt (fm_port f) of
        Some n \<Rightarrow> if n \<noteq> 0 then n else if fm_os f = Windows then 5985 else 22
      | None \<Rightarrow> if fm_os f = Windows then 5985 else 22)"

definition login_user :: "FormState \<Rightarrow> string" where
  "login_user f = or_str (or_str (trim (fm_sshUser f)) (trim (pv_user (fm_privilege f)))) ''root''"

definition submitted :: "FormState \<Rightarrow> json" where
  "submitted f =
     (let mode = fm_connectionMode f; bastion = (mode = Bastion);
          given = (\<lambda>b v. if b then Some v else None) in
      JObj (members
       [(''name'', Some (JStr (trim (fm_name f)))), (''description'', Some (JStr (trim (fm_description f)))),
        (''hostname'', Some (JStr (hostnameValue f))), (''ip_address'', Some (JStr (trim (fm_ipAddress f)))),
        (''os'', Some (JStr (os_text (fm_os f)))),
        (''environment'', Some (JStr (environment_text (fm_environment f)))),
        (''connection_mode'', Some (JStr (mode_text mode))),
        (''ssh_port'', Some (JNum (port_or_default f))), (''ssh_user'', Some (JStr (login_user f))),
        (''ssh_password'', given (\<not> (mode = Agent \<or> fm_authMethod f \<noteq> Password)) (JStr (fm_password f))),
        (''ssh_key_path'', given (\<not> (mode = Agent \<or> fm_authMethod f \<noteq> SshKey)) (JStr (trim (fm_sshKeyPath f)))),
        (''tags'', Some (JArr (map JStr (parseTags (fm_tags f))))),
        (''tunnel_enabled'', Some (JBool bastion)),
        (''tunnel_host'', given bastion (JStr (trim (fm_bastionHost f)))),
        (''tunnel_port'', given bastion (JNum (port_or_default f))),
        (''tunnel_user'', given bastion (JStr (login_user f))),
        (''tunnel_key_path'', given (bastion \<and> fm_authMethod f = SshKey) (JStr (trim (fm_sshKeyPath f))))]))"

text \<open>
  \<open>Promise.all\<close> of two calls: both are made, the second whatever comes of the first. They are run
  one after the other here, and when both fail the first's error is the one reported.
\<close>

definition both :: "'a eff \<Rightarrow> 'b eff \<Rightarrow> ('a \<times> 'b) eff" where
  "both m n w =
     (let (r1, w1) = m w; (r2, w2) = n w1 in
      (case r1 of Inl e \<Rightarrow> Inl e
       | Inr x \<Rightarrow> (case r2 of Inl e \<Rightarrow> Inl e | Inr y \<Rightarrow> Inr (x, y)), w2))"

definition resolveInstallScript :: "json option \<Rightarrow> json option" where
  "resolveInstallScript install =
     jor (jget ''script'' install) (jor (jget ''install_script'' install) (Some (JStr [])))"

definition agent_result :: "json \<Rightarrow> json option \<Rightarrow> json option \<Rightarrow> thrown + OnboardingResult" where
  "agent_result created token install =
     (if install = None \<or> install = Some JNull then Inl TypeError
      else Inr \<lparr>ob_server = created, ob_token = token, ob_installScript = resolveInstallScript install,
        ob_installCommand = jget ''command'' install, ob_installURL = jget ''install_url'' install\<rparr>)"

definition server_only :: "json \<Rightarrow> OnboardingResult" where
  "server_only created = \<lparr>ob_server = created, ob_token = None, ob_installScript = None,
     ob_installCommand = None, ob_installURL = None\<rparr>"

definition onboard :: "server \<Rightarrow> FormState \<Rightarrow> OnboardingResult eff" where
  "onboard srv f =
     eff_bind (useAddServer srv (submitted f)) (\<lambda>created.
       if fm_connectionMode f \<noteq> Agent then eff_ret (server_only created)
       else (let sid = jstring (jget ''id'' (Some created)) in
         eff_bind (both (useAgentToken srv sid) (servers_installScript srv sid))
           (\<lambda>(token, install). eff_of (agent_result created token install))))"

definition direct_text :: "FormState \<Rightarrow> string" where
  "direct_text f =
     (if fm_connectionMode f = Bastion
      then ''Node record was created. Bastion relay metadata is captured in the onboarding summary, while full relay orchestration is still being polished.''
      else if fm_os f = Windows
      then ''Windows / WinRM-style node record was created. Use the saved connection settings below to complete the first remote validation.''
      else ''Direct-managed node has been registered successfully.'')"

definition created_page :: "OnboardingResult \<Rightarrow> page \<Rightarrow> page" where
  "created_page r p =
     (let f = pg_form p; created = jstring (jget ''name'' (Some (ob_server r))) in
      if fm_connectionMode f \<noteq> Agent
      then show_note (notice_of NtSuccess ''Server created'' (created @ '' is ready in the server list.''))
        (p\<lparr>pg_result := Some r, pg_notice := Some (notice_of NtSuccess ''Server created'' (direct_text f)),
           pg_step := StepComplete\<rparr>)
      else show_note (notice_of NtSuccess ''Node created''
          (''Token and install script are ready for '' @ created @ ''.''))
        (p\<lparr>pg_result := Some r,
           pg_notice := Some (notice_of NtSuccess ''Server created and agent onboarding prepared''
             ''Copy the install script below and run it on the target node.''),
           pg_step := StepComplete\<rparr>))"

text \<open>\<open>message.replace(/^\[[^\]]+\]\s*/, "")\<close>: one leading tag in brackets and the space behind it.\<close>

definition strip_tag :: "string \<Rightarrow> string" where
  "strip_tag m =
     (if \<not> starts_with ''['' m then m
      else (let tag = takeWhile (\<lambda>c. c \<noteq> CHR '']'') (tl m); behind = dropWhile (\<lambda>c. c \<noteq> CHR '']'') (tl m) in
        if tag = [] \<or> behind = [] then m else ltrim (tl behind)))"

definition normalizeErrorMessage :: "(thrown \<Rightarrow> string) \<Rightarrow> thrown \<Rightarrow> string" where
  "normalizeErrorMessage platform e =
     (case e of
        ApiError st body m c \<Rightarrow> or_str (trim (strip_tag m)) ''Request failed''
      | _ \<Rightarrow> thrown_message platform e)"

definition failed_page :: "string \<Rightarrow> page \<Rightarrow> page" where
  "failed_page message p =
     show_note (notice_of NtError ''Add node failed'' message)
       (p\<lparr>pg_fieldErrors := mapBackendFieldErrors message, pg_submitError := message,
          pg_notice := Some (notice_of NtError ''Add node failed'' message)\<rparr>)"

definition invalid_page :: "FieldErrors \<Rightarrow> page \<Rightarrow> page" where
  "invalid_page errs p =
     p\<lparr>pg_submitError := [], pg_fieldErrors := errs, pg_step := resolveStepForErrors errs,
       pg_notice := Some (notice_of NtWarning ''Please review highlighted fields''
         ''A few required values need to be fixed before this node can be created.'')\<rparr>"

definition creating_page :: "page \<Rightarrow> page" where
  "creating_page p =
     p\<lparr>pg_submitError := [], pg_fieldErrors := [],
       pg_notice := Some (notice_of NtInfo ''Creating server record''
         ''Sending the new node definition to backend and preparing onboarding.'')\<rparr>"

definition submit :: "(thrown \<Rightarrow> string) \<Rightarrow> server \<Rightarrow> page \<Rightarrow> world \<Rightarrow> page \<times> world" where
  "submit platform srv p w =
     (let errs = validateForm (pg_form p) in
      if errs \<noteq> [] then (invalid_page errs p, w)
      else (case onboard srv (pg_form p) w of
              (Inr r, w1) \<Rightarrow> (created_page r (creating_page p), w1)
            | (Inl e, w1) \<Rightarrow> (failed_page (normalizeErrorMessage platform e) (creating_page p), w1)))"

section \<open>Steps of the wizard\<close>

definition step_index :: "WizardStep \<Rightarrow> nat" where
  "step_index st = (case find_index (\<lambda>x. x = st) STEPS of Some i \<Rightarrow> i | None \<Rightarrow> length STEPS)"

definition nextStep :: "(thrown \<Rightarrow> string) \<Rightarrow> server \<Rightarrow> page \<Rightarrow> world \<Rightarrow> page \<times> world" where
  "nextStep platform srv p w =
     (if pg_step p = StepPrivilege then submit platform srv p w
      else (let i = step_index (pg_step p) in
        if i < length STEPS - 2 then (p\<lparr>pg_step := STEPS ! Suc i\<rparr>, w) else (p, w)))"

definition previousStep :: "page \<Rightarrow> page" where
  "previousStep p =
     (let i = step_index (pg_step p) in if 0 < i then p\<lparr>pg_step := STEPS ! (i - 1)\<rparr> else p)"

text \<open>
  What can happen to the page: the buttons are enabled as the page renders them, an edit changes
  a field in any step but the last, a finished step of the list is chosen again, the notice is
  closed, and the agent is polled.
\<close>

inductive page_step ::
  "(thrown \<Rightarrow> string) \<Rightarrow> server \<Rightarrow> page \<times> world \<Rightarrow> page \<times> world \<Rightarrow> bool"
  for platform srv where
  edit: "pg_step p \<noteq> StepComplete \<Longrightarrow> page_step platform srv (p, w) (rendered p (updateField u p), w)"
| os: "pg_step p = StepBasic \<Longrightarrow> page_step platform srv (p, w) (rendered p (chooseOs system p), w)"
| mode: "pg_step p = StepConnection \<Longrightarrow> page_step platform srv (p, w) (rendered p (chooseMode m p), w)"
| forth: "pg_step p \<noteq> StepComplete \<Longrightarrow> canGoNext (pg_step p) (pg_form p) \<Longrightarrow>
    nextStep platform srv p w = (p', w') \<Longrightarrow> page_step platform srv (p, w) (rendered p p', w')"
| backwards: "pg_step p \<noteq> StepComplete \<Longrightarrow> page_step platform srv (p, w) (rendered p (previousStep p), w)"
| jump: "step_index st < step_index (pg_step p) \<Longrightarrow>
    page_step platform srv (p, w) (rendered p (p\<lparr>pg_step := st\<rparr>), w)"
| close: "page_step platform srv (p, w) (rendered p (p\<lparr>pg_notice := None\<rparr>), w)"
| polled: "poll platform srv p w = (p', w') \<Longrightarrow> page_step platform srv (p, w) (rendered p p', w')"

abbreviation reachable_page ::
  "(thrown \<Rightarrow> string) \<Rightarrow> server \<Rightarrow> world \<Rightarrow> page \<times> world \<Rightarrow> bool" where
  "reachable_page platform srv w0 \<equiv> reached (page_step platform srv) (initial_page, w0)"

inductive_cases page_stepE: "page_step platform srv s t"

section \<open>The invariant of the wizard\<close>

definition announcements :: "page \<Rightarrow> nat" where
  "announcements p = length (filter (\<lambda>n. nt_title n = ''Agent online'') (pg_shown p))"

text \<open>
  Only a created server finishes the wizard, an agent is watched only for a created server, and
  its arrival is announced once. With it, the form can be used with its connection.
\<close>

definition page_inv :: "page \<Rightarrow> bool" where
  "page_inv p \<longleftrightarrow>
     (pg_step p = StepComplete \<longrightarrow> pg_result p \<noteq> None) \<and>
     (pg_agentHealth p \<noteq> None \<longrightarrow> pg_result p \<noteq> None) \<and>
     announcements p = (if pg_announced p then 1 else 0)"

definition wizard_inv :: "page \<Rightarrow> bool" where
  "wizard_inv p \<longleftrightarrow> coherent (pg_form p) \<and> page_inv p"

text \<open>A page that differs in other fields, and in its step only between those before the last.\<close>

lemma page_inv_change:
  "page_inv p \<Longrightarrow> pg_step q = pg_step p \<or> pg_step q \<noteq> StepComplete \<Longrightarrow> pg_result q = pg_result p \<Longrightarrow>
     pg_agentHealth q = pg_agentHealth p \<Longrightarrow> pg_announced q = pg_announced p \<Longrightarrow>
     announcements q = announcements p \<Longrightarrow> page_inv q"
  by (auto simp: page_inv_def)

lemma announcements_simps [simp]:
  "announcements (show_note n p) = announcements p + (if nt_title n = ''Agent online'' then 1 else 0)"
  "announcements (p\<lparr>pg_form := f\<rparr>) = announcements p"
  "announcements (p\<lparr>pg_step := st\<rparr>) = announcements p"
  "announcements (p\<lparr>pg_result := r\<rparr>) = announcements p"
  "announcements (p\<lparr>pg_submitError := e\<rparr>) = announcements p"
  "announcements (p\<lparr>pg_agentHealth := h\<rparr>) = announcements p"
  "announcements (p\<lparr>pg_notice := n'\<rparr>) = announcements p"
  "announcements (p\<lparr>pg_announced := b\<rparr>) = announcements p"
  "announcements (p\<lparr>pg_fieldErrors := errs\<rparr>) = announcements p"
  by (simp_all add: announcements_def show_note_def)

lemma show_note_fields [simp]:
  "pg_step (show_note n p) = pg_step p" "pg_result (show_note n p) = pg_result p"
  "pg_agentHealth (show_note n p) = pg_agentHealth p" "pg_announced (show_note n p) = pg_announced p"
  "pg_form (show_note n p) = pg_form p"
  by (simp_all add: show_note_def)

lemma title_notice_of [simp]: "nt_title (notice_of ty title d) = title"
  by (simp add: notice_of_def)

lemma updateField_inv: "page_inv p \<Longrightarrow> page_inv (updateField u p)"
  by (erule page_inv_change) (simp_all add: updateField_def)

lemma updates_inv: "page_inv p \<Longrightarrow> page_inv (updates us p)"
  unfolding updates_def by (induction us arbitrary: p) (simp_all add: updateField_inv)

lemma announce_inv: "page_inv p \<Longrightarrow> page_inv (announce p)"
  by (auto simp: announce_def page_inv_def split: option.splits)

lemma announce_form [simp]: "pg_form (announce p) = pg_form p" "pg_step (announce p) = pg_step p"
  by (simp_all add: announce_def)

lemma rendered_inv: "wizard_inv before \<Longrightarrow> page_inv p \<Longrightarrow> wizard_inv (rendered before p)"
proof -
  assume b: "wizard_inv before" and p: "page_inv p"
  have "page_inv (p\<lparr>pg_form := run_effect (pg_form before) (pg_form p)\<rparr>)"
    by (rule page_inv_change [OF p]) simp_all
  then show ?thesis
    using b by (simp add: wizard_inv_def rendered_def announce_inv run_effect_coherent)
qed

lemma step_index_bound: "step_index st < length STEPS"
  by (cases st) (simp_all add: step_index_def STEPS_def)

lemma steps_before_complete: "i < length STEPS - 1 \<Longrightarrow> STEPS ! i \<noteq> StepComplete"
  by (auto simp: STEPS_def less_Suc_eq numeral_eq_Suc)

lemma step_index_less: "step_index st < step_index st' \<Longrightarrow> st \<noteq> StepComplete"
  by (cases st; cases st') (simp_all add: step_index_def STEPS_def)

lemma resolveStep_not_complete: "resolveStepForErrors errs \<noteq> StepComplete"
  by (simp add: resolveStepForErrors_def)

lemma created_page_inv: "page_inv p \<Longrightarrow> page_inv (created_page r p)"
  by (simp add: created_page_def page_inv_def Let_def)

lemma failed_page_inv: "page_inv p \<Longrightarrow> page_inv (failed_page m p)"
  by (erule page_inv_change) (simp_all add: failed_page_def)

lemma creating_page_inv: "page_inv p \<Longrightarrow> page_inv (creating_page p)"
  by (erule page_inv_change) (simp_all add: creating_page_def)

lemma invalid_page_inv: "page_inv p \<Longrightarrow> page_inv (invalid_page errs p)"
  by (erule page_inv_change) (simp_all add: invalid_page_def resolveStep_not_complete)

lemma submit_inv: "page_inv p \<Longrightarrow> page_inv (fst (submit platform srv p w))"
  by (simp add: submit_def Let_def invalid_page_inv creating_page_inv created_page_inv failed_page_inv
      split: prod.split sum.split)

lemma poll_inv: "page_inv p \<Longrightarrow> page_inv (fst (poll platform srv p w))"
  by (simp add: poll_def split: option.split prod.split sum.split)
    (auto simp: polled_server_def page_inv_def)

lemma nextStep_inv: "page_inv p \<Longrightarrow> page_inv (fst (nextStep platform srv p w))"
proof -
  assume p: "page_inv p"
  have "page_inv (p\<lparr>pg_step := STEPS ! Suc (step_index (pg_step p))\<rparr>)"
    if "step_index (pg_step p) < length STEPS - 2"
    using steps_before_complete [of "Suc (step_index (pg_step p))"] that
    by (intro page_inv_change [OF p]) simp_all
  then show ?thesis using p by (simp add: nextStep_def submit_inv Let_def)
qed

lemma previousStep_inv: "page_inv p \<Longrightarrow> page_inv (previousStep p)"
proof -
  assume p: "page_inv p"
  have "page_inv (p\<lparr>pg_step := STEPS ! (step_index (pg_step p) - 1)\<rparr>)"
    if "0 < step_index (pg_step p)"
    using steps_before_complete [of "step_index (pg_step p) - 1"] step_index_bound [of "pg_step p"] that
    by (intro page_inv_change [OF p]) simp_all
  then show ?thesis using p by (simp add: previousStep_def Let_def)
qed

lemma page_step_inv: "page_step platform srv s t \<Longrightarrow> wizard_inv (fst s) \<Longrightarrow> wizard_inv (fst t)"
proof (induction rule: page_step.induct)
  case (edit p w u)
  then show ?case by (simp add: rendered_inv updateField_inv wizard_inv_def [of p])
next
  case (os p w system)
  then have "page_inv (chooseOs system p)"
    by (cases system) (simp_all add: chooseOs_def updates_inv wizard_inv_def Let_def)
  with os show ?case by (simp add: rendered_inv)
next
  case (mode p w m)
  then have "page_inv (chooseMode m p)"
    by (cases m) (simp_all add: chooseMode_def updates_inv wizard_inv_def Let_def)
  with mode show ?case by (simp add: rendered_inv)
next
  case (forth p w p' w')
  then show ?case
    using nextStep_inv [of p platform srv w] by (simp add: rendered_inv wizard_inv_def [of p])
next
  case (backwards p w)
  then show ?case by (simp add: rendered_inv previousStep_inv wizard_inv_def [of p])
next
  case (jump st p w)
  have "page_inv (p\<lparr>pg_step := st\<rparr>)"
    by (rule page_inv_change [of p]) (use jump step_index_less in \<open>auto simp: wizard_inv_def\<close>)
  with jump show ?case by (simp add: rendered_inv)
next
  case (close p w)
  have "page_inv (p\<lparr>pg_notice := None\<rparr>)"
    by (rule page_inv_change [of p]) (use close in \<open>auto simp: wizard_inv_def\<close>)
  with close show ?case by (simp add: rendered_inv)
next
  case (polled p w p' w')
  then show ?case
    using poll_inv [of p platform srv w] by (simp add: rendered_inv wizard_inv_def [of p])
qed

interpretation wizard: machine "(initial_page, w0)" "page_step platform srv" "\<lambda>s. wizard_inv (fst s)"
  for platform srv w0
proof
  show "wizard_inv (fst (initial_page, w0))"
    by (simp add: wizard_inv_def page_inv_def initial_page_def announcements_def)
qed (rule page_step_inv)

text \<open>
  C7. However the wizard is used and whatever the server answers, direct access never ends up with
  the agent's method nor Windows with a key, the last step is only shown with a created server,
  and an agent coming online is announced at most once.
\<close>

theorem wizard_invariant:
  assumes "reachable_page platform srv w0 (p, w)"
  shows "(fm_connectionMode (pg_form p) = Agent \<longleftrightarrow> fm_authMethod (pg_form p) = AgentToken) \<and>
    (fm_os (pg_form p) = Windows \<longrightarrow> fm_authMethod (pg_form p) \<noteq> SshKey) \<and>
    (pg_step p = StepComplete \<longrightarrow> pg_result p \<noteq> None) \<and>
    length (filter (\<lambda>n. nt_title n = ''Agent online'') (pg_shown p)) \<le> 1"
  using wizard.reached_inv [OF assms]
  by (auto simp: wizard_inv_def page_inv_def coherent_def announcements_def split: if_splits)

theorem wizard_invariant_witness:
  "\<exists>p. reachable_page (\<lambda>_. []) refusing_server sample_world (p, sample_world) \<and> pg_form p \<noteq> initialForm \<and>
     (fm_connectionMode (pg_form p) = Agent \<longleftrightarrow> fm_authMethod (pg_form p) = AgentToken)"
proof -
  let ?p = "rendered initial_page (updateField (SetConnectionMode Ssh) initial_page)"
  have "pg_step initial_page \<noteq> StepComplete" by (simp add: initial_page_def)
  then have r: "reachable_page (\<lambda>_. []) refusing_server sample_world (?p, sample_world)"
    by (intro reached.further [OF reached.start] page_step.edit)
  moreover have "pg_form ?p \<noteq> initialForm"
    by (simp add: rendered_def updateField_def initial_page_def run_effect_def effect_deps_def
        initialForm_def sync_auth_def Let_def)
  ultimately show ?thesis using wizard_invariant [OF r] by blast
qed

section \<open>What a submission sends\<close>

text \<open>A call only adds to the requests sent.\<close>

definition appends :: "'a eff \<Rightarrow> bool" where
  "appends m \<longleftrightarrow> (\<forall>w. \<exists>rs. sent (snd (m w)) = sent w @ rs)"

named_theorems appending \<open>calls that only add to the requests sent\<close>

lemma appends_ret [appending]: "appends (eff_ret x)"
  by (simp add: appends_def eff_ret_def)

lemma appends_of [appending]: "appends (eff_of r)"
  by (simp add: appends_def)

lemma appends_bind [appending]: "appends m \<Longrightarrow> (\<And>x. appends (f x)) \<Longrightarrow> appends (eff_bind m f)"
  unfolding appends_def eff_bind_def
  by (auto split: prod.split sum.split) (metis append.assoc snd_conv)+

lemma appends_both [appending]: "appends m \<Longrightarrow> appends n \<Longrightarrow> appends (both m n)"
  unfolding appends_def both_def
  by (auto simp: Let_def split: prod.split) (metis append.assoc snd_conv)+

lemma client_fetch_first:
  "\<exists>rs. sent (snd (client_fetch srv meth path body init w)) =
     sent w @ client_request meth path body init (fst (getStoredSession w)) # rs"
  by (rule request_courses [of srv meth path body init w]) (auto simp: request_no_refresh)

lemma appends_client_fetch [appending]: "appends (client_fetch srv meth path body init)"
  using client_fetch_first unfolding appends_def by blast

lemma appends_after_created [appending]:
  "appends (both (useAgentToken srv sid) (servers_installScript srv sid))"
  unfolding useAgentToken_def servers_agentToken_def servers_installScript_def item_of_def api_post_def
  by (intro appending)

definition create_request :: "FormState \<Rightarrow> world \<Rightarrow> request" where
  "create_request f w =
     client_request ''POST'' ''/servers'' (Some (create_body (submitted f))) no_init (fst (getStoredSession w))"

lemma sent_bind:
  "(\<And>x. appends (f x)) \<Longrightarrow> \<exists>rs. sent (snd (eff_bind m f w)) = sent (snd (m w)) @ rs"
  unfolding appends_def eff_bind_def by (auto split: prod.split sum.split)

lemma onboard_first: "\<exists>rs. sent (snd (onboard srv f w)) = sent w @ create_request f w # rs"
proof -
  have create: "sent (snd (useAddServer srv (submitted f) w)) =
      sent (snd (client_fetch srv ''POST'' ''/servers'' (Some (create_body (submitted f))) no_init w))"
    by (simp add: useAddServer_def servers_create_def item_of_def api_post_def)
  have rest: "\<exists>rs. sent (snd (onboard srv f w)) = sent (snd (useAddServer srv (submitted f) w)) @ rs"
    unfolding onboard_def
    by (rule sent_bind) (auto simp: Let_def split_def intro!: appending)
  then show ?thesis
    unfolding create_request_def
    using client_fetch_first [of srv "''POST''" "''/servers''" "Some (create_body (submitted f))" no_init w]
      create by auto
qed

lemma submit_sent: "validateForm (pg_form p) = [] \<Longrightarrow>
    sent (snd (submit platform srv p w)) = sent (snd (onboard srv (pg_form p) w))"
  by (simp add: submit_def split: prod.split sum.split)

text \<open>
  A form with an error sends nothing; a valid one sends first the request that creates the
  server, with the body of the form, whatever the server then answers.
\<close>

theorem submit_requests:
  "(validateForm (pg_form p) \<noteq> [] \<longrightarrow> snd (submit platform srv p w) = w) \<and>
   (validateForm (pg_form p) = [] \<longrightarrow>
      (\<exists>rs. sent (snd (submit platform srv p w)) = sent w @ create_request (pg_form p) w # rs))"
  using onboard_first by (simp add: submit_sent) (simp add: submit_def)

theorem submit_requests_witness:
  "snd (submit (\<lambda>_. []) refusing_server initial_page sample_world) = sample_world \<and>
   sent (snd (submit (\<lambda>_. []) refusing_server (initial_page\<lparr>pg_form := sample_form\<rparr>) sample_world)) \<noteq> []"
proof -
  have "validateForm (pg_form initial_page) \<noteq> []" by code_simp
  moreover have "validateForm (pg_form (initial_page\<lparr>pg_form := sample_form\<rparr>)) = []" by code_simp
  ultimately show ?thesis
    using submit_requests [of initial_page "\<lambda>_. []" refusing_server sample_world]
      submit_requests [of "initial_page\<lparr>pg_form := sample_form\<rparr>" "\<lambda>_. []" refusing_server sample_world]
    by auto
qed

lemma finished_submit:
  assumes "submit platform srv p w = (p1, w1)" "pg_step p = StepPrivilege" "pg_step p1 = StepComplete"
  shows "validateForm (pg_form p) = [] \<and> pg_form p1 = pg_form p"
proof (cases "validateForm (pg_form p) = []")
  case True
  obtain r w2 where ob: "onboard srv (pg_form p) w = (r, w2)" by fastforce
  show ?thesis
    using assms True ob
    by (cases r) (auto simp: submit_def created_page_def failed_page_def creating_page_def Let_def)
next
  case False
  then have "p1 = invalid_page (validateForm (pg_form p)) p" using assms(1) by (simp add: submit_def Let_def)
  then show ?thesis using assms(3) resolveStep_not_complete by (simp add: invalid_page_def)
qed

text \<open>
  The list of steps leads back from a finished wizard to its last form, and submitting there
  creates the same server a second time: nothing records that the form was already sent.
\<close>

theorem created_twice:
  assumes "submit platform srv p w = (p1, w1)" "pg_step p = StepPrivilege" "pg_step p1 = StepComplete"
  shows "page_step platform srv (p1, w1) (rendered p1 (p1\<lparr>pg_step := StepPrivilege\<rparr>), w1) \<and>
    (\<exists>rs. sent (snd (nextStep platform srv (rendered p1 (p1\<lparr>pg_step := StepPrivilege\<rparr>)) w1)) =
       sent w1 @ create_request (pg_form p) w1 # rs)"
proof -
  let ?q = "rendered p1 (p1\<lparr>pg_step := StepPrivilege\<rparr>)"
  have v: "validateForm (pg_form p) = []" and f: "pg_form p1 = pg_form p"
    using finished_submit [OF assms] by simp_all
  have q: "pg_form ?q = pg_form p" "pg_step ?q = StepPrivilege"
    by (simp_all add: rendered_def run_effect_def f)
  have "sent (snd (nextStep platform srv ?q w1)) = sent (snd (onboard srv (pg_form p) w1))"
    using v by (simp add: nextStep_def q submit_sent)
  moreover have "step_index StepPrivilege < step_index (pg_step p1)"
    using assms(3) by (simp add: step_index_def STEPS_def)
  ultimately show ?thesis using onboard_first by (simp add: page_step.jump)
qed

text \<open>A server that creates every node and answers every call with the same fields.\<close>

definition welcoming_server :: server where
  "welcoming_server h rq = Some \<lparr>rs_status = 200, rs_body =
     json_text (JObj [(''id'', JStr ''s1''), (''name'', JStr ''web-1''), (''token'', JStr ''t'')])\<rparr>"

definition ready_page :: page where
  "ready_page = initial_page\<lparr>pg_form := sample_form, pg_step := StepPrivilege\<rparr>"

theorem created_twice_witness:
  "\<exists>p1 w1. submit (\<lambda>_. []) welcoming_server ready_page sample_world = (p1, w1) \<and>
     sent (snd (nextStep (\<lambda>_. []) welcoming_server (rendered p1 (p1\<lparr>pg_step := StepPrivilege\<rparr>)) w1)) \<noteq> sent w1"
proof -
  obtain p1 w1 where s: "submit (\<lambda>_. []) welcoming_server ready_page sample_world = (p1, w1)" by fastforce
  have "pg_step (fst (submit (\<lambda>_. []) welcoming_server ready_page sample_world)) = StepComplete" by code_simp
  then have c: "pg_step p1 = StepComplete" by (simp add: s)
  have "pg_step ready_page = StepPrivilege" by (simp add: ready_page_def)
  from created_twice [OF s this c] s show ?thesis by auto
qed

lemma create_body_kept:
  "k \<in> {''ssh_port'', ''ssh_password'', ''ssh_key_path''} \<Longrightarrow>
     jget k (Some (create_body v)) = jget k (Some v)"
  unfolding create_body_def
  by (subst jget_JObj_members) (auto simp: same_def)

lemma submitted_member:
  "jget ''ssh_port'' (Some (submitted f)) = Some (JNum (port_or_default f))"
  "jget ''ssh_password'' (Some (submitted f)) =
     (if fm_connectionMode f = Agent \<or> fm_authMethod f \<noteq> Password then None else Some (JStr (fm_password f)))"
  "jget ''ssh_key_path'' (Some (submitted f)) =
     (if fm_connectionMode f = Agent \<or> fm_authMethod f \<noteq> SshKey then None
      else Some (JStr (trim (fm_sshKeyPath f))))"
  unfolding submitted_def Let_def
  by (subst jget_JObj_members; simp)+

text \<open>
  The body of the request of a settled, valid form holds the port that was typed, and for
  direct access exactly one credential, the one of the chosen method; with an agent it holds none.
\<close>

theorem submitted_credentials:
  assumes "coherent f" "validateForm f = []"
  shows "(\<exists>n. parseInt (fm_port f) = Some n \<and> jget ''ssh_port'' (Some (create_body (submitted f))) = Some (JNum n)) \<and>
    jget ''ssh_password'' (Some (create_body (submitted f))) =
      (if fm_authMethod f = Password then Some (JStr (fm_password f)) else None) \<and>
    jget ''ssh_key_path'' (Some (create_body (submitted f))) =
      (if fm_authMethod f = SshKey then Some (JStr (trim (fm_sshKeyPath f))) else None) \<and>
    (fm_authMethod f = AgentToken \<longleftrightarrow> fm_connectionMode f = Agent)"
proof -
  obtain n where n: "parseInt (fm_port f) = Some n" "1 \<le> n"
    using valid_port [OF assms(2)] by blast
  have agent: "fm_authMethod f = AgentToken \<longleftrightarrow> fm_connectionMode f = Agent"
    using assms(1) by (auto simp: coherent_def)
  have port: "jget ''ssh_port'' (Some (create_body (submitted f))) = Some (JNum n)"
    using n by (simp add: create_body_kept submitted_member port_or_default_def)
  have "jget ''ssh_password'' (Some (create_body (submitted f))) =
      (if fm_authMethod f = Password then Some (JStr (fm_password f)) else None)"
    "jget ''ssh_key_path'' (Some (create_body (submitted f))) =
      (if fm_authMethod f = SshKey then Some (JStr (trim (fm_sshKeyPath f))) else None)"
    using agent by (auto simp: create_body_kept submitted_member)
  with n port agent show ?thesis by blast
qed

theorem submitted_credentials_witness:
  "jget ''ssh_password'' (Some (create_body (submitted sample_form))) = Some (JStr ''secret'')"
proof -
  have c: "coherent sample_form" by code_simp
  have "validateForm sample_form = []" by code_simp
  from submitted_credentials [OF c this] show ?thesis by (simp add: sample_form_def)
qed

end
