(* ===== verification/CreateResource.thy ===== *)
theory CreateResource
  imports Url Manifest
begin

text \<open>
  \<open>features/kubernetes/createResourceConfig.ts\<close>: the kinds of resources the console can create,
  with their starter manifests, and the address of the page that creates one.
\<close>

section \<open>Definitions\<close>

record K8sCreateResourceDefinition =
  kd_resourceType :: string
  kd_title :: string
  kd_activeResource :: string
  kd_kind :: string
  kd_addLabel :: string
  kd_namespaced :: bool
  kd_description :: "string option"
  kd_starterManifest :: "string \<Rightarrow> string"

definition resource ::
  "string \<Rightarrow> string \<Rightarrow> string \<Rightarrow> string \<Rightarrow> string \<Rightarrow> bool \<Rightarrow> string option \<Rightarrow> (string \<Rightarrow> string list)
     \<Rightarrow> string \<times> K8sCreateResourceDefinition" where
  "resource key title active kind label namespaced description starter =
     (key, \<lparr>kd_resourceType = key, kd_title = title, kd_activeResource = active, kd_kind = kind,
       kd_addLabel = label, kd_namespaced = namespaced, kd_description = description,
       kd_starterManifest = (\<lambda>ns. unlines (starter ns @ [[]]))\<rparr>)"

definition named :: "string \<Rightarrow> string \<Rightarrow> string \<Rightarrow> string \<Rightarrow> string list" where
  "named version kind name ns = head_lines version kind name ns"

definition DEFINITIONS :: "(string \<times> K8sCreateResourceDefinition) list" where
  "DEFINITIONS =
     [resource ''pod'' ''Add Pod'' ''pods'' ''Pod'' ''Create Pod'' True
        (Some ''Shape pod metadata and container settings, then apply a clean manifest into the selected namespace.'')
        (\<lambda>ns. named ''v1'' ''Pod'' ''sample-pod'' ns @
          [''  labels:'', ''    app: sample-pod'', ''spec:'', ''  containers:'', ''  - name: app'',
           ''    image: nginx:stable'', ''    ports:'', ''    - containerPort: 80'']),
      resource ''service'' ''Add Service'' ''services'' ''Service'' ''Add Service'' True
        (Some ''Create a Kubernetes Service with selector, ports, and type while keeping the YAML fully editable.'')
        (\<lambda>ns. named ''v1'' ''Service'' ''sample-service'' ns @
          [''spec:'', ''  selector:'', ''    app: sample-deployment'', ''  ports:'', ''  - name: http'',
           ''    port: 80'', ''    targetPort: 80'', ''  type: ClusterIP'']),
      resource ''deployment'' ''Add Deployment'' ''deployments'' ''Deployment'' ''Add Deployment'' True
        (Some ''Use the form to scaffold replicas, image, ports, and labels, then review the final rollout YAML before apply.'')
        (\<lambda>ns. named ''apps/v1'' ''Deployment'' ''sample-deployment'' ns @
          [''spec:'', ''  replicas: 1'', ''  selector:'', ''    matchLabels:'', ''      app: sample-deployment'',
           ''  template:'', ''    metadata:'', ''      labels:'', ''        app: sample-deployment'', ''    spec:'',
           ''      containers:'', ''      - name: app'', ''        image: nginx:stable'', ''        ports:'',
           ''        - containerPort: 80'']),
      resource ''configmap'' ''Add ConfigMap'' ''configmaps'' ''ConfigMap'' ''Add ConfigMap'' True
        (Some ''Draft config data with helper inputs, then validate the final YAML before applying it to the cluster.'')
        (\<lambda>ns. named ''v1'' ''ConfigMap'' ''sample-config'' ns @
          [''data:'', ''  APP_ENV: production'', ''  APP_NAME: einfra'']),
      resource ''secret'' ''Add Secret'' ''secrets'' ''Secret'' ''Add Secret'' True
        (Some ''Use readable stringData inputs where possible, then confirm the generated Secret YAML before apply.'')
        (\<lambda>ns. named ''v1'' ''Secret'' ''sample-secret'' ns @
          [''type: Opaque'', ''stringData:'', ''  username: admin'', ''  password: change-me'']),
      resource ''ingress'' ''Add Ingress'' ''ingresses'' ''Ingress'' ''Add Ingress'' True
        (Some ''Define routing, backend service, ingress class, and TLS in a focused layout with a live manifest preview.'')
        (\<lambda>ns. named ''networking.k8s.io/v1'' ''Ingress'' ''sample-ingress'' ns @
          [''spec:'', ''  ingressClassName: nginx'', ''  rules:'', ''  - host: sample.local'', ''    http:'',
           ''      paths:'', ''      - path: /'', ''        pathType: Prefix'', ''        backend:'',
           ''          service:'', ''            name: sample-service'', ''            port:'',
           ''              number: 80'']),
      resource ''job'' ''Add Job'' ''jobs'' ''Job'' ''Add Job'' True None
        (\<lambda>ns. named ''batch/v1'' ''Job'' ''sample-job'' ns @
          [''spec:'', ''  template:'', ''    spec:'', ''      restartPolicy: Never'', ''      containers:'',
           ''      - name: job'', ''        image: busybox'',
           ''        command: ['' @ dquote @ ''sh'' @ dquote @ '', '' @ dquote @ ''-c'' @ dquote @ '', '' @ dquote @
             ''echo hello'' @ dquote @ '']'']),
      resource ''namespace'' ''Add Namespace'' ''namespaces'' ''Namespace'' ''Add Namespace'' False None
        (\<lambda>ns. [''apiVersion: v1'', ''kind: Namespace'', ''metadata:'', ''  name: sample-namespace'']),
      resource ''persistentvolume'' ''Add Persistent Volume'' ''persistent-volumes'' ''PersistentVolume''
        ''Add Persistent Volume'' False None
        (\<lambda>ns. [''apiVersion: v1'', ''kind: PersistentVolume'', ''metadata:'', ''  name: sample-pv'', ''spec:'',
           ''  capacity:'', ''    storage: 10Gi'', ''  accessModes:'', ''  - ReadWriteOnce'',
           ''  persistentVolumeReclaimPolicy: Retain'', ''  hostPath:'', ''    path: /data/sample-pv''])]"

section \<open>Finding a definition\<close>

definition is_lower_alnum :: "char \<Rightarrow> bool" where
  "is_lower_alnum c \<longleftrightarrow> (let n = of_char c :: nat in 97 \<le> n \<and> n \<le> 122 \<or> 48 \<le> n \<and> n \<le> 57)"

definition normalizeResourceType :: "string \<Rightarrow> string" where
  "normalizeResourceType v = filter is_lower_alnum (lower v)"

text \<open>
  Reading a property of an object literal also finds those every object inherits; of their names
  only \<open>constructor\<close> is one a normalized type can have.
\<close>

datatype resolved_definition = Found K8sCreateResourceDefinition | Inherited | Missing

definition resolveCreateResourceDefinition :: "string \<Rightarrow> resolved_definition" where
  "resolveCreateResourceDefinition resourceType =
     (let k = normalizeResourceType resourceType in
      case map_of DEFINITIONS k of
        Some d \<Rightarrow> Found d
      | None \<Rightarrow> if k = ''constructor'' then Inherited else Missing)"

section \<open>The page that creates a resource\<close>

definition set_param :: "string \<Rightarrow> string option \<Rightarrow> params \<Rightarrow> params" where
  "set_param k v ps = (if truthy_str v then params_set k (the v) ps else ps)"

definition create_params :: "string option \<Rightarrow> string option \<Rightarrow> params" where
  "create_params clusterId namespace =
     set_param ''namespace'' namespace (set_param ''cluster'' clusterId [])"

definition buildCreateResourcePath :: "string \<Rightarrow> string option \<Rightarrow> string option \<Rightarrow> string" where
  "buildCreateResourcePath resourceType clusterId namespace =
     ''/resources/'' @ normalizeResourceType resourceType @ ''/create'' @
     query_suffix (create_params clusterId namespace)"

record create_page =
  cp_resourceType :: string
  cp_clusterId :: "string option"
  cp_namespace :: "string option"
  cp_title :: "string option"
  cp_activeResource :: "string option"
  cp_kind :: "string option"
  cp_addLabel :: "string option"
  cp_namespaced :: "bool option"
  cp_description :: "string option"
  cp_starterManifest :: "string option"

record page_state =
  ps_title :: "string option"
  ps_activeResource :: "string option"
  ps_kind :: "string option"
  ps_addLabel :: "string option"
  ps_namespaced :: "bool option"
  ps_description :: "string option"
  ps_starterManifest :: "string option"

text \<open>The arguments of the call of \<open>navigate\<close>.\<close>

definition openCreateResourcePage :: "create_page \<Rightarrow> string \<times> page_state" where
  "openCreateResourcePage d =
     (buildCreateResourcePath (cp_resourceType d) (cp_clusterId d) (cp_namespace d),
      \<lparr>ps_title = cp_title d, ps_activeResource = cp_activeResource d, ps_kind = cp_kind d,
       ps_addLabel = cp_addLabel d, ps_namespaced = cp_namespaced d, ps_description = cp_description d,
       ps_starterManifest = cp_starterManifest d\<rparr>)"

section \<open>Properties\<close>

lemma lower_alnum_lower: "is_lower_alnum c \<Longrightarrow> lower_char c = c"
  by (auto simp: is_lower_alnum_def lower_char_def Let_def)

lemma normalize_again: "normalizeResourceType (normalizeResourceType v) = normalizeResourceType v"
proof -
  have "lower (filter is_lower_alnum s) = filter is_lower_alnum s" for s
    by (induction s) (auto simp: lower_def lower_alnum_lower)
  then show ?thesis by (simp add: normalizeResourceType_def)
qed

lemma definitions_keyed: "list_all (\<lambda>(k, d). kd_resourceType d = k \<and> normalizeResourceType k = k) DEFINITIONS"
  by code_simp

text \<open>
  A definition is found under every spelling of its type: each is filed under its own
  normalized type, normalizing again changes nothing, and two spellings with the same letters and
  digits lead to the same definition and the same page.
\<close>

theorem definition_found:
  assumes "normalizeResourceType a = normalizeResourceType b"
  shows "resolveCreateResourceDefinition a = resolveCreateResourceDefinition b \<and>
    buildCreateResourcePath a c n = buildCreateResourcePath b c n \<and>
    resolveCreateResourceDefinition (normalizeResourceType a) = resolveCreateResourceDefinition a \<and>
    (resolveCreateResourceDefinition a = Found d \<longrightarrow> kd_resourceType d = normalizeResourceType a)"
proof (intro conjI impI)
  show "resolveCreateResourceDefinition a = resolveCreateResourceDefinition b"
    "buildCreateResourcePath a c n = buildCreateResourcePath b c n"
    using assms by (simp_all only: resolveCreateResourceDefinition_def buildCreateResourcePath_def)
  show "resolveCreateResourceDefinition (normalizeResourceType a) = resolveCreateResourceDefinition a"
    by (simp only: resolveCreateResourceDefinition_def normalize_again)
  assume "resolveCreateResourceDefinition a = Found d"
  then have "map_of DEFINITIONS (normalizeResourceType a) = Some d"
    by (auto simp: resolveCreateResourceDefinition_def Let_def split: option.splits if_splits)
  then show "kd_resourceType d = normalizeResourceType a"
    using definitions_keyed by (auto simp: list_all_iff dest!: map_of_SomeD)
qed

theorem definition_found_witness:
  "resolveCreateResourceDefinition ''Persistent-Volume'' = resolveCreateResourceDefinition ''persistentvolume'' \<and>
   resolveCreateResourceDefinition ''Persistent-Volume'' \<noteq> Missing"
proof -
  have n: "normalizeResourceType ''Persistent-Volume'' = normalizeResourceType ''persistentvolume''"
    by code_simp
  have "(case resolveCreateResourceDefinition ''persistentvolume'' of Found d \<Rightarrow> True | _ \<Rightarrow> False)"
    by code_simp
  then have "resolveCreateResourceDefinition ''persistentvolume'' \<noteq> Missing"
    by (auto split: resolved_definition.splits)
  with definition_found [OF n] show ?thesis by simp
qed

end
