(* ===== verification/KeyValueEditor.thy ===== *)
theory KeyValueEditor
  imports Manifest
begin

text \<open>
  The editor of key-value rows of \<open>features/kubernetes/pages/K8sCreateResourcePage.tsx\<close>: the check
  of the rows, the changes the editor makes to them and the normalization of configuration keys.
  The two patterns of keys are written out over the pieces between their separators.
\<close>

section \<open>The patterns of keys\<close>

definition is_lower_letter :: "char \<Rightarrow> bool" where
  "is_lower_letter c \<longleftrightarrow> (let n = of_char c :: nat in 97 \<le> n \<and> n \<le> 122)"

definition is_upper_letter :: "char \<Rightarrow> bool" where
  "is_upper_letter c \<longleftrightarrow> (let n = of_char c :: nat in 65 \<le> n \<and> n \<le> 90)"

text \<open>\<open>/^[A-Z_][A-Z0-9_]*$/\<close>.\<close>

definition env_char :: "char \<Rightarrow> bool" where
  "env_char c \<longleftrightarrow> is_upper_letter c \<or> is_digit c \<or> c = CHR ''_''"

definition env_key :: "string \<Rightarrow> bool" where
  "env_key k \<longleftrightarrow> k \<noteq> [] \<and> \<not> is_digit (hd k) \<and> list_all env_char k"

text \<open>
  \<open>[a-z0-9]([-a-z0-9]*[a-z0-9])?\<close>, pieces of it joined by dots, and the whole pattern: such a
  prefix with a slash, if any, and a name. Neither part holds a slash.
\<close>

definition low_char :: "char \<Rightarrow> bool" where
  "low_char c \<longleftrightarrow> is_lower_letter c \<or> is_digit c"

definition dns_piece :: "string \<Rightarrow> bool" where
  "dns_piece s \<longleftrightarrow> s \<noteq> [] \<and> low_char (hd s) \<and> low_char (last s) \<and> list_all (\<lambda>c. low_char c \<or> c = CHR ''-'') s"

definition label_char :: "char \<Rightarrow> bool" where
  "label_char c \<longleftrightarrow> is_lower_letter c \<or> is_upper_letter c \<or> is_digit c"

definition label_name :: "string \<Rightarrow> bool" where
  "label_name s \<longleftrightarrow> s \<noteq> [] \<and> label_char (hd s) \<and> label_char (last s) \<and>
     list_all (\<lambda>c. label_char c \<or> c \<in> {CHR ''-'', CHR ''_'', CHR ''.''}) s"

definition label_key :: "string \<Rightarrow> bool" where
  "label_key k \<longleftrightarrow>
     (case split_on (CHR ''/'') k of
        [name] \<Rightarrow> label_name name
      | [pre, name] \<Rightarrow> list_all dns_piece (split_on (CHR ''.'') pre) \<and> label_name name
      | _ \<Rightarrow> False)"

section \<open>Checking the rows\<close>

definition key_error :: "bool \<Rightarrow> string set \<Rightarrow> string \<Rightarrow> string option" where
  "key_error requireUppercaseKey keys k =
     (if k \<in> keys then Some ''Duplicate key''
      else if CHR '' '' \<in> set k then Some ''Key cannot contain spaces''
      else if requireUppercaseKey then
        if env_key k then None else Some ''Uppercase and underscore only (e.g. APP_ENV)''
      else if label_key k then None else Some ''Invalid format'')"

fun checked :: "bool \<Rightarrow> string set \<Rightarrow> entry list \<Rightarrow> entry list" where
  "checked requireUppercaseKey keys [] = []"
| "checked requireUppercaseKey keys (e # es) =
     (let k = trim (en_key e) in
      if k \<noteq> [] then e\<lparr>en_error := key_error requireUppercaseKey keys k\<rparr> # checked requireUppercaseKey (insert k keys) es
      else e\<lparr>en_error := if trim (en_value e) \<noteq> [] then Some ''Key cannot be empty'' else None\<rparr>
        # checked requireUppercaseKey keys es)"

definition validateEntries :: "entry list \<Rightarrow> bool \<Rightarrow> entry list" where
  "validateEntries entries requireUppercaseKey = checked requireUppercaseKey {} entries"

section \<open>Changing the rows\<close>

definition blank_entry :: "string \<Rightarrow> entry" where
  "blank_entry uid = \<lparr>en_id = uid, en_key = [], en_value = [], en_error = None\<rparr>"

definition entry_of :: "string \<Rightarrow> string \<Rightarrow> string \<Rightarrow> entry" where
  "entry_of uid k v = \<lparr>en_id = uid, en_key = k, en_value = v, en_error = None\<rparr>"

definition shown_entries :: "string \<Rightarrow> entry list \<Rightarrow> entry list" where
  "shown_entries uid entries = (if entries = [] then [blank_entry uid] else entries)"

definition updateEntry :: "bool \<Rightarrow> string \<Rightarrow> (entry \<Rightarrow> entry) \<Rightarrow> entry list \<Rightarrow> entry list" where
  "updateEntry upper_only uid f entries =
     validateEntries (map (\<lambda>e. if en_id e = uid then f e else e) entries) upper_only"

definition changeKey :: "bool \<Rightarrow> string \<Rightarrow> string \<Rightarrow> entry list \<Rightarrow> entry list" where
  "changeKey upper_only uid v =
     updateEntry upper_only uid (en_key_update (\<lambda>_. if upper_only then upper v else v))"

definition changeValue :: "bool \<Rightarrow> string \<Rightarrow> string \<Rightarrow> entry list \<Rightarrow> entry list" where
  "changeValue upper_only uid v = updateEntry upper_only uid (en_value_update (\<lambda>_. v))"

definition addEntry :: "string \<Rightarrow> entry list \<Rightarrow> entry list" where
  "addEntry new entries = entries @ [blank_entry new]"

definition removeEntry :: "bool \<Rightarrow> string \<Rightarrow> string \<Rightarrow> entry list \<Rightarrow> entry list" where
  "removeEntry upper_only new uid entries =
     (if length entries = 1 \<and> en_key (hd entries) = [] \<and> en_value (hd entries) = [] then entries
      else validateEntries (shown_entries new (filter (\<lambda>e. en_id e \<noteq> uid) entries)) upper_only)"

text \<open>What the editor can make of the rows it shows.\<close>

inductive entries_edited :: "bool \<Rightarrow> entry list \<Rightarrow> entry list \<Rightarrow> bool" for upper_only entries where
  changes_key: "entries_edited upper_only entries (changeKey upper_only uid v entries)"
| changes_value: "entries_edited upper_only entries (changeValue upper_only uid v entries)"
| adds_entry: "entries_edited upper_only entries (addEntry new entries)"
| removes_entry: "entries_edited upper_only entries (removeEntry upper_only new uid entries)"

section \<open>Normalizing keys\<close>

text \<open>
  \<open>replace(/[^A-Z0-9_]/g, "_")\<close> replaces each UTF-16 unit: a character outside ASCII is one unit,
  or two where its UTF-8 form has four bytes.
\<close>

definition env_units :: "char \<Rightarrow> string" where
  "env_units c =
     (let n = of_char c :: nat in
      if env_char c then [c]
      else if n < 128 then ''_''
      else if n < 192 then []
      else if n < 240 then ''_'' else ''__'')"

definition normalized_entry :: "entry \<Rightarrow> entry" where
  "normalized_entry e =
     (let v = trim (en_value e) in
      e\<lparr>en_key := concat (map env_units (upper (trim (en_key e)))),
        en_value := (if v = ''prod'' then ''production'' else if v = ''dev'' then ''development'' else v)\<rparr>)"

definition normalizeEntries :: "entry list \<Rightarrow> entry list" where
  "normalizeEntries entries = validateEntries (map normalized_entry entries) True"

definition node_preset :: "(nat \<Rightarrow> string) \<Rightarrow> entry list" where
  "node_preset ids =
     validateEntries [entry_of (ids 0) ''NODE_ENV'' ''production'', entry_of (ids 1) ''PORT'' ''3000''] True"

definition spring_preset :: "(nat \<Rightarrow> string) \<Rightarrow> entry list" where
  "spring_preset ids =
     validateEntries [entry_of (ids 0) ''SPRING_PROFILES_ACTIVE'' ''prod'', entry_of (ids 1) ''SERVER_PORT'' ''8080''] True"

section \<open>What the check means\<close>

definition well_formed_key :: "bool \<Rightarrow> string \<Rightarrow> bool" where
  "well_formed_key upper_only k \<longleftrightarrow> CHR '' '' \<notin> set k \<and> (if upper_only then env_key k else label_key k)"

lemma key_error_None: "key_error u keys k = None \<longleftrightarrow> k \<notin> keys \<and> well_formed_key u k"
  by (simp add: key_error_def well_formed_key_def)

definition row_complete :: "entry \<Rightarrow> bool" where
  "row_complete e \<longleftrightarrow> (trim (en_key e) = [] \<longrightarrow> trim (en_value e) = [])"

definition filled_keys :: "entry list \<Rightarrow> string list" where
  "filled_keys es = filter (\<lambda>k. k \<noteq> []) (map (\<lambda>e. trim (en_key e)) es)"

lemma filled_keys_simps [simp]:
  "filled_keys [] = []"
  "filled_keys (e # es) = (if trim (en_key e) = [] then filled_keys es else trim (en_key e) # filled_keys es)"
  by (simp_all add: filled_keys_def)

lemma checked_errors:
  "list_all (\<lambda>e. en_error e = None) (checked u keys es) \<longleftrightarrow>
     distinct (filled_keys es) \<and> set (filled_keys es) \<inter> keys = {} \<and> list_all (well_formed_key u) (filled_keys es) \<and>
     list_all row_complete es"
proof (induction es arbitrary: keys)
  case (Cons e es)
  show ?case
  proof (cases "trim (en_key e) = []")
    case True
    then show ?thesis by (simp add: Cons.IH Let_def row_complete_def)
  next
    case False
    then show ?thesis by (simp add: Cons.IH Let_def key_error_None row_complete_def) blast
  qed
qed simp

lemma checked_rows:
  "map en_id (checked u keys es) = map en_id es \<and> map en_key (checked u keys es) = map en_key es \<and>
   map en_value (checked u keys es) = map en_value es"
  by (induction es arbitrary: keys) (simp_all add: Let_def)

lemma checked_again: "checked u keys (checked u keys es) = checked u keys es"
  by (induction es arbitrary: keys) (simp_all add: Let_def)

text \<open>
  C19. The check of rows decides their type: it changes no key, value or identifier, and leaves no
  error exactly when the keys that are not blank are all different and well-formed and no value
  stands without a key; checking twice is checking once.
\<close>

theorem valid_entries:
  "map en_key (validateEntries es u) = map en_key es \<and> map en_value (validateEntries es u) = map en_value es \<and>
   map en_id (validateEntries es u) = map en_id es \<and>
   validateEntries (validateEntries es u) u = validateEntries es u \<and>
   (list_all (\<lambda>e. en_error e = None) (validateEntries es u) \<longleftrightarrow>
      distinct (filled_keys es) \<and> list_all (well_formed_key u) (filled_keys es) \<and>
      list_all row_complete es)"
proof -
  have "list_all (\<lambda>e. en_error e = None) (checked u {} es) \<longleftrightarrow>
      distinct (filled_keys es) \<and> list_all (well_formed_key u) (filled_keys es) \<and> list_all row_complete es"
    unfolding checked_errors by simp
  then show ?thesis
    unfolding validateEntries_def using checked_rows [of u "{}" es] checked_again [of u "{}" es] by blast
qed

subsection \<open>Normalized keys\<close>

lemma env_units_chars: "c \<in> set (env_units x) \<Longrightarrow> env_char c"
  by (auto simp: env_units_def Let_def env_char_def split: if_splits)

lemma env_char_no_space: "env_char c \<Longrightarrow> c \<noteq> CHR '' '' \<and> \<not> is_ws c"
  by (auto simp: env_char_def is_upper_letter_def is_digit_def is_ws_def)

lemma normalized_key_chars: "c \<in> set (en_key (normalized_entry e)) \<Longrightarrow> env_char c"
  by (auto simp: normalized_entry_def Let_def dest: env_units_chars)

lemma no_ws_trim: "\<forall>c \<in> set s. \<not> is_ws c \<Longrightarrow> trim s = s"
  by (rule trim_fix) (cases "s = []", simp_all)

lemma normalized_key_trim: "trim (en_key (normalized_entry e)) = en_key (normalized_entry e)"
  by (rule no_ws_trim) (use normalized_key_chars env_char_no_space in blast)

lemma normalized_key_form:
  "k = en_key (normalized_entry e) \<Longrightarrow> k \<noteq> [] \<Longrightarrow> well_formed_key True k \<longleftrightarrow> \<not> is_digit (hd k)"
  using normalized_key_chars [of _ e] env_char_no_space
  by (auto simp: well_formed_key_def env_key_def list_all_iff)

lemma rows_by_fields:
  "map en_key xs = map en_key ys \<Longrightarrow> map en_value xs = map en_value ys \<Longrightarrow>
   list_all (\<lambda>e. p (en_key e) (en_value e)) xs \<longleftrightarrow> list_all (\<lambda>e. p (en_key e) (en_value e)) ys"
proof (induction xs arbitrary: ys)
  case (Cons x xs)
  then show ?case by (cases ys) simp_all
qed simp

text \<open>
  After AI Normalize the only rows still refused are those whose key repeats an earlier one,
  starts with a digit, or is missing beside a value: every character the pattern refuses is gone.
\<close>

theorem normalized_accepted:
  "list_all (\<lambda>e. en_error e = None) (normalizeEntries es) \<longleftrightarrow>
     distinct (filled_keys (normalizeEntries es)) \<and>
     list_all (\<lambda>k. \<not> is_digit (hd k)) (filled_keys (normalizeEntries es)) \<and>
     list_all row_complete (normalizeEntries es)"
proof -
  let ?ns = "map normalized_entry es"
  have keys: "map en_key (normalizeEntries es) = map en_key ?ns"
    and vals: "map en_value (normalizeEntries es) = map en_value ?ns"
    using checked_rows [of True "{}" ?ns] unfolding normalizeEntries_def validateEntries_def by blast+
  have filled: "filled_keys (normalizeEntries es) = filled_keys ?ns"
    using arg_cong [OF keys, where f = "\<lambda>ks. filter (\<lambda>k. k \<noteq> []) (map trim ks)"]
    by (simp add: filled_keys_def comp_def)
  have wf: "list_all (well_formed_key True) (filled_keys ?ns) \<longleftrightarrow> list_all (\<lambda>k. \<not> is_digit (hd k)) (filled_keys ?ns)"
    by (rule list.pred_cong [OF refl])
      (auto simp: filled_keys_def normalized_key_trim normalized_key_form [OF refl])
  have rows: "list_all row_complete (normalizeEntries es) \<longleftrightarrow> list_all row_complete ?ns"
    using rows_by_fields [OF keys vals, of "\<lambda>k v. trim k = [] \<longrightarrow> trim v = []"] unfolding row_complete_def .
  have "list_all (\<lambda>e. en_error e = None) (checked True {} ?ns) \<longleftrightarrow>
      distinct (filled_keys ?ns) \<and> list_all (\<lambda>k. \<not> is_digit (hd k)) (filled_keys ?ns) \<and> list_all row_complete ?ns"
    unfolding checked_errors wf by simp
  then show ?thesis
    unfolding filled rows unfolding normalizeEntries_def validateEntries_def .
qed

end
