(* ===== verification/YamlView.thy ===== *)
theory YamlView
  imports Manifest DockerCompose
begin

text \<open>
  How \<open>features/kubernetes/pages/K8sCreateResourcePage.tsx\<close> shows YAML: the lines of a text, the rows
  of the split diff, the parts a line is coloured in and the colour of each. A part is its text and
  its class; of a class the colour of the light theme is kept.
\<close>

section \<open>Lines and differences\<close>

definition normalizeYamlLines :: "string \<Rightarrow> string list" where
  "normalizeYamlLines v = lines_of (drop_crlf v)"

datatype diff_type = Same | Add | Remove

record diff_row =
  dr_type :: diff_type
  dr_before :: string
  dr_after :: string

definition line_at :: "string list \<Rightarrow> nat \<Rightarrow> string option" where
  "line_at ls i = (if i < length ls then Some (ls ! i) else None)"

definition diff_row_of :: "string option \<Rightarrow> string option \<Rightarrow> diff_row" where
  "diff_row_of prev next =
     \<lparr>dr_type =
        (if prev = next then Same else if prev = None then Add else if next = None then Remove else Add),
      dr_before = nullish prev [], dr_after = nullish next []\<rparr>"

definition buildSplitDiffRows :: "string \<Rightarrow> string \<Rightarrow> diff_row list" where
  "buildSplitDiffRows beforeText afterText =
     (let before = lines_of (drop_crlf beforeText); after = lines_of (drop_crlf afterText);
          rows = map (\<lambda>i. diff_row_of (line_at before i) (line_at after i)) [0 ..< max (length before) (length after)] in
      if rows \<noteq> [] then rows else [\<lparr>dr_type = Same, dr_before = [], dr_after = []\<rparr>])"

definition normalizeFileName :: "string \<Rightarrow> string" where
  "normalizeFileName v = or_str (strip_dashes (dash_runs False (lower v))) ''manifest''"

section \<open>Colours\<close>

text \<open>The values the page tells apart.\<close>

datatype value_class = Plain | KindValue string | VersionValue | ImageValue | NameValue | QuotedValue |
  WordValue | QuantityValue | BracketValue | DomainValue | OtherValue

definition getYamlKeyClass :: "string \<Rightarrow> string" where
  "getYamlKeyClass key =
     (let k = trim key in
      if k \<in> set [''apiVersion'', ''kind''] then ''fuchsia''
      else if k \<in> set [''metadata'', ''spec'', ''status'', ''template'', ''selector'', ''matchLabels''] then ''sky''
      else if k \<in> set [''name'', ''namespace'', ''labels'', ''annotations''] then ''blue''
      else if k \<in> set [''data'', ''stringData'', ''env'', ''ports'', ''containers'', ''volumes''] then ''emerald''
      else if k \<in> set [''image'', ''imagePullPolicy'', ''resources'', ''requests'', ''limits''] then ''orange''
      else if k \<in> set [''type'', ''protocol'', ''serviceAccountName'', ''restartPolicy''] then ''violet''
      else ''sky'')"

definition getYamlKindClass :: "string \<Rightarrow> string" where
  "getYamlKindClass kind =
     (let k = lower (trim kind) in
      if k \<in> set [''deployment'', ''statefulset'', ''daemonset'', ''replicaset''] then ''indigo''
      else if k \<in> set [''service'', ''ingress'', ''gateway'', ''httproute''] then ''cyan''
      else if k \<in> set [''configmap'', ''secret''] then ''emerald''
      else if k \<in> set [''pod'', ''job'', ''cronjob''] then ''amber''
      else ''fuchsia'')"

subsection \<open>The patterns of values\<close>

definition is_quote :: "char \<Rightarrow> bool" where
  "is_quote c \<longleftrightarrow> c = CHR 0x22 \<or> c = CHR 0x27"

definition inside :: "string \<Rightarrow> string" where
  "inside s = butlast (tl s)"

definition quoted_value :: "string \<Rightarrow> bool" where
  "quoted_value s \<longleftrightarrow> 3 \<le> length s \<and> is_quote (hd s) \<and> is_quote (last s) \<and> \<not> has_terminator (inside s)"

definition word_value :: "string \<Rightarrow> bool" where
  "word_value s \<longleftrightarrow> lower s \<in> set [''true'', ''false'', ''null'', ''yes'', ''no'', ''on'', ''off'']"

definition quantity_value :: "string \<Rightarrow> bool" where
  "quantity_value s \<longleftrightarrow>
     (let ds = takeWhile is_digit s in
      ds \<noteq> [] \<and> lower (drop (length ds) s) \<in> set [[], ''m'', ''mi'', ''gi'', ''ti'', ''ki'', ''n''])"

definition number_value :: "string \<Rightarrow> bool" where
  "number_value s \<longleftrightarrow>
     (let t = (if starts_with ''-'' s then tl s else s); ds = takeWhile is_digit t; r = drop (length ds) t in
      ds \<noteq> [] \<and> (r = [] \<or> hd r = CHR ''.'' \<and> tl r \<noteq> [] \<and> list_all is_digit (tl r)))"

definition bracket_value :: "string \<Rightarrow> bool" where
  "bracket_value s \<longleftrightarrow> 2 \<le> length s \<and> hd s \<in> {CHR ''['', CHR 0x7B} \<and> last s \<in> {CHR '']'', CHR 0x7D} \<and>
     \<not> has_terminator (inside s)"

text \<open>
  A name, a dot and more, and at most one tag after a colon. No character of the name or the tag
  pattern is a colon, so the text is cut at its first one.
\<close>

definition host_char :: "char \<Rightarrow> bool" where
  "host_char c \<longleftrightarrow> is_alnum c \<or> c = CHR ''-''"

definition domain_value :: "string \<Rightarrow> bool" where
  "domain_value s \<longleftrightarrow>
     (let base = takeWhile (\<lambda>c. c \<noteq> CHR '':'') s; tag = drop (length base) s;
          first = takeWhile host_char base; r = drop (length first) base in
      first \<noteq> [] \<and> r \<noteq> [] \<and> hd r = CHR ''.'' \<and> tl r \<noteq> [] \<and>
      list_all (\<lambda>c. host_char c \<or> c = CHR ''.'') (tl r) \<and>
      (tag = [] \<or> tl tag \<noteq> [] \<and>
        list_all (\<lambda>c. host_char c \<or> c = CHR ''.'' \<or> c = CHR ''_'') (tl tag)))"

definition renderYamlValue :: "string \<Rightarrow> string option \<Rightarrow> string \<times> value_class" where
  "renderYamlValue v parentKey =
     (let t = trim v in
      (v,
       if t = [] then Plain
       else if parentKey = Some ''kind'' then KindValue (getYamlKindClass t)
       else if parentKey = Some ''apiVersion'' then VersionValue
       else if parentKey = Some ''image'' then ImageValue
       else if parentKey = Some ''namespace'' \<or> parentKey = Some ''name'' then NameValue
       else if quoted_value t then QuotedValue
       else if word_value t then WordValue
       else if quantity_value t \<or> number_value t then QuantityValue
       else if bracket_value t then BracketValue
       else if domain_value t then DomainValue
       else OtherValue))"

section \<open>The parts of a line\<close>

datatype part_class = PrefixPart | KeyPart string | ColonPart | ValuePart value_class | CommentPart | BlankPart

text \<open>
  \<open>/^(\s*-\s+|\s*)([^:#\n][^:]*?)(\s*:\s*)(.*)$/\<close> on a line without a comment. The key ends
  before the first colon and the white space in front of it, but has at least one character: where
  only white space is left for it, the white space of the prefix gives one back.
\<close>

definition give_back :: "string \<Rightarrow> string \<Rightarrow> (string \<times> string) option" where
  "give_back p k =
     (if k \<noteq> [] then Some (p, k)
      else if p \<noteq> [] \<and> is_ws (last p) then Some (butlast p, [last p]) else None)"

definition dash_prefix :: "string \<Rightarrow> (string \<times> string) option" where
  "dash_prefix s =
     (let a = takeWhile is_ws s; r = dropWhile is_ws s in
      case r of [] \<Rightarrow> None
      | c # r' \<Rightarrow>
          let w = takeWhile is_ws r' in
          if c \<noteq> CHR ''-'' \<or> w = [] then None
          else if dropWhile is_ws r' \<noteq> [] then Some (a @ [c] @ w, dropWhile is_ws r')
          else if 1 < length w then Some (a @ [c] @ butlast w, [last w]) else None)"

definition plain_prefix :: "string \<Rightarrow> (string \<times> string) option" where
  "plain_prefix s = give_back (takeWhile is_ws s) (dropWhile is_ws s)"

definition key_prefix :: "string \<Rightarrow> (string \<times> string) option" where
  "key_prefix s = nullish_opt (dash_prefix s) (plain_prefix s)"

text \<open>The shortest key and the white space after it.\<close>

definition key_end :: "string \<Rightarrow> string \<times> string" where
  "key_end k = (hd k # rtrim (tl k), drop (length (rtrim (tl k))) (tl k))"

definition keyMatch :: "string \<Rightarrow> (string \<times> string \<times> string \<times> string) option" where
  "keyMatch source =
     (let pre = takeWhile (\<lambda>c. c \<noteq> CHR '':'') source; post = drop (length pre) source in
      if post = [] then None
      else case key_prefix pre of
        None \<Rightarrow> None
      | Some (p, k) \<Rightarrow>
          let after = tl post; rest = ltrim after in
          if has_terminator rest then None
          else Some (p, fst (key_end k), snd (key_end k) @ [hd post] @ take (length after - length rest) after, rest))"

definition value_part :: "string \<Rightarrow> string option \<Rightarrow> string \<times> part_class" where
  "value_part v parentKey = (fst (renderYamlValue v parentKey), ValuePart (snd (renderYamlValue v parentKey)))"

definition comment_part :: "string \<Rightarrow> (string \<times> part_class) list" where
  "comment_part comment = (if comment = [] then [] else [(comment, CommentPart)])"

definition YamlInlineHighlight :: "string \<Rightarrow> (string \<times> part_class) list" where
  "YamlInlineHighlight line =
     (if line = [] then [([CHR 0xC2, CHR 0xA0], BlankPart)]
      else
        let source = takeWhile (\<lambda>c. c \<noteq> CHR ''#'') line; comment = drop (length source) line in
        case keyMatch source of
          Some (p, k, colon, rest) \<Rightarrow>
            [(p, PrefixPart), (k, KeyPart (getYamlKeyClass (trim k))), (colon, ColonPart),
             value_part rest (Some (trim k))] @ comment_part comment
        | None \<Rightarrow>
            if comment \<noteq> [] then value_part source None # comment_part comment else [value_part line None])"

section \<open>What is shown is the text\<close>

lemma give_back_joins: "give_back p k = Some (a, b) \<Longrightarrow> a @ b = p @ k \<and> b \<noteq> []"
  by (auto simp: give_back_def split: if_splits)

lemma dash_prefix_joins: "dash_prefix s = Some (a, b) \<Longrightarrow> a @ b = s \<and> b \<noteq> []"
proof -
  assume d: "dash_prefix s = Some (a, b)"
  then obtain c r where r: "dropWhile is_ws s = c # r" by (auto simp: dash_prefix_def Let_def split: list.splits)
  define x w y where xwy: "x = takeWhile is_ws s" "w = takeWhile is_ws r" "y = dropWhile is_ws r"
  have s: "s = x @ c # w @ y"
    using r takeWhile_dropWhile_id [of is_ws s] unfolding xwy by simp
  have "dash_prefix s = (if c \<noteq> CHR ''-'' \<or> w = [] then None else if y \<noteq> [] then Some (x @ [c] @ w, y)
      else if 1 < length w then Some (x @ [c] @ butlast w, [last w]) else None)"
    by (simp add: dash_prefix_def Let_def r xwy)
  with d show ?thesis unfolding s by (auto split: if_splits)
qed

lemma key_prefix_joins: "key_prefix s = Some (a, b) \<Longrightarrow> a @ b = s \<and> b \<noteq> []"
  unfolding key_prefix_def nullish_opt_def plain_prefix_def
  by (auto split: option.splits dest!: dash_prefix_joins give_back_joins)

lemma key_end_joins: "k \<noteq> [] \<Longrightarrow> fst (key_end k) @ snd (key_end k) = k"
proof -
  assume k: "k \<noteq> []"
  obtain w where "tl k = rtrim (tl k) @ w" using rtrim_prefix [of "tl k"] by blast
  then have "rtrim (tl k) @ drop (length (rtrim (tl k))) (tl k) = tl k" by (metis append_eq_conv_conj)
  with k show ?thesis by (cases k) (simp_all add: key_end_def)
qed

lemma ltrim_suffix: "take (length s - length (ltrim s)) s @ ltrim s = s"
  unfolding ltrim_def by (metis append_eq_conv_conj length_append add_diff_cancel_right' takeWhile_dropWhile_id)

lemma case_some:
  "(case x of None \<Rightarrow> None | Some (p, k) \<Rightarrow> if b then None else Some (p, f k, g k, e)) = Some (p', k', c, r) \<Longrightarrow>
   \<exists>k0. x = Some (p', k0) \<and> k' = f k0 \<and> c = g k0 \<and> r = e"
  by (cases x) (auto split: if_splits)

lemma keyMatch_joins:
  assumes "keyMatch s = Some (p, k, c, r)"
  shows "p @ k @ c @ r = s \<and> k \<noteq> [] \<and> set k \<subseteq> set (takeWhile (\<lambda>c. c \<noteq> CHR '':'') s)"
proof -
  define pre post where pp: "pre = takeWhile (\<lambda>c. c \<noteq> CHR '':'') s" "post = drop (length pre) s"
  have s: "s = pre @ post"
    unfolding pp dropWhile_eq_drop [symmetric] by simp
  define ws where "ws = take (length (tl post) - length (ltrim (tl post))) (tl post)"
  have m: "(if post = [] then None else case key_prefix pre of None \<Rightarrow> None
      | Some (p, k) \<Rightarrow> if has_terminator (ltrim (tl post)) then None
          else Some (p, fst (key_end k), snd (key_end k) @ [hd post] @ ws, ltrim (tl post))) = Some (p, k, c, r)"
    using assms unfolding keyMatch_def Let_def pp ws_def .
  then have post: "post \<noteq> []" by (rule contrapos_pn) simp
  obtain k' where k': "key_prefix pre = Some (p, k')" "k = fst (key_end k')"
      "c = snd (key_end k') @ [hd post] @ ws" "r = ltrim (tl post)"
    using case_some [OF m [unfolded if_not_P [OF post]]] by blast
  note a = key_prefix_joins [OF k'(1)]
  have key: "k @ snd (key_end k') = k'" using key_end_joins a k'(2) by simp
  have "k @ c @ r = (k @ snd (key_end k')) @ hd post # ws @ ltrim (tl post)"
    unfolding k'(3,4) by simp
  also have "\<dots> = k' @ post" unfolding key ws_def ltrim_suffix using post by simp
  finally have "p @ k @ c @ r = (p @ k') @ post" by simp
  moreover have "k \<noteq> []" using k'(2) by (simp add: key_end_def)
  moreover have "set k \<subseteq> set pre" using a [THEN conjunct1, THEN arg_cong [where f = set]] key [THEN arg_cong [where f = set]] by auto
  moreover have "(p @ k') @ post = s" using a [THEN conjunct1] s by metis
  ultimately show ?thesis unfolding pp(1) [symmetric] by metis
qed

lemma line_at_inj: "(\<And>i. i < max (length a) (length b) \<Longrightarrow> line_at a i = line_at b i) \<Longrightarrow> a = b"
proof (rule nth_equalityI)
  assume same: "\<And>i. i < max (length a) (length b) \<Longrightarrow> line_at a i = line_at b i"
  show len: "length a = length b"
  proof (rule linorder_cases [of "length a" "length b"])
    assume "length a < length b"
    then show ?thesis using same [of "length a"] by (simp add: line_at_def)
  next
    assume "length b < length a"
    then show ?thesis using same [of "length b"] by (simp add: line_at_def)
  qed
  show "a ! i = b ! i" if "i < length a" for i
    using same [of i] that len by (simp add: line_at_def)
qed

text \<open>
  The split diff tells the truth: every row is unmarked exactly when the two texts are equal up
  to carriage returns, there is one row per line of the longer text, and the left column read
  downwards, as far as the old text goes, is the old text.
\<close>

theorem diff_truthful:
  "(list_all (\<lambda>r. dr_type r = Same) (buildSplitDiffRows a b) \<longleftrightarrow> drop_crlf a = drop_crlf b) \<and>
   length (buildSplitDiffRows a b) = max (length (normalizeYamlLines a)) (length (normalizeYamlLines b)) \<and>
   join_with [CHR 0x0A] (map dr_before (take (length (normalizeYamlLines a)) (buildSplitDiffRows a b))) = drop_crlf a"
proof -
  let ?a = "lines_of (drop_crlf a)" and ?b = "lines_of (drop_crlf b)"
  let ?n = "max (length ?a) (length ?b)"
  have "0 < ?n" by (simp add: less_max_iff_disj)
  then have rows: "buildSplitDiffRows a b = map (\<lambda>i. diff_row_of (line_at ?a i) (line_at ?b i)) [0 ..< ?n]"
    unfolding buildSplitDiffRows_def Let_def by simp
  have type: "dr_type (diff_row_of x y) = Same \<longleftrightarrow> x = y" for x y by (simp add: diff_row_of_def)
  have "list_all (\<lambda>r. dr_type r = Same) (buildSplitDiffRows a b) \<longleftrightarrow> (\<forall>i < ?n. line_at ?a i = line_at ?b i)"
    unfolding rows by (auto simp: list_all_iff type)
  also have "\<dots> \<longleftrightarrow> ?a = ?b" using line_at_inj [of ?a ?b] by auto
  also have "\<dots> \<longleftrightarrow> drop_crlf a = drop_crlf b" by (metis join_split)
  finally have same: "list_all (\<lambda>r. dr_type r = Same) (buildSplitDiffRows a b) \<longleftrightarrow> drop_crlf a = drop_crlf b" .
  have "map dr_before (take (length ?a) (buildSplitDiffRows a b)) = ?a"
    unfolding rows by (rule nth_equalityI) (simp_all add: diff_row_of_def line_at_def nullish_def)
  then show ?thesis using same by (simp add: normalizeYamlLines_def rows join_split)
qed

text \<open>
  Colouring a line changes nothing in it: the parts of a line that is not empty, put together,
  are the line, and when a part is taken for a key, it is neither empty nor holds a colon.
\<close>

theorem highlight_lossless:
  assumes "line \<noteq> []"
  shows "concat (map fst (YamlInlineHighlight line)) = line \<and>
    (\<forall>k c. (k, KeyPart c) \<in> set (YamlInlineHighlight line) \<longrightarrow> k \<noteq> [] \<and> CHR '':'' \<notin> set k)"
proof -
  let ?source = "takeWhile (\<lambda>c. c \<noteq> CHR ''#'') line"
  define comment where "comment = drop (length ?source) line"
  have line: "?source @ comment = line"
    unfolding comment_def by (metis append_eq_conv_conj takeWhile_dropWhile_id)
  have comment: "concat (map fst (comment_part comment)) = comment" "\<forall>k c. (k, KeyPart c) \<notin> set (comment_part comment)"
    by (simp_all add: comment_part_def)
  have value_part: "fst (value_part v q) = v" "snd (value_part v q) \<noteq> KeyPart c" "value_part v q \<noteq> (k, KeyPart c)" "(k, KeyPart c) \<noteq> value_part v q" for v q c k
    by (simp_all add: value_part_def renderYamlValue_def Let_def)
  show ?thesis
  proof (cases "keyMatch ?source")
    case None
    then have parts: "YamlInlineHighlight line =
        (if comment \<noteq> [] then value_part ?source None # comment_part comment else [value_part line None])"
      using assms by (simp add: YamlInlineHighlight_def Let_def comment_def)
    show ?thesis
      using line by (cases "comment = []") (simp_all add: parts comment value_part)
  next
    case (Some m)
    obtain p k c r where m: "m = (p, k, c, r)" by (cases m) auto
    note joins = keyMatch_joins [OF Some [unfolded m]]
    have parts: "YamlInlineHighlight line = [(p, PrefixPart), (k, KeyPart (getYamlKeyClass (trim k))), (c, ColonPart),
        value_part r (Some (trim k))] @ comment_part comment"
      using assms by (simp add: YamlInlineHighlight_def Let_def Some m comment_def)
    have "CHR '':'' \<notin> set k" using joins by (auto dest: set_takeWhileD)
    moreover have "concat (map fst (YamlInlineHighlight line)) = (p @ k @ c @ r) @ comment"
      by (simp add: parts value_part comment)
    ultimately show ?thesis using joins line comment value_part by (simp add: parts)
  qed
qed

theorem highlight_lossless_witness:
  "concat (map fst (YamlInlineHighlight ''  - name: web # the front'')) = ''  - name: web # the front''"
  using highlight_lossless [of "''  - name: web # the front''"] by simp

end
