(* ===== verification/CreatePage.thy ===== *)
theory CreatePage
  imports CreateResource KeyValueEditor YamlView KubernetesApi Machine
begin

text \<open>
  \<open>features/kubernetes/pages/K8sCreateResourcePage.tsx\<close>, the component: what it reads from the
  address and the definitions, its state, effects and handlers, the manifest it applies, and the
  guard against leaving it. The clusters, namespaces, tags and the environment it reads from
  elsewhere and new random identifiers are arguments. Loading the tags, the clipboard and the
  download of the preview change nothing else and are left out.
\<close>

section \<open>What the page is opened with\<close>

record page_config =
  pc_title :: string
  pc_activeResource :: string
  pc_description :: string
  pc_addLabel :: string
  pc_namespaced :: bool
  pc_initialNamespace :: string
  pc_starter :: string
  pc_initialName :: string
  pc_initialManifestNamespace :: string

definition name_of_manifest :: "string \<Rightarrow> string" where
  "name_of_manifest m = extractManifestValue m (key_at ''name:'')"

definition namespace_of_manifest :: "string \<Rightarrow> string" where
  "namespace_of_manifest m = extractManifestValue m (key_at ''namespace:'')"

definition found :: "(K8sCreateResourceDefinition \<Rightarrow> 'a) \<Rightarrow> resolved_definition \<Rightarrow> 'a option" where
  "found f r = (case r of Found d \<Rightarrow> Some (f d) | _ \<Rightarrow> None)"

text \<open>
  An inherited member is a function without \<open>starterManifest\<close>, and calling what is not there
  throws: then there is no page.
\<close>

definition default_starter :: "page_state \<Rightarrow> resolved_definition \<Rightarrow> string \<Rightarrow> string option" where
  "default_starter state fallback ns =
     (if truthy_str (map_option trim (ps_starterManifest state)) then ps_starterManifest state
      else case fallback of
        Inherited \<Rightarrow> None
      | _ \<Rightarrow> Some (or_ostr (found (\<lambda>d. kd_starterManifest d ns) fallback)
          (unlines [''apiVersion: v1'', ''kind: ConfigMap'', ''metadata:'', ''  name: sample'', []])))"

definition open_config :: "string \<Rightarrow> page_state \<Rightarrow> params \<Rightarrow> page_config option" where
  "open_config resourceType state sp =
     (let fallback = resolveCreateResourceDefinition resourceType;
          ns = or_ostr (map_of sp ''namespace'') ''default'' in
      map_option (\<lambda>starter.
        \<lparr>pc_title = or_ostr (ps_title state) (or_ostr (found kd_title fallback) ''Create Resource''),
         pc_activeResource = or_ostr (ps_activeResource state)
           (or_ostr (found kd_activeResource fallback) (resourceType @ ''s'')),
         pc_description = or_ostr (ps_description state) (or_ostr (case fallback of Found d \<Rightarrow> kd_description d | _ \<Rightarrow> None)
           ''Use the form to fill the high-signal fields, then review the final YAML before applying into the cluster.''),
         pc_addLabel = or_ostr (ps_addLabel state) (or_ostr (found kd_addLabel fallback) ''Apply Resource''),
         pc_namespaced = nullish (nullish_opt (ps_namespaced state) (found kd_namespaced fallback)) True,
         pc_initialNamespace = ns,
         pc_starter = starter,
         pc_initialName = name_of_manifest starter,
         pc_initialManifestNamespace = or_str (namespace_of_manifest starter) ns\<rparr>)
      (default_starter state fallback ns))"

section \<open>The state\<close>

datatype template_mode = Starter | Blank
datatype tab_key = FormTab | YamlTab | DiffTab
datatype leave_intent = GoBack | GiveUp

record editor =
  ed_cluster :: string
  ed_namespace :: string
  ed_templateMode :: template_mode
  ed_manifest :: string
  ed_resourceName :: string
  ed_resourceNamespace :: string
  ed_labels :: "entry list"
  ed_tagSearch :: string
  ed_selectedTags :: "string list"
  ed_activeTab :: tab_key
  ed_form :: AssistedFormState
  ed_leave :: "leave_intent option"
  ed_applied :: string

definition first_editor :: "(nat \<Rightarrow> string) \<Rightarrow> page_config \<Rightarrow> params \<Rightarrow> editor" where
  "first_editor ids c sp =
     \<lparr>ed_cluster = or_ostr (map_of sp ''cluster'') [], ed_namespace = pc_initialNamespace c,
      ed_templateMode = Starter, ed_manifest = pc_starter c, ed_resourceName = pc_initialName c,
      ed_resourceNamespace = pc_initialManifestNamespace c, ed_labels = [], ed_tagSearch = [],
      ed_selectedTags = [], ed_activeTab = FormTab,
      ed_form = buildAssistedFormState ids (pc_starter c) (pc_initialNamespace c),
      ed_leave = None, ed_applied = pc_starter c\<rparr>"

section \<open>Effects\<close>

text \<open>The selected environment is its kind and identifier, a cluster its identifier.\<close>

definition cluster_effect :: "(string \<times> string) option \<Rightarrow> string list \<Rightarrow> editor \<Rightarrow> editor" where
  "cluster_effect env clusters e =
     (case env of
        Some (kind, eid) \<Rightarrow>
          if kind = ''kubernetes'' \<and> eid \<noteq> ed_cluster e then e\<lparr>ed_cluster := eid\<rparr>
          else if ed_cluster e = [] \<and> clusters \<noteq> [] then e\<lparr>ed_cluster := hd clusters\<rparr> else e
      | None \<Rightarrow> if ed_cluster e = [] \<and> clusters \<noteq> [] then e\<lparr>ed_cluster := hd clusters\<rparr> else e)"

text \<open>Both effects of a render see the state of that render.\<close>

definition namespace_effects :: "page_config \<Rightarrow> string list \<Rightarrow> editor \<Rightarrow> editor" where
  "namespace_effects c namespaces e =
     (if \<not> pc_namespaced c \<or> namespaces = [] then e
      else e\<lparr>ed_namespace := (if ed_namespace e \<in> set namespaces then ed_namespace e else hd namespaces),
             ed_resourceNamespace :=
               (if trim (ed_resourceNamespace e) = [] \<or> ed_resourceNamespace e \<notin> set namespaces
                then if ed_namespace e \<noteq> [] \<and> ed_namespace e \<in> set namespaces then ed_namespace e else hd namespaces
                else ed_resourceNamespace e)\<rparr>)"

section \<open>What is applied\<close>

definition target_namespace :: "editor \<Rightarrow> string" where
  "target_namespace e = or_str (ed_resourceNamespace e) (ed_namespace e)"

definition assisted_manifest :: "editor \<Rightarrow> string" where
  "assisted_manifest e = buildAssistedManifest (ed_form e) (target_namespace e) (ed_resourceName e)"

definition hydrated_manifest :: "page_config \<Rightarrow> editor \<Rightarrow> string" where
  "hydrated_manifest c e =
     hydrateManifest (or_str (assisted_manifest e) (ed_manifest e))
       \<lparr>mf_resourceName = ed_resourceName e, mf_namespace = (if pc_namespaced c then target_namespace e else []),
        mf_labels = ed_labels e, mf_tags = ed_selectedTags e\<rparr>"

definition filteredTags :: "editor \<Rightarrow> string list \<Rightarrow> string list" where
  "filteredTags e availableTags =
     (let keyword = lower (trim (ed_tagSearch e)) in
      if keyword = [] then availableTags else filter (\<lambda>tag. str_includes (lower tag) keyword) availableTags)"

definition visibleNamespaces :: "string list \<Rightarrow> string list" where
  "visibleNamespaces namespaces = (if namespaces \<noteq> [] then namespaces else [''default''])"

definition isDirty :: "page_config \<Rightarrow> editor \<Rightarrow> bool" where
  "isDirty c e \<longleftrightarrow>
     ed_manifest e \<noteq> pc_starter c \<or> hydrated_manifest c e \<noteq> ed_applied e \<or>
     trim (ed_resourceName e) \<noteq> pc_initialName c \<or>
     trim (ed_resourceNamespace e) \<noteq> pc_initialManifestNamespace c \<or>
     ed_labels e \<noteq> [] \<or> ed_selectedTags e \<noteq> []"

section \<open>Handlers\<close>

definition load_manifest :: "(nat \<Rightarrow> string) \<Rightarrow> string \<Rightarrow> string \<Rightarrow> editor \<Rightarrow> editor" where
  "load_manifest ids m ns e =
     e\<lparr>ed_manifest := m, ed_resourceName := name_of_manifest m,
       ed_resourceNamespace := or_str (namespace_of_manifest m) ns,
       ed_form := buildAssistedFormState ids m ns\<rparr>"

definition resetEditor :: "(nat \<Rightarrow> string) \<Rightarrow> string \<Rightarrow> string \<Rightarrow> editor \<Rightarrow> editor" where
  "resetEditor ids nextManifest nextNamespace e =
     (load_manifest ids nextManifest nextNamespace e)\<lparr>ed_labels := [], ed_selectedTags := []\<rparr>"

definition applyTemplateMode :: "(nat \<Rightarrow> string) \<Rightarrow> page_config \<Rightarrow> template_mode \<Rightarrow> editor \<Rightarrow> editor" where
  "applyTemplateMode ids c mode e =
     resetEditor ids (if mode = Blank then [] else pc_starter c) (ed_namespace e) (e\<lparr>ed_templateMode := mode\<rparr>)"

definition applyFormToYaml :: "page_config \<Rightarrow> editor \<Rightarrow> editor" where
  "applyFormToYaml c e = e\<lparr>ed_manifest := hydrated_manifest c e, ed_activeTab := YamlTab\<rparr>"

definition resetToStarter :: "(nat \<Rightarrow> string) \<Rightarrow> page_config \<Rightarrow> editor \<Rightarrow> editor" where
  "resetToStarter ids c e =
     (resetEditor ids (pc_starter c) (ed_namespace e) (e\<lparr>ed_templateMode := Starter\<rparr>))\<lparr>ed_applied := pc_starter c\<rparr>"

text \<open>A file that was read, or the message of the error, if it is one.\<close>

definition upload ::
  "(nat \<Rightarrow> string) \<Rightarrow> string \<Rightarrow> string option + string \<Rightarrow> editor \<Rightarrow> editor \<times> toast" where
  "upload ids file answer e =
     (case answer of
        Inr content \<Rightarrow> (load_manifest ids content (ed_namespace e) e,
          toast_of ''success'' ''Manifest loaded'' (file @ '' is ready to review and apply.''))
      | Inl msg \<Rightarrow> (e, toast_of ''error'' ''Unable to read manifest file'' (nullish msg ''File could not be loaded.'')))"

definition can_apply :: "page_config \<Rightarrow> bool \<Rightarrow> editor \<Rightarrow> bool" where
  "can_apply c isPending e \<longleftrightarrow> \<not> isPending \<and> trim (hydrated_manifest c e) \<noteq> []"

definition handleApply :: "page_config \<Rightarrow> editor \<Rightarrow> mutation" where
  "handleApply c e =
     useApplyManifest (ed_cluster e) (Some (if pc_namespaced c then target_namespace e else []))
       (hydrated_manifest c e)"

text \<open>
  The answer meets the page as it is then; what was applied is what the page sent. The last part
  says whether the page asks to go back.
\<close>

definition apply_answered ::
  "page_config \<Rightarrow> editor \<Rightarrow> string option + unit \<Rightarrow> editor \<Rightarrow> editor \<times> toast \<times> bool" where
  "apply_answered c was answer e =
     (case answer of
        Inr _ \<Rightarrow> (e\<lparr>ed_applied := hydrated_manifest c was\<rparr>,
          toast_of ''success'' (pc_title c @ '' applied'')
            (or_str (ed_resourceName was) (pc_title c) @ '' was applied successfully.''), True)
      | Inl msg \<Rightarrow> (e, toast_of ''error'' ''Apply manifest failed'' (or_ostr msg ''kubectl apply failed.''), False))"

definition download_name :: "page_config \<Rightarrow> editor \<Rightarrow> string" where
  "download_name c e = or_str (ed_resourceName e) (normalizeFileName (pc_title c)) @ ''.yaml''"

text \<open>The two buttons under the labels.\<close>

definition add_label :: "string \<Rightarrow> string \<Rightarrow> string \<Rightarrow> entry list \<Rightarrow> entry list" where
  "add_label uid k v labels =
     validateEntries (filter (\<lambda>l. trim (en_key l) \<noteq> []) labels @ [entry_of uid k v]) False"

section \<open>The form\<close>

text \<open>The changes the fields of each kind make.\<close>

inductive pod_edited :: "AssistedFormState \<Rightarrow> AssistedFormState \<Rightarrow> bool" for f where
  "pod_edited f (f\<lparr>af_containerName := v\<rparr>)"
| "pod_edited f (f\<lparr>af_image := v\<rparr>)"
| "pod_edited f (f\<lparr>af_port := v\<rparr>)"
| "pod_edited f (f\<lparr>af_command := v\<rparr>)"

inductive deployment_edited :: "AssistedFormState \<Rightarrow> AssistedFormState \<Rightarrow> bool" for f where
  "deployment_edited f (f\<lparr>af_containerName := v\<rparr>)"
| "deployment_edited f (f\<lparr>af_image := v\<rparr>)"
| "deployment_edited f (f\<lparr>af_replicas := v\<rparr>)"
| "deployment_edited f (f\<lparr>af_port := v\<rparr>)"

inductive ingress_edited :: "AssistedFormState \<Rightarrow> AssistedFormState \<Rightarrow> bool" for f where
  "ingress_edited f (f\<lparr>af_host := v\<rparr>)"
| "ingress_edited f (f\<lparr>af_path := v\<rparr>)"
| "ingress_edited f (f\<lparr>af_serviceName := v\<rparr>)"
| "ingress_edited f (f\<lparr>af_port := v\<rparr>)"
| "ingress_edited f (f\<lparr>af_ingressClassName := v\<rparr>)"
| "ingress_edited f (f\<lparr>af_tlsSecretName := v\<rparr>)"

inductive service_form_edited :: "AssistedFormState \<Rightarrow> AssistedFormState \<Rightarrow> bool" for f where
  "service_form_edited f (f\<lparr>af_selector := v\<rparr>)"
| "service_form_edited f (f\<lparr>af_serviceType := v\<rparr>)"
| "service_form_edited f (f\<lparr>af_port := v\<rparr>)"
| "service_form_edited f (f\<lparr>af_targetPort := v\<rparr>)"

inductive config_edited :: "AssistedFormState \<Rightarrow> AssistedFormState \<Rightarrow> bool" for f where
  "entries_edited True (shown_entries uid (af_configEntries f)) es \<Longrightarrow> config_edited f (f\<lparr>af_configEntries := es\<rparr>)"
| "config_edited f (f\<lparr>af_configEntries := node_preset ids\<rparr>)"
| "config_edited f (f\<lparr>af_configEntries := spring_preset ids\<rparr>)"
| "config_edited f (f\<lparr>af_configEntries := normalizeEntries (af_configEntries f)\<rparr>)"

inductive secret_edited :: "AssistedFormState \<Rightarrow> AssistedFormState \<Rightarrow> bool" for f where
  "secret_edited f (f\<lparr>af_secretType := v\<rparr>)"
| "secret_edited f (f\<lparr>af_secretEntries := v\<rparr>)"

definition form_edited :: "AssistedFormState \<Rightarrow> AssistedFormState \<Rightarrow> bool" where
  "form_edited f g \<longleftrightarrow>
     (case af_kind f of
        Pod \<Rightarrow> pod_edited f g
      | Deployment \<Rightarrow> deployment_edited f g
      | Ingress \<Rightarrow> ingress_edited f g
      | Service \<Rightarrow> service_form_edited f g
      | ConfigMap \<Rightarrow> config_edited f g
      | Secret \<Rightarrow> secret_edited f g
      | NoKind \<Rightarrow> False)"

inductive labels_edited :: "editor \<Rightarrow> entry list \<Rightarrow> bool" for e where
  edits_labels: "entries_edited False (shown_entries uid (ed_labels e)) es \<Longrightarrow> labels_edited e es"
| adds_name: "labels_edited e (add_label uid ''app.kubernetes.io/name'' (or_str (ed_resourceName e) ''app'') (ed_labels e))"
| adds_env: "labels_edited e (add_label uid ''app.kubernetes.io/env'' ''production'' (ed_labels e))"

section \<open>The life of the page\<close>

inductive editor_step :: "page_config \<Rightarrow> editor \<Rightarrow> editor \<Rightarrow> bool" for c where
  types_yaml: "editor_step c e (e\<lparr>ed_manifest := v\<rparr>)"
| types_name: "editor_step c e (e\<lparr>ed_resourceName := v\<rparr>)"
| chooses_target: "editor_step c e (e\<lparr>ed_resourceNamespace := v\<rparr>)"
| chooses_namespace: "editor_step c e (e\<lparr>ed_namespace := v\<rparr>)"
| chooses_cluster: "editor_step c e (e\<lparr>ed_cluster := v\<rparr>)"
| types_search: "editor_step c e (e\<lparr>ed_tagSearch := v\<rparr>)"
| toggles_tag: "editor_step c e (e\<lparr>ed_selectedTags := toggle_tag tag (ed_selectedTags e)\<rparr>)"
| changes_labels: "labels_edited e es \<Longrightarrow> editor_step c e (e\<lparr>ed_labels := es\<rparr>)"
| changes_form: "form_edited (ed_form e) f \<Longrightarrow> editor_step c e (e\<lparr>ed_form := f\<rparr>)"
| chooses_template: "editor_step c e (applyTemplateMode ids c mode e)"
| applies_form: "editor_step c e (applyFormToYaml c e)"
| resets: "editor_step c e (resetToStarter ids c e)"
| uploads: "editor_step c e (fst (upload ids file answer e))"
| chooses_tab: "editor_step c e (e\<lparr>ed_activeTab := t\<rparr>)"
| asks_cancel: "isDirty c e \<Longrightarrow> editor_step c e (e\<lparr>ed_leave := Some GiveUp\<rparr>)"
| stays: "editor_step c e (e\<lparr>ed_leave := None\<rparr>)"
| answers: "editor_step c e (fst (apply_answered c was answer e))"
| clusters_arrive: "editor_step c e (cluster_effect env clusters e)"
| namespaces_arrive: "editor_step c e (namespace_effects c namespaces e)"

section \<open>The guard against leaving\<close>

text \<open>
  The page adds an entry to the history when it opens and whenever it becomes dirty or clean,
  starts or ends to apply. \<open>lg_entries\<close> counts those above its own entry: going back pops one of
  them, and leaves the page when there is none.
\<close>

record leave_guard =
  lg_here :: bool
  lg_entries :: nat
  lg_dirty :: bool
  lg_pending :: bool
  lg_allow :: bool
  lg_intent :: "leave_intent option"

definition mounted :: "bool \<Rightarrow> leave_guard" where
  "mounted dirty = \<lparr>lg_here = True, lg_entries = 1, lg_dirty = dirty, lg_pending = False, lg_allow = False, lg_intent = None\<rparr>"

definition rerendered :: "bool \<Rightarrow> bool \<Rightarrow> leave_guard \<Rightarrow> leave_guard" where
  "rerendered dirty pending g =
     (if dirty = lg_dirty g \<and> pending = lg_pending g then g
      else g\<lparr>lg_dirty := dirty, lg_pending := pending, lg_entries := Suc (lg_entries g)\<rparr>)"

definition handlePopState :: "leave_guard \<Rightarrow> leave_guard" where
  "handlePopState g =
     (if lg_allow g then g\<lparr>lg_allow := False\<rparr>
      else if \<not> lg_dirty g \<or> lg_pending g then g
      else g\<lparr>lg_intent := Some GoBack, lg_entries := Suc (lg_entries g)\<rparr>)"

definition go_back :: "leave_guard \<Rightarrow> leave_guard" where
  "go_back g =
     (case lg_entries g of 0 \<Rightarrow> g\<lparr>lg_here := False\<rparr> | Suc n \<Rightarrow> handlePopState (g\<lparr>lg_entries := n\<rparr>))"

definition exitPage :: "leave_guard \<Rightarrow> leave_guard" where
  "exitPage g = go_back (g\<lparr>lg_allow := True, lg_intent := None\<rparr>)"

definition cancelPage :: "leave_guard \<Rightarrow> leave_guard" where
  "cancelPage g = (if lg_dirty g \<and> \<not> lg_pending g then g\<lparr>lg_intent := Some GiveUp\<rparr> else go_back g)"

text \<open>Everything but discarding.\<close>

inductive guard_step :: "leave_guard \<Rightarrow> leave_guard \<Rightarrow> bool" for g where
  renders: "lg_here g \<Longrightarrow> guard_step g (rerendered dirty pending g)"
| goes_back: "lg_here g \<Longrightarrow> guard_step g (go_back g)"
| cancels: "lg_here g \<Longrightarrow> guard_step g (cancelPage g)"
| closes: "lg_here g \<Longrightarrow> guard_step g (g\<lparr>lg_intent := None\<rparr>)"


section \<open>The starters\<close>

definition no_state :: page_state where
  "no_state = \<lparr>ps_title = None, ps_activeResource = None, ps_kind = None, ps_addLabel = None,
     ps_namespaced = None, ps_description = None, ps_starterManifest = None\<rparr>"

definition opened :: "(nat \<Rightarrow> string) \<Rightarrow> string \<Rightarrow> (page_config \<times> editor) option" where
  "opened ids resourceType =
     map_option (\<lambda>c. (c, first_editor ids c [])) (open_config resourceType no_state [])"

definition untouched :: "(nat \<Rightarrow> string) \<Rightarrow> string \<Rightarrow> bool" where
  "untouched ids k =
     (case opened ids k of None \<Rightarrow> False | Some (c, e) \<Rightarrow> hydrated_manifest c e = pc_starter c \<and> \<not> isDirty c e)"



definition config_loses_entry :: "(nat \<Rightarrow> string) \<Rightarrow> bool" where
  "config_loses_entry ids =
     (case opened ids ''configmap'' of None \<Rightarrow> False
      | Some (c, e) \<Rightarrow> isDirty c e \<and> str_includes (pc_starter c) ''  APP_NAME: einfra'' \<and>
          \<not> str_includes (hydrated_manifest c e) ''APP_NAME'')"

lemma untouched_pod: "untouched ids ''pod''" by code_simp
lemma untouched_service: "untouched ids ''service''" by code_simp
lemma untouched_secret: "untouched ids ''secret''" by code_simp
lemma untouched_config: "config_loses_entry ids" by code_simp

text \<open>
  The page of a pod, a service and a secret opened and applied untouched sends exactly the
  starter manifest of the definition, and is clean; the page of a ConfigMap starts with unsaved
  changes, and applying it untouched loses the second entry of its starter.
\<close>

theorem starter_applied:
  "untouched ids ''pod'' \<and> untouched ids ''service'' \<and> untouched ids ''secret'' \<and> config_loses_entry ids"
  by (intro conjI untouched_pod untouched_service untouched_secret untouched_config)

section \<open>What edits change\<close>

lemma unlines_head: "unlines ((c # l) # ls) \<noteq> []"
  by (cases ls) simp_all

lemma assisted_known: "af_kind f \<noteq> NoKind \<Longrightarrow> buildAssistedManifest f ns n \<noteq> []"
  by (cases "af_kind f") (simp_all add: buildAssistedManifest_def Let_def head_lines_def unlines_head del: join_with.simps)

lemma assisted_unknown: "af_kind f = NoKind \<Longrightarrow> buildAssistedManifest f ns n = []"
  by (simp add: buildAssistedManifest_def Let_def)

text \<open>Typing into the YAML tab, and nothing but looking around beside it.\<close>

inductive yaml_step :: "editor \<Rightarrow> editor \<Rightarrow> bool" for e where
  yaml_types: "yaml_step e (e\<lparr>ed_manifest := v\<rparr>)"
| yaml_tab: "yaml_step e (e\<lparr>ed_activeTab := t\<rparr>)"
| yaml_search: "yaml_step e (e\<lparr>ed_tagSearch := v\<rparr>)"

text \<open>
  Whatever is typed in the YAML tab, the request of Apply stays what it was as long as the form
  knows the kind of the resource; only for a kind it does not know is the typed text what is sent,
  with the name, namespace and labels of the form merged in.
\<close>

theorem yaml_edits_ignored:
  assumes "reached yaml_step e t"
  shows "if af_kind (ed_form e) \<noteq> NoKind then handleApply c t = handleApply c e
    else handleApply c t = useApplyManifest (ed_cluster e) (Some (if pc_namespaced c then target_namespace e else []))
      (hydrateManifest (ed_manifest t) \<lparr>mf_resourceName = ed_resourceName e,
         mf_namespace = (if pc_namespaced c then target_namespace e else []),
         mf_labels = ed_labels e, mf_tags = ed_selectedTags e\<rparr>)"
proof -
  have same: "\<exists>m tab se. t = e\<lparr>ed_manifest := m, ed_activeTab := tab, ed_tagSearch := se\<rparr>"
    using assms
  proof (induction rule: reached.induct)
    case start
    have "e = e\<lparr>ed_manifest := ed_manifest e, ed_activeTab := ed_activeTab e, ed_tagSearch := ed_tagSearch e\<rparr>" by simp
    then show ?case by blast
  next
    case (further s u)
    then obtain m tab se where "s = e\<lparr>ed_manifest := m, ed_activeTab := tab, ed_tagSearch := se\<rparr>" by blast
    with further.hyps(2) show ?case by (cases rule: yaml_step.cases; cases e) auto
  qed
  then obtain m tab se where t: "t = e\<lparr>ed_manifest := m, ed_activeTab := tab, ed_tagSearch := se\<rparr>" by blast
  have form: "assisted_manifest t = assisted_manifest e" by (simp add: t assisted_manifest_def target_namespace_def)
  have rest: "target_namespace t = target_namespace e" by (simp add: t target_namespace_def)
  show ?thesis
  proof (cases "af_kind (ed_form e) = NoKind")
    case True
    then have "assisted_manifest t = []" unfolding form unfolding assisted_manifest_def by (rule assisted_unknown)
    with True show ?thesis by (simp add: handleApply_def hydrated_manifest_def rest or_str_def) (simp add: t)
  next
    case False
    then have "assisted_manifest e \<noteq> []" unfolding assisted_manifest_def by (rule assisted_known)
    then have "hydrated_manifest c t = hydrated_manifest c e"
      by (simp add: hydrated_manifest_def form rest or_str_def) (simp add: t)
    with False show ?thesis by (simp add: handleApply_def rest) (simp add: t)
  qed
qed

definition pod_editor :: editor where
  "pod_editor =
     \<lparr>ed_cluster = ''c1'', ed_namespace = ''default'', ed_templateMode = Starter, ed_manifest = [],
      ed_resourceName = ''web'', ed_resourceNamespace = ''default'', ed_labels = [], ed_tagSearch = [],
      ed_selectedTags = [], ed_activeTab = YamlTab,
      ed_form = (buildAssistedFormState (\<lambda>_. []) [] [])\<lparr>af_kind := Pod\<rparr>, ed_leave = None, ed_applied = []\<rparr>"

theorem yaml_edits_ignored_witness:
  "\<forall>c. handleApply c (pod_editor\<lparr>ed_manifest := ''kind: Job''\<rparr>) = handleApply c pod_editor"
proof
  fix c
  have "reached yaml_step pod_editor (pod_editor\<lparr>ed_manifest := ''kind: Job''\<rparr>)"
    by (rule reached.further [OF reached.start]) (rule yaml_types)
  from yaml_edits_ignored [OF this, of c]
  show "handleApply c (pod_editor\<lparr>ed_manifest := ''kind: Job''\<rparr>) = handleApply c pod_editor"
    by (simp add: pod_editor_def)
qed

section \<open>Namespaces\<close>

text \<open>
  Once the namespaces of a cluster are known, the effects of one render choose among them: both
  namespaces are existing ones, a second run changes nothing, and an existing choice is kept.
\<close>

theorem namespaces_settle:
  assumes "pc_namespaced c" "namespaces \<noteq> []"
  shows "ed_namespace (namespace_effects c namespaces e) \<in> set namespaces \<and>
    ed_resourceNamespace (namespace_effects c namespaces e) \<in> set namespaces \<and>
    (if trim ` set namespaces \<inter> {[]} = {}
     then namespace_effects c namespaces (namespace_effects c namespaces e) = namespace_effects c namespaces e
     else True) \<and>
    (if ed_resourceNamespace e \<in> set namespaces \<and> trim (ed_resourceNamespace e) \<noteq> []
     then ed_resourceNamespace (namespace_effects c namespaces e) = ed_resourceNamespace e else True)"
  using assms by (auto simp: namespace_effects_def)

theorem namespaces_settle_witness:
  "ed_resourceNamespace (namespace_effects
      \<lparr>pc_title = [], pc_activeResource = [], pc_description = [], pc_addLabel = [], pc_namespaced = True,
       pc_initialNamespace = [], pc_starter = [], pc_initialName = [], pc_initialManifestNamespace = []\<rparr>
      [''default'', ''team''] (pod_editor\<lparr>ed_resourceNamespace := ''gone'', ed_namespace := ''team''\<rparr>))
     \<in> set [''default'', ''team'']"
  by (rule namespaces_settle [THEN conjunct2, THEN conjunct1]) simp_all

section \<open>Leaving\<close>

definition guarded :: "leave_guard \<Rightarrow> bool" where
  "guarded g \<longleftrightarrow> \<not> lg_allow g \<and> (lg_here g \<and> lg_dirty g \<and> \<not> lg_pending g \<longrightarrow> 0 < lg_entries g)"

lemma go_back_guarded: "guarded g \<Longrightarrow> guarded (go_back g)"
  by (auto simp: guarded_def go_back_def handlePopState_def split: nat.split)

lemma guard_step_guarded: "guard_step g h \<Longrightarrow> guarded g \<Longrightarrow> guarded h"
  by (cases rule: guard_step.cases)
    (auto simp: cancelPage_def rerendered_def go_back_guarded, auto simp: guarded_def)

text \<open>
  The dialog about unsaved changes does not let the user leave: when it can open, the history
  holds an entry of the page above its own, so Discard and Leave only pops that entry and the page
  stays, one entry nearer to leaving.
\<close>

theorem discard_stays:
  assumes "reached guard_step (mounted dirty) g" "lg_here g" "lg_dirty g" "\<not> lg_pending g"
  shows "lg_here (exitPage g) \<and> lg_intent (exitPage g) = None \<and> Suc (lg_entries (exitPage g)) = lg_entries g"
proof -
  have "machine (mounted dirty) guard_step guarded"
    by unfold_locales (simp add: guarded_def mounted_def, rule guard_step_guarded)
  from machine.reached_inv [OF this assms(1)] assms(2-) have "0 < lg_entries g" by (simp add: guarded_def)
  then show ?thesis using assms(2) by (auto simp: exitPage_def go_back_def handlePopState_def split: nat.split)
qed

theorem discard_stays_witness:
  "lg_here (exitPage (rerendered True False (mounted False)))"
proof -
  have "reached guard_step (mounted False) (rerendered True False (mounted False))"
    by (rule reached.further [OF reached.start]) (rule renders, simp add: mounted_def)
  then show ?thesis using discard_stays [of False "rerendered True False (mounted False)"]
    by (simp add: rerendered_def mounted_def)
qed

end
