(* ===== verification/K8sPages.thy ===== *)
theory K8sPages
  imports CreatePage
begin

text \<open>
  The small pages of \<open>features/kubernetes/pages\<close>: each is \<open>GenericK8sResourcePage\<close> with its own
  properties, one of them the starter manifest its button takes to the page that creates a
  resource. The icon is left out.
\<close>

section \<open>Pages\<close>

record generic_page =
  gp_activeResource :: string
  gp_title :: string
  gp_kind :: string
  gp_namespaced :: bool
  gp_searchPlaceholder :: string
  gp_addLabel :: string
  gp_emptyLabel :: string
  gp_starterManifest :: "string \<Rightarrow> string"

definition generic_page ::
  "string \<Rightarrow> string \<Rightarrow> string \<Rightarrow> bool \<Rightarrow> string \<Rightarrow> string \<Rightarrow> string \<Rightarrow> (string \<Rightarrow> string) \<Rightarrow> generic_page" where
  "generic_page resourceName title kind namespaced placeholder addLabel emptyLabel starter =
     \<lparr>gp_activeResource = resourceName, gp_title = title, gp_kind = kind, gp_namespaced = namespaced,
      gp_searchPlaceholder = placeholder, gp_addLabel = addLabel, gp_emptyLabel = emptyLabel,
      gp_starterManifest = starter\<rparr>"

definition CRDsPage :: generic_page where
  "CRDsPage =
     generic_page ''crds'' ''Custom Resource Definitions'' ''customresourcedefinitions'' False
       ''Search CRDs...'' ''Add CRD'' ''No custom resource definitions found.''
       (\<lambda>_. unlines
         [''apiVersion: apiextensions.k8s.io/v1'', ''kind: CustomResourceDefinition'', ''metadata:'',
         ''  name: widgets.example.com'', ''spec:'', ''  group: example.com'', ''  scope: Namespaced'',
         ''  names:'', ''    plural: widgets'', ''    singular: widget'', ''    kind: Widget'',
         ''  versions:'', ''  - name: v1'', ''    served: true'', ''    storage: true'',
         ''    schema:'', ''      openAPIV3Schema:'', ''        type: object'', []])"

definition ClusterRoleBindingsPage :: generic_page where
  "ClusterRoleBindingsPage =
     generic_page ''clusterrolebindings'' ''Cluster Role Bindings'' ''clusterrolebindings'' False
       ''Search cluster role bindings...'' ''Add ClusterRoleBinding'' ''No cluster role bindings found.''
       (\<lambda>_. unlines
         [''apiVersion: rbac.authorization.k8s.io/v1'', ''kind: ClusterRoleBinding'', ''metadata:'',
         ''  name: sample-cluster-rolebinding'', ''subjects:'', ''- kind: ServiceAccount'',
         ''  name: default'', ''  namespace: default'', ''roleRef:'',
         ''  apiGroup: rbac.authorization.k8s.io'', ''  kind: ClusterRole'',
         ''  name: sample-cluster-role'', []])"

definition ClusterRolesPage :: generic_page where
  "ClusterRolesPage =
     generic_page ''clusterroles'' ''Cluster Roles'' ''clusterroles'' False
       ''Search cluster roles...'' ''Add ClusterRole'' ''No cluster roles found.''
       (\<lambda>_. unlines
         [''apiVersion: rbac.authorization.k8s.io/v1'', ''kind: ClusterRole'', ''metadata:'',
         ''  name: sample-cluster-role'', ''rules:'', ''- apiGroups: ['' @ dquote @ dquote @ '']'',
         ''  resources: ['' @ dquote @ ''nodes'' @ dquote @ '']'',
         ''  verbs: ['' @ dquote @ ''get'' @ dquote @ '', '' @ dquote @ ''list'' @ dquote @ '', '' @ dquote @ ''watch'' @ dquote @ '']'',
         []])"

definition DaemonSetsPage :: generic_page where
  "DaemonSetsPage =
     generic_page ''daemonsets'' ''DaemonSets'' ''daemonsets'' False
       ''Search daemonsets...'' ''Add DaemonSet'' ''No daemonsets found.''
       (\<lambda>_. unlines
         [''apiVersion: apps/v1'', ''kind: DaemonSet'', ''metadata:'', ''  name: sample-daemonset'',
         ''  namespace: kube-system'', ''spec:'', ''  selector:'', ''    matchLabels:'',
         ''      app: sample-daemonset'', ''  template:'', ''    metadata:'', ''      labels:'',
         ''        app: sample-daemonset'', ''    spec:'', ''      containers:'',
         ''      - name: agent'', ''        image: busybox'',
         ''        command: ['' @ dquote @ ''sh'' @ dquote @ '', '' @ dquote @ ''-c'' @ dquote @ '', '' @ dquote @ ''sleep 3600'' @ dquote @ '']'',
         []])"

definition EndpointSlicesPage :: generic_page where
  "EndpointSlicesPage =
     generic_page ''endpointslices'' ''Endpoint Slices'' ''endpointslices'' True
       ''Search endpoint slices...'' ''Add EndpointSlice'' ''No endpoint slices found.''
       (\<lambda>ns. unlines
         [''apiVersion: discovery.k8s.io/v1'', ''kind: EndpointSlice'', ''metadata:'',
         ''  name: sample-service-1'', ''  namespace: '' @ ns, ''  labels:'',
         ''    kubernetes.io/service-name: sample-service'', ''addressType: IPv4'', ''ports:'',
         ''- name: http'', ''  protocol: TCP'', ''  port: 80'', ''endpoints:'', ''- addresses:'',
         ''  - 10.0.0.10'', []])"

definition EndpointsPage :: generic_page where
  "EndpointsPage =
     generic_page ''endpoints'' ''Endpoints'' ''endpoints'' True
       ''Search endpoints...'' ''Add Endpoints'' ''No endpoints found.''
       (\<lambda>ns. unlines
         [''apiVersion: v1'', ''kind: Endpoints'', ''metadata:'', ''  name: sample-service'',
         ''  namespace: '' @ ns, ''subsets:'', ''- addresses:'', ''  - ip: 10.0.0.10'', ''  ports:'',
         ''  - port: 80'', ''    protocol: TCP'', []])"

definition GatewayClassesPage :: generic_page where
  "GatewayClassesPage =
     generic_page ''gatewayclasses'' ''Gateway Classes'' ''gatewayclasses'' False
       ''Search gateway classes...'' ''Add GatewayClass'' ''No gateway classes found.''
       (\<lambda>_. unlines
         [''apiVersion: gateway.networking.k8s.io/v1'', ''kind: GatewayClass'', ''metadata:'',
         ''  name: sample-gateway-class'', ''spec:'',
         ''  controllerName: example.net/gateway-controller'', []])"

definition GatewaysPage :: generic_page where
  "GatewaysPage =
     generic_page ''gateways'' ''Gateways'' ''gateways'' True
       ''Search gateways...'' ''Add Gateway'' ''No gateways found.''
       (\<lambda>ns. unlines
         [''apiVersion: gateway.networking.k8s.io/v1'', ''kind: Gateway'', ''metadata:'',
         ''  name: sample-gateway'', ''  namespace: '' @ ns, ''spec:'',
         ''  gatewayClassName: sample-gateway-class'', ''  listeners:'', ''  - name: http'',
         ''    protocol: HTTP'', ''    port: 80'', []])"

definition HPAPage :: generic_page where
  "HPAPage =
     generic_page ''hpa'' ''Horizontal Pod Autoscalers'' ''horizontalpodautoscalers'' True
       ''Search HPAs...'' ''Add HPA'' ''No horizontal pod autoscalers found.''
       (\<lambda>ns. unlines
         [''apiVersion: autoscaling/v2'', ''kind: HorizontalPodAutoscaler'', ''metadata:'',
         ''  name: sample-hpa'', ''  namespace: '' @ ns, ''spec:'', ''  scaleTargetRef:'',
         ''    apiVersion: apps/v1'', ''    kind: Deployment'', ''    name: sample-deployment'',
         ''  minReplicas: 1'', ''  maxReplicas: 5'', ''  metrics:'', ''  - type: Resource'',
         ''    resource:'', ''      name: cpu'', ''      target:'', ''        type: Utilization'',
         ''        averageUtilization: 70'', []])"

definition HTTPRoutesPage :: generic_page where
  "HTTPRoutesPage =
     generic_page ''httproutes'' ''HTTP Routes'' ''httproutes'' True
       ''Search HTTP routes...'' ''Add HTTPRoute'' ''No HTTP routes found.''
       (\<lambda>ns. unlines
         [''apiVersion: gateway.networking.k8s.io/v1'', ''kind: HTTPRoute'', ''metadata:'',
         ''  name: sample-route'', ''  namespace: '' @ ns, ''spec:'', ''  parentRefs:'',
         ''  - name: sample-gateway'', ''  hostnames:'', ''  - sample.local'', ''  rules:'',
         ''  - backendRefs:'', ''    - name: sample-service'', ''      port: 80'', []])"

definition IngressClassesPage :: generic_page where
  "IngressClassesPage =
     generic_page ''ingressclasses'' ''Ingress Classes'' ''ingressclasses'' False
       ''Search ingress classes...'' ''Add IngressClass'' ''No ingress classes found.''
       (\<lambda>_. unlines
         [''apiVersion: networking.k8s.io/v1'', ''kind: IngressClass'', ''metadata:'',
         ''  name: nginx'', ''spec:'', ''  controller: k8s.io/ingress-nginx'', []])"

definition NetworkPoliciesPage :: generic_page where
  "NetworkPoliciesPage =
     generic_page ''networkpolicies'' ''Network Policies'' ''networkpolicies'' True
       ''Search network policies...'' ''Add NetworkPolicy'' ''No network policies found.''
       (\<lambda>ns. unlines
         [''apiVersion: networking.k8s.io/v1'', ''kind: NetworkPolicy'', ''metadata:'',
         ''  name: default-deny'', ''  namespace: '' @ ns, ''spec:'', ''  podSelector: {}'',
         ''  policyTypes:'', ''  - Ingress'', ''  - Egress'', []])"

definition ReplicaSetsPage :: generic_page where
  "ReplicaSetsPage =
     generic_page ''replicasets'' ''ReplicaSets'' ''replicasets'' True
       ''Search replicasets...'' ''Add ReplicaSet'' ''No replicasets found.''
       (\<lambda>ns. unlines
         [''apiVersion: apps/v1'', ''kind: ReplicaSet'', ''metadata:'', ''  name: sample-replicaset'',
         ''  namespace: '' @ ns, ''spec:'', ''  replicas: 1'', ''  selector:'', ''    matchLabels:'',
         ''      app: sample-replicaset'', ''  template:'', ''    metadata:'', ''      labels:'',
         ''        app: sample-replicaset'', ''    spec:'', ''      containers:'',
         ''      - name: app'', ''        image: nginx:stable'', []])"

definition RoleBindingsPage :: generic_page where
  "RoleBindingsPage =
     generic_page ''rolebindings'' ''Role Bindings'' ''rolebindings'' True
       ''Search role bindings...'' ''Add RoleBinding'' ''No role bindings found.''
       (\<lambda>ns. unlines
         [''apiVersion: rbac.authorization.k8s.io/v1'', ''kind: RoleBinding'', ''metadata:'',
         ''  name: sample-rolebinding'', ''  namespace: '' @ ns, ''subjects:'',
         ''- kind: ServiceAccount'', ''  name: default'', ''  namespace: '' @ ns, ''roleRef:'',
         ''  apiGroup: rbac.authorization.k8s.io'', ''  kind: Role'', ''  name: sample-role'', []])"

definition RolesPage :: generic_page where
  "RolesPage =
     generic_page ''roles'' ''Roles'' ''roles'' True
       ''Search roles...'' ''Add Role'' ''No roles found.''
       (\<lambda>ns. unlines
         [''apiVersion: rbac.authorization.k8s.io/v1'', ''kind: Role'', ''metadata:'',
         ''  name: sample-role'', ''  namespace: '' @ ns, ''rules:'',
         ''- apiGroups: ['' @ dquote @ dquote @ '']'',
         ''  resources: ['' @ dquote @ ''pods'' @ dquote @ '']'',
         ''  verbs: ['' @ dquote @ ''get'' @ dquote @ '', '' @ dquote @ ''list'' @ dquote @ '', '' @ dquote @ ''watch'' @ dquote @ '']'',
         []])"

definition ServiceAccountsPage :: generic_page where
  "ServiceAccountsPage =
     generic_page ''serviceaccounts'' ''Service Accounts'' ''serviceaccounts'' True
       ''Search service accounts...'' ''Add ServiceAccount'' ''No service accounts found.''
       (\<lambda>ns. unlines
         [''apiVersion: v1'', ''kind: ServiceAccount'', ''metadata:'',
         ''  name: sample-service-account'', ''  namespace: '' @ ns, []])"

definition StatefulSetsPage :: generic_page where
  "StatefulSetsPage =
     generic_page ''statefulsets'' ''StatefulSets'' ''statefulsets'' True
       ''Search statefulsets...'' ''Add StatefulSet'' ''No statefulsets found.''
       (\<lambda>ns. unlines
         [''apiVersion: apps/v1'', ''kind: StatefulSet'', ''metadata:'', ''  name: sample-statefulset'',
         ''  namespace: '' @ ns, ''spec:'', ''  serviceName: sample-statefulset'', ''  replicas: 1'',
         ''  selector:'', ''    matchLabels:'', ''      app: sample-statefulset'', ''  template:'',
         ''    metadata:'', ''      labels:'', ''        app: sample-statefulset'', ''    spec:'',
         ''      containers:'', ''      - name: app'', ''        image: nginx:stable'',
         ''        ports:'', ''        - containerPort: 80'', []])"

definition StorageClassesPage :: generic_page where
  "StorageClassesPage =
     generic_page ''storageclasses'' ''StorageClasses'' ''storageclasses'' False
       ''Search storage classes...'' ''Add StorageClass'' ''No storage classes found.''
       (\<lambda>_. unlines
         [''apiVersion: storage.k8s.io/v1'', ''kind: StorageClass'', ''metadata:'',
         ''  name: sample-storageclass'', ''provisioner: kubernetes.io/no-provisioner'',
         ''volumeBindingMode: WaitForFirstConsumer'', []])"

definition VPAPage :: generic_page where
  "VPAPage =
     generic_page ''vpa'' ''Vertical Pod Autoscalers'' ''verticalpodautoscalers'' True
       ''Search vertical pod autoscalers...'' ''Add VPA'' ''No vertical pod autoscalers found.''
       (\<lambda>ns. unlines
         [''apiVersion: autoscaling.k8s.io/v1'', ''kind: VerticalPodAutoscaler'', ''metadata:'',
         ''  name: sample-vpa'', ''  namespace: '' @ ns, ''spec:'', ''  targetRef:'',
         ''    apiVersion: apps/v1'', ''    kind: Deployment'', ''    name: sample-deployment'',
         ''  updatePolicy:'', ''    updateMode: Auto'', []])"

text \<open>
  The page of the instances of a custom resource reads its properties from the address. The
  replacement works on UTF-16 units, of which a character outside ASCII is one, or two where its
  UTF-8 form has four bytes.
\<close>

definition dash_units :: "char \<Rightarrow> string" where
  "dash_units c =
     (let n = of_char c :: nat in
      if is_alnum c \<or> c = CHR ''-'' then [c]
      else if n < 128 then ''-''
      else if n < 192 then []
      else if n < 240 then ''-'' else ''--'')"

definition CustomResourceInstancesPage :: "params \<Rightarrow> generic_page" where
  "CustomResourceInstancesPage ps =
     (let kind = or_ostr (map_option trim (map_of ps ''kind'')) ''widgets'';
          title = or_ostr (map_option trim (map_of ps ''title'')) (''Custom Resources: '' @ kind);
          namespaced = (map_of ps ''namespaced'' \<noteq> Some ''false'') in
      generic_page ''custom-resources'' title kind namespaced
        (''Search '' @ lower title @ ''...'') (''Add '' @ or_ostr (map_of ps ''resourceKind'') ''Custom Resource'')
        (''No '' @ lower title @ '' found.'')
        (\<lambda>ns. ''apiVersion: '' @ or_ostr (map_of ps ''apiVersion'') ''example.com/v1'' @ newline @
           ''kind: '' @ or_ostr (map_of ps ''resourceKind'') ''Widget'' @ newline @
           ''metadata:'' @ newline @ ''  name: sample-'' @ lower (concat (map dash_units kind)) @ newline @
           (if namespaced then ''  namespace: '' @ ns @ newline else []) @
           ''spec:'' @ newline @ ''  enabled: true'' @ newline))"

text \<open>The button that adds a resource.\<close>

definition open_create :: "generic_page \<Rightarrow> string \<Rightarrow> string \<Rightarrow> create_page" where
  "open_create p cid ns =
     \<lparr>cp_resourceType = lower (gp_kind p), cp_clusterId = Some cid,
      cp_namespace = (if gp_namespaced p then Some ns else None), cp_title = Some (gp_addLabel p),
      cp_activeResource = Some (gp_activeResource p), cp_kind = Some (gp_kind p),
      cp_addLabel = Some (gp_addLabel p), cp_namespaced = Some (gp_namespaced p), cp_description = None,
      cp_starterManifest = Some (gp_starterManifest p ns)\<rparr>"

section \<open>What the assistant makes of the starters\<close>

definition generic_pages :: "(string \<times> generic_page) list" where
  "generic_pages =
     [(''CRDs'', CRDsPage), (''ClusterRoleBindings'', ClusterRoleBindingsPage), (''ClusterRoles'', ClusterRolesPage),
      (''DaemonSets'', DaemonSetsPage), (''EndpointSlices'', EndpointSlicesPage), (''Endpoints'', EndpointsPage),
      (''GatewayClasses'', GatewayClassesPage), (''Gateways'', GatewaysPage), (''HPA'', HPAPage),
      (''HTTPRoutes'', HTTPRoutesPage), (''IngressClasses'', IngressClassesPage),
      (''NetworkPolicies'', NetworkPoliciesPage), (''ReplicaSets'', ReplicaSetsPage), (''RoleBindings'', RoleBindingsPage),
      (''Roles'', RolesPage), (''ServiceAccounts'', ServiceAccountsPage), (''StatefulSets'', StatefulSetsPage),
      (''StorageClasses'', StorageClassesPage), (''VPA'', VPAPage)]"

definition form_of_page :: "generic_page \<Rightarrow> form_kind" where
  "form_of_page p = form_kind_of (gp_starterManifest p ''default'')"

fun kind_text :: "form_kind \<Rightarrow> string" where
  "kind_text Pod = ''Pod''"
| "kind_text Deployment = ''Deployment''"
| "kind_text Service = ''Service''"
| "kind_text ConfigMap = ''ConfigMap''"
| "kind_text Ingress = ''Ingress''"
| "kind_text Secret = ''Secret''"
| "kind_text NoKind = []"

text \<open>The second line of a manifest names its kind.\<close>

definition manifest_kind :: "string \<Rightarrow> string option" where
  "manifest_kind m = (case lines_of m of a # b # _ \<Rightarrow> after_prefix ''kind: '' b | _ \<Rightarrow> None)"

lemma unlines_Cons: "ls \<noteq> [] \<Longrightarrow> unlines (l # ls) = l @ newline @ unlines ls"
  by (simp add: join_with_Cons)

lemma unlines_two:
  "CHR 0x0A \<notin> set a \<Longrightarrow> CHR 0x0A \<notin> set b \<Longrightarrow> ls \<noteq> [] \<Longrightarrow> \<exists>r. lines_of (unlines (a # b # ls)) = a # b # r"
  by (simp add: unlines_Cons split_on_append)

lemma assisted_kind:
  "af_kind f \<noteq> NoKind \<Longrightarrow> manifest_kind (buildAssistedManifest f ns name) = Some (kind_text (af_kind f))"
proof -
  assume k: "af_kind f \<noteq> NoKind"
  have two: "\<exists>r. lines_of (unlines (a # (''kind: '' @ kind_text (af_kind f)) # ls)) = a # (''kind: '' @ kind_text (af_kind f)) # r"
    if "CHR 0x0A \<notin> set a" "ls \<noteq> []" for a ls
    by (rule unlines_two) (use that in \<open>cases "af_kind f"; simp\<close>)+
  have "\<exists>a ls. CHR 0x0A \<notin> set a \<and> ls \<noteq> [] \<and>
      buildAssistedManifest f ns name = unlines (a # (''kind: '' @ kind_text (af_kind f)) # ls)"
    using k by (cases "af_kind f") (force simp: buildAssistedManifest_def Let_def head_lines_def simp del: join_with.simps)+
  then obtain a ls where "CHR 0x0A \<notin> set a" "ls \<noteq> []"
    "buildAssistedManifest f ns name = unlines (a # (''kind: '' @ kind_text (af_kind f)) # ls)" by blast
  then show ?thesis using two [of a ls] by (auto simp: manifest_kind_def after_prefix_def starts_with_def)
qed

text \<open>
  The create page takes six of the nineteen starters for another kind of resource: whatever
  else the page holds, the manifest it builds for a service account or a role binding is a Service, for
  an autoscaler a Deployment and for an ingress class an Ingress.
\<close>

theorem wrong_kind_sent:
  "list_all (\<lambda>(page, sent_kind). case map_of generic_pages page of
       None \<Rightarrow> False
     | Some p \<Rightarrow> manifest_kind (assisted_manifest
         (load_manifest ids (gp_starterManifest p ''default'') ''default'' e)) = Some sent_kind \<and>
         manifest_kind (gp_starterManifest p ''default'') \<noteq> Some sent_kind)
     [(''ClusterRoleBindings'', ''Service''), (''HPA'', ''Deployment''), (''IngressClasses'', ''Ingress''),
      (''RoleBindings'', ''Service''), (''ServiceAccounts'', ''Service''), (''VPA'', ''Deployment'')]"
proof -
  have sent: "manifest_kind (assisted_manifest (load_manifest ids (gp_starterManifest p ''default'') ''default'' e)) =
      Some (kind_text (form_of_page p))" if "form_of_page p \<noteq> NoKind" for p
    using assisted_kind [of "buildAssistedFormState ids (gp_starterManifest p ''default'') ''default''"] that
    by (simp add: assisted_manifest_def load_manifest_def buildAssistedFormState_def form_of_page_def Let_def)
  have forms: "form_of_page ClusterRoleBindingsPage = Service" "form_of_page HPAPage = Deployment"
    "form_of_page IngressClassesPage = Ingress" "form_of_page RoleBindingsPage = Service"
    "form_of_page ServiceAccountsPage = Service" "form_of_page VPAPage = Deployment"
    by code_simp+
  have own: "manifest_kind (gp_starterManifest ClusterRoleBindingsPage ''default'') = Some ''ClusterRoleBinding''"
    "manifest_kind (gp_starterManifest HPAPage ''default'') = Some ''HorizontalPodAutoscaler''"
    "manifest_kind (gp_starterManifest IngressClassesPage ''default'') = Some ''IngressClass''"
    "manifest_kind (gp_starterManifest RoleBindingsPage ''default'') = Some ''RoleBinding''"
    "manifest_kind (gp_starterManifest ServiceAccountsPage ''default'') = Some ''ServiceAccount''"
    "manifest_kind (gp_starterManifest VPAPage ''default'') = Some ''VerticalPodAutoscaler''"
    by code_simp+
  have pages: "map_of generic_pages ''ClusterRoleBindings'' = Some ClusterRoleBindingsPage"
    "map_of generic_pages ''HPA'' = Some HPAPage" "map_of generic_pages ''IngressClasses'' = Some IngressClassesPage"
    "map_of generic_pages ''RoleBindings'' = Some RoleBindingsPage"
    "map_of generic_pages ''ServiceAccounts'' = Some ServiceAccountsPage" "map_of generic_pages ''VPA'' = Some VPAPage"
    by (simp_all add: generic_pages_def)
  show ?thesis by (simp add: pages own sent forms)
qed

end
