(* ===== verification/YamlSections.thy ===== *)
theory YamlSections
  imports YamlView
begin

text \<open>
  The functions under the component of \<open>features/kubernetes/pages/GenericK8sResourcePage.tsx\<close>: the
  colour of a status, the rows of the data section of a manifest, their way back into it, and what
  is read from a custom resource definition.
\<close>

section \<open>Status\<close>

datatype badge_variant = Success | Failure | Caution | Outline

definition statusVariant :: "string option \<Rightarrow> badge_variant" where
  "statusVariant status =
     (let v = lower (nullish status []) in
      if str_includes v ''ready'' \<or> str_includes v ''running'' \<or> str_includes v ''active'' \<or> str_includes v ''bound''
      then Success
      else if str_includes v ''fail'' \<or> str_includes v ''error'' \<or> str_includes v ''crash'' \<or> str_includes v ''notready''
      then Failure
      else if str_includes v ''pending'' \<or> str_includes v ''progress'' \<or> str_includes v ''terminating'' then Caution
      else Outline)"

section \<open>Base64\<close>

text \<open>
  \<open>atob\<close>: white space is dropped, up to two signs of padding too when they fill the last group, and
  what is left is refused when it holds another character or a single one in its last group. The
  result has one character per byte.
\<close>

definition b64_val :: "char \<Rightarrow> nat option" where
  "b64_val c =
     (let n = of_char c :: nat in
      if 65 \<le> n \<and> n \<le> 90 then Some (n - 65)
      else if 97 \<le> n \<and> n \<le> 122 then Some (n - 71)
      else if 48 \<le> n \<and> n \<le> 57 then Some (n + 4)
      else if n = 43 then Some 62
      else if n = 47 then Some 63
      else None)"

fun b64_bytes :: "nat list \<Rightarrow> nat list" where
  "b64_bytes (a # b # c # d # r) =
     [a * 4 + b div 16, b mod 16 * 16 + c div 4, c mod 4 * 64 + d] @ b64_bytes r"
| "b64_bytes [a, b, c] = [a * 4 + b div 16, b mod 16 * 16 + c div 4]"
| "b64_bytes [a, b] = [a * 4 + b div 16]"
| "b64_bytes _ = []"

definition drop_padding :: "string \<Rightarrow> string" where
  "drop_padding s =
     (if length s mod 4 \<noteq> 0 then s
      else if ends_with ''=='' s then take (length s - 2) s
      else if ends_with ''='' s then take (length s - 1) s else s)"

definition atob :: "string \<Rightarrow> string option" where
  "atob v =
     (let s = drop_padding (filter (\<lambda>c. c \<notin> set [CHR 0x09, CHR 0x0A, CHR 0x0C, CHR 0x0D, CHR '' '']) v) in
      if length s mod 4 = 1 then None
      else map_option (\<lambda>vs. concat (map utf8 (b64_bytes vs))) (those (map b64_val s)))"

section \<open>Reading a section\<close>

record EditorRow =
  er_key :: string
  er_value :: string

text \<open>A line that is the name, with white space around it.\<close>

definition section_line :: "string \<Rightarrow> string \<Rightarrow> bool" where
  "section_line name l \<longleftrightarrow>
     (case after_prefix (name @ '':'') (ltrim l) of None \<Rightarrow> False | Some r \<Rightarrow> list_all is_ws r)"

text \<open>\<open>replace(/^['"]|['"]$/g, "")\<close>.\<close>

definition strip_quotes :: "string \<Rightarrow> string" where
  "strip_quotes v =
     (let w = (if v \<noteq> [] \<and> is_quote (hd v) then tl v else v) in
      if w \<noteq> [] \<and> is_quote (last w) then butlast w else w)"

definition row_value :: "bool \<Rightarrow> string \<Rightarrow> string" where
  "row_value decode v = (let w = strip_quotes (trim v) in if decode then nullish (atob w) w else w)"

fun section_rows :: "bool \<Rightarrow> nat \<Rightarrow> string list \<Rightarrow> EditorRow list" where
  "section_rows decode n [] = []"
| "section_rows decode n (l # ls) =
     (let sep = length (takeWhile (\<lambda>c. c \<noteq> CHR '':'') l) in
      if trim l = [] then section_rows decode n ls
      else if indent_of l \<le> n then []
      else if indent_of l \<noteq> n + 2 then section_rows decode n ls
      else if CHR '':'' \<notin> set l \<or> sep \<le> n + 1 then section_rows decode n ls
      else \<lparr>er_key = trim (drop (n + 2) (take sep l)), er_value = row_value decode (drop (sep + 1) l)\<rparr>
        # section_rows decode n ls)"

definition parseYamlSection :: "string \<Rightarrow> string \<Rightarrow> bool \<Rightarrow> EditorRow list" where
  "parseYamlSection yamlText name decodeBase64 =
     (case dropWhile (\<lambda>l. \<not> section_line name l) (lines_of (drop_crlf yamlText)) of
        [] \<Rightarrow> []
      | l # ls \<Rightarrow> section_rows (decodeBase64 \<and> name = ''data'') (indent_of l) ls)"

definition secret_kind :: "string \<Rightarrow> bool" where
  "secret_kind kind \<longleftrightarrow> starts_with ''secret'' (lower kind)"

definition section_name :: "string \<Rightarrow> string" where
  "section_name kind = (if secret_kind kind then ''stringData'' else ''data'')"

definition extractEditorRows :: "string \<Rightarrow> string \<Rightarrow> EditorRow list" where
  "extractEditorRows yamlText kind =
     (let primary = parseYamlSection yamlText (section_name kind) (secret_kind kind) in
      if primary \<noteq> [] then primary
      else if secret_kind kind then parseYamlSection yamlText ''data'' True
      else [])"

section \<open>Writing a section\<close>

fun without_section :: "string \<Rightarrow> nat option \<Rightarrow> string list \<Rightarrow> string list" where
  "without_section name skipping [] = []"
| "without_section name skipping (l # ls) =
     (if section_line name l then without_section name (Some (indent_of l)) ls
      else case skipping of
        None \<Rightarrow> l # without_section name None ls
      | Some n \<Rightarrow> if trim l \<noteq> [] \<and> indent_of l \<le> n then l # without_section name None ls
          else without_section name skipping ls)"

text \<open>\<open>replace(/\n{3,}/g, "\n\n")\<close>, with the number of line feeds just written.\<close>

fun collapse :: "nat \<Rightarrow> string \<Rightarrow> string" where
  "collapse n [] = []"
| "collapse n (c # s) =
     (if c \<noteq> CHR 0x0A then c # collapse 0 s
      else if n < 2 then c # collapse (Suc n) s
      else collapse n s)"

definition removeYamlSection :: "string \<Rightarrow> string \<Rightarrow> string" where
  "removeYamlSection yamlText name = collapse 0 (unlines (without_section name None (lines_of (drop_crlf yamlText))))"

definition quoteYamlScalar :: "string \<Rightarrow> string" where
  "quoteYamlScalar v =
     dquote @ replace_all_char (CHR 0x22) [CHR 0x5C, CHR 0x22] (replace_all_char (CHR 0x5C) [CHR 0x5C, CHR 0x5C] v) @ dquote"

definition normalized_rows :: "EditorRow list \<Rightarrow> EditorRow list" where
  "normalized_rows rows = filter (\<lambda>r. er_key r \<noteq> []) (map (\<lambda>r. r\<lparr>er_key := trim (er_key r)\<rparr>) rows)"

definition row_line :: "EditorRow \<Rightarrow> string" where
  "row_line r = ''  '' @ er_key r @ '': '' @ quoteYamlScalar (er_value r)"

definition updateEditorSection :: "string \<Rightarrow> string \<Rightarrow> EditorRow list \<Rightarrow> string" where
  "updateEditorSection yamlText kind rows =
     rtrim (removeYamlSection (removeYamlSection yamlText ''stringData'') ''data'') @ newline @
     unlines ((section_name kind @ '':'') # map row_line (normalized_rows rows)) @ newline"

section \<open>Custom resource definitions\<close>

record crd_descriptor =
  cd_plural :: string
  cd_kind :: string
  cd_apiVersion :: string
  cd_namespaced :: bool
  cd_title :: string

definition spaces_at :: "nat \<Rightarrow> string \<Rightarrow> string option" where
  "spaces_at n s = (if n \<le> length s \<and> list_all is_ws (take n s) then Some (drop n s) else None)"

definition indented_key :: "nat \<Rightarrow> string \<Rightarrow> string \<Rightarrow> string option" where
  "indented_key n key s = Option.bind (spaces_at n s) (after_prefix key)"

definition indented_item :: "nat \<Rightarrow> string \<Rightarrow> string \<Rightarrow> string option" where
  "indented_item n key s = Option.bind (indented_key n ''-'' s) (\<lambda>r. after_prefix key (ltrim r))"

definition firstMatch :: "string \<Rightarrow> (string \<Rightarrow> string option) \<Rightarrow> string" where
  "firstMatch input pat =
     (case first_some pat (line_starts input) of
        None \<Rightarrow> []
      | Some r \<Rightarrow> trim (strip_quotes (takeWhile (\<lambda>c. \<not> is_lt c) (ltrim r))))"

definition matchYamlValue :: "string \<Rightarrow> string \<Rightarrow> string" where
  "matchYamlValue yamlText path =
     (let s = drop_crlf yamlText in
      if path = ''spec.group'' then firstMatch s (indented_key 2 ''group:'')
      else if path = ''spec.scope'' then firstMatch s (indented_key 2 ''scope:'')
      else if path = ''spec.names.plural'' then firstMatch s (indented_key 4 ''plural:'')
      else if path = ''spec.names.kind'' then firstMatch s (indented_key 4 ''kind:'')
      else if path = ''spec.versions.0.name'' then firstMatch s (indented_item 4 ''name:'')
      else [])"

fun first_list_name :: "string list \<Rightarrow> string" where
  "first_list_name [] = []"
| "first_list_name (l # ls) =
     (let t = trim l in
      case after_prefix ''- name:'' t of
        Some r \<Rightarrow> trim r
      | None \<Rightarrow> if t \<noteq> [] \<and> \<not> starts_with ''-'' t \<and> \<not> starts_with ''name:'' t then [] else first_list_name ls)"

definition matchYamlListFirstName :: "string \<Rightarrow> string \<Rightarrow> string" where
  "matchYamlListFirstName yamlText name =
     first_list_name (drop 1 (dropWhile (\<lambda>l. trim l \<noteq> name @ '':'') (lines_of (drop_crlf yamlText))))"

definition extractCRDDescriptor :: "string \<Rightarrow> crd_descriptor option" where
  "extractCRDDescriptor yamlText =
     (let grp = matchYamlValue yamlText ''spec.group'';
          plural = matchYamlValue yamlText ''spec.names.plural'';
          resourceKind = matchYamlValue yamlText ''spec.names.kind'';
          scope = matchYamlValue yamlText ''spec.scope'';
          version = or_str (matchYamlValue yamlText ''spec.versions.0.name'') (matchYamlListFirstName yamlText ''versions'') in
      if grp = [] \<or> plural = [] \<or> resourceKind = [] then None
      else Some \<lparr>cd_plural = plural, cd_kind = resourceKind,
        cd_apiVersion = (if version \<noteq> [] then grp @ ''/'' @ version else grp),
        cd_namespaced = (lower (or_str scope ''Namespaced'') \<noteq> ''cluster''),
        cd_title = resourceKind @ '' Instances''\<rparr>)"

section \<open>A resource that is not ready\<close>

lemma str_includes_trans: "str_includes s p \<Longrightarrow> str_includes p q \<Longrightarrow> str_includes s q"
  unfolding str_includes_iff by (metis append.assoc)

text \<open>
  The test for notready never decides: whatever contains it contains ready, which is tested
  first, so a resource that is not ready is shown as healthy.
\<close>

theorem not_ready_healthy:
  assumes "str_includes (lower s) ''notready''"
  shows "statusVariant (Some s) = Success"
proof -
  have "str_includes ''notready'' ''ready''" by code_simp
  with assms have "str_includes (lower s) ''ready''" by (rule str_includes_trans)
  then show ?thesis by (simp add: statusVariant_def nullish_def)
qed

theorem not_ready_healthy_witness: "statusVariant (Some ''NotReady'') = Success"
proof -
  have "str_includes (lower ''NotReady'') ''notready''" by code_simp
  then show ?thesis by (rule not_ready_healthy)
qed

section \<open>Rows survive the way through the text\<close>

lemma lines_append:
  "lines_of (a @ b) = butlast (lines_of a) @ [last (lines_of a) @ hd (lines_of b)] @ tl (lines_of b)"
proof (induction a)
  case Nil
  then show ?case by (cases "lines_of b") simp_all
next
  case (Cons c a)
  show ?case
    by (cases "lines_of a") (use Cons in auto)
qed

text \<open>White space around a line does not decide whether it opens a section.\<close>

lemma rtrim_append_ws: "\<forall>c \<in> set w. is_ws c \<Longrightarrow> rtrim (l @ w) = rtrim l"
  unfolding rtrim_def rev_append by (subst dropWhile_append2) auto

lemma section_line_trim:
  assumes "name \<noteq> []" "\<not> is_ws (hd name)"
  shows "section_line name l \<longleftrightarrow> trim l = name @ '':''"
proof
  assume "section_line name l"
  then obtain r where r: "ltrim l = (name @ '':'') @ r" "\<forall>c \<in> set r. is_ws c"
    by (auto simp: section_line_def after_prefix_def starts_with_iff list_all_iff split: if_splits)
  have "rtrim (ltrim l) = rtrim (name @ '':'')" unfolding r(1) by (rule rtrim_append_ws [OF r(2)])
  then show "trim l = name @ '':''" by (simp add: trim_def rtrim_fix is_ws_def)
next
  assume t: "trim l = name @ '':''"
  obtain w where w: "ltrim l = rtrim (ltrim l) @ w" "\<forall>c \<in> set w. is_ws c" using rtrim_prefix by blast
  then have "ltrim l = (name @ '':'') @ w" using t by (simp add: trim_def)
  with w(2) show "section_line name l"
    by (simp add: section_line_def after_prefix_def starts_with_def list_all_iff)
qed

lemma trim_append_ws: "\<forall>c \<in> set w. is_ws c \<Longrightarrow> trim (l @ w) = trim l"
proof -
  assume w: "\<forall>c \<in> set w. is_ws c"
  show ?thesis
  proof (cases "\<forall>c \<in> set l. is_ws c")
    case True
    then have "ltrim (l @ w) = []" "ltrim l = []" using w by (auto simp: ltrim_def dropWhile_eq_Nil_conv)
    then show ?thesis by (simp add: trim_def)
  next
    case False
    then have "ltrim (l @ w) = ltrim l @ w" unfolding ltrim_def by (auto simp: dropWhile_append1)
    then show ?thesis by (simp add: trim_def rtrim_append_ws [OF w])
  qed
qed

lemma collapse_lines:
  "set (lines_of (collapse n s)) \<subseteq> set (lines_of s) \<and>
   (n < 2 \<longrightarrow> hd (lines_of (collapse n s)) = hd (lines_of s) \<and>
      set (tl (lines_of (collapse n s))) \<subseteq> set (tl (lines_of s)))"
proof (induction n s rule: collapse.induct)
  case (2 n c s)
  show ?case
  proof (cases "c = CHR 0x0A")
    case True
    then show ?thesis using 2 by (cases "n < 2") auto
  next
    case False
    then show ?thesis using 2(1) by (cases "lines_of s"; cases "lines_of (collapse 0 s)") auto
  qed
qed simp

lemma without_section_lines:
  "set (without_section name sk ls) \<subseteq> {l \<in> set ls. \<not> section_line name l}"
  by (induction name sk ls rule: without_section.induct) (auto split: option.splits if_splits)


lemma no_section_removed:
  assumes "CHR 0x0D \<notin> set yaml" "name \<noteq> []" "l \<in> set (lines_of (removeYamlSection yaml name))"
  shows "\<not> section_line name l \<and> l \<in> insert [] (set (lines_of yaml))"
proof -
  let ?ws = "without_section name None (lines_of yaml)"
  have "l \<in> set (lines_of (unlines ?ws))"
    using assms(1,3) collapse_lines [of 0 "unlines ?ws"] by (auto simp: removeYamlSection_def drop_crlf_id)
  moreover have "set (lines_of (unlines ?ws)) \<subseteq> insert [] (set ?ws)"
  proof (cases "?ws = []")
    case False
    have "\<forall>l \<in> set ?ws. CHR 0x0A \<notin> set l"
      using without_section_lines [of name None "lines_of yaml"] lines_no_break by blast
    then show ?thesis using split_join [OF False] by auto
  qed simp
  moreover have "\<not> section_line name []" by (simp add: section_line_def after_prefix_def ltrim_def starts_with_def)
  ultimately show ?thesis
    using without_section_lines [of name None "lines_of yaml"] by blast
qed

lemma removed_no_cr: "CHR 0x0D \<notin> set yaml \<Longrightarrow> CHR 0x0D \<notin> set (removeYamlSection yaml name)"
proof -
  assume y: "CHR 0x0D \<notin> set yaml"
  have c: "set (collapse n s) \<subseteq> set s" for n s by (induction n s rule: collapse.induct) auto
  have "set (unlines (without_section name None (lines_of yaml))) \<subseteq> insert (CHR 0x0A) (\<Union> (set ` set (lines_of yaml)))"
    using join_with_set [of newline "without_section name None (lines_of yaml)"]
      without_section_lines [of name None "lines_of yaml"] by fastforce
  moreover have "\<Union> (set ` set (lines_of yaml)) \<subseteq> set yaml"
    using chars_of_lines [of yaml "lines_of yaml"] by (auto simp: join_split)
  ultimately show ?thesis using y c [of 0] by (fastforce simp: removeYamlSection_def drop_crlf_id)
qed

lemma rtrim_lines:
  assumes "l \<in> set (lines_of (rtrim s))"
  shows "\<exists>v. (\<forall>c \<in> set v. is_ws c) \<and> l @ v \<in> set (lines_of s)"
proof -
  define r where "r = rtrim s"
  obtain w where w: "s = r @ w" "\<forall>c \<in> set w. is_ws c" unfolding r_def using rtrim_prefix by blast
  have s: "lines_of s = butlast (lines_of r) @ [last (lines_of r) @ hd (lines_of w)] @ tl (lines_of w)"
    unfolding w(1) by (rule lines_append)
  obtain ys y where ys: "lines_of r = ys @ [y]" by (cases "lines_of r" rule: rev_cases) simp_all
  consider "l \<in> set (butlast (lines_of r))" | "l = last (lines_of r)"
    using assms unfolding r_def [symmetric] ys by auto
  then show ?thesis
  proof cases
    case 1
    then have "l @ [] \<in> set (lines_of s)" by (simp add: s)
    then show ?thesis by (intro exI [of _ "[]"]) simp
  next
    case 2
    have "set (hd (lines_of w)) \<subseteq> set w"
      using chars_of_lines [of w "lines_of w" "hd (lines_of w)"] by (simp add: join_split)
    then have "\<forall>c \<in> set (hd (lines_of w)). is_ws c" using w(2) by blast
    moreover have "l @ hd (lines_of w) \<in> set (lines_of s)" by (simp add: s 2)
    ultimately show ?thesis by blast
  qed
qed

text \<open>What is kept of the manifest, without white space at its end, has neither section.\<close>

lemma base_lines:
  assumes "CHR 0x0D \<notin> set yaml" "name \<in> {''stringData'', ''data''}"
    "l \<in> set (lines_of (rtrim (removeYamlSection (removeYamlSection yaml ''stringData'') ''data'')))"
  shows "\<not> section_line name l"
proof -
  let ?s = "removeYamlSection (removeYamlSection yaml ''stringData'') ''data''"
  have "\<exists>v. (\<forall>c \<in> set v. is_ws c) \<and> l @ v \<in> set (lines_of ?s)" by (rule rtrim_lines [OF assms(3)])
  then obtain v where v: "\<forall>c \<in> set v. is_ws c" "l @ v \<in> set (lines_of ?s)" by blast
  have name: "name \<noteq> []" "\<not> is_ws (hd name)" using assms(2) by (auto simp: is_ws_def)
  have "\<not> section_line name (l @ v)"
  proof (cases "name = ''data''")
    case True
    then show ?thesis using no_section_removed [OF removed_no_cr [OF assms(1)] _ v(2)] by simp
  next
    case False
    then have n: "name = ''stringData''" using assms(2) by simp
    have "l @ v \<in> insert [] (set (lines_of (removeYamlSection yaml ''stringData'')))"
      using no_section_removed [OF removed_no_cr [OF assms(1)] _ v(2)] by simp
    then show ?thesis
      using no_section_removed [OF assms(1), of "''stringData''"] by (auto simp: n section_line_trim is_ws_def)
  qed
  then show ?thesis by (simp add: section_line_trim [OF name] trim_append_ws [OF v(1)])
qed


definition plain_row :: "EditorRow \<Rightarrow> bool" where
  "plain_row r \<longleftrightarrow>
     set (er_key r) \<inter> {CHR '':'', CHR 0x0A, CHR 0x0D} = {} \<and>
     set (er_value r) \<inter> {CHR 0x22, CHR 0x5C, CHR 0x0A, CHR 0x0D} = {}"

lemma replace_all_absent: "c \<notin> set s \<Longrightarrow> replace_all_char c r s = s"
  unfolding replace_all_char_def by (induction s) auto

lemma quote_plain: "plain_row r \<Longrightarrow> quoteYamlScalar (er_value r) = dquote @ er_value r @ dquote"
  by (auto simp: plain_row_def quoteYamlScalar_def replace_all_absent)

lemma unquoted: "trim ('' '' @ dquote @ v @ dquote) = dquote @ v @ dquote \<and> strip_quotes (dquote @ v @ dquote) = v"
proof -
  have "ltrim ('' '' @ dquote @ v @ dquote) = dquote @ v @ dquote" by (simp add: ltrim_def is_ws_def)
  then have "trim ('' '' @ dquote @ v @ dquote) = dquote @ v @ dquote" by (simp add: trim_def rtrim_fix is_ws_def)
  then show ?thesis by (simp add: strip_quotes_def is_quote_def)
qed

lemma row_line_read:
  assumes "plain_row r" "er_key r \<noteq> []" "trim (er_key r) = er_key r"
  shows "section_rows False 0 (row_line r # ls) = r # section_rows False 0 ls"
proof -
  let ?k = "er_key r" and ?l = "row_line r"
  have k: "\<not> is_ws (hd ?k)" "CHR '':'' \<notin> set ?k" using trim_ends [of ?k] assms by (auto simp: plain_row_def)
  have l: "?l = ''  '' @ ?k @ CHR '':'' # '' '' @ dquote @ er_value r @ dquote"
    by (simp add: row_line_def quote_plain [OF assms(1)])
  have indent: "indent_of ?l = 2"
    using k(1) assms(2) unfolding indent_of_def l by (cases ?k) (simp_all add: is_ws_def)
  have sep: "takeWhile (\<lambda>c. c \<noteq> CHR '':'') ?l = ''  '' @ ?k"
    using k(2) unfolding l by (simp add: takeWhile_append2) (subst takeWhile_append2, auto)
  have w: "ltrim ?l = ?k @ CHR '':'' # '' '' @ dquote @ er_value r @ dquote"
    using k(1) assms(2) unfolding l ltrim_def by (cases ?k) (simp_all add: is_ws_def)
  have blank: "trim ?l \<noteq> []" unfolding trim_def w rtrim_def by (simp add: is_ws_def)
  have cut: "drop 2 (take (2 + length ?k) ?l) = ?k" "drop (2 + length ?k + 1) ?l = '' '' @ dquote @ er_value r @ dquote"
    unfolding l by (simp_all add: numeral_2_eq_2)
  have colon: "CHR '':'' \<in> set ?l" unfolding l by simp
  have "length (takeWhile (\<lambda>c. c \<noteq> CHR '':'') ?l) = 2 + length ?k" unfolding sep by simp
  then have "section_rows False 0 (?l # ls)
      = \<lparr>er_key = trim (drop 2 (take (2 + length ?k) ?l)), er_value = row_value False (drop (2 + length ?k + 1) ?l)\<rparr>
        # section_rows False 0 ls"
    using blank indent colon assms(2) by (simp only: section_rows.simps Let_def) (simp add: numeral_2_eq_2)
  also have "\<dots> = r # section_rows False 0 ls"
    unfolding cut assms(3) row_value_def using unquoted [of "er_value r"] by simp
  finally show ?thesis .
qed

lemma rows_read:
  "\<forall>r \<in> set rs. plain_row r \<and> er_key r \<noteq> [] \<and> trim (er_key r) = er_key r \<Longrightarrow>
   section_rows False 0 (map row_line rs @ [[]]) = rs"
  by (induction rs) (simp_all add: row_line_read del: section_rows.simps(2), simp)

lemma normalized_ok:
  assumes "\<forall>r \<in> set rows. plain_row r" "r \<in> set (normalized_rows rows)"
  shows "plain_row r \<and> er_key r \<noteq> [] \<and> trim (er_key r) = er_key r"
  using assms set_trim by (fastforce simp: normalized_rows_def plain_row_def)

lemma row_line_plain: "plain_row r \<Longrightarrow> CHR 0x0A \<notin> set (row_line r) \<and> CHR 0x0D \<notin> set (row_line r)"
  by (auto simp: row_line_def quote_plain plain_row_def)

lemma unlines_snoc: "ls \<noteq> [] \<Longrightarrow> unlines (ls @ [[]]) = unlines ls @ newline"
  using unlines_append [of ls "[[]]"] by simp

lemma updated_lines:
  assumes "CHR 0x0D \<notin> set yaml" "\<forall>r \<in> set rows. plain_row r"
  shows "\<exists>base. (\<forall>l \<in> set base. \<not> section_line ''stringData'' l \<and> \<not> section_line ''data'' l) \<and>
    lines_of (drop_crlf (updateEditorSection yaml kind rows)) =
      base @ (section_name kind @ '':'') # map row_line (normalized_rows rows) @ [[]]"
proof -
  let ?b = "rtrim (removeYamlSection (removeYamlSection yaml ''stringData'') ''data'')"
  let ?ls = "(section_name kind @ '':'') # map row_line (normalized_rows rows)"
  have rows: "CHR 0x0A \<notin> set l \<and> CHR 0x0D \<notin> set l" if "l \<in> set ?ls" for l
    using that normalized_ok [OF assms(2)] row_line_plain by (auto simp: section_name_def split: if_splits)
  have whole: "updateEditorSection yaml kind rows = ?b @ newline @ unlines (?ls @ [[]])"
    unfolding updateEditorSection_def by (simp add: unlines_snoc [of "_ # _", simplified])
  have "CHR 0x0D \<notin> set ?b" using removed_no_cr [OF removed_no_cr [OF assms(1)]] set_rtrim by blast
  moreover have all: "\<forall>l \<in> set (?ls @ [[]]). CHR 0x0A \<notin> set l \<and> CHR 0x0D \<notin> set l"
    unfolding set_append ball_Un using rows by (intro conjI ballI) (blast, blast, simp, simp)
  then have "CHR 0x0D \<notin> set (unlines (?ls @ [[]]))" using join_with_set [of newline "?ls @ [[]]"] by fastforce
  ultimately have "drop_crlf (updateEditorSection yaml kind rows) = ?b @ newline @ unlines (?ls @ [[]])"
    unfolding whole by (intro drop_crlf_id) simp
  moreover have "lines_of (unlines (?ls @ [[]])) = ?ls @ [[]]"
    by (rule split_join) (simp, use all in blast)
  moreover have "lines_of (x @ newline @ y) = lines_of x @ lines_of y" for x y
    using lines_append [of x "newline @ y"] append_butlast_last_id [OF split_on_nonempty, of "CHR 0x0A" x]
    by (metis append.assoc append_Cons append_Nil append_Nil2 list.sel(1,3) split_on.simps(2))
  ultimately have "lines_of (drop_crlf (updateEditorSection yaml kind rows)) = lines_of ?b @ ?ls @ [[]]" by simp
  moreover have "\<forall>l \<in> set (lines_of ?b). \<not> section_line ''stringData'' l \<and> \<not> section_line ''data'' l"
    using base_lines [OF assms(1)] by simp
  ultimately show ?thesis by (intro exI [of _ "lines_of ?b"]) simp
qed

lemma section_line_name: "section_line (section_name kind) (section_name kind @ '':'')"
  by (simp add: section_name_def section_line_def after_prefix_def ltrim_def is_ws_def starts_with_def)

text \<open>
  C20. What the form of a ConfigMap or Secret writes into a manifest it reads back: for any manifest
  without carriage returns and any rows without quotation marks, backslashes and line breaks whose keys
  hold no colon, the rows read from the updated manifest are the rows of the form, with their keys
  trimmed and those without a key left out.
\<close>

theorem rows_roundtrip:
  assumes "CHR 0x0D \<notin> set yaml" "\<forall>r \<in> set rows. plain_row r"
  shows "extractEditorRows (updateEditorSection yaml kind rows) kind = normalized_rows rows"
proof -
  obtain base where base: "\<forall>l \<in> set base. \<not> section_line ''stringData'' l \<and> \<not> section_line ''data'' l"
    "lines_of (drop_crlf (updateEditorSection yaml kind rows)) =
      base @ (section_name kind @ '':'') # map row_line (normalized_rows rows) @ [[]]"
    using updated_lines [OF assms] by blast
  have skip: "\<forall>l \<in> set base. \<not> section_line (section_name kind) l" using base(1) by (simp add: section_name_def)
  have "indent_of (section_name kind @ '':'') = 0" by (simp add: section_name_def indent_of_def is_ws_def)
  then have primary: "parseYamlSection (updateEditorSection yaml kind rows) (section_name kind) (secret_kind kind) = normalized_rows rows"
    using skip section_line_name [of kind] rows_read [of "normalized_rows rows"] normalized_ok [OF assms(2)]
    unfolding parseYamlSection_def base(2) by (simp add: dropWhile_append2 section_name_def)
  show ?thesis
  proof (cases "normalized_rows rows = [] \<and> secret_kind kind")
    case True
    then have "\<forall>l \<in> set (base @ (section_name kind @ '':'') # map row_line (normalized_rows rows) @ [[]]). \<not> section_line ''data'' l"
      using base(1) by (simp add: section_name_def section_line_trim is_ws_def trim_fix)
    then have none: "dropWhile (\<lambda>l. \<not> section_line ''data'' l) (base @ (section_name kind @ '':'') # map row_line (normalized_rows rows) @ [[]]) = []"
      by (simp only: dropWhile_eq_Nil_conv)
    have "parseYamlSection (updateEditorSection yaml kind rows) ''data'' True = []"
      unfolding parseYamlSection_def base(2) none by simp
    with primary True show ?thesis by (simp add: extractEditorRows_def)
  next
    case False
    then show ?thesis using primary by (auto simp: extractEditorRows_def Let_def)
  qed
qed

theorem rows_roundtrip_witness:
  "extractEditorRows (updateEditorSection ''kind: Secret'' ''secrets'' [\<lparr>er_key = '' user'', er_value = ''a: b''\<rparr>]) ''secrets''
    = [\<lparr>er_key = ''user'', er_value = ''a: b''\<rparr>]"
proof -
  have "normalized_rows [\<lparr>er_key = '' user'', er_value = ''a: b''\<rparr>] = [\<lparr>er_key = ''user'', er_value = ''a: b''\<rparr>]" by code_simp
  moreover have "\<forall>r \<in> set [\<lparr>er_key = '' user'', er_value = ''a: b''\<rparr>]. plain_row r" by (simp add: plain_row_def)
  ultimately show ?thesis
    using rows_roundtrip [of "''kind: Secret''" "[\<lparr>er_key = '' user'', er_value = ''a: b''\<rparr>]" "''secrets''"] by simp
qed

lemma quoted_value_grows:
  "extractEditorRows (updateEditorSection [] ''configmaps'' [\<lparr>er_key = ''a'', er_value = dquote\<rparr>]) ''configmaps''
    = [\<lparr>er_key = ''a'', er_value = [CHR 0x5C, CHR 0x22]\<rparr>]"
  by code_simp

end
