(* ===== verification/GenericPage.thy ===== *)
theory GenericPage
  imports K8sPages YamlSections LiveStream
begin

text \<open>
  \<open>features/kubernetes/pages/GenericK8sResourcePage.tsx\<close>, the component: its columns and their place
  in local storage, the search, the selection, and the handlers that read, save, roll back and
  delete resources. The lists it shows come from the hooks and are arguments. An asynchronous
  handler is two steps, what it does before its request and what it does with the answer, except
  the deletion of many, whose requests follow each other.
\<close>

section \<open>Resources and columns\<close>

record K8sGenericResource =
  gr_name :: string
  gr_namespace :: "string option"
  gr_kind :: string
  gr_status :: "string option"
  gr_detail :: "string option"
  gr_secondary_detail :: "string option"
  gr_age :: string

record K8sManifestHistoryEntry =
  hi_id :: string
  hi_name :: string
  hi_namespace :: "string option"
  hi_created_at :: string

definition resourceKey :: "K8sGenericResource \<Rightarrow> string" where
  "resourceKey item = or_ostr (gr_namespace item) ''_cluster'' @ '':'' @ gr_name item"

datatype ColumnKey = NameColumn | NamespaceColumn | StatusColumn | DetailColumn | SecondaryColumn | AgeColumn

fun column_text :: "ColumnKey \<Rightarrow> string" where
  "column_text NameColumn = ''name''"
| "column_text NamespaceColumn = ''namespace''"
| "column_text StatusColumn = ''status''"
| "column_text DetailColumn = ''detail''"
| "column_text SecondaryColumn = ''secondary_detail''"
| "column_text AgeColumn = ''age''"

definition DEFAULT_COLUMNS :: "ColumnKey list" where
  "DEFAULT_COLUMNS = [NameColumn, NamespaceColumn, StatusColumn, DetailColumn, SecondaryColumn, AgeColumn]"

definition default_columns :: "bool \<Rightarrow> ColumnKey list" where
  "default_columns namespaced =
     (if namespaced then DEFAULT_COLUMNS else filter (\<lambda>c. c \<noteq> NamespaceColumn) DEFAULT_COLUMNS)"

definition columns_key :: "string \<Rightarrow> bool \<Rightarrow> string" where
  "columns_key kind namespaced = ''k8s-generic-columns:'' @ kind @ '':'' @ (if namespaced then ''ns'' else ''cluster'')"

fun column_of :: "json \<Rightarrow> ColumnKey option" where
  "column_of (JStr s) = List.find (\<lambda>c. column_text c = s) DEFAULT_COLUMNS"
| "column_of _ = None"

text \<open>
  What is stored is parsed; what is no list throws on \<open>filter\<close> and is caught like what does not
  parse.
\<close>

definition loadColumns :: "string option \<Rightarrow> bool \<Rightarrow> ColumnKey list" where
  "loadColumns raw namespaced =
     (if \<not> truthy_str raw then default_columns namespaced
      else case json_parse (the raw) of
        Some (JArr vs) \<Rightarrow>
          let filtered = filter (\<lambda>c. namespaced \<or> c \<noteq> NamespaceColumn) (List.map_filter column_of vs) in
          if filtered \<noteq> [] then filtered else default_columns namespaced
      | _ \<Rightarrow> default_columns namespaced)"

definition stored_columns :: "ColumnKey list \<Rightarrow> string" where
  "stored_columns cs = json_text (JArr (map (\<lambda>c. JStr (column_text c)) cs))"

definition toggle_column :: "ColumnKey \<Rightarrow> ColumnKey list \<Rightarrow> ColumnKey list" where
  "toggle_column c prev =
     (if c \<in> set prev then let next = filter (\<lambda>x. x \<noteq> c) prev in if next \<noteq> [] then next else prev
      else prev @ [c])"

definition visibleColumnCount :: "ColumnKey list \<Rightarrow> bool \<Rightarrow> nat" where
  "visibleColumnCount cs namespaced = length (filter (\<lambda>c. namespaced \<or> c \<noteq> NamespaceColumn) cs)"

section \<open>The state\<close>

record generic_state =
  gs_cluster :: string
  gs_namespace :: string
  gs_searchQuery :: string
  gs_statusFilter :: string
  gs_selected :: "K8sGenericResource option"
  gs_yaml :: string
  gs_yamlLoading :: bool
  gs_revisionId :: string
  gs_selectedKeys :: "string list"
  gs_visibleColumns :: "ColumnKey list"
  gs_formRows :: "EditorRow list"
  gs_watchEnabled :: bool
  gs_deleteCandidate :: "K8sGenericResource option"
  gs_bulkCandidate :: "K8sGenericResource list"
  gs_rollbackCandidate :: "K8sManifestHistoryEntry option"

definition initial_state :: "generic_page \<Rightarrow> string option \<Rightarrow> generic_state" where
  "initial_state p raw =
     \<lparr>gs_cluster = [], gs_namespace = ''default'', gs_searchQuery = [], gs_statusFilter = ''all'',
      gs_selected = None, gs_yaml = [], gs_yamlLoading = False, gs_revisionId = [], gs_selectedKeys = [],
      gs_visibleColumns = loadColumns raw (gp_namespaced p), gs_formRows = [], gs_watchEnabled = True,
      gs_deleteCandidate = None, gs_bulkCandidate = [], gs_rollbackCandidate = None\<rparr>"

definition keyValueEditorEnabled :: "string \<Rightarrow> bool" where
  "keyValueEditorEnabled kind \<longleftrightarrow> lower kind \<in> set [''configmaps'', ''configmap'', ''secrets'', ''secret'']"

definition customResourceDescriptor :: "string \<Rightarrow> generic_state \<Rightarrow> crd_descriptor option" where
  "customResourceDescriptor kind s =
     (if lower kind = ''customresourcedefinitions'' then extractCRDDescriptor (gs_yaml s) else None)"

definition instances_path :: "crd_descriptor \<Rightarrow> string" where
  "instances_path d = ''/custom-resources'' @ uri_query
     [(''kind'', cd_plural d), (''title'', cd_title d),
      (''namespaced'', if cd_namespaced d then ''true'' else ''false''),
      (''resourceKind'', cd_kind d), (''apiVersion'', cd_apiVersion d)]"

section \<open>What is shown\<close>

text \<open>An option per status, in the order in which they appear.\<close>

definition statusOptions :: "K8sGenericResource list \<Rightarrow> string list" where
  "statusOptions items =
     ''all'' # js_set (filter (\<lambda>v. v \<noteq> []) (map (\<lambda>i. trim (nullish (gr_status i) [])) items))"

definition search_fields :: "K8sGenericResource \<Rightarrow> string list" where
  "search_fields i =
     filter (\<lambda>v. v \<noteq> []) (gr_name i # List.map_filter (\<lambda>v. v)
       [gr_namespace i, gr_status i, gr_detail i, gr_secondary_detail i])"

definition matches_row :: "string \<Rightarrow> string \<Rightarrow> K8sGenericResource \<Rightarrow> bool" where
  "matches_row searchQuery statusFilter i \<longleftrightarrow>
     list_ex (\<lambda>v. str_includes (lower v) (lower searchQuery)) (search_fields i) \<and>
     (statusFilter = ''all'' \<or> str_includes (lower (nullish (gr_status i) [])) (lower statusFilter))"

definition filteredResources :: "generic_state \<Rightarrow> K8sGenericResource list \<Rightarrow> K8sGenericResource list" where
  "filteredResources s items = filter (matches_row (gs_searchQuery s) (gs_statusFilter s)) items"

definition allVisibleSelected :: "generic_state \<Rightarrow> K8sGenericResource list \<Rightarrow> bool" where
  "allVisibleSelected s items \<longleftrightarrow>
     filteredResources s items \<noteq> [] \<and>
     list_all (\<lambda>i. resourceKey i \<in> set (gs_selectedKeys s)) (filteredResources s items)"

section \<open>Selecting\<close>

definition toggleAllVisible :: "K8sGenericResource list \<Rightarrow> generic_state \<Rightarrow> generic_state" where
  "toggleAllVisible items s =
     (let visible = map resourceKey (filteredResources s items) in
      if allVisibleSelected s items
      then s\<lparr>gs_selectedKeys := filter (\<lambda>k. k \<notin> set visible) (gs_selectedKeys s)\<rparr>
      else s\<lparr>gs_selectedKeys := js_set (gs_selectedKeys s @ visible)\<rparr>)"

definition toggleRow :: "K8sGenericResource \<Rightarrow> generic_state \<Rightarrow> generic_state" where
  "toggleRow item s = s\<lparr>gs_selectedKeys := toggle_tag (resourceKey item) (gs_selectedKeys s)\<rparr>"

definition selected_rows :: "generic_state \<Rightarrow> K8sGenericResource list \<Rightarrow> K8sGenericResource list" where
  "selected_rows s items = filter (\<lambda>i. resourceKey i \<in> set (gs_selectedKeys s)) (filteredResources s items)"

section \<open>Reading a manifest\<close>

definition item_query :: "bool \<Rightarrow> K8sGenericResource \<Rightarrow> string" where
  "item_query namespaced item =
     (if truthy_str (gr_namespace item) then uri_query [(''namespace'', the (gr_namespace item))]
      else if namespaced then [] else ''?namespaced=false'')"

definition detail_request :: "generic_page \<Rightarrow> generic_state \<Rightarrow> K8sGenericResource \<Rightarrow> string" where
  "detail_request p s item =
     resource_path (gs_cluster s) (gp_kind p) (gr_name item) ''/yaml'' @ item_query (gp_namespaced p) item"

definition openDetail :: "K8sGenericResource \<Rightarrow> generic_state \<Rightarrow> generic_state" where
  "openDetail item s =
     s\<lparr>gs_selected := Some item, gs_yaml := [], gs_formRows := [], gs_yamlLoading := True, gs_revisionId := []\<rparr>"

text \<open>The answer is the manifest, or the message of what was thrown.\<close>

definition detail_answered :: "generic_page \<Rightarrow> string + string \<Rightarrow> generic_state \<Rightarrow> generic_state" where
  "detail_answered p answer s =
     (case answer of
        Inr yaml \<Rightarrow> s\<lparr>gs_yaml := yaml, gs_yamlLoading := False,
          gs_formRows := (if keyValueEditorEnabled (gp_kind p) then extractEditorRows yaml (gp_kind p) else gs_formRows s)\<rparr>
      | Inl msg \<Rightarrow> s\<lparr>gs_yaml := ''# Unable to load YAML'' @ newline @ ''# '' @ msg, gs_yamlLoading := False\<rparr>)"

definition syncFormToYaml :: "generic_page \<Rightarrow> generic_state \<Rightarrow> generic_state" where
  "syncFormToYaml p s = s\<lparr>gs_yaml := updateEditorSection (gs_yaml s) (gp_kind p) (gs_formRows s)\<rparr>"

section \<open>Saving and rolling back\<close>

definition saveYaml :: "generic_state \<Rightarrow> mutation option" where
  "saveYaml s =
     (if trim (gs_yaml s) = [] then None
      else Some (useApplyManifest (gs_cluster s)
        (Some (or_ostr (Option.bind (gs_selected s) gr_namespace) (gs_namespace s))) (gs_yaml s)))"

definition save_answered :: "generic_page \<Rightarrow> string option + unit \<Rightarrow> toast" where
  "save_answered p answer =
     (case answer of
        Inr _ \<Rightarrow> toast_of ''success'' (gp_title p @ '' updated'') ''Manifest applied successfully.''
      | Inl msg \<Rightarrow> toast_of ''error'' ''Update failed'' (nullish msg ''Unable to apply YAML.''))"

definition rollback_request :: "generic_page \<Rightarrow> generic_state \<Rightarrow> K8sManifestHistoryEntry \<Rightarrow> mutation" where
  "rollback_request p s revision =
     useRollbackKubernetesResource (gs_cluster s) (gp_kind p) (or_ostr (hi_namespace revision) (gs_namespace s))
       (hi_name revision) (hi_id revision) (gp_namespaced p)"

text \<open>
  After a rollback the manifest of the selected resource is read again, which forgets the
  revision that was just remembered. With no resource selected reading it throws the platform's
  error, whose message is shown like one of the server.
\<close>

definition rollback_answered ::
  "(thrown \<Rightarrow> string) \<Rightarrow> K8sManifestHistoryEntry \<Rightarrow> string option + unit \<Rightarrow> generic_state \<Rightarrow> generic_state \<times> toast" where
  "rollback_answered platform revision answer s =
     (case answer of
        Inr _ \<Rightarrow>
          (let s1 = s\<lparr>gs_revisionId := hi_id revision\<rparr> in
           (case gs_selected s of
              Some item \<Rightarrow> openDetail item s1
            | None \<Rightarrow> s1\<lparr>gs_yaml := ''# Unable to load YAML'' @ newline @ ''# '' @ platform TypeError,
                gs_formRows := [], gs_yamlLoading := False, gs_revisionId := []\<rparr>,
            toast_of ''success'' ''Rollback completed'' (hi_name revision @ '' restored from history.'')))
      | Inl msg \<Rightarrow> (s, toast_of ''error'' ''Rollback failed'' (nullish msg ''Unable to rollback resource.'')))"

section \<open>Deleting\<close>

definition delete_options :: fetch_options where
  "delete_options = \<lparr>opt_method = ''DELETE'', opt_headers = [], opt_body = NoBody\<rparr>"

definition delete_request :: "generic_page \<Rightarrow> generic_state \<Rightarrow> K8sGenericResource \<Rightarrow> string" where
  "delete_request p s item =
     resource_path (gs_cluster s) (gp_kind p) (gr_name item) [] @ item_query (gp_namespaced p) item"

definition close_detail :: "generic_state \<Rightarrow> generic_state" where
  "close_detail s = s\<lparr>gs_selected := None, gs_yaml := [], gs_formRows := []\<rparr>"

definition delete_answered ::
  "generic_page \<Rightarrow> K8sGenericResource \<Rightarrow> string option + unit \<Rightarrow> generic_state \<Rightarrow> generic_state \<times> toast" where
  "delete_answered p item answer s =
     (case answer of
        Inr _ \<Rightarrow>
          (if map_option resourceKey (gs_selected s) = Some (resourceKey item) then close_detail s else s,
           toast_of ''success'' (gp_title p @ '' deleted'') (gr_name item))
      | Inl msg \<Rightarrow> (s, toast_of ''error'' ''Delete failed'' (nullish msg ''Unable to delete resource.'')))"

fun delete_each :: "server \<Rightarrow> env \<Rightarrow> generic_page \<Rightarrow> generic_state \<Rightarrow> K8sGenericResource list \<Rightarrow> unit eff" where
  "delete_each srv e p s [] = eff_ret ()"
| "delete_each srv e p s (i # is') =
     eff_bind (apiFetch srv e (delete_request p s i) delete_options) (\<lambda>_. delete_each srv e p s is')"

text \<open>The last part says whether the list is asked for again.\<close>

definition deleteSelected ::
  "(thrown \<Rightarrow> string) \<Rightarrow> server \<Rightarrow> env \<Rightarrow> generic_page \<Rightarrow> K8sGenericResource list \<Rightarrow> generic_state \<Rightarrow> world
     \<Rightarrow> (generic_state \<times> toast list \<times> bool) \<times> world" where
  "deleteSelected platform srv e p items s w =
     (let targets = selected_rows s items in
      if targets = [] then ((s, [], False), w)
      else case delete_each srv e p s targets w of
        (Inr _, w') \<Rightarrow>
          (((if list_ex (\<lambda>r. resourceKey r \<in> set (gs_selectedKeys s)) (case gs_selected s of None \<Rightarrow> [] | Some r \<Rightarrow> [r])
             then close_detail s else s)\<lparr>gs_selectedKeys := []\<rparr>,
            [toast_of ''success'' ''Bulk delete completed'' (show_nat (length targets) @ '' '' @ lower (gp_title p) @ '' removed.'')],
            True), w')
      | (Inl err, w') \<Rightarrow>
          ((s, [toast_of ''error'' ''Bulk delete failed'' (thrown_message platform err)], False), w'))"

section \<open>The life of the page\<close>

definition row_edited :: "nat \<Rightarrow> (EditorRow \<Rightarrow> EditorRow) \<Rightarrow> generic_state \<Rightarrow> generic_state" where
  "row_edited i f s =
     s\<lparr>gs_formRows := map (\<lambda>(r, j). if j = i then f r else r) (zip (gs_formRows s) [0 ..< length (gs_formRows s)])\<rparr>"

inductive generic_step :: "generic_page \<Rightarrow> generic_state \<Rightarrow> generic_state \<Rightarrow> bool" for p where
  searches: "generic_step p s (s\<lparr>gs_searchQuery := v\<rparr>)"
| filters: "generic_step p s (s\<lparr>gs_statusFilter := v\<rparr>)"
| picks_column: "c \<in> set (default_columns (gp_namespaced p)) \<Longrightarrow>
    generic_step p s (s\<lparr>gs_visibleColumns := toggle_column c (gs_visibleColumns s)\<rparr>)"
| watches: "generic_step p s (s\<lparr>gs_watchEnabled := \<not> gs_watchEnabled s\<rparr>)"
| toggles_all: "generic_step p s (toggleAllVisible items s)"
| toggles_row: "generic_step p s (toggleRow item s)"
| opens: "generic_step p s (openDetail item s)"
| reads: "generic_step p s (detail_answered p answer s)"
| closes_drawer: "generic_step p s (s\<lparr>gs_selected := None\<rparr>)"
| types_yaml: "generic_step p s (s\<lparr>gs_yaml := v\<rparr>)"
| edits_key: "generic_step p s (row_edited i (er_key_update (\<lambda>_. v)) s)"
| edits_value: "generic_step p s (row_edited i (er_value_update (\<lambda>_. v)) s)"
| removes_row: "generic_step p s (s\<lparr>gs_formRows := remove_at i (gs_formRows s)\<rparr>)"
| adds_row: "generic_step p s (s\<lparr>gs_formRows := gs_formRows s @ [\<lparr>er_key = [], er_value = []\<rparr>]\<rparr>)"
| syncs: "generic_step p s (syncFormToYaml p s)"
| rolls_back: "generic_step p s (fst (rollback_answered platform revision answer s))"
| deletes: "generic_step p s (fst (delete_answered p item answer s))"
| deletes_many: "generic_step p s (fst (fst (deleteSelected platform srv e p items s w)))"
| asks: "generic_step p s (s\<lparr>gs_deleteCandidate := d, gs_bulkCandidate := b, gs_rollbackCandidate := r\<rparr>)"
| chooses_cluster: "generic_step p s (s\<lparr>gs_cluster := v\<rparr>)"
| chooses_namespace: "generic_step p s (s\<lparr>gs_namespace := v\<rparr>)"


section \<open>Columns\<close>

definition columns_ok :: "bool \<Rightarrow> ColumnKey list \<Rightarrow> bool" where
  "columns_ok namespaced cs \<longleftrightarrow> cs \<noteq> [] \<and> set cs \<subseteq> set (default_columns namespaced)"

lemma default_columns_ok: "columns_ok namespaced (default_columns namespaced)"
  by (simp add: columns_ok_def default_columns_def DEFAULT_COLUMNS_def)

lemma default_columns_all: "c \<in> set (default_columns namespaced) \<longleftrightarrow> namespaced \<or> c \<noteq> NamespaceColumn"
  by (cases c) (simp_all add: default_columns_def DEFAULT_COLUMNS_def)

lemma loaded_columns_ok: "columns_ok namespaced (loadColumns raw namespaced)"
proof -
  let ?f = "filter (\<lambda>c. namespaced \<or> c \<noteq> NamespaceColumn)"
  have "set (?f cs) \<subseteq> set (default_columns namespaced)" for cs by (auto simp: default_columns_all)
  then show ?thesis
    using default_columns_ok [of namespaced]
    by (auto simp: loadColumns_def Let_def columns_ok_def split: option.split json.split)
qed

lemma find_column_text [simp]: "List.find (\<lambda>d. column_text d = column_text c) DEFAULT_COLUMNS = Some c"
  by (cases c) (simp_all add: DEFAULT_COLUMNS_def)

lemma columns_read: "List.map_filter column_of (map (\<lambda>c. JStr (column_text c)) cs) = cs"
  by (induction cs) (simp_all add: List.map_filter_simps)

lemma stored_columns_read:
  assumes "columns_ok namespaced cs"
  shows "loadColumns (Some (stored_columns cs)) namespaced = cs"
proof -
  have "wf_elems (map (\<lambda>c. JStr (column_text c)) cs)" by (induction cs) simp_all
  then have parsed: "json_parse (stored_columns cs) = Some (JArr (map (\<lambda>c. JStr (column_text c)) cs))"
    unfolding stored_columns_def by (intro parse_stringify) simp
  have "stored_columns cs \<noteq> []" using json_text_length unfolding stored_columns_def by blast
  moreover have "filter (\<lambda>c. namespaced \<or> c \<noteq> NamespaceColumn) cs = cs"
    using assms by (intro filter_True) (auto simp: columns_ok_def default_columns_all)
  ultimately show ?thesis
    using assms by (simp add: loadColumns_def truthy_str_def parsed columns_read columns_ok_def)
qed

lemma toggle_column_ok:
  "columns_ok namespaced cs \<Longrightarrow> c \<in> set (default_columns namespaced) \<Longrightarrow> columns_ok namespaced (toggle_column c cs)"
  by (auto simp: columns_ok_def toggle_column_def Let_def)

lemma generic_step_columns:
  "generic_step p s t \<Longrightarrow> columns_ok (gp_namespaced p) (gs_visibleColumns s) \<Longrightarrow>
   columns_ok (gp_namespaced p) (gs_visibleColumns t)"
  by (induction rule: generic_step.induct)
    (simp_all add: toggle_column_ok toggleAllVisible_def toggleRow_def openDetail_def detail_answered_def row_edited_def
      syncFormToYaml_def rollback_answered_def delete_answered_def deleteSelected_def close_detail_def Let_def
      split: sum.split option.split prod.split)

text \<open>
  However the page is used, at least one column stays visible, none the page does not offer,
  and what it then writes to local storage is read back as the same columns in the same order.
\<close>

theorem columns_survive:
  assumes "reached (generic_step p) (initial_state p raw) s"
  shows "gs_visibleColumns s \<noteq> [] \<and> set (gs_visibleColumns s) \<subseteq> set (default_columns (gp_namespaced p)) \<and>
    loadColumns (Some (stored_columns (gs_visibleColumns s))) (gp_namespaced p) = gs_visibleColumns s"
proof -
  have "machine (initial_state p raw) (generic_step p) (\<lambda>s. columns_ok (gp_namespaced p) (gs_visibleColumns s))"
    by unfold_locales (simp add: initial_state_def loaded_columns_ok, rule generic_step_columns)
  from machine.reached_inv [OF this assms] show ?thesis
    using stored_columns_read by (auto simp: columns_ok_def)
qed

theorem columns_survive_witness:
  "set (gs_visibleColumns (initial_state NetworkPoliciesPage None))
     \<subseteq> set (default_columns (gp_namespaced NetworkPoliciesPage))"
  using columns_survive [OF reached.start] by blast

section \<open>Selection\<close>

text \<open>
  The box in the header selects every visible row and, ticked again, gives up exactly the
  visible ones: rows selected before that are filtered out of view stay selected.
\<close>

theorem toggle_all_cycle:
  assumes "filteredResources s items \<noteq> []" "\<not> allVisibleSelected s items"
  shows "allVisibleSelected (toggleAllVisible items s) items \<and>
    set (gs_selectedKeys (toggleAllVisible items (toggleAllVisible items s))) =
      set (gs_selectedKeys s) - resourceKey ` set (filteredResources s items)"
proof -
  have same: "filteredResources (s\<lparr>gs_selectedKeys := ks\<rparr>) items = filteredResources s items" for ks
    by (simp add: filteredResources_def)
  have on: "toggleAllVisible items s = s\<lparr>gs_selectedKeys := js_set (gs_selectedKeys s @ map resourceKey (filteredResources s items))\<rparr>"
    using assms(2) by (simp add: toggleAllVisible_def)
  have all: "allVisibleSelected (toggleAllVisible items s) items"
    using assms(1) unfolding on by (auto simp: allVisibleSelected_def same set_js_set list_all_iff)
  then have "gs_selectedKeys (toggleAllVisible items (toggleAllVisible items s)) =
      filter (\<lambda>k. k \<notin> set (map resourceKey (filteredResources s items)))
        (js_set (gs_selectedKeys s @ map resourceKey (filteredResources s items)))"
    by (simp add: toggleAllVisible_def [of items "toggleAllVisible items s"]) (simp add: on same)
  with all show ?thesis by (auto simp: set_js_set)
qed

definition sample_resource :: "string \<Rightarrow> string \<Rightarrow> K8sGenericResource" where
  "sample_resource ns n =
     \<lparr>gr_name = n, gr_namespace = Some ns, gr_kind = ''ConfigMap'', gr_status = None, gr_detail = None,
      gr_secondary_detail = None, gr_age = ''1d''\<rparr>"

theorem toggle_all_cycle_witness:
  "allVisibleSelected (toggleAllVisible [sample_resource ''a'' ''x''] (initial_state NetworkPoliciesPage None))
     [sample_resource ''a'' ''x'']"
proof -
  have "filteredResources (initial_state NetworkPoliciesPage None) [sample_resource ''a'' ''x''] \<noteq> []"
    by (simp add: filteredResources_def matches_row_def initial_state_def sample_resource_def search_fields_def lower_def)
  moreover have "\<not> allVisibleSelected (initial_state NetworkPoliciesPage None) [sample_resource ''a'' ''x'']"
    using calculation by (cases "filteredResources (initial_state NetworkPoliciesPage None) [sample_resource ''a'' ''x'']")
      (simp_all add: allVisibleSelected_def initial_state_def)
  ultimately show ?thesis by (rule toggle_all_cycle [THEN conjunct1])
qed

section \<open>A late answer\<close>

text \<open>
  A manifest that arrives late is shown and saved as that of another resource: when one resource
  is opened after another and the first answer comes last, the drawer of the second holds the
  manifest of the first, and saving applies it in the namespace of the second.
\<close>

theorem late_manifest_saved:
  assumes "trim first \<noteq> []"
  shows "let t = detail_answered p (Inr first) (detail_answered p (Inr second) (openDetail b (openDetail a s))) in
    gs_selected t = Some b \<and> gs_yaml t = first \<and>
    saveYaml t = Some (useApplyManifest (gs_cluster s) (Some (or_ostr (gr_namespace b) (gs_namespace s))) first)"
  using assms by (simp add: detail_answered_def openDetail_def saveYaml_def)

theorem late_manifest_saved_witness:
  "gs_yaml (detail_answered NetworkPoliciesPage (Inr ''kind: A'') (detail_answered NetworkPoliciesPage (Inr ''kind: B'')
     (openDetail (sample_resource ''b'' ''y'') (openDetail (sample_resource ''a'' ''x'')
       (initial_state NetworkPoliciesPage None))))) = ''kind: A''"
proof -
  have "trim ''kind: A'' \<noteq> []" by code_simp
  from late_manifest_saved [OF this, of NetworkPoliciesPage "''kind: B''" "sample_resource ''b'' ''y''"
      "sample_resource ''a'' ''x''" "initial_state NetworkPoliciesPage None"]
  show ?thesis by (simp only: Let_def)
qed

section \<open>Deleting many\<close>

lemma delete_each_append:
  "delete_each srv e p s (xs @ ys) w = eff_bind (delete_each srv e p s xs) (\<lambda>_. delete_each srv e p s ys) w"
  by (induction xs arbitrary: w) (simp_all add: eff_bind_def eff_ret_def split: sum.split prod.split)

text \<open>
  The requests of a deletion of many stop at the first one that fails: the resources before it
  are gone, none after it is asked for, and the page keeps its selection and does not ask for the
  list again.
\<close>

theorem bulk_delete_stops:
  assumes "selected_rows s items = gone @ i # rest"
    and "delete_each srv e p s gone w = (Inr (), w1)"
    and "apiFetch srv e (delete_request p s i) delete_options w1 = (Inl err, w2)"
  shows "deleteSelected platform srv e p items s w =
    ((s, [toast_of ''error'' ''Bulk delete failed'' (thrown_message platform err)], False), w2)"
proof -
  have "delete_each srv e p s (gone @ i # rest) w = (Inl err, w2)"
    using assms(2,3) by (simp add: delete_each_append eff_bind_def)
  then show ?thesis using assms(1) by (simp add: deleteSelected_def)
qed


lemma apiFetch_unreachable: "\<exists>w'. apiFetch (\<lambda>_ _. None) e endpoint opts w = (Inl NetworkError, w')"
  by (simp add: apiFetch_def apiFetchWithRetry.simps [of _ _ _ _ True] fetch_fallback_def fetch_def eff_bind_def Let_def
    split: prod.split)

definition sample_env :: env where
  "sample_env = \<lparr>vite_base = [], vite_dev_port = [], is_dev = False, location = sample_url, abs_url = (\<lambda>_. sample_url)\<rparr>"

definition sample_selection :: generic_state where
  "sample_selection = (initial_state NetworkPoliciesPage None)\<lparr>gs_selectedKeys := [''a:x'']\<rparr>"

theorem bulk_delete_stops_witness:
  "\<exists>w2. deleteSelected (\<lambda>_. ''offline'') (\<lambda>_ _. None) sample_env NetworkPoliciesPage [sample_resource ''a'' ''x'']
      sample_selection sample_world
    = ((sample_selection, [toast_of ''error'' ''Bulk delete failed'' ''offline''], False), w2)"
proof -
  let ?r = "sample_resource ''a'' ''x''"
  have rows: "selected_rows sample_selection [?r] = [] @ ?r # []"
    by (simp add: selected_rows_def sample_selection_def filteredResources_def matches_row_def initial_state_def
      sample_resource_def search_fields_def lower_def resourceKey_def or_ostr_def or_str_def truthy_str_def)
  obtain w2 where "apiFetch (\<lambda>_ _. None) sample_env (delete_request NetworkPoliciesPage sample_selection ?r) delete_options
      sample_world = (Inl NetworkError, w2)" using apiFetch_unreachable by blast
  from bulk_delete_stops [OF rows _ this, of sample_world "\<lambda>_. ''offline''"] show ?thesis
    by (simp add: eff_ret_def)
qed

end
