(* ===== verification/CronPage.thy ===== *)
theory CronPage
  imports ServerFeatures Machine
begin

text \<open>
  The scheduler of a server: \<open>features/cron/components/CronScheduleBuilder.tsx\<close>, the page that
  edits a job around it (\<open>ServerCronEditorPage.tsx\<close>) and the page that lists the jobs
  (\<open>ServerCron.tsx\<close>, both under \<open>features/servers/pages/modules/system\<close>). The package that reads
  cron expressions is a parameter: \<open>valid\<close> says what it accepts, \<open>upcoming\<close> gives the next three
  times of an expression it accepts.
\<close>

section \<open>Reading numbers\<close>

text \<open>\<open>parseInt(s)\<close> without a radix, where a prefix \<open>0x\<close> makes it hexadecimal.\<close>

definition parseIntAny :: "string \<Rightarrow> int option" where
  "parseIntAny s =
     (let t = ltrim s;
          neg = starts_with ''-'' t;
          r = (if neg \<or> starts_with ''+'' t then tl t else t) in
      if starts_with ''0x'' r \<or> starts_with ''0X'' r
      then (let hs = takeWhile (\<lambda>c. hex_val c \<noteq> None) (drop 2 r);
                n = foldl (\<lambda>a c. 16 * a + int (the (hex_val c))) 0 hs in
        if hs = [] then None else Some (if neg then - n else n))
      else parseInt s)"

text \<open>\<open>n || d\<close>, where NaN and zero are falsy.\<close>

definition int_or :: "int option \<Rightarrow> int \<Rightarrow> int" where
  "int_or r d = (case r of None \<Rightarrow> d | Some n \<Rightarrow> if n = 0 then d else n)"

lemma show_nat_not_hex: "\<not> starts_with ''0x'' (show_nat n)" "\<not> starts_with ''0X'' (show_nat n)"
proof -
  have "CHR ''x'' \<notin> set (show_nat n)" "CHR ''X'' \<notin> set (show_nat n)"
    using show_nat_digits [of n] by (auto simp: is_digit_def)
  then show "\<not> starts_with ''0x'' (show_nat n)" "\<not> starts_with ''0X'' (show_nat n)"
    by (auto simp: starts_with_iff)
qed

lemma show_nat_head: "\<exists>c r. show_nat n = c # r \<and> is_digit c"
  using show_nat_digits [of n] show_nat_nonempty [of n] by (cases "show_nat n") auto

lemma takeWhile_digits: "takeWhile is_digit (show_nat n) = show_nat n"
  using show_nat_digits [of n] by (simp add: takeWhile_eq_all_conv)

lemma parse_show: "parseIntAny (show_int i) = Some i"
proof -
  obtain c r where c: "show_nat (nat i) = c # r" "is_digit c" using show_nat_head by blast
  then have [simp]: "\<not> is_ws c" "c \<noteq> CHR ''-''" "c \<noteq> CHR ''+''"
    by (auto simp: is_digit_def is_ws_def)
  have m: "ltrim (CHR ''-'' # s) = CHR ''-'' # s" for s by (simp add: ltrim_def is_ws_def)
  have p: "ltrim (show_nat (nat i)) = show_nat (nat i)" using c by (simp add: ltrim_def)
  have s: "starts_with ''-'' (CHR ''-'' # s)" "\<not> starts_with ''-'' (show_nat (nat i))"
    "\<not> starts_with ''+'' (show_nat (nat i))" for s
    using c by (auto simp: starts_with_def)
  show ?thesis
  proof (cases "i < 0")
    case True
    then show ?thesis
      by (simp add: parseIntAny_def parseInt_def show_int_def Let_def m s show_nat_not_hex takeWhile_digits)
  next
    case False
    then show ?thesis
      by (simp add: parseIntAny_def parseInt_def show_int_def Let_def p s show_nat_not_hex takeWhile_digits)
  qed
qed

section \<open>The builder of a schedule\<close>

datatype frequency = Hourly | Daily | Weekly | Monthly

datatype builder_mode = Simple | Advanced

record builder =
  cb_mode :: builder_mode
  cb_frequency :: frequency
  cb_minute :: int
  cb_hour :: int
  cb_dayOfWeek :: int
  cb_dayOfMonth :: int
  cb_advanced :: string
  cb_error :: "string option"

definition initial_builder :: "string \<Rightarrow> builder" where
  "initial_builder value =
     \<lparr>cb_mode = Simple, cb_frequency = Daily, cb_minute = 0, cb_hour = 0, cb_dayOfWeek = 1,
      cb_dayOfMonth = 1, cb_advanced = value, cb_error = None\<rparr>"

text \<open>The effect that follows the value given from outside.\<close>

definition sync_value :: "string \<Rightarrow> builder \<Rightarrow> builder" where
  "sync_value value b =
     (let b' = b\<lparr>cb_advanced := value\<rparr> in
      case split_on (CHR '' '') value of
        [m, h, dm, mo, dw] \<Rightarrow>
          (if dm = ''*'' \<and> mo = ''*'' \<and> dw = ''*''
           then b'\<lparr>cb_frequency := Daily, cb_minute := int_or (parseIntAny m) 0, cb_hour := int_or (parseIntAny h) 0\<rparr>
           else if dm = ''*'' \<and> mo = ''*'' \<and> dw \<noteq> ''*''
           then b'\<lparr>cb_frequency := Weekly, cb_minute := int_or (parseIntAny m) 0, cb_hour := int_or (parseIntAny h) 0,
             cb_dayOfWeek := int_or (parseIntAny dw) 0\<rparr>
           else b')
      | _ \<Rightarrow> b')"

definition simple_cron :: "builder \<Rightarrow> string" where
  "simple_cron b =
     (case cb_frequency b of
        Hourly \<Rightarrow> show_int (cb_minute b) @ '' * * * *''
      | Daily \<Rightarrow> show_int (cb_minute b) @ '' '' @ show_int (cb_hour b) @ '' * * *''
      | Weekly \<Rightarrow> show_int (cb_minute b) @ '' '' @ show_int (cb_hour b) @ '' * * '' @ show_int (cb_dayOfWeek b)
      | Monthly \<Rightarrow> show_int (cb_minute b) @ '' '' @ show_int (cb_hour b) @ '' '' @ show_int (cb_dayOfMonth b) @ '' * *'')"

text \<open>The builder with the value its page keeps and the timers its controls have set.\<close>

record schedule_editor =
  se_builder :: builder
  se_value :: string
  se_timers :: "builder list"

text \<open>Mounting runs the effect once.\<close>

definition mounted_editor :: "string \<Rightarrow> schedule_editor" where
  "mounted_editor value =
     \<lparr>se_builder = sync_value value (initial_builder value), se_value = value, se_timers = []\<rparr>"

text \<open>\<open>setAdvancedExpression\<close> and \<open>onChange\<close>; the effect runs when the value is another one.\<close>

definition propose :: "string \<Rightarrow> schedule_editor \<Rightarrow> schedule_editor" where
  "propose v s =
     (let b = (se_builder s)\<lparr>cb_advanced := v\<rparr> in
      s\<lparr>se_value := v, se_builder := (if v = se_value s then b else sync_value v b)\<rparr>)"

datatype control = Frequency frequency | Minute string | Hour string | DayOfWeek int | DayOfMonth string

fun set_control :: "control \<Rightarrow> builder \<Rightarrow> builder" where
  "set_control (Frequency f) b = b\<lparr>cb_frequency := f\<rparr>"
| "set_control (Minute v) b = b\<lparr>cb_minute := int_or (parseIntAny v) 0\<rparr>"
| "set_control (Hour v) b = b\<lparr>cb_hour := int_or (parseIntAny v) 0\<rparr>"
| "set_control (DayOfWeek d) b = b\<lparr>cb_dayOfWeek := d\<rparr>"
| "set_control (DayOfMonth v) b = b\<lparr>cb_dayOfMonth := int_or (parseIntAny v) 1\<rparr>"

text \<open>
  The handler of a control sets the state and a timer for \<open>updateSimpleCron\<close>, which is the function
  of the render the handler belongs to: it reads the controls as they were.
\<close>

definition turn :: "control \<Rightarrow> schedule_editor \<Rightarrow> schedule_editor" where
  "turn c s =
     s\<lparr>se_builder := set_control c (se_builder s), se_timers := se_timers s @ [se_builder s]\<rparr>"

definition updateSimpleCron :: "builder \<Rightarrow> schedule_editor \<Rightarrow> schedule_editor" where
  "updateSimpleCron seen s = propose (simple_cron seen) s"

definition fire :: "schedule_editor \<Rightarrow> schedule_editor" where
  "fire s = (case se_timers s of [] \<Rightarrow> s | t # ts \<Rightarrow> updateSimpleCron t (s\<lparr>se_timers := ts\<rparr>))"

definition handleAdvancedChange :: "(string \<Rightarrow> bool) \<Rightarrow> string \<Rightarrow> schedule_editor \<Rightarrow> schedule_editor" where
  "handleAdvancedChange valid v s =
     (if valid v
      then propose v (s\<lparr>se_builder := (se_builder s)\<lparr>cb_error := None\<rparr>\<rparr>)
      else s\<lparr>se_builder := (se_builder s)\<lparr>cb_advanced := v, cb_error := Some ''Invalid cron expression''\<rparr>\<rparr>)"

definition set_mode :: "builder_mode \<Rightarrow> schedule_editor \<Rightarrow> schedule_editor" where
  "set_mode m s = s\<lparr>se_builder := (se_builder s)\<lparr>cb_mode := m\<rparr>\<rparr>"

text \<open>The controls a builder shows.\<close>

fun shown :: "control \<Rightarrow> builder \<Rightarrow> bool" where
  "shown (Frequency f) b = (cb_mode b = Simple)"
| "shown (Minute v) b = (cb_mode b = Simple)"
| "shown (Hour v) b = (cb_mode b = Simple \<and> cb_frequency b \<noteq> Hourly)"
| "shown (DayOfWeek d) b = (cb_mode b = Simple \<and> cb_frequency b = Weekly \<and> 0 \<le> d \<and> d \<le> 6)"
| "shown (DayOfMonth v) b = (cb_mode b = Simple \<and> cb_frequency b = Monthly)"

inductive schedule_step :: "(string \<Rightarrow> bool) \<Rightarrow> schedule_editor \<Rightarrow> schedule_editor \<Rightarrow> bool" for valid where
  turns: "shown c (se_builder s) \<Longrightarrow> schedule_step valid s (turn c s)"
| fires: "schedule_step valid s (fire s)"
| types_expression: "cb_mode (se_builder s) = Advanced \<Longrightarrow> schedule_step valid s (handleAdvancedChange valid v s)"
| switches_mode: "schedule_step valid s (set_mode m s)"

section \<open>What a schedule says of the controls\<close>

lemma show_int_chars: "c \<in> set (show_int i) \<Longrightarrow> c = CHR ''-'' \<or> is_digit c"
  using show_nat_digits by (auto simp: show_int_def split: if_splits)

lemma show_int_pieces [simp]: "CHR '' '' \<notin> set (show_int i)" "show_int i \<noteq> ''*''"
proof -
  show "CHR '' '' \<notin> set (show_int i)"
    using show_int_chars [of "CHR '' ''" i] by (auto simp: is_digit_def)
  show "show_int i \<noteq> ''*''"
    using show_int_chars [of "CHR ''*''" i] by (auto simp: is_digit_def)
qed

lemma int_or_parse [simp]: "int_or (parseIntAny (show_int i)) 0 = i"
  by (simp add: parse_show int_or_def)

lemma parse_star [simp]: "int_or (parseIntAny ''*'') 0 = 0"
  by code_simp

definition cron_fields :: "builder \<Rightarrow> string list" where
  "cron_fields b =
     (case cb_frequency b of
        Hourly \<Rightarrow> [show_int (cb_minute b), ''*'', ''*'', ''*'', ''*'']
      | Daily \<Rightarrow> [show_int (cb_minute b), show_int (cb_hour b), ''*'', ''*'', ''*'']
      | Weekly \<Rightarrow> [show_int (cb_minute b), show_int (cb_hour b), ''*'', ''*'', show_int (cb_dayOfWeek b)]
      | Monthly \<Rightarrow> [show_int (cb_minute b), show_int (cb_hour b), show_int (cb_dayOfMonth b), ''*'', ''*''])"

lemma split_simple_cron: "split_on (CHR '' '') (simple_cron b) = cron_fields b"
proof -
  have "simple_cron b = join_with '' '' (cron_fields b)"
    by (simp add: simple_cron_def cron_fields_def split: frequency.split)
  moreover have "cron_fields b \<noteq> []" "\<forall>l \<in> set (cron_fields b). CHR '' '' \<notin> set l"
    by (auto simp: cron_fields_def split: frequency.splits)
  ultimately show ?thesis using split_join by metis
qed

text \<open>
  A schedule the builder writes is read back as the same frequency, minute, hour and weekday when
  it is daily or weekly. An hourly one is read back as daily at midnight's hour, and a monthly
  one leaves the controls as they are, whatever they are.
\<close>

theorem schedule_read_back:
  "sync_value (simple_cron b) c =
     (let c' = c\<lparr>cb_advanced := simple_cron b\<rparr> in
      case cb_frequency b of
        Hourly \<Rightarrow> c'\<lparr>cb_frequency := Daily, cb_minute := cb_minute b, cb_hour := 0\<rparr>
      | Daily \<Rightarrow> c'\<lparr>cb_frequency := Daily, cb_minute := cb_minute b, cb_hour := cb_hour b\<rparr>
      | Weekly \<Rightarrow> c'\<lparr>cb_frequency := Weekly, cb_minute := cb_minute b, cb_hour := cb_hour b,
          cb_dayOfWeek := cb_dayOfWeek b\<rparr>
      | Monthly \<Rightarrow> c')"
  by (simp add: sync_value_def split_simple_cron cron_fields_def Let_def split: frequency.split)

section \<open>The controls and the value\<close>

text \<open>A control and its timer.\<close>

definition settle :: "control \<Rightarrow> schedule_editor \<Rightarrow> schedule_editor" where
  "settle c s = fire (turn c s)"

definition in_sync :: "schedule_editor \<Rightarrow> bool" where
  "in_sync s \<longleftrightarrow> se_timers s = [] \<and> se_value s = simple_cron (se_builder s) \<and> cb_advanced (se_builder s) = se_value s"

lemma set_control_idem [simp]: "set_control c (set_control c b) = set_control c b"
  by (cases c) simp_all

lemma set_control_advanced [simp]: "cb_advanced (set_control c b) = cb_advanced b"
  by (cases c) simp_all

lemma simple_cron_advanced [simp]: "simple_cron (b\<lparr>cb_advanced := v\<rparr>) = simple_cron b"
  by (cases "cb_frequency b") (simp_all add: simple_cron_def)

lemma settle_in_sync:
  "in_sync s \<Longrightarrow> settle c s = s\<lparr>se_builder := set_control c (se_builder s)\<rparr>"
  by (cases s) (simp add: in_sync_def settle_def turn_def fire_def updateSimpleCron_def propose_def)

text \<open>
  A control changes the schedule one change late: when the controls show the schedule of the page,
  choosing another value moves the control and leaves the schedule as it was, and the schedule the
  control shows is stored only when the same choice is made again.
\<close>

theorem schedule_lags:
  assumes "in_sync s"
  shows "se_builder (settle c s) = set_control c (se_builder s) \<and>
    se_value (settle c s) = se_value s \<and>
    se_value (settle c (settle c s)) = simple_cron (set_control c (se_builder s))"
  using assms
  by (auto simp: settle_in_sync)
    (simp add: settle_def turn_def fire_def updateSimpleCron_def propose_def in_sync_def Let_def)

theorem schedule_lags_witness:
  "se_value (settle (Frequency Weekly) (mounted_editor ''30 2 * * *'')) = ''30 2 * * *'' \<and>
   cb_frequency (se_builder (settle (Frequency Weekly) (mounted_editor ''30 2 * * *''))) = Weekly"
proof -
  have "in_sync (mounted_editor ''30 2 * * *'')" by code_simp
  from schedule_lags [OF this, of "Frequency Weekly"]
  show ?thesis by (simp add: mounted_editor_def)
qed

section \<open>The page that edits a job\<close>

record cron_form =
  cf_name :: string
  cf_description :: string
  cf_schedule :: string
  cf_command :: string
  cf_user :: string
  cf_enabled :: bool
  cf_working_dir :: string

text \<open>\<open>saving\<close> is true only inside a handler, which is one step.\<close>

record cron_page =
  cp_form :: cron_form
  cp_isLoading :: bool
  cp_execPreview :: "string list"

definition empty_job :: cron_form where
  "empty_job = \<lparr>cf_name = [], cf_description = [], cf_schedule = ''0 0 * * *'', cf_command = [],
     cf_user = ''root'', cf_enabled = True, cf_working_dir = []\<rparr>"

definition initial_cron_page :: cron_page where
  "initial_cron_page = \<lparr>cp_form = empty_job, cp_isLoading = True, cp_execPreview = []\<rparr>"

text \<open>The members the data type declares as strings are read as such.\<close>

definition hydrate :: "json \<Rightarrow> cron_form" where
  "hydrate job =
     (let field = (\<lambda>k. jget k (Some job)); text_or = (\<lambda>k d. jstring (jnullish (field k) (Some (JStr d)))) in
      \<lparr>cf_name = text_or ''name'' [], cf_description = text_or ''description'' [],
       cf_schedule = jstring (jnullish (field ''schedule'') (field ''cron_expression'')),
       cf_command = jstring (field ''command''), cf_user = text_or ''user'' ''root'',
       cf_enabled = truthy (jnullish (field ''enabled'') (Some (JBool True))),
       cf_working_dir = text_or ''working_dir'' []\<rparr>)"

definition cron_path :: "string \<Rightarrow> string" where
  "cron_path sid = ''/servers/'' @ sid @ ''/cron''"

text \<open>What a handler shows, and where it navigates.\<close>

type_synonym outcome = "toast list \<times> string option"

definition load_job ::
  "server \<Rightarrow> (thrown \<Rightarrow> string) \<Rightarrow> string \<Rightarrow> string option \<Rightarrow> cron_page \<Rightarrow> world \<Rightarrow> (cron_page \<times> outcome) \<times> world" where
  "load_job srv platform sid jobId p w =
     (if \<not> truthy_str jobId then ((p\<lparr>cp_isLoading := False\<rparr>, [], None), w)
      else case cronjobs_get srv (the jobId) w of
        (Inr job, w') \<Rightarrow> ((p\<lparr>cp_form := hydrate job, cp_isLoading := False\<rparr>, [], None), w')
      | (Inl e, w') \<Rightarrow>
          ((p\<lparr>cp_isLoading := False\<rparr>,
            [toast_of ''error'' ''Unable to load cron job'' (thrown_message platform e)], Some (cron_path sid)), w'))"

definition preview_effect :: "(string \<Rightarrow> string list option) \<Rightarrow> cron_page \<Rightarrow> cron_page" where
  "preview_effect upcoming p = p\<lparr>cp_execPreview := nullish (upcoming (cf_schedule (cp_form p))) []\<rparr>"

definition save_missing :: "string \<Rightarrow> cron_form \<Rightarrow> bool" where
  "save_missing sid f \<longleftrightarrow> sid = [] \<or> trim (cf_name f) = [] \<or> trim (cf_command f) = [] \<or> trim (cf_schedule f) = []"

definition update_body :: "cron_form \<Rightarrow> json" where
  "update_body f = JObj
     [(''name'', JStr (trim (cf_name f))), (''description'', JStr (trim (cf_description f))),
      (''schedule'', JStr (trim (cf_schedule f))), (''cron_expression'', JStr (trim (cf_schedule f))),
      (''command'', JStr (trim (cf_command f))), (''working_dir'', JStr (trim (cf_working_dir f))),
      (''user'', JStr (trim (cf_user f))), (''enabled'', JBool (cf_enabled f))]"

definition create_request :: "cron_form \<Rightarrow> cron_request" where
  "create_request f = \<lparr>cq_name = Some (trim (cf_name f)), cq_schedule = trim (cf_schedule f),
     cq_command = trim (cf_command f), cq_user = Some (trim (cf_user f)),
     cq_description = Some (trim (cf_description f)), cq_working_dir = Some (trim (cf_working_dir f))\<rparr>"

definition save_call :: "server \<Rightarrow> string \<Rightarrow> string option \<Rightarrow> cron_form \<Rightarrow> json eff" where
  "save_call srv sid jobId f =
     (if truthy_str jobId then cronjobs_update srv (the jobId) (update_body f)
      else cronjobs_create srv sid (create_request f))"

definition handleSave ::
  "server \<Rightarrow> (thrown \<Rightarrow> string) \<Rightarrow> string \<Rightarrow> string option \<Rightarrow> cron_form \<Rightarrow> world \<Rightarrow> outcome \<times> world" where
  "handleSave srv platform sid jobId f w =
     (if save_missing sid f
      then (([toast_of ''error'' ''Missing required fields'' ''Name, schedule, and command are required.''], None), w)
      else case save_call srv sid jobId f w of
        (Inr _, w') \<Rightarrow>
          (([toast_of ''success'' (if truthy_str jobId then ''Job updated'' else ''Job created'')
               ''Scheduler configuration has been saved to the backend.''], Some (cron_path sid)), w')
      | (Inl e, w') \<Rightarrow> (([toast_of ''error'' ''Failed to save job'' (thrown_message platform e)], None), w'))"

definition handleDelete ::
  "server \<Rightarrow> (thrown \<Rightarrow> string) \<Rightarrow> string \<Rightarrow> string option \<Rightarrow> world \<Rightarrow> outcome \<times> world" where
  "handleDelete srv platform sid jobId w =
     (if \<not> truthy_str jobId then (([], None), w)
      else case cronjobs_delete srv (the jobId) w of
        (Inr _, w') \<Rightarrow>
          (([toast_of ''success'' ''Job deleted'' ''The scheduler job has been removed.''], Some (cron_path sid)), w')
      | (Inl e, w') \<Rightarrow> (([toast_of ''error'' ''Failed to delete job'' (thrown_message platform e)], None), w'))"

text \<open>
  The switch of the form is sent with an update, as the member \<open>enabled\<close> and the status, but not
  with a new job: whatever it says, creating the job makes the same request with the same outcome.
\<close>

theorem switch_of_new_job_unsent:
  "handleSave srv platform sid None (f\<lparr>cf_enabled := b\<rparr>) w = handleSave srv platform sid None f w \<and>
   jget ''status'' (Some (cronjob_patch (Some (update_body f)))) =
     Some (JStr (if cf_enabled f then ''active'' else ''disabled''))"
  by (simp add: handleSave_def save_missing_def save_call_def create_request_def cronjob_patch_def
      update_body_def jset_def truthy_str_def)

section \<open>The page that lists the jobs\<close>

text \<open>\<open>runningJobs\<close> is a set, of which nothing reads the order.\<close>

record cron_list =
  cl_runningJobs :: "string list"
  cl_search :: string
  cl_deleteCandidate :: "string option"
  cl_selectedJobIdForLogs :: "string option"
  cl_selectedJobTitle :: string

definition initial_cron_list :: cron_list where
  "initial_cron_list = \<lparr>cl_runningJobs = [], cl_search = [], cl_deleteCandidate = None,
     cl_selectedJobIdForLogs = None, cl_selectedJobTitle = []\<rparr>"

definition job_matches :: "string \<Rightarrow> json \<Rightarrow> bool" where
  "job_matches keyword job \<longleftrightarrow>
     list_ex (\<lambda>v. truthy v \<and> str_includes (lower (jstring v)) keyword)
       (map (\<lambda>k. jget k (Some job)) [''name'', ''command'', ''schedule'', ''user'', ''description''])"

definition filteredJobs :: "cron_list \<Rightarrow> json list \<Rightarrow> json list" where
  "filteredJobs s jobs =
     (let keyword = lower (trim (cl_search s)) in if keyword = [] then jobs else filter (job_matches keyword) jobs)"

definition handleToggle ::
  "server \<Rightarrow> (thrown \<Rightarrow> string) \<Rightarrow> string \<Rightarrow> bool \<Rightarrow> world \<Rightarrow> toast \<times> world" where
  "handleToggle srv platform i enabled w =
     (case cronjobs_update srv i (JObj [(''enabled'', JBool enabled)]) w of
        (Inr _, w') \<Rightarrow> (toast_of ''success'' ''Job updated''
          (''Scheduler job is now '' @ (if enabled then ''enabled'' else ''disabled'') @ ''.''), w')
      | (Inl e, w') \<Rightarrow> (toast_of ''error'' ''Failed to update job'' (thrown_message platform e), w'))"

definition list_delete :: "server \<Rightarrow> (thrown \<Rightarrow> string) \<Rightarrow> string \<Rightarrow> world \<Rightarrow> toast \<times> world" where
  "list_delete srv platform i w =
     (case cronjobs_delete srv i w of
        (Inr _, w') \<Rightarrow> (toast_of ''success'' ''Job deleted'' ''The scheduled job was removed.'', w')
      | (Inl e, w') \<Rightarrow> (toast_of ''error'' ''Failed to delete job'' (thrown_message platform e), w'))"

text \<open>\<open>handleRunNow\<close> in two steps, up to its request and after the answer.\<close>

definition run_asked :: "string \<Rightarrow> cron_list \<Rightarrow> cron_list" where
  "run_asked i s = s\<lparr>cl_runningJobs := List.insert i (cl_runningJobs s)\<rparr>"

definition run_answered :: "string \<Rightarrow> string + action_result \<Rightarrow> cron_list \<Rightarrow> cron_list \<times> toast" where
  "run_answered i answer s =
     (s\<lparr>cl_runningJobs := remove1 i (cl_runningJobs s)\<rparr>,
      case answer of
        Inr _ \<Rightarrow> toast_of ''success'' ''Job execution queued'' ''The selected cron job has been triggered manually.''
      | Inl msg \<Rightarrow> toast_of ''error'' ''Failed to run job'' msg)"

definition run_disabled :: "cron_list \<Rightarrow> json \<Rightarrow> bool" where
  "run_disabled s job \<longleftrightarrow>
     jstring (jget ''id'' (Some job)) \<in> set (cl_runningJobs s) \<or> \<not> truthy (jget ''enabled'' (Some job))"

definition handleOpenLogs :: "json \<Rightarrow> cron_list \<Rightarrow> cron_list" where
  "handleOpenLogs job s =
     s\<lparr>cl_selectedJobTitle := jstring (jor (jget ''name'' (Some job)) (Some (JStr ''Untitled Job''))),
       cl_selectedJobIdForLogs := Some (jstring (jget ''id'' (Some job)))\<rparr>"

text \<open>A line of the drawer of logs; \<open>now\<close> is the text of the present time.\<close>

definition drawer_log :: "string \<Rightarrow> cron_list \<Rightarrow> json \<Rightarrow> json" where
  "drawer_log now s l =
     (let field = (\<lambda>k. jget k (Some l)); at' = jor (field ''executed_at'') (Some (JStr now));
          printed = jor (field ''output'') (Some (JStr [])) in
      JObj (members
       [(''id'', field ''id''), (''jobId'', Some (JStr (or_ostr (cl_selectedJobIdForLogs s) []))),
        (''startTime'', at'), (''endTime'', at'), (''duration'', jor (field ''duration_ms'') (Some (JNum 0))),
        (''status'', field ''status''),
        (''exitCode'', Some (JNum (if field ''status'' = Some (JStr ''success'') then 0 else 1))),
        (''stdout'', printed),
        (''stderr'', if field ''status'' = Some (JStr ''failed'')
           then jor (field ''output'') (Some (JStr ''Execution failed'')) else Some (JStr []))]))"

text \<open>The page with the requests to run a job that have not been answered.\<close>

type_synonym cron_session = "cron_list \<times> string list"

inductive cron_list_step :: "cron_session \<Rightarrow> cron_session \<Rightarrow> bool" where
  searches: "cron_list_step (s, fl) (s\<lparr>cl_search := v\<rparr>, fl)"
| runs: "\<not> run_disabled s job \<Longrightarrow> i = jstring (jget ''id'' (Some job)) \<Longrightarrow>
    cron_list_step (s, fl) (run_asked i s, fl @ [i])"
| answered: "i \<in> set fl \<Longrightarrow> cron_list_step (s, fl) (fst (run_answered i answer s), remove1 i fl)"
| opens_logs: "cron_list_step (s, fl) (handleOpenLogs job s, fl)"
| closes_logs: "cron_list_step (s, fl) (s\<lparr>cl_selectedJobIdForLogs := None\<rparr>, fl)"
| asks_delete: "cron_list_step (s, fl) (s\<lparr>cl_deleteCandidate := c\<rparr>, fl)"

inductive_cases cron_list_stepE: "cron_list_step s t"

definition runs_inv :: "cron_session \<Rightarrow> bool" where
  "runs_inv st \<longleftrightarrow> distinct (snd st) \<and> distinct (cl_runningJobs (fst st)) \<and>
     set (cl_runningJobs (fst st)) = set (snd st)"

interpretation runs: machine "(initial_cron_list, [])" cron_list_step runs_inv
proof
  show "runs_inv (initial_cron_list, [])"
    by (simp add: runs_inv_def initial_cron_list_def)
  show "runs_inv t" if "cron_list_step s t" "runs_inv s" for s t
    using that
    by (auto simp: runs_inv_def run_asked_def run_answered_def run_disabled_def handleOpenLogs_def
        elim!: cron_list_stepE)
qed

text \<open>
  In every state of the list of jobs no job has two requests to run it under way, and the badge
  shows a job as running exactly while its request is.
\<close>

theorem one_run_per_job:
  assumes "reached cron_list_step (initial_cron_list, []) (s, fl)"
  shows "distinct fl \<and> (i \<in> set (cl_runningJobs s) \<longleftrightarrow> i \<in> set fl)"
  using runs.reached_inv [OF assms] by (simp add: runs_inv_def)

definition nightly_job :: json where
  "nightly_job = JObj [(''id'', JStr ''j1''), (''enabled'', JBool True)]"

theorem one_run_per_job_witness:
  "reached cron_list_step (initial_cron_list, []) (run_asked ''j1'' initial_cron_list, [''j1'']) \<and>
   distinct [''j1''] \<and> ''j1'' \<in> set (cl_runningJobs (run_asked ''j1'' initial_cron_list))"
proof -
  have "\<not> run_disabled initial_cron_list nightly_job" by code_simp
  moreover have "''j1'' = jstring (jget ''id'' (Some nightly_job))" by code_simp
  ultimately have "cron_list_step (initial_cron_list, []) (run_asked ''j1'' initial_cron_list, [] @ [''j1''])"
    by (rule cron_list_step.runs)
  then have r: "reached cron_list_step (initial_cron_list, []) (run_asked ''j1'' initial_cron_list, [''j1''])"
    by (auto intro: reached.intros)
  from one_run_per_job [OF r, of "''j1''"] r show ?thesis by simp
qed

end
