(* ===== verification/Contexts.thy ===== *)
theory Contexts
  imports Auth Machine
begin

text \<open>
  What every page is wrapped in: the notifications of \<open>core/NotificationContext.tsx\<close> with the
  timers of their items, the selected environment of \<open>core/EnvironmentContext.tsx\<close> and the theme of
  \<open>core/ThemeContext.tsx\<close>, both kept in local storage.
\<close>

section \<open>Notifications\<close>

record new_notification =
  nn_type :: string
  nn_message :: string
  nn_description :: "string option"
  nn_duration :: "nat option"

text \<open>
  An item with the time at which its timer fires and, once it leaves, the time at which it is
  hidden. A second call to hide it comes later and finds nothing.
\<close>

record item =
  it_id :: string
  it_note :: new_notification
  it_fires :: nat
  it_hides :: "nat option"

record toaster =
  to_now :: nat
  to_items :: "item list"

definition no_toasts :: toaster where
  "no_toasts = \<lparr>to_now = 0, to_items = []\<rparr>"

definition duration_of :: "new_notification \<Rightarrow> nat" where
  "duration_of n = (case nn_duration n of None \<Rightarrow> 5000 | Some d \<Rightarrow> if d = 0 then 5000 else d)"

definition duplicates :: "new_notification \<Rightarrow> new_notification \<Rightarrow> bool" where
  "duplicates n m \<longleftrightarrow>
     nn_type m = nn_type n \<and> nn_message m = nn_message n \<and> nn_description m = nn_description n"

text \<open>
  A change of the list renders the provider, which passes each item a new \<open>onClose\<close>: the effect of
  every item runs again and starts its timer anew. The state given back unchanged renders nothing.
\<close>

definition rendered :: "toaster \<Rightarrow> toaster" where
  "rendered s = s\<lparr>to_items := map (\<lambda>i. i\<lparr>it_fires := to_now s + duration_of (it_note i)\<rparr>) (to_items s)\<rparr>"

definition showNotification :: "string \<Rightarrow> new_notification \<Rightarrow> toaster \<Rightarrow> toaster" where
  "showNotification i n s =
     (if list_ex (\<lambda>m. duplicates n (it_note m)) (to_items s) then s
      else rendered (s\<lparr>to_items := to_items s @ [\<lparr>it_id = i, it_note = n, it_fires = 0, it_hides = None\<rparr>]\<rparr>))"

definition hideNotification :: "string \<Rightarrow> toaster \<Rightarrow> toaster" where
  "hideNotification i s = rendered (s\<lparr>to_items := filter (\<lambda>n. it_id n \<noteq> i) (to_items s)\<rparr>)"

definition leaves :: "nat \<Rightarrow> item \<Rightarrow> item" where
  "leaves now i = (case it_hides i of None \<Rightarrow> i\<lparr>it_hides := Some (now + 300)\<rparr> | Some _ \<Rightarrow> i)"

definition handleManualClose :: "string \<Rightarrow> toaster \<Rightarrow> toaster" where
  "handleManualClose i s =
     s\<lparr>to_items := map (\<lambda>n. if it_id n = i then leaves (to_now s) n else n) (to_items s)\<rparr>"

text \<open>A millisecond passes: the timers that are due fire, then the items that are due are hidden.\<close>

definition tick :: "toaster \<Rightarrow> toaster" where
  "tick s =
     (let now = Suc (to_now s);
          items = map (\<lambda>i. if it_fires i = now then leaves now i else i) (to_items s);
          due = map it_id (filter (\<lambda>i. it_hides i = Some now) items) in
      fold hideNotification due (s\<lparr>to_now := now, to_items := items\<rparr>))"

inductive toaster_step :: "toaster \<Rightarrow> toaster \<Rightarrow> bool" where
  shows_note: "toaster_step s (showNotification i n s)"
| closes: "toaster_step s (handleManualClose i s)"
| ticks: "toaster_step s (tick s)"

inductive_cases toaster_stepE: "toaster_step s t"

section \<open>No notification twice\<close>

definition notices :: "toaster \<Rightarrow> new_notification list" where
  "notices s = map it_note (to_items s)"

definition no_duplicates :: "toaster \<Rightarrow> bool" where
  "no_duplicates s \<longleftrightarrow> distinct (map (\<lambda>n. (nn_type n, nn_message n, nn_description n)) (notices s))"

lemma notices_rendered [simp]: "notices (rendered s) = notices s"
  by (simp add: notices_def rendered_def comp_def)

lemma now_rendered [simp]: "to_now (rendered s) = to_now s"
  by (simp add: rendered_def)

lemma note_leaves [simp]: "it_note (leaves t i) = it_note i" "it_id (leaves t i) = it_id i"
  by (simp_all add: leaves_def split: option.split)

lemma no_duplicates_hide: "no_duplicates s \<Longrightarrow> no_duplicates (hideNotification i s)"
  unfolding no_duplicates_def hideNotification_def notices_rendered
  by (simp add: notices_def) (metis (no_types, lifting) distinct_map_filter map_map)

lemma no_duplicates_fold: "no_duplicates s \<Longrightarrow> no_duplicates (fold hideNotification is' s)"
  by (induction is' arbitrary: s) (simp_all add: no_duplicates_hide)

lemma notices_map: "(\<And>i. it_note (f i) = it_note i) \<Longrightarrow> notices (s\<lparr>to_items := map f (to_items s)\<rparr>) = notices s"
  by (simp add: notices_def comp_def)

lemma no_duplicates_step: "toaster_step s t \<Longrightarrow> no_duplicates s \<Longrightarrow> no_duplicates t"
proof (induction rule: toaster_step.induct)
  case (shows_note s i n)
  then show ?case
    by (auto simp: no_duplicates_def showNotification_def list_ex_iff duplicates_def notices_def rendered_def
        comp_def)
next
  case (closes s i)
  then show ?case
    by (simp add: handleManualClose_def no_duplicates_def notices_map)
next
  case (ticks s)
  have "no_duplicates (s\<lparr>to_now := Suc (to_now s),
    to_items := map (\<lambda>i. if it_fires i = Suc (to_now s) then leaves (Suc (to_now s)) i else i) (to_items s)\<rparr>)"
    using ticks by (simp add: no_duplicates_def notices_def comp_def if_distrib cong: if_cong)
  then show ?case by (simp add: tick_def Let_def no_duplicates_fold)
qed

interpretation toaster: machine no_toasts toaster_step no_duplicates
proof
  show "no_duplicates no_toasts" by (simp add: no_duplicates_def no_toasts_def notices_def)
qed (rule no_duplicates_step)

text \<open>
  C21. Whatever is shown, closed and waited for, no two notifications on the screen have the same type,
  message and description.
\<close>

theorem no_notification_twice:
  assumes "reached toaster_step no_toasts s"
    and "i < length (to_items s)" "j < length (to_items s)"
    and "duplicates (it_note (to_items s ! i)) (it_note (to_items s ! j))"
  shows "i = j"
proof -
  have "distinct (map (\<lambda>m. (nn_type (it_note m), nn_message (it_note m), nn_description (it_note m))) (to_items s))"
    using toaster.reached_inv [OF assms(1)] by (simp add: no_duplicates_def notices_def comp_def)
  then show ?thesis
    using assms(2-4) by (auto simp: distinct_conv_nth duplicates_def)
qed

definition saved_note :: new_notification where
  "saved_note = \<lparr>nn_type = ''success'', nn_message = ''Saved'', nn_description = None, nn_duration = None\<rparr>"

theorem no_notification_twice_witness:
  "reached toaster_step no_toasts (showNotification ''a'' saved_note no_toasts) \<and>
   duplicates saved_note saved_note \<and> (0 :: nat) = 0"
proof -
  have r: "reached toaster_step no_toasts (showNotification ''a'' saved_note no_toasts)"
    by (auto intro: reached.intros toaster_step.intros)
  have l: "to_items (showNotification ''a'' saved_note no_toasts) \<noteq> []" by code_simp
  have d: "duplicates (it_note (to_items (showNotification ''a'' saved_note no_toasts) ! 0))
    (it_note (to_items (showNotification ''a'' saved_note no_toasts) ! 0))" by (simp add: duplicates_def)
  from no_notification_twice [OF r _ _ d] l d r show ?thesis by (simp add: duplicates_def)
qed

section \<open>How long a notification stays\<close>

text \<open>Nothing is due for \<open>k\<close> milliseconds.\<close>

definition quiet :: "nat \<Rightarrow> toaster \<Rightarrow> bool" where
  "quiet k s \<longleftrightarrow>
     (\<forall>i \<in> set (to_items s). (it_fires i \<le> to_now s \<or> to_now s + k < it_fires i) \<and>
        (case it_hides i of None \<Rightarrow> True | Some h \<Rightarrow> to_now s + k < h))"

lemma tick_quiet: "quiet (Suc k) s \<Longrightarrow> tick s = s\<lparr>to_now := Suc (to_now s)\<rparr>"
proof -
  assume q: "quiet (Suc k) s"
  have "map (\<lambda>i. if it_fires i = Suc (to_now s) then leaves (Suc (to_now s)) i else i) (to_items s) = to_items s"
    using q by (auto simp: quiet_def intro!: map_idI)
  moreover have "filter (\<lambda>i. it_hides i = Some (Suc (to_now s))) (to_items s) = []"
    using q by (auto simp: quiet_def filter_empty_conv split: option.splits)
  ultimately show ?thesis by (simp add: tick_def)
qed

lemma wait_quiet: "quiet k s \<Longrightarrow> (tick ^^ k) s = s\<lparr>to_now := to_now s + k\<rparr>"
proof (induction k arbitrary: s)
  case (Suc k)
  then have "tick s = s\<lparr>to_now := Suc (to_now s)\<rparr>" by (blast intro: tick_quiet)
  moreover have "quiet k (s\<lparr>to_now := Suc (to_now s)\<rparr>)"
    using Suc.prems by (auto simp: quiet_def split: option.splits)
  ultimately have "(tick ^^ k) (tick s) = s\<lparr>to_now := to_now s + Suc k\<rparr>" by (simp add: Suc.IH)
  then show ?case by (simp add: funpow_swap1)
qed simp

definition news :: "nat \<Rightarrow> (string \<times> new_notification) list \<Rightarrow> toaster \<Rightarrow> toaster" where
  "news k ns s = foldl (\<lambda>s (i, n). (tick ^^ k) (showNotification i n s)) s ns"

definition staying :: "nat \<Rightarrow> toaster \<Rightarrow> bool" where
  "staying k s \<longleftrightarrow> (\<forall>i \<in> set (to_items s). it_hides i = None \<and> k < duration_of (it_note i))"

lemma show_new:
  assumes "staying k s" "k < duration_of n" "\<forall>m \<in> set (notices s). \<not> duplicates n m"
  shows "staying k ((tick ^^ k) (showNotification i n s)) \<and>
    notices ((tick ^^ k) (showNotification i n s)) = notices s @ [n]"
proof -
  let ?t = "showNotification i n s"
  have t: "?t = rendered (s\<lparr>to_items := to_items s @ [\<lparr>it_id = i, it_note = n, it_fires = 0, it_hides = None\<rparr>]\<rparr>)"
    using assms(3) by (auto simp: showNotification_def list_ex_iff notices_def)
  have "quiet k ?t" using assms(1,2) by (auto simp: t quiet_def rendered_def staying_def)
  then have "(tick ^^ k) ?t = ?t\<lparr>to_now := to_now ?t + k\<rparr>" by (rule wait_quiet)
  then show ?thesis using assms(1,2) by (auto simp: t staying_def rendered_def notices_def comp_def)
qed

lemma news_stay:
  assumes "staying k s" "\<forall>(i, n) \<in> set ns. k < duration_of n"
    and "\<forall>(i, n) \<in> set ns. \<forall>m \<in> set (notices s). \<not> duplicates n m"
    and "distinct (map (\<lambda>(i, n). (nn_type n, nn_message n, nn_description n)) ns)"
  shows "notices (news k ns s) = notices s @ map snd ns"
  using assms
proof (induction ns arbitrary: s)
  case (Cons p ns)
  obtain i n where p: "p = (i, n)" by fastforce
  let ?t = "(tick ^^ k) (showNotification i n s)"
  have t: "staying k ?t" "notices ?t = notices s @ [n]"
    using show_new [of k s n i] Cons.prems by (auto simp: p)
  have "\<forall>(i, m) \<in> set ns. \<not> duplicates m n"
    using Cons.prems(4) by (force simp: p duplicates_def)
  with t Cons.prems have "notices (news k ns ?t) = notices ?t @ map snd ns"
    by (intro Cons.IH) auto
  with t(2) show ?case by (simp add: news_def p)
qed (simp add: news_def)

text \<open>
  Each new notification starts the timers of all the others again: as long as a different one
  comes before the shortest time is over, none goes away, however long this lasts.
\<close>

theorem news_keep_all:
  assumes "\<forall>(i, n) \<in> set ns. k < duration_of n"
    and "distinct (map (\<lambda>(i, n). (nn_type n, nn_message n, nn_description n)) ns)"
  shows "notices (news k ns no_toasts) = map snd ns \<and> to_now (news k ns no_toasts) = k * length ns"
proof -
  have "to_now ((tick ^^ k) s) = to_now s + k" for k s
  proof (induction k)
    case (Suc k)
    have "to_now (fold hideNotification is' s) = to_now s" for is' s
      by (induction is' arbitrary: s) (simp_all add: hideNotification_def)
    then have "to_now (tick s) = Suc (to_now s)" for s by (simp add: tick_def Let_def)
    with Suc show ?case by simp
  qed simp
  then have "to_now (news k ns s) = to_now s + k * length ns" for s
    by (induction ns arbitrary: s) (auto simp: news_def showNotification_def)
  moreover have "staying k no_toasts" "notices no_toasts = []"
    by (simp_all add: staying_def no_toasts_def notices_def)
  ultimately show ?thesis using news_stay [of k no_toasts ns] assms by (auto simp: no_toasts_def)
qed

theorem news_keep_all_witness:
  "notices (news 4000 [(''a'', saved_note), (''b'', saved_note\<lparr>nn_message := ''Started''\<rparr>)] no_toasts) =
     [saved_note, saved_note\<lparr>nn_message := ''Started''\<rparr>]"
  using news_keep_all [of "[(''a'', saved_note), (''b'', saved_note\<lparr>nn_message := ''Started''\<rparr>)]" 4000]
  by (simp add: saved_note_def duration_of_def)

text \<open>A notification shown alone is gone 300 milliseconds after its time.\<close>

theorem alone_goes: "to_items ((tick ^^ (duration_of n + 300)) (showNotification i n no_toasts)) = []"
proof -
  let ?d = "duration_of n"
  let ?at = "\<lambda>t h. \<lparr>to_now = t, to_items = [\<lparr>it_id = i, it_note = n, it_fires = ?d, it_hides = h\<rparr>]\<rparr>"
  have s: "showNotification i n no_toasts = ?at 0 None"
    by (simp add: showNotification_def no_toasts_def rendered_def)
  have pos: "0 < ?d" by (simp add: duration_of_def split: option.split)
  have "(tick ^^ (?d - 1)) (?at 0 None) = ?at (?d - 1) None"
    using pos by (simp add: wait_quiet quiet_def)
  moreover have "tick (?at (?d - 1) None) = ?at ?d (Some (?d + 300))"
    using pos by (simp add: tick_def leaves_def Let_def)
  ultimately have 1: "(tick ^^ ?d) (?at 0 None) = ?at ?d (Some (?d + 300))"
    using pos by (metis Suc_pred' comp_apply funpow.simps(2))
  have n: "(300 :: nat) = Suc 299" by simp
  have "(tick ^^ 299) (?at ?d (Some (?d + 300))) = ?at (?d + 299) (Some (?d + 300))"
    by (subst wait_quiet) (simp_all add: quiet_def)
  moreover have "to_items (tick (?at (?d + 299) (Some (?d + 300)))) = []"
    by (simp add: tick_def hideNotification_def rendered_def)
  moreover have "(tick ^^ 300) s = tick ((tick ^^ 299) s)" for s
    by (simp only: n funpow.simps comp_apply)
  ultimately have "to_items ((tick ^^ 300) (?at ?d (Some (?d + 300)))) = []" by simp
  with 1 show ?thesis by (simp add: s add.commute [of ?d] funpow_add)
qed

section \<open>The selected environment\<close>

text \<open>Selecting \<open>null\<close> forgets; \<open>mounted_environment\<close> is the effect that reads what was kept.\<close>

definition environment_key :: string where
  "environment_key = ''selectedEnvironment''"

definition setSelectedEnvironment :: "json option \<Rightarrow> world \<Rightarrow> json option \<times> world" where
  "setSelectedEnvironment env w =
     (env, case env of Some e \<Rightarrow> set_item environment_key (json_text e) w | None \<Rightarrow> remove_item environment_key w)"

definition mounted_environment :: "world \<Rightarrow> json option" where
  "mounted_environment w =
     (case get_item environment_key w of
        None \<Rightarrow> None
      | Some saved \<Rightarrow>
          if saved = [] then None
          else case json_parse saved of Some v \<Rightarrow> if v = JNull then None else Some v | None \<Rightarrow> None)"

definition isEnvironmentMode :: "json option \<Rightarrow> bool" where
  "isEnvironmentMode selected \<longleftrightarrow> truthy selected"

text \<open>
  What is selected is selected after a reload of the page, and choosing nothing is kept as well;
  the session in local storage is not touched by either.
\<close>

theorem environment_roundtrip:
  assumes "storage w \<noteq> None" and "env = None \<or> (\<exists>m. env = Some (JObj m) \<and> wf_json (JObj m))"
  shows "mounted_environment (snd (setSelectedEnvironment env w)) = env \<and>
    fst (getStoredSession (snd (setSelectedEnvironment env w))) = fst (getStoredSession w)"
proof
  have ne: "json_text v \<noteq> []" for v using json_text_head [of v] by simp
  show "mounted_environment (snd (setSelectedEnvironment env w)) = env"
    using assms ne by (auto simp: mounted_environment_def setSelectedEnvironment_def parse_stringify
        simp del: json_text.simps wf_json.simps)
  have "session_key \<noteq> environment_key" by (simp add: session_key_def environment_key_def)
  then have "get_item session_key (snd (setSelectedEnvironment env w)) = get_item session_key w"
    using assms(1) by (auto simp: setSelectedEnvironment_def split: option.split)
  moreover have "storage (snd (setSelectedEnvironment env w)) \<noteq> None"
    using assms(1) by (cases env) (simp_all add: setSelectedEnvironment_def del: not_None_eq)
  ultimately show "fst (getStoredSession (snd (setSelectedEnvironment env w))) = fst (getStoredSession w)"
    using assms(1) by (simp add: getStoredSession_load load_value_def)
qed

definition staging :: json where
  "staging = JObj [(''id'', JStr ''e1''), (''type'', JStr ''docker'')]"

theorem environment_roundtrip_witness:
  "\<exists>w. storage w = Some (\<lambda>_. None) \<and>
     mounted_environment (snd (setSelectedEnvironment (Some staging) w)) = Some staging"
proof -
  have "wf_json staging" by code_simp
  then show ?thesis
    using environment_roundtrip [of "\<lparr>storage = Some (\<lambda>_. None), sent = []\<rparr>" "Some staging"]
    by (auto simp: staging_def intro!: exI [of _ "\<lparr>storage = Some (\<lambda>_. None), sent = []\<rparr>"])
qed

section \<open>The theme\<close>

text \<open>\<open>prefers_dark\<close> is the answer of the media query.\<close>

definition initial_theme :: "bool \<Rightarrow> world \<Rightarrow> string" where
  "initial_theme prefers_dark w =
     (if storage w = None then ''dark''
      else if truthy_str (get_item ''theme'' w) then the (get_item ''theme'' w)
      else if prefers_dark then ''dark'' else ''light'')"

text \<open>The effect after a change; of the document only its class is modelled.\<close>

definition theme_effect :: "string \<Rightarrow> string list \<times> world \<Rightarrow> string list \<times> world" where
  "theme_effect theme d =
     (filter (\<lambda>c. c \<notin> set [''light'', ''dark'', ''highcontrast'']) (fst d) @ [theme], set_item ''theme'' theme (snd d))"

definition toggleTheme :: "string \<Rightarrow> string" where
  "toggleTheme prev = (if prev = ''light'' then ''dark'' else ''light'')"

end
