(* ===== verification/AppSession.thy ===== *)
theory AppSession
  imports Contexts ServerApi
begin

text \<open>
  The life of a session on the screen: \<open>App.tsx\<close>, which starts with the stored session and shows
  the pages or the login, and \<open>features/authentication/pages/LoginPage.tsx\<close>. While a handler
  of the login page waits the form is not on the screen, so each handler is one step.
  \<open>platform e\<close> is the text of an error the platform throws.
\<close>

section \<open>The login page\<close>

datatype login_mode = LoginMode | TotpMode | ForgotMode | ResetMode | MfaResetMode

record login_page =
  lp_mode :: login_mode
  lp_identifier :: string
  lp_password :: string
  lp_showPassword :: bool
  lp_organizationID :: string
  lp_totpCode :: string
  lp_mfaToken :: string
  lp_email :: string
  lp_resetToken :: string
  lp_resetPasswordValue :: string
  lp_message :: string
  lp_error :: string
  lp_loginBanner :: "json option"
  lp_bannerRun :: nat

definition initial_login :: login_page where
  "initial_login =
     \<lparr>lp_mode = LoginMode, lp_identifier = ''admin'', lp_password = ''Admin123!'', lp_showPassword = False,
      lp_organizationID = ''default'', lp_totpCode = [], lp_mfaToken = [], lp_email = ''admin@einfra.local'',
      lp_resetToken = [], lp_resetPasswordValue = [], lp_message = [], lp_error = [],
      lp_loginBanner = None, lp_bannerRun = 0\<rparr>"

text \<open>
  The effect of the organization: each change makes the run before inactive, and the answer of a
  run is used only while it is the present one. The request goes past the clients.
\<close>

definition banner_request :: "login_page \<Rightarrow> string" where
  "banner_request p =
     ''/api/v1/public/login-config?organization='' @
     encodeURIComponent (or_str (lp_organizationID p) ''default'')"

definition organization_typed :: "string \<Rightarrow> login_page \<Rightarrow> login_page" where
  "organization_typed v p =
     (if v = lp_organizationID p then p
      else p\<lparr>lp_organizationID := v, lp_bannerRun := Suc (lp_bannerRun p)\<rparr>)"

definition default_banner :: json where
  "default_banner = JObj
     [(''enabled'', JBool False), (''title'', JStr ''Workspace notice''), (''message'', JStr []),
      (''severity'', JStr ''info''), (''help_text'', JStr []),
      (''button_label'', JStr ''Review workspace notice'')]"

definition getPublicLoginConfiguration :: "response option \<Rightarrow> json option" where
  "getPublicLoginConfiguration r =
     (case r of
        None \<Rightarrow> None
      | Some res \<Rightarrow>
          if \<not> res_ok res then None
          else (case json_or_null res of JNull \<Rightarrow> Some default_banner | v \<Rightarrow> Some v))"

definition banner_answered :: "nat \<Rightarrow> response option \<Rightarrow> login_page \<Rightarrow> login_page" where
  "banner_answered run r p =
     (if run = lp_bannerRun p then p\<lparr>lp_loginBanner := getPublicLoginConfiguration r\<rparr> else p)"

fun page_title :: "login_mode \<Rightarrow> string" where
  "page_title LoginMode = ''Sign in to EINFRA''"
| "page_title TotpMode = ''Verify your authenticator''"
| "page_title ForgotMode = ''Reset your password''"
| "page_title ResetMode = ''Apply new password''"
| "page_title MfaResetMode = ''Reset authenticator''"

section \<open>Its handlers\<close>

text \<open>The page, the session given to \<open>onLogin\<close> if any, and the world.\<close>

type_synonym login_outcome = "(login_page \<times> json option) \<times> world"

definition handleLoginSubmit :: "server \<Rightarrow> (thrown \<Rightarrow> string) \<Rightarrow> login_page \<Rightarrow> world \<Rightarrow> login_outcome" where
  "handleLoginSubmit srv platform p w =
     (let p1 = p\<lparr>lp_error := [], lp_message := []\<rparr> in
      case login srv (lp_identifier p) (lp_password p) (lp_organizationID p) w of
        (Inl e, w') \<Rightarrow> ((p1\<lparr>lp_error := thrown_message platform e\<rparr>, None), w')
      | (Inr r, w') \<Rightarrow>
          if lr_requiresMFA r \<and> truthy (lr_mfaToken r)
          then ((p1\<lparr>lp_mfaToken := jstring (lr_mfaToken r), lp_mode := TotpMode,
            lp_message := ''Enter the 6-digit code from Microsoft Authenticator or Google Authenticator.''\<rparr>, None), w')
          else ((p1, lr_session r), w'))"

definition handleTOTPSubmit :: "server \<Rightarrow> (thrown \<Rightarrow> string) \<Rightarrow> login_page \<Rightarrow> world \<Rightarrow> login_outcome" where
  "handleTOTPSubmit srv platform p w =
     (let p1 = p\<lparr>lp_error := []\<rparr> in
      case loginWithTOTP srv (lp_mfaToken p) (lp_totpCode p) w of
        (Inl e, w') \<Rightarrow> ((p1\<lparr>lp_error := thrown_message platform e\<rparr>, None), w')
      | (Inr s, w') \<Rightarrow> ((p1, Some s), w'))"

text \<open>\<open>res.message\<close>, which throws on \<open>null\<close>; a missing message is shown as nothing.\<close>

definition message_of :: "json \<Rightarrow> thrown + json option" where
  "message_of res = jprop ''message'' (Some res)"

definition shown_message :: "json option \<Rightarrow> string" where
  "shown_message m = (case m of None \<Rightarrow> [] | Some JNull \<Rightarrow> [] | Some v \<Rightarrow> jstring (Some v))"

definition after_message ::
  "(thrown \<Rightarrow> string) \<Rightarrow> json eff \<Rightarrow> (json option \<Rightarrow> login_page \<Rightarrow> login_page) \<Rightarrow> login_page \<Rightarrow> world \<Rightarrow> login_page \<times> world" where
  "after_message platform call done' p w =
     (let p1 = p\<lparr>lp_error := []\<rparr> in
      case eff_bind call (\<lambda>res. eff_of (message_of res)) w of
        (Inl e, w') \<Rightarrow> (p1\<lparr>lp_error := thrown_message platform e\<rparr>, w')
      | (Inr m, w') \<Rightarrow> (done' m p1, w'))"

definition handleForgotPassword :: "server \<Rightarrow> (thrown \<Rightarrow> string) \<Rightarrow> login_page \<Rightarrow> world \<Rightarrow> login_page \<times> world" where
  "handleForgotPassword srv platform p =
     after_message platform (requestPasswordReset srv (lp_email p))
       (\<lambda>m p. p\<lparr>lp_message := shown_message m, lp_mode := ResetMode\<rparr>) p"

definition handlePasswordReset :: "server \<Rightarrow> (thrown \<Rightarrow> string) \<Rightarrow> login_page \<Rightarrow> world \<Rightarrow> login_page \<times> world" where
  "handlePasswordReset srv platform p =
     after_message platform (resetPassword srv (lp_resetToken p) (lp_resetPasswordValue p))
       (\<lambda>m p. p\<lparr>lp_message := shown_message m, lp_mode := LoginMode, lp_password := [], lp_resetPasswordValue := []\<rparr>) p"

definition handleMFAReset :: "server \<Rightarrow> (thrown \<Rightarrow> string) \<Rightarrow> login_page \<Rightarrow> world \<Rightarrow> login_page \<times> world" where
  "handleMFAReset srv platform p =
     (if lp_resetToken p = []
      then after_message platform (requestMFAReset srv (lp_email p))
        (\<lambda>m p. p\<lparr>lp_message := jstring m @ '' Paste the emailed token below to complete the reset.''\<rparr>) p
      else after_message platform (confirmMFAReset srv (lp_resetToken p))
        (\<lambda>m p. p\<lparr>lp_message := shown_message m, lp_resetToken := []\<rparr>) p)"

definition switch_mode :: "login_mode \<Rightarrow> login_page \<Rightarrow> login_page" where
  "switch_mode m p = p\<lparr>lp_mode := m\<rparr>"

section \<open>The application\<close>

record app =
  ap_isAppLoading :: bool
  ap_isAuthTransitioning :: bool
  ap_session :: "json option"

definition initial_app :: app where
  "initial_app = \<lparr>ap_isAppLoading = True, ap_isAuthTransitioning = False, ap_session = None\<rparr>"

text \<open>The effect that runs once; a stored \<open>null\<close>, like a member read from one, throws nothing here.\<close>

definition bootstrap :: "server \<Rightarrow> app \<Rightarrow> world \<Rightarrow> app \<times> world" where
  "bootstrap srv a w =
     (let (current, w1) = getStoredSession w; ready = a\<lparr>ap_isAppLoading := False\<rparr> in
      if \<not> truthy (Some current) then (ready, w1)
      else case fetchMe srv (jget ''accessToken'' (Some current)) w1 of
        (Inl e, w2) \<Rightarrow> (ready, clearSession w2)
      | (Inr me, w2) \<Rightarrow>
          if me = JNull then (ready, clearSession w2)
          else if truthy (jget ''user'' (Some me)) \<and> truthy (jget ''principal'' (Some me))
          then (let next = refreshed_profile current me in (ready\<lparr>ap_session := Some next\<rparr>, saveSession next w2))
          else (ready, w2))"

text \<open>\<open>handleLogin\<close> in two steps, before and after the pause of 1.2 seconds.\<close>

definition handleLogin :: "json \<Rightarrow> app \<Rightarrow> app" where
  "handleLogin next a = a\<lparr>ap_isAuthTransitioning := True, ap_session := Some next\<rparr>"

fun first_of :: "json option \<Rightarrow> json option" where
  "first_of (Some (JArr (v # vs))) = Some v"
| "first_of _ = None"

definition login_shown :: "json \<Rightarrow> app \<Rightarrow> app \<times> toast" where
  "login_shown next a =
     (a\<lparr>ap_isAuthTransitioning := False\<rparr>,
      toast_of ''success'' ''Welcome back''
        (''You are connected to '' @
         jstring (jnullish (jget ''name'' (first_of (jget ''organizations'' (Some next)))) (Some (JStr ''your''))) @
         '' workspace.''))"

definition handleLogout :: "app \<Rightarrow> world \<Rightarrow> app \<times> world" where
  "handleLogout a w = (a\<lparr>ap_session := None\<rparr>, clearSession w)"

datatype app_view = LoadingView | LoginView | PagesView

definition app_view :: "string \<Rightarrow> app \<Rightarrow> app_view" where
  "app_view path a =
     (let isPublicRoute = (path = ''/diagram'') in
      if (ap_isAppLoading a \<or> ap_isAuthTransitioning a) \<and> \<not> isPublicRoute then LoadingView
      else if \<not> truthy (ap_session a) \<and> \<not> isPublicRoute then LoginView
      else PagesView)"

definition routeTitles :: "(string \<times> string) list" where
  "routeTitles =
     [(''/'', ''Dashboard Overview''), (''/dashboard'', ''Dashboard Overview''), (''/environments'', ''Environments''),
      (''/users'', ''User Management''), (''/roles'', ''Role Assignments''), (''/networks'', ''Network Infrastructure''),
      (''/registries'', ''Container Registries''), (''/events'', ''Activity Audit Logs''),
      (''/profile'', ''My Profile Settings''), (''/settings/general'', ''Global Preferences''),
      (''/settings/authentication'', ''Security & MFA''), (''/settings/edge-compute'', ''Node Management''),
      (''/settings/feature-flags'', ''Core Feature Flags''), (''/settings/license'', ''License Management''),
      (''/settings/notification-routing'', ''Notification Routing''), (''/servers'', ''Server Inventory''),
      (''/kubernetes'', ''Cluster Explorer''), (''/repositories'', ''Global Repositories''),
      (''/monitoring'', ''System Health Overview''), (''/containers'', ''Container Inventory''),
      (''/images'', ''Image Library''), (''/stacks'', ''Stack Deployments''), (''/volumes'', ''Storage Volumes''),
      (''/disk-usage'', ''Docker Disk Usage''), (''/notifications'', ''Recent Alerts''),
      (''/tags'', ''Label Management''), (''/applications'', ''Application Catalog'')]"

definition getPageTitle :: "string \<Rightarrow> string" where
  "getPageTitle path =
     (if starts_with ''/settings/'' path then or_ostr (map_of routeTitles path) ''Site Settings''
      else or_ostr (map_of routeTitles path) ''Dashboard Overview'')"

section \<open>Starting\<close>

lemma truthy_refreshed [simp]: "truthy (Some (refreshed_profile s me))"
  by (simp add: refreshed_profile_def)

lemma fetchMe_sent:
  "\<exists>rq. sent (snd (fetchMe srv tok w)) = sent w @ [rq] \<and> rq_url rq = auth_base @ ''/me''"
proof -
  obtain s w1 where g: "getStoredSession w = (s, w1)" by fastforce
  have "sent w1 = sent w" using sent_getStoredSession [of w] by (simp add: g)
  then show ?thesis by (simp add: fetchMe_def g auth_get_def bind_fetch_checked auth_request_def)
qed

lemma saved_profile_read:
  assumes "storage w \<noteq> None" "fetchMe srv tok (snd (getStoredSession w)) = (Inr me, w2)"
  defines "s \<equiv> refreshed_profile (fst (getStoredSession w)) me"
  shows "fst (getStoredSession (saveSession s w2)) = s"
proof -
  have "storage w2 \<noteq> None"
    using fetchMe_world(1) [of srv tok "snd (getStoredSession w)"] assms(1,2)
    by (metis snd_conv storage_None(3))
  moreover have "wf_json s"
    using fetchMe_world(2) [of srv tok "snd (getStoredSession w)" me] assms(2) wf_stored
    by (auto simp: s_def intro: wf_refreshed_profile)
  ultimately show ?thesis by (simp add: saved_session_read)
qed

text \<open>
  C22. In a browser with local storage, on every path but the public \<open>/diagram\<close>, the page on the screen after the start is the login exactly
  when no session is held, and a session that is held is the one in storage.
\<close>

theorem start_agrees_with_storage:
  assumes "storage w \<noteq> None" and "bootstrap srv initial_app w = (a, w')" and "path \<noteq> ''/diagram''"
  shows "(app_view path a = LoginView \<longleftrightarrow> ap_session a = None) \<and>
    (\<forall>s. ap_session a = Some s \<longrightarrow> app_view path a = PagesView \<and> fst (getStoredSession w') = s)"
proof -
  obtain c w1 where g: "getStoredSession w = (c, w1)" by fastforce
  obtain r w2 where f: "fetchMe srv (jget ''accessToken'' (Some c)) w1 = (r, w2)" by fastforce
  have view: "app_view path (initial_app\<lparr>ap_isAppLoading := False, ap_session := x\<rparr>) =
      (if truthy x then PagesView else LoginView)" for x
    using assms(3) by (simp add: app_view_def initial_app_def)
  have saved: "fst (getStoredSession (saveSession (refreshed_profile c me) w2)) = refreshed_profile c me"
    if "r = Inr me" for me
    using saved_profile_read [OF assms(1), of srv "jget ''accessToken'' (Some c)" me w2] f that by (simp add: g)
  show ?thesis
  proof (cases "truthy (Some c) \<and> (\<exists>me. r = Inr me \<and> me \<noteq> JNull \<and> truthy (jget ''user'' (Some me)) \<and>
      truthy (jget ''principal'' (Some me)))")
    case True
    then obtain me where me: "r = Inr me" "me \<noteq> JNull" "truthy (jget ''user'' (Some me))"
      "truthy (jget ''principal'' (Some me))" by blast
    then have "a = initial_app\<lparr>ap_isAppLoading := False, ap_session := Some (refreshed_profile c me)\<rparr> \<and>
        w' = saveSession (refreshed_profile c me) w2"
      using assms(2) True f by (auto simp: bootstrap_def g Let_def)
    then show ?thesis using view [of "Some (refreshed_profile c me)"] saved [OF me(1)] by simp
  next
    case False
    then have "a = initial_app\<lparr>ap_isAppLoading := False\<rparr>"
      using assms(2) f by (auto simp: bootstrap_def g Let_def split: sum.splits if_splits)
    then have "a = initial_app\<lparr>ap_isAppLoading := False, ap_session := None\<rparr>"
      by (simp add: initial_app_def)
    then show ?thesis using view [of None] by simp
  qed
qed

text \<open>
  When the profile cannot be read, whatever the reason, the stored session is thrown away with its
  refresh token, which is not tried: the only request is the one for the profile.
\<close>

theorem unread_profile_signs_out:
  assumes "truthy (Some (fst (getStoredSession w)))"
    and "fst (fetchMe srv (jget ''accessToken'' (Some (fst (getStoredSession w)))) (snd (getStoredSession w))) = Inl e"
  shows "\<exists>rq. sent (snd (bootstrap srv initial_app w)) = sent w @ [rq] \<and> rq_url rq = auth_base @ ''/me'' \<and>
    fst (getStoredSession (snd (bootstrap srv initial_app w))) = JNull \<and>
    app_view ''/'' (fst (bootstrap srv initial_app w)) = LoginView"
proof -
  obtain c w1 where g: "getStoredSession w = (c, w1)" by fastforce
  obtain w2 where f: "fetchMe srv (jget ''accessToken'' (Some c)) w1 = (Inl e, w2)"
    using assms(2) by (metis fst_conv g prod.collapse snd_conv)
  have b: "bootstrap srv initial_app w = (initial_app\<lparr>ap_isAppLoading := False\<rparr>, clearSession w2)"
    using assms(1) f by (simp add: bootstrap_def g)
  have v: "app_view ''/'' (initial_app\<lparr>ap_isAppLoading := False\<rparr>) = LoginView"
    by (simp add: app_view_def initial_app_def)
  obtain rq where "sent w2 = sent w1 @ [rq]" "rq_url rq = auth_base @ ''/me''"
    using fetchMe_sent [of srv "jget ''accessToken'' (Some c)" w1] by (auto simp: f)
  moreover have "sent w1 = sent w" using sent_getStoredSession [of w] by (simp add: g)
  ultimately show ?thesis by (simp add: b v cleared_session_read)
qed

lemma post_session:
  assumes "auth_post srv path b w = (Inr raw, w2)" "toSession raw w2 = (Inr s, w')" "storage w \<noteq> None"
  shows "fst (getStoredSession w') = s \<and> truthy (Some s)"
proof -
  have "storage w2 \<noteq> None" using auth_post_world(2) [of srv path b w] assms by simp
  moreover have "wf_json (session_of raw)" using assms(1) auth_post_wf wf_session_of by blast
  ultimately show ?thesis
    using assms(2) by (auto simp: toSession_def saved_session_read split: if_splits)
qed

text \<open>
  A session the login page hands over is the one in storage, and once the pause is over the
  application shows its pages with that session.
\<close>

theorem login_reaches_pages:
  assumes "storage w \<noteq> None" and "ap_isAppLoading a = False"
    and "handleLoginSubmit srv platform p w = ((p', Some s), w') \<or>
      handleTOTPSubmit srv platform p w = ((p', Some s), w')"
  shows "fst (getStoredSession w') = s \<and> ap_session (fst (login_shown s (handleLogin s a))) = Some s \<and>
    app_view path (fst (login_shown s (handleLogin s a))) = PagesView"
proof -
  have "fst (getStoredSession w') = s \<and> truthy (Some s)"
    using assms(3)
  proof
    assume "handleLoginSubmit srv platform p w = ((p', Some s), w')"
    then obtain r where r: "login srv (lp_identifier p) (lp_password p) (lp_organizationID p) w = (Inr r, w')"
      "lr_session r = Some s"
      by (auto simp: handleLoginSubmit_def Let_def split: prod.splits sum.splits if_splits)
    then show ?thesis
      using assms(1) by (auto simp: login_def eff_simps split: prod.splits sum.splits if_splits dest!: post_session)
  next
    assume "handleTOTPSubmit srv platform p w = ((p', Some s), w')"
    then show ?thesis
      using assms(1) by (auto simp: handleTOTPSubmit_def loginWithTOTP_def eff_simps Let_def
          split: prod.splits sum.splits dest!: post_session)
  qed
  then show ?thesis using assms(2) by (simp add: login_shown_def handleLogin_def app_view_def Let_def)
qed

lemma after_message_sent: "sent (snd (after_message platform call d p w)) = sent (snd (call w))"
  by (cases "call w")
    (auto simp: after_message_def eff_bind_def eff_of_def Let_def split: sum.splits)

text \<open>
  Resetting the password leaves the token in the form: a reset of the authenticator after it
  sends the used token for confirmation instead of asking for a new one by mail.
\<close>

theorem used_token_confirmed:
  assumes "lp_mode p = ResetMode" "lp_resetToken p \<noteq> []"
    and "handlePasswordReset srv platform p w = (p', w')" "lp_mode p' = LoginMode"
  shows "\<exists>rq. sent (snd (handleMFAReset srv platform (switch_mode MfaResetMode p') w')) = sent w' @ [rq] \<and>
    rq_url rq = auth_base @ ''/mfa/reset/confirm'' \<and>
    rq_body rq = TextBody (json_text (JObj [(''token'', JStr (lp_resetToken p))]))"
proof -
  have p': "lp_resetToken p' = lp_resetToken p"
    using assms(1,3,4)
    by (auto simp: handlePasswordReset_def after_message_def Let_def split: prod.splits sum.splits)
  let ?rq = "auth_request ''POST'' ''/mfa/reset/confirm''
    [(''Content-Type'', ''application/json''), (''Accept'', ''application/json'')]
    (TextBody (json_text (JObj [(''token'', JStr (lp_resetToken p))])))"
  have "sent (snd (confirmMFAReset srv (lp_resetToken p) w')) = sent w' @ [?rq]"
    by (simp add: confirmMFAReset_def auth_post_def bind_fetch_checked)
  then have "sent (snd (handleMFAReset srv platform (switch_mode MfaResetMode p') w')) = sent w' @ [?rq]"
    using assms(2) by (simp add: handleMFAReset_def switch_mode_def p' after_message_sent)
  then show ?thesis by (auto simp: auth_request_def)
qed

section \<open>Concrete runs\<close>

definition answering :: "json \<Rightarrow> server" where
  "answering v = (\<lambda>_ _. Some \<lparr>rs_status = 200, rs_body = json_text v\<rparr>)"

definition sample_profile :: json where
  "sample_profile = JObj [(''user'', JObj [(''id'', JStr ''u'')]), (''principal'', JObj [(''id'', JStr ''u'')])]"

definition sample_answer :: json where
  "sample_answer = JObj
     [(''access_token'', JStr ''a2''), (''refresh_token'', JStr ''r2''), (''expires_at'', JStr ''t''),
      (''user'', JObj [(''id'', JStr ''u'')]), (''principal'', JObj [(''id'', JStr ''u'')])]"

definition signed_in :: world where
  "signed_in = saveSession sample_session sample_world"

lemma fetch_answering:
  "wf_json v \<Longrightarrow> eff_bind (fetch (answering v) rq) Auth.checked w = (Inr v, w\<lparr>sent := sent w @ [rq]\<rparr>)"
  by (simp add: eff_bind_def fetch_def answering_def Auth.checked_def json_or_null_def parse_stringify res_ok_def
      eff_ret_def Let_def)

lemma post_answering:
  "wf_json v \<Longrightarrow> auth_post (answering v) path b w = (Inr v, w\<lparr>sent := sent w @ [auth_request ''POST'' path
     [(''Content-Type'', ''application/json''), (''Accept'', ''application/json'')] (TextBody (json_text b))]\<rparr>)"
  by (simp add: auth_post_def fetch_answering)

lemma signed_in_read: "getStoredSession signed_in = (sample_session, signed_in)"
  by (simp add: signed_in_def sample_session_read)

lemma sample_facts: "wf_json sample_profile" "wf_json sample_answer" "sample_profile \<noteq> JNull"
  "truthy (jget ''user'' (Some sample_profile))" "truthy (jget ''principal'' (Some sample_profile))"
  "truthy (Some sample_session)"
  by (simp_all add: sample_profile_def sample_answer_def sample_session_def)

theorem start_agrees_with_storage_witness:
  "app_view ''/servers'' (fst (bootstrap (answering sample_profile) initial_app signed_in)) = PagesView"
proof -
  obtain a w' where b: "bootstrap (answering sample_profile) initial_app signed_in = (a, w')" by fastforce
  obtain w2 where "fetchMe (answering sample_profile) (jget ''accessToken'' (Some sample_session)) signed_in =
      (Inr sample_profile, w2)"
    by (simp add: fetchMe_def signed_in_read auth_get_def fetch_answering sample_facts)
  then have "ap_session a \<noteq> None"
    using b by (auto simp: bootstrap_def signed_in_read sample_facts Let_def)
  moreover have h: "storage signed_in \<noteq> None" "''/servers'' \<noteq> ''/diagram''"
    by (simp_all add: signed_in_def sample_world_def)
  ultimately show ?thesis using start_agrees_with_storage [OF h(1) b h(2)] b by auto
qed

theorem unread_profile_signs_out_witness:
  "truthy (Some (fst (getStoredSession signed_in))) \<and>
   fst (getStoredSession (snd (bootstrap (\<lambda>_ _. None) initial_app signed_in))) = JNull"
proof -
  have h: "truthy (Some (fst (getStoredSession signed_in)))"
    by (simp add: signed_in_read sample_session_def)
  have "fst (fetchMe (\<lambda>_ _. None) (jget ''accessToken'' (Some (fst (getStoredSession signed_in))))
      (snd (getStoredSession signed_in))) = Inl NetworkError"
    by (simp add: signed_in_read fetchMe_def auth_get_def eff_bind_def fetch_def)
  from unread_profile_signs_out [OF h this] h show ?thesis by blast
qed

theorem login_reaches_pages_witness:
  "\<exists>p' w'. handleLoginSubmit (answering sample_answer) (\<lambda>_. []) initial_login sample_world =
       ((p', Some (session_of sample_answer)), w') \<and>
     fst (getStoredSession w') = session_of sample_answer"
proof -
  have c: "complete sample_answer" "\<not> truthy (jget ''requires_mfa'' (Some sample_answer))" "sample_answer \<noteq> JNull"
    by (simp_all add: complete_def sample_answer_def)
  obtain p' w' where l: "handleLoginSubmit (answering sample_answer) (\<lambda>_. []) initial_login sample_world =
       ((p', Some (session_of sample_answer)), w')"
    using c by (auto simp: handleLoginSubmit_def login_def post_answering sample_facts eff_bind_def toSession_def
        eff_simps Let_def)
  have h: "storage sample_world \<noteq> None" "ap_isAppLoading (initial_app\<lparr>ap_isAppLoading := False\<rparr>) = False"
    by (simp_all add: sample_world_def)
  from login_reaches_pages [OF h disjI1 [OF l]] l show ?thesis by blast
qed

theorem used_token_confirmed_witness:
  "\<exists>p' w'. handlePasswordReset (answering sample_profile) (\<lambda>_. [])
       (initial_login\<lparr>lp_mode := ResetMode, lp_resetToken := ''t1''\<rparr>) sample_world = (p', w') \<and>
     (\<exists>rq. sent (snd (handleMFAReset (answering sample_profile) (\<lambda>_. []) (switch_mode MfaResetMode p') w')) =
       sent w' @ [rq] \<and> rq_url rq = auth_base @ ''/mfa/reset/confirm'')"
proof -
  let ?p = "initial_login\<lparr>lp_mode := ResetMode, lp_resetToken := ''t1''\<rparr>"
  obtain p' w' where r: "handlePasswordReset (answering sample_profile) (\<lambda>_. []) ?p sample_world = (p', w')"
    by fastforce
  have "lp_mode p' = LoginMode"
    using r by (auto simp: handlePasswordReset_def after_message_def resetPassword_def post_answering eff_bind_def
        eff_of_def message_of_def jprop_def sample_facts Let_def)
  then show ?thesis
    using used_token_confirmed [of ?p "answering sample_profile" "\<lambda>_. []" sample_world p' w'] r by auto
qed

end
