(* ===== verification/AdminApi.thy ===== *)
theory AdminApi
  imports ApiHooks
begin

text \<open>
  The client objects of the administration pages: \<open>features/users_teams/api.ts\<close>,
  \<open>features/catalog/api.ts\<close>, \<open>features/notifications/api.ts\<close>, \<open>features/settings/api.ts\<close>,
  \<open>features/dashboard/api.ts\<close>, \<open>features/monitoring/api/auditLogs.ts\<close> and
  \<open>features/repositories/api/useRepositories.ts\<close>. A call returns what its promise resolves to.
\<close>

section \<open>The shape of the calls\<close>

definition fetch_json :: "server \<Rightarrow> env \<Rightarrow> string \<Rightarrow> string \<Rightarrow> json \<Rightarrow> json eff" where
  "fetch_json srv e meth endpoint b =
     apiFetch srv e endpoint \<lparr>opt_method = meth, opt_headers = [], opt_body = TextBody (json_text b)\<rparr>"

definition fetch_bare :: "server \<Rightarrow> env \<Rightarrow> string \<Rightarrow> string \<Rightarrow> json eff" where
  "fetch_bare srv e meth endpoint =
     apiFetch srv e endpoint \<lparr>opt_method = meth, opt_headers = [], opt_body = NoBody\<rparr>"

text \<open>\<open>response.items ?? []\<close>.\<close>

definition items_or_empty :: "json \<Rightarrow> thrown + json" where
  "items_or_empty v =
     (case jprop ''items'' (Some v) of
        Inl e \<Rightarrow> Inl e
      | Inr items \<Rightarrow> Inr (the (jnullish items (Some (JArr [])))))"

definition fetch_items :: "server \<Rightarrow> env \<Rightarrow> string \<Rightarrow> json eff" where
  "fetch_items srv e endpoint =
     eff_bind (apiFetch srv e endpoint get_options) (\<lambda>v. eff_of (items_or_empty v))"

section \<open>features/users\_teams/api.ts\<close>

definition query_params :: "(string \<times> json option) list \<Rightarrow> params" where
  "query_params ps =
     foldl (\<lambda>acc (k, v). params_set k v acc) []
       (map (\<lambda>(k, v). (k, jstring v)) (filter (\<lambda>(k, v). v \<noteq> None \<and> v \<noteq> Some (JStr [])) ps))"

definition buildQuery :: "(string \<times> json option) list \<Rightarrow> string" where
  "buildQuery ps = query_suffix (query_params ps)"

record listing =
  ls_items :: json
  ls_meta :: "json option"

definition listing_of :: "json option \<Rightarrow> thrown + listing" where
  "listing_of result =
     (case jprop ''items'' result of
        Inl e \<Rightarrow> Inl e
      | Inr items \<Rightarrow>
          Inr \<lparr>ls_items = the (jnullish items (Some (JArr []))), ls_meta = jget ''meta'' result\<rparr>)"

definition list_iam :: "server \<Rightarrow> string \<Rightarrow> (string \<times> json option) list \<Rightarrow> listing eff" where
  "list_iam srv kind ps =
     eff_bind (api_get srv (''/iam/'' @ kind @ buildQuery ps)) (\<lambda>r. eff_of (listing_of r))"

definition create_iam :: "server \<Rightarrow> string \<Rightarrow> json \<Rightarrow> json option eff" where
  "create_iam srv kind b = api_post srv (''/iam/'' @ kind) (Some b)"

definition update_iam :: "server \<Rightarrow> string \<Rightarrow> string \<Rightarrow> json \<Rightarrow> json option eff" where
  "update_iam srv kind i b = api_put srv (''/iam/'' @ kind @ ''/'' @ i) (Some b)"

definition delete_iam :: "server \<Rightarrow> string \<Rightarrow> string \<Rightarrow> json option eff" where
  "delete_iam srv kind i = api_delete srv (''/iam/'' @ kind @ ''/'' @ i)"

definition listUsers :: "server \<Rightarrow> (string \<times> json option) list \<Rightarrow> listing eff" where
  "listUsers srv ps = list_iam srv ''users'' ps"

definition createUser :: "server \<Rightarrow> json \<Rightarrow> json option eff" where
  "createUser srv b = create_iam srv ''users'' b"

definition updateUser :: "server \<Rightarrow> string \<Rightarrow> json \<Rightarrow> json option eff" where
  "updateUser srv i b = update_iam srv ''users'' i b"

definition deleteUser :: "server \<Rightarrow> string \<Rightarrow> json option eff" where
  "deleteUser srv i = delete_iam srv ''users'' i"

definition listRoles :: "server \<Rightarrow> (string \<times> json option) list \<Rightarrow> listing eff" where
  "listRoles srv ps = list_iam srv ''roles'' ps"

definition createRole :: "server \<Rightarrow> json \<Rightarrow> json option eff" where
  "createRole srv b = create_iam srv ''roles'' b"

definition updateRole :: "server \<Rightarrow> string \<Rightarrow> json \<Rightarrow> json option eff" where
  "updateRole srv i b = update_iam srv ''roles'' i b"

definition deleteRole :: "server \<Rightarrow> string \<Rightarrow> json option eff" where
  "deleteRole srv i = delete_iam srv ''roles'' i"

definition listTeams :: "server \<Rightarrow> (string \<times> json option) list \<Rightarrow> listing eff" where
  "listTeams srv ps = list_iam srv ''teams'' ps"

definition createTeam :: "server \<Rightarrow> json \<Rightarrow> json option eff" where
  "createTeam srv b = create_iam srv ''teams'' b"

definition updateTeam :: "server \<Rightarrow> string \<Rightarrow> json \<Rightarrow> json option eff" where
  "updateTeam srv i b = update_iam srv ''teams'' i b"

definition deleteTeam :: "server \<Rightarrow> string \<Rightarrow> json option eff" where
  "deleteTeam srv i = delete_iam srv ''teams'' i"

section \<open>features/catalog/api.ts\<close>

definition tags_list :: "server \<Rightarrow> env \<Rightarrow> string option \<Rightarrow> json eff" where
  "tags_list srv e term =
     fetch_items srv e (''/v1/tags'' @ (if truthy_str term then uri_query [(''search'', the term)] else []))"

definition tags_create :: "server \<Rightarrow> env \<Rightarrow> json \<Rightarrow> json eff" where
  "tags_create srv e b = fetch_json srv e ''POST'' ''/v1/tags'' b"

definition tags_update :: "server \<Rightarrow> env \<Rightarrow> string \<Rightarrow> json \<Rightarrow> json eff" where
  "tags_update srv e i b = fetch_json srv e ''PUT'' (''/v1/tags/'' @ i) b"

definition tags_remove :: "server \<Rightarrow> env \<Rightarrow> string \<Rightarrow> json eff" where
  "tags_remove srv e i = fetch_bare srv e ''DELETE'' (''/v1/tags/'' @ i)"

definition given_params :: "(string \<times> string option) list \<Rightarrow> params" where
  "given_params ps =
     foldl (\<lambda>acc (k, v). params_set k v acc) [] (map (\<lambda>(k, v). (k, the v)) (filter (\<lambda>(k, v). truthy_str v) ps))"

definition applications_list :: "server \<Rightarrow> env \<Rightarrow> string option \<Rightarrow> string option \<Rightarrow> json eff" where
  "applications_list srv e term status =
     fetch_items srv e (''/v1/applications'' @ query_suffix (given_params [(''search'', term), (''status'', status)]))"

definition applications_create :: "server \<Rightarrow> env \<Rightarrow> json \<Rightarrow> json eff" where
  "applications_create srv e b = fetch_json srv e ''POST'' ''/v1/applications'' b"

definition applications_update :: "server \<Rightarrow> env \<Rightarrow> string \<Rightarrow> json \<Rightarrow> json eff" where
  "applications_update srv e i b = fetch_json srv e ''PUT'' (''/v1/applications/'' @ i) b"

definition applications_remove :: "server \<Rightarrow> env \<Rightarrow> string \<Rightarrow> json eff" where
  "applications_remove srv e i = fetch_bare srv e ''DELETE'' (''/v1/applications/'' @ i)"

section \<open>features/notifications/api.ts\<close>

definition notifications_list :: "server \<Rightarrow> env \<Rightarrow> params option \<Rightarrow> json eff" where
  "notifications_list srv e ps =
     fetch_items srv e (''/v1/notifications'' @ (case ps of None \<Rightarrow> [] | Some ps \<Rightarrow> CHR ''?'' # params_text ps))"

definition notifications_get :: "server \<Rightarrow> env \<Rightarrow> string \<Rightarrow> json eff" where
  "notifications_get srv e i = apiFetch srv e (''/v1/notifications/'' @ i) get_options"

definition notifications_create :: "server \<Rightarrow> env \<Rightarrow> json \<Rightarrow> json eff" where
  "notifications_create srv e b = fetch_json srv e ''POST'' ''/v1/notifications'' b"

definition markRead :: "server \<Rightarrow> env \<Rightarrow> string \<Rightarrow> json eff" where
  "markRead srv e i = fetch_bare srv e ''PUT'' (''/v1/notifications/'' @ i @ ''/read'')"

definition markUnread :: "server \<Rightarrow> env \<Rightarrow> string \<Rightarrow> json eff" where
  "markUnread srv e i = fetch_bare srv e ''PUT'' (''/v1/notifications/'' @ i @ ''/unread'')"

definition markAllRead :: "server \<Rightarrow> env \<Rightarrow> json eff" where
  "markAllRead srv e = fetch_bare srv e ''PUT'' ''/v1/notifications/read-all''"

definition notifications_updateStatus :: "server \<Rightarrow> env \<Rightarrow> string \<Rightarrow> string \<Rightarrow> json eff" where
  "notifications_updateStatus srv e i status =
     fetch_json srv e ''PUT'' (''/v1/notifications/'' @ i @ ''/status'') (JObj [(''status'', JStr status)])"

definition notifications_remove :: "server \<Rightarrow> env \<Rightarrow> string \<Rightarrow> json eff" where
  "notifications_remove srv e i = fetch_bare srv e ''DELETE'' (''/v1/notifications/'' @ i)"

definition getPreferences :: "server \<Rightarrow> env \<Rightarrow> json eff" where
  "getPreferences srv e = apiFetch srv e ''/v1/notifications/preferences'' get_options"

definition savePreferences :: "server \<Rightarrow> env \<Rightarrow> json \<Rightarrow> json eff" where
  "savePreferences srv e b = fetch_json srv e ''PUT'' ''/v1/notifications/preferences'' b"

definition integrations_list :: "server \<Rightarrow> env \<Rightarrow> json eff" where
  "integrations_list srv e = fetch_items srv e ''/v1/integrations''"

definition integrations_save :: "server \<Rightarrow> env \<Rightarrow> string \<Rightarrow> json \<Rightarrow> json eff" where
  "integrations_save srv e kind b = fetch_json srv e ''PUT'' (''/v1/integrations/'' @ encodeURIComponent kind) b"

definition integrations_test :: "server \<Rightarrow> env \<Rightarrow> string \<Rightarrow> json eff" where
  "integrations_test srv e kind = fetch_bare srv e ''POST'' (''/v1/integrations/'' @ encodeURIComponent kind @ ''/test'')"

definition routing_path :: string where
  "routing_path = ''/v1/notification-routing-rules''"

definition routing_list :: "server \<Rightarrow> env \<Rightarrow> json eff" where
  "routing_list srv e = fetch_items srv e routing_path"

definition routing_create :: "server \<Rightarrow> env \<Rightarrow> json \<Rightarrow> json eff" where
  "routing_create srv e b = fetch_json srv e ''POST'' routing_path b"

definition routing_update :: "server \<Rightarrow> env \<Rightarrow> string \<Rightarrow> json \<Rightarrow> json eff" where
  "routing_update srv e i b = fetch_json srv e ''PUT'' (routing_path @ ''/'' @ i) b"

definition routing_remove :: "server \<Rightarrow> env \<Rightarrow> string \<Rightarrow> json eff" where
  "routing_remove srv e i = fetch_bare srv e ''DELETE'' (routing_path @ ''/'' @ i)"

definition routing_simulate :: "server \<Rightarrow> env \<Rightarrow> json \<Rightarrow> json eff" where
  "routing_simulate srv e b = fetch_json srv e ''POST'' (routing_path @ ''/simulate'') b"

section \<open>features/settings/api.ts\<close>

definition settings_listSystem :: "server \<Rightarrow> env \<Rightarrow> string option \<Rightarrow> json eff" where
  "settings_listSystem srv e category =
     fetch_items srv e
       (''/v1/settings/system'' @ (if truthy_str category then uri_query [(''category'', the category)] else []))"

definition settings_saveItems :: "server \<Rightarrow> env \<Rightarrow> string \<Rightarrow> json list \<Rightarrow> json eff" where
  "settings_saveItems srv e endpoint items =
     eff_bind (fetch_json srv e ''PUT'' endpoint (JObj [(''items'', JArr items)])) (\<lambda>v. eff_of (items_or_empty v))"

definition settings_saveSystem :: "server \<Rightarrow> env \<Rightarrow> json list \<Rightarrow> json eff" where
  "settings_saveSystem srv e items = settings_saveItems srv e ''/v1/settings/system'' items"

definition settings_listFeatureFlags :: "server \<Rightarrow> env \<Rightarrow> json eff" where
  "settings_listFeatureFlags srv e = fetch_items srv e ''/v1/settings/feature-flags''"

definition settings_saveFeatureFlags :: "server \<Rightarrow> env \<Rightarrow> json list \<Rightarrow> json eff" where
  "settings_saveFeatureFlags srv e items = settings_saveItems srv e ''/v1/settings/feature-flags'' items"

definition settings_getLicense :: "server \<Rightarrow> env \<Rightarrow> json eff" where
  "settings_getLicense srv e = apiFetch srv e ''/v1/settings/license'' get_options"

definition settings_saveLicense :: "server \<Rightarrow> env \<Rightarrow> json \<Rightarrow> json eff" where
  "settings_saveLicense srv e b = fetch_json srv e ''PUT'' ''/v1/settings/license'' b"

definition settings_generateLicense :: "server \<Rightarrow> env \<Rightarrow> string option \<Rightarrow> json eff" where
  "settings_generateLicense srv e tier =
     fetch_json srv e ''POST'' ''/v1/settings/license/generate'' (JObj (members [(''tier'', map_option JStr tier)]))"

definition settings_listLicenseKeys :: "server \<Rightarrow> env \<Rightarrow> json eff" where
  "settings_listLicenseKeys srv e = fetch_items srv e ''/v1/settings/license-keys''"

definition settings_createLicenseKey :: "server \<Rightarrow> env \<Rightarrow> json \<Rightarrow> json eff" where
  "settings_createLicenseKey srv e b = fetch_json srv e ''POST'' ''/v1/settings/license-keys'' b"

definition settings_updateLicenseKey :: "server \<Rightarrow> env \<Rightarrow> string \<Rightarrow> json \<Rightarrow> json eff" where
  "settings_updateLicenseKey srv e i b = fetch_json srv e ''PUT'' (''/v1/settings/license-keys/'' @ i) b"

definition settings_removeLicenseKey :: "server \<Rightarrow> env \<Rightarrow> string \<Rightarrow> json eff" where
  "settings_removeLicenseKey srv e i = fetch_bare srv e ''DELETE'' (''/v1/settings/license-keys/'' @ i)"

definition settings_getUserSettings :: "server \<Rightarrow> env \<Rightarrow> json eff" where
  "settings_getUserSettings srv e = apiFetch srv e ''/v1/settings/user'' get_options"

definition settings_saveUserSettings :: "server \<Rightarrow> env \<Rightarrow> json \<Rightarrow> json eff" where
  "settings_saveUserSettings srv e b = fetch_json srv e ''PUT'' ''/v1/settings/user'' (JObj [(''payload'', b)])"

section \<open>The dashboard, the audit log and the registries\<close>

definition dashboard_getPresence :: "server \<Rightarrow> env \<Rightarrow> json eff" where
  "dashboard_getPresence srv e = apiFetch srv e ''/v1/auth/presence'' get_options"

definition dashboard_listAuditTimeline :: "server \<Rightarrow> env \<Rightarrow> int option \<Rightarrow> json eff" where
  "dashboard_listAuditTimeline srv e limit =
     fetch_items srv e (''/v1/iam/audit-logs?limit='' @ show_int (nullish limit 12))"

definition auditLogs_list ::
  "server \<Rightarrow> int option \<Rightarrow> string option \<Rightarrow> string option \<Rightarrow> string option \<Rightarrow> json eff" where
  "auditLogs_list srv limit status resource action =
     (let lim = (case limit of None \<Rightarrow> None | Some n \<Rightarrow> if n = 0 then None else Some (show_int n)) in
      eff_bind (api_get srv (''/iam/audit-logs'' @ query_suffix (given_params
          [(''limit'', lim), (''status'', status), (''resource'', resource), (''action'', action)])))
        (\<lambda>r. eff_of (case listing_of r of Inl e \<Rightarrow> Inl e | Inr l \<Rightarrow> Inr (ls_items l))))"

definition registryKeys :: query_key where
  "registryKeys = [JStr ''registries'']"

definition useRegistries :: query where
  "useRegistries = get_query registryKeys True ''/v1/registries''"

definition useSaveRegistry :: "json \<Rightarrow> mutation" where
  "useSaveRegistry b = send ''POST'' ''/v1/registries'' (TextBody (json_text b)) [registryKeys]"

definition useDeleteRegistry :: "string \<Rightarrow> mutation" where
  "useDeleteRegistry i = send ''DELETE'' (''/v1/registries/'' @ i) NoBody [registryKeys]"

definition useTestRegistry :: "json \<Rightarrow> mutation" where
  "useTestRegistry b = send ''POST'' ''/v1/registries/test'' (TextBody (json_text b)) []"

end
