(* ===== verification/IamPages.thy ===== *)
theory IamPages
  imports AdminApi Machine DockerCompose "HOL-Library.List_Lexorder" "HOL-Library.Char_ord"
begin

text \<open>
  \<open>UsersPage.tsx\<close>, \<open>RolesPage.tsx\<close> and \<open>TeamsPage.tsx\<close> of \<open>features/users_teams/pages\<close>: a list, one
  selected entity and a form over it. What the three pages do alike is defined once, over the
  entity's identifier and its form; an asynchronous handler is two steps, its request and what
  it does with the answer, which may come with the state it was asked in.
\<close>

section \<open>The shape of the pages\<close>

record ('e, 'f) desk =
  dk_items :: "'e list"
  dk_total :: nat
  dk_selected :: "string option"
  dk_creating :: bool
  dk_form :: 'f
  dk_page :: nat
  dk_searchInput :: string
  dk_searchTerm :: string
  dk_filter :: string
  dk_sortBy :: string
  dk_sortAsc :: bool
  dk_deleteCandidate :: "'e option"

definition empty_desk :: "string \<Rightarrow> bool \<Rightarrow> 'f \<Rightarrow> ('e, 'f) desk" where
  "empty_desk sortBy asc blank =
     \<lparr>dk_items = [], dk_total = 0, dk_selected = None, dk_creating = False, dk_form = blank, dk_page = 1,
      dk_searchInput = [], dk_searchTerm = [], dk_filter = [], dk_sortBy = sortBy, dk_sortAsc = asc,
      dk_deleteCandidate = None\<rparr>"

definition selected_item :: "('e \<Rightarrow> string) \<Rightarrow> ('e, 'f) desk \<Rightarrow> 'e option" where
  "selected_item ident s = List.find (\<lambda>e. Some (ident e) = dk_selected s) (dk_items s)"

definition totalPages :: "('e, 'f) desk \<Rightarrow> nat" where
  "totalPages s = max 1 ((dk_total s + 9) div 10)"

definition choose_item :: "('e \<Rightarrow> string) \<Rightarrow> ('e \<Rightarrow> 'f) \<Rightarrow> 'e \<Rightarrow> ('e, 'f) desk \<Rightarrow> ('e, 'f) desk" where
  "choose_item ident form_of e s = s\<lparr>dk_selected := Some (ident e), dk_creating := False, dk_form := form_of e\<rparr>"

definition start_create :: "'f \<Rightarrow> ('e, 'f) desk \<Rightarrow> ('e, 'f) desk" where
  "start_create blank s = s\<lparr>dk_selected := None, dk_creating := True, dk_form := blank\<rparr>"

definition sort_by :: "string \<Rightarrow> ('e, 'f) desk \<Rightarrow> ('e, 'f) desk" where
  "sort_by column s =
     (if dk_sortBy s = column then s\<lparr>dk_page := 1, dk_sortAsc := \<not> dk_sortAsc s\<rparr>
      else s\<lparr>dk_page := 1, dk_sortBy := column, dk_sortAsc := True\<rparr>)"

definition search_typed :: "string \<Rightarrow> ('e, 'f) desk \<Rightarrow> ('e, 'f) desk" where
  "search_typed v s = s\<lparr>dk_page := 1, dk_searchInput := v\<rparr>"

definition search_timer :: "('e, 'f) desk \<Rightarrow> ('e, 'f) desk" where
  "search_timer s = s\<lparr>dk_searchTerm := trim (dk_searchInput s)\<rparr>"

definition filter_chosen :: "string \<Rightarrow> ('e, 'f) desk \<Rightarrow> ('e, 'f) desk" where
  "filter_chosen v s = s\<lparr>dk_page := 1, dk_filter := v\<rparr>"

definition page_back :: "('e, 'f) desk \<Rightarrow> ('e, 'f) desk" where
  "page_back s = s\<lparr>dk_page := max 1 (dk_page s - 1)\<rparr>"

definition page_on :: "('e, 'f) desk \<Rightarrow> ('e, 'f) desk" where
  "page_on s = s\<lparr>dk_page := min (totalPages s) (dk_page s + 1)\<rparr>"

text \<open>An answer to a load, with the selection there was when it was asked.\<close>

definition loaded ::
  "('e \<Rightarrow> string) \<Rightarrow> ('e \<Rightarrow> 'f) \<Rightarrow> string option \<Rightarrow> 'e list \<Rightarrow> nat option \<Rightarrow> ('e, 'f) desk \<Rightarrow> ('e, 'f) desk" where
  "loaded ident form_of seen items n s =
     (let s1 = s\<lparr>dk_items := items, dk_total := nullish n (length items)\<rparr> in
      case items of [] \<Rightarrow> s1 | e # es \<Rightarrow> if truthy_str seen then s1 else choose_item ident form_of e s1)"

text \<open>What the save button does: a message, a request, or nothing at all.\<close>

datatype ask = Refused toast | Creates json | Updates string json | Silent

definition submit ::
  "('e \<Rightarrow> string) \<Rightarrow> (bool \<Rightarrow> 'f \<Rightarrow> toast option) \<Rightarrow> ('f \<Rightarrow> json) \<Rightarrow> ('e, 'f) desk \<Rightarrow> ask" where
  "submit ident check payload s =
     (case check (dk_creating s) (dk_form s) of
        Some t \<Rightarrow> Refused t
      | None \<Rightarrow>
          if dk_creating s then Creates (payload (dk_form s))
          else case selected_item ident s of
            Some e \<Rightarrow> Updates (ident e) (payload (dk_form s))
          | None \<Rightarrow> Silent)"

definition created :: "('e \<Rightarrow> string) \<Rightarrow> ('e \<Rightarrow> 'f) \<Rightarrow> 'e list \<Rightarrow> 'e \<Rightarrow> ('e, 'f) desk \<Rightarrow> ('e, 'f) desk" where
  "created ident form_of base e s = choose_item ident form_of e (s\<lparr>dk_items := base @ [e]\<rparr>)"

definition replaced :: "('e \<Rightarrow> string) \<Rightarrow> 'e \<Rightarrow> 'e list \<Rightarrow> 'e list" where
  "replaced ident e es = map (\<lambda>x. if ident x = ident e then e else x) es"

definition removed ::
  "('e \<Rightarrow> string) \<Rightarrow> ('e \<Rightarrow> 'f) \<Rightarrow> 'f \<Rightarrow> string option \<Rightarrow> 'e list \<Rightarrow> string \<Rightarrow> ('e, 'f) desk \<Rightarrow> ('e, 'f) desk" where
  "removed ident form_of blank seen base gone s =
     (let next = filter (\<lambda>e. ident e \<noteq> gone) base; s1 = s\<lparr>dk_items := next\<rparr> in
      if seen \<noteq> Some gone then s1
      else case next of [] \<Rightarrow> start_create blank s1 | e # es \<Rightarrow> choose_item ident form_of e s1)"

definition reset_form :: "('e \<Rightarrow> string) \<Rightarrow> ('e \<Rightarrow> 'f) \<Rightarrow> 'f \<Rightarrow> ('e, 'f) desk \<Rightarrow> ('e, 'f) desk" where
  "reset_form ident form_of blank s =
     (case selected_item ident s of Some e \<Rightarrow> choose_item ident form_of e s | None \<Rightarrow> start_create blank s)"

section \<open>Identifiers made from names\<close>

definition slugify :: "string \<Rightarrow> string" where
  "slugify v = strip_dashes (tag_runs False (lower (trim v)))"

section \<open>Users\<close>

record UserRecord =
  ur_id :: string
  ur_username :: string
  ur_email :: string
  ur_full_name :: string
  ur_is_active :: bool
  ur_roles :: "string list"
  ur_teams :: "string list"
  ur_created_at :: string

record RoleRecord =
  rr_id :: string
  rr_name :: string
  rr_slug :: string
  rr_description :: string
  rr_permissions :: "string list"
  rr_is_system :: bool

record TeamRecord =
  tr_id :: string
  tr_name :: string
  tr_slug :: string
  tr_description :: string
  tr_member_ids :: "string list"
  tr_member_count :: nat

record UserFormState =
  uf_username :: string
  uf_email :: string
  uf_full_name :: string
  uf_password :: string
  uf_roles :: "string list"
  uf_team_ids :: "string list"
  uf_is_active :: bool

definition empty_user_form :: UserFormState where
  "empty_user_form = \<lparr>uf_username = [], uf_email = [], uf_full_name = [], uf_password = [], uf_roles = [],
     uf_team_ids = [], uf_is_active = True\<rparr>"

definition user_form_of :: "TeamRecord list \<Rightarrow> UserRecord \<Rightarrow> UserFormState" where
  "user_form_of availableTeams u =
     \<lparr>uf_username = ur_username u, uf_email = ur_email u, uf_full_name = ur_full_name u, uf_password = [],
      uf_roles = ur_roles u,
      uf_team_ids = map tr_id (filter (\<lambda>t. tr_name t \<in> set (ur_teams u)) availableTeams),
      uf_is_active = ur_is_active u\<rparr>"

definition new_user_form :: "RoleRecord list \<Rightarrow> UserFormState" where
  "new_user_form roles = empty_user_form
     \<lparr>uf_roles := (if list_ex (\<lambda>r. rr_slug r = ''viewer'') roles then [''viewer''] else [])\<rparr>"

definition users_query :: "(UserRecord, UserFormState) desk \<Rightarrow> (string \<times> json option) list" where
  "users_query s =
     [(''page'', Some (JNum (int (dk_page s)))), (''page_size'', Some (JNum 10)),
      (''search'', Some (JStr (dk_searchTerm s))), (''status'', Some (JStr (dk_filter s))),
      (''sort_by'', Some (JStr (dk_sortBy s))),
      (''sort_dir'', Some (JStr (if dk_sortAsc s then ''asc'' else ''desc'')))]"

definition toggleRole :: "string \<Rightarrow> UserFormState \<Rightarrow> UserFormState" where
  "toggleRole slug f = f\<lparr>uf_roles := toggle_tag slug (uf_roles f)\<rparr>"

definition toggleTeam :: "string \<Rightarrow> UserFormState \<Rightarrow> UserFormState" where
  "toggleTeam teamID f = f\<lparr>uf_team_ids := toggle_tag teamID (uf_team_ids f)\<rparr>"

definition strings :: "string list \<Rightarrow> json" where
  "strings xs = JArr (map JStr xs)"

definition user_payload :: "UserFormState \<Rightarrow> json" where
  "user_payload f = JObj
     [(''username'', JStr (trim (uf_username f))), (''email'', JStr (trim (uf_email f))),
      (''full_name'', JStr (trim (uf_full_name f))), (''password'', JStr (uf_password f)),
      (''roles'', strings (uf_roles f)), (''team_ids'', strings (uf_team_ids f)),
      (''is_active'', JBool (uf_is_active f))]"

text \<open>The length of the password is counted in bytes here, in UTF-16 units there.\<close>

definition user_check :: "bool \<Rightarrow> UserFormState \<Rightarrow> toast option" where
  "user_check creating f =
     (if trim (uf_username f) = [] \<or> trim (uf_email f) = [] \<or> trim (uf_full_name f) = []
      then Some (toast_of ''error'' ''Missing required fields'' ''Username, email and full name are required.'')
      else if uf_roles f = []
      then Some (toast_of ''error'' ''Missing roles'' ''Assign at least one role before saving.'')
      else if creating \<and> length (uf_password f) < 8
      then Some (toast_of ''error'' ''Password too short'' ''New users need a password with at least 8 characters.'')
      else None)"

definition user_updated :: "UserRecord list \<Rightarrow> UserRecord \<Rightarrow> (UserRecord, UserFormState) desk \<Rightarrow> (UserRecord, UserFormState) desk" where
  "user_updated base u s =
     s\<lparr>dk_items := replaced ur_id u base, dk_selected := Some (ur_id u), dk_form := (dk_form s)\<lparr>uf_password := []\<rparr>\<rparr>"

section \<open>Roles\<close>

record Permission =
  pm_id :: string
  pm_category :: string

definition availablePermissions :: "Permission list" where
  "availablePermissions = map (\<lambda>(i, c). \<lparr>pm_id = i, pm_category = c\<rparr>)
     [(''server:read'', ''Server''), (''server:write'', ''Server''), (''server:delete'', ''Server''),
      (''server:execute'', ''Server''), (''firewall:read'', ''Firewall''), (''firewall:write'', ''Firewall''),
      (''firewall:delete'', ''Firewall''), (''ssh_key:read'', ''SSH''), (''ssh_key:write'', ''SSH''),
      (''ssh_key:execute'', ''SSH''), (''audit_log:read'', ''Audit'')]"

record RoleFormState =
  rf_name :: string
  rf_slug :: string
  rf_description :: string
  rf_permissions :: "string list"

definition empty_role_form :: RoleFormState where
  "empty_role_form = \<lparr>rf_name = [], rf_slug = [], rf_description = [], rf_permissions = []\<rparr>"

definition role_form_of :: "RoleRecord \<Rightarrow> RoleFormState" where
  "role_form_of r = \<lparr>rf_name = rr_name r, rf_slug = rr_slug r, rf_description = rr_description r,
     rf_permissions = rr_permissions r\<rparr>"

definition roles_query :: "(RoleRecord, RoleFormState) desk \<Rightarrow> (string \<times> json option) list" where
  "roles_query s =
     [(''page'', Some (JNum (int (dk_page s)))), (''page_size'', Some (JNum 10)),
      (''search'', Some (JStr (dk_searchTerm s))),
      (''system'', if dk_filter s = [] then None else Some (JBool (dk_filter s = ''true''))),
      (''sort_by'', Some (JStr (dk_sortBy s))),
      (''sort_dir'', Some (JStr (if dk_sortAsc s then ''asc'' else ''desc'')))]"

definition category_ids :: "string \<Rightarrow> string list" where
  "category_ids c = map pm_id (filter (\<lambda>p. pm_category p = c) availablePermissions)"

definition togglePermission :: "string \<Rightarrow> RoleFormState \<Rightarrow> RoleFormState" where
  "togglePermission i f = f\<lparr>rf_permissions := toggle_tag i (rf_permissions f)\<rparr>"

definition all_in_category :: "string \<Rightarrow> RoleFormState \<Rightarrow> bool" where
  "all_in_category c f \<longleftrightarrow> list_all (\<lambda>i. i \<in> set (rf_permissions f)) (category_ids c)"

definition toggleAllInCategory :: "string \<Rightarrow> RoleFormState \<Rightarrow> RoleFormState" where
  "toggleAllInCategory c f =
     (if all_in_category c f
      then f\<lparr>rf_permissions := filter (\<lambda>i. i \<notin> set (category_ids c)) (rf_permissions f)\<rparr>
      else f\<lparr>rf_permissions := js_set (rf_permissions f @ category_ids c)\<rparr>)"

definition role_name_typed :: "bool \<Rightarrow> string \<Rightarrow> RoleFormState \<Rightarrow> RoleFormState" where
  "role_name_typed creating v f =
     f\<lparr>rf_name := v, rf_slug := (if creating \<or> rf_slug f = slugify (rf_name f) then slugify v else rf_slug f)\<rparr>"

definition role_slug_typed :: "string \<Rightarrow> RoleFormState \<Rightarrow> RoleFormState" where
  "role_slug_typed v f = f\<lparr>rf_slug := slugify v\<rparr>"

definition slug_or_name :: "string \<Rightarrow> string \<Rightarrow> string" where
  "slug_or_name slug name = or_str (trim slug) (slugify name)"

definition role_payload :: "RoleFormState \<Rightarrow> json" where
  "role_payload f = JObj
     [(''name'', JStr (trim (rf_name f))), (''slug'', JStr (slug_or_name (rf_slug f) (rf_name f))),
      (''description'', JStr (trim (rf_description f))), (''permissions'', strings (sort (rf_permissions f)))]"

definition role_check :: "bool \<Rightarrow> RoleFormState \<Rightarrow> toast option" where
  "role_check creating f =
     (if trim (rf_name f) = [] \<or> slug_or_name (rf_slug f) (rf_name f) = []
      then Some (toast_of ''error'' ''Missing role fields'' ''Role name and slug are required.'') else None)"

definition role_updated :: "RoleRecord \<Rightarrow> (RoleRecord, RoleFormState) desk \<Rightarrow> (RoleRecord, RoleFormState) desk" where
  "role_updated r s = choose_item rr_id role_form_of r (s\<lparr>dk_items := replaced rr_id r (dk_items s)\<rparr>)"

section \<open>Teams\<close>

record TeamFormState =
  tf_name :: string
  tf_slug :: string
  tf_description :: string
  tf_member_ids :: "string list"

definition empty_team_form :: TeamFormState where
  "empty_team_form = \<lparr>tf_name = [], tf_slug = [], tf_description = [], tf_member_ids = []\<rparr>"

definition team_form_of :: "TeamRecord \<Rightarrow> TeamFormState" where
  "team_form_of t = \<lparr>tf_name = tr_name t, tf_slug = tr_slug t, tf_description = tr_description t,
     tf_member_ids = tr_member_ids t\<rparr>"

definition teams_query :: "(TeamRecord, TeamFormState) desk \<Rightarrow> (string \<times> json option) list" where
  "teams_query s =
     [(''page'', Some (JNum (int (dk_page s)))), (''page_size'', Some (JNum 10)),
      (''search'', Some (JStr (dk_searchTerm s))), (''sort_by'', Some (JStr (dk_sortBy s))),
      (''sort_dir'', Some (JStr (if dk_sortAsc s then ''asc'' else ''desc'')))]"

definition toggleMember :: "string \<Rightarrow> TeamFormState \<Rightarrow> TeamFormState" where
  "toggleMember userID f = f\<lparr>tf_member_ids := toggle_tag userID (tf_member_ids f)\<rparr>"

definition team_name_typed :: "bool \<Rightarrow> string \<Rightarrow> TeamFormState \<Rightarrow> TeamFormState" where
  "team_name_typed creating v f =
     f\<lparr>tf_name := v, tf_slug := (if creating \<or> tf_slug f = slugify (tf_name f) then slugify v else tf_slug f)\<rparr>"

definition team_slug_typed :: "string \<Rightarrow> TeamFormState \<Rightarrow> TeamFormState" where
  "team_slug_typed v f = f\<lparr>tf_slug := slugify v\<rparr>"

definition team_payload :: "TeamFormState \<Rightarrow> json" where
  "team_payload f = JObj
     [(''name'', JStr (trim (tf_name f))), (''slug'', JStr (slug_or_name (tf_slug f) (tf_name f))),
      (''description'', JStr (trim (tf_description f))), (''member_ids'', strings (tf_member_ids f))]"

definition team_check :: "bool \<Rightarrow> TeamFormState \<Rightarrow> toast option" where
  "team_check creating f =
     (if trim (tf_name f) = [] \<or> slug_or_name (tf_slug f) (tf_name f) = []
      then Some (toast_of ''error'' ''Missing required fields'' ''Team name and slug are required.'') else None)"

definition team_updated :: "TeamRecord \<Rightarrow> (TeamRecord, TeamFormState) desk \<Rightarrow> (TeamRecord, TeamFormState) desk" where
  "team_updated t s = choose_item tr_id team_form_of t (s\<lparr>dk_items := replaced tr_id t (dk_items s)\<rparr>)"

section \<open>The contract of the forms\<close>

text \<open>
  What the three forms promise: the form of a saved entity passes the check and is sent as the
  entity's own fields.
\<close>

locale record_form =
  fixes ident :: "'e \<Rightarrow> string"
    and form_of :: "'e \<Rightarrow> 'f"
    and check :: "bool \<Rightarrow> 'f \<Rightarrow> toast option"
    and payload :: "'f \<Rightarrow> json"
    and fields :: "'e \<Rightarrow> json"
    and valid :: "'e \<Rightarrow> bool"
  assumes accepted: "valid e \<Longrightarrow> check False (form_of e) = None"
    and faithful: "valid e \<Longrightarrow> payload (form_of e) = fields e"
begin

lemma found_among: "e \<in> set es \<Longrightarrow> distinct (map ident es) \<Longrightarrow> List.find (\<lambda>x. Some (ident x) = Some (ident e)) es = Some e"
  by (induction es) (auto simp: rev_image_eqI)

lemma unchanged:
  assumes "valid e" "e \<in> set (dk_items s)" "distinct (map ident (dk_items s))"
  shows "submit ident check payload (choose_item ident form_of e s) = Updates (ident e) (fields e)"
  using assms found_among [of e "dk_items s"]
  by (simp add: submit_def choose_item_def accepted faithful selected_item_def)

lemma created_unchanged:
  assumes "valid e" "distinct (map ident base)" "ident e \<notin> ident ` set base"
  shows "submit ident check payload (created ident form_of base e s) = Updates (ident e) (fields e)"
  using assms unchanged [of e "s\<lparr>dk_items := base @ [e]\<rparr>"] by (simp add: created_def)

end

definition trimmed :: "string \<Rightarrow> bool" where
  "trimmed s \<longleftrightarrow> trim s = s \<and> s \<noteq> []"

definition role_fields :: "RoleRecord \<Rightarrow> json" where
  "role_fields r = JObj
     [(''name'', JStr (rr_name r)), (''slug'', JStr (rr_slug r)), (''description'', JStr (rr_description r)),
      (''permissions'', strings (rr_permissions r))]"

definition saved_role :: "RoleRecord \<Rightarrow> bool" where
  "saved_role r \<longleftrightarrow> trimmed (rr_name r) \<and> trimmed (rr_slug r) \<and> trim (rr_description r) = rr_description r \<and>
     sorted (rr_permissions r)"

interpretation role_form: record_form rr_id role_form_of role_check role_payload role_fields saved_role
  by unfold_locales (auto simp: saved_role_def trimmed_def role_check_def role_form_of_def role_payload_def
      role_fields_def slug_or_name_def or_str_def sort_key_id_if_sorted)

definition team_fields :: "TeamRecord \<Rightarrow> json" where
  "team_fields t = JObj
     [(''name'', JStr (tr_name t)), (''slug'', JStr (tr_slug t)), (''description'', JStr (tr_description t)),
      (''member_ids'', strings (tr_member_ids t))]"

definition saved_team :: "TeamRecord \<Rightarrow> bool" where
  "saved_team t \<longleftrightarrow> trimmed (tr_name t) \<and> trimmed (tr_slug t) \<and> trim (tr_description t) = tr_description t"

interpretation team_form: record_form tr_id team_form_of team_check team_payload team_fields saved_team
  by unfold_locales (auto simp: saved_team_def trimmed_def team_check_def team_form_of_def team_payload_def
      team_fields_def slug_or_name_def or_str_def)

text \<open>A user's teams are named in the record; \<open>existing\<close> are all the teams there are.\<close>

definition user_fields :: "TeamRecord list \<Rightarrow> UserRecord \<Rightarrow> json" where
  "user_fields existing u = JObj
     [(''username'', JStr (ur_username u)), (''email'', JStr (ur_email u)), (''full_name'', JStr (ur_full_name u)),
      (''password'', JStr []), (''roles'', strings (ur_roles u)),
      (''team_ids'', strings (map tr_id (filter (\<lambda>t. tr_name t \<in> set (ur_teams u)) existing))),
      (''is_active'', JBool (ur_is_active u))]"

definition saved_user :: "TeamRecord list \<Rightarrow> UserRecord \<Rightarrow> bool" where
  "saved_user hidden u \<longleftrightarrow> trimmed (ur_username u) \<and> trimmed (ur_email u) \<and> trimmed (ur_full_name u) \<and>
     ur_roles u \<noteq> [] \<and> (\<forall>t \<in> set hidden. tr_name t \<notin> set (ur_teams u))"

interpretation user_form: record_form ur_id "user_form_of shown" user_check user_payload
    "user_fields (shown @ hidden)" "saved_user hidden"
  for shown hidden
proof
  fix u
  assume "saved_user hidden u"
  then have u: "trimmed (ur_username u)" "trimmed (ur_email u)" "trimmed (ur_full_name u)" "ur_roles u \<noteq> []"
    and h: "filter (\<lambda>t. tr_name t \<in> set (ur_teams u)) hidden = []"
    by (auto simp: saved_user_def filter_empty_conv)
  from u show "user_check False (user_form_of shown u) = None"
    by (simp add: user_check_def user_form_of_def trimmed_def)
  from u h show "user_payload (user_form_of shown u) = user_fields (shown @ hidden) u"
    by (simp add: user_payload_def user_form_of_def user_fields_def trimmed_def)
qed

section \<open>What the pages keep and lose\<close>

text \<open>
  C23. In a list of users with distinct ids, let a user have at least one role, and a user name, an e-mail address and a full name that are not
  empty and have no white space around them. When every team of the user is among the teams the page has,
  choosing the user and saving without a change sends the user as it is. A membership of a team the page has not is lost by it: the
  page asks for the first hundred teams.
\<close>

theorem user_saved_unchanged:
  fixes shown hidden :: "TeamRecord list" and s :: "(UserRecord, UserFormState) desk"
  assumes "u \<in> set (dk_items s)" "distinct (map ur_id (dk_items s))"
    and "trimmed (ur_username u)" "trimmed (ur_email u)" "trimmed (ur_full_name u)" "ur_roles u \<noteq> []"
  defines "saved \<equiv> submit ur_id user_check user_payload (choose_item ur_id (user_form_of shown) u s)"
  shows "((\<forall>t \<in> set hidden. tr_name t \<notin> set (ur_teams u)) \<longrightarrow> saved = Updates (ur_id u) (user_fields (shown @ hidden) u)) \<and>
    (\<forall>t \<in> set hidden. tr_name t \<in> set (ur_teams u) \<and> tr_id t \<notin> tr_id ` set shown \<longrightarrow>
       (\<exists>body ids. saved = Updates (ur_id u) body \<and> jget ''team_ids'' (Some body) = Some (JArr ids) \<and> JStr (tr_id t) \<notin> set ids))"
proof (intro conjI impI ballI)
  assume "\<forall>t \<in> set hidden. tr_name t \<notin> set (ur_teams u)"
  then have "saved_user hidden u" using assms by (simp add: saved_user_def)
  then show "saved = Updates (ur_id u) (user_fields (shown @ hidden) u)"
    unfolding saved_def using assms(1,2) by (rule user_form.unchanged)
next
  fix t
  assume t: "t \<in> set hidden" "tr_name t \<in> set (ur_teams u) \<and> tr_id t \<notin> tr_id ` set shown"
  have "saved_user [] u" using assms by (simp add: saved_user_def)
  then have "saved = Updates (ur_id u) (user_fields (shown @ []) u)"
    unfolding saved_def using assms(1,2) by (rule user_form.unchanged)
  with t show "\<exists>body ids. saved = Updates (ur_id u) body \<and> jget ''team_ids'' (Some body) = Some (JArr ids) \<and> JStr (tr_id t) \<notin> set ids"
    by (auto simp: user_fields_def strings_def)
qed

text \<open>
  A load that is answered with a list while a new entity is typed, after a search or a change of the
  order, takes the first entity of the list: the new one is gone with its form.
\<close>

theorem draft_lost_on_load:
  assumes "items \<noteq> []"
  shows "let typed = search_timer (search_typed v ((start_create blank s)\<lparr>dk_form := f\<rparr>));
      t = loaded ident form_of (dk_selected typed) items n typed in
    dk_creating typed \<and> dk_form typed = f \<and>
    \<not> dk_creating t \<and> dk_form t = form_of (hd items) \<and> dk_selected t = Some (ident (hd items))"
  using assms
  by (cases items) (simp_all add: search_timer_def search_typed_def start_create_def loaded_def choose_item_def
      truthy_str_def Let_def)

text \<open>
  Once another page of the list is shown the entity under edit is no longer found: the form is still
  there, its save button is shown, and saving sends nothing and says nothing.
\<close>

theorem save_after_paging_silent:
  assumes "dk_selected s = Some i" "i \<noteq> []" "\<not> dk_creating s" "check False (dk_form s) = None"
    and "i \<notin> ident ` set items"
  shows "let t = loaded ident form_of (dk_selected s) items n (page_on s) in
    dk_form t = dk_form s \<and> submit ident check payload t = Silent"
proof -
  have t: "loaded ident form_of (dk_selected s) items n (page_on s) =
      (page_on s)\<lparr>dk_items := items, dk_total := nullish n (length items)\<rparr>"
    using assms(1,2) by (simp add: loaded_def page_on_def truthy_str_def Let_def split: list.split)
  have "List.find (\<lambda>e. Some (ident e) = Some i) items = None"
    using assms(5) by (auto simp: find_None_iff)
  with assms(1,3,4) show ?thesis unfolding Let_def t by (simp add: submit_def page_on_def selected_item_def)
qed

section \<open>Slugs\<close>

lemma tag_char_lower: "tag_char c \<Longrightarrow> lower_char c = c \<and> \<not> is_ws c \<and> c \<noteq> CHR ''-''"
  using slug_char_lower by (auto simp: tag_char_def)

lemma tag_runs_fix: "list_all tag_char s \<Longrightarrow> tag_runs b (s @ r) = s @ tag_runs (b \<and> s = []) r"
  by (induction s arbitrary: b) auto

lemma slug_word:
  assumes "list_all tag_char s"
  shows "lower s = s" "trim s = s" "strip_dashes s = s" "tag_runs b s = s"
proof -
  have c: "x \<in> set s \<Longrightarrow> lower_char x = x \<and> \<not> is_ws x \<and> x \<noteq> CHR ''-''" for x
    using assms tag_char_lower by (simp add: list_all_iff)
  show "lower s = s" using c by (simp add: lower_def map_idI)
  have e: "s = [] \<or> hd s \<in> set s \<and> last s \<in> set s" by (cases s) simp_all
  show "trim s = s" using e c by (intro trim_fix) blast
  show "strip_dashes s = s" using e c by (intro strip_dashes_fix) blast
  show "tag_runs b s = s" using assms tag_runs_fix [of s b "[]"] by simp
qed

lemma tag_word_not_ws: "list_all tag_char s \<Longrightarrow> d \<in> set s \<Longrightarrow> \<not> is_ws d"
  using tag_char_lower by (simp add: list_all_iff)

lemma trim_snoc:
  assumes s: "list_all tag_char s"
  shows "trim (s @ [c]) = (if is_ws c then s else s @ [c])"
proof (cases "is_ws c")
  case True
  show ?thesis
  proof (cases s)
    case Nil
    with True show ?thesis by (simp add: trim_def ltrim_def rtrim_def)
  next
    case (Cons d r)
    then have d: "\<not> is_ws d" using tag_word_not_ws [OF s, of d] by simp
    have "trim (s @ [c]) = rtrim (s @ [c])" using d by (simp add: Cons trim_def ltrim_def)
    also have "\<dots> = rtrim s" using True by (simp add: rtrim_snoc)
    also have "\<dots> = trim s" using d by (simp add: Cons trim_def ltrim_def)
    finally show ?thesis using True slug_word(2) [OF s] by simp
  qed
next
  case False
  have "hd (s @ [c]) = c \<or> hd (s @ [c]) \<in> set s" by (cases s) simp_all
  then have "\<not> is_ws (hd (s @ [c]))" using False tag_word_not_ws [OF s] by metis
  then have "trim (s @ [c]) = s @ [c]" using False by (intro trim_fix) simp
  with False show ?thesis by simp
qed

lemma strip_last_dash: "list_all tag_char s \<Longrightarrow> strip_dashes (s @ [CHR ''-'']) = s"
proof -
  assume s: "list_all tag_char s"
  have "strip_dashes (s @ [CHR ''-'']) = strip_dashes s"
  proof (cases s)
    case (Cons d r)
    with s tag_char_lower have "d \<noteq> CHR ''-''" by simp
    then show ?thesis by (simp add: Cons strip_dashes_def)
  qed (simp add: strip_dashes_def)
  then show ?thesis using slug_word(3) [OF s] by simp
qed

lemma slugify_snoc:
  assumes s: "list_all tag_char s"
  shows "slugify (s @ [c]) = s @ (if tag_char (lower_char c) then [lower_char c] else [])"
proof (cases "is_ws c")
  case True
  then have "\<not> tag_char (lower_char c)"
    by (auto simp: is_ws_def lower_char_def tag_char_def slug_char_def Let_def)
  then show ?thesis using True s by (simp add: slugify_def trim_snoc slug_word)
next
  case False
  then have "slugify (s @ [c]) = strip_dashes (tag_runs False (s @ [lower_char c]))"
    using s slug_word(1) [OF s] by (simp add: slugify_def trim_snoc lower_def)
  then have eq: "slugify (s @ [c]) = strip_dashes (s @ (if tag_char (lower_char c) then [lower_char c] else [CHR ''-'']))"
    using s by (simp add: tag_runs_fix)
  show ?thesis
  proof (cases "tag_char (lower_char c)")
    case True
    then have "list_all tag_char (s @ [lower_char c])" using s by simp
    with True eq show ?thesis by (simp add: slug_word)
  next
    case False
    with eq s show ?thesis by (simp add: strip_last_dash)
  qed
qed

text \<open>
  The slug field makes a slug of each text typed into it and with it takes away a dash at the end:
  whatever is typed letter by letter, only its letters and digits remain.
\<close>

theorem typed_slug_has_no_dash:
  "foldl (\<lambda>slug c. slugify (slug @ [c])) [] t = filter tag_char (lower t) \<and> CHR ''-'' \<notin> set (filter tag_char (lower t))"
proof -
  have "foldl (\<lambda>slug c. slugify (slug @ [c])) s t = s @ filter tag_char (lower t)" if "list_all tag_char s" for s
    using that by (induction t arbitrary: s) (auto simp: slugify_snoc lower_def)
  from this [of "[]"] show ?thesis by (auto simp: tag_char_def)
qed

section \<open>Permissions\<close>

text \<open>
  The button of a category selects all its permissions or none of them, in turn, and never touches
  the permissions of other categories.
\<close>

theorem category_toggled:
  assumes "distinct (rf_permissions f)" "c \<in> pm_category ` set availablePermissions"
  shows "all_in_category c (toggleAllInCategory c f) = (\<not> all_in_category c f) \<and>
    distinct (rf_permissions (toggleAllInCategory c f)) \<and>
    filter (\<lambda>i. i \<notin> set (category_ids c)) (rf_permissions (toggleAllInCategory c f)) =
      filter (\<lambda>i. i \<notin> set (category_ids c)) (rf_permissions f)"
proof -
  have ne: "category_ids c \<noteq> []" using assms(2) by (auto simp: category_ids_def filter_empty_conv)
  show ?thesis
  proof (cases "all_in_category c f")
    case True
    then show ?thesis
      using assms(1) ne by (cases "category_ids c") (auto simp: toggleAllInCategory_def all_in_category_def)
  next
    case False
    have "filter (\<lambda>i. i \<notin> set (category_ids c)) (js_set (rf_permissions f @ category_ids c)) =
        rev (remdups (filter (\<lambda>i. i \<notin> set (category_ids c)) (rev (rf_permissions f))))"
      by (simp add: js_set_def rev_filter [symmetric] remdups_filter [symmetric])
    also have "\<dots> = filter (\<lambda>i. i \<notin> set (category_ids c)) (rf_permissions f)"
      using assms(1) by (simp add: distinct_remdups_id rev_filter)
    finally have rest: "filter (\<lambda>i. i \<notin> set (category_ids c)) (js_set (rf_permissions f @ category_ids c)) =
        filter (\<lambda>i. i \<notin> set (category_ids c)) (rf_permissions f)" .
    have "distinct (js_set (rf_permissions f @ category_ids c))" by (simp add: js_set_def)
    then show ?thesis
      using False rest by (auto simp: toggleAllInCategory_def all_in_category_def list_all_iff set_js_set)
  qed
qed

section \<open>Concrete pages\<close>

definition ann :: UserRecord where
  "ann = \<lparr>ur_id = ''u1'', ur_username = ''ann'', ur_email = ''a@b'', ur_full_name = ''Ann'', ur_is_active = True,
     ur_roles = [''viewer''], ur_teams = [''ops''], ur_created_at = ''t''\<rparr>"

definition ops_team :: TeamRecord where
  "ops_team = \<lparr>tr_id = ''t1'', tr_name = ''ops'', tr_slug = ''ops'', tr_description = [], tr_member_ids = [''u1''],
     tr_member_count = 1\<rparr>"

definition users_desk :: "(UserRecord, UserFormState) desk" where
  "users_desk = (empty_desk ''created_at'' False empty_user_form)\<lparr>dk_items := [ann], dk_selected := Some ''u1'',
     dk_form := user_form_of [] ann\<rparr>"

theorem user_saved_unchanged_witness:
  "\<exists>body ids. submit ur_id user_check user_payload (choose_item ur_id (user_form_of []) ann users_desk) =
     Updates ''u1'' body \<and> jget ''team_ids'' (Some body) = Some (JArr ids) \<and> JStr ''t1'' \<notin> set ids"
proof -
  have h: "ann \<in> set (dk_items users_desk)" "distinct (map ur_id (dk_items users_desk))" "trimmed (ur_username ann)"
    "trimmed (ur_email ann)" "trimmed (ur_full_name ann)" "ur_roles ann \<noteq> []"
    by (simp_all add: users_desk_def) (code_simp, code_simp, code_simp, code_simp)
  show ?thesis using user_saved_unchanged [OF h, of "[ops_team]" "[]"] by (simp add: ops_team_def ann_def)
qed

theorem draft_lost_on_load_witness:
  "let typed = search_timer (search_typed ''a'' ((start_create empty_user_form users_desk)
       \<lparr>dk_form := empty_user_form\<lparr>uf_username := ''bob''\<rparr>\<rparr>)) in
    \<not> dk_creating (loaded ur_id (user_form_of []) (dk_selected typed) [ann] None typed)"
proof -
  have "[ann] \<noteq> []" by simp
  then show ?thesis
    using draft_lost_on_load [where items = "[ann]" and v = "''a''" and blank = empty_user_form and s = users_desk
        and f = "empty_user_form\<lparr>uf_username := ''bob''\<rparr>" and ident = ur_id and form_of = "user_form_of []" and n = None]
    by (simp add: Let_def)
qed

theorem save_after_paging_silent_witness:
  "submit ur_id user_check user_payload
     (loaded ur_id (user_form_of []) (dk_selected users_desk) [ann\<lparr>ur_id := ''u2''\<rparr>] (Some 12) (page_on users_desk)) = Silent"
proof -
  have h: "dk_selected users_desk = Some ''u1''" "''u1'' \<noteq> []" "\<not> dk_creating users_desk"
    "''u1'' \<notin> ur_id ` set [ann\<lparr>ur_id := ''u2''\<rparr>]"
    by (simp_all add: users_desk_def empty_desk_def)
  have c: "user_check False (dk_form users_desk) = None" by code_simp
  show ?thesis
    using save_after_paging_silent [where s = users_desk and i = "''u1''" and check = user_check and ident = ur_id
        and items = "[ann\<lparr>ur_id := ''u2''\<rparr>]" and form_of = "user_form_of []" and n = "Some 12"
        and payload = user_payload] h c
    by (simp add: Let_def)
qed

theorem category_toggled_witness:
  "\<not> all_in_category ''SSH'' (empty_role_form\<lparr>rf_permissions := [''ssh_key:read'', ''server:read'']\<rparr>) \<and>
   all_in_category ''SSH'' (toggleAllInCategory ''SSH'' (empty_role_form\<lparr>rf_permissions := [''ssh_key:read'', ''server:read'']\<rparr>))"
proof -
  let ?f = "empty_role_form\<lparr>rf_permissions := [''ssh_key:read'', ''server:read'']\<rparr>"
  have h: "distinct (rf_permissions ?f)" "''SSH'' \<in> pm_category ` set availablePermissions"
    by simp (simp add: availablePermissions_def)
  have "\<not> all_in_category ''SSH'' ?f" by code_simp
  with category_toggled [OF h] show ?thesis by simp
qed

end
