(* ===== verification/AdminPages.thy ===== *)
theory AdminPages
  imports AdminApi Machine
begin

text \<open>
  Pages that edit a draft beside a list: \<open>NotificationRoutingRulesPage.tsx\<close>,
  \<open>LicenseSettingsPage.tsx\<close> and \<open>FeatureFlagsSettingsPage.tsx\<close> of \<open>features/settings/pages\<close>,
  \<open>features/tags/pages/TagsPage.tsx\<close> and \<open>features/notifications/pages/NotificationsPage.tsx\<close>. What the
  pages of rules and of license keys do alike is defined once. An entity is the dynamic value the
  server sent; a handler is the state after its requests were answered.
\<close>

section \<open>A list with a draft\<close>

record ledger =
  lg_items :: "json list"
  lg_selected :: "json option"
  lg_draft :: json

definition item_id :: "json \<Rightarrow> json option" where
  "item_id e = jget ''id'' (Some e)"

definition selected_entry :: "ledger \<Rightarrow> json option" where
  "selected_entry s = (if lg_selected s = None then None else List.find (\<lambda>e. item_id e = lg_selected s) (lg_items s))"

text \<open>\<open>loadAll\<close> with the list it received; when it fails the state stays as it is.\<close>

definition ledger_loaded :: "json \<Rightarrow> json list \<Rightarrow> ledger \<Rightarrow> ledger" where
  "ledger_loaded blank items s =
     (case items of
        [] \<Rightarrow> \<lparr>lg_items = [], lg_selected = None, lg_draft = blank\<rparr>
      | e # es \<Rightarrow> \<lparr>lg_items = items, lg_selected = nullish_opt (lg_selected s) (item_id e), lg_draft = e\<rparr>)"

definition select_entry :: "json \<Rightarrow> ledger \<Rightarrow> ledger" where
  "select_entry e s = s\<lparr>lg_selected := item_id e, lg_draft := e\<rparr>"

definition new_entry :: "json \<Rightarrow> ledger \<Rightarrow> ledger" where
  "new_entry blank s = s\<lparr>lg_selected := None, lg_draft := blank\<rparr>"

definition updateDraft :: "(string \<times> json option) list \<Rightarrow> ledger \<Rightarrow> ledger" where
  "updateDraft patch s = s\<lparr>lg_draft := JObj (spread (obj_members (lg_draft s)) (members patch))\<rparr>"

definition toggle_value :: "string \<Rightarrow> string \<Rightarrow> ledger \<Rightarrow> ledger" where
  "toggle_value key v s =
     (let current = (case jget key (Some (lg_draft s)) of Some (JArr vs) \<Rightarrow> vs | _ \<Rightarrow> []) in
      updateDraft [(key, Some (JArr
        (if JStr v \<in> set current then filter (\<lambda>x. x \<noteq> JStr v) current else current @ [JStr v])))] s)"

datatype ledger_request = CreateEntry json | UpdateEntry json json

definition save_request :: "(json \<Rightarrow> json) \<Rightarrow> ledger \<Rightarrow> ledger_request" where
  "save_request payload s =
     (case Option.bind (selected_entry s) item_id of
        Some i \<Rightarrow> if truthy (Some i) then UpdateEntry i (payload (lg_draft s)) else CreateEntry (payload (lg_draft s))
      | None \<Rightarrow> CreateEntry (payload (lg_draft s)))"

text \<open>After a save: the list is loaded, then what was saved is selected.\<close>

definition entry_saved :: "json \<Rightarrow> json list option \<Rightarrow> json \<Rightarrow> ledger \<Rightarrow> ledger" where
  "entry_saved blank reload saved s =
     (let t = (case reload of None \<Rightarrow> s | Some items \<Rightarrow> ledger_loaded blank items s) in
      t\<lparr>lg_selected := item_id saved\<rparr>)"

definition entry_deleted :: "json \<Rightarrow> json list option \<Rightarrow> ledger \<Rightarrow> ledger" where
  "entry_deleted blank reload s = (case reload of None \<Rightarrow> s | Some items \<Rightarrow> ledger_loaded blank items s)"

section \<open>Notification routing rules\<close>

definition emptyRule :: json where
  "emptyRule = JObj
     [(''name'', JStr []), (''description'', JStr []), (''enabled'', JBool True),
      (''integration_kind'', JStr ''telegram''), (''event_types'', JArr []), (''priorities'', JArr []),
      (''channels'', JArr []), (''statuses'', JArr []), (''tags'', JArr []), (''tag_prefixes'', JArr []),
      (''metadata'', JObj [])]"

text \<open>\<open>v?.trim()\<close> on a member declared as text.\<close>

definition trimmed_member :: "json option \<Rightarrow> json option" where
  "trimmed_member v = (case v of Some (JStr s) \<Rightarrow> Some (JStr (trim s)) | _ \<Rightarrow> None)"

definition rule_payload :: "json \<Rightarrow> json" where
  "rule_payload draft =
     JObj (jset ''description'' (trimmed_member (jget ''description'' (Some draft)))
       (jset ''name'' (trimmed_member (jget ''name'' (Some draft))) (obj_members draft)))"

record SimulationDraft =
  sm_title :: string
  sm_description :: string
  sm_type :: string
  sm_channel :: string
  sm_priority :: string
  sm_status :: string
  sm_tags :: string
  sm_metadata :: string

text \<open>\<^const>\<open>None\<close> when the metadata does not parse, which is reported and sends nothing.\<close>

definition simulation_body :: "SimulationDraft \<Rightarrow> json option" where
  "simulation_body d =
     (case (if trim (sm_metadata d) = [] then Some (JObj []) else json_parse (sm_metadata d)) of
        None \<Rightarrow> None
      | Some m \<Rightarrow> Some (JObj
          [(''title'', JStr (sm_title d)), (''description'', JStr (sm_description d)), (''type'', JStr (sm_type d)),
           (''channel'', JStr (sm_channel d)), (''priority'', JStr (sm_priority d)), (''status'', JStr (sm_status d)),
           (''tags'', JArr (map JStr (filter (\<lambda>t. t \<noteq> []) (map trim (split_on (CHR '','') (sm_tags d)))))),
           (''metadata'', m)]))"

section \<open>License keys\<close>

definition emptyKeyDraft :: json where
  "emptyKeyDraft = JObj
     [(''name'', JStr []), (''tier'', JStr ''free''), (''status'', JStr ''draft''), (''is_primary'', JBool False),
      (''issued_to'', JStr []), (''expires_at'', JNull),
      (''features'', JArr [JStr ''runtime_topology'', JStr ''docker_compose_runtime'', JStr ''integration_providers'']),
      (''metadata'', JObj [])]"

definition key_payload :: "json \<Rightarrow> json" where
  "key_payload draft =
     JObj (jset ''expires_at''
       (Some (JStr (if truthy (jget ''expires_at'' (Some draft))
                    then take 10 (jstring (jget ''expires_at'' (Some draft))) @ ''T00:00:00Z'' else [])))
       (obj_members draft))"

section \<open>Feature flags\<close>

record RuntimeFeatureFlag =
  ff_id :: string
  ff_key :: string
  ff_name :: string
  ff_category :: string
  ff_description :: string
  ff_enabled :: bool
  ff_metadata :: "json option"

definition group_of :: "RuntimeFeatureFlag \<Rightarrow> string" where
  "group_of f = or_str (ff_category f) ''general''"

text \<open>The groups in the order in which their first flags come.\<close>

definition groupedFlags :: "RuntimeFeatureFlag list \<Rightarrow> (string \<times> RuntimeFeatureFlag list) list" where
  "groupedFlags flags = foldl (\<lambda>acc f. put (group_of f) (nullish (map_of acc (group_of f)) [] @ [f]) acc) [] flags"

definition filteredFlags :: "string \<Rightarrow> string \<Rightarrow> RuntimeFeatureFlag list \<Rightarrow> RuntimeFeatureFlag list" where
  "filteredFlags term category flags =
     filter (\<lambda>f. (trim term = [] \<or>
        str_includes (lower (ff_key f @ '' '' @ ff_name f @ '' '' @ ff_description f)) (lower term)) \<and>
        (category = ''all'' \<or> ff_category f = category)) flags"

definition flag_body :: "RuntimeFeatureFlag \<Rightarrow> json" where
  "flag_body f = JObj (members
     [(''key'', Some (JStr (ff_key f))), (''name'', Some (JStr (ff_name f))), (''category'', Some (JStr (ff_category f))),
      (''description'', Some (JStr (ff_description f))), (''enabled'', Some (JBool (ff_enabled f))),
      (''metadata'', ff_metadata f)])"

definition flags_toggleCategory :: "string \<Rightarrow> bool \<Rightarrow> RuntimeFeatureFlag list \<Rightarrow> RuntimeFeatureFlag list" where
  "flags_toggleCategory target enabled flags =
     map (\<lambda>f. if ff_category f = target then f\<lparr>ff_enabled := enabled\<rparr> else f) flags"

definition flag_switched :: "string \<Rightarrow> RuntimeFeatureFlag list \<Rightarrow> RuntimeFeatureFlag list" where
  "flag_switched i flags = map (\<lambda>f. if ff_id f = i then f\<lparr>ff_enabled := \<not> ff_enabled f\<rparr> else f) flags"

section \<open>Tags\<close>

record TagItem =
  tg_id :: string
  tg_name :: string
  tg_type :: string
  tg_color :: string
  tg_count :: int
  tg_description :: "string option"

record tag_draft =
  td_name :: string
  td_type :: string
  td_color :: string
  td_count :: int
  td_description :: string

record tags_page =
  tp_items :: "TagItem list"
  tp_searchQuery :: string
  tp_editing :: "TagItem option"
  tp_draft :: tag_draft

definition emptyDraft :: tag_draft where
  "emptyDraft = \<lparr>td_name = [], td_type = ''Environment'', td_color = ''indigo'', td_count = 0, td_description = []\<rparr>"

definition filteredTagItems :: "tags_page \<Rightarrow> TagItem list" where
  "filteredTagItems p =
     filter (\<lambda>t. str_includes (lower (tg_name t)) (lower (tp_searchQuery p)) \<or>
       str_includes (lower (tg_type t)) (lower (tp_searchQuery p))) (tp_items p)"

definition totalTagged :: "tags_page \<Rightarrow> int" where
  "totalTagged p = sum_list (map tg_count (filteredTagItems p))"

definition openCreate :: "tags_page \<Rightarrow> tags_page" where
  "openCreate p = p\<lparr>tp_editing := None, tp_draft := emptyDraft\<rparr>"

definition draft_of_tag :: "TagItem \<Rightarrow> tag_draft" where
  "draft_of_tag t = \<lparr>td_name = tg_name t, td_type = tg_type t, td_color = tg_color t, td_count = tg_count t,
     td_description = or_ostr (tg_description t) []\<rparr>"

definition openEdit :: "TagItem \<Rightarrow> tags_page \<Rightarrow> tags_page" where
  "openEdit t p = p\<lparr>tp_editing := Some t, tp_draft := draft_of_tag t\<rparr>"

definition tag_body :: "tag_draft \<Rightarrow> json" where
  "tag_body d = JObj
     [(''name'', JStr (td_name d)), (''type'', JStr (td_type d)), (''color'', JStr (td_color d)),
      (''count'', JNum (td_count d)), (''description'', JStr (td_description d))]"

definition saveTag_call :: "server \<Rightarrow> env \<Rightarrow> tags_page \<Rightarrow> json eff" where
  "saveTag_call srv e p =
     (case tp_editing p of
        Some t \<Rightarrow> tags_update srv e (tg_id t) (tag_body (tp_draft p))
      | None \<Rightarrow> tags_create srv e (tag_body (tp_draft p)))"

definition tag_saved :: "TagItem list option \<Rightarrow> tags_page \<Rightarrow> tags_page" where
  "tag_saved reload p = (case reload of None \<Rightarrow> openCreate p | Some items \<Rightarrow> (openCreate p)\<lparr>tp_items := items\<rparr>)"

definition tag_deleted :: "TagItem \<Rightarrow> tags_page \<Rightarrow> tags_page" where
  "tag_deleted t p = p\<lparr>tp_items := filter (\<lambda>x. tg_id x \<noteq> tg_id t) (tp_items p)\<rparr>"

section \<open>The inbox\<close>

record NotificationItem =
  ni_id :: string
  ni_title :: string
  ni_description :: string
  ni_type :: string
  ni_channel :: string
  ni_priority :: string
  ni_status :: string
  ni_read :: bool
  ni_metadata :: "json option"

record inbox =
  ib_notifications :: "NotificationItem list"
  ib_active :: "string option"
  ib_searchQuery :: string
  ib_filter :: string
  ib_priority :: string
  ib_channel :: string
  ib_status :: string

text \<open>A stored session without a principal makes reading its roles throw; \<^const>\<open>None\<close> then.\<close>

definition isAdmin :: "json \<Rightarrow> bool option" where
  "isAdmin session =
     (if session = JNull then Some False
      else case jprop ''roles'' (jget ''principal'' (Some session)) of
        Inl e \<Rightarrow> None
      | Inr roles \<Rightarrow> Some (case roles of
          Some (JArr rs) \<Rightarrow> list_ex (\<lambda>r. lower (jstring (Some r)) \<in> set [''admin'', ''owner'', ''super-admin'']) rs
        | _ \<Rightarrow> False))"

definition inbox_shows :: "inbox \<Rightarrow> NotificationItem \<Rightarrow> bool" where
  "inbox_shows s n \<longleftrightarrow>
     (trim (ib_searchQuery s) = [] \<or>
        str_includes (lower (ni_title n @ '' '' @ ni_description n @ '' '' @ json_text (nullish (ni_metadata n) (JObj []))))
          (lower (ib_searchQuery s))) \<and>
     (if ib_filter s = ''all'' then True else if ib_filter s = ''unread'' then \<not> ni_read n else ni_type n = ib_filter s) \<and>
     (ib_priority s = [] \<or> ni_priority n = ib_priority s) \<and>
     (ib_channel s = [] \<or> ni_channel n = ib_channel s) \<and>
     (ib_status s = [] \<or> ni_status n = ib_status s)"

definition filteredNotifications :: "inbox \<Rightarrow> NotificationItem list" where
  "filteredNotifications s = filter (inbox_shows s) (ib_notifications s)"

definition unreadCount :: "inbox \<Rightarrow> nat" where
  "unreadCount s = length (filter (\<lambda>n. \<not> ni_read n) (ib_notifications s))"

definition mutateLocal :: "string \<Rightarrow> (NotificationItem \<Rightarrow> NotificationItem) \<Rightarrow> inbox \<Rightarrow> inbox" where
  "mutateLocal i patch s =
     s\<lparr>ib_notifications := map (\<lambda>n. if ni_id n = i then patch n else n) (ib_notifications s)\<rparr>"

text \<open>What the handlers do once their request succeeded; when it fails the error is not caught.\<close>

definition inbox_markAsRead :: "string \<Rightarrow> inbox \<Rightarrow> inbox" where
  "inbox_markAsRead i s = mutateLocal i (\<lambda>n. n\<lparr>ni_read := True\<rparr>) s"

definition inbox_markAsUnread :: "string \<Rightarrow> inbox \<Rightarrow> inbox" where
  "inbox_markAsUnread i s = (mutateLocal i (\<lambda>n. n\<lparr>ni_read := False\<rparr>) s)\<lparr>ib_active := None\<rparr>"

definition inbox_updateStatus :: "string \<Rightarrow> string \<Rightarrow> inbox \<Rightarrow> inbox" where
  "inbox_updateStatus i status s = (mutateLocal i (\<lambda>n. n\<lparr>ni_status := status\<rparr>) s)\<lparr>ib_active := None\<rparr>"

definition inbox_delete :: "string \<Rightarrow> inbox \<Rightarrow> inbox" where
  "inbox_delete i s = s\<lparr>ib_notifications := filter (\<lambda>n. ni_id n \<noteq> i) (ib_notifications s), ib_active := None\<rparr>"

definition inbox_markAllAsRead :: "inbox \<Rightarrow> inbox" where
  "inbox_markAllAsRead s = s\<lparr>ib_notifications := map (\<lambda>n. n\<lparr>ni_read := True\<rparr>) (ib_notifications s)\<rparr>"

definition resetFilters :: "inbox \<Rightarrow> inbox" where
  "resetFilters s = s\<lparr>ib_searchQuery := [], ib_filter := ''all'', ib_priority := [], ib_channel := [], ib_status := []\<rparr>"

text \<open>
  \<open>clearAll\<close>: all requests are made, whatever comes of the others, in the order of the list; the inbox
  is emptied only when all of them succeed.
\<close>

fun remove_all :: "server \<Rightarrow> env \<Rightarrow> NotificationItem list \<Rightarrow> world \<Rightarrow> bool \<times> world" where
  "remove_all srv e [] w = (True, w)"
| "remove_all srv e (n # ns) w =
     (let (r, w1) = notifications_remove srv e (ni_id n) w; (ok, w2) = remove_all srv e ns w1 in
      (ok \<and> (case r of Inl _ \<Rightarrow> False | Inr _ \<Rightarrow> True), w2))"

definition clearAll :: "server \<Rightarrow> env \<Rightarrow> inbox \<Rightarrow> world \<Rightarrow> inbox \<times> world" where
  "clearAll srv e s w =
     (let (ok, w') = remove_all srv e (ib_notifications s) w in
      (if ok then s\<lparr>ib_notifications := []\<rparr> else s, w'))"

definition announcement_body :: "string \<Rightarrow> string \<Rightarrow> string \<Rightarrow> string \<Rightarrow> json" where
  "announcement_body title description priority presentation = JObj
     [(''title'', JStr title), (''description'', JStr description), (''type'', JStr ''system''),
      (''channel'', JStr ''in-app''), (''priority'', JStr priority), (''status'', JStr ''open''),
      (''metadata'', JObj
        [(''category'', JStr ''maintenance''), (''audience'', JStr ''organization''),
         (''presentation'', JStr presentation), (''show_on_login'', JBool True),
         (''requires_ack'', JBool (presentation = ''modal''))])]"

section \<open>What is saved next\<close>

lemma found_by_id:
  "distinct (map item_id es) \<Longrightarrow> e \<in> set es \<Longrightarrow> List.find (\<lambda>x. item_id x = item_id e) es = Some e"
  by (induction es) (auto simp: rev_image_eqI)

text \<open>
  After a rule that is not the first of the list was saved, that rule is the selected one while the
  draft is the first rule: saving again writes the first rule over it.
\<close>

theorem saved_rule_overwritten:
  assumes "distinct (map item_id items)" "r \<in> set items" "item_id r = Some (JStr i)" "i \<noteq> []" "r \<noteq> hd items"
    and "item_id saved = item_id r"
  shows "let t = entry_saved emptyRule (Some items) saved s in
    selected_entry t = Some r \<and> lg_draft t = hd items \<and>
    save_request rule_payload t = UpdateEntry (JStr i) (rule_payload (hd items))"
proof -
  obtain e es where items: "items = e # es" using assms(2) by (cases items) auto
  have t: "entry_saved emptyRule (Some items) saved s =
      \<lparr>lg_items = items, lg_selected = Some (JStr i), lg_draft = e\<rparr>"
    using assms(3,6) by (simp add: entry_saved_def ledger_loaded_def items)
  have "selected_entry \<lparr>lg_items = items, lg_selected = Some (JStr i), lg_draft = e\<rparr> = Some r"
    using found_by_id [OF assms(1,2)] assms(3) by (simp add: selected_entry_def)
  then show ?thesis unfolding t Let_def using assms(3,4) by (simp add: save_request_def items)
qed

text \<open>
  After the selected rule was deleted nothing is selected while the draft is the first rule that is
  left: saving creates that rule a second time.
\<close>

theorem deleted_rule_duplicates_first:
  assumes "lg_selected s = Some (JStr i)" "items \<noteq> []" "Some (JStr i) \<notin> item_id ` set items"
  shows "let t = entry_deleted emptyRule (Some items) s in
    selected_entry t = None \<and> save_request rule_payload t = CreateEntry (rule_payload (hd items))"
proof -
  obtain e es where items: "items = e # es" using assms(2) by (cases items) auto
  have t: "entry_deleted emptyRule (Some items) s =
      \<lparr>lg_items = items, lg_selected = Some (JStr i), lg_draft = e\<rparr>"
    using assms(1) by (simp add: entry_deleted_def ledger_loaded_def items nullish_opt_def)
  have "selected_entry \<lparr>lg_items = items, lg_selected = Some (JStr i), lg_draft = e\<rparr> = None"
    using assms(3) by (auto simp: selected_entry_def find_None_iff) (metis imageI)
  then show ?thesis unfolding t Let_def by (simp add: save_request_def items)
qed

definition rule_a :: json where
  "rule_a = JObj [(''id'', JStr ''a''), (''name'', JStr ''first'')]"

definition rule_b :: json where
  "rule_b = JObj [(''id'', JStr ''b''), (''name'', JStr ''second'')]"

definition rules_page :: ledger where
  "rules_page = \<lparr>lg_items = [rule_a, rule_b], lg_selected = Some (JStr ''b''), lg_draft = rule_b\<rparr>"

theorem saved_rule_overwritten_witness:
  "save_request rule_payload (entry_saved emptyRule (Some [rule_a, rule_b]) rule_b rules_page) =
     UpdateEntry (JStr ''b'') (rule_payload rule_a)"
proof -
  have h: "distinct (map item_id [rule_a, rule_b])" "rule_b \<in> set [rule_a, rule_b]" "item_id rule_b = Some (JStr ''b'')"
    "''b'' \<noteq> []" "rule_b \<noteq> hd [rule_a, rule_b]"
    by (simp_all add: rule_a_def rule_b_def item_id_def)
  from saved_rule_overwritten [OF h refl, of rules_page] show ?thesis by (simp add: Let_def)
qed

theorem deleted_rule_duplicates_first_witness:
  "save_request rule_payload (entry_deleted emptyRule (Some [rule_a]) rules_page) = CreateEntry (rule_payload rule_a)"
proof -
  have h: "lg_selected rules_page = Some (JStr ''b'')" "[rule_a] \<noteq> []" "Some (JStr ''b'') \<notin> item_id ` set [rule_a]"
    by (simp_all add: rules_page_def rule_a_def item_id_def)
  from deleted_rule_duplicates_first [OF h] show ?thesis by (simp add: Let_def)
qed

section \<open>Groups of flags\<close>

lemma group_members:
  "map_of (groupedFlags flags) g =
     (let fs = filter (\<lambda>f. group_of f = g) flags in if fs = [] then None else Some fs)"
proof (induction flags rule: rev_induct)
  case (snoc f flags)
  then show ?case by (auto simp: groupedFlags_def nullish_def Let_def)
qed (simp add: groupedFlags_def)

text \<open>
  The buttons of a group switch exactly those of its flags that have a category: the flags without
  one are shown in the group \<open>general\<close> and keep their state.
\<close>

theorem group_switched:
  "map_of (groupedFlags (flags_toggleCategory g b flags)) g =
     map_option (map (\<lambda>f. if ff_category f = [] then f else f\<lparr>ff_enabled := b\<rparr>)) (map_of (groupedFlags flags) g)"
proof -
  let ?h = "\<lambda>f. if ff_category f = g then f\<lparr>ff_enabled := b\<rparr> else f"
  have g: "group_of (?h f) = group_of f" for f by (simp add: group_of_def)
  have "filter (\<lambda>f. group_of f = g) (map ?h flags) = map ?h (filter (\<lambda>f. group_of f = g) flags)"
    unfolding filter_map by (simp add: comp_def g)
  also have "\<dots> = map (\<lambda>f. if ff_category f = [] then f else f\<lparr>ff_enabled := b\<rparr>) (filter (\<lambda>f. group_of f = g) flags)"
    by (rule map_cong) (auto simp: group_of_def or_str_def split: if_splits)
  finally show ?thesis
    by (simp add: group_members flags_toggleCategory_def Let_def)
qed

section \<open>The count of the inbox\<close>

text \<open>Marking an unread notification lowers the count by one, marking it back restores the inbox.\<close>

theorem reading_counted:
  assumes "distinct (map ni_id (ib_notifications s))" "n \<in> set (ib_notifications s)" "\<not> ni_read n"
  shows "Suc (unreadCount (inbox_markAsRead (ni_id n) s)) = unreadCount s \<and>
    ib_notifications (inbox_markAsUnread (ni_id n) (inbox_markAsRead (ni_id n) s)) = ib_notifications s \<and>
    unreadCount (inbox_markAllAsRead s) = 0"
proof -
  obtain xs ys where ns: "ib_notifications s = xs @ n # ys" using assms(2) by (meson split_list)
  then have "ni_id n \<notin> ni_id ` set xs" "ni_id n \<notin> ni_id ` set ys" using assms(1) by auto
  then have other: "map (\<lambda>m. if ni_id m = ni_id n then f m else m) xs = xs"
    "map (\<lambda>m. if ni_id m = ni_id n then f m else m) ys = ys" for f
    by (auto intro!: map_idI) (metis imageI)+
  have "n\<lparr>ni_read := False\<rparr> = n" using assms(3) by (cases n) simp
  then show ?thesis
    using assms(3) by (simp add: inbox_markAsRead_def inbox_markAsUnread_def inbox_markAllAsRead_def mutateLocal_def
        unreadCount_def ns other comp_def)
qed

definition mail :: "string \<Rightarrow> NotificationItem" where
  "mail i = \<lparr>ni_id = i, ni_title = ''t'', ni_description = [], ni_type = ''system'', ni_channel = ''in-app'',
     ni_priority = ''low'', ni_status = ''open'', ni_read = False, ni_metadata = None\<rparr>"

theorem reading_counted_witness:
  "Suc (unreadCount (inbox_markAsRead ''m1'' \<lparr>ib_notifications = [mail ''m1'', mail ''m2''], ib_active = None,
     ib_searchQuery = [], ib_filter = ''all'', ib_priority = [], ib_channel = [], ib_status = []\<rparr>)) = 2"
proof -
  let ?s = "\<lparr>ib_notifications = [mail ''m1'', mail ''m2''], ib_active = None,
     ib_searchQuery = [], ib_filter = ''all'', ib_priority = [], ib_channel = [], ib_status = []\<rparr>"
  have h: "distinct (map ni_id (ib_notifications ?s))" "mail ''m1'' \<in> set (ib_notifications ?s)" "\<not> ni_read (mail ''m1'')"
    by (simp_all add: mail_def)
  from reading_counted [OF h] show ?thesis by (simp add: mail_def unreadCount_def)
qed

end
