(* ===== verification/LineEditor.thy ===== *)
theory LineEditor
  imports JsPrelude
begin

text \<open>
  The line editor of the Docker terminal when no shell answers on the web socket: the key handlers
  of \<open>DockerTerminalWorkspaceModal.tsx\<close>. They edit a buffer kept in React refs and write
  the characters and escape sequences that should bring the row on the screen in step with it.

  The terminal itself (xterm.js) is not code of the repository. What it does with the sequences
  the handlers write is a parameter, a function from a row, its text and the column of the
  cursor, and a text written to the next row; \<open>row_terminal\<close> collects what the handlers rely on,
  the documented meaning of those sequences.
\<close>

section \<open>The state of the editor\<close>

record tab_cycle =
  tc_prefix :: string
  tc_options :: "string list"
  tc_cursor :: nat

record line =
  fallbackBuffer :: string
  fallbackCursor :: nat
  history :: "string list"
  historyIdx :: int
  historySavedCurrent :: string
  tabComplete :: "tab_cycle option"
  shellCwd :: string
  shellUser :: string
  disposed :: bool
  written :: "string list"

text \<open>The parameter \<open>cid\<close> below is the container's identifier.\<close>

abbreviation esc :: char where
  "esc \<equiv> CHR 0x1B"

definition term_write :: "string \<Rightarrow> ('a line_scheme) \<Rightarrow> 'a line_scheme" where
  "term_write t s = s\<lparr>written := written s @ [t]\<rparr>"

definition safeTermWrite :: "string \<Rightarrow> ('a line_scheme) \<Rightarrow> 'a line_scheme" where
  "safeTermWrite t s = (if disposed s then s else term_write t s)"

definition set_line :: "string \<Rightarrow> nat \<Rightarrow> ('a line_scheme) \<Rightarrow> 'a line_scheme" where
  "set_line b c s = s\<lparr>fallbackBuffer := b, fallbackCursor := c\<rparr>"

definition left_by :: "nat \<Rightarrow> string" where
  "left_by n = esc # CHR ''['' # show_nat n @ ''D''"

definition right_by :: "nat \<Rightarrow> string" where
  "right_by n = esc # CHR ''['' # show_nat n @ ''C''"

definition crlf :: string where
  "crlf = [CHR 0x0D, CHR 0x0A]"

section \<open>The prompt\<close>

definition sgr :: "string \<Rightarrow> string" where
  "sgr ps = esc # CHR ''['' # ps @ ''m''"

definition prompt_sign :: "string \<Rightarrow> string" where
  "prompt_sign user = (if user = ''root'' then ''#'' else ''$'')"

definition buildPrompt :: "string \<Rightarrow> ('a line_scheme) \<Rightarrow> string" where
  "buildPrompt cid s =
     sgr ''38;5;114'' @ shellUser s @ sgr ''0'' @
     sgr ''90'' @ ''@'' @ sgr ''0'' @
     sgr ''38;5;75'' @ take 12 cid @ sgr ''0'' @
     sgr ''90'' @ '':'' @ sgr ''0'' @
     sgr ''38;5;117'' @ shellCwd s @ sgr ''0'' @
     sgr (if shellUser s = ''root'' then ''31'' else ''32'') @ prompt_sign (shellUser s) @ sgr ''0'' @ '' ''"

definition writePrompt :: "string \<Rightarrow> ('a line_scheme) \<Rightarrow> 'a line_scheme" where
  "writePrompt cid s = safeTermWrite (buildPrompt cid s) ((set_line [] 0 s)\<lparr>tabComplete := None\<rparr>)"

section \<open>The keys\<close>

definition setBuffer_prompt ::
  "string \<Rightarrow> nat \<Rightarrow> string \<Rightarrow> ('a line_scheme) \<Rightarrow> 'a line_scheme" where
  "setBuffer_prompt newBuf newCur promptStr s =
     (let s1 = term_write newBuf (term_write promptStr
                 (term_write (esc # ''[2K'' @ [CHR 0x0D]) s));
          tailLen = length newBuf - newCur;
          s2 = (if tailLen > 0 then term_write (left_by tailLen) s1 else s1) in
      set_line newBuf newCur s2)"

definition setBuffer_plain :: "string \<Rightarrow> nat \<Rightarrow> ('a line_scheme) \<Rightarrow> 'a line_scheme" where
  "setBuffer_plain newBuf newCur s =
     (let oldBuf = fallbackBuffer s;
          oldCur = fallbackCursor s;
          s1 = (if oldCur > 0 then term_write (left_by oldCur) s else s);
          s2 = term_write newBuf s1;
          overflow = length oldBuf - length newBuf;
          s3 = (if overflow > 0 then term_write (spaces overflow @ left_by overflow) s2 else s2);
          tailLen = length newBuf - newCur;
          s4 = (if tailLen > 0 then term_write (left_by tailLen) s3 else s3) in
      set_line newBuf newCur s4)"

definition key_backspace :: "('a line_scheme) \<Rightarrow> 'a line_scheme" where
  "key_backspace s =
     (let cur = fallbackCursor s; buf = fallbackBuffer s in
      if cur > 0 then
        (let newBuf = take (cur - 1) buf @ drop cur buf;
             s1 = set_line newBuf (cur - 1) s;
             rest = drop (cur - 1) newBuf in
         safeTermWrite (left_by (length rest + 1))
           (safeTermWrite (rest @ '' '') (safeTermWrite [CHR 0x08] s1)))
      else s)"

definition key_delete :: "('a line_scheme) \<Rightarrow> 'a line_scheme" where
  "key_delete s =
     (let cur = fallbackCursor s; buf = fallbackBuffer s in
      if cur < length buf then
        (let newBuf = take cur buf @ drop (cur + 1) buf;
             s1 = set_line newBuf cur s;
             rest = drop cur newBuf in
         safeTermWrite (left_by (length rest + 1)) (safeTermWrite (rest @ '' '') s1))
      else s)"

definition key_left :: "('a line_scheme) \<Rightarrow> 'a line_scheme" where
  "key_left s =
     (if fallbackCursor s > 0
      then safeTermWrite (esc # ''[D'') (s\<lparr>fallbackCursor := fallbackCursor s - 1\<rparr>) else s)"

definition key_right :: "('a line_scheme) \<Rightarrow> 'a line_scheme" where
  "key_right s =
     (if fallbackCursor s < length (fallbackBuffer s)
      then safeTermWrite (esc # ''[C'') (s\<lparr>fallbackCursor := fallbackCursor s + 1\<rparr>) else s)"

definition key_home :: "('a line_scheme) \<Rightarrow> 'a line_scheme" where
  "key_home s =
     (let n = fallbackCursor s in
      if n > 0 then (safeTermWrite (left_by n) s)\<lparr>fallbackCursor := 0\<rparr> else s)"

definition key_end :: "('a line_scheme) \<Rightarrow> 'a line_scheme" where
  "key_end s =
     (let remaining = length (fallbackBuffer s) - fallbackCursor s in
      if remaining > 0
      then (safeTermWrite (right_by remaining) s)\<lparr>fallbackCursor := length (fallbackBuffer s)\<rparr> else s)"

definition key_up :: "string \<Rightarrow> ('a line_scheme) \<Rightarrow> 'a line_scheme" where
  "key_up cid s =
     (let hist = history s in
      if hist = [] then s
      else
        (let s1 = (if historyIdx s = -1 then s\<lparr>historySavedCurrent := fallbackBuffer s\<rparr> else s);
             newIdx = min (historyIdx s1 + 1) (int (length hist) - 1);
             entry = hist ! nat newIdx;
             s2 = s1\<lparr>historyIdx := newIdx\<rparr> in
         setBuffer_prompt entry (length entry) (buildPrompt cid s2) s2))"

definition key_down :: "string \<Rightarrow> ('a line_scheme) \<Rightarrow> 'a line_scheme" where
  "key_down cid s =
     (if historyIdx s = -1 then s
      else
        (let newIdx = historyIdx s - 1;
             s1 = s\<lparr>historyIdx := newIdx\<rparr>;
             entry = (if newIdx = -1 then historySavedCurrent s1 else history s1 ! nat newIdx) in
         setBuffer_prompt entry (length entry) (buildPrompt cid s1) s1))"

definition key_cancel :: "string \<Rightarrow> ('a line_scheme) \<Rightarrow> 'a line_scheme" where
  "key_cancel cid s =
     (let right = length (fallbackBuffer s) - fallbackCursor s;
          s1 = (if right > 0 then term_write (right_by right) s else s);
          s2 = (set_line [] 0 s1)\<lparr>historyIdx := -1\<rparr> in
      writePrompt cid (term_write (''^C'' @ crlf) s2))"

definition key_clear_left :: "('a line_scheme) \<Rightarrow> 'a line_scheme" where
  "key_clear_left s =
     (let cur = fallbackCursor s; rest = drop cur (fallbackBuffer s) in
      if cur = 0 then s
      else term_write (left_by (length rest + cur))
             (term_write (rest @ spaces cur) (set_line rest 0 (term_write (left_by cur) s))))"

definition key_clear_right :: "('a line_scheme) \<Rightarrow> 'a line_scheme" where
  "key_clear_right s =
     (let cur = fallbackCursor s; buf = fallbackBuffer s; right = length buf - cur in
      if right = 0 then s
      else (term_write (spaces right @ left_by right) s)\<lparr>fallbackBuffer := take cur buf\<rparr>)"

definition drop_last_word :: "string \<Rightarrow> string" where
  "drop_last_word t = rev (dropWhile (\<lambda>c. \<not> is_ws c) (rev t))"

definition key_delete_word :: "('a line_scheme) \<Rightarrow> 'a line_scheme" where
  "key_delete_word s =
     (let cur = fallbackCursor s; buf = fallbackBuffer s;
          wordEnd = drop_last_word (rtrim (take cur buf));
          removed = cur - length wordEnd;
          newBuf = wordEnd @ drop cur buf;
          rest = drop (length wordEnd) newBuf in
      if removed = 0 then s
      else term_write (left_by (length rest + removed))
             (term_write (rest @ spaces removed)
               (term_write (left_by removed) (set_line newBuf (length wordEnd) s))))"

definition insert_text :: "string \<Rightarrow> string \<Rightarrow> ('a line_scheme) \<Rightarrow> 'a line_scheme" where
  "insert_text t shown s =
     (let cur = fallbackCursor s; buf = fallbackBuffer s;
          newBuf = take cur buf @ t @ drop cur buf;
          s1 = term_write shown (set_line newBuf (cur + length t) s);
          rest = drop (cur + length t) newBuf in
      if rest \<noteq> [] then term_write (rest @ left_by (length rest)) s1 else s1)"

text \<open>
  The rest of the handler, for a text that is neither Enter nor Tab: \<open>onData\<close> of theory
  \<^theory_text>\<open>TerminalPane\<close> tests for these two first. A text that is no key of the editor changes nothing. A
  character outside ASCII is several bytes here, so inserting one is not modelled.
\<close>

definition edit_key :: "string \<Rightarrow> string \<Rightarrow> ('a line_scheme) \<Rightarrow> 'a line_scheme" where
  "edit_key cid data s =
     (if data = [CHR 0x7F] then key_backspace s
      else if data = esc # ''[3~'' then key_delete s
      else if data = esc # ''[D'' then key_left s
      else if data = esc # ''[C'' then key_right s
      else if data = esc # ''[H'' \<or> data = [CHR 0x01] then key_home s
      else if data = esc # ''[F'' \<or> data = [CHR 0x05] then key_end s
      else if data = esc # ''[A'' then key_up cid s
      else if data = esc # ''[B'' then key_down cid s
      else if data = [CHR 0x03] then key_cancel cid s
      else if data = [CHR 0x15] then key_clear_left s
      else if data = [CHR 0x0B] then key_clear_right s
      else if data = [CHR 0x17] then key_delete_word s
      else if length data = 1 \<and> 32 \<le> (of_char (hd data) :: nat) then insert_text data data s
      else s)"

definition paste_text :: "string \<Rightarrow> ('a line_scheme) \<Rightarrow> 'a line_scheme" where
  "paste_text t s = (if t = [] then s else insert_text t (replace_all_char (CHR 0x0A) crlf t) s)"

section \<open>What the screen shows\<close>

definition printable :: "char \<Rightarrow> bool" where
  "printable c \<longleftrightarrow> 32 \<le> (of_char c :: nat) \<and> (of_char c :: nat) \<le> 126"

text \<open>
  What the handlers rely on of a terminal of \<open>W\<close> columns, while the cursor stays on one row: text
  overwrites the row from the cursor on, the cursor moves, colours take no room, the row can be
  wiped, a line feed leaves for an empty row, and a text before a control sequence has its own
  effect first.
\<close>

type_synonym row = "string \<times> nat"

definition row_terminal :: "nat \<Rightarrow> (row \<Rightarrow> string \<Rightarrow> row) \<Rightarrow> bool" where
  "row_terminal W vt \<longleftrightarrow>
     (\<forall>r c t. list_all printable t \<and> c \<le> length r \<and> c + length t < W \<longrightarrow>
        vt (r, c) t = (take c r @ t @ drop (c + length t) r, c + length t)) \<and>
     (\<forall>r c n. 0 < n \<and> n \<le> c \<longrightarrow> vt (r, c) (left_by n) = (r, c - n)) \<and>
     (\<forall>r c n. 0 < n \<and> c + n \<le> length r \<longrightarrow> vt (r, c) (right_by n) = (r, c + n)) \<and>
     (\<forall>r c. 0 < c \<longrightarrow> vt (r, c) (esc # ''[D'') = (r, c - 1)) \<and>
     (\<forall>r c. c < length r \<longrightarrow> vt (r, c) (esc # ''[C'') = (r, c + 1)) \<and>
     (\<forall>r c. 0 < c \<longrightarrow> vt (r, c) [CHR 0x08] = (r, c - 1)) \<and>
     (\<forall>r c. vt (r, c) (esc # ''[2K'' @ [CHR 0x0D]) = ([], 0)) \<and>
     (\<forall>r c. vt (r, c) crlf = ([], 0)) \<and>
     (\<forall>p ps rest. list_all (\<lambda>c. is_digit c \<or> c = CHR '';'') ps \<longrightarrow> vt p (sgr ps @ rest) = vt p rest) \<and>
     (\<forall>p t c rest. list_all printable t \<and> (c = esc \<or> c = CHR 0x0D) \<longrightarrow>
        vt p (t @ c # rest) = vt (vt p t) (c # rest))"

definition prompt_text :: "string \<Rightarrow> ('a line_scheme) \<Rightarrow> string" where
  "prompt_text cid s =
     shellUser s @ ''@'' @ take 12 cid @ '':'' @ shellCwd s @ prompt_sign (shellUser s) @ '' ''"

text \<open>The row holds the prompt and the buffer, then blanks, and the cursor is where it should be.\<close>

definition line_shown ::
  "(row \<Rightarrow> string \<Rightarrow> row) \<Rightarrow> row \<Rightarrow> string \<Rightarrow> ('a line_scheme) \<Rightarrow> bool" where
  "line_shown vt start cid s \<longleftrightarrow>
     (\<exists>k. foldl vt start (written s)
            = (prompt_text cid s @ fallbackBuffer s @ spaces k,
               length (prompt_text cid s) + fallbackCursor s))"

text \<open>The state is sound: the cursor is in the buffer, the index in the history, all printable.\<close>

definition line_ok :: "string \<Rightarrow> ('a line_scheme) \<Rightarrow> bool" where
  "line_ok cid s \<longleftrightarrow>
     fallbackCursor s \<le> length (fallbackBuffer s) \<and>
     -1 \<le> historyIdx s \<and> historyIdx s < int (length (history s)) \<and>
     list_all printable (fallbackBuffer s) \<and> list_all printable (historySavedCurrent s) \<and>
     (\<forall>h \<in> set (history s). list_all printable h) \<and>
     list_all printable (prompt_text cid s) \<and> \<not> disposed s"

text \<open>The room an edit needs: the prompt, the buffer and one blank to erase with.\<close>

definition fits :: "nat \<Rightarrow> string \<Rightarrow> ('a line_scheme) \<Rightarrow> bool" where
  "fits W cid s \<longleftrightarrow> length (prompt_text cid s) + length (fallbackBuffer s) + 1 < W"

lemma terminal_text:
  assumes "row_terminal W vt" "list_all printable t" "length a + length t < W"
  shows "vt (a @ b, length a) t = (a @ t @ drop (length t) b, length a + length t)"
  using assms unfolding row_terminal_def by (simp add: drop_append)

lemma terminal_moves:
  assumes "row_terminal W vt"
  shows "0 < n \<Longrightarrow> n \<le> c \<Longrightarrow> vt (r, c) (left_by n) = (r, c - n)"
    "0 < n \<Longrightarrow> c + n \<le> length r \<Longrightarrow> vt (r, c) (right_by n) = (r, c + n)"
    "0 < c \<Longrightarrow> vt (r, c) (esc # ''[D'') = (r, c - 1)"
    "c < length r \<Longrightarrow> vt (r, c) (esc # ''[C'') = (r, c + 1)"
    "0 < c \<Longrightarrow> vt (r, c) [CHR 0x08] = (r, c - 1)"
    "vt (r, c) (esc # ''[2K'' @ [CHR 0x0D]) = ([], 0)"
    "vt (r, c) crlf = ([], 0)"
  using assms unfolding row_terminal_def by simp_all

lemma terminal_colour:
  "row_terminal W vt \<Longrightarrow> list_all (\<lambda>c. is_digit c \<or> c = CHR '';'') ps \<Longrightarrow>
     vt p (sgr ps @ rest) = vt p rest"
  unfolding row_terminal_def by blast

lemma terminal_then:
  assumes "row_terminal W vt" "list_all printable t"
  shows "vt p (t @ esc # rest) = vt (vt p t) (esc # rest)"
    "vt p (t @ CHR 0x0D # rest) = vt (vt p t) (CHR 0x0D # rest)"
proof -
  have "\<And>c. c = esc \<or> c = CHR 0x0D \<Longrightarrow> vt p (t @ c # rest) = vt (vt p t) (c # rest)"
    using assms unfolding row_terminal_def by blast
  then show "vt p (t @ esc # rest) = vt (vt p t) (esc # rest)"
    "vt p (t @ CHR 0x0D # rest) = vt (vt p t) (CHR 0x0D # rest)" by blast+
qed

definition on_screen :: "(row \<Rightarrow> string \<Rightarrow> row) \<Rightarrow> row \<Rightarrow> ('a line_scheme) \<Rightarrow> row" where
  "on_screen vt start s = foldl vt start (written s)"

lemma on_screen_write [simp]:
  "on_screen vt start (term_write t s) = vt (on_screen vt start s) t"
  "\<not> disposed s \<Longrightarrow> on_screen vt start (safeTermWrite t s) = vt (on_screen vt start s) t"
  by (simp_all add: on_screen_def safeTermWrite_def term_write_def)

lemma on_screen_set [simp]:
  "on_screen vt start (set_line b c s) = on_screen vt start s"
  "on_screen vt start (s\<lparr>fallbackBuffer := b\<rparr>) = on_screen vt start s"
  "on_screen vt start (s\<lparr>fallbackCursor := c\<rparr>) = on_screen vt start s"
  "on_screen vt start (s\<lparr>historyIdx := i\<rparr>) = on_screen vt start s"
  "on_screen vt start (s\<lparr>historySavedCurrent := b\<rparr>) = on_screen vt start s"
  "on_screen vt start (s\<lparr>tabComplete := z\<rparr>) = on_screen vt start s"
  by (simp_all add: on_screen_def set_line_def)

lemma write_fields [simp]:
  "fallbackBuffer (term_write t s) = fallbackBuffer s" "fallbackCursor (term_write t s) = fallbackCursor s"
  "history (term_write t s) = history s" "historyIdx (term_write t s) = historyIdx s"
  "historySavedCurrent (term_write t s) = historySavedCurrent s" "shellCwd (term_write t s) = shellCwd s"
  "shellUser (term_write t s) = shellUser s" "disposed (term_write t s) = disposed s"
  "tabComplete (term_write t s) = tabComplete s"
  by (simp_all add: term_write_def)

lemma safe_write_fields [simp]:
  "fallbackBuffer (safeTermWrite t s) = fallbackBuffer s"
  "fallbackCursor (safeTermWrite t s) = fallbackCursor s"
  "history (safeTermWrite t s) = history s" "historyIdx (safeTermWrite t s) = historyIdx s"
  "historySavedCurrent (safeTermWrite t s) = historySavedCurrent s"
  "shellCwd (safeTermWrite t s) = shellCwd s" "shellUser (safeTermWrite t s) = shellUser s"
  "disposed (safeTermWrite t s) = disposed s" "tabComplete (safeTermWrite t s) = tabComplete s"
  by (simp_all add: safeTermWrite_def)

lemma set_line_fields [simp]:
  "fallbackBuffer (set_line b c s) = b" "fallbackCursor (set_line b c s) = c"
  "history (set_line b c s) = history s" "historyIdx (set_line b c s) = historyIdx s"
  "historySavedCurrent (set_line b c s) = historySavedCurrent s"
  "shellCwd (set_line b c s) = shellCwd s" "shellUser (set_line b c s) = shellUser s"
  "disposed (set_line b c s) = disposed s" "tabComplete (set_line b c s) = tabComplete s"
  by (simp_all add: set_line_def)

lemma prompt_text_same [simp]:
  "prompt_text cid (term_write t s) = prompt_text cid s"
  "prompt_text cid (safeTermWrite t s) = prompt_text cid s"
  "prompt_text cid (set_line b c s) = prompt_text cid s"
  "prompt_text cid (s\<lparr>fallbackBuffer := b\<rparr>) = prompt_text cid s"
  "prompt_text cid (s\<lparr>fallbackCursor := c\<rparr>) = prompt_text cid s"
  "prompt_text cid (s\<lparr>historyIdx := i\<rparr>) = prompt_text cid s"
  "prompt_text cid (s\<lparr>historySavedCurrent := b\<rparr>) = prompt_text cid s"
  "prompt_text cid (s\<lparr>tabComplete := z\<rparr>) = prompt_text cid s"
  by (simp_all add: prompt_text_def)

lemma spaces_simps [simp]:
  "length (spaces n) = n" "spaces 0 = []" "drop m (spaces n) = spaces (n - m)"
  "list_all printable (spaces n)" "spaces m @ spaces n = spaces (m + n)"
  "CHR '' '' # spaces n = spaces (Suc n)"
  by (simp_all add: spaces_def list_all_iff printable_def replicate_add)

text \<open>Writing from the cursor on, then going back over part of it.\<close>

lemma line_shown_iff:
  "line_shown vt start cid s \<longleftrightarrow>
     (\<exists>k. on_screen vt start s
            = (prompt_text cid s @ fallbackBuffer s @ spaces k,
               length (prompt_text cid s) + fallbackCursor s))"
  by (simp add: line_shown_def on_screen_def)

text \<open>A row that was shown, cut at the cursor.\<close>

lemma shown_cut:
  assumes "line_shown vt start cid s" "line_ok cid s"
  obtains k where
    "on_screen vt start s = ((prompt_text cid s @ take (fallbackCursor s) (fallbackBuffer s))
        @ drop (fallbackCursor s) (fallbackBuffer s) @ spaces k,
       length (prompt_text cid s @ take (fallbackCursor s) (fallbackBuffer s)))"
proof -
  obtain k where k: "on_screen vt start s = (prompt_text cid s @ fallbackBuffer s @ spaces k,
      length (prompt_text cid s) + fallbackCursor s)"
    using assms(1) line_shown_iff by blast
  moreover have "fallbackCursor s \<le> length (fallbackBuffer s)" using assms(2) by (simp add: line_ok_def)
  ultimately show ?thesis by (intro that [of k]) simp
qed

lemma cut_joined: "take c b @ drop c b @ r = b @ r"
  by (metis append_assoc append_take_drop_id)

lemma redraw:
  assumes "row_terminal W vt" "list_all printable b" "length q + length b + m < W"
    and "length r \<le> length b + m" "0 < length b + m"
  shows "\<exists>k'. vt (vt (q @ r @ spaces k, length q) (b @ spaces m)) (left_by (length b + m))
           = (q @ b @ spaces k', length q)"
proof -
  have "vt (q @ (r @ spaces k), length q) (b @ spaces m)
      = (q @ (b @ spaces m) @ spaces (k - (length b + m - length r)), length q + (length b + m))"
    using terminal_text [OF assms(1), of "b @ spaces m" q "r @ spaces k"] assms(2-4) by simp
  then show ?thesis
    using terminal_moves(1) [OF assms(1), of "length b + m" "length q + (length b + m)"] assms(5)
    by (intro exI [of _ "m + (k - (length b + m - length r))"]) simp
qed

lemma one_space: "'' '' = spaces 1"
  by (simp add: spaces_def)

lemma shown_after:
  assumes "\<exists>k. on_screen vt start t = ((prompt_text cid s @ take c b) @ drop c b @ spaces k,
      length (prompt_text cid s @ take c b))"
    and "c \<le> length b" "prompt_text cid t = prompt_text cid s"
    and "fallbackBuffer t = b" "fallbackCursor t = c"
  shows "line_shown vt start cid t"
  using assms by (auto simp: line_shown_iff cut_joined)

lemma backspace_shown:
  assumes "row_terminal W vt" "line_shown vt start cid s" "line_ok cid s" "fits W cid s"
  shows "line_shown vt start cid (key_backspace s)"
proof (cases "fallbackCursor s")
  case 0
  then show ?thesis using assms(2) by (simp add: key_backspace_def)
next
  case (Suc n)
  let ?b = "fallbackBuffer s" and ?q = "prompt_text cid s @ take n (fallbackBuffer s)"
  have n: "Suc n \<le> length ?b" using assms(3) Suc by (simp add: line_ok_def)
  have d: "\<not> disposed s" using assms(3) by (simp add: line_ok_def)
  obtain k where k: "on_screen vt start s = ((prompt_text cid s @ take (Suc n) ?b)
      @ drop (Suc n) ?b @ spaces k, length (prompt_text cid s @ take (Suc n) ?b))"
    using shown_cut [OF assms(2,3)] Suc by metis
  have t: "take (Suc n) ?b = take n ?b @ [?b ! n]" using n by (simp add: take_Suc_conv_app_nth)
  have "vt (on_screen vt start s) [CHR 0x08]
      = (?q @ (?b ! n # drop (Suc n) ?b) @ spaces k, length ?q)"
    using terminal_moves(5) [OF assms(1)] n unfolding k t by simp
  moreover have "list_all printable (drop (Suc n) ?b)"
    using assms(3) by (auto simp: line_ok_def list_all_iff dest: in_set_dropD)
  ultimately have "\<exists>k'. vt (vt (vt (on_screen vt start s) [CHR 0x08]) (drop (Suc n) ?b @ spaces 1))
      (left_by (length (drop (Suc n) ?b) + 1)) = (?q @ drop (Suc n) ?b @ spaces k', length ?q)"
    using redraw [OF assms(1), of "drop (Suc n) ?b" ?q 1 "?b ! n # drop (Suc n) ?b" k] assms(4) n
    by (simp add: fits_def)
  then show ?thesis
    using n d by (intro shown_after [where b = "take n ?b @ drop (Suc n) ?b" and c = n and s = s])
      (auto simp: key_backspace_def Suc one_space Let_def simp del: spaces_simps(6))
qed

lemma delete_shown:
  assumes "row_terminal W vt" "line_shown vt start cid s" "line_ok cid s" "fits W cid s"
  shows "line_shown vt start cid (key_delete s)"
proof (cases "fallbackCursor s < length (fallbackBuffer s)")
  case False
  then show ?thesis using assms(2) by (simp add: key_delete_def)
next
  case True
  let ?b = "fallbackBuffer s" and ?c = "fallbackCursor s"
  let ?q = "prompt_text cid s @ take ?c ?b"
  have d: "\<not> disposed s" using assms(3) by (simp add: line_ok_def)
  obtain k where k: "on_screen vt start s = (?q @ drop ?c ?b @ spaces k, length ?q)"
    using shown_cut [OF assms(2,3)] by metis
  have "list_all printable (drop (Suc ?c) ?b)"
    using assms(3) by (auto simp: line_ok_def list_all_iff dest: in_set_dropD)
  then have "\<exists>k'. vt (vt (on_screen vt start s) (drop (Suc ?c) ?b @ spaces 1))
      (left_by (length (drop (Suc ?c) ?b) + 1)) = (?q @ drop (Suc ?c) ?b @ spaces k', length ?q)"
    using redraw [OF assms(1), of "drop (Suc ?c) ?b" ?q 1 "drop ?c ?b" k] assms(4) True
    by (simp add: fits_def k)
  then show ?thesis
    using True d by (intro shown_after [where b = "take ?c ?b @ drop (Suc ?c) ?b" and c = ?c and s = s])
      (auto simp: key_delete_def one_space Let_def simp del: spaces_simps(6))
qed

lemma moves_shown:
  assumes "row_terminal W vt" "line_shown vt start cid s" "line_ok cid s"
  shows "line_shown vt start cid (key_left s)" "line_shown vt start cid (key_right s)"
    "line_shown vt start cid (key_home s)" "line_shown vt start cid (key_end s)"
proof -
  let ?p = "prompt_text cid s"
  have d: "\<not> disposed s" and c: "fallbackCursor s \<le> length (fallbackBuffer s)"
    using assms(3) by (simp_all add: line_ok_def)
  obtain k where k: "on_screen vt start s = (?p @ fallbackBuffer s @ spaces k,
      length ?p + fallbackCursor s)" using assms(2) line_shown_iff by blast
  note moves = terminal_moves [OF assms(1)]
  show "line_shown vt start cid (key_left s)"
    using d assms(2) by (auto simp: key_left_def line_shown_iff k moves(3))
  show "line_shown vt start cid (key_right s)"
    using d assms(2) by (auto simp: key_right_def line_shown_iff k moves(4))
  show "line_shown vt start cid (key_home s)"
    using d assms(2) by (auto simp: key_home_def line_shown_iff k moves(1) Let_def)
  show "line_shown vt start cid (key_end s)"
    using d c assms(2) by (auto simp: key_end_def line_shown_iff k moves(2) Let_def)
qed

lemma printable_parts:
  assumes "line_ok cid s"
  shows "list_all printable (drop n (fallbackBuffer s))" "list_all printable (take n (fallbackBuffer s))"
  using assms by (auto simp: line_ok_def list_all_iff dest: in_set_dropD in_set_takeD)

lemma clears_shown:
  assumes "row_terminal W vt" "line_shown vt start cid s" "line_ok cid s" "fits W cid s"
  shows "line_shown vt start cid (key_clear_left s)" "line_shown vt start cid (key_clear_right s)"
proof -
  let ?p = "prompt_text cid s" and ?b = "fallbackBuffer s" and ?c = "fallbackCursor s"
  have c: "?c \<le> length ?b" using assms(3) by (simp add: line_ok_def)
  obtain k where k: "on_screen vt start s = ((?p @ take ?c ?b) @ drop ?c ?b @ spaces k,
      length (?p @ take ?c ?b))" using shown_cut [OF assms(2,3)] by metis
  show "line_shown vt start cid (key_clear_left s)"
  proof (cases "?c = 0")
    case False
    have "vt (on_screen vt start s) (left_by ?c) = (?p @ ?b @ spaces k, length ?p)"
      unfolding k using terminal_moves(1) [OF assms(1)] False c by (simp add: cut_joined)
    moreover have "?b \<noteq> []" using False c by auto
    ultimately have "\<exists>k'. vt (vt (vt (on_screen vt start s) (left_by ?c)) (drop ?c ?b @ spaces ?c))
        (left_by (length (drop ?c ?b) + ?c)) = (?p @ drop ?c ?b @ spaces k', length ?p)"
      using redraw [OF assms(1) printable_parts(1) [OF assms(3)], of ?p ?c ?c ?b k] assms(4) False c
      by (auto simp: fits_def)
    then show ?thesis
      using False c by (intro shown_after [where b = "drop ?c ?b" and c = 0 and s = s])
        (auto simp: key_clear_left_def Let_def)
  qed (simp add: key_clear_left_def assms(2))
  show "line_shown vt start cid (key_clear_right s)"
  proof (cases "length ?b - ?c = 0")
    case False
    have l: "list_all printable (spaces (length ?b - ?c))" by simp
    have "\<exists>k'. vt (vt (on_screen vt start s) ([] @ spaces (length ?b - ?c)))
        (left_by (length [] + (length ?b - ?c)))
      = ((?p @ take ?c ?b) @ [] @ spaces k', length (?p @ take ?c ?b))"
      using redraw [OF assms(1), of "[]" "?p @ take ?c ?b" "length ?b - ?c" "drop ?c ?b" k] assms(4) False c
      unfolding k by (simp add: fits_def)
    then have "\<exists>k'. vt (on_screen vt start s) (spaces (length ?b - ?c) @ left_by (length ?b - ?c))
        = ((?p @ take ?c ?b) @ spaces k', length (?p @ take ?c ?b))"
      using terminal_then(1) [OF assms(1) l] by (simp add: left_by_def)
    then show ?thesis
      using False c by (intro shown_after [where b = "take ?c ?b" and c = ?c and s = s])
        (auto simp: key_clear_right_def Let_def)
  qed (simp add: key_clear_right_def assms(2))
qed

lemma drop_last_word_append: "\<exists>w. t = drop_last_word t @ w"
proof -
  have "t = rev (takeWhile (\<lambda>c. \<not> is_ws c) (rev t) @ dropWhile (\<lambda>c. \<not> is_ws c) (rev t))" by simp
  then show ?thesis unfolding drop_last_word_def rev_append by metis
qed

lemma rtrim_append: "\<exists>w. t = rtrim t @ w"
proof -
  have "t = rev (takeWhile is_ws (rev t) @ dropWhile is_ws (rev t))" by simp
  then show ?thesis unfolding rtrim_def rev_append by metis
qed

lemma word_end:
  obtains n where "n \<le> length t" "drop_last_word (rtrim t) = take n t"
proof -
  obtain u v where u: "rtrim t = drop_last_word (rtrim t) @ u" and v: "t = rtrim t @ v"
    using drop_last_word_append rtrim_append by blast
  have "t = drop_last_word (rtrim t) @ u @ v"
    by (subst v, subst u) simp
  then show ?thesis
    by (metis that append_eq_conv_conj length_append le_add1)
qed

lemma word_shown:
  assumes "row_terminal W vt" "line_shown vt start cid s" "line_ok cid s" "fits W cid s"
  shows "line_shown vt start cid (key_delete_word s)"
proof -
  let ?p = "prompt_text cid s" and ?b = "fallbackBuffer s" and ?c = "fallbackCursor s"
  have c: "?c \<le> length ?b" using assms(3) by (simp add: line_ok_def)
  obtain n where n: "n \<le> ?c" "drop_last_word (rtrim (take ?c ?b)) = take n ?b"
    using word_end [of "take ?c ?b"] c by (metis length_take min.absorb2 take_take min.absorb1)
  let ?q = "?p @ take n ?b"
  obtain k where k: "on_screen vt start s = (?p @ ?b @ spaces k, length ?p + ?c)"
    using assms(2) line_shown_iff by blast
  show ?thesis
  proof (cases "?c - n = 0")
    case True
    then show ?thesis using n c assms(2) by (simp add: key_delete_word_def Let_def)
  next
    case False
    have "vt (on_screen vt start s) (left_by (?c - n)) = (?q @ drop n ?b @ spaces k, length ?q)"
      unfolding k using terminal_moves(1) [OF assms(1)] False n c by (simp add: cut_joined)
    then have "\<exists>k'. vt (vt (vt (on_screen vt start s) (left_by (?c - n))) (drop ?c ?b @ spaces (?c - n)))
        (left_by (length (drop ?c ?b) + (?c - n))) = (?q @ drop ?c ?b @ spaces k', length ?q)"
      using redraw [OF assms(1) printable_parts(1) [OF assms(3)], of ?q ?c "?c - n" "drop n ?b" k]
        assms(4) False n c by (simp add: fits_def)
    then show ?thesis
      using False n c by (intro shown_after [where b = "take n ?b @ drop ?c ?b" and c = n and s = s])
        (auto simp: key_delete_word_def Let_def)
  qed
qed

lemma insert_shown:
  assumes "row_terminal W vt" "line_shown vt start cid s" "line_ok cid s"
    and "list_all printable t" "fits W cid (insert_text t t s)"
  shows "line_shown vt start cid (insert_text t t s)"
proof -
  let ?p = "prompt_text cid s" and ?b = "fallbackBuffer s" and ?c = "fallbackCursor s"
  let ?q = "?p @ take ?c ?b" and ?r = "drop ?c ?b"
  have c: "?c \<le> length ?b" using assms(3) by (simp add: line_ok_def)
  have fit: "length ?p + length ?b + length t + 1 < W"
    using assms(5) c by (auto simp: fits_def insert_text_def Let_def split: if_splits)
  obtain k where k: "on_screen vt start s = (?q @ ?r @ spaces k, length ?q)"
    using shown_cut [OF assms(2,3)] by metis
  obtain j where j: "vt (on_screen vt start s) t
      = ((?q @ t) @ drop (length t) ?r @ spaces j, length (?q @ t))"
    using terminal_text [OF assms(1,4), of ?q "?r @ spaces k"] fit c by (auto simp: k)
  show ?thesis
  proof (cases "?r = []")
    case True
    then show ?thesis
      using c j by (intro shown_after [where b = "take ?c ?b @ t @ ?r" and c = "?c + length t" and s = s])
        (auto simp: insert_text_def Let_def)
  next
    case False
    have "\<exists>k'. vt (vt (vt (on_screen vt start s) t) (?r @ spaces 0)) (left_by (length ?r + 0))
        = ((?q @ t) @ ?r @ spaces k', length (?q @ t))"
      unfolding j using fit False c by (intro redraw [OF assms(1)]) (simp_all add: printable_parts [OF assms(3)])
    then have "\<exists>k'. vt (vt (on_screen vt start s) t) (?r @ left_by (length ?r))
        = ((?q @ t) @ ?r @ spaces k', length (?q @ t))"
      using terminal_then(1) [OF assms(1) printable_parts(1) [OF assms(3)]] by (simp add: left_by_def)
    then show ?thesis
      using False c by (intro shown_after [where b = "take ?c ?b @ t @ ?r" and c = "?c + length t" and s = s])
        (auto simp: insert_text_def Let_def)
  qed
qed

text \<open>The prompt drawn on an empty row.\<close>

lemma prompt_drawn:
  assumes "row_terminal W vt" "list_all printable (prompt_text cid s)"
    and "length (prompt_text cid s) < W"
  shows "vt ([], 0) (buildPrompt cid s) = (prompt_text cid s, length (prompt_text cid s))"
proof -
  have pr: "list_all printable (shellUser s)" "list_all printable (take 12 cid)"
    "list_all printable (shellCwd s)" "list_all printable (prompt_sign (shellUser s))"
    "list_all printable ''@''" "list_all printable '':''" "list_all printable '' ''"
    using assms(2) by (auto simp: prompt_text_def)
  have col: "list_all (\<lambda>c. is_digit c \<or> c = CHR '';'') ps"
    if "ps \<in> {''38;5;114'', ''0'', ''90'', ''38;5;75'', ''38;5;117'', ''31'', ''32''}" for ps
    using that by (auto simp: is_digit_def)
  have piece: "vt (a, n) (sgr ps @ t @ sgr ''0'' @ rest) = vt (a @ t, n + length t) rest"
    if "n = length a" "list_all printable t" "length a + length t < W"
      "ps \<in> {''38;5;114'', ''0'', ''90'', ''38;5;75'', ''38;5;117'', ''31'', ''32''}" for a n ps t rest
    using terminal_colour [OF assms(1) col [OF that(4)], of "(a, n)" "t @ sgr ''0'' @ rest"]
      terminal_then(1) [OF assms(1) that(2), of "(a, n)" "CHR ''['' # ''0'' @ ''m'' @ rest"]
      terminal_colour [OF assms(1) col [of "''0''"], of "(a @ t, n + length t)" rest]
      terminal_text [OF assms(1) that(2,3), of "[]"] that(1) by (simp add: sgr_def)
  have len: "length (shellUser s) + (length (take 12 cid) + (length (shellCwd s)
      + length (prompt_sign (shellUser s)))) + 3 < W" using assms(3) by (simp add: prompt_text_def)
  have sp: "vt (a, n) '' '' = (a @ '' '', n + 1)" if "n = length a" "length a + 1 < W" for a n
    using terminal_text [OF assms(1) pr(7), of a "[]"] that by simp
  have one: "vt (a, n) (sgr ps @ x # sgr ''0'' @ rest) = vt (a @ [x], n + 1) rest"
    if "n = length a" "printable x" "length a + 1 < W"
      "ps \<in> {''38;5;114'', ''0'', ''90'', ''38;5;75'', ''38;5;117'', ''31'', ''32''}" for a n ps x rest
    using piece [of n a "[x]" ps rest] that by simp
  obtain ps where ps: "(if shellUser s = ''root'' then ''31'' else ''32'') = ps"
    "ps \<in> {''38;5;114'', ''0'', ''90'', ''38;5;75'', ''38;5;117'', ''31'', ''32''}" by auto
  show ?thesis
    unfolding buildPrompt_def ps(1) using len pr ps(2)
    by (simp add: piece one sp prompt_text_def del: take_all length_take)
qed

lemma buildPrompt_same [simp]:
  "buildPrompt cid (s\<lparr>historyIdx := i\<rparr>) = buildPrompt cid s"
  "buildPrompt cid (s\<lparr>historySavedCurrent := b\<rparr>) = buildPrompt cid s"
  "buildPrompt cid (s\<lparr>tabComplete := z\<rparr>) = buildPrompt cid s"
  "buildPrompt cid (set_line b' c s) = buildPrompt cid s"
  "buildPrompt cid (term_write t s) = buildPrompt cid s"
  by (simp_all add: buildPrompt_def)

lemma prompt_shown:
  assumes "row_terminal W vt" "on_screen vt start s = ([], 0)" "\<not> disposed s"
    and "list_all printable (prompt_text cid s)" "length (prompt_text cid s) < W"
  shows "line_shown vt start cid (writePrompt cid s)"
  using prompt_drawn [OF assms(1,4,5)] assms(2,3) unfolding line_shown_iff
  by (intro exI [of _ 0]) (simp add: writePrompt_def)

text \<open>Pasting printable text, and the ASCII keys but Enter and Tab.\<close>

datatype edit = Key string | Paste string

fun apply_edit :: "string \<Rightarrow> edit \<Rightarrow> ('a line_scheme) \<Rightarrow> 'a line_scheme" where
  "apply_edit cid (Key data) s = edit_key cid data s"
| "apply_edit cid (Paste t) s = paste_text t s"

fun plain_edit :: "edit \<Rightarrow> bool" where
  "plain_edit (Key data) \<longleftrightarrow>
     data \<noteq> [CHR 0x0D] \<and> data \<noteq> [CHR 0x09] \<and> list_all (\<lambda>c. (of_char c :: nat) < 128) data"
| "plain_edit (Paste t) \<longleftrightarrow> list_all printable t"

lemma history_shown:
  assumes "row_terminal W vt" "line_ok cid s" "list_all printable e"
    and "length (prompt_text cid s) + length e + 1 < W"
    and "prompt_text cid s = prompt_text cid t" "buildPrompt cid s = p"
  shows "line_shown vt start cid (setBuffer_prompt e (length e) p t)"
proof -
  obtain r c where rc: "on_screen vt start t = (r, c)" by fastforce
  have "vt (vt (vt (r, c) (esc # ''[2K'' @ [CHR 0x0D])) p) e
      = (prompt_text cid s @ e, length (prompt_text cid s) + length e)"
    using prompt_drawn [OF assms(1), of cid s] terminal_moves(6) [OF assms(1), of r c]
      terminal_text [OF assms(1,3), of "prompt_text cid s" "[]"] assms(2,4,6)
    by (simp add: line_ok_def)
  then show ?thesis
    unfolding line_shown_iff using assms(5)
    by (intro exI [of _ 0]) (simp add: setBuffer_prompt_def Let_def rc)
qed

lemma setBuffer_prompt_fields [simp]:
  "fallbackBuffer (setBuffer_prompt e c p s) = e" "fallbackCursor (setBuffer_prompt e c p s) = c"
  "history (setBuffer_prompt e c p s) = history s" "historyIdx (setBuffer_prompt e c p s) = historyIdx s"
  "historySavedCurrent (setBuffer_prompt e c p s) = historySavedCurrent s"
  "shellCwd (setBuffer_prompt e c p s) = shellCwd s" "shellUser (setBuffer_prompt e c p s) = shellUser s"
  "disposed (setBuffer_prompt e c p s) = disposed s"
  "tabComplete (setBuffer_prompt e c p s) = tabComplete s"
  "prompt_text cid (setBuffer_prompt e c p s) = prompt_text cid s"
  by (simp_all add: setBuffer_prompt_def Let_def)

lemma nth_printable:
  "line_ok cid s \<Longrightarrow> 0 \<le> i \<Longrightarrow> i < int (length (history s)) \<Longrightarrow> list_all printable (history s ! nat i)"
  unfolding line_ok_def by (metis nth_mem zless_nat_conj nat_int zless_nat_eq_int_zless int_nat_eq)

lemma up_shown:
  assumes "row_terminal W vt" "line_shown vt start cid s" "line_ok cid s" "fits W cid (key_up cid s)"
  shows "line_shown vt start cid (key_up cid s)"
proof (cases "history s = []")
  case True
  then show ?thesis using assms(2) by (simp add: key_up_def)
next
  case False
  have "list_all printable (history s ! nat (min (historyIdx s + 1) (int (length (history s)) - 1)))"
    using assms(3) False by (intro nth_printable [OF assms(3)]) (auto simp: line_ok_def)
  then show ?thesis
    using False assms(4) unfolding key_up_def Let_def
    by (auto simp: fits_def intro!: history_shown [OF assms(1,3)])
qed

lemma down_shown:
  assumes "row_terminal W vt" "line_shown vt start cid s" "line_ok cid s" "fits W cid (key_down cid s)"
  shows "line_shown vt start cid (key_down cid s)"
proof (cases "historyIdx s = -1")
  case True
  then show ?thesis using assms(2) by (simp add: key_down_def)
next
  case False
  then have "list_all printable (history s ! nat (historyIdx s - 1))" if "historyIdx s \<noteq> 0"
    using that assms(3) by (intro nth_printable [OF assms(3)]) (auto simp: line_ok_def)
  moreover have "list_all printable (historySavedCurrent s)" using assms(3) by (simp add: line_ok_def)
  ultimately show ?thesis
    using False assms(4) unfolding key_down_def Let_def
    by (auto simp: fits_def intro!: history_shown [OF assms(1,3)])
qed

lemma cancel_shown:
  assumes "row_terminal W vt" "line_shown vt start cid s" "line_ok cid s" "fits W cid s"
  shows "line_shown vt start cid (key_cancel cid s)"
proof -
  define r where "r = length (fallbackBuffer s) - fallbackCursor s"
  define p where "p = on_screen vt start (if r > 0 then term_write (right_by r) s else s)"
  have "vt p (''^C'' @ crlf) = vt (vt p ''^C'') crlf"
    using terminal_then(2) [OF assms(1), of "''^C''" p newline] by (simp add: crlf_def printable_def)
  also have "\<dots> = ([], 0)" using terminal_moves(7) [OF assms(1)] by (metis surj_pair)
  finally have "vt (vt p (''^C'' @ crlf)) (buildPrompt cid s)
      = (prompt_text cid s, length (prompt_text cid s))"
    using prompt_drawn [OF assms(1), of cid s] assms(3,4) by (simp add: line_ok_def fits_def)
  moreover have "\<not> disposed s" using assms(3) by (simp add: line_ok_def)
  ultimately show ?thesis
    unfolding line_shown_iff
    by (intro exI [of _ 0]) (auto simp: key_cancel_def Let_def writePrompt_def p_def r_def)
qed

lemma line_ok_cong:
  assumes "line_ok cid s" "prompt_text cid t = prompt_text cid s" "history t = history s"
    and "historySavedCurrent t = historySavedCurrent s" "disposed t = disposed s"
    and "historyIdx t = historyIdx s \<or> historyIdx t = -1"
    and "fallbackCursor t \<le> length (fallbackBuffer t)" "list_all printable (fallbackBuffer t)"
  shows "line_ok cid t"
  using assms by (auto simp: line_ok_def)

lemma printable_cut:
  "list_all printable b \<Longrightarrow> list_all printable (take n b)"
  "list_all printable b \<Longrightarrow> list_all printable (drop n b)"
  by (auto simp: list_all_iff dest: in_set_takeD in_set_dropD)

lemma keys_ok:
  assumes "line_ok cid s"
  shows "line_ok cid (key_backspace s)" "line_ok cid (key_delete s)" "line_ok cid (key_left s)"
    "line_ok cid (key_right s)" "line_ok cid (key_home s)" "line_ok cid (key_end s)"
    "line_ok cid (key_clear_left s)" "line_ok cid (key_clear_right s)"
proof -
  have b: "list_all printable (fallbackBuffer s)" "fallbackCursor s \<le> length (fallbackBuffer s)"
    using assms by (auto simp: line_ok_def)
  note defs = key_backspace_def key_delete_def key_left_def key_right_def key_home_def key_end_def
    key_clear_left_def key_clear_right_def
  show "line_ok cid (key_backspace s)" "line_ok cid (key_delete s)" "line_ok cid (key_left s)"
    "line_ok cid (key_right s)" "line_ok cid (key_home s)" "line_ok cid (key_end s)"
    "line_ok cid (key_clear_left s)" "line_ok cid (key_clear_right s)"
    using b by (auto intro!: line_ok_cong [OF assms] simp: defs Let_def printable_cut split: if_splits)
qed

lemma word_ok:
  assumes "line_ok cid s"
  shows "line_ok cid (key_delete_word s)"
proof -
  have c: "fallbackCursor s \<le> length (fallbackBuffer s)" "list_all printable (fallbackBuffer s)"
    using assms by (simp_all add: line_ok_def)
  obtain n where n: "n \<le> fallbackCursor s"
      "drop_last_word (rtrim (take (fallbackCursor s) (fallbackBuffer s))) = take n (fallbackBuffer s)"
    using word_end [of "take (fallbackCursor s) (fallbackBuffer s)"] c
    by (metis length_take min.absorb2 take_take min.absorb1)
  show ?thesis
    using n c printable_parts [OF assms]
    by (auto intro!: line_ok_cong [OF assms] simp: key_delete_word_def Let_def split: if_splits)
qed

lemma insert_ok:
  "line_ok cid s \<Longrightarrow> list_all printable t \<Longrightarrow> line_ok cid (insert_text t u s)"
  by (rule line_ok_cong) (auto simp: insert_text_def Let_def line_ok_def printable_cut split: if_splits)

lemma up_down_ok:
  assumes "line_ok cid s"
  shows "line_ok cid (key_up cid s)" "line_ok cid (key_down cid s)"
proof -
  have "list_all printable (history s ! nat i)" if "0 \<le> i" "i < int (length (history s))" for i
    using nth_printable [OF assms that] .
  then show "line_ok cid (key_up cid s)" "line_ok cid (key_down cid s)"
    using assms by (auto simp: line_ok_def key_up_def key_down_def Let_def)
qed

lemma cancel_ok: "line_ok cid s \<Longrightarrow> line_ok cid (key_cancel cid s)"
  by (rule line_ok_cong [of cid s]) (auto simp: key_cancel_def writePrompt_def Let_def)

lemma edit_key_by:
  assumes "P (key_backspace s)" "P (key_delete s)" "P (key_left s)" "P (key_right s)"
    and "P (key_home s)" "P (key_end s)" "P (key_up cid s)" "P (key_down cid s)"
    and "P (key_cancel cid s)" "P (key_clear_left s)" "P (key_clear_right s)" "P (key_delete_word s)"
    and "length data = 1 \<Longrightarrow> 32 \<le> (of_char (hd data) :: nat) \<Longrightarrow> data \<noteq> [CHR 0x7F] \<Longrightarrow>
      P (insert_text data data s)"
    and "P s"
  shows "P (edit_key cid data s)"
  unfolding edit_key_def using assms by (simp only: if_split [of P] simp_thms) blast

lemma plain_key:
  assumes "plain_edit (Key data)" "length data = 1" "32 \<le> (of_char (hd data) :: nat)" "data \<noteq> [CHR 0x7F]"
  shows "list_all printable data"
proof -
  obtain c where c: "data = [c]" using assms(2) by (cases data) auto
  have "(of_char c :: nat) \<noteq> of_char (CHR 0x7F)" using assms(4) c by (simp only: of_char_eq_iff) simp
  then show ?thesis using assms(1,3) c by (simp add: printable_def)
qed

lemma edits_ok:
  assumes "line_ok cid s" "plain_edit e"
  shows "line_ok cid (apply_edit cid e s)"
proof (cases e)
  case (Key data)
  have "line_ok cid (edit_key cid data s)"
    by (rule edit_key_by)
      (use assms(2) plain_key Key in \<open>auto simp: assms(1) keys_ok [OF assms(1)] word_ok [OF assms(1)]
        up_down_ok [OF assms(1)] cancel_ok [OF assms(1)] insert_ok [OF assms(1)]\<close>)
  then show ?thesis by (simp add: Key)
next
  case (Paste t)
  then show ?thesis using assms insert_ok [OF assms(1)] by (simp add: paste_text_def)
qed

lemma paste_same: "list_all printable t \<Longrightarrow> replace_all_char (CHR 0x0A) r t = t"
  by (induction t) (auto simp: replace_all_char_def printable_def)

lemma edit_shown:
  assumes "row_terminal W vt" "line_shown vt start cid s" "line_ok cid s" "fits W cid s"
    and "plain_edit e" "fits W cid (apply_edit cid e s)"
  shows "line_shown vt start cid (apply_edit cid e s)"
proof (cases e)
  case (Key data)
  note first = assms(1-3)
  have "fits W cid (edit_key cid data s) \<longrightarrow> line_shown vt start cid (edit_key cid data s)"
    by (rule edit_key_by)
      (use assms(5) plain_key Key in \<open>auto simp: assms(2) backspace_shown [OF assms(1-4)]
        delete_shown [OF assms(1-4)] moves_shown [OF first] clears_shown [OF assms(1-4)]
        word_shown [OF assms(1-4)] up_shown [OF first] down_shown [OF first]
        cancel_shown [OF assms(1-4)] insert_shown [OF first]\<close>)
  then show ?thesis using assms(6) by (simp add: Key)
next
  case (Paste t)
  then show ?thesis
    using assms(2,5,6) insert_shown [OF assms(1-3), of t] by (auto simp: paste_text_def paste_same)
qed

fun run_edits :: "string \<Rightarrow> edit list \<Rightarrow> ('a line_scheme) \<Rightarrow> 'a line_scheme" where
  "run_edits cid [] s = s"
| "run_edits cid (e # es) s = run_edits cid es (apply_edit cid e s)"

fun edits_fit :: "nat \<Rightarrow> string \<Rightarrow> edit list \<Rightarrow> ('a line_scheme) \<Rightarrow> bool" where
  "edits_fit W cid [] s \<longleftrightarrow> fits W cid s"
| "edits_fit W cid (e # es) s \<longleftrightarrow> fits W cid s \<and> edits_fit W cid es (apply_edit cid e s)"

lemma edits_fit_now: "edits_fit W cid es s \<Longrightarrow> fits W cid s"
  by (cases es) auto

text \<open>
  Whatever a terminal of \<open>W\<close> columns is, if it follows the control sequences as documented then, from a row
  that shows the prompt and the buffer, edits that keep the line on the row keep the row in step with the
  buffer and the cursor.
\<close>

lemma edits_shown:
  assumes "row_terminal W vt" "line_shown vt start cid s" "line_ok cid s"
    and "list_all plain_edit es" "edits_fit W cid es s"
  shows "line_shown vt start cid (run_edits cid es s) \<and> line_ok cid (run_edits cid es s)"
  using assms(2-5)
proof (induction es arbitrary: s)
  case (Cons e es)
  then have "line_shown vt start cid (apply_edit cid e s)"
    by (intro edit_shown [OF assms(1), of start cid s e]) (auto intro: edits_fit_now)
  moreover have "line_ok cid (apply_edit cid e s)" using edits_ok [of cid s e] Cons.prems by simp
  ultimately show ?case using Cons by simp
qed simp

section \<open>A terminal that follows the sequences\<close>

definition cursor_move :: "char \<Rightarrow> string \<Rightarrow> row \<Rightarrow> row" where
  "cursor_move f ps p =
     (if f = CHR ''D'' then (fst p, snd p - max 1 (nat_of_digits ps))
      else if f = CHR ''C'' then (fst p, snd p + max 1 (nat_of_digits ps))
      else if f = CHR ''K'' then ([], snd p)
      else p)"

definition control_char :: "char \<Rightarrow> row \<Rightarrow> row" where
  "control_char x p =
     (if x = CHR 0x08 then (fst p, snd p - 1)
      else if x = CHR 0x0D then (fst p, 0)
      else if x = CHR 0x0A then ([], snd p)
      else (take (snd p) (fst p) @ [x] @ drop (snd p + 1) (fst p), snd p + 1))"

function simple_terminal :: "row \<Rightarrow> string \<Rightarrow> row" where
  "simple_terminal p [] = p"
| "simple_terminal p (x # t) =
     (if x = esc then
        (case dropWhile (\<lambda>c. is_digit c \<or> c = CHR '';'') (tl t) of
           [] \<Rightarrow> p
         | f # u \<Rightarrow> simple_terminal
             (cursor_move f (takeWhile (\<lambda>c. is_digit c \<or> c = CHR '';'') (tl t)) p) u)
      else simple_terminal (control_char x p) t)"
  by pat_completeness auto
termination
proof (relation "measure (\<lambda>(p, t). length t)")
  fix p :: row and x :: char and t f u
  assume "dropWhile (\<lambda>c. is_digit c \<or> c = CHR '';'') (tl t) = f # u"
  then have "Suc (length u) \<le> length (tl t)"
    using length_dropWhile_le [of "\<lambda>c. is_digit c \<or> c = CHR '';''" "tl t"] by simp
  then show "((cursor_move f (takeWhile (\<lambda>c. is_digit c \<or> c = CHR '';'') (tl t)) p, u), p, x # t)
      \<in> measure (\<lambda>(p, t). length t)" by simp
qed auto

lemma simple_printable:
  "list_all printable t \<Longrightarrow> simple_terminal p (t @ u) = simple_terminal (simple_terminal p t) u"
  by (induction t arbitrary: p) (auto simp: printable_def)

lemma simple_text:
  "list_all printable t \<Longrightarrow> c \<le> length r \<Longrightarrow>
     simple_terminal (r, c) t = (take c r @ t @ drop (c + length t) r, c + length t)"
proof (induction t arbitrary: r c)
  case (Cons x t)
  then have "x \<noteq> esc" "control_char x (r, c) = (take c r @ [x] @ drop (c + 1) r, c + 1)"
    by (auto simp: control_char_def printable_def)
  then show ?case using Cons by (simp add: min_absorb2 add.commute)
qed simp

lemma simple_sequence:
  assumes "list_all (\<lambda>c. is_digit c \<or> c = CHR '';'') ps" "\<not> is_digit f" "f \<noteq> CHR '';''"
  shows "simple_terminal p (esc # CHR ''['' # ps @ f # u) = simple_terminal (cursor_move f ps p) u"
proof -
  have "dropWhile (\<lambda>c. is_digit c \<or> c = CHR '';'') (ps @ f # u) = f # u"
    "takeWhile (\<lambda>c. is_digit c \<or> c = CHR '';'') (ps @ f # u) = ps"
    using assms by (induction ps) auto
  then show ?thesis by simp
qed

lemma simple_moves:
  "simple_terminal (r, c) (left_by n) = (r, c - max 1 n)"
  "simple_terminal (r, c) (right_by n) = (r, c + max 1 n)"
  "simple_terminal (r, c) (esc # ''[D'') = (r, c - 1)"
  "simple_terminal (r, c) (esc # ''[C'') = (r, c + 1)"
  "simple_terminal (r, c) (esc # ''[2K'' @ [CHR 0x0D]) = ([], 0)"
  "list_all (\<lambda>c. is_digit c \<or> c = CHR '';'') ps \<Longrightarrow>
     simple_terminal p (sgr ps @ rest) = simple_terminal p rest"
proof -
  have digits: "list_all (\<lambda>c. is_digit c \<or> c = CHR '';'') (show_nat n)" for n
    using show_nat_digits [of n] by (auto simp: list_all_iff)
  have f: "\<not> is_digit CHR ''D''" "\<not> is_digit CHR ''C''" "\<not> is_digit CHR ''K''"
    "\<not> is_digit CHR ''m''" "is_digit CHR ''2''" by (simp_all add: is_digit_def)
  have none: "nat_of_digits [] = 0" by (simp add: nat_of_digits_def)
  show "simple_terminal (r, c) (left_by n) = (r, c - max 1 n)"
    using simple_sequence [OF digits f(1), of "(r, c)" n "[]"] by (simp add: left_by_def cursor_move_def)
  show "simple_terminal (r, c) (right_by n) = (r, c + max 1 n)"
    using simple_sequence [OF digits f(2), of "(r, c)" n "[]"] by (simp add: right_by_def cursor_move_def)
  show "simple_terminal (r, c) (esc # ''[D'') = (r, c - 1)"
    using simple_sequence [of "[]" "CHR ''D''" "(r, c)" "[]"] f by (simp add: cursor_move_def none)
  show "simple_terminal (r, c) (esc # ''[C'') = (r, c + 1)"
    using simple_sequence [of "[]" "CHR ''C''" "(r, c)" "[]"] f by (simp add: cursor_move_def none)
  show "simple_terminal (r, c) (esc # ''[2K'' @ [CHR 0x0D]) = ([], 0)"
    using simple_sequence [of "''2''" "CHR ''K''" "(r, c)" "[CHR 0x0D]"] f
    by (simp add: cursor_move_def control_char_def)
  show "simple_terminal p (sgr ps @ rest) = simple_terminal p rest"
    if "list_all (\<lambda>c. is_digit c \<or> c = CHR '';'') ps"
    using simple_sequence [OF that f(4), of p rest] by (simp add: sgr_def cursor_move_def)
qed

lemma simple_terminal_ok: "row_terminal W simple_terminal"
  unfolding row_terminal_def
proof (intro conjI allI impI)
qed (auto simp: simple_text simple_printable simple_moves control_char_def crlf_def max_def
  simp del: simple_terminal.simps(2) simp: simple_moves(5) [simplified] simple_terminal.simps(2) [of _ "CHR 0x08"]
    simple_terminal.simps(2) [of _ "CHR 0x0D"] simple_terminal.simps(2) [of _ "CHR 0x0A"])

definition sample_line :: line where
  "sample_line = writePrompt ''0123456789abcdef''
     \<lparr>fallbackBuffer = [], fallbackCursor = 0, history = [''ls -la''], historyIdx = -1,
      historySavedCurrent = [], tabComplete = None, shellCwd = ''/'', shellUser = ''root'',
      disposed = False, written = []\<rparr>"

definition sample_edits :: "edit list" where
  "sample_edits = [Key ''l'', Key ''x'', Key [CHR 0x7F], Key ''s'', Key (esc # ''[D''), Paste ''-'',
     Key (esc # ''[A''), Key [CHR 0x17], Key (esc # ''[B''), Key [CHR 0x15], Key [CHR 0x03]]"

lemma sample_line_ok:
  "line_ok ''0123456789abcdef'' sample_line" "list_all plain_edit sample_edits"
  "edits_fit 80 ''0123456789abcdef'' sample_edits sample_line"
  by (simp add: sample_line_def line_ok_def writePrompt_def printable_def prompt_text_def prompt_sign_def)
    code_simp+

lemma sample_line_shown: "line_shown simple_terminal ([], 0) ''0123456789abcdef'' sample_line"
  unfolding sample_line_def
  by (rule prompt_shown [OF simple_terminal_ok, where W = 80])
    (simp_all add: on_screen_def prompt_text_def prompt_sign_def printable_def)

end
