(* ===== verification/TerminalPane.thy ===== *)
theory TerminalPane
  imports LineEditor ServerApi Machine
begin

text \<open>
  One pane of the Docker terminal: \<open>execShell\<close> and \<open>DockerTerminalPane\<close> of
  \<open>DockerTerminalWorkspaceModal.tsx\<close>. The pane follows a web socket; when the socket gives no shell
  it falls back to a command mode where a line is edited locally (theory \<^theory_text>\<open>LineEditor\<close>) and
  every command is one call of the exec endpoint. A call that is awaited is a task of the state:
  its continuation runs when the call is settled, at any later step.
\<close>

section \<open>execShell\<close>

definition EXEC_SHELLS :: "string list list" where
  "EXEC_SHELLS = [[''sh'', ''-c''], [''/bin/sh'', ''-c''], [''bash'', ''-c''], [''/bin/bash'', ''-c''],
     [''ash'', ''-c''], [''/bin/ash'', ''-c'']]"

definition exec_endpoint :: "string \<Rightarrow> string \<Rightarrow> string" where
  "exec_endpoint environmentId containerId =
     ''/v1/environments/'' @ environmentId @ ''/docker/containers/'' @ containerId @ ''/exec''"

definition exec_options :: "string list \<Rightarrow> string \<Rightarrow> fetch_options" where
  "exec_options shell command =
     \<lparr>opt_method = ''POST'', opt_headers = [],
      opt_body = TextBody (json_text (JObj [(''command'', JArr (map JStr (shell @ [command])))]))\<rparr>"

text \<open>\<open>res.output ?? ""\<close>; reading a member of null throws, inside the \<open>try\<close> of the loop.\<close>

definition exec_output :: "json \<Rightarrow> thrown + json" where
  "exec_output res =
     (if res = JNull then Inl TypeError
      else Inr (nullish (jnullish (jget ''output'' (Some res)) None) (JStr [])))"

fun exec_loop ::
  "server \<Rightarrow> env \<Rightarrow> string \<Rightarrow> string \<Rightarrow> thrown \<Rightarrow> string list list \<Rightarrow> json eff" where
  "exec_loop srv e url command lastError [] = eff_throw lastError"
| "exec_loop srv e url command lastError (shell # shells) =
     eff_catch
       (eff_bind (apiFetch srv e url (exec_options shell command)) (\<lambda>res w. (exec_output res, w)))
       (\<lambda>err. exec_loop srv e url command err shells)"

definition execShell :: "server \<Rightarrow> env \<Rightarrow> string \<Rightarrow> string \<Rightarrow> string \<Rightarrow> json eff" where
  "execShell srv e environmentId containerId command =
     exec_loop srv e (exec_endpoint environmentId containerId) command (Error ''exec failed'') EXEC_SHELLS"

text \<open>What the callers do with it: a method of a string, which throws on another value.\<close>

fun as_text :: "thrown + json \<Rightarrow> thrown + string" where
  "as_text (Inl err) = Inl err"
| "as_text (Inr (JStr s)) = Inr s"
| "as_text (Inr v) = Inl TypeError"

section \<open>The state of a pane\<close>

datatype connection = Connecting | Connected | Closed | Failed | Fallback

datatype socket_state = SocketConnecting | SocketOpen | SocketClosed

record pane_session =
  ps_containerName :: string
  ps_containerId :: string
  ps_environmentId :: string

text \<open>A call of \<open>execShell\<close> that is awaited, by the continuation it has.\<close>

datatype task =
    TabTask string nat string
  | CdTask
  | CommandTask
  | UserTask
  | CwdTask

record pane = line +
  fallbackMode :: bool
  fallbackRunning :: bool
  connectionStatus :: connection
  established :: bool
  receivedOutput :: bool
  connectionTimeout :: bool
  promptTimeout :: bool
  socketState :: socket_state
  socketSent :: "json list"
  sessionIds :: "json list"
  notices :: "toast list"
  awaiting :: "(task \<times> string) list"
  term_cols :: nat
  term_rows :: nat
  proposed :: "json option"

definition await :: "task \<Rightarrow> string \<Rightarrow> pane \<Rightarrow> pane" where
  "await t command s = s\<lparr>awaiting := awaiting s @ [(t, command)]\<rparr>"

text \<open>\<open>writeln\<close> ends the text with a line break.\<close>

definition safeTermWriteln :: "string \<Rightarrow> pane \<Rightarrow> pane" where
  "safeTermWriteln t s = safeTermWrite (t @ crlf) s"

section \<open>Quoting\<close>

definition quote :: string where
  "quote = [CHR 0x27]"

definition escape_quotes :: "string \<Rightarrow> string" where
  "escape_quotes t = replace_all_char (CHR 0x27) (quote @ [CHR 0x5C] @ quote @ quote) t"

definition quoted :: "string \<Rightarrow> string" where
  "quoted t = quote @ t @ quote"

section \<open>Completing a word\<close>

definition up_to_last_space :: "string \<Rightarrow> string" where
  "up_to_last_space p = rev (dropWhile (\<lambda>c. c \<noteq> CHR '' '') (rev p))"

definition last_word :: "string \<Rightarrow> string" where
  "last_word p = rev (takeWhile (\<lambda>c. c \<noteq> CHR '' '') (rev p))"

definition completion_command :: "string \<Rightarrow> string \<Rightarrow> string" where
  "completion_command cwd word =
     ''cd '' @ quoted (escape_quotes cwd) @ '' 2>/dev/null; compgen -f '' @ quoted (escape_quotes word)
       @ '' 2>/dev/null || ls -1p '' @ quoted (escape_quotes word) @ '' 2>/dev/null || true''"

definition handleTabComplete :: "pane \<Rightarrow> pane" where
  "handleTabComplete s =
     (let buf = fallbackBuffer s; cur = fallbackCursor s; prfx = take cur buf;
          word = last_word prfx;
          ask = (if word = [] then s
                 else await (TabTask buf cur prfx) (completion_command (shellCwd s) word) s) in
      case tabComplete s of
        None \<Rightarrow> ask
      | Some tc \<Rightarrow>
          if tc_prefix tc = prfx \<and> tc_options tc \<noteq> [] then
            (let n = (tc_cursor tc + 1) mod length (tc_options tc);
                 chosen = tc_options tc ! n;
                 s1 = s\<lparr>tabComplete := Some (tc\<lparr>tc_cursor := n\<rparr>)\<rparr> in
             setBuffer_plain (up_to_last_space prfx @ chosen @ drop cur buf)
               (length (up_to_last_space prfx) + length chosen) s1)
          else ask)"

definition option_piece :: "string \<Rightarrow> string" where
  "option_piece opt = take 20 (opt @ spaces (20 - length opt)) @ ''  ''"

definition grey :: "string \<Rightarrow> string" where
  "grey t = sgr ''90'' @ t @ sgr ''0''"

fun write_options :: "nat \<Rightarrow> string \<Rightarrow> string list \<Rightarrow> pane \<Rightarrow> pane" where
  "write_options cols l [] s = (if l \<noteq> [] then safeTermWrite (grey l @ crlf) s else s)"
| "write_options cols l (opt # opts) s =
     (let piece = option_piece opt in
      if length l + length piece > cols
      then write_options cols piece opts (safeTermWrite (grey l @ crlf) s)
      else write_options cols (l @ piece) opts s)"

definition completed :: "string \<Rightarrow> string \<Rightarrow> nat \<Rightarrow> string \<Rightarrow> thrown + string \<Rightarrow> pane \<Rightarrow> pane" where
  "completed cid buf cur prfx answer s =
     (case answer of
        Inl err \<Rightarrow> s
      | Inr raw \<Rightarrow>
          (let options = filter (\<lambda>t. t \<noteq> []) (map trim (lines_of raw)); before = up_to_last_space prfx in
           case options of
             [] \<Rightarrow> s
           | [opt] \<Rightarrow>
               (setBuffer_plain (before @ opt @ drop cur buf) (length before + length opt) s)
                 \<lparr>tabComplete := None\<rparr>
           | opts \<Rightarrow>
               (let cols = (if term_cols s = 0 then 80 else term_cols s);
                    s1 = write_options cols [] opts (safeTermWrite crlf s);
                    s2 = s1\<lparr>tabComplete := Some \<lparr>tc_prefix = prfx, tc_options = opts, tc_cursor = 0\<rparr>\<rparr>;
                    s3 = safeTermWrite buf (safeTermWrite (buildPrompt cid s2) s2);
                    rest = drop cur buf in
                if rest \<noteq> [] then safeTermWrite (left_by (length rest)) s3 else s3)))"

section \<open>Running a command\<close>

definition SENTINEL :: string where
  "SENTINEL = ''__EINFRA_CWD__''"

definition sentinel_mark :: string where
  "sentinel_mark = newline @ SENTINEL @ '':''"

definition term_env :: "pane \<Rightarrow> string" where
  "term_env s = ''COLUMNS='' @ show_nat (term_cols s) @ '' LINES='' @ show_nat (term_rows s)"

definition cd_command :: "string \<Rightarrow> pane \<Rightarrow> string" where
  "cd_command cmd s =
     (let target = escape_quotes (or_str (trim (drop 2 cmd)) ''~'') in
      term_env s @ '' cd '' @ quoted (escape_quotes (shellCwd s)) @ '' 2>/dev/null; cd '' @ quoted target
        @ '' && pwd'')"

definition proxy_ls :: string where
  "proxy_ls = ''ls() { command ls -C --color=auto '' @ dquote @ ''$@'' @ dquote
     @ '' 2>/dev/null || command ls -C '' @ dquote @ ''$@'' @ dquote
     @ '' 2>/dev/null || command ls '' @ dquote @ ''$@'' @ dquote @ ''; };''"

definition full_command :: "string \<Rightarrow> pane \<Rightarrow> string" where
  "full_command cmd s =
     term_env s @ '' '' @ ''export COLUMNS='' @ show_nat (term_cols s) @ '' LINES='' @ show_nat (term_rows s)
       @ '' TERM=xterm-256color;'' @ '' '' @ proxy_ls @ '' cd '' @ quoted (escape_quotes (shellCwd s))
       @ '' 2>/dev/null; '' @ cmd @ ''; printf '' @ quoted ([CHR 0x5C] @ ''n'' @ SENTINEL @ '':%s'')
       @ '' '' @ dquote @ ''$(pwd)'' @ dquote"

definition push_history :: "string \<Rightarrow> string list \<Rightarrow> string list" where
  "push_history cmd hist =
     (if hist \<noteq> [] \<and> hd hist = cmd then hist
      else (let h = cmd # hist in if length h > 200 then butlast h else h))"

definition runFallbackCommand :: "string \<Rightarrow> string \<Rightarrow> pane \<Rightarrow> pane" where
  "runFallbackCommand cid rawCmd s =
     (let cmd = trim rawCmd in
      if cmd = ''clear'' \<or> cmd = ''cls'' then writePrompt cid (safeTermWrite (esc # ''c'') s)
      else
        (let s1 = safeTermWrite crlf s in
         if cmd = [] then writePrompt cid s1
         else
           (let s2 = s1\<lparr>history := push_history cmd (history s1), historyIdx := -1,
                        historySavedCurrent := []\<rparr> in
            if fallbackRunning s2 then writePrompt cid s2
            else
              (let s3 = s2\<lparr>fallbackRunning := True, tabComplete := None\<rparr> in
               if cmd = ''cd'' \<or> starts_with ''cd '' cmd \<or> starts_with (''cd'' @ [CHR 0x09]) cmd
               then await CdTask (cd_command cmd s3) s3
               else await CommandTask (full_command cmd s3) s3))))"

definition end_command :: "string \<Rightarrow> pane \<Rightarrow> pane" where
  "end_command cid s = writePrompt cid (s\<lparr>fallbackRunning := False\<rparr>)"

definition write_error :: "(thrown \<Rightarrow> string) \<Rightarrow> thrown \<Rightarrow> pane \<Rightarrow> pane" where
  "write_error platform err s = safeTermWrite (sgr ''31'' @ thrown_message platform err @ sgr ''0'' @ crlf) s"

definition cwd_if_absolute :: "string \<Rightarrow> pane \<Rightarrow> pane" where
  "cwd_if_absolute t s = (if starts_with ''/'' t then s\<lparr>shellCwd := t\<rparr> else s)"

definition cd_settled :: "(thrown \<Rightarrow> string) \<Rightarrow> string \<Rightarrow> thrown + string \<Rightarrow> pane \<Rightarrow> pane" where
  "cd_settled platform cid answer s =
     end_command cid
       (case answer of
          Inl err \<Rightarrow> write_error platform err s
        | Inr newCwd \<Rightarrow> cwd_if_absolute (trim newCwd) s)"

text \<open>Where a text occurs last: what is before it and what comes after it.\<close>

fun last_split :: "string \<Rightarrow> string \<Rightarrow> (string \<times> string) option" where
  "last_split pat [] = (if pat = [] then Some ([], []) else None)"
| "last_split pat (c # t) =
     (case last_split pat t of
        Some (before, after) \<Rightarrow> Some (c # before, after)
      | None \<Rightarrow> if starts_with pat (c # t) then Some ([], drop (length pat) (c # t)) else None)"

fun unix_newlines :: "string \<Rightarrow> string" where
  "unix_newlines [] = []"
| "unix_newlines [c] = [if c = CHR 0x0D then CHR 0x0A else c]"
| "unix_newlines (c # d # t) =
     (if c = CHR 0x0D \<and> d = CHR 0x0A then CHR 0x0A # unix_newlines t
      else (if c = CHR 0x0D then CHR 0x0A else c) # unix_newlines (d # t))"

definition write_output :: "string \<Rightarrow> pane \<Rightarrow> pane" where
  "write_output out s =
     (if out = [] then s
      else
        (let normalized = unix_newlines out;
             s1 = safeTermWrite (replace_all_char (CHR 0x0A) crlf normalized) s in
         if \<not> ends_with newline normalized \<and> length normalized > 0 then safeTermWrite crlf s1 else s1))"

definition command_settled :: "(thrown \<Rightarrow> string) \<Rightarrow> string \<Rightarrow> thrown + string \<Rightarrow> pane \<Rightarrow> pane" where
  "command_settled platform cid answer s =
     end_command cid
       (case answer of
          Inl err \<Rightarrow> write_error platform err s
        | Inr raw \<Rightarrow>
            (case last_split sentinel_mark raw of
               None \<Rightarrow> write_output raw s
             | Some (out, after) \<Rightarrow> write_output out (cwd_if_absolute (trim after) s)))"

section \<open>Falling back to the command mode\<close>

definition user_command :: string where
  "user_command = ''id -un 2>/dev/null || whoami 2>/dev/null || echo root''"

text \<open>Characters beyond ASCII are their UTF-8 bytes.\<close>

definition dot :: string where
  "dot = [CHR 0xC2, CHR 0xB7]"

definition mode_hint :: string where
  "mode_hint = grey (''Fallback command mode  '' @ dot @ ''  ''
     @ [CHR 0xE2, CHR 0x86, CHR 0x91, CHR 0xE2, CHR 0x86, CHR 0x93] @ '' history  '' @ dot
     @ ''  Tab complete  '' @ dot @ ''  Ctrl+C cancel'')"

definition enableFallbackMode :: "json option \<Rightarrow> pane \<Rightarrow> pane" where
  "enableFallbackMode reason s =
     (if disposed s \<or> fallbackMode s then s
      else
        (let s1 = safeTermWriteln [] (s\<lparr>fallbackMode := True, established := True, connectionStatus := Fallback\<rparr>);
             s2 = (if truthy reason then safeTermWriteln (sgr ''33'' @ jstring reason @ sgr ''0'') s1 else s1) in
         await UserTask user_command (safeTermWriteln mode_hint s2)))"

definition user_settled :: "thrown + string \<Rightarrow> pane \<Rightarrow> pane" where
  "user_settled answer s =
     await CwdTask ''pwd''
       (case answer of
          Inl err \<Rightarrow> s
        | Inr u \<Rightarrow> if trim u \<noteq> [] then s\<lparr>shellUser := trim u\<rparr> else s)"

definition cwd_settled :: "string \<Rightarrow> thrown + string \<Rightarrow> pane \<Rightarrow> pane" where
  "cwd_settled cid answer s =
     writePrompt cid (case answer of Inl err \<Rightarrow> s | Inr p \<Rightarrow> cwd_if_absolute (trim p) s)"

fun continue :: "(thrown \<Rightarrow> string) \<Rightarrow> string \<Rightarrow> task \<Rightarrow> thrown + string \<Rightarrow> pane \<Rightarrow> pane" where
  "continue platform cid (TabTask buf cur prfx) answer s = completed cid buf cur prfx answer s"
| "continue platform cid CdTask answer s = cd_settled platform cid answer s"
| "continue platform cid CommandTask answer s = command_settled platform cid answer s"
| "continue platform cid UserTask answer s = user_settled answer s"
| "continue platform cid CwdTask answer s = cwd_settled cid answer s"

text \<open>The \<open>i\<close>-th awaited call is settled.\<close>

definition settle :: "(thrown \<Rightarrow> string) \<Rightarrow> string \<Rightarrow> nat \<Rightarrow> thrown + json \<Rightarrow> pane \<Rightarrow> pane" where
  "settle platform cid i answer s =
     (if i < length (awaiting s)
      then continue platform cid (fst (awaiting s ! i)) (as_text answer)
             (s\<lparr>awaiting := remove_at i (awaiting s)\<rparr>)
      else s)"

section \<open>The web socket\<close>

definition terminal_endpoint :: "pane_session \<Rightarrow> string" where
  "terminal_endpoint ps =
     ''/ws/terminal?runtime=docker&environment_id='' @ encodeURIComponent (ps_environmentId ps)
       @ ''&container_id='' @ encodeURIComponent (ps_containerId ps)"

definition socket_send :: "json \<Rightarrow> pane \<Rightarrow> pane" where
  "socket_send v s = s\<lparr>socketSent := socketSent s @ [v]\<rparr>"

definition input_message :: "string \<Rightarrow> json" where
  "input_message t = JObj [(''type'', JStr ''input''), (''data'', JStr t)]"

definition sendResize :: "pane \<Rightarrow> pane" where
  "sendResize s =
     (case proposed s of
        Some d \<Rightarrow>
          if \<not> disposed s \<and> socketState s = SocketOpen
          then socket_send (JObj [(''type'', JStr ''resize''), (''data'', JStr (json_text d))]) s else s
      | None \<Rightarrow> s)"

text \<open>The effect that connects the pane: its fields are reset and a socket is opened.\<close>

definition connect :: "pane_session \<Rightarrow> pane \<Rightarrow> pane" where
  "connect ps s =
     safeTermWriteln (grey ''Connecting to '' @ sgr ''1'' @ ps_containerName ps @ sgr ''0'' @ '' ''
         @ grey (''('' @ take 12 (ps_containerId ps) @ '')'' @ [CHR 0xE2, CHR 0x80, CHR 0xA6]))
       (s\<lparr>fallbackMode := False, fallbackRunning := False, fallbackBuffer := [], fallbackCursor := 0,
          shellCwd := ''/'', shellUser := ''root'', history := [], historyIdx := -1, tabComplete := None,
          disposed := False, established := False, receivedOutput := False,
          connectionStatus := Connecting, socketState := SocketConnecting,
          connectionTimeout := True, promptTimeout := True, awaiting := []\<rparr>)"

definition terminal_note :: "string \<Rightarrow> pane \<Rightarrow> pane" where
  "terminal_note d s =
     s\<lparr>notices := notices s @ [toast_of ''warning'' ''Docker terminal fallback'' d]\<rparr>"

definition connection_timed_out :: "pane \<Rightarrow> pane" where
  "connection_timed_out s =
     (let s1 = s\<lparr>connectionTimeout := False\<rparr> in
      if socketState s1 \<noteq> SocketOpen
      then enableFallbackMode (Some (JStr ''Connection timed out.'')) s1 else s1)"

definition socket_opened :: "pane \<Rightarrow> pane" where
  "socket_opened s =
     (let s0 = s\<lparr>socketState := SocketOpen\<rparr> in
      if disposed s0 then s0
      else sendResize
        (socket_send (input_message newline)
          (safeTermWriteln (sgr ''32'' @ ''Interactive shell connected.'' @ sgr ''0'')
            (s0\<lparr>established := True, connectionStatus := Connected, connectionTimeout := False\<rparr>))))"

datatype socket_data = Binary string | Text string

definition output_received :: "pane \<Rightarrow> pane" where
  "output_received s =
     (if receivedOutput s then s else s\<lparr>receivedOutput := True, promptTimeout := False\<rparr>)"

definition is_text :: "string \<Rightarrow> json option \<Rightarrow> bool" where
  "is_text t v \<longleftrightarrow> v = Some (JStr t)"

definition control_message :: "json \<Rightarrow> pane \<Rightarrow> pane" where
  "control_message msg s =
     (let typ = jget ''type'' (Some msg); status = jget ''status'' (Some msg);
          message = jget ''message'' (Some msg); sid = jget ''session_id'' (Some msg) in
      if is_text ''error'' typ
      then enableFallbackMode (jnullish message (Some (JStr ''Session error''))) s
      else if is_text ''status'' typ \<and> is_text ''connected'' status
      then (if truthy message then term_write (jstring message @ crlf) s else s)
      else if is_text ''status'' typ \<and> is_text ''closed'' status
      then enableFallbackMode (jnullish message (Some (JStr ''Session closed by backend.''))) s
      else case sid of
        Some v \<Rightarrow> if truthy sid then s\<lparr>sessionIds := sessionIds s @ [v]\<rparr> else s
      | None \<Rightarrow> s)"

text \<open>
  Reading a member of \<open>null\<close> throws inside the \<open>try\<close>, so \<open>null\<close> is written like a text that is
  not JSON.
\<close>

definition socket_message :: "socket_data \<Rightarrow> pane \<Rightarrow> pane" where
  "socket_message data s =
     (if disposed s then s
      else
        (let s1 = s\<lparr>established := True, connectionStatus := Connected\<rparr> in
         case data of
           Binary t \<Rightarrow> term_write t (output_received s1)
         | Text t \<Rightarrow>
             (case json_parse t of
                Some msg \<Rightarrow> if msg = JNull then term_write t (output_received s1) else control_message msg s1
              | None \<Rightarrow> term_write t (output_received s1))))"

definition socket_failed :: "pane_session \<Rightarrow> pane \<Rightarrow> pane" where
  "socket_failed ps s =
     (if disposed s then s
      else enableFallbackMode None
        (terminal_note (''WebSocket exec unavailable for '' @ ps_containerName ps @ ''. Switched to command mode.'')
          (s\<lparr>connectionTimeout := False\<rparr>)))"

definition socket_closed :: "pane_session \<Rightarrow> pane \<Rightarrow> pane" where
  "socket_closed ps s =
     (let s0 = s\<lparr>socketState := SocketClosed\<rparr> in
      if disposed s0 then s0
      else
        (let s1 = s0\<lparr>connectionTimeout := False\<rparr> in
         if fallbackMode s1 then s1\<lparr>connectionStatus := Fallback\<rparr>
         else if \<not> established s1
         then enableFallbackMode (Some (JStr ''Connection closed before shell was ready.'')) s1
         else enableFallbackMode (Some (JStr ''Interactive session disconnected.''))
           (terminal_note (''Interactive session closed for '' @ ps_containerName ps
              @ ''. Switched to command mode.'') s1)))"

definition prompt_timed_out :: "pane_session \<Rightarrow> pane \<Rightarrow> pane" where
  "prompt_timed_out ps s =
     (let s0 = s\<lparr>promptTimeout := False\<rparr> in
      if \<not> disposed s0 \<and> \<not> fallbackMode s0 \<and> socketState s0 = SocketOpen \<and> \<not> receivedOutput s0
      then enableFallbackMode (Some (JStr ''Shell did not emit output in time.''))
        (terminal_note (''Shell did not respond for '' @ ps_containerName ps
           @ ''. Switched to command mode.'') s0)
      else s0)"

text \<open>A text typed into the terminal.\<close>

definition onData :: "string \<Rightarrow> string \<Rightarrow> pane \<Rightarrow> pane" where
  "onData cid data s =
     (if fallbackMode s then
        (let s1 = s\<lparr>tabComplete := None\<rparr> in
         if data = [CHR 0x0D]
         then runFallbackCommand cid (fallbackBuffer s1) (set_line [] 0 s1)
         else if data = [CHR 0x09] then handleTabComplete s1
         else edit_key cid data s1)
      else if socketState s = SocketOpen then socket_send (input_message data) s
      else s)"

definition pasteClipboard :: "string \<Rightarrow> pane \<Rightarrow> pane" where
  "pasteClipboard t s =
     (if t = [] then s
      else if fallbackMode s then paste_text t s
      else if \<not> disposed s \<and> socketState s = SocketOpen then socket_send (input_message t) s
      else s)"

definition reconnect :: "pane \<Rightarrow> pane" where
  "reconnect s = s\<lparr>connectionStatus := Connecting\<rparr>"

definition close_message :: json where
  "close_message = JObj [(''type'', JStr ''close''), (''data'', JStr [])]"

definition cleanup :: "pane \<Rightarrow> pane" where
  "cleanup s =
     (let s1 = s\<lparr>disposed := True, connectionTimeout := False, promptTimeout := False\<rparr>;
          s2 = (if socketState s1 = SocketOpen
                then (socket_send close_message s1)\<lparr>socketState := SocketClosed\<rparr> else s1) in
      s2\<lparr>fallbackMode := False, fallbackRunning := False, fallbackBuffer := [], fallbackCursor := 0\<rparr>)"

section \<open>The life of a pane\<close>

inductive pane_step :: "(thrown \<Rightarrow> string) \<Rightarrow> pane_session \<Rightarrow> pane \<Rightarrow> pane \<Rightarrow> bool" for platform ps where
  types: "\<not> disposed s \<Longrightarrow> pane_step platform ps s (onData (ps_containerId ps) data s)"
| pastes: "pane_step platform ps s (pasteClipboard t s)"
| settles: "pane_step platform ps s (settle platform (ps_containerId ps) i answer s)"
| opens: "socketState s = SocketConnecting \<Longrightarrow> pane_step platform ps s (socket_opened s)"
| receives: "socketState s = SocketOpen \<Longrightarrow> pane_step platform ps s (socket_message data s)"
| fails: "socketState s \<noteq> SocketClosed \<Longrightarrow> pane_step platform ps s (socket_failed ps s)"
| closes: "socketState s \<noteq> SocketClosed \<Longrightarrow> pane_step platform ps s (socket_closed ps s)"
| no_connection: "connectionTimeout s \<Longrightarrow> pane_step platform ps s (connection_timed_out s)"
| no_prompt: "promptTimeout s \<Longrightarrow> pane_step platform ps s (prompt_timed_out ps s)"
| resizes: "pane_step platform ps s (sendResize (s\<lparr>proposed := d, term_cols := c, term_rows := r\<rparr>))"
| reconnects: "connectionStatus s \<in> {Closed, Failed} \<Longrightarrow> pane_step platform ps s (reconnect s)"
| unmounts: "\<not> disposed s \<Longrightarrow> pane_step platform ps s (cleanup s)"

definition is_command :: "task \<times> string \<Rightarrow> bool" where
  "is_command t \<longleftrightarrow> fst t = CdTask \<or> fst t = CommandTask"

definition running_commands :: "pane \<Rightarrow> nat" where
  "running_commands s = length (filter is_command (awaiting s))"

definition pane_inv :: "pane \<Rightarrow> bool" where
  "pane_inv s \<longleftrightarrow>
     fallbackCursor s \<le> length (fallbackBuffer s) \<and>
     -1 \<le> historyIdx s \<and> historyIdx s < int (length (history s)) \<and> length (history s) \<le> 200 \<and>
     connectionStatus s \<in> {Connecting, Connected, Fallback} \<and>
     (fallbackMode s \<longrightarrow> \<not> disposed s) \<and>
     (\<not> disposed s \<longrightarrow> running_commands s = (if fallbackRunning s then 1 else 0))"

text \<open>What writing leaves alone.\<close>

lemma write_pane [simp]:
  "fallbackMode (term_write t s) = fallbackMode s" "fallbackRunning (term_write t s) = fallbackRunning s"
  "connectionStatus (term_write t s) = connectionStatus s" "awaiting (term_write t s) = awaiting s"
  "fallbackMode (safeTermWrite t s) = fallbackMode s"
  "fallbackRunning (safeTermWrite t s) = fallbackRunning s"
  "connectionStatus (safeTermWrite t s) = connectionStatus s"
  "awaiting (safeTermWrite t s) = awaiting s"
  "socketState (safeTermWrite t s) = socketState s" "socketState (term_write t s) = socketState s"
  "fallbackMode (set_line b c s) = fallbackMode s" "fallbackRunning (set_line b c s) = fallbackRunning s"
  "connectionStatus (set_line b c s) = connectionStatus s" "awaiting (set_line b c s) = awaiting s"
  by (simp_all add: safeTermWrite_def term_write_def set_line_def)

lemma prompt_pane [simp]:
  "fallbackMode (writePrompt cid s) = fallbackMode s"
  "fallbackRunning (writePrompt cid s) = fallbackRunning s"
  "connectionStatus (writePrompt cid s) = connectionStatus s" "awaiting (writePrompt cid s) = awaiting s"
  "fallbackBuffer (writePrompt cid s) = []" "fallbackCursor (writePrompt cid s) = 0"
  "history (writePrompt cid s) = history s" "historyIdx (writePrompt cid s) = historyIdx s"
  "disposed (writePrompt cid s) = disposed s" "tabComplete (writePrompt cid s) = None"
  "shellCwd (writePrompt cid s) = shellCwd s" "shellUser (writePrompt cid s) = shellUser s"
  by (simp_all add: writePrompt_def set_line_def)

text \<open>A step of the editor keeps everything the pane adds.\<close>

definition same_pane :: "pane \<Rightarrow> pane \<Rightarrow> bool" where
  "same_pane s t \<longleftrightarrow>
     fallbackMode t = fallbackMode s \<and> fallbackRunning t = fallbackRunning s \<and>
     connectionStatus t = connectionStatus s \<and> awaiting t = awaiting s \<and> disposed t = disposed s \<and>
     history t = history s \<and>
     (fallbackCursor s \<le> length (fallbackBuffer s) \<longrightarrow> fallbackCursor t \<le> length (fallbackBuffer t)) \<and>
     (-1 \<le> historyIdx s \<and> historyIdx s < int (length (history s)) \<longrightarrow>
        -1 \<le> historyIdx t \<and> historyIdx t < int (length (history t)))"

lemma same_pane_inv: "pane_inv s \<Longrightarrow> same_pane s t \<Longrightarrow> pane_inv t"
  by (auto simp: pane_inv_def same_pane_def running_commands_def)

lemma insert_same: "same_pane s (insert_text t u s)"
  by (simp add: same_pane_def insert_text_def Let_def)

lemma setBuffer_same:
  "same_pane s (setBuffer_prompt b (length b) p s)"
  "c \<le> length b \<Longrightarrow> same_pane s (setBuffer_plain b c s)"
  by (simp_all add: same_pane_def setBuffer_prompt_def setBuffer_plain_def Let_def)

lemma moves_same:
  "same_pane s (key_left s)" "same_pane s (key_right s)" "same_pane s (key_home s)"
  "same_pane s (key_end s)" "same_pane s (key_backspace s)" "same_pane s (key_delete s)"
  "same_pane s (key_clear_left s)" "same_pane s (key_clear_right s)" "same_pane s (key_cancel cid s)"
  by (auto simp: same_pane_def key_left_def key_right_def key_home_def key_end_def key_backspace_def
      key_delete_def key_clear_left_def key_clear_right_def key_cancel_def Let_def)

lemma word_same: "same_pane s (key_delete_word s)"
  by (auto simp: same_pane_def key_delete_word_def Let_def)

lemma up_down_same: "same_pane s (key_up cid s)" "same_pane s (key_down cid s)"
  by (auto simp: same_pane_def key_up_def key_down_def Let_def setBuffer_prompt_def)

lemma edit_same: "same_pane s (edit_key cid data s)"
  by (rule edit_key_by) (simp_all add: moves_same word_same up_down_same insert_same, simp add: same_pane_def)

lemma paste_same_pane: "same_pane s (paste_text t s)"
  by (simp add: paste_text_def insert_same) (simp add: same_pane_def)

lemma remove_command:
  "i < length ts \<Longrightarrow> length (filter is_command ts)
     = (if is_command (ts ! i) then 1 else 0) + length (filter is_command (remove_at i ts))"
  by (subst (1) id_take_nth_drop [of i ts]) (simp_all add: remove_at_def)

lemma push_history_length: "length h \<le> 200 \<Longrightarrow> length (push_history cmd h) \<le> 200"
  "push_history cmd h \<noteq> []"
  by (auto simp: push_history_def Let_def)

lemma await_pane [simp]:
  "fallbackBuffer (await t c s) = fallbackBuffer s" "fallbackCursor (await t c s) = fallbackCursor s"
  "history (await t c s) = history s" "historyIdx (await t c s) = historyIdx s"
  "connectionStatus (await t c s) = connectionStatus s" "fallbackMode (await t c s) = fallbackMode s"
  "disposed (await t c s) = disposed s" "fallbackRunning (await t c s) = fallbackRunning s"
  "awaiting (await t c s) = awaiting s @ [(t, c)]" "written (await t c s) = written s"
  by (simp_all add: await_def)

lemma enter_inv:
  assumes "pane_inv s" "fallbackMode s"
  shows "pane_inv (runFallbackCommand cid raw (set_line [] 0 s))"
  using assms push_history_length
  by (auto simp: runFallbackCommand_def pane_inv_def running_commands_def Let_def is_command_def)

lemma pane_inv_cong:
  assumes "pane_inv s" "fallbackBuffer t = fallbackBuffer s" "fallbackCursor t = fallbackCursor s"
    and "history t = history s" "historyIdx t = historyIdx s"
    and "connectionStatus t \<in> {connectionStatus s, Connecting, Connected, Fallback}"
    and "fallbackMode t = fallbackMode s" "disposed t = disposed s"
    and "fallbackRunning t = fallbackRunning s" "running_commands t = running_commands s"
  shows "pane_inv t"
  using assms by (auto simp: pane_inv_def)

lemma await_inv: "pane_inv s \<Longrightarrow> \<not> is_command (task, c) \<Longrightarrow> pane_inv (await task c s)"
  by (erule pane_inv_cong) (simp_all add: running_commands_def)

lemma tab_inv:
  assumes "pane_inv s"
  shows "pane_inv (handleTabComplete s)"
proof -
  have a: "pane_inv (await (TabTask b c p) cmd s)" for b c p cmd
    by (rule await_inv [OF assms]) (simp add: is_command_def)
  have i: "pane_inv (s\<lparr>tabComplete := z\<rparr>)" for z
    by (rule pane_inv_cong [OF assms]) (simp_all add: running_commands_def)
  have "pane_inv (setBuffer_plain b c (s\<lparr>tabComplete := z\<rparr>))" if "c \<le> length b" for b c z
    by (rule same_pane_inv [OF i setBuffer_same(2) [OF that]])
  then show ?thesis
    using a assms by (simp add: handleTabComplete_def Let_def split: option.split)
qed

lemma onData_inv:
  assumes "pane_inv s"
  shows "pane_inv (onData cid data s)"
proof -
  let ?s = "s\<lparr>tabComplete := None\<rparr>"
  have i: "pane_inv ?s"
    by (rule pane_inv_cong [OF assms]) (simp_all add: running_commands_def)
  have "pane_inv (runFallbackCommand cid (fallbackBuffer ?s) (set_line [] 0 ?s))" if "fallbackMode s"
    by (rule enter_inv [OF i]) (simp add: that)
  moreover have "pane_inv (handleTabComplete ?s)" by (rule tab_inv [OF i])
  moreover have "pane_inv (edit_key cid data ?s)" by (rule same_pane_inv [OF i edit_same])
  moreover have "pane_inv (socket_send v s)" for v
    by (rule pane_inv_cong [OF assms]) (simp_all add: running_commands_def socket_send_def)
  ultimately show ?thesis using assms by (simp add: onData_def Let_def)
qed

lemma same_writes:
  "same_pane s (safeTermWrite t s)" "same_pane s (term_write t s)" "same_pane s (writePrompt cid s)"
  "same_pane s (s\<lparr>tabComplete := z\<rparr>)" "same_pane s (s\<lparr>shellCwd := c\<rparr>)"
  "same_pane s (s\<lparr>shellUser := u\<rparr>)" "same_pane s s" "same_pane s (safeTermWriteln t s)"
  by (simp_all add: same_pane_def safeTermWriteln_def)

lemma same_pane_trans: "same_pane s t \<Longrightarrow> same_pane t u \<Longrightarrow> same_pane s u"
  unfolding same_pane_def by metis

lemma after_write:
  "same_pane s t \<Longrightarrow> same_pane s (safeTermWrite x t)"
  "same_pane s t \<Longrightarrow> same_pane s (t\<lparr>tabComplete := z\<rparr>)"
  "same_pane s t \<Longrightarrow> same_pane s (writePrompt cid t)"
  using same_pane_trans same_writes by blast+

lemma after_options: "same_pane s t \<Longrightarrow> same_pane s (write_options cols l opts t)"
  by (induction cols l opts t rule: write_options.induct) (auto simp: Let_def intro: after_write)

lemma same_cwd: "same_pane s (cwd_if_absolute t s)"
  by (simp add: cwd_if_absolute_def same_writes)

lemma after_output: "same_pane s t \<Longrightarrow> same_pane s (write_output out t)"
  by (simp add: write_output_def Let_def after_write)

lemma completed_inv: "pane_inv s \<Longrightarrow> pane_inv (completed cid buf cur prfx answer s)"
  unfolding completed_def Let_def
  by (auto simp del: write_options.simps split: sum.split list.split
      intro!: same_pane_inv [of s] after_write after_options setBuffer_same(2) same_writes(1,7))

lemma end_inv:
  assumes "pane_inv s" "same_pane (s\<lparr>awaiting := ts\<rparr>) t" "length (filter is_command ts) = 0 \<or> disposed s"
  shows "pane_inv (end_command cid t)"
  using assms by (auto simp: end_command_def pane_inv_def same_pane_def running_commands_def)

lemma settle_inv:
  assumes "pane_inv s"
  shows "pane_inv (settle platform cid i answer s)"
proof (cases "i < length (awaiting s)")
  case False
  then show ?thesis using assms by (simp add: settle_def)
next
  case True
  let ?ts = "remove_at i (awaiting s)" and ?a = "as_text answer"
  let ?s = "s\<lparr>awaiting := ?ts\<rparr>"
  show ?thesis
  proof (cases "is_command (awaiting s ! i)")
    case cmd: True
    then have none: "length (filter is_command ?ts) = 0 \<or> disposed s"
      using remove_command [OF True] assms by (auto simp: pane_inv_def running_commands_def split: if_splits)
    have "same_pane ?s (write_error platform err ?s)" for err
      by (simp add: write_error_def same_writes)
    then have "pane_inv (cd_settled platform cid ?a ?s)" "pane_inv (command_settled platform cid ?a ?s)"
      unfolding cd_settled_def command_settled_def
      by (auto intro!: after_output same_cwd same_writes(7) end_inv [OF assms _ none] split: sum.split option.split)
    then show ?thesis
      using cmd True by (cases "fst (awaiting s ! i)") (auto simp: settle_def is_command_def)
  next
    case False
    have i: "pane_inv ?s"
      by (rule pane_inv_cong [OF assms])
        (use remove_command [OF True] False in \<open>simp_all add: running_commands_def\<close>)
    have "pane_inv (?s\<lparr>shellUser := u\<rparr>)" for u by (rule same_pane_inv [OF i same_writes(6)])
    then have "pane_inv (user_settled ?a ?s)"
      unfolding user_settled_def using i
      by (intro await_inv) (auto simp: is_command_def split: sum.split)
    moreover have "pane_inv (cwd_settled cid ?a ?s)"
      unfolding cwd_settled_def 
      by (rule same_pane_inv [OF i]) (auto intro: after_write same_cwd same_writes(7) split: sum.split)
    ultimately show ?thesis
      using completed_inv [OF i] False True
      by (cases "fst (awaiting s ! i)") (auto simp: settle_def is_command_def)
  qed
qed

lemma fallback_inv:
  assumes "pane_inv s"
  shows "pane_inv (enableFallbackMode reason s)"
proof (cases "disposed s \<or> fallbackMode s")
  case False
  let ?s = "s\<lparr>fallbackMode := True, established := True, connectionStatus := Fallback\<rparr>"
  have "pane_inv ?s"
    using assms False by (simp add: pane_inv_def running_commands_def)
  note same = same_pane_inv [OF this]
  let ?t = "if truthy reason then safeTermWriteln (sgr ''33'' @ jstring reason @ sgr ''0'') (safeTermWriteln [] ?s)
    else safeTermWriteln [] ?s"
  have "same_pane ?s (safeTermWriteln mode_hint ?t)"
    unfolding safeTermWriteln_def by (simp add: after_write same_writes)
  then have "pane_inv (await UserTask user_command (safeTermWriteln mode_hint ?t))"
    using await_inv same by (simp add: is_command_def)
  then show ?thesis using False by (simp add: enableFallbackMode_def Let_def)
qed (simp add: enableFallbackMode_def assms)

lemma event_inv:
  assumes "pane_inv s"
  shows "pane_inv (connection_timed_out s)" "pane_inv (prompt_timed_out ps s)"
    "pane_inv (socket_failed ps s)" "pane_inv (socket_closed ps s)" "pane_inv (socket_opened s)"
    "pane_inv (socket_message data s)" "pane_inv (cleanup s)" "pane_inv (pasteClipboard t s)"
    "pane_inv (sendResize (s\<lparr>proposed := d, term_cols := c, term_rows := r\<rparr>))"
proof -
  note defs = running_commands_def terminal_note_def socket_send_def safeTermWriteln_def
  have k: "pane_inv t \<Longrightarrow> pane_inv (t\<lparr>connectionTimeout := b\<rparr>)"
    "pane_inv t \<Longrightarrow> pane_inv (t\<lparr>promptTimeout := b\<rparr>)"
    "pane_inv t \<Longrightarrow> pane_inv (t\<lparr>socketState := z\<rparr>)" "pane_inv t \<Longrightarrow> pane_inv (terminal_note x t)"
    "pane_inv t \<Longrightarrow> pane_inv (socket_send v t)" "pane_inv t \<Longrightarrow> pane_inv (safeTermWriteln x t)"
    "pane_inv t \<Longrightarrow> pane_inv (t\<lparr>established := True, connectionStatus := Connected\<rparr>)"
    "pane_inv t \<Longrightarrow> pane_inv (t\<lparr>connectionStatus := Fallback\<rparr>)"
    "pane_inv t \<Longrightarrow> pane_inv (term_write x t)" "pane_inv t \<Longrightarrow> pane_inv (output_received t)"
    "pane_inv t \<Longrightarrow> pane_inv (t\<lparr>sessionIds := l\<rparr>)"
    "pane_inv t \<Longrightarrow> pane_inv (t\<lparr>proposed := d, term_cols := c, term_rows := r\<rparr>)"
    "pane_inv t \<Longrightarrow> pane_inv (t\<lparr>established := True, connectionStatus := Connected, connectionTimeout := False\<rparr>)"
    for t b z x v l
    by (erule pane_inv_cong; simp add: defs output_received_def)+
  have resize: "pane_inv t \<Longrightarrow> pane_inv (sendResize t)" for t
    using k(5) by (simp add: sendResize_def split: option.split)
  show "pane_inv (connection_timed_out s)" "pane_inv (prompt_timed_out ps s)"
    "pane_inv (socket_failed ps s)"
    using assms by (auto simp: connection_timed_out_def prompt_timed_out_def socket_failed_def Let_def
        intro!: fallback_inv k)
  show "pane_inv (socket_closed ps s)" "pane_inv (socket_opened s)"
    using assms by (auto simp: socket_closed_def socket_opened_def Let_def intro!: fallback_inv resize k)
  have control: "pane_inv t \<Longrightarrow> pane_inv (control_message m t)" for m t
    unfolding control_message_def Let_def by (auto split: option.split intro!: fallback_inv k)
  show "pane_inv (socket_message data s)"
    using assms by (auto simp: socket_message_def Let_def split: option.split socket_data.split
        intro!: control k)
  show "pane_inv (cleanup s)"
    using assms by (auto simp: cleanup_def Let_def pane_inv_def running_commands_def socket_send_def)
  show "pane_inv (pasteClipboard t s)"
    using assms same_pane_inv [OF assms paste_same_pane] by (auto simp: pasteClipboard_def intro!: k)
  show "pane_inv (sendResize (s\<lparr>proposed := d, term_cols := c, term_rows := r\<rparr>))"
    using assms by (intro resize k)
qed

lemma pane_step_inv: "pane_step platform ps s t \<Longrightarrow> pane_inv s \<Longrightarrow> pane_inv t"
proof (induction rule: pane_step.induct)
  case (reconnects s)
  then show ?case by (auto simp: pane_inv_def)
qed (simp_all add: onData_inv settle_inv event_inv)

lemma connect_inv: "pane_inv (connect ps s)"
  by (simp add: connect_def safeTermWriteln_def pane_inv_def running_commands_def)

interpretation pane_life: machine "connect ps s0" "pane_step platform ps" pane_inv
  by unfold_locales (auto intro: connect_inv pane_step_inv)

section \<open>What the pane guarantees\<close>

text \<open>
  C25. In every state a mounted pane can reach, at most one command is in flight, and exactly when
  the pane says that one is running; the cursor is in the line, at most two hundred commands are
  remembered, and the pane never shows itself as closed or failed, so that its reconnect button,
  which is shown in these two states only, is never there.
\<close>

theorem one_command_at_a_time:
  assumes "reached (pane_step platform ps) (connect ps s0) s" "\<not> disposed s"
  shows "running_commands s = (if fallbackRunning s then 1 else 0) \<and>
    fallbackCursor s \<le> length (fallbackBuffer s) \<and> length (history s) \<le> 200 \<and>
    connectionStatus s \<notin> {Closed, Failed}"
  using pane_life.reached_inv [OF assms(1)] assms(2) by (auto simp: pane_inv_def)

text \<open>
  The Tab key never goes through the completions that were offered: every key, Tab included,
  forgets them first, so that Tab leaves the line as it is and asks the container again.
\<close>

theorem tab_never_cycles:
  assumes "fallbackMode s"
  shows "fallbackBuffer (onData cid [CHR 0x09] s) = fallbackBuffer s \<and>
    fallbackCursor (onData cid [CHR 0x09] s) = fallbackCursor s \<and>
    written (onData cid [CHR 0x09] s) = written s \<and>
    (last_word (take (fallbackCursor s) (fallbackBuffer s)) \<noteq> [] \<longrightarrow>
       (\<exists>command. awaiting (onData cid [CHR 0x09] s) = awaiting s @
          [(TabTask (fallbackBuffer s) (fallbackCursor s) (take (fallbackCursor s) (fallbackBuffer s)), command)]))"
  using assms by (simp add: onData_def handleTabComplete_def Let_def)

text \<open>What is typed while a command runs is thrown away when it ends, and a second command is not run.\<close>

lemma typed_ahead_lost:
  "fallbackBuffer (command_settled platform cid answer s) = [] \<and>
   fallbackBuffer (cd_settled platform cid answer s) = []"
  by (simp add: command_settled_def cd_settled_def end_command_def)

lemma second_command_dropped:
  assumes "fallbackMode s" "fallbackRunning s"
    and "trim (fallbackBuffer s) \<notin> {[], ''clear'', ''cls''}"
  shows "awaiting (onData cid [CHR 0x0D] s) = awaiting s \<and>
    hd (history (onData cid [CHR 0x0D] s)) = trim (fallbackBuffer s)"
proof -
  have "hd (push_history c h) = c" for c h by (cases h) (auto simp: push_history_def Let_def)
  then show ?thesis using assms by (simp add: onData_def runFallbackCommand_def Let_def)
qed

section \<open>Typing in the command mode\<close>

text \<open>What the user types or pastes, in a pane of the container \<open>cid\<close>.\<close>

fun pane_edit :: "string \<Rightarrow> edit \<Rightarrow> pane \<Rightarrow> pane" where
  "pane_edit cid (Key data) s = onData cid data s"
| "pane_edit cid (Paste t) s = pasteClipboard t s"

definition pane_edits :: "string \<Rightarrow> edit list \<Rightarrow> pane \<Rightarrow> pane" where
  "pane_edits cid es s = foldl (\<lambda>s e. pane_edit cid e s) s es"

fun pane_fits :: "nat \<Rightarrow> string \<Rightarrow> edit list \<Rightarrow> pane \<Rightarrow> bool" where
  "pane_fits W cid [] s \<longleftrightarrow> fits W cid s"
| "pane_fits W cid (e # es) s \<longleftrightarrow> fits W cid s \<and> pane_fits W cid es (pane_edit cid e s)"

definition forget_cycle :: "edit \<Rightarrow> pane \<Rightarrow> pane" where
  "forget_cycle e s = (case e of Key data \<Rightarrow> s\<lparr>tabComplete := None\<rparr> | Paste t \<Rightarrow> s)"

lemma pane_edit_apply:
  "fallbackMode s \<Longrightarrow> plain_edit e \<Longrightarrow> pane_edit cid e s = apply_edit cid e (forget_cycle e s)"
  by (cases e) (simp_all add: onData_def pasteClipboard_def paste_text_def forget_cycle_def Let_def)

lemma forget_cycle_line:
  "line_shown vt start cid (forget_cycle e s) = line_shown vt start cid s"
  "line_ok cid (forget_cycle e s) = line_ok cid s" "fits W cid (forget_cycle e s) = fits W cid s"
  "fallbackMode (forget_cycle e s) = fallbackMode s"
  by (cases e; simp add: forget_cycle_def line_shown_def line_ok_def fits_def prompt_text_def)+

lemma apply_edit_mode:
  fixes s :: pane
  shows "fallbackMode (apply_edit cid e s) = fallbackMode s"
  using edit_same [of s cid] paste_same_pane [of s] by (cases e) (auto simp: same_pane_def)

text \<open>
  C24. Take a pane in the command mode and any terminal of \<open>W\<close> columns that follows the control sequences as
  documented, with a row that shows the prompt and the line; the cursor is in the line, and the line, the history and
  the prompt are printable ASCII text. Then every sequence of ASCII keys other than Enter and
  Tab and of pastes of printable text keeps the row in step with the line and its cursor, as long as the prompt and
  the line fit on the row after every step: deleting leaves no stale letter behind, inserting in the middle
  moves the rest, recalling history redraws the prompt, and cancelling starts a fresh prompt.
\<close>

theorem typing_shown:
  assumes "row_terminal W vt" "fallbackMode s" "line_shown vt start cid s" "line_ok cid s"
    and "list_all plain_edit es" "pane_fits W cid es s"
  shows "line_shown vt start cid (pane_edits cid es s) \<and> line_ok cid (pane_edits cid es s) \<and>
    fallbackMode (pane_edits cid es s)"
  using assms(2-6)
proof (induction es arbitrary: s)
  case (Cons e es)
  let ?f = "forget_cycle e s"
  have step: "pane_edit cid e s = apply_edit cid e ?f" using pane_edit_apply Cons.prems by simp
  have "fits W cid (pane_edit cid e s)" using Cons.prems(5) by (cases es) auto
  then have "line_shown vt start cid (pane_edit cid e s)" "line_ok cid (pane_edit cid e s)"
    using edit_shown [OF assms(1), of start cid ?f e] edits_ok [of cid ?f e] Cons.prems
    by (simp_all add: step forget_cycle_line)
  then show ?case using Cons by (simp add: pane_edits_def step apply_edit_mode forget_cycle_line)
qed (simp add: pane_edits_def)

section \<open>Following the working directory\<close>

lemma last_split_absent: "n \<notin> set t \<Longrightarrow> last_split (n # q) t = None"
  by (induction t) (auto simp: starts_with_def)

lemma last_split_found:
  assumes "n \<notin> set q" "n \<notin> set b"
  shows "last_split (n # q) (a @ (n # q) @ b) = Some (a, b)"
proof (induction a)
  case Nil
  have "last_split (n # q) (q @ b) = None" using assms by (intro last_split_absent) simp
  then show ?case using starts_with_append [of "n # q" b] by (simp del: starts_with_append)
qed simp

lemma unix_newlines_empty: "unix_newlines t = [] \<longleftrightarrow> t = []"
  by (cases t rule: unix_newlines.cases) auto

lemma safe_written: "\<not> disposed s \<Longrightarrow> written (safeTermWrite t s) = written s @ [t]"
  by (simp add: safeTermWrite_def term_write_def)

lemma write_output_written:
  "\<not> disposed s \<Longrightarrow> out \<noteq> [] \<Longrightarrow> written (write_output out s) = written s
     @ [replace_all_char (CHR 0x0A) crlf (unix_newlines out)]
     @ (if ends_with newline (unix_newlines out) then [] else [crlf])"
  by (simp add: write_output_def Let_def safe_written unix_newlines_empty)

lemma prompt_of: "shellUser s = shellUser t \<Longrightarrow> shellCwd s = shellCwd t \<Longrightarrow> buildPrompt cid s = buildPrompt cid t"
  by (simp add: buildPrompt_def)

lemma prompt_written:
  "\<not> disposed s \<Longrightarrow> written (writePrompt cid s) = written s @ [buildPrompt cid s]"
  by (simp add: writePrompt_def safe_written) (simp add: set_line_def)

lemma write_output_cwd [simp]:
  "shellCwd (write_output out s) = shellCwd s" "shellUser (write_output out s) = shellUser s"
  "disposed (write_output out s) = disposed s" "written (set_line b c s) = written s"
  by (simp_all add: write_output_def Let_def set_line_def)

text \<open>
  C33. In a mounted pane, whatever text a command prints that is not empty, even one that looks like the marker of the
  pane, is shown as it is with the line ends of a terminal. The directory the command ended in, if it is an absolute
  path of one line without white space around it, becomes the directory of the next command and of the prompt,
  and the pane is ready for the next command.
\<close>

theorem command_output_shown:
  assumes "\<not> disposed s" "out \<noteq> []" "starts_with ''/'' cwd" "trim cwd = cwd" "CHR 0x0A \<notin> set cwd"
  shows "let t = command_settled platform cid (Inr (out @ sentinel_mark @ cwd)) s;
             plain = unix_newlines out in
    shellCwd t = cwd \<and> \<not> fallbackRunning t \<and> fallbackBuffer t = [] \<and>
    written t = written s @ [replace_all_char (CHR 0x0A) crlf plain]
      @ (if ends_with newline plain then [] else [crlf]) @ [buildPrompt cid (s\<lparr>shellCwd := cwd\<rparr>)]"
proof -
  have "CHR 0x0A \<notin> set (SENTINEL @ '':'')" by (simp add: SENTINEL_def)
  from last_split_found [OF this assms(5), of out]
  have split: "last_split sentinel_mark (out @ sentinel_mark @ cwd) = Some (out, cwd)"
    by (simp add: sentinel_mark_def)
  let ?u = "write_output out (s\<lparr>shellCwd := cwd\<rparr>)"
  have settled: "command_settled platform cid (Inr (out @ sentinel_mark @ cwd)) s = end_command cid ?u"
    using assms(3,4) by (simp add: command_settled_def split cwd_if_absolute_def)
  have prompt: "buildPrompt cid (?u\<lparr>fallbackRunning := False\<rparr>) = buildPrompt cid (s\<lparr>shellCwd := cwd\<rparr>)"
    by (rule prompt_of) simp_all
  have "written (end_command cid ?u) = written ?u @ [buildPrompt cid (?u\<lparr>fallbackRunning := False\<rparr>)]"
    using assms(1) by (simp add: end_command_def prompt_written)
  then show ?thesis
    unfolding settled Let_def prompt using assms(1,2)
    by (simp add: write_output_written) (simp add: end_command_def)
qed

text \<open>
  A text message that happens to be JSON is taken for a control message: a shell that prints a
  number shows nothing, and the pane still counts as silent.
\<close>

lemma json_output_swallowed:
  assumes "json_parse t = Some v" "v \<noteq> JNull" "\<And>m. v \<noteq> JObj m"
  shows "written (socket_message (Text t) s) = written s \<and>
    receivedOutput (socket_message (Text t) s) = receivedOutput s"
  using assms by (cases v) (auto simp: socket_message_def control_message_def is_text_def Let_def)

text \<open>A message that arrives in the command mode makes the pane say that the shell is live.\<close>

lemma command_mode_shown_live:
  assumes "fallbackMode s" "\<not> disposed s"
  shows "connectionStatus (socket_message (Binary t) s) = Connected \<and>
    fallbackMode (socket_message (Binary t) s)"
  using assms by (simp add: socket_message_def Let_def output_received_def)

section \<open>What execShell asks\<close>

lemma api_call_bound:
  "\<exists>new. sent (snd (apiFetch srv e endpoint opts w)) = sent w @ new \<and> 1 \<le> length new \<and> length new \<le> 5 \<and>
     rq_url ` set new \<subseteq> api_urls e endpoint \<union> {''/api/v1/auth/refresh''}"
proof -
  obtain xs ys zs where "sent (snd (apiFetch srv e endpoint opts w)) = sent w @ xs @ ys @ zs"
    "length xs \<in> {1, 2}" "length ys \<le> 1" "length zs \<le> 2 * length ys"
    "rq_url ` set (xs @ zs) \<subseteq> api_urls e endpoint" "rq_url ` set ys \<subseteq> {''/api/v1/auth/refresh''}"
    using fetch_bounded by blast
  then show ?thesis by (intro exI [of _ "xs @ ys @ zs"]) auto
qed

lemma exec_loop_bound:
  "\<exists>new. sent (snd (exec_loop srv e url command lastError shells w)) = sent w @ new \<and>
     (shells \<noteq> [] \<longrightarrow> 1 \<le> length new) \<and> length new \<le> 5 * length shells \<and>
     rq_url ` set new \<subseteq> api_urls e url \<union> {''/api/v1/auth/refresh''} \<and>
     (\<forall>err. fst (exec_loop srv e url command lastError shells w) = Inl err \<longrightarrow> length shells \<le> length new)"
proof (induction shells arbitrary: lastError w)
  case Nil
  then show ?case by (simp add: eff_throw_def)
next
  case (Cons shell shells)
  obtain r w1 where call: "apiFetch srv e url (exec_options shell command) w = (r, w1)" by fastforce
  obtain xs where xs: "sent w1 = sent w @ xs" "1 \<le> length xs" "length xs \<le> 5"
    "rq_url ` set xs \<subseteq> api_urls e url \<union> {''/api/v1/auth/refresh''}"
    using api_call_bound [of srv e url "exec_options shell command" w] call by auto
  define answer where "answer = (case r of Inl err \<Rightarrow> Inl err | Inr v \<Rightarrow> exec_output v)"
  have step: "exec_loop srv e url command lastError (shell # shells) w =
      (case answer of Inl err \<Rightarrow> exec_loop srv e url command err shells w1 | Inr v \<Rightarrow> (Inr v, w1))"
    by (simp add: eff_catch_def eff_bind_def call answer_def split: sum.split)
  show ?case
  proof (cases answer)
    case (Inr v)
    then show ?thesis using xs by (intro exI [of _ xs]) (simp add: step del: exec_loop.simps)
  next
    case (Inl err)
    obtain ys where "sent (snd (exec_loop srv e url command err shells w1)) = sent w1 @ ys"
      "length ys \<le> 5 * length shells" "rq_url ` set ys \<subseteq> api_urls e url \<union> {''/api/v1/auth/refresh''}"
      "\<forall>x. fst (exec_loop srv e url command err shells w1) = Inl x \<longrightarrow> length shells \<le> length ys"
      using Cons by blast
    then show ?thesis
      using xs Inl by (intro exI [of _ "xs @ ys"]) (auto simp: step simp del: exec_loop.simps)
  qed
qed

lemma six_shells: "length EXEC_SHELLS = 6" "EXEC_SHELLS \<noteq> []"
  by (simp_all add: EXEC_SHELLS_def)

text \<open>
  A command of the terminal sends at most thirty requests whatever the server answers, all to
  the exec address of the container and to the refresh address, and it fails only after each of the
  six shells was tried.
\<close>

theorem exec_bounded:
  "\<exists>new. sent (snd (execShell srv e environmentId containerId command w)) = sent w @ new \<and>
     1 \<le> length new \<and> length new \<le> 30 \<and>
     rq_url ` set new \<subseteq> api_urls e (exec_endpoint environmentId containerId) \<union> {''/api/v1/auth/refresh''} \<and>
     (\<forall>err. fst (execShell srv e environmentId containerId command w) = Inl err \<longrightarrow> 6 \<le> length new)"
  using exec_loop_bound [of srv e "exec_endpoint environmentId containerId" command "Error ''exec failed''"
      EXEC_SHELLS w]
  unfolding execShell_def by (simp add: six_shells del: One_nat_def)

section \<open>A pane at work\<close>

definition typing_pane :: pane where
  "typing_pane = writePrompt ''0123456789abcdef''
     \<lparr>fallbackBuffer = [], fallbackCursor = 0, history = [''ls -la''], historyIdx = -1, historySavedCurrent = [],
      tabComplete = None, shellCwd = ''/'', shellUser = ''root'', disposed = False, written = [],
      fallbackMode = True, fallbackRunning = False, connectionStatus = Fallback, established = True,
      receivedOutput = False, connectionTimeout = False, promptTimeout = False,
      socketState = SocketClosed, socketSent = [], sessionIds = [], notices = [], awaiting = [],
      term_cols = 80, term_rows = 24, proposed = None\<rparr>"

lemma typing_pane_shown: "line_shown simple_terminal ([], 0) ''0123456789abcdef'' typing_pane"
  unfolding typing_pane_def
  by (rule prompt_shown [OF simple_terminal_ok, where W = 80])
    (simp_all add: on_screen_def prompt_text_def prompt_sign_def printable_def)

theorem typing_shown_witness:
  "line_shown simple_terminal ([], 0) ''0123456789abcdef'' (pane_edits ''0123456789abcdef'' sample_edits typing_pane) \<and>
   fallbackBuffer (pane_edits ''0123456789abcdef'' (take 6 sample_edits) typing_pane) = ''l-s''"
proof -
  have h: "fallbackMode typing_pane" "line_ok ''0123456789abcdef'' typing_pane" "list_all plain_edit sample_edits"
    "pane_fits 80 ''0123456789abcdef'' sample_edits typing_pane"
    by (simp_all add: typing_pane_def line_ok_def writePrompt_def printable_def prompt_text_def prompt_sign_def) code_simp+
  have "fallbackBuffer (pane_edits ''0123456789abcdef'' (take 6 sample_edits) typing_pane) = ''l-s''" by code_simp
  then show ?thesis using typing_shown [OF simple_terminal_ok h(1) typing_pane_shown h(2-4)] by blast
qed

definition sample_session :: pane_session where
  "sample_session = \<lparr>ps_containerName = ''web'', ps_containerId = ''c1'', ps_environmentId = ''e1''\<rparr>"

definition blank_pane :: pane where
  "blank_pane =
     \<lparr>fallbackBuffer = [], fallbackCursor = 0, history = [], historyIdx = -1, historySavedCurrent = [],
      tabComplete = None, shellCwd = ''/'', shellUser = ''root'', disposed = False, written = [],
      fallbackMode = False, fallbackRunning = False, connectionStatus = Connecting, established = False,
      receivedOutput = False, connectionTimeout = False, promptTimeout = False,
      socketState = SocketConnecting, socketSent = [], sessionIds = [], notices = [], awaiting = [],
      term_cols = 80, term_rows = 24, proposed = None\<rparr>"

definition fallen_back :: pane where
  "fallen_back = socket_closed sample_session (connect sample_session blank_pane)"

definition running_pane :: pane where
  "running_pane = onData ''c1'' [CHR 0x0D] (onData ''c1'' ''w'' fallen_back)"

lemma fallen_back_facts: "fallbackMode fallen_back" "\<not> disposed fallen_back"
  by code_simp+

lemma running_reached:
  "reached (pane_step platform sample_session) (connect sample_session blank_pane) running_pane"
proof -
  have t: "pane_step platform sample_session s (onData ''c1'' x s)" if "\<not> disposed s" for s x
    using pane_step.types [OF that, of platform sample_session x] by (simp add: sample_session_def)
  have "reached (pane_step platform sample_session) (connect sample_session blank_pane) fallen_back"
    unfolding fallen_back_def
    by (rule reached.further [OF reached.start], rule pane_step.closes) code_simp
  then have "reached (pane_step platform sample_session) (connect sample_session blank_pane)
      (onData ''c1'' ''w'' fallen_back)"
    by (rule reached.further, intro t) code_simp
  then show ?thesis
    unfolding running_pane_def by (rule reached.further, intro t) code_simp
qed

lemma running_pane_facts: "\<not> disposed running_pane" "fallbackRunning running_pane"
  by code_simp+

theorem one_command_at_a_time_witness:
  "running_commands running_pane = 1 \<and> length (history running_pane) \<le> 200 \<and>
    connectionStatus running_pane \<notin> {Closed, Failed}"
  using one_command_at_a_time [OF running_reached running_pane_facts(1)] running_pane_facts(2) by simp

theorem tab_never_cycles_witness:
  "fallbackBuffer (onData ''c1'' [CHR 0x09] fallen_back) = fallbackBuffer fallen_back"
  using tab_never_cycles [OF fallen_back_facts(1)] by blast

theorem command_output_shown_witness:
  "shellCwd (command_settled (\<lambda>_. ''failed'') ''c1'' (Inr (''hi'' @ sentinel_mark @ ''/srv'')) running_pane) = ''/srv''"
  using command_output_shown [of running_pane "''hi''" "''/srv''" "\<lambda>_. ''failed''" "''c1''", OF running_pane_facts(1)]
  by (simp add: Let_def trim_def ltrim_def rtrim_def is_ws_def starts_with_def)

lemma fetch_unreachable: "\<exists>w'. apiFetch (\<lambda>_ _. None) e endpoint opts w = (Inl NetworkError, w')"
  by (simp add: apiFetch_def apiFetchWithRetry.simps [of _ _ _ _ True] fetch_fallback_def fetch_def eff_bind_def
      Let_def split: prod.split)

lemma exec_unreachable:
  "shells \<noteq> [] \<or> x = NetworkError \<Longrightarrow> fst (exec_loop (\<lambda>_ _. None) e url command x shells w) = Inl NetworkError"
proof (induction shells arbitrary: x w)
  case (Cons shell shells)
  obtain w1 where "apiFetch (\<lambda>_ _. None) e url (exec_options shell command) w = (Inl NetworkError, w1)"
    using fetch_unreachable by blast
  then show ?case using Cons.IH [of NetworkError w1] by (simp add: eff_catch_def eff_bind_def)
qed (simp add: eff_throw_def)

definition local_env :: env where
  "local_env = \<lparr>vite_base = [], vite_dev_port = [], is_dev = False, location = sample_url, abs_url = (\<lambda>_. sample_url)\<rparr>"

definition empty_world :: world where
  "empty_world = \<lparr>storage = None, sent = []\<rparr>"

theorem exec_bounded_witness:
  "\<exists>new. sent (snd (execShell (\<lambda>_ _. None) local_env ''e1'' ''c1'' ''pwd'' empty_world)) = new \<and> 6 \<le> length new"
proof -
  have "fst (execShell (\<lambda>_ _. None) local_env ''e1'' ''c1'' ''pwd'' empty_world) = Inl NetworkError"
    unfolding execShell_def by (rule exec_unreachable) (simp add: six_shells)
  then show ?thesis
    using exec_bounded [of "\<lambda>_ _. None" local_env "''e1''" "''c1''" "''pwd''" empty_world]
    by (auto simp: empty_world_def)
qed

lemma json_output_swallowed_witness:
  "written (socket_message (Text ''42'') blank_pane) = written blank_pane \<and>
    receivedOutput (socket_message (Text ''42'') blank_pane) = receivedOutput blank_pane"
  by (rule json_output_swallowed [of _ "JNum 42"]) (code_simp, simp_all)

end
