(* ===== verification/ContainersPage.thy ===== *)
theory ContainersPage
  imports TerminalPane DockerCompose "HOL-Library.Multiset"
begin

text \<open>
  The list of containers, \<open>ContainersPage.tsx\<close>, with the workspace of terminals it opens
  (\<open>DockerTerminalWorkspaceModal.tsx\<close>), and the terminals and files of one container,
  \<open>ContainerDetailPage.tsx\<close>. A page is its React state; the effects that run after a render are
  functions of it and of the session storage of the browser tab, which is a \<^typ>\<open>world\<close> of its own
  with the operations of local storage.
\<close>

section \<open>The list\<close>

record list_container =
  lc_Id :: string
  lc_Names :: "string list"
  lc_State :: string
  lc_Labels :: "(string \<times> string) list option"

definition label_of :: "list_container \<Rightarrow> string \<Rightarrow> string option" where
  "label_of c k = Option.bind (lc_Labels c) (\<lambda>m. map_of m k)"

definition tag_matches :: "string \<Rightarrow> list_container \<Rightarrow> bool" where
  "tag_matches activeTag c \<longleftrightarrow>
     (let tagLabel = label_of c (''einfra.tag.'' @ tag_runs False (lower activeTag));
          tagList = or_ostr (label_of c ''einfra.tags'') [] in
      tagLabel = Some ''true'' \<or> activeTag \<in> set (map trim (split_on (CHR '','') tagList)))"

text \<open>The page throws on a container without a name: \<open>c.Names[0]\<close> is undefined there.\<close>

definition keeps_container :: "string \<Rightarrow> string \<Rightarrow> string \<Rightarrow> list_container \<Rightarrow> bool option" where
  "keeps_container searchQuery state activeTag c =
     (case lc_Names c of
        [] \<Rightarrow> None
      | name # _ \<Rightarrow> Some (str_includes (lower name) (lower searchQuery) \<and>
          \<not> (state = ''running'' \<and> lc_State c \<noteq> ''running'') \<and>
          \<not> (state = ''exited'' \<and> lc_State c \<noteq> ''exited'') \<and>
          (activeTag \<noteq> [] \<longrightarrow> tag_matches activeTag c)))"

fun filterContainers ::
  "string \<Rightarrow> string \<Rightarrow> string \<Rightarrow> list_container list \<Rightarrow> list_container list option" where
  "filterContainers q st tag [] = Some []"
| "filterContainers q st tag (c # cs) =
     Option.bind (keeps_container q st tag c) (\<lambda>keep.
       map_option (\<lambda>r. if keep then c # r else r) (filterContainers q st tag cs))"

subsection \<open>Groups of the tree\<close>

definition normalizedName :: "string \<Rightarrow> string" where
  "normalizedName raw = (if starts_with ''/'' raw then drop 1 raw else raw)"

fun split_words :: "string \<Rightarrow> string list" where
  "split_words [] = [[]]"
| "split_words (c # s) =
     (if c = CHR ''-'' \<or> c = CHR ''_'' then [] # split_words s
      else (case split_words s of [] \<Rightarrow> [[c]] | w # ws \<Rightarrow> (c # w) # ws))"

definition resolveTreeGroup :: "string \<Rightarrow> string" where
  "resolveTreeGroup rawName =
     (let clean = normalizedName rawName;
          tokens = filter (\<lambda>t. t \<noteq> []) (split_words clean) in
      if length tokens \<le> 1 then clean
      else if list_all is_digit (last tokens) \<or>
              lower (last tokens) \<in> {''svc'', ''service'', ''task'', ''container''}
      then or_str (join_with ''-'' (butlast tokens)) clean
      else join_with ''-'' (take 2 tokens))"

text \<open>
  The groups are the members of an object literal, so that a name every object inherits is not
  free: reading it gives a function (or the prototype), which cannot be spread, and the page throws.
\<close>

definition inherited_members :: "string list" where
  "inherited_members =
     [''constructor'', ''hasOwnProperty'', ''isPrototypeOf'', ''propertyIsEnumerable'',
      ''toLocaleString'', ''toString'', ''valueOf'', ''__proto__'', ''__defineGetter__'',
      ''__defineSetter__'', ''__lookupGetter__'', ''__lookupSetter__'']"

definition group_name :: "list_container \<Rightarrow> string" where
  "group_name c = resolveTreeGroup (or_str (hd (lc_Names c)) (lc_Id c))"

definition add_to_group ::
  "(string \<times> list_container list) list \<Rightarrow> list_container \<Rightarrow> (string \<times> list_container list) list option" where
  "add_to_group acc c =
     (let key = group_name c in
      case map_of acc key of
        Some cs \<Rightarrow> Some (put key (cs @ [c]) acc)
      | None \<Rightarrow> if key \<in> set inherited_members then None else Some (put key [c] acc))"

fun group_from ::
  "(string \<times> list_container list) list \<Rightarrow> list_container list \<Rightarrow> (string \<times> list_container list) list option" where
  "group_from acc [] = Some acc"
| "group_from acc (c # cs) = Option.bind (add_to_group acc c) (\<lambda>acc'. group_from acc' cs)"

definition groupedContainers :: "list_container list \<Rightarrow> (string \<times> list_container list) list option" where
  "groupedContainers cs = group_from [] cs"

subsection \<open>Texts of a row\<close>

definition formatImage :: "string \<Rightarrow> string" where
  "formatImage img =
     (if img = [] then ''-''
      else if starts_with ''sha256:'' img then take 12 (drop 7 img) else img)"

definition truncateText :: "string \<Rightarrow> nat \<Rightarrow> string" where
  "truncateText v maxLength =
     (if v = [] then ''-'' else if length v \<le> maxLength then v
      else take (maxLength - 1) v @ [CHR 0xE2, CHR 0x80, CHR 0xA6])"

text \<open>\<open>now\<close> is the time in seconds, \<open>date\<close> the platform's text of a date.\<close>

definition relativeTime :: "(int \<Rightarrow> string) \<Rightarrow> int \<Rightarrow> int \<Rightarrow> string" where
  "relativeTime date now t =
     (let diff = now - t in
      if diff < 60 then show_int diff @ ''s ago''
      else if diff < 3600 then show_int (diff div 60) @ ''m ago''
      else if diff < 86400 then show_int (diff div 3600) @ ''h ago''
      else if diff < 86400 * 30 then show_int (diff div 86400) @ ''d ago''
      else date t)"

section \<open>The sessions of the workspace\<close>

record TerminalSession =
  ts_tabId :: string
  ts_containerName :: string
  ts_containerId :: string
  ts_environmentId :: string
  ts_sessionId :: "string option"
  ts_status :: "string option"

definition without_session_id :: "TerminalSession \<Rightarrow> TerminalSession" where
  "without_session_id t = t\<lparr>ts_sessionId := None\<rparr>"

definition terminal_json :: "TerminalSession \<Rightarrow> json" where
  "terminal_json t = JObj (members
     [(''tabId'', Some (JStr (ts_tabId t))), (''containerId'', Some (JStr (ts_containerId t))),
      (''containerName'', Some (JStr (ts_containerName t))),
      (''environmentId'', Some (JStr (ts_environmentId t))),
      (''status'', map_option JStr (ts_status t))])"

definition workspace_json :: "TerminalSession list \<times> string \<Rightarrow> json" where
  "workspace_json p = JObj (members
     [(''sessions'', Some (JArr (map terminal_json (fst p)))), (''activeTabId'', Some (JStr (snd p)))])"

definition read_terminal :: "json \<Rightarrow> TerminalSession option" where
  "read_terminal v =
     Option.bind (req as_str ''tabId'' v) (\<lambda>tab.
     Option.bind (req as_str ''containerName'' v) (\<lambda>n.
     Option.bind (req as_str ''containerId'' v) (\<lambda>c.
     Option.bind (req as_str ''environmentId'' v) (\<lambda>e.
     Option.bind (opt as_str ''status'' v) (\<lambda>s.
     Some \<lparr>ts_tabId = tab, ts_containerName = n, ts_containerId = c, ts_environmentId = e,
       ts_sessionId = None, ts_status = s\<rparr>)))))"

definition read_workspace :: "json \<Rightarrow> (TerminalSession list \<times> string) option" where
  "read_workspace v =
     Option.bind (req (as_list read_terminal) ''sessions'' v) (\<lambda>ts.
     map_option (\<lambda>a. (ts, a)) (req as_str ''activeTabId'' v))"

lemma read_terminal_json: "ts_sessionId t = None \<Longrightarrow> read_terminal (terminal_json t) = Some t"
  unfolding read_terminal_def terminal_json_def
  by (cases "ts_status t") (simp_all add: req_object opt_object)

lemma wf_terminal: "wf_json (terminal_json t)"
  unfolding terminal_json_def by (rule wf_object) (auto simp: Some_map_option)

lemma read_workspace_json:
  assumes "\<forall>t \<in> set (fst p). ts_sessionId t = None"
  shows "read_workspace (workspace_json p) = Some p"
proof -
  have "those (map read_terminal (map terminal_json (fst p))) = Some (fst p)"
    using assms by (intro those_map_some) (simp add: read_terminal_json)
  then show ?thesis
    unfolding read_workspace_def workspace_json_def by (simp add: req_object del: map_map)
qed

lemma wf_workspace: "wf_json (workspace_json p)"
  unfolding workspace_json_def by (rule wf_object) (auto simp: wf_elems_iff wf_terminal)

interpretation stored_workspace:
  stored_value workspace_json read_workspace "\<lambda>p. \<forall>t \<in> set (fst p). ts_sessionId t = None"
  by unfold_locales (simp_all add: read_workspace_json wf_workspace)

section \<open>The page and its effects\<close>

record list_page =
  cp_server :: string
  cp_sessions :: "TerminalSession list"
  cp_active :: string
  cp_store :: world

definition terminals_key :: "string \<Rightarrow> string" where
  "terminals_key server = ''einfra.docker.terminals.'' @ server"

definition first_tab :: "TerminalSession list \<Rightarrow> string" where
  "first_tab ts = (case ts of [] \<Rightarrow> [] | t # _ \<Rightarrow> ts_tabId t)"

definition chosen_tab :: "string \<Rightarrow> TerminalSession list \<Rightarrow> string" where
  "chosen_tab a ts = (if a \<noteq> [] \<and> list_ex (\<lambda>t. ts_tabId t = a) ts then a else first_tab ts)"

definition restored :: "(TerminalSession \<Rightarrow> bool) \<Rightarrow> string \<Rightarrow> world \<Rightarrow> (TerminalSession list \<times> string) option" where
  "restored mine key w =
     (if \<not> truthy_str (get_item key w) then None
      else map_option (\<lambda>(ts, a). let r = map without_session_id (filter mine ts) in (r, chosen_tab a r))
             (load_value read_workspace key w))"

definition persisted :: "string \<Rightarrow> TerminalSession list \<Rightarrow> string \<Rightarrow> world \<Rightarrow> world" where
  "persisted key ts a w =
     (if ts = [] then remove_item key w
      else save_value workspace_json key (map without_session_id ts, a) w)"

definition persist_effect :: "list_page \<Rightarrow> list_page" where
  "persist_effect s =
     (if cp_server s = [] then s
      else s\<lparr>cp_store := persisted (terminals_key (cp_server s)) (cp_sessions s) (cp_active s) (cp_store s)\<rparr>)"

text \<open>
  Choosing a server is a render with the new server and the old sessions, whose effects read the
  stored sessions, store the old ones under the new server, and ask for a second render.
\<close>

definition select_server :: "string \<Rightarrow> list_page \<Rightarrow> list_page" where
  "select_server server s =
     (if server = [] \<or> server = cp_server s then s\<lparr>cp_server := server\<rparr>
      else
        (let s1 = s\<lparr>cp_server := server\<rparr>;
             r = nullish (restored (\<lambda>t. ts_environmentId t = server) (terminals_key server) (cp_store s1)) ([], []);
             s2 = persist_effect s1 in
         persist_effect (s2\<lparr>cp_sessions := fst r, cp_active := snd r\<rparr>)))"

definition new_terminal :: "string \<Rightarrow> string \<Rightarrow> string \<Rightarrow> string \<Rightarrow> TerminalSession" where
  "new_terminal tab cid cname server =
     \<lparr>ts_tabId = tab, ts_containerName = cname, ts_containerId = cid, ts_environmentId = server,
      ts_sessionId = None, ts_status = None\<rparr>"

definition openTerminal :: "string \<Rightarrow> string \<Rightarrow> string \<Rightarrow> list_page \<Rightarrow> list_page" where
  "openTerminal tab cid cname s =
     (case find (\<lambda>t. ts_containerId t = cid \<and> ts_environmentId t = cp_server s) (cp_sessions s) of
        Some existing \<Rightarrow> s\<lparr>cp_active := ts_tabId existing\<rparr>
      | None \<Rightarrow> s\<lparr>cp_sessions := cp_sessions s @ [new_terminal tab cid cname (cp_server s)], cp_active := tab\<rparr>)"

definition onCloseTab :: "string \<Rightarrow> list_page \<Rightarrow> list_page" where
  "onCloseTab tab s =
     (let filtered = filter (\<lambda>t. ts_tabId t \<noteq> tab) (cp_sessions s) in
      s\<lparr>cp_sessions := filtered,
        cp_active := (if cp_active s = tab then first_tab filtered else cp_active s)\<rparr>)"

datatype session_patch = PatchStatus string | PatchSession string

fun patched :: "session_patch \<Rightarrow> TerminalSession \<Rightarrow> TerminalSession" where
  "patched (PatchStatus v) t = t\<lparr>ts_status := Some v\<rparr>"
| "patched (PatchSession v) t = t\<lparr>ts_sessionId := Some v\<rparr>"

definition update_session :: "string \<Rightarrow> session_patch \<Rightarrow> TerminalSession \<Rightarrow> TerminalSession" where
  "update_session tab patch item =
     (if ts_tabId item \<noteq> tab then item
      else
        (let next' = patched patch item in
         if ts_sessionId next' = ts_sessionId item \<and> ts_containerId next' = ts_containerId item \<and>
            ts_containerName next' = ts_containerName item \<and> ts_environmentId next' = ts_environmentId item
         then item else next'))"

definition onUpdateSession :: "string \<Rightarrow> session_patch \<Rightarrow> list_page \<Rightarrow> list_page" where
  "onUpdateSession tab patch s = s\<lparr>cp_sessions := map (update_session tab patch) (cp_sessions s)\<rparr>"

definition onAddTab :: "string \<Rightarrow> TerminalSession \<Rightarrow> list_page \<Rightarrow> list_page" where
  "onAddTab tab t s =
     s\<lparr>cp_sessions := cp_sessions s @ [new_terminal tab (ts_containerId t) (ts_containerName t) (ts_environmentId t)],
       cp_active := tab\<rparr>"

definition close_workspace :: "list_page \<Rightarrow> list_page" where
  "close_workspace s = s\<lparr>cp_sessions := [], cp_active := []\<rparr>"

subsection \<open>The workspace modal\<close>

definition activeSession :: "TerminalSession list \<Rightarrow> string \<Rightarrow> TerminalSession option" where
  "activeSession ts a =
     (case find (\<lambda>t. ts_tabId t = a) ts of
        Some t \<Rightarrow> Some t
      | None \<Rightarrow> (case ts of [] \<Rightarrow> None | t # _ \<Rightarrow> Some t))"

definition tab_left :: "TerminalSession list \<Rightarrow> string \<Rightarrow> string" where
  "tab_left ts a =
     (case find_index (\<lambda>t. ts_tabId t = a) ts of
        Some i \<Rightarrow> if i > 0 then ts_tabId (ts ! (i - 1)) else a
      | None \<Rightarrow> a)"

definition tab_right :: "TerminalSession list \<Rightarrow> string \<Rightarrow> string" where
  "tab_right ts a =
     (case find_index (\<lambda>t. ts_tabId t = a) ts of
        Some i \<Rightarrow> if i + 1 < length ts then ts_tabId (ts ! (i + 1)) else a
      | None \<Rightarrow> first_tab ts)"

datatype dot_colour = Emerald | Amber | Red | Zinc

definition status_dot :: "TerminalSession \<Rightarrow> dot_colour" where
  "status_dot t =
     (if ts_status t \<in> {Some ''connected'', Some ''fallback''} \<or>
         \<not> truthy_str (ts_status t) \<and> truthy_str (ts_sessionId t) then Emerald
      else if ts_status t = Some ''connecting'' then Amber
      else if ts_status t = Some ''error'' then Red
      else Zinc)"

text \<open>
  A new tab's identifier is made of the time and a random text; it is not empty and new to the page.
\<close>

inductive list_step :: "list_page \<Rightarrow> list_page \<Rightarrow> bool" where
  selects: "server \<noteq> [] \<Longrightarrow> list_step s (select_server server s)"
| opens: "tab \<noteq> [] \<Longrightarrow> tab \<notin> ts_tabId ` set (cp_sessions s) \<Longrightarrow> cp_server s \<noteq> [] \<Longrightarrow>
    list_step s (persist_effect (openTerminal tab cid cname s))"
| adds: "tab \<noteq> [] \<Longrightarrow> tab \<notin> ts_tabId ` set (cp_sessions s) \<Longrightarrow>
    activeSession (cp_sessions s) (cp_active s) = Some t \<Longrightarrow> list_step s (persist_effect (onAddTab tab t s))"
| activates: "t \<in> set (cp_sessions s) \<Longrightarrow> list_step s (persist_effect (s\<lparr>cp_active := ts_tabId t\<rparr>))"
| goes_left: "list_step s (persist_effect (s\<lparr>cp_active := tab_left (cp_sessions s) (cp_active s)\<rparr>))"
| goes_right: "list_step s (persist_effect (s\<lparr>cp_active := tab_right (cp_sessions s) (cp_active s)\<rparr>))"
| closes: "list_step s (persist_effect (onCloseTab tab s))"
| updates: "list_step s (persist_effect (onUpdateSession tab patch s))"
| closes_all: "list_step s (persist_effect (close_workspace s))"

definition tabs_named :: "world \<Rightarrow> bool" where
  "tabs_named w \<longleftrightarrow>
     (\<forall>k ts a. load_value read_workspace k w = Some (ts, a) \<longrightarrow> (\<forall>t \<in> set ts. ts_tabId t \<noteq> []))"

definition settled :: "list_page \<Rightarrow> bool" where
  "settled s \<longleftrightarrow>
     (if cp_sessions s = [] then get_item (terminals_key (cp_server s)) (cp_store s) = None
      else truthy_str (get_item (terminals_key (cp_server s)) (cp_store s)) \<and>
        load_value read_workspace (terminals_key (cp_server s)) (cp_store s)
          = Some (map without_session_id (cp_sessions s), cp_active s))"

definition list_inv :: "list_page \<Rightarrow> bool" where
  "list_inv s \<longleftrightarrow>
     storage (cp_store s) \<noteq> None \<and> tabs_named (cp_store s) \<and>
     (cp_server s = [] \<longrightarrow> cp_sessions s = []) \<and> (cp_server s \<noteq> [] \<longrightarrow> settled s) \<and>
     (\<forall>t \<in> set (cp_sessions s). ts_environmentId t = cp_server s \<and> ts_tabId t \<noteq> []) \<and>
     (if cp_sessions s = [] then cp_active s = [] else cp_active s \<in> ts_tabId ` set (cp_sessions s))"

lemma terminals_key_inj: "terminals_key a = terminals_key b \<longleftrightarrow> a = b"
  by (simp add: terminals_key_def)

lemma persisted_storage [simp]: "storage (persisted key ts a w) = None \<longleftrightarrow> storage w = None"
  by (simp add: persisted_def save_value_def)

lemma persisted_other:
  assumes "storage w \<noteq> None" "k \<noteq> key"
  shows "get_item k (persisted key ts a w) = get_item k w"
    "load_value d k (persisted key ts a w) = load_value d k w"
  using assms by (auto simp: persisted_def save_value_def load_value_def)

lemma persisted_read:
  assumes "storage w \<noteq> None"
  shows "ts \<noteq> [] \<Longrightarrow> load_value read_workspace key (persisted key ts a w)
      = Some (map without_session_id ts, a)"
    "ts \<noteq> [] \<Longrightarrow> truthy_str (get_item key (persisted key ts a w))"
    "ts = [] \<Longrightarrow> get_item key (persisted key ts a w) = None"
proof -
  have "json_text v \<noteq> []" for v using json_text_length [of v] by force
  then show "truthy_str (get_item key (persisted key ts a w))" if "ts \<noteq> []"
    using that assms by (simp add: persisted_def save_value_def truthy_str_def)
  show "load_value read_workspace key (persisted key ts a w) = Some (map without_session_id ts, a)"
    if "ts \<noteq> []"
    using that assms by (simp add: persisted_def stored_workspace.load_save without_session_id_def)
  show "get_item key (persisted key ts a w) = None" if "ts = []" using that by (simp add: persisted_def)
qed

lemma persisted_named:
  assumes "storage w \<noteq> None" "tabs_named w" "\<forall>t \<in> set ts. ts_tabId t \<noteq> []"
  shows "tabs_named (persisted key ts a w)"
  unfolding tabs_named_def
proof (intro allI impI)
  fix k us b assume l: "load_value read_workspace k (persisted key ts a w) = Some (us, b)"
  show "\<forall>t \<in> set us. ts_tabId t \<noteq> []"
  proof (cases "k = key")
    case True
    then show ?thesis
      using l assms persisted_read [OF assms(1)]
      by (cases "ts = []") (auto simp: load_value_def without_session_id_def)
  next
    case False
    then show ?thesis
      using l assms(2) persisted_other(2) [OF assms(1) False, of read_workspace ts a]
      unfolding tabs_named_def by simp blast
  qed
qed

lemma persist_fields [simp]:
  "cp_server (persist_effect s) = cp_server s" "cp_sessions (persist_effect s) = cp_sessions s"
  "cp_active (persist_effect s) = cp_active s" "storage (cp_store (persist_effect s)) = None \<longleftrightarrow> storage (cp_store s) = None"
  by (simp_all add: persist_effect_def)

lemma persist_settled: "storage (cp_store s) \<noteq> None \<Longrightarrow> cp_server s \<noteq> [] \<Longrightarrow> settled (persist_effect s)"
  unfolding settled_def using persisted_read by (simp add: persist_effect_def)

text \<open>What a change of the sessions must keep, before the effect stores them.\<close>

definition tabs_ok :: "list_page \<Rightarrow> bool" where
  "tabs_ok s \<longleftrightarrow>
     storage (cp_store s) \<noteq> None \<and> tabs_named (cp_store s) \<and> (cp_server s = [] \<longrightarrow> cp_sessions s = []) \<and>
     (\<forall>t \<in> set (cp_sessions s). ts_environmentId t = cp_server s \<and> ts_tabId t \<noteq> []) \<and>
     (if cp_sessions s = [] then cp_active s = [] else cp_active s \<in> ts_tabId ` set (cp_sessions s))"

lemma persist_inv:
  assumes "tabs_ok s"
  shows "list_inv (persist_effect s)"
proof -
  have "tabs_named (cp_store (persist_effect s))"
    using assms persisted_named by (auto simp: tabs_ok_def persist_effect_def)
  then show ?thesis
    using assms persist_settled by (simp add: list_inv_def tabs_ok_def)
qed

lemma list_inv_tabs: "list_inv s \<Longrightarrow> tabs_ok s"
  by (simp add: list_inv_def tabs_ok_def)

lemma first_tab_in: "ts \<noteq> [] \<Longrightarrow> first_tab ts \<in> ts_tabId ` set ts" "first_tab [] = []"
  by (cases ts; simp add: first_tab_def)+

lemma chosen_tab_in: "ts \<noteq> [] \<Longrightarrow> chosen_tab a ts \<in> ts_tabId ` set ts" "chosen_tab a [] = []"
  using first_tab_in by (auto simp: chosen_tab_def list_ex_iff)

lemma restored_ok:
  assumes "tabs_named w" "restored mine key w = Some (ts, a)"
  shows "\<forall>t \<in> set ts. ts_tabId t \<noteq> [] \<and> ts_sessionId t = None \<and> (\<exists>u. mine u \<and> t = without_session_id u)"
    "a = chosen_tab a ts" "if ts = [] then a = [] else a \<in> ts_tabId ` set ts"
proof -
  obtain us b where u: "load_value read_workspace key w = Some (us, b)"
    and ts: "ts = map without_session_id (filter mine us)" "a = chosen_tab b ts"
    using assms(2) by (auto simp: restored_def Let_def split: if_splits)
  show "\<forall>t \<in> set ts. ts_tabId t \<noteq> [] \<and> ts_sessionId t = None \<and> (\<exists>u. mine u \<and> t = without_session_id u)"
    using u assms(1) unfolding tabs_named_def ts(1) by (fastforce simp: without_session_id_def)
  show "if ts = [] then a = [] else a \<in> ts_tabId ` set ts" using chosen_tab_in ts(2) by auto
  then show "a = chosen_tab a ts"
    using ts(2) by (auto simp: chosen_tab_def list_ex_iff first_tab_def split: if_splits list.splits)
qed

lemma select_same: "select_server (cp_server s) s = s"
  by (simp add: select_server_def)

lemma select_inv:
  assumes "list_inv s" "server \<noteq> []"
  shows "list_inv (select_server server s)"
proof (cases "server = cp_server s")
  case True
  then show ?thesis using assms by (simp add: select_server_def)
next
  case False
  define r where "r = nullish (restored (\<lambda>t. ts_environmentId t = server) (terminals_key server) (cp_store s)) ([], [])"
  let ?s2 = "persist_effect (s\<lparr>cp_server := server\<rparr>)"
  have st: "storage (cp_store s) \<noteq> None" "tabs_named (cp_store s)"
    using assms(1) by (simp_all add: list_inv_def)
  have named: "tabs_named (cp_store ?s2)"
    using st assms(1) by (simp add: persist_effect_def list_inv_def persisted_named)
  have "(\<forall>t \<in> set (fst r). ts_environmentId t = server \<and> ts_tabId t \<noteq> []) \<and>
      (if fst r = [] then snd r = [] else snd r \<in> ts_tabId ` set (fst r))"
  proof (cases "restored (\<lambda>t. ts_environmentId t = server) (terminals_key server) (cp_store s)")
    case None
    then show ?thesis by (simp add: r_def nullish_def)
  next
    case (Some p)
    obtain ts a where p: "p = (ts, a)" by fastforce
    from restored_ok [OF st(2) Some [unfolded p]] show ?thesis
      by (auto simp: r_def nullish_def Some p without_session_id_def)
  qed
  then have "tabs_ok (?s2\<lparr>cp_sessions := fst r, cp_active := snd r\<rparr>)"
    using named st assms(2) by (simp add: tabs_ok_def)
  then show ?thesis
    using False assms(2) by (simp add: select_server_def Let_def persist_inv flip: r_def)
qed

lemma tab_moves_in:
  assumes "ts \<noteq> []" "a \<in> ts_tabId ` set ts"
  shows "tab_left ts a \<in> ts_tabId ` set ts" "tab_right ts a \<in> ts_tabId ` set ts"
  using assms first_tab_in(1) [OF assms(1)] find_index_Some [of "\<lambda>t. ts_tabId t = a" ts]
  by (auto simp: tab_left_def tab_right_def split: option.splits)

lemma update_keeps: "ts_tabId (update_session tab patch t) = ts_tabId t"
  "ts_environmentId (update_session tab patch t) = ts_environmentId t"
  by (cases patch; simp add: update_session_def Let_def)+

lemma activeSession_in: "activeSession ts a = Some t \<Longrightarrow> t \<in> set ts"
  by (auto simp: activeSession_def find_Some_iff split: option.splits list.splits)

lemma tabs_changed:
  assumes "tabs_ok s"
  shows "cp_server s \<noteq> [] \<Longrightarrow> tab \<noteq> [] \<Longrightarrow> tabs_ok (openTerminal tab cid cname s)"
    "tab \<noteq> [] \<Longrightarrow> t \<in> set (cp_sessions s) \<Longrightarrow> tabs_ok (onAddTab tab t s)"
    "tabs_ok (onCloseTab tab s)" "tabs_ok (onUpdateSession tab patch s)" "tabs_ok (close_workspace s)"
    "t \<in> set (cp_sessions s) \<Longrightarrow> tabs_ok (s\<lparr>cp_active := ts_tabId t\<rparr>)"
    "tabs_ok (s\<lparr>cp_active := tab_left (cp_sessions s) (cp_active s)\<rparr>)"
    "tabs_ok (s\<lparr>cp_active := tab_right (cp_sessions s) (cp_active s)\<rparr>)"
proof -
  show "tabs_ok (openTerminal tab cid cname s)" if "cp_server s \<noteq> []" "tab \<noteq> []"
    using assms that by (auto simp: tabs_ok_def openTerminal_def new_terminal_def find_Some_iff
        split: option.splits if_splits)
  show "tabs_ok (onAddTab tab t s)" if "tab \<noteq> []" "t \<in> set (cp_sessions s)"
    using assms that by (auto simp: tabs_ok_def onAddTab_def new_terminal_def split: if_splits)
  have "cp_active s \<in> ts_tabId ` set (filter (\<lambda>t. ts_tabId t \<noteq> tab) (cp_sessions s))"
    if "cp_active s \<noteq> tab" "cp_sessions s \<noteq> []" using assms that by (auto simp: tabs_ok_def)
  moreover have "cp_active s = tab \<or> cp_sessions s = []"
    if "filter (\<lambda>t. ts_tabId t \<noteq> tab) (cp_sessions s) = []"
    using assms that by (auto simp: tabs_ok_def filter_empty_conv split: if_splits)
  ultimately show "tabs_ok (onCloseTab tab s)"
    using assms first_tab_in(1) [of "filter (\<lambda>t. ts_tabId t \<noteq> tab) (cp_sessions s)"] first_tab_in(2)
    by (cases "cp_sessions s = []") (auto simp: tabs_ok_def onCloseTab_def Let_def)
  show "tabs_ok (onUpdateSession tab patch s)"
    using assms by (auto simp: tabs_ok_def onUpdateSession_def update_keeps image_image)
  show "tabs_ok (close_workspace s)"
    using assms by (simp add: tabs_ok_def close_workspace_def)
  show "tabs_ok (s\<lparr>cp_active := ts_tabId t\<rparr>)" if "t \<in> set (cp_sessions s)"
    using assms that by (auto simp: tabs_ok_def split: if_splits)
  show "tabs_ok (s\<lparr>cp_active := tab_left (cp_sessions s) (cp_active s)\<rparr>)"
    "tabs_ok (s\<lparr>cp_active := tab_right (cp_sessions s) (cp_active s)\<rparr>)"
    using assms tab_moves_in [of "cp_sessions s" "cp_active s"]
    by (auto simp: tabs_ok_def tab_left_def tab_right_def first_tab_in split: if_splits)
qed

lemma list_step_inv: "list_step s t \<Longrightarrow> list_inv s \<Longrightarrow> list_inv t"
proof (induction rule: list_step.induct)
  case (adds tab s t)
  then show ?case
    using persist_inv [OF tabs_changed(2) [OF list_inv_tabs]] activeSession_in by blast
qed (simp_all add: select_inv persist_inv tabs_changed list_inv_tabs)

definition list_page_start :: "world \<Rightarrow> list_page" where
  "list_page_start w = \<lparr>cp_server = [], cp_sessions = [], cp_active = [], cp_store = w\<rparr>"

interpretation terminals: machine "list_page_start \<lparr>storage = Some Map.empty, sent = []\<rparr>" list_step list_inv
proof unfold_locales
  show "list_inv (list_page_start \<lparr>storage = Some Map.empty, sent = []\<rparr>)"
    by (simp add: list_inv_def list_page_start_def tabs_named_def load_value_def get_item_def)
qed (rule list_step_inv)

lemma switch_back:
  assumes "reached list_step (list_page_start \<lparr>storage = Some Map.empty, sent = []\<rparr>) s"
    and "cp_server s \<noteq> []" "server \<noteq> []" "server \<noteq> cp_server s"
  shows "cp_sessions (select_server (cp_server s) (select_server server s))
      = map without_session_id (cp_sessions s) \<and>
    cp_active (select_server (cp_server s) (select_server server s)) = cp_active s \<and>
    (cp_sessions s \<noteq> [] \<longrightarrow> cp_active s \<in> ts_tabId ` set (cp_sessions s))"
proof -
  have inv: "list_inv s" by (rule terminals.reached_inv [OF assms(1)])
  let ?k = "terminals_key (cp_server s)" and ?t = "select_server server s"
  have st: "storage (cp_store s) \<noteq> None" using inv by (simp add: list_inv_def)
  have other: "?k \<noteq> terminals_key server" using assms(4) by (auto simp: terminals_key_inj)
  have get: "get_item ?k (cp_store ?t) = get_item ?k (cp_store s)"
    "load_value read_workspace ?k (cp_store ?t) = load_value read_workspace ?k (cp_store s)"
    using assms(3,4) st persisted_other(1) [OF _ other]
      persisted_other(2) [where d = read_workspace, OF _ other]
    by (simp_all add: select_server_def Let_def persist_effect_def del: not_None_eq)
  have env: "filter (\<lambda>t. ts_environmentId t = cp_server s) (map without_session_id (cp_sessions s))
      = map without_session_id (cp_sessions s)"
    using inv by (auto simp: list_inv_def without_session_id_def filter_id_conv)
  have twice: "map without_session_id (map without_session_id ts) = map without_session_id ts" for ts
    by (simp add: without_session_id_def)
  have active: "cp_sessions s \<noteq> [] \<Longrightarrow> cp_active s \<noteq> [] \<and> cp_active s \<in> ts_tabId ` set (cp_sessions s)"
    using inv by (auto simp: list_inv_def)
  have tab: "chosen_tab (cp_active s) (map without_session_id (cp_sessions s)) = cp_active s"
    if "cp_sessions s \<noteq> []"
    using active [OF that] by (auto simp: chosen_tab_def list_ex_iff without_session_id_def)
  have "nullish (restored (\<lambda>t. ts_environmentId t = cp_server s) ?k (cp_store ?t)) ([], [])
      = (map without_session_id (cp_sessions s), cp_active s)"
    using inv assms(2) get env tab twice
    by (cases "cp_sessions s = []")
      (auto simp: list_inv_def settled_def restored_def truthy_str_def nullish_def Let_def
        simp del: map_map filter_map simp flip: map_map)
  moreover have "cp_server ?t = server" using assms(3) by (simp add: select_server_def Let_def)
  ultimately show ?thesis
    using assms(2-4) active by (simp add: select_server_def [of "cp_server s"] Let_def)
qed

text \<open>
  In every state of the list of containers the tab that is shown is one of the terminals of
  the server that is chosen, and going to another server and back gives the same terminals, their
  shells aside, in the same order with the same tab in front: the render in between, which stores
  the terminals of one server under the other, does no harm.
\<close>

theorem terminals_kept_by_server:
  assumes "reached list_step (list_page_start \<lparr>storage = Some Map.empty, sent = []\<rparr>) s"
    and "cp_server s \<noteq> []" "server \<noteq> []" "server \<noteq> cp_server s"
  shows "cp_sessions (select_server (cp_server s) (select_server server s))
      = map without_session_id (cp_sessions s) \<and>
    cp_active (select_server (cp_server s) (select_server server s)) = cp_active s \<and>
    (cp_sessions s \<noteq> [] \<longrightarrow> cp_active s \<in> ts_tabId ` set (cp_sessions s))"
  using switch_back [OF assms] .

text \<open>The state of a pane never reaches its tab: a change of the status alone is taken for no change.\<close>

lemma status_never_stored: "onUpdateSession tab (PatchStatus v) s = s"
proof -
  have "update_session tab (PatchStatus v) t = t" for t by (simp add: update_session_def)
  then show ?thesis by (simp add: onUpdateSession_def map_idI)
qed

section \<open>The choice of the server\<close>

text \<open>The effect that follows the environment chosen for the whole application.\<close>

definition follow_environment :: "(string \<times> string) option \<Rightarrow> string list \<Rightarrow> string \<Rightarrow> string" where
  "follow_environment selectedEnvironment servers selectedServerId =
     (case selectedEnvironment of
        Some (typ, i) \<Rightarrow>
          if typ = ''docker'' \<and> i \<noteq> selectedServerId then i
          else if selectedServerId = [] \<and> servers \<noteq> [] then hd servers else selectedServerId
      | None \<Rightarrow> if selectedServerId = [] \<and> servers \<noteq> [] then hd servers else selectedServerId)"

text \<open>
  While a Docker environment is chosen for the application, the list of servers of the page
  cannot be used: whichever server is picked, the next effect goes back to that environment, and
  the page shows the terminals it had before.
\<close>

theorem picked_server_reverted:
  assumes "reached list_step (list_page_start \<lparr>storage = Some Map.empty, sent = []\<rparr>) s"
    and "cp_server s = i" "i \<noteq> []" "server \<noteq> []"
  shows "follow_environment (Some (''docker'', i)) servers server = i \<and>
    map without_session_id (cp_sessions (select_server (follow_environment (Some (''docker'', i)) servers server)
      (select_server server s))) = map without_session_id (cp_sessions s)"
proof -
  have "follow_environment (Some (''docker'', i)) servers server = i"
    using assms(3,4) by (auto simp: follow_environment_def)
  moreover have "map without_session_id (map without_session_id ts) = map without_session_id ts" for ts
    by (simp add: without_session_id_def)
  ultimately show ?thesis
    using switch_back [OF assms(1), of server] assms
      select_same [of s]
    by (cases "server = i") (simp_all del: map_map)
qed

section \<open>Tags\<close>

lemma split_after_blank:
  "map trim (split_on (CHR '','') (CHR '' '' # u)) = map trim (split_on (CHR '','') u)"
proof -
  have "trim (CHR '' '' # x) = trim x" for x by (simp add: trim_def ltrim_def is_ws_def)
  then show ?thesis
    using split_on_nonempty [of "CHR '',''" u] by (cases "split_on (CHR '','') u") auto
qed

lemma split_on_cut: "split_on c (a @ c # b) = split_on c a @ split_on c b"
  using split_on_nonempty [of c] by (induction a) (auto split: list.split)

text \<open>A tag without a comma is read back from the list of tags, whatever the others are.\<close>

lemma tag_in_split:
  assumes "t \<in> set names" "CHR '','' \<notin> set t" "trim t = t"
  shows "t \<in> set (map trim (split_on (CHR '','') (join_with '', '' names)))"
  using assms(1)
proof (induction names)
  case (Cons n ns)
  have own: "t \<in> set (map trim (split_on (CHR '','') t))" using assms(2,3) by (simp add: split_on_no_sep)
  show ?case
  proof (cases "ns = []")
    case True
    then show ?thesis using Cons.prems own by simp
  next
    case False
    then have "map trim (split_on (CHR '','') (join_with '', '' (n # ns))) =
        map trim (split_on (CHR '','') n) @ map trim (split_on (CHR '','') (join_with '', '' ns))"
      using split_after_blank by (simp add: join_with_Cons split_on_cut del: split_on.simps)
    then show ?thesis using Cons own by auto
  qed
qed simp

text \<open>
  C26. Let a container have the list of tags it was deployed with in its label \<open>einfra.tags\<close>, whatever its other labels are. It
  is found under each of these tags that holds no comma: the label all tags are kept in is read back.
\<close>

theorem deployed_tag_found:
  assumes "lc_Labels c = Some labels" "map_of labels ''einfra.tags'' = map_of (buildTagLabels tags) ''einfra.tags''"
    and "t \<in> set (tag_names tags)" "CHR '','' \<notin> set t"
  shows "tag_matches t c"
proof -
  have t: "trim t = t" "t \<noteq> []" using assms(3) by (auto simp: tag_names_def js_set_def)
  have ne: "tag_names tags \<noteq> []" using assms(3) by auto
  have l: "map_of (buildTagLabels tags) ''einfra.tags'' = Some (join_with '', '' (tag_names tags))"
    using ne by (simp add: buildTagLabels_def Let_def label_fold)
  have found: "t \<in> set (map trim (split_on (CHR '','') (join_with '', '' (tag_names tags))))"
    using tag_in_split [OF assms(3,4) t(1)] .
  then have "join_with '', '' (tag_names tags) \<noteq> []" using t by auto
  then have "t \<in> set (map trim (split_on (CHR '','') (or_ostr (label_of c ''einfra.tags'') [])))"
    using found l assms(1,2) by (simp add: label_of_def or_ostr_def or_str_def del: set_map)
  then show ?thesis by (simp add: tag_matches_def)
qed

section \<open>Groups\<close>

lemma put_concat:
  "map_of acc k = Some g \<Longrightarrow> mset (concat (map snd (put k (g @ [c]) acc))) = add_mset c (mset (concat (map snd acc)))"
  "map_of acc k = None \<Longrightarrow> mset (concat (map snd (put k [c] acc))) = add_mset c (mset (concat (map snd acc)))"
  by (induction acc) (auto split: if_splits)

lemma add_to_group_mset:
  assumes "add_to_group acc c = Some acc'"
  shows "mset (concat (map snd acc')) = add_mset c (mset (concat (map snd acc)))"
  using assms put_concat by (auto simp: add_to_group_def Let_def split: option.splits if_splits)

definition in_own_group :: "(string \<times> list_container list) list \<Rightarrow> bool" where
  "in_own_group acc \<longleftrightarrow> (\<forall>(k, cs) \<in> set acc. cs \<noteq> [] \<and> (\<forall>c \<in> set cs. group_name c = k))"

lemma set_put: "set (put k v acc) \<subseteq> insert (k, v) (set acc)"
  by (induction acc) (auto split: if_splits)

lemma add_to_group_own:
  assumes "add_to_group acc c = Some acc'" "in_own_group acc" "distinct (map fst acc)"
  shows "in_own_group acc' \<and> distinct (map fst acc')"
proof -
  obtain cs where acc': "acc' = put (group_name c) (cs @ [c]) acc"
    and cs: "cs = [] \<or> map_of acc (group_name c) = Some cs"
    using assms(1) by (auto simp: add_to_group_def Let_def split: option.splits if_splits)
  from cs have "\<forall>d \<in> set cs. group_name d = group_name c"
    using assms(2) by (auto simp: in_own_group_def dest!: map_of_SomeD)
  then have "in_own_group acc'"
    using assms(2) set_put [of "group_name c" "cs @ [c]" acc] unfolding acc' in_own_group_def by fastforce
  then show ?thesis using assms(3) by (simp add: acc' distinct_put)
qed

lemma group_from_facts:
  assumes "group_from acc cs = Some gs" "in_own_group acc" "distinct (map fst acc)"
  shows "mset (concat (map snd gs)) = mset (concat (map snd acc)) + mset cs \<and> in_own_group gs \<and> distinct (map fst gs)"
  using assms
proof (induction cs arbitrary: acc)
  case (Cons c cs)
  then obtain acc' where a: "add_to_group acc c = Some acc'" "group_from acc' cs = Some gs"
    by (auto split: bind_splits)
  show ?case
    using Cons.IH [OF a(2)] add_to_group_own [OF a(1) Cons.prems(2,3)] add_to_group_mset [OF a(1)] by simp
qed simp

lemma group_from_defined:
  "group_from acc cs \<noteq> None \<longleftrightarrow>
     (\<forall>c \<in> set cs. group_name c \<notin> set inherited_members \<or> group_name c \<in> fst ` set acc)"
proof (induction cs arbitrary: acc)
  case (Cons c cs)
  have keys: "fst ` set (put k v acc) = insert k (fst ` set acc)" for k and v :: "list_container list"
    by (metis keys_put set_map)
  show ?case
  proof (cases "map_of acc (group_name c)")
    case None
    then have "group_name c \<notin> fst ` set acc" by (simp add: map_of_eq_None_iff)
    then show ?thesis
      using None Cons.IH [of "put (group_name c) [c] acc"] keys
      by (auto simp: add_to_group_def Let_def)
  next
    case (Some ds)
    then have c: "group_name c \<in> fst ` set acc" by (metis map_of_SomeD fst_conv image_eqI)
    then have "fst ` set (put (group_name c) (ds @ [c]) acc) = fst ` set acc"
      using keys by (simp add: insert_absorb)
    then show ?thesis
      using c Some Cons.IH [of "put (group_name c) (ds @ [c]) acc"]
      by (simp add: add_to_group_def Let_def)
  qed
qed simp

text \<open>
  The tree shows the containers of the list, each once, in the group of its name; and one
  container whose name is a member that every object inherits, such as \<open>constructor\<close>, makes the
  page throw.
\<close>

theorem tree_complete:
  "(\<forall>gs. groupedContainers cs = Some gs \<longrightarrow>
      mset (concat (map snd gs)) = mset cs \<and> distinct (map fst gs) \<and>
      (\<forall>(k, ds) \<in> set gs. ds \<noteq> [] \<and> (\<forall>c \<in> set ds. group_name c = k))) \<and>
   (groupedContainers cs = None \<longleftrightarrow> (\<exists>c \<in> set cs. group_name c \<in> set inherited_members))"
proof -
  have e: "in_own_group []" by (simp add: in_own_group_def)
  have "\<forall>gs. groupedContainers cs = Some gs \<longrightarrow> mset (concat (map snd gs)) = mset cs \<and>
      in_own_group gs \<and> distinct (map fst gs)"
    using group_from_facts [OF _ e] by (simp add: groupedContainers_def)
  moreover have "groupedContainers cs = None \<longleftrightarrow> (\<exists>c \<in> set cs. group_name c \<in> set inherited_members)"
    using group_from_defined [of "[]" cs] by (auto simp: groupedContainers_def simp del: not_None_eq)
  ultimately show ?thesis by (simp add: in_own_group_def)
qed

section \<open>Examples\<close>

definition empty_store :: world where
  "empty_store = \<lparr>storage = Some Map.empty, sent = []\<rparr>"

definition one_terminal :: list_page where
  "one_terminal =
     persist_effect (openTerminal ''t1'' ''c1'' ''web'' (select_server ''s1'' (list_page_start empty_store)))"

lemma one_terminal_reached:
  "reached list_step (list_page_start \<lparr>storage = Some Map.empty, sent = []\<rparr>) one_terminal"
  "cp_server one_terminal = ''s1''" "map ts_tabId (cp_sessions one_terminal) = [''t1'']"
proof -
  let ?s = "list_page_start empty_store"
  have f: "restored m k empty_store = None" for m k
    by (simp add: restored_def empty_store_def get_item_def truthy_str_def)
  have s: "cp_server (select_server ''s1'' ?s) = ''s1''" "cp_sessions (select_server ''s1'' ?s) = []"
    by (simp_all add: select_server_def list_page_start_def Let_def f nullish_def)
  show "reached list_step (list_page_start \<lparr>storage = Some Map.empty, sent = []\<rparr>) one_terminal"
  proof -
    have "reached list_step ?s (select_server ''s1'' ?s)"
      by (rule reached.further [OF reached.start], rule list_step.selects) simp
    moreover have "list_step (select_server ''s1'' ?s) one_terminal"
      unfolding one_terminal_def by (rule list_step.opens) (simp_all add: s)
    ultimately have "reached list_step ?s one_terminal" by (rule reached.further)
    then show ?thesis by (simp add: empty_store_def)
  qed
  show "cp_server one_terminal = ''s1''" "map ts_tabId (cp_sessions one_terminal) = [''t1'']"
    using s by (simp_all add: one_terminal_def openTerminal_def new_terminal_def)
qed

theorem terminals_kept_by_server_witness:
  "cp_sessions (select_server ''s1'' (select_server ''s2'' one_terminal))
     = map without_session_id (cp_sessions one_terminal)"
  using terminals_kept_by_server [OF one_terminal_reached(1), of "''s2''"] one_terminal_reached(2) by simp

theorem picked_server_reverted_witness:
  "follow_environment (Some (''docker'', ''s1'')) [''s1'', ''s2''] ''s2'' = ''s1''"
  using picked_server_reverted [OF one_terminal_reached(1,2), of "''s2''" "[''s1'', ''s2'']"] by simp

definition tagged_container :: list_container where
  "tagged_container = \<lparr>lc_Id = ''c1'', lc_Names = [''/shop-web-1''], lc_State = ''running'',
     lc_Labels = Some (buildTagLabels ['' Prod! '', ''eu''])\<rparr>"

theorem deployed_tag_found_witness: "tag_matches ''Prod!'' tagged_container"
proof -
  have "''Prod!'' \<in> set (tag_names ['' Prod! '', ''eu''])" by code_simp
  then show ?thesis
    by (intro deployed_tag_found [where tags = "['' Prod! '', ''eu'']" and labels = "buildTagLabels ['' Prod! '', ''eu'']"])
      (simp_all add: tagged_container_def)
qed

definition unlucky_container :: list_container where
  "unlucky_container = tagged_container\<lparr>lc_Names := [''/constructor'']\<rparr>"

lemma group_names: "group_name tagged_container = ''shop-web''" "group_name unlucky_container = ''constructor''"
  by code_simp+

theorem tree_complete_witness:
  "groupedContainers [tagged_container] = Some [(''shop-web'', [tagged_container])] \<and>
   mset (concat (map snd [(''shop-web'', [tagged_container])])) = mset [tagged_container] \<and>
   groupedContainers [tagged_container, unlucky_container] = None"
proof -
  have g: "groupedContainers [tagged_container] = Some [(''shop-web'', [tagged_container])]"
    by (simp add: groupedContainers_def add_to_group_def Let_def group_names inherited_members_def)
  have "group_name unlucky_container \<in> set inherited_members"
    by (simp add: group_names inherited_members_def)
  then show ?thesis
    using tree_complete [of "[tagged_container]"] tree_complete [of "[tagged_container, unlucky_container]"] g
    by auto
qed

end
