(* ===== verification/ContainerDetail.thy ===== *)
theory ContainerDetail
  imports ContainersPage
begin

text \<open>
  The page of one container, \<open>ContainerDetailPage.tsx\<close>: its terminals, which are kept in the session
  storage like those of the list, the editor of a file of the container, the window of measures
  and the sections of the inspected container.
\<close>

section \<open>The terminals\<close>

record detail_page =
  dp_environmentId :: string
  dp_containerId :: string
  dp_name :: "string option"
  dp_sessions :: "TerminalSession list"
  dp_active :: string
  dp_store :: world

definition detail_key :: "string \<Rightarrow> string \<Rightarrow> string" where
  "detail_key environmentId containerId =
     ''einfra.docker.terminals.detail.'' @ environmentId @ ''.'' @ containerId"

definition page_key :: "detail_page \<Rightarrow> string" where
  "page_key s = detail_key (dp_environmentId s) (dp_containerId s)"

definition own_terminal :: "detail_page \<Rightarrow> TerminalSession \<Rightarrow> bool" where
  "own_terminal s t \<longleftrightarrow> ts_environmentId t = dp_environmentId s \<and> ts_containerId t = dp_containerId s"

text \<open>
  The effect that restores them waits for the name of the container. It changes the state of the
  next render only, so that its result is kept apart; stored text that cannot be read is removed.
\<close>

definition restore_effect :: "detail_page \<Rightarrow> (TerminalSession list \<times> string) option \<times> world" where
  "restore_effect s =
     (if dp_environmentId s = [] \<or> dp_containerId s = [] \<or> \<not> truthy_str (dp_name s) then (None, dp_store s)
      else if \<not> truthy_str (get_item (page_key s) (dp_store s)) then (None, dp_store s)
      else case restored (own_terminal s) (page_key s) (dp_store s) of
        Some p \<Rightarrow> (Some p, dp_store s)
      | None \<Rightarrow> (None, remove_item (page_key s) (dp_store s)))"

definition store_effect :: "detail_page \<Rightarrow> detail_page" where
  "store_effect s =
     (if dp_environmentId s = [] \<or> dp_containerId s = [] then s
      else s\<lparr>dp_store := persisted (page_key s) (dp_sessions s) (dp_active s) (dp_store s)\<rparr>)"

text \<open>A render after which both effects run, and the render it asks for.\<close>

definition commit_both :: "detail_page \<Rightarrow> detail_page" where
  "commit_both s =
     (let (change, w) = restore_effect s; s1 = store_effect (s\<lparr>dp_store := w\<rparr>) in
      case change of
        None \<Rightarrow> s1
      | Some (ts, a) \<Rightarrow> store_effect (s1\<lparr>dp_sessions := ts, dp_active := a\<rparr>))"

text \<open>A render after which only the restoring effect runs: the name has come.\<close>

definition commit_restore :: "detail_page \<Rightarrow> detail_page" where
  "commit_restore s =
     (let (change, w) = restore_effect s; s1 = s\<lparr>dp_store := w\<rparr> in
      case change of
        None \<Rightarrow> s1
      | Some (ts, a) \<Rightarrow> store_effect (s1\<lparr>dp_sessions := ts, dp_active := a\<rparr>))"

text \<open>Opening the page, with the name of the container when its configuration is in the cache.\<close>

definition open_page :: "string \<Rightarrow> string \<Rightarrow> string option \<Rightarrow> world \<Rightarrow> detail_page" where
  "open_page environmentId containerId cached w =
     commit_both \<lparr>dp_environmentId = environmentId, dp_containerId = containerId, dp_name = cached,
       dp_sessions = [], dp_active = [], dp_store = w\<rparr>"

definition name_loaded :: "string \<Rightarrow> detail_page \<Rightarrow> detail_page" where
  "name_loaded n s = (if dp_name s = Some n then s else commit_restore (s\<lparr>dp_name := Some n\<rparr>))"

definition openTerminalWorkspace :: "string \<Rightarrow> detail_page \<Rightarrow> detail_page" where
  "openTerminalWorkspace tab s =
     (case dp_sessions s of
        existing # _ \<Rightarrow> s\<lparr>dp_active := ts_tabId existing\<rparr>
      | [] \<Rightarrow> s\<lparr>dp_sessions := [new_terminal tab (dp_containerId s) (or_ostr (dp_name s) (dp_containerId s))
                 (dp_environmentId s)], dp_active := tab\<rparr>)"

text \<open>
  Opening the page of a container whose configuration is not loaded yet throws the stored
  terminals of the container away: the render before the name is known stores that there are
  none, so that nothing is left to restore when the name comes. With the configuration in the
  cache the terminals come back.
\<close>

theorem stored_terminals_lost:
  assumes "storage w \<noteq> None" "environmentId \<noteq> []" "containerId \<noteq> []"
  shows "dp_sessions (name_loaded n (open_page environmentId containerId None w)) = [] \<and>
    get_item (detail_key environmentId containerId)
      (dp_store (name_loaded n (open_page environmentId containerId None w))) = None \<and>
    (\<forall>ts a. n \<noteq> [] \<and> truthy_str (get_item (detail_key environmentId containerId) w) \<and>
       restored (\<lambda>t. ts_environmentId t = environmentId \<and> ts_containerId t = containerId)
         (detail_key environmentId containerId) w = Some (ts, a) \<longrightarrow>
       dp_sessions (open_page environmentId containerId (Some n) w) = ts \<and>
       dp_active (open_page environmentId containerId (Some n) w) = a)"
proof (intro conjI allI impI)
  let ?s = "\<lparr>dp_environmentId = environmentId, dp_containerId = containerId, dp_name = None,
     dp_sessions = [], dp_active = [], dp_store = w\<rparr>"
  have "open_page environmentId containerId None w
      = ?s\<lparr>dp_store := remove_item (detail_key environmentId containerId) w\<rparr>"
    using assms by (simp add: open_page_def commit_both_def restore_effect_def store_effect_def
        persisted_def page_key_def truthy_str_def)
  then have "name_loaded n (open_page environmentId containerId None w)
      = ?s\<lparr>dp_store := remove_item (detail_key environmentId containerId) w, dp_name := Some n\<rparr>"
    using assms by (simp add: name_loaded_def commit_restore_def restore_effect_def page_key_def truthy_str_def)
  then show "dp_sessions (name_loaded n (open_page environmentId containerId None w)) = []"
    "get_item (detail_key environmentId containerId)
      (dp_store (name_loaded n (open_page environmentId containerId None w))) = None" by simp_all
next
  fix ts a
  assume h: "n \<noteq> [] \<and> truthy_str (get_item (detail_key environmentId containerId) w) \<and>
    restored (\<lambda>t. ts_environmentId t = environmentId \<and> ts_containerId t = containerId)
      (detail_key environmentId containerId) w = Some (ts, a)"
  show "dp_sessions (open_page environmentId containerId (Some n) w) = ts"
    "dp_active (open_page environmentId containerId (Some n) w) = a"
    using h assms by (simp_all add: open_page_def commit_both_def restore_effect_def store_effect_def
        page_key_def own_terminal_def [abs_def] truthy_str_def)
qed

definition stored_detail :: world where
  "stored_detail = save_value workspace_json (detail_key ''e1'' ''c1'')
     ([new_terminal ''t1'' ''c1'' ''web'' ''e1''], ''t1'') empty_store"

theorem stored_terminals_lost_witness:
  "dp_sessions (name_loaded ''web'' (open_page ''e1'' ''c1'' None stored_detail)) = [] \<and>
   dp_sessions (open_page ''e1'' ''c1'' (Some ''web'') stored_detail) = [new_terminal ''t1'' ''c1'' ''web'' ''e1'']"
proof -
  let ?t = "new_terminal ''t1'' ''c1'' ''web'' ''e1''" and ?k = "detail_key ''e1'' ''c1''"
  have s: "storage stored_detail \<noteq> None" by (simp add: stored_detail_def save_value_def empty_store_def set_item_def)
  have l: "load_value read_workspace ?k stored_detail = Some ([?t], ''t1'')"
    unfolding stored_detail_def
    by (rule stored_workspace.load_save) (simp_all add: new_terminal_def empty_store_def)
  have "json_text v \<noteq> []" for v using json_text_length [of v] by force
  then have g: "truthy_str (get_item ?k stored_detail)"
    by (simp add: stored_detail_def save_value_def truthy_str_def empty_store_def)
  have "restored (\<lambda>t. ts_environmentId t = ''e1'' \<and> ts_containerId t = ''c1'') ?k stored_detail = Some ([?t], ''t1'')"
    using l g by (simp add: restored_def Let_def new_terminal_def without_session_id_def chosen_tab_def)
  then show ?thesis
    using stored_terminals_lost [OF s, of "''e1''" "''c1''" "''web''"] g by simp
qed

section \<open>The editor of a file\<close>

text \<open>What the query cache holds of each file is \<^const>\<open>None\<close> until the file is read.\<close>

record file_editor =
  fe_selected :: string
  fe_files :: "string \<rightharpoonup> string"
  fe_content :: string

definition content_effect :: "file_editor \<Rightarrow> file_editor" where
  "content_effect s = s\<lparr>fe_content := (case fe_files s (fe_selected s) of None \<Rightarrow> [] | Some c \<Rightarrow> c)\<rparr>"

definition select_file :: "string \<Rightarrow> file_editor \<Rightarrow> file_editor" where
  "select_file path s =
     (if path = fe_selected s then s else content_effect (s\<lparr>fe_selected := path\<rparr>))"

definition file_read :: "string \<Rightarrow> string \<Rightarrow> file_editor \<Rightarrow> file_editor" where
  "file_read path c s =
     (let s1 = s\<lparr>fe_files := (fe_files s)(path \<mapsto> c)\<rparr> in
      if path = fe_selected s \<and> fe_files s path \<noteq> Some c then content_effect s1 else s1)"

definition edit_content :: "string \<Rightarrow> file_editor \<Rightarrow> file_editor" where
  "edit_content t s = s\<lparr>fe_content := t\<rparr>"

text \<open>What the Save button, which is there when a file is selected, sends: the path and the content.\<close>

definition save_file :: "file_editor \<Rightarrow> (string \<times> string) option" where
  "save_file s = (if fe_selected s = [] then None else Some (fe_selected s, fe_content s))"

text \<open>
  Saving a file that was just selected writes an empty file over it as long as its content has
  not been read, and saves the file unchanged once it has; an answer that differs from the last one
  replaces what was typed meanwhile.
\<close>

theorem unread_file_emptied:
  assumes "path \<noteq> []" "path \<noteq> fe_selected s"
  shows "save_file (select_file path s)
      = Some (path, case fe_files s path of None \<Rightarrow> [] | Some c \<Rightarrow> c) \<and>
    (fe_files s path \<noteq> Some c \<longrightarrow>
       save_file (file_read path c (edit_content t (select_file path s))) = Some (path, c))"
  using assms by (simp add: save_file_def select_file_def content_effect_def file_read_def edit_content_def Let_def)

theorem unread_file_emptied_witness:
  "save_file (select_file ''/etc/hosts'' \<lparr>fe_selected = [], fe_files = Map.empty, fe_content = []\<rparr>)
     = Some (''/etc/hosts'', []) \<and>
   save_file (file_read ''/etc/hosts'' ''127.0.0.1'' (edit_content ''draft'' (select_file ''/etc/hosts''
     \<lparr>fe_selected = [], fe_files = Map.empty, fe_content = []\<rparr>))) = Some (''/etc/hosts'', ''127.0.0.1'')"
  using unread_file_emptied [of "''/etc/hosts''" "\<lparr>fe_selected = [], fe_files = Map.empty, fe_content = []\<rparr>"
      "''127.0.0.1''" "''draft''"] by simp

text \<open>The files of the tree: a click on a file or a directory, and the directory a file is in.\<close>

definition parentDirectory :: "string \<Rightarrow> string" where
  "parentDirectory path =
     (let normalized = rev (dropWhile (\<lambda>c. c = CHR ''/'') (rev path));
          parts = filter (\<lambda>t. t \<noteq> []) (split_on (CHR ''/'') normalized) in
      if length parts \<le> 1 then ''/'' else ''/'' @ join_with ''/'' (butlast parts))"

record file_item =
  fi_path :: string
  fi_is_dir :: bool

definition click_item ::
  "file_item \<Rightarrow> string \<times> string list \<times> file_editor \<Rightarrow> string \<times> string list \<times> file_editor" where
  "click_item item st =
     (let (directory, expanded, files) = st in
      if fi_is_dir item then (fi_path item, toggle_tag (fi_path item) expanded, files)
      else (parentDirectory (fi_path item), expanded, select_file (fi_path item) files))"

lemma parent_of_path:
  assumes "\<forall>p \<in> set (ps @ [q]). p \<noteq> [] \<and> CHR ''/'' \<notin> set p"
  shows "parentDirectory (''/'' @ join_with ''/'' (ps @ [q])) = (if ps = [] then ''/'' else ''/'' @ join_with ''/'' ps)"
proof -
  have end': "\<exists>r x. join_with ''/'' (ps @ [q]) = r @ [x] \<and> x \<noteq> CHR ''/''"
  proof -
    obtain r x where q: "q = r @ [x]" "x \<noteq> CHR ''/''" using assms by (cases q rule: rev_cases) auto
    have "\<exists>u. join_with ''/'' (qs @ [q]) = u @ q" for qs
      by (induction qs) (auto simp: join_with_Cons)
    then show ?thesis using q by (metis append_assoc)
  qed
  then obtain r x where rx: "join_with ''/'' (ps @ [q]) = r @ [x]" "x \<noteq> CHR ''/''" by blast
  then have "rev (dropWhile (\<lambda>c. c = CHR ''/'') (rev (''/'' @ join_with ''/'' (ps @ [q]))))
      = ''/'' @ join_with ''/'' (ps @ [q])" by simp
  moreover have "split_on (CHR ''/'') (join_with ''/'' (ps @ [q])) = ps @ [q]"
    using assms by (intro split_join) auto
  moreover have "filter (\<lambda>t. t \<noteq> []) (ps @ [q]) = ps @ [q]" using assms by (simp add: filter_id_conv)
  ultimately show ?thesis by (simp add: parentDirectory_def Let_def)
qed

section \<open>The measures\<close>

record history_point =
  hp_timestamp :: int

definition add_point :: "history_point \<Rightarrow> history_point list \<Rightarrow> history_point list" where
  "add_point p current = (let l = current @ [p] in drop (length l - 720) l)"

definition filteredHistory :: "string \<Rightarrow> int \<Rightarrow> history_point list \<Rightarrow> history_point list" where
  "filteredHistory timeWindow now points =
     filter (\<lambda>p. now - hp_timestamp p \<le> (if timeWindow = ''15m'' then 15 * 60000 else 60 * 60000)) points"

lemma history_bounded: "length (foldl (\<lambda>h p. add_point p h) [] ps) \<le> 720"
proof -
  have "length h \<le> 720 \<Longrightarrow> length (foldl (\<lambda>h p. add_point p h) h ps) \<le> 720" for h
    by (induction ps arbitrary: h) (simp_all add: add_point_def Let_def)
  then show ?thesis by simp
qed

section \<open>The inspected container\<close>

definition asRecord :: "json option \<Rightarrow> json" where
  "asRecord v = (case v of Some (JObj m) \<Rightarrow> JObj m | _ \<Rightarrow> JObj [])"

definition text_or_empty :: "json option \<Rightarrow> string" where
  "text_or_empty v = jstring (jor v (Some (JStr [])))"

record bind_mount =
  bm_source :: string
  bm_destination :: string
  bm_type :: string
  bm_name :: string
  bm_mode :: string
  bm_rw :: "json option"

definition inspect_of :: "json option \<Rightarrow> json option" where
  "inspect_of data = jnullish (jget ''inspect'' data) (Some (JObj []))"

definition bind_mount_of :: "json \<Rightarrow> bind_mount" where
  "bind_mount_of mount =
     (let m = (\<lambda>k. jget k (Some mount)) in
      \<lparr>bm_source = text_or_empty (jor (m ''Source'') (m ''Name'')),
       bm_destination = text_or_empty (m ''Destination''), bm_type = text_or_empty (m ''Type''),
       bm_name = text_or_empty (m ''Name''), bm_mode = text_or_empty (m ''Mode''), bm_rw = m ''RW''\<rparr>)"

definition getBindMounts :: "json option \<Rightarrow> bind_mount list" where
  "getBindMounts data =
     (case jget ''Mounts'' (jget ''inspect'' data) of
        Some (JArr mounts) \<Rightarrow> map bind_mount_of mounts
      | _ \<Rightarrow> [])"

definition pick :: "json \<Rightarrow> (string \<times> string) list \<Rightarrow> (string \<times> json option) list" where
  "pick source names = map (\<lambda>(k, n). (k, jget n (Some source))) names"

definition buildInspectSections :: "json option \<Rightarrow> (string \<times> json option) list" where
  "buildInspectSections data =
     (let inspect = the (inspect_of data);
          i = (\<lambda>k. jget k (Some inspect));
          config = asRecord (i ''Config'');
          hostConfig = asRecord (i ''HostConfig'');
          networkSettings = asRecord (i ''NetworkSettings'');
          c = (\<lambda>k. jget k (Some config));
          h = (\<lambda>k. jget k (Some hostConfig));
          none = Some (JObj []); empty = Some (JArr []) in
      [(''platform'', Some (JObj (members (pick inspect
          [(''id'', ''Id''), (''name'', ''Name''), (''created'', ''Created''), (''platform'', ''Platform''),
           (''driver'', ''Driver''), (''os'', ''Os''), (''resolv_conf_path'', ''ResolvConfPath''),
           (''hostname_path'', ''HostnamePath''), (''hosts_path'', ''HostsPath'')])))),
       (''cmd'', Some (JObj (members
          (pick inspect [(''path'', ''Path''), (''args'', ''Args'')] @
           pick config [(''entrypoint'', ''Entrypoint''), (''cmd'', ''Cmd''), (''working_dir'', ''WorkingDir'')])))),
       (''state'', i ''State''),
       (''image'', Some (JObj (members
          [(''image'', c ''Image''), (''image_id'', i ''Image''), (''container_id'', i ''Id''), (''labels'', c ''Labels'')]))),
       (''portBindings'', jnullish (h ''PortBindings'') none),
       (''runtime'', Some (JObj (members (pick hostConfig
          [(''restart_policy'', ''RestartPolicy''), (''log_config'', ''LogConfig''), (''runtime'', ''Runtime''),
           (''privileged'', ''Privileged''), (''cpu_shares'', ''CpuShares''), (''memory'', ''Memory''),
           (''nano_cpus'', ''NanoCpus'')])))),
       (''mounts'', jnullish (i ''Mounts'') empty),
       (''volumes'', Some (JObj (members
          [(''mounts'', jnullish (i ''Mounts'') empty), (''binds'', jnullish (h ''Binds'') empty),
           (''declared_volumes'', jnullish (c ''Volumes'') none)]))),
       (''env'', jnullish (c ''Env'') empty),
       (''labels'', jnullish (c ''Labels'') none),
       (''networks'', jnullish (jget ''Networks'' (Some networkSettings)) none)])"

text \<open>Every section but the state has a value, whatever the server answered.\<close>

lemma sections_defined:
  "map fst (buildInspectSections data) = [''platform'', ''cmd'', ''state'', ''image'', ''portBindings'',
     ''runtime'', ''mounts'', ''volumes'', ''env'', ''labels'', ''networks''] \<and>
   (\<forall>(k, v) \<in> set (buildInspectSections data). k = ''state'' \<or> v \<noteq> None)"
  by (simp add: buildInspectSections_def Let_def jnullish_def)

end
