(* ===== verification/BuildStream.thy ===== *)
theory BuildStream
  imports ServerApi JsonCodec
begin

text \<open>
  The stream of a docker operation, from \<open>features/docker/pages/BuildArtifactsPage.tsx\<close>: the level
  of a line of the log, the operations kept in the session storage of the browser tab, and
  \<open>streamDockerOperation\<close>, which cuts the body of a response into lines as it arrives. What a stream
  does to its surroundings is a list of calls in their order; the texts of the chunks are what the
  decoder of the platform gives for them.
\<close>

section \<open>The log\<close>

datatype log_level = Info | Success | Warning | Failure

record log_entry =
  le_text :: string
  le_level :: log_level
  le_timestamp :: int

definition mentions :: "string \<Rightarrow> string list \<Rightarrow> bool" where
  "mentions s ws \<longleftrightarrow> list_ex (str_includes s) ws"

definition detectLogLevel :: "string \<Rightarrow> log_level" where
  "detectLogLevel t =
     (let value = lower t in
      if mentions value [''error'', ''failed'', ''denied'', ''unauthorized'', ''panic'', ''exception'']
      then Failure
      else if mentions value [''warn'', ''warning'', ''pending'', ''cancel'', ''deprecated'', ''retry'']
      then Warning
      else if mentions value [''done'', ''success'', ''completed'', ''loaded image'', ''writing image sha'']
      then Success
      else Info)"

definition createLogEntry :: "int \<Rightarrow> string \<Rightarrow> log_entry" where
  "createLogEntry now t = \<lparr>le_text = t, le_level = detectLogLevel t, le_timestamp = now\<rparr>"

section \<open>Stored operations\<close>

datatype op_kind = Build | Import | Rebuild

definition kind_text :: "op_kind \<Rightarrow> string" where
  "kind_text k = (case k of Build \<Rightarrow> ''build'' | Import \<Rightarrow> ''import'' | Rebuild \<Rightarrow> ''rebuild'')"

definition op_kinds :: "op_kind list" where
  "op_kinds = [Build, Import, Rebuild]"

text \<open>
  The item of the session storage is its text, \<^const>\<open>None\<close> when there is none. An operation is the
  object that was stored.
\<close>

type_synonym slot = "string option"

definition op_id :: "json \<Rightarrow> json option" where
  "op_id item = jget ''operationId'' (Some item)"

definition op_of :: "op_kind \<Rightarrow> string \<Rightarrow> json \<Rightarrow> bool" where
  "op_of k eid item \<longleftrightarrow> jget ''environmentId'' (Some item) = Some (JStr eid) \<and>
     jget ''kind'' (Some item) = Some (JStr (kind_text k))"

definition stored_op :: "json \<Rightarrow> op_kind \<Rightarrow> string \<Rightarrow> json" where
  "stored_op oid k eid =
     JObj [(''operationId'', oid), (''kind'', JStr (kind_text k)), (''environmentId'', JStr eid)]"

definition readStoredOperations :: "slot \<Rightarrow> json list" where
  "readStoredOperations s =
     (if \<not> truthy_str s then []
      else (case json_parse (the s) of Some (JArr items) \<Rightarrow> items | _ \<Rightarrow> []))"

definition writeStoredOperation :: "json \<Rightarrow> op_kind \<Rightarrow> string \<Rightarrow> slot \<Rightarrow> slot" where
  "writeStoredOperation oid k eid s =
     Some (json_text (JArr (filter (\<lambda>i. op_id i \<noteq> Some oid) (readStoredOperations s) @ [stored_op oid k eid])))"

definition clearStoredOperation :: "json option \<Rightarrow> slot \<Rightarrow> slot" where
  "clearStoredOperation oid s =
     (let current = readStoredOperations s;
          remaining = (if truthy oid then filter (\<lambda>i. op_id i \<noteq> oid) current else []) in
      if current = [] then s
      else if remaining = [] then None
      else Some (json_text (JArr remaining)))"

subsection \<open>What is read back\<close>

definition wf_ops :: "json list \<Rightarrow> bool" where
  "wf_ops items \<longleftrightarrow> wf_json (JArr items)"

interpretation ops_value: stored_value JArr "\<lambda>v. case v of JArr items \<Rightarrow> Some items | _ \<Rightarrow> None" wf_ops
  by unfold_locales (simp_all add: wf_ops_def)

lemma read_wf: "wf_ops (readStoredOperations s)"
proof (cases "truthy_str s")
  case True
  then show ?thesis
    using json_parse_wf [of "the s"]
    by (cases "json_parse (the s)") (auto simp: readStoredOperations_def wf_ops_def split: json.split)
qed (simp add: readStoredOperations_def wf_ops_def)

lemma read_written: "wf_ops items \<Longrightarrow> readStoredOperations (Some (json_text (JArr items))) = items"
  using parse_stringify [of "JArr items"] json_text_length [of "JArr items"]
  by (simp add: readStoredOperations_def wf_ops_def truthy_str_def)

lemma wf_ops_filter: "wf_ops items \<Longrightarrow> wf_ops (filter p items)"
  by (simp add: wf_ops_def wf_elems_iff)

lemma wf_stored_op: "wf_json oid \<Longrightarrow> wf_json (stored_op oid k eid)"
  by (simp add: stored_op_def)

lemma read_write:
  "wf_json oid \<Longrightarrow> readStoredOperations (writeStoredOperation oid k eid s) =
     filter (\<lambda>i. op_id i \<noteq> Some oid) (readStoredOperations s) @ [stored_op oid k eid]"
  using wf_ops_filter [OF read_wf [of s], of "\<lambda>i. op_id i \<noteq> Some oid"]
  unfolding writeStoredOperation_def
  by (subst read_written) (simp_all add: wf_ops_def wf_elems_iff wf_stored_op)

lemma read_cleared:
  "readStoredOperations (clearStoredOperation oid s) =
     (if truthy oid then filter (\<lambda>i. op_id i \<noteq> oid) (readStoredOperations s) else [])"
proof -
  have none: "readStoredOperations None = []" by (simp add: readStoredOperations_def truthy_str_def)
  show ?thesis
    using wf_ops_filter [OF read_wf [of s], of "\<lambda>i. op_id i \<noteq> oid"]
    by (simp only: clearStoredOperation_def Let_def read_written none split: if_split) auto
qed

lemma op_id_stored [simp]: "op_id (stored_op oid k eid) = Some oid"
  by (simp add: op_id_def stored_op_def)

lemma op_of_stored [simp]: "op_of k eid (stored_op oid k' eid') \<longleftrightarrow> k = k' \<and> eid = eid'"
  by (cases k; cases k') (auto simp: op_of_def stored_op_def kind_text_def)

section \<open>Reading the stream\<close>

definition STREAM_RESULT_PREFIX :: string where
  "STREAM_RESULT_PREFIX = ''__EINFRA_STREAM_RESULT__ ''"

definition STREAM_META_PREFIX :: string where
  "STREAM_META_PREFIX = ''__EINFRA_STREAM_META__ ''"

datatype call =
    OnLine string
  | WriteStored json
  | ClearStored "json option"

text \<open>The variables of the reading loop; \<open>outcome\<close> is \<open>result\<close> of the code.\<close>

record reading =
  pending :: string
  outcome :: "json option"
  operation_id :: "json option"

definition reading0 :: reading where
  "reading0 = \<lparr>pending = [], outcome = None, operation_id = None\<rparr>"

text \<open>One line: the variables after it, the calls it makes, and what it throws.\<close>

type_synonym progress = "reading \<times> call list \<times> thrown option"

definition line_step :: "string \<Rightarrow> reading \<Rightarrow> progress" where
  "line_step line r =
     (if starts_with STREAM_META_PREFIX line then
        (case json_parse (drop (length STREAM_META_PREFIX) line) of
           None \<Rightarrow> (r, [], Some SyntaxError)
         | Some meta \<Rightarrow>
             if meta = JNull then (r, [], Some TypeError)
             else (case jget ''operation_id'' (Some meta) of
                 Some oid \<Rightarrow> if truthy (Some oid)
                   then (r\<lparr>operation_id := Some oid\<rparr>, [WriteStored oid], None) else (r, [], None)
               | None \<Rightarrow> (r, [], None)))
      else if starts_with STREAM_RESULT_PREFIX line then
        (case json_parse (drop (length STREAM_RESULT_PREFIX) line) of
           None \<Rightarrow> (r, [], Some SyntaxError)
         | Some v \<Rightarrow> (r\<lparr>outcome := Some v\<rparr>, [], None))
      else if trim line \<noteq> [] then (r, [OnLine line], None)
      else (r, [], None))"

abbreviation is_newline :: "char \<Rightarrow> bool" where
  "is_newline c \<equiv> c = CHR 0x0A"

text \<open>What a step does depends on the line only; \<open>pending\<close> is kept.\<close>

lemma line_step_pending:
  "line_step line (r\<lparr>pending := p\<rparr>) =
     (case line_step line r of (r1, cs, e) \<Rightarrow> (r1\<lparr>pending := p\<rparr>, cs, e))"
  by (simp add: line_step_def split: option.split)

lemma pending_line_step: "line_step line r = (r1, cs, e) \<Longrightarrow> pending r1 = pending r"
  by (auto simp: line_step_def split: if_splits option.splits)

lemma step_shorter:
  assumes "find_index is_newline (pending r) = Some i"
    and "(r1, rest) = line_step line (r\<lparr>pending := drop (Suc i) (pending r)\<rparr>)"
  shows "length (pending r1) < length (pending r)"
proof -
  obtain cs e where "rest = (cs, e)" by (cases rest)
  then have "line_step line (r\<lparr>pending := drop (Suc i) (pending r)\<rparr>) = (r1, cs, e)" using assms(2) by simp
  then have "pending r1 = drop (Suc i) (pending r)" using pending_line_step by fastforce
  then show ?thesis using assms(1) by (auto simp: find_index_Some)
qed

text \<open>The inner loop: every line of \<open>pending\<close> that is complete.\<close>

function drain :: "reading \<Rightarrow> progress" where
  "drain r =
     (case find_index is_newline (pending r) of
        None \<Rightarrow> (r, [], None)
      | Some i \<Rightarrow>
          (case line_step (rtrim (take i (pending r))) (r\<lparr>pending := drop (Suc i) (pending r)\<rparr>) of
             (r1, cs, Some e) \<Rightarrow> (r1, cs, Some e)
           | (r1, cs, None) \<Rightarrow> (case drain r1 of (r2, cs2, e) \<Rightarrow> (r2, cs @ cs2, e))))"
  by auto

termination
  by (relation "measure (\<lambda>r. length (pending r))") (simp_all add: step_shorter)

declare drain.simps [simp del]

definition cr_to_lf :: "string \<Rightarrow> string" where
  "cr_to_lf s = replace_all_char CHR 0x0D newline s"

definition read_chunk :: "string \<Rightarrow> reading \<Rightarrow> progress" where
  "read_chunk chunk r = drain (r\<lparr>pending := pending r @ cr_to_lf chunk\<rparr>)"

text \<open>After the last chunk: the unfinished line, and the result.\<close>

definition stream_end :: "reading \<Rightarrow> call list \<times> (thrown + json)" where
  "stream_end r =
     (let tail = trim (pending r) in
      case (if tail = [] then (r, [], None) else line_step tail r) of
        (r1, cs, Some e) \<Rightarrow> (cs, Inl e)
      | (r1, cs, None) \<Rightarrow>
          if \<not> truthy (outcome r1) then (cs, Inl (Error ''Runtime stream ended without a result payload.''))
          else (cs @ [ClearStored (operation_id r1)],
                if jget ''ok'' (outcome r1) = Some (JBool False)
                then Inl (Error (if truthy (jget ''message'' (outcome r1))
                                 then jstring (jget ''message'' (outcome r1)) else ''Runtime operation failed.''))
                else Inr (the (outcome r1))))"

fun read_from :: "string list \<Rightarrow> reading \<Rightarrow> call list \<times> (thrown + json)" where
  "read_from [] r = stream_end r"
| "read_from (c # cs) r =
     (case read_chunk c r of
        (r1, ks, Some e) \<Rightarrow> (ks, Inl e)
      | (r1, ks, None) \<Rightarrow> (case read_from cs r1 of (ks2, res) \<Rightarrow> (ks @ ks2, res)))"

text \<open>The whole body of a response, given as its chunks.\<close>

definition read_stream :: "string list \<Rightarrow> call list \<times> (thrown + json)" where
  "read_stream chunks = read_from chunks reading0"

subsection \<open>The head of the response\<close>

definition stream_headers :: "json \<Rightarrow> (string \<times> string) list \<Rightarrow> (string \<times> string) list" where
  "stream_headers session headers =
     spread (spread [(''Accept'', ''text/plain'')] (session_headers session)) headers"

definition stream_error :: "nat \<Rightarrow> string option \<Rightarrow> string \<Rightarrow> thrown" where
  "stream_error status content_type text =
     (let otherwise = ''API Error: '' @ show_nat status in
      if str_includes (or_ostr content_type []) ''application/json'' then
        (let errorData = (case json_parse text of None \<Rightarrow> JObj [] | Some v \<Rightarrow> v);
             m1 = jget ''message'' (jget ''error'' (Some errorData));
             m2 = jget ''message'' (Some errorData) in
         Error (if truthy m1 then jstring m1 else if truthy m2 then jstring m2 else otherwise))
      else Error (or_str text otherwise))"

section \<open>The chunks do not matter\<close>

lemma find_index_append_newline:
  "find_index p xs = Some i \<Longrightarrow> find_index p (xs @ ys) = Some i"
  by (induction xs arbitrary: i) (auto split: if_splits)

lemma pending_twice [simp]: "r\<lparr>pending := p, pending := q\<rparr> = r\<lparr>pending := q\<rparr>"
  by simp

lemma drain_more:
  "drain (r\<lparr>pending := pending r @ x\<rparr>) =
     (case drain r of
        (r1, cs, Some e) \<Rightarrow> (r1\<lparr>pending := pending r1 @ x\<rparr>, cs, Some e)
      | (r1, cs, None) \<Rightarrow>
          (case drain (r1\<lparr>pending := pending r1 @ x\<rparr>) of (r2, cs2, e) \<Rightarrow> (r2, cs @ cs2, e)))"
proof (induction r rule: drain.induct)
  case (1 r)
  show ?case
  proof (cases "find_index is_newline (pending r)")
    case None
    then show ?thesis by (simp add: drain.simps [of r])
  next
    case (Some i)
    let ?rest = "drop (Suc i) (pending r)" and ?line = "rtrim (take i (pending r))"
    obtain r1 cs e where step: "line_step ?line (r\<lparr>pending := ?rest\<rparr>) = (r1, cs, e)"
      by (metis prod_cases3)
    have i: "i < length (pending r)" using Some by (simp add: find_index_Some)
    have p1: "pending r1 = ?rest" using pending_line_step [OF step] by simp
    have step': "line_step ?line (r\<lparr>pending := ?rest @ x\<rparr>) = (r1\<lparr>pending := ?rest @ x\<rparr>, cs, e)"
      using line_step_pending [where line = ?line and r = "r\<lparr>pending := ?rest\<rparr>" and p = "?rest @ x"] step
      by simp
    have whole: "drain (r\<lparr>pending := pending r @ x\<rparr>) =
        (case e of Some err \<Rightarrow> (r1\<lparr>pending := ?rest @ x\<rparr>, cs, Some err)
         | None \<Rightarrow> (case drain (r1\<lparr>pending := ?rest @ x\<rparr>) of (r2, cs2, e2) \<Rightarrow> (r2, cs @ cs2, e2)))"
      using i step' find_index_append_newline [OF Some, of x]
      by (subst drain.simps) (simp split: option.split)
    have part: "drain r =
        (case e of Some err \<Rightarrow> (r1, cs, Some err)
         | None \<Rightarrow> (case drain r1 of (r2, cs2, e2) \<Rightarrow> (r2, cs @ cs2, e2)))"
      using Some step by (subst drain.simps) (simp split: option.split)
    show ?thesis
    proof (cases e)
      case None
      then show ?thesis
        using "1.IH" [OF Some step [symmetric]] whole part p1
        by (auto split: prod.split option.split)
    qed (use whole part p1 in simp)
  qed
qed

lemma cr_to_lf_append: "cr_to_lf (a @ b) = cr_to_lf a @ cr_to_lf b"
  by (simp add: cr_to_lf_def replace_all_char_def)

lemma read_chunk_append:
  "read_chunk (c @ d) r =
     (case read_chunk c r of
        (r1, cs, Some e) \<Rightarrow> (r1\<lparr>pending := pending r1 @ cr_to_lf d\<rparr>, cs, Some e)
      | (r1, cs, None) \<Rightarrow> (case read_chunk d r1 of (r2, cs2, e) \<Rightarrow> (r2, cs @ cs2, e)))"
  using drain_more [of "r\<lparr>pending := pending r @ cr_to_lf c\<rparr>" "cr_to_lf d"]
  unfolding read_chunk_def cr_to_lf_append by simp

lemma read_merge: "read_from (c # d # cs) r = read_from ((c @ d) # cs) r"
  by (simp add: read_chunk_append split: prod.split option.split)

lemma read_concat: "read_from (c # cs) r = read_from [c @ concat cs] r"
proof (induction cs arbitrary: c)
  case (Cons d cs)
  have "read_from (c # d # cs) r = read_from ((c @ d) # cs) r" by (rule read_merge)
  also have "\<dots> = read_from [(c @ d) @ concat cs] r" by (rule Cons.IH)
  finally show ?case by simp
qed simp

lemma read_nothing: "read_from [[]] reading0 = read_from [] reading0"
  by (simp add: read_chunk_def cr_to_lf_def replace_all_char_def reading0_def drain.simps)

lemma read_whole: "read_from cs reading0 = read_from [concat cs] reading0"
proof (cases cs)
  case (Cons c cs')
  then show ?thesis using read_concat [of c cs' reading0] by simp
qed (simp only: concat.simps read_nothing)

text \<open>
  C27. However the network cuts the output of a docker operation into chunks, in the middle of a
  line, of the marker of the result or of its JSON text, the console makes the same calls in the
  same order and ends with the same result or the same error.
\<close>

theorem chunks_do_not_matter: "read_stream cs = read_stream [concat cs]"
  unfolding read_stream_def by (rule read_whole)

section \<open>A whole operation\<close>

text \<open>A line as the server sends it: its end is visible and it has no line break of its own.\<close>

definition plain_line :: "string \<Rightarrow> bool" where
  "plain_line s \<longleftrightarrow> s \<noteq> [] \<and> \<not> is_ws (last s) \<and> CHR 0x0A \<notin> set s \<and> CHR 0x0D \<notin> set s"

text \<open>A line of the output, which may be blank or end in blanks, and the lines that are to be shown of several.\<close>

definition printed_line :: "string \<Rightarrow> bool" where
  "printed_line s \<longleftrightarrow> CHR 0x0A \<notin> set s \<and> CHR 0x0D \<notin> set s \<and>
     \<not> starts_with STREAM_META_PREFIX (rtrim s) \<and> \<not> starts_with STREAM_RESULT_PREFIX (rtrim s)"

definition shown_lines :: "string list \<Rightarrow> string list" where
  "shown_lines ls = filter (\<lambda>l. l \<noteq> []) (map rtrim ls)"

definition operation_text :: "string \<Rightarrow> string list \<Rightarrow> string \<Rightarrow> string" where
  "operation_text meta ls result =
     STREAM_META_PREFIX @ meta @ newline @ concat (map (\<lambda>l. l @ newline) ls) @
     newline @ STREAM_RESULT_PREFIX @ result @ newline"

lemma plain_line_rtrim: "plain_line s \<Longrightarrow> rtrim (p @ s) = p @ s"
  by (simp add: plain_line_def rtrim_fix)

lemma plain_line_visible:
  assumes "plain_line s"
  shows "trim s \<noteq> []"
proof -
  have "last s \<in> set s" "\<not> is_ws (last s)" using assms by (auto simp: plain_line_def)
  then have "dropWhile is_ws s \<noteq> []" by (auto simp: dropWhile_eq_Nil_conv)
  then have "last (dropWhile is_ws s) = last s" by (metis last_appendR takeWhile_dropWhile_id)
  then show ?thesis
    using \<open>\<not> is_ws (last s)\<close> \<open>dropWhile is_ws s \<noteq> []\<close> by (simp add: trim_def ltrim_def rtrim_fix)
qed

lemma find_index_line:
  "CHR 0x0A \<notin> set l \<Longrightarrow> find_index is_newline (l @ CHR 0x0A # rest) = Some (length l)"
  by (induction l) auto

lemma drain_line:
  assumes "CHR 0x0A \<notin> set l" "line_step (rtrim l) (r\<lparr>pending := rest\<rparr>) = (r1, cs, None)"
  shows "drain (r\<lparr>pending := l @ CHR 0x0A # rest\<rparr>) =
    (case drain r1 of (r2, cs2, e) \<Rightarrow> (r2, cs @ cs2, e))"
  using assms find_index_line [OF assms(1), of rest] by (subst drain.simps) simp

lemma drain_end: "pending r = [] \<Longrightarrow> drain r = (r, [], None)"
  by (simp add: drain.simps)

lemma prefixes_visible:
  "set STREAM_META_PREFIX \<inter> {CHR 0x0A, CHR 0x0D} = {}" "set STREAM_RESULT_PREFIX \<inter> {CHR 0x0A, CHR 0x0D} = {}"
  "\<not> starts_with STREAM_META_PREFIX (STREAM_RESULT_PREFIX @ x)"
  by (simp_all add: STREAM_META_PREFIX_def STREAM_RESULT_PREFIX_def starts_with_def)

lemma meta_step:
  assumes "json_parse m = Some meta" "jget ''operation_id'' (Some meta) = Some oid" "truthy (Some oid)"
  shows "line_step (STREAM_META_PREFIX @ m) r = (r\<lparr>operation_id := Some oid\<rparr>, [WriteStored oid], None)"
  using assms by (cases meta) (auto simp: line_step_def)

lemma result_step:
  "json_parse t = Some v \<Longrightarrow>
     line_step (STREAM_RESULT_PREFIX @ t) r = (r\<lparr>outcome := Some v\<rparr>, [], None)"
  by (simp add: line_step_def prefixes_visible)

lemma blank_line: "rtrim l = [] \<longleftrightarrow> (\<forall>c \<in> set l. is_ws c)" "trim l = [] \<longleftrightarrow> (\<forall>c \<in> set l. is_ws c)"
proof -
  have r: "rtrim x = [] \<longleftrightarrow> (\<forall>c \<in> set x. is_ws c)" for x by (simp add: rtrim_def dropWhile_eq_Nil_conv)
  then show "rtrim l = [] \<longleftrightarrow> (\<forall>c \<in> set l. is_ws c)" .
  show "trim l = [] \<longleftrightarrow> (\<forall>c \<in> set l. is_ws c)"
    unfolding trim_def r ltrim_def by (metis dropWhile_eq_Nil_conv hd_dropWhile list.set_sel(1) set_dropWhileD)
qed

lemma rtrim_visible: "trim (rtrim l) = [] \<longleftrightarrow> rtrim l = []"
proof -
  have "rtrim (rtrim l) = rtrim l" by (simp add: rtrim_def)
  then show ?thesis unfolding blank_line(2) using blank_line(1) [of "rtrim l"] by simp
qed

lemma log_step:
  "printed_line l \<Longrightarrow> line_step (rtrim l) r = (r, map OnLine (shown_lines [l]), None)"
  by (simp add: line_step_def printed_line_def shown_lines_def rtrim_visible)

lemma drain_log:
  assumes "\<forall>l \<in> set ls. printed_line l" "drain (r\<lparr>pending := rest\<rparr>) = (r1, cs, e)"
  shows "drain (r\<lparr>pending := concat (map (\<lambda>l. l @ newline) ls) @ rest\<rparr>) = (r1, map OnLine (shown_lines ls) @ cs, e)"
  using assms(1)
proof (induction ls)
  case (Cons l ls)
  then have l: "printed_line l" "CHR 0x0A \<notin> set l" by (auto simp: printed_line_def)
  show ?case
    using drain_line [where l = l and r = r, OF l(2) log_step [OF l(1)]] Cons by (simp add: shown_lines_def)
qed (simp add: assms(2) shown_lines_def)

lemma no_cr: "CHR 0x0D \<notin> set s \<Longrightarrow> cr_to_lf s = s"
  by (induction s) (auto simp: cr_to_lf_def replace_all_char_def)

lemma drain_operation:
  assumes m: "plain_line m" "json_parse m = Some meta" "jget ''operation_id'' (Some meta) = Some oid"
      "truthy (Some oid)"
    and ls: "\<forall>l \<in> set ls. printed_line l"
    and t: "plain_line t" "json_parse t = Some v"
  shows "drain (reading0\<lparr>pending := operation_text m ls t\<rparr>) =
    (\<lparr>pending = [], outcome = Some v, operation_id = Some oid\<rparr>, WriteStored oid # map OnLine (shown_lines ls), None)"
proof -
  let ?r = "reading0\<lparr>operation_id := Some oid\<rparr>"
  let ?fin = "STREAM_RESULT_PREFIX @ t @ newline"
  have lf: "CHR 0x0A \<notin> set (STREAM_RESULT_PREFIX @ t)" "CHR 0x0A \<notin> set (STREAM_META_PREFIX @ m)"
    using prefixes_visible t(1) m(1) by (auto simp: plain_line_def)
  have "drain (?r\<lparr>pending := ?fin\<rparr>) = (?r\<lparr>pending := [], outcome := Some v\<rparr>, [], None)"
    using drain_line [where r = ?r and rest = "[]", OF lf(1)] result_step [OF t(2)] plain_line_rtrim [OF t(1)]
    by (simp add: drain_end)
  moreover have "line_step (rtrim []) x = (x, [], None)" for x
    by (simp add: line_step_def rtrim_fix starts_with_def STREAM_META_PREFIX_def STREAM_RESULT_PREFIX_def)
  ultimately have "drain (?r\<lparr>pending := newline @ ?fin\<rparr>) = (?r\<lparr>pending := [], outcome := Some v\<rparr>, [], None)"
    using drain_line [where l = "[]" and r = ?r and rest = ?fin] by simp
  from drain_log [OF ls this] show ?thesis
    using drain_line [where r = reading0, OF lf(2)] meta_step [OF m(2-)] plain_line_rtrim [OF m(1)]
    by (simp add: operation_text_def reading0_def)
qed

text \<open>
  What the server sends for an operation arrives whatever the network does to it: its id is
  stored first, every line of its output that is not blank is shown once, in order and without the blanks at its end, its entry is
  cleared last and its result is the one the server sent.
\<close>

lemma operation_arrives:
  assumes "concat cs = operation_text m ls t"
    and "plain_line m" "json_parse m = Some meta" "jget ''operation_id'' (Some meta) = Some oid" "truthy (Some oid)"
    and "\<forall>l \<in> set ls. printed_line l"
    and "plain_line t" "json_parse t = Some v" "truthy (Some v)" "jget ''ok'' (Some v) \<noteq> Some (JBool False)"
  shows "read_stream cs = (WriteStored oid # map OnLine (shown_lines ls) @ [ClearStored (Some oid)], Inr v)"
proof -
  have "CHR 0x0D \<notin> set (operation_text m ls t)"
    using assms(2,6,7) prefixes_visible by (auto simp: operation_text_def plain_line_def printed_line_def)
  then have "read_chunk (operation_text m ls t) reading0 =
      (\<lparr>pending = [], outcome = Some v, operation_id = Some oid\<rparr>, WriteStored oid # map OnLine (shown_lines ls), None)"
    using drain_operation [OF assms(2-8)] by (simp add: read_chunk_def no_cr reading0_def)
  then have "read_from [operation_text m ls t] reading0 =
      (WriteStored oid # map OnLine (shown_lines ls) @ [ClearStored (Some oid)], Inr v)"
    using assms(9,10) by (simp add: stream_end_def)
  then show ?thesis using read_whole [of cs] assms(1) by (simp only: read_stream_def)
qed

lemma operation_arrives_witness:
  "let oid = JStr ''docker-op-1''; m = json_text (JObj [(''operation_id'', oid), (''kind'', JStr ''build'')]);
       v = JObj [(''ok'', JBool True)]; sent = operation_text m [''  #1 done''] (json_text v) in
   read_stream [take 40 sent, drop 40 sent] =
     (WriteStored oid # map OnLine (shown_lines [''  #1 done'']) @ [ClearStored (Some oid)], Inr v)"
  unfolding Let_def
  by (rule operation_arrives
        [where meta = "JObj [(''operation_id'', JStr ''docker-op-1''), (''kind'', JStr ''build'')]",
         OF _ _ parse_stringify _ _ _ _ parse_stringify]) code_simp+

section \<open>What the calls leave stored\<close>

definition store_call :: "op_kind \<Rightarrow> string \<Rightarrow> call \<Rightarrow> slot \<Rightarrow> slot" where
  "store_call k eid c s = (case c of
      OnLine _ \<Rightarrow> s
    | WriteStored oid \<Rightarrow> writeStoredOperation oid k eid s
    | ClearStored oid \<Rightarrow> clearStoredOperation oid s)"

definition store_calls :: "op_kind \<Rightarrow> string \<Rightarrow> call list \<Rightarrow> slot \<Rightarrow> slot" where
  "store_calls k eid cs s = fold (store_call k eid) cs s"

definition sound_call :: "call \<Rightarrow> bool" where
  "sound_call c = (case c of WriteStored oid \<Rightarrow> wf_json oid \<and> truthy (Some oid) | _ \<Rightarrow> True)"

lemma parsed_member_wf: "json_parse s = Some v \<Longrightarrow> jget k (Some v) = Some x \<Longrightarrow> wf_json x"
  by (rule wf_jget [OF json_parse_wf])

lemma line_step_sound: "line_step line r = (r1, cs, e) \<Longrightarrow> list_all sound_call cs"
  by (auto simp: line_step_def sound_call_def intro: parsed_member_wf split: if_splits option.splits)

lemma drain_sound: "drain r = (r1, cs, e) \<Longrightarrow> list_all sound_call cs"
proof (induction r arbitrary: r1 cs e rule: drain.induct)
  case (1 r)
  show ?case
  proof (cases "find_index is_newline (pending r)")
    case None
    then show ?thesis using "1.prems" by (simp add: drain.simps [of r])
  next
    case (Some i)
    let ?l = "rtrim (take i (pending r))" and ?r = "r\<lparr>pending := drop (Suc i) (pending r)\<rparr>"
    obtain r2 ks err where step: "line_step ?l ?r = (r2, ks, err)" by (metis prod_cases3)
    note ks = line_step_sound [OF step]
    obtain r3 ks2 e2 where rest: "drain r2 = (r3, ks2, e2)" by (metis prod_cases3)
    show ?thesis
      using "1.prems" "1.IH" [OF Some step [symmetric] refl] ks rest Some step
      by (subst (asm) drain.simps) (auto split: option.splits)
  qed
qed

lemma read_chunk_sound: "read_chunk c r = (r1, cs, e) \<Longrightarrow> list_all sound_call cs"
  unfolding read_chunk_def by (rule drain_sound)

lemma stream_end_sound: "stream_end r = (cs, res) \<Longrightarrow> list_all sound_call cs"
  using line_step_sound [of "trim (pending r)" r]
  by (auto simp: stream_end_def Let_def sound_call_def split: if_splits prod.splits option.splits)

text \<open>The ids stored stay distinct, well formed and truthy.\<close>

definition sound_slot :: "slot \<Rightarrow> bool" where
  "sound_slot s \<longleftrightarrow> distinct (map op_id (readStoredOperations s)) \<and>
     (\<forall>i \<in> set (readStoredOperations s). truthy (op_id i))"

lemma store_sound: "sound_call c \<Longrightarrow> sound_slot s \<Longrightarrow> sound_slot (store_call k eid c s)"
  by (cases c) (auto simp: store_call_def sound_call_def sound_slot_def read_write read_cleared distinct_map
      intro: inj_on_subset)

lemma stores_sound: "list_all sound_call cs \<Longrightarrow> sound_slot s \<Longrightarrow> sound_slot (store_calls k eid cs s)"
  by (induction cs arbitrary: s) (simp_all add: store_calls_def store_sound)

subsection \<open>A stream that never names its operation\<close>

definition names_none :: "call list \<Rightarrow> bool" where
  "names_none cs \<longleftrightarrow> list_all (\<lambda>c. case c of WriteStored _ \<Rightarrow> False | _ \<Rightarrow> True) cs"

lemma line_step_unnamed:
  "line_step line r = (r1, cs, e) \<Longrightarrow> names_none cs \<Longrightarrow> operation_id r1 = operation_id r"
  by (auto simp: line_step_def names_none_def split: if_splits option.splits)

lemma drain_unnamed:
  "drain r = (r1, cs, e) \<Longrightarrow> names_none cs \<Longrightarrow> operation_id r1 = operation_id r"
proof (induction r arbitrary: r1 cs e rule: drain.induct)
  case (1 r)
  show ?case
  proof (cases "find_index is_newline (pending r)")
    case None
    then show ?thesis using "1.prems" by (simp add: drain.simps [of r])
  next
    case (Some i)
    let ?l = "rtrim (take i (pending r))" and ?r = "r\<lparr>pending := drop (Suc i) (pending r)\<rparr>"
    obtain r2 ks err where step: "line_step ?l ?r = (r2, ks, err)" by (metis prod_cases3)
    obtain r3 ks2 e2 where rest: "drain r2 = (r3, ks2, e2)" by (metis prod_cases3)
    show ?thesis
      using "1.prems" "1.IH" [OF Some step [symmetric] refl] rest Some step line_step_unnamed [OF step]
      by (subst (asm) drain.simps) (auto simp: names_none_def split: option.splits)
  qed
qed

lemma unnamed_end:
  "read_from cs r = (ks, Inr v) \<Longrightarrow> names_none ks \<Longrightarrow> operation_id r = None \<Longrightarrow> \<exists>ks'. ks = ks' @ [ClearStored None]"
proof (induction cs arbitrary: r ks)
  case Nil
  then show ?case
    using line_step_unnamed [of "trim (pending r)" r]
    by (auto simp: stream_end_def Let_def names_none_def split: if_splits prod.splits option.splits)
next
  case (Cons c cs)
  obtain r1 ks1 e where chunk: "read_chunk c r = (r1, ks1, e)" by (metis prod_cases3)
  obtain ks2 res where rest: "read_from cs r1 = (ks2, res)" by (cases "read_from cs r1")
  have "operation_id r1 = None" "ks = ks1 @ ks2" "res = Inr v" "names_none ks2"
    using Cons.prems chunk rest drain_unnamed [OF chunk [unfolded read_chunk_def]]
    by (auto simp: names_none_def split: option.splits)
  then show ?case using Cons.IH rest by fastforce
qed

text \<open>
  An operation whose stream ends well without having named itself clears the entries of every
  operation of every environment, the ones still running included.
\<close>

theorem unnamed_stream_clears_all:
  assumes "read_stream cs = (ks, Inr v)" "names_none ks"
  shows "readStoredOperations (store_calls k eid ks s) = []"
  using unnamed_end [OF assms(1) [unfolded read_stream_def] assms(2)]
  by (auto simp: reading0_def store_calls_def store_call_def read_cleared)

lemma unnamed_stream_clears_all_witness:
  "readStoredOperations (store_calls Build ''env'' [ClearStored None]
     (writeStoredOperation (JStr ''op'') Import ''other'' None)) = []"
  by (rule unnamed_stream_clears_all [of "[STREAM_RESULT_PREFIX @ json_text (JObj [(''ok'', JBool True)])]" _
      "JObj [(''ok'', JBool True)]"]) code_simp+

end
