(* ===== verification/BuildArtifacts.thy ===== *)
theory BuildArtifacts
  imports Complex_Main BuildStream DockerApi Machine
begin

text \<open>
  The page that builds and imports images, \<open>features/docker/pages/BuildArtifactsPage.tsx\<close>. Its
  state holds what React keeps and the streams in flight; the asynchronous handlers are cut at
  their awaits: opening the stream, every chunk of it, its end, and the invalidation of the queries
  that follows a success. The session storage of the tab is the field \<open>opSlot\<close>.
\<close>

section \<open>State\<close>

record build_record =
  br_id :: string
  br_target :: string
  br_dockerfile :: string
  br_output :: string
  br_context_name :: "string option"
  br_context_id :: "string option"
  br_archive_name :: "string option"
  br_tags :: "string list option"

text \<open>What started a stream, with what its handler captured.\<close>

datatype origin =
    ByBuild "string list"
  | ByImport
  | ByRebuild build_record
  | ByReconnect string

datatype failure = Aborted string | Threw thrown

record flight =
  fl_id :: nat
  fl_kind :: op_kind
  fl_env :: string
  fl_origin :: origin
  fl_aborted :: bool
  fl_reading :: reading
  fl_result :: "json option"

record build_page =
  selectedServerId :: string
  buildContextFile :: "string option"
  importArchiveFile :: "string option"
  dockerfilePath :: string
  tags :: string
  buildOutput :: string
  activityLog :: "log_entry list"
  severityFilter :: "log_level option"
  selectedHistoryId :: string
  rebuildTagOverride :: string
  isBuildRunning :: bool
  isImportRunning :: bool
  isRebuildRunning :: bool
  buildAbort :: "nat option"
  importAbort :: "nat option"
  rebuildAbort :: "nat option"
  opSlot :: slot
  flights :: "flight list"
  next_flight :: nat
  cancelling :: "op_kind list"
  requests :: "request list"
  toasts :: "toast list"

definition build_page0 :: "slot \<Rightarrow> build_page" where
  "build_page0 s = \<lparr>selectedServerId = [], buildContextFile = None, importArchiveFile = None,
     dockerfilePath = ''Dockerfile'', tags = ''local/app:latest'', buildOutput = [], activityLog = [],
     severityFilter = None, selectedHistoryId = [], rebuildTagOverride = [], isBuildRunning = False,
     isImportRunning = False, isRebuildRunning = False, buildAbort = None, importAbort = None,
     rebuildAbort = None, opSlot = s, flights = [], next_flight = 0, cancelling = [], requests = [],
     toasts = []\<rparr>"

definition notify :: "string \<Rightarrow> string \<Rightarrow> string \<Rightarrow> build_page \<Rightarrow> build_page" where
  "notify ty msg d s = s\<lparr>toasts := toasts s @ [toast_of ty msg d]\<rparr>"

definition is_running :: "op_kind \<Rightarrow> build_page \<Rightarrow> bool" where
  "is_running k s = (case k of Build \<Rightarrow> isBuildRunning s | Import \<Rightarrow> isImportRunning s
     | Rebuild \<Rightarrow> isRebuildRunning s)"

definition set_running :: "op_kind \<Rightarrow> bool \<Rightarrow> build_page \<Rightarrow> build_page" where
  "set_running k b s = (case k of Build \<Rightarrow> s\<lparr>isBuildRunning := b\<rparr> | Import \<Rightarrow> s\<lparr>isImportRunning := b\<rparr>
     | Rebuild \<Rightarrow> s\<lparr>isRebuildRunning := b\<rparr>)"

definition abort_ref :: "op_kind \<Rightarrow> build_page \<Rightarrow> nat option" where
  "abort_ref k s = (case k of Build \<Rightarrow> buildAbort s | Import \<Rightarrow> importAbort s | Rebuild \<Rightarrow> rebuildAbort s)"

definition set_abort :: "op_kind \<Rightarrow> nat option \<Rightarrow> build_page \<Rightarrow> build_page" where
  "set_abort k r s = (case k of Build \<Rightarrow> s\<lparr>buildAbort := r\<rparr> | Import \<Rightarrow> s\<lparr>importAbort := r\<rparr>
     | Rebuild \<Rightarrow> s\<lparr>rebuildAbort := r\<rparr>)"

section \<open>The log of the page\<close>

definition appendActivityLine :: "int \<Rightarrow> string \<Rightarrow> build_page \<Rightarrow> build_page" where
  "appendActivityLine now message s = s\<lparr>activityLog := activityLog s @ [createLogEntry now message]\<rparr>"

definition appendStreamLine :: "int \<Rightarrow> string \<Rightarrow> build_page \<Rightarrow> build_page" where
  "appendStreamLine now line s =
     (let normalized = rtrim line in
      if normalized = [] then s
      else s\<lparr>activityLog := activityLog s @ [createLogEntry now normalized],
             buildOutput := buildOutput s @ (if buildOutput s = [] then [] else newline) @ normalized\<rparr>)"

definition visibleActivityLog :: "build_page \<Rightarrow> log_entry list" where
  "visibleActivityLog s = (case severityFilter s of
      None \<Rightarrow> activityLog s
    | Some l \<Rightarrow> filter (\<lambda>entry. le_level entry = l) (activityLog s))"

definition level_text :: "log_level \<Rightarrow> string" where
  "level_text l = (case l of Info \<Rightarrow> ''info'' | Success \<Rightarrow> ''success'' | Warning \<Rightarrow> ''warning''
     | Failure \<Rightarrow> ''error'')"

text \<open>The text of the exported file; the time of an entry is formatted by the locale.\<close>

definition exported_log :: "(int \<Rightarrow> string) \<Rightarrow> build_page \<Rightarrow> string" where
  "exported_log formatLogTime s =
     (let entries = (if visibleActivityLog s = [] then activityLog s else visibleActivityLog s) in
      or_str (unlines (map (\<lambda>entry. ''['' @ formatLogTime (le_timestamp entry) @ ''] ['' @
        upper (level_text (le_level entry)) @ ''] '' @ le_text entry) entries)) ''No log entries available.'')"

section \<open>History\<close>

definition selectedHistory :: "build_record list \<Rightarrow> build_page \<Rightarrow> build_record option" where
  "selectedHistory history s =
     (case List.find (\<lambda>item. br_id item = selectedHistoryId s) history of
        Some h \<Rightarrow> Some h
      | None \<Rightarrow> (case history of [] \<Rightarrow> None | h # _ \<Rightarrow> Some h))"

definition history_tags :: "build_record \<Rightarrow> string" where
  "history_tags h = or_str (case br_tags h of None \<Rightarrow> [] | Some ts \<Rightarrow> join_with '', '' ts) (br_target h)"

text \<open>The effect that follows the selected row.\<close>

definition rebuild_tag_effect :: "build_record list \<Rightarrow> build_page \<Rightarrow> build_page" where
  "rebuild_tag_effect history s =
     s\<lparr>rebuildTagOverride := (case selectedHistory history s of None \<Rightarrow> [] | Some h \<Rightarrow> history_tags h)\<rparr>"

record diff_item =
  df_label :: string
  df_current :: string
  df_previous :: string

definition rebuildDiff :: "build_record list \<Rightarrow> build_page \<Rightarrow> diff_item list" where
  "rebuildDiff history s =
     (case selectedHistory history s of
        None \<Rightarrow> []
      | Some h \<Rightarrow>
          (let historyTags = history_tags h;
               dockerfile = or_str (trim (dockerfilePath s)) ''Dockerfile'';
               previous = or_str (br_dockerfile h) ''Dockerfile'';
               override = or_str (trim (rebuildTagOverride s)) historyTags in
           (if dockerfile \<noteq> previous
            then [\<lparr>df_label = ''Dockerfile'', df_current = dockerfile, df_previous = previous\<rparr>] else []) @
           (if override \<noteq> historyTags
            then [\<lparr>df_label = ''Tags'', df_current = override, df_previous = historyTags\<rparr>] else []) @
           (if truthy_str (buildContextFile s)
            then [\<lparr>df_label = ''Context source'', df_current = ''Pending upload: '' @ the (buildContextFile s),
              df_previous = or_ostr (br_archive_name h) (or_ostr (br_context_name h) ''Stored context'')\<rparr>]
            else [])))"

definition prefillFromHistory :: "build_record list \<Rightarrow> build_page \<Rightarrow> build_page" where
  "prefillFromHistory history s =
     (case selectedHistory history s of
        None \<Rightarrow> s
      | Some h \<Rightarrow>
          notify ''info'' ''Build config loaded''
            (if truthy_str (br_context_id h)
             then ''Stored build context is ready. You can rebuild in one click.''
             else ''Upload a fresh context archive, then run rebuild.'')
            (s\<lparr>dockerfilePath := or_str (br_dockerfile h) ''Dockerfile'', tags := history_tags h\<rparr>))"

record audit_item =
  ai_action :: string
  ai_details :: string

definition auditBuilds :: "audit_item list \<Rightarrow> audit_item list" where
  "auditBuilds items = filter (\<lambda>i. mentions (lower (ai_action i)) [''build'', ''image''] \<or>
     str_includes (lower (ai_details i)) ''build'') items"

text \<open>The size of a context: the unit is the largest power of 1024 in it, at most TB.\<close>

function log1024 :: "int \<Rightarrow> nat" where
  "log1024 n = (if n < 1024 then 0 else Suc (log1024 (n div 1024)))"
  by auto

termination
  by (relation "measure nat") auto

declare log1024.simps [simp del]

definition tenths :: "rat \<Rightarrow> string" where
  "tenths x = (let n = \<lfloor>10 * x + 1 / 2\<rfloor> in show_int (n div 10) @ ''.'' @ show_int (n mod 10))"

definition size_exponent :: "int \<Rightarrow> nat" where
  "size_exponent v = min (log1024 v) 4"

definition formatBytes :: "int \<Rightarrow> string" where
  "formatBytes v =
     (if v \<le> 0 then ''0 B''
      else (let e = size_exponent v; amount = rat_of_int v / 1024 ^ e in
        (if amount \<ge> 10 \<or> e = 0 then show_int \<lfloor>amount + 1 / 2\<rfloor> else tenths amount) @ '' '' @
        [''B'', ''KB'', ''MB'', ''GB'', ''TB''] ! e))"

section \<open>Starting an operation\<close>

definition stream_request ::
  "env \<Rightarrow> json \<Rightarrow> string \<Rightarrow> string \<Rightarrow> (string \<times> string) list \<Rightarrow> payload \<Rightarrow> request" where
  "stream_request e session endpoint meth headers content =
     \<lparr>rq_url = buildApiUrl e endpoint, rq_method = meth, rq_headers = stream_headers session headers,
      rq_body = content, rq_cache = None\<rparr>"

definition launch :: "op_kind \<Rightarrow> origin \<Rightarrow> request \<Rightarrow> build_page \<Rightarrow> build_page" where
  "launch k org rq s =
     s\<lparr>flights := flights s @ [\<lparr>fl_id = next_flight s, fl_kind = k, fl_env = selectedServerId s,
         fl_origin = org, fl_aborted = False, fl_reading = reading0, fl_result = None\<rparr>],
       next_flight := Suc (next_flight s), requests := requests s @ [rq]\<rparr>"

text \<open>What the three handlers do before the request: the log is started anew and the button busy.\<close>

definition prepare :: "op_kind \<Rightarrow> int \<Rightarrow> string list \<Rightarrow> build_page \<Rightarrow> build_page" where
  "prepare k now messages s =
     set_abort k (Some (next_flight s))
       (set_running k True (s\<lparr>buildOutput := [], activityLog := map (createLogEntry now) messages\<rparr>))"

definition tag_list :: "string \<Rightarrow> string list" where
  "tag_list t = filter (\<lambda>x. x \<noteq> []) (map trim (split_on CHR '','' t))"

definition runBuild :: "env \<Rightarrow> json \<Rightarrow> int \<Rightarrow> build_page \<Rightarrow> build_page" where
  "runBuild e session now s =
     (case buildContextFile s of
        None \<Rightarrow> notify ''error'' ''Build context required'' ''Upload a tar / tar.gz build context first.'' s
      | Some file \<Rightarrow>
          launch Build (ByBuild (tag_list (tags s)))
            (stream_request e session (docker_path (selectedServerId s) ''/images/build/stream'') ''POST'' []
               (FormBody ([(''file'', file), (''dockerfile'', or_str (trim (dockerfilePath s)) ''Dockerfile'')] @
                  map (Pair ''tags'') (tag_list (tags s)))))
            (prepare Build now
               [''Uploading build context archive...'',
                ''Preparing Dockerfile '' @ or_str (dockerfilePath s) ''Dockerfile'' @ ''...'',
                ''Waiting for runtime host to start docker build...''] s))"

definition importArchive :: "env \<Rightarrow> json \<Rightarrow> int \<Rightarrow> build_page \<Rightarrow> build_page" where
  "importArchive e session now s =
     (case importArchiveFile s of
        None \<Rightarrow> notify ''error'' ''Archive required'' ''Choose a docker save archive first.'' s
      | Some file \<Rightarrow>
          launch Import ByImport
            (stream_request e session (docker_path (selectedServerId s) ''/images/import/stream'') ''POST'' []
               (FormBody [(''archive'', file)]))
            (prepare Import now
               [''Uploading docker save archive...'', ''Passing archive to docker load...''] s))"

definition rebuildFromHistory ::
  "env \<Rightarrow> json \<Rightarrow> int \<Rightarrow> build_record list \<Rightarrow> build_page \<Rightarrow> build_page" where
  "rebuildFromHistory e session now history s =
     (case selectedHistory history s of
        None \<Rightarrow> s
      | Some h \<Rightarrow>
          if br_id h = [] then s
          else launch Rebuild (ByRebuild h)
            (stream_request e session
               (docker_path (selectedServerId s) (''/build-history/'' @ br_id h @ ''/rebuild/stream'')) ''POST''
               [(''Content-Type'', ''application/json'')]
               (TextBody (json_text (JObj [(''tags'', JArr (map JStr (tag_list (rebuildTagOverride s))))]))))
            (prepare Rebuild now
               [''Restoring stored build context...'', ''Replaying docker build on runtime host...''] s))"

subsection \<open>Reconnecting\<close>

definition kind_of :: "json \<Rightarrow> op_kind option" where
  "kind_of item = List.find (\<lambda>k. jget ''kind'' (Some item) = Some (JStr (kind_text k))) op_kinds"

definition reconnectToOperation ::
  "env \<Rightarrow> json \<Rightarrow> string \<Rightarrow> op_kind \<Rightarrow> build_page \<Rightarrow> build_page" where
  "reconnectToOperation e session oid k s =
     launch k (ByReconnect oid)
       (stream_request e session (docker_path (selectedServerId s) (''/operations/'' @ oid @ ''/stream''))
          ''GET'' [] NoBody) s"

text \<open>
  The effect that runs when the environment changes. The page stores the three kinds only, so an
  entry of another kind is left out.
\<close>

definition reconnect_one :: "env \<Rightarrow> json \<Rightarrow> json \<Rightarrow> build_page \<Rightarrow> build_page" where
  "reconnect_one e session item s = (case kind_of item of
      None \<Rightarrow> s
    | Some k \<Rightarrow> reconnectToOperation e session (jstring (op_id item)) k (set_running k True s))"

definition reconnect_effect :: "env \<Rightarrow> json \<Rightarrow> build_page \<Rightarrow> build_page" where
  "reconnect_effect e session s =
     (if selectedServerId s = [] then s
      else fold (reconnect_one e session)
        (filter (\<lambda>i. jget ''environmentId'' (Some i) = Some (JStr (selectedServerId s)))
          (readStoredOperations (opSlot s))) s)"

definition setSelectedServerId :: "env \<Rightarrow> json \<Rightarrow> string \<Rightarrow> build_page \<Rightarrow> build_page" where
  "setSelectedServerId e session sid s =
     (if sid = selectedServerId s then s else reconnect_effect e session (s\<lparr>selectedServerId := sid\<rparr>))"

text \<open>The effect that picks an environment: the one of the console, if it is a docker one.\<close>

definition server_effect ::
  "env \<Rightarrow> json \<Rightarrow> string option \<Rightarrow> string list \<Rightarrow> build_page \<Rightarrow> build_page" where
  "server_effect e session docker_env servers s =
     (case docker_env of
        Some sid \<Rightarrow> if sid \<noteq> selectedServerId s then setSelectedServerId e session sid s
          else if selectedServerId s = [] \<and> servers \<noteq> [] then setSelectedServerId e session (hd servers) s else s
      | None \<Rightarrow>
          if selectedServerId s = [] \<and> servers \<noteq> [] then setSelectedServerId e session (hd servers) s else s)"

section \<open>The stream of an operation\<close>

definition capitalize :: "string \<Rightarrow> string" where
  "capitalize v = (case v of [] \<Rightarrow> [] | c # r \<Rightarrow> upper_char c # r)"

abbreviation kind_name :: "op_kind \<Rightarrow> string" where
  "kind_name k \<equiv> capitalize (kind_text k)"

definition failure_message :: "(thrown \<Rightarrow> string) \<Rightarrow> failure \<Rightarrow> string" where
  "failure_message platform x = (case x of Aborted m \<Rightarrow> m | Threw t \<Rightarrow> thrown_message platform t)"

text \<open>The \<open>catch\<close> and \<open>finally\<close> of the handlers; the streams in flight no longer hold this one.\<close>

definition flight_failed ::
  "(thrown \<Rightarrow> string) \<Rightarrow> int \<Rightarrow> flight \<Rightarrow> failure \<Rightarrow> build_page \<Rightarrow> build_page" where
  "flight_failed platform now f x s =
     (let k = fl_kind f; message = failure_message platform x in
      case fl_origin f of
        ByReconnect oid \<Rightarrow>
          set_running k False (appendActivityLine now (''Reconnect failed: '' @ message)
            (s\<lparr>opSlot := clearStoredOperation (Some (JStr oid)) (opSlot s)\<rparr>))
      | _ \<Rightarrow>
          set_running k False (set_abort k None (case x of
              Aborted _ \<Rightarrow> appendActivityLine now (kind_name k @ '' stream disconnected.'') s
            | Threw _ \<Rightarrow> notify ''error'' (kind_name k @ '' failed'') message
                (appendActivityLine now (kind_name k @ '' failed: '' @ message) s))))"

definition apply_call :: "int \<Rightarrow> op_kind \<Rightarrow> string \<Rightarrow> call \<Rightarrow> build_page \<Rightarrow> build_page" where
  "apply_call now k eid c s =
     (case c of OnLine line \<Rightarrow> appendStreamLine now line s
      | _ \<Rightarrow> s\<lparr>opSlot := store_call k eid c (opSlot s)\<rparr>)"

definition apply_calls :: "int \<Rightarrow> op_kind \<Rightarrow> string \<Rightarrow> call list \<Rightarrow> build_page \<Rightarrow> build_page" where
  "apply_calls now k eid cs s = fold (apply_call now k eid) cs s"

definition drop_flight :: "nat \<Rightarrow> build_page \<Rightarrow> build_page" where
  "drop_flight i s = s\<lparr>flights := remove_at i (flights s)\<rparr>"

definition set_flight :: "nat \<Rightarrow> flight \<Rightarrow> build_page \<Rightarrow> build_page" where
  "set_flight i f s = s\<lparr>flights := (flights s)[i := f]\<rparr>"

text \<open>A chunk arrives.\<close>

definition chunk_arrived ::
  "(thrown \<Rightarrow> string) \<Rightarrow> int \<Rightarrow> nat \<Rightarrow> string \<Rightarrow> build_page \<Rightarrow> build_page" where
  "chunk_arrived platform now i chunk s =
     (let f = flights s ! i in
      case read_chunk chunk (fl_reading f) of
        (r1, cs, None) \<Rightarrow> set_flight i (f\<lparr>fl_reading := r1\<rparr>) (apply_calls now (fl_kind f) (fl_env f) cs s)
      | (r1, cs, Some t) \<Rightarrow>
          flight_failed platform now f (Threw t) (drop_flight i (apply_calls now (fl_kind f) (fl_env f) cs s)))"

text \<open>What a handler does with the result before it invalidates the queries.\<close>

definition json_tags :: "json option \<Rightarrow> string" where
  "json_tags v = (case v of Some (JArr ts) \<Rightarrow> join_with '', '' (map (\<lambda>t. jstring (Some t)) ts) | _ \<Rightarrow> [])"

definition json_or :: "json option \<Rightarrow> string \<Rightarrow> string" where
  "json_or v d = (if truthy v then jstring v else d)"

definition result_taken :: "flight \<Rightarrow> json \<Rightarrow> build_page \<Rightarrow> build_page" where
  "result_taken f v s =
     (let h = jget ''history'' (Some v); named = truthy (jget ''id'' h) in
      case fl_origin f of
        ByBuild _ \<Rightarrow>
          (if named then s\<lparr>selectedHistoryId := jstring (jget ''id'' h)\<rparr> else s)\<lparr>buildContextFile := None\<rparr>
      | ByImport \<Rightarrow> s\<lparr>importArchiveFile := None\<rparr>
      | ByRebuild old \<Rightarrow>
          if named
          then s\<lparr>selectedHistoryId := jstring (jget ''id'' h),
                 dockerfilePath := json_or (jget ''dockerfile'' h) (or_str (br_dockerfile old) ''Dockerfile''),
                 tags := or_str (json_tags (jget ''tags'' h)) (json_or (jget ''target'' h) (br_target old))\<rparr>
          else s
      | ByReconnect _ \<Rightarrow> s)"

text \<open>The stream ends: the handler fails, or takes the result and waits for the invalidation.\<close>

definition stream_ended :: "(thrown \<Rightarrow> string) \<Rightarrow> int \<Rightarrow> nat \<Rightarrow> build_page \<Rightarrow> build_page" where
  "stream_ended platform now i s =
     (let f = flights s ! i; (cs, res) = stream_end (fl_reading f);
          s1 = apply_calls now (fl_kind f) (fl_env f) cs s in
      case res of
        Inl t \<Rightarrow> flight_failed platform now f (Threw t) (drop_flight i s1)
      | Inr v \<Rightarrow> result_taken f v (set_flight i (f\<lparr>fl_result := Some v\<rparr>) s1))"

definition invalidated_keys :: "flight \<Rightarrow> query_key list" where
  "invalidated_keys f = [dk_images (fl_env f), dk_buildHistory (fl_env f), dk_audit (fl_env f)]"

definition loaded_images :: "json \<Rightarrow> json option" where
  "loaded_images v =
     (let imp = jget ''import'' (Some v) in
      if imp = None \<or> imp = Some JNull then Some (JArr []) else jget ''loaded_images'' imp)"

text \<open>
  After the invalidation: the notification, and the \<open>finally\<close>. An import whose list of images is
  no list throws here and is reported as failed.
\<close>

definition flight_done :: "(thrown \<Rightarrow> string) \<Rightarrow> int \<Rightarrow> nat \<Rightarrow> build_page \<Rightarrow> build_page" where
  "flight_done platform now i s =
     (let f = flights s ! i; k = fl_kind f; v = the (fl_result f); s1 = drop_flight i s;
          target = jget ''target'' (jget ''history'' (Some v));
          settled = (\<lambda>x. set_running k False (set_abort k None x)) in
      case fl_origin f of
        ByBuild ts \<Rightarrow> settled (notify ''success'' ''Build completed'' (json_or target (join_with '', '' ts)) s1)
      | ByImport \<Rightarrow>
          (case loaded_images v of
             Some (JArr images) \<Rightarrow> settled (notify ''success'' ''Archive imported''
               (if images = [] then ''Docker loaded the archive successfully.''
                else json_tags (Some (JArr images))) s1)
           | _ \<Rightarrow> flight_failed platform now f (Threw TypeError) s1)
      | ByRebuild old \<Rightarrow> settled (notify ''success'' ''Rebuild completed'' (json_or target (br_target old)) s1)
      | ByReconnect _ \<Rightarrow> set_running k False s1)"

definition stream_lost ::
  "(thrown \<Rightarrow> string) \<Rightarrow> int \<Rightarrow> nat \<Rightarrow> failure \<Rightarrow> build_page \<Rightarrow> build_page" where
  "stream_lost platform now i x s = flight_failed platform now (flights s ! i) x (drop_flight i s)"

section \<open>Cancelling\<close>

definition abort :: "nat option \<Rightarrow> build_page \<Rightarrow> build_page" where
  "abort ref s = (case ref of
      None \<Rightarrow> s
    | Some n \<Rightarrow> s\<lparr>flights := map (\<lambda>f. if fl_id f = n then f\<lparr>fl_aborted := True\<rparr> else f) (flights s)\<rparr>)"

definition cancel_target :: "op_kind \<Rightarrow> string \<Rightarrow> slot \<Rightarrow> json option" where
  "cancel_target k eid s =
     (case List.find (op_of k eid) (readStoredOperations s) of
        Some item \<Rightarrow> if truthy (op_id item) then op_id item else None
      | None \<Rightarrow> None)"

definition cancel_options :: fetch_options where
  "cancel_options = \<lparr>opt_method = ''POST'', opt_headers = [], opt_body = NoBody\<rparr>"

definition cancel_request :: "env \<Rightarrow> json \<Rightarrow> string \<Rightarrow> json \<Rightarrow> request" where
  "cancel_request e session eid oid =
     api_request (buildApiUrl e (docker_path eid (''/operations/'' @ jstring (Some oid) @ ''/cancel'')))
       cancel_options (api_headers session cancel_options)"

definition cancelOperation :: "env \<Rightarrow> json \<Rightarrow> int \<Rightarrow> op_kind \<Rightarrow> build_page \<Rightarrow> build_page" where
  "cancelOperation e session now k s =
     (case cancel_target k (selectedServerId s) (opSlot s) of
        None \<Rightarrow> appendActivityLine now (kind_name k @ '' cancellation requested.'') (abort (abort_ref k s) s)
      | Some oid \<Rightarrow>
          s\<lparr>requests := requests s @ [cancel_request e session (selectedServerId s) oid],
            cancelling := cancelling s @ [k]\<rparr>)"

text \<open>The answer to the j-th request to cancel that is still awaited.\<close>

definition cancel_answered ::
  "(thrown \<Rightarrow> string) \<Rightarrow> int \<Rightarrow> nat \<Rightarrow> thrown option \<Rightarrow> build_page \<Rightarrow> build_page" where
  "cancel_answered platform now j answer s =
     (let k = cancelling s ! j; s1 = s\<lparr>cancelling := remove_at j (cancelling s)\<rparr> in
      case answer of
        None \<Rightarrow> notify ''info'' (kind_name k @ '' cancellation requested'') []
          (appendActivityLine now (kind_name k @ '' cancellation requested.'')
            (abort (rebuildAbort s) (abort (importAbort s) (abort (buildAbort s) s1))))
      | Some t \<Rightarrow> notify ''error'' (''Unable to cancel '' @ kind_text k) (thrown_message platform t) s1)"

section \<open>The page as a machine\<close>

definition reading_flight :: "nat \<Rightarrow> build_page \<Rightarrow> bool" where
  "reading_flight i s \<longleftrightarrow> i < length (flights s) \<and> fl_result (flights s ! i) = None"

text \<open>A click on a button is possible while the button is not busy.\<close>

inductive build_step :: "(thrown \<Rightarrow> string) \<Rightarrow> env \<Rightarrow> build_page \<Rightarrow> build_page \<Rightarrow> bool" for platform e where
  files: "build_step platform e s (s\<lparr>buildContextFile := x, importArchiveFile := y\<rparr>)"
| texts: "build_step platform e s (s\<lparr>dockerfilePath := d, tags := t, rebuildTagOverride := r, severityFilter := l\<rparr>)"
| row: "build_step platform e s (rebuild_tag_effect history (s\<lparr>selectedHistoryId := h\<rparr>))"
| server: "build_step platform e s (setSelectedServerId e session sid s)"
| picked: "build_step platform e s (server_effect e session docker_env servers s)"
| prefilled: "build_step platform e s (prefillFromHistory history s)"
| build: "\<not> isBuildRunning s \<Longrightarrow> selectedServerId s \<noteq> [] \<Longrightarrow> build_step platform e s (runBuild e session now s)"
| import_archive: "\<not> isImportRunning s \<Longrightarrow> selectedServerId s \<noteq> [] \<Longrightarrow>
    build_step platform e s (importArchive e session now s)"
| rebuild: "\<not> isRebuildRunning s \<Longrightarrow> build_step platform e s (rebuildFromHistory e session now history s)"
| refused: "reading_flight i s \<Longrightarrow> fl_reading (flights s ! i) = reading0 \<Longrightarrow>
    build_step platform e s (stream_lost platform now i (Threw (stream_error status ct content)) s)"
| lost: "reading_flight i s \<Longrightarrow> build_step platform e s (stream_lost platform now i (Threw t) s)"
| aborted: "reading_flight i s \<Longrightarrow> fl_aborted (flights s ! i) \<Longrightarrow>
    build_step platform e s (stream_lost platform now i (Aborted m) s)"
| chunk: "reading_flight i s \<Longrightarrow> \<not> fl_aborted (flights s ! i) \<Longrightarrow>
    build_step platform e s (chunk_arrived platform now i c s)"
| ended: "reading_flight i s \<Longrightarrow> \<not> fl_aborted (flights s ! i) \<Longrightarrow>
    build_step platform e s (stream_ended platform now i s)"
| invalidated: "i < length (flights s) \<Longrightarrow> fl_result (flights s ! i) \<noteq> None \<Longrightarrow>
    build_step platform e s (flight_done platform now i s)"
| cancel: "is_running k s \<Longrightarrow> build_step platform e s (cancelOperation e session now k s)"
| cancel_settled: "j < length (cancelling s) \<Longrightarrow>
    build_step platform e s (cancel_answered platform now j answer s)"

section \<open>The invariant\<close>

definition page_inv :: "build_page \<Rightarrow> bool" where
  "page_inv s \<longleftrightarrow> sound_slot (opSlot s) \<and> distinct (map fl_id (flights s)) \<and>
     (\<forall>f \<in> set (flights s). fl_id f < next_flight s)"

text \<open>Steps that leave the streams and the stored operations alone.\<close>

definition same_flights :: "build_page \<Rightarrow> build_page \<Rightarrow> bool" where
  "same_flights s t \<longleftrightarrow> opSlot t = opSlot s \<and> map fl_id (flights t) = map fl_id (flights s) \<and>
     next_flight t = next_flight s"

lemma ids_below: "(\<forall>f \<in> set fs. fl_id f < n) \<longleftrightarrow> (\<forall>i \<in> set (map fl_id fs). i < n)"
  by auto

lemma same_flights_inv: "page_inv s \<Longrightarrow> same_flights s t \<Longrightarrow> page_inv t"
  unfolding page_inv_def same_flights_def ids_below by metis

lemma kept [simp]:
  "opSlot (notify ty msg d s) = opSlot s" "flights (notify ty msg d s) = flights s"
  "next_flight (notify ty msg d s) = next_flight s"
  "opSlot (set_running k b s) = opSlot s" "flights (set_running k b s) = flights s"
  "next_flight (set_running k b s) = next_flight s"
  "opSlot (set_abort k r s) = opSlot s" "flights (set_abort k r s) = flights s"
  "next_flight (set_abort k r s) = next_flight s"
  "opSlot (appendActivityLine now m s) = opSlot s" "flights (appendActivityLine now m s) = flights s"
  "next_flight (appendActivityLine now m s) = next_flight s"
  "opSlot (appendStreamLine now m s) = opSlot s" "flights (appendStreamLine now m s) = flights s"
  "next_flight (appendStreamLine now m s) = next_flight s"
  "opSlot (prepare k now ms s) = opSlot s" "flights (prepare k now ms s) = flights s"
  "next_flight (prepare k now ms s) = next_flight s"
  "opSlot (drop_flight i s) = opSlot s" "next_flight (drop_flight i s) = next_flight s"
  "flights (drop_flight i s) = remove_at i (flights s)"
  by (auto simp: notify_def set_running_def set_abort_def appendActivityLine_def appendStreamLine_def
      Let_def prepare_def drop_flight_def split: op_kind.split)

lemma abort_same: "same_flights s (abort r s)" "opSlot (abort r s) = opSlot s"
  by (auto simp: same_flights_def abort_def split: option.split)

lemma launch_inv: "page_inv s \<Longrightarrow> page_inv (launch k org rq s)"
  by (auto simp: page_inv_def launch_def)

lemma remove_at_set: "set (remove_at i xs) \<subseteq> set xs"
  using set_take_subset set_drop_subset by (fastforce simp: remove_at_def)

lemma remove_at_distinct: "distinct xs \<Longrightarrow> distinct (remove_at i xs)"
  using set_take_disj_set_drop_if_distinct [of xs i "Suc i"] by (simp add: remove_at_def)

lemma remove_at_map: "map f (remove_at i xs) = remove_at i (map f xs)"
  by (simp add: remove_at_def take_map drop_map)

lemma drop_inv: "page_inv s \<Longrightarrow> page_inv (drop_flight i s)"
  using remove_at_set [of i "flights s"] by (auto simp: page_inv_def remove_at_map remove_at_distinct)

lemma clear_sound: "sound_slot s \<Longrightarrow> sound_slot (clearStoredOperation oid s)"
  using store_sound [of "ClearStored oid"] by (simp add: store_call_def sound_call_def)

lemma failed_inv: "page_inv s \<Longrightarrow> page_inv (flight_failed platform now f x s)"
  by (auto simp: flight_failed_def page_inv_def Let_def clear_sound split: origin.split failure.split)

lemma apply_call_inv: "sound_call c \<Longrightarrow> page_inv s \<Longrightarrow> page_inv (apply_call now k eid c s)"
  using store_sound [of c] by (cases c) (auto simp: apply_call_def page_inv_def)

lemma apply_calls_inv: "list_all sound_call cs \<Longrightarrow> page_inv s \<Longrightarrow> page_inv (apply_calls now k eid cs s)"
  by (induction cs arbitrary: s) (simp_all add: apply_calls_def apply_call_inv)

lemma apply_calls_flights: "flights (apply_calls now k eid cs s) = flights s"
proof -
  have "flights (apply_call now k eid c s) = flights s" for c s
    by (cases c) (simp_all add: apply_call_def)
  then show ?thesis unfolding apply_calls_def by (induction cs arbitrary: s) simp_all
qed

lemma set_flight_same:
  "i < length (flights s) \<Longrightarrow> fl_id f = fl_id (flights s ! i) \<Longrightarrow> same_flights s (set_flight i f s)"
  by (simp add: same_flights_def set_flight_def map_update list_update_same_conv)

lemma taken_same: "same_flights s (result_taken f v s)"
  by (simp add: same_flights_def result_taken_def Let_def split: origin.split)

lemma chunk_inv:
  assumes "page_inv s" "i < length (flights s)"
  shows "page_inv (chunk_arrived platform now i c s)"
proof -
  let ?f = "flights s ! i"
  obtain r1 cs e where chunk: "read_chunk c (fl_reading ?f) = (r1, cs, e)" by (metis prod_cases3)
  have inv: "page_inv (apply_calls now (fl_kind ?f) (fl_env ?f) cs s)"
    using read_chunk_sound [OF chunk] assms(1) by (rule apply_calls_inv)
  then have "page_inv (set_flight i (?f\<lparr>fl_reading := r1\<rparr>) (apply_calls now (fl_kind ?f) (fl_env ?f) cs s))"
    using assms(2) by (intro same_flights_inv [OF inv] set_flight_same) (simp_all add: apply_calls_flights)
  then show ?thesis
    using chunk failed_inv [OF drop_inv [OF inv]] by (simp add: chunk_arrived_def Let_def split: option.split)
qed

lemma ended_inv:
  assumes "page_inv s" "i < length (flights s)"
  shows "page_inv (stream_ended platform now i s)"
proof -
  let ?f = "flights s ! i"
  obtain cs res where fin: "stream_end (fl_reading ?f) = (cs, res)" by (metis surj_pair)
  have inv: "page_inv (apply_calls now (fl_kind ?f) (fl_env ?f) cs s)"
    using stream_end_sound [OF fin] assms(1) by (rule apply_calls_inv)
  have "page_inv (set_flight i (?f\<lparr>fl_result := v\<rparr>) (apply_calls now (fl_kind ?f) (fl_env ?f) cs s))" for v
    using assms(2) by (intro same_flights_inv [OF inv] set_flight_same) (simp_all add: apply_calls_flights)
  then show ?thesis
    using fin failed_inv [OF drop_inv [OF inv]]
    by (auto simp: stream_ended_def Let_def intro: same_flights_inv taken_same split: sum.split)
qed

lemma done_inv: "page_inv s \<Longrightarrow> page_inv (flight_done platform now i s)"
  using drop_inv [of s i]
  by (auto simp: flight_done_def Let_def failed_inv intro: same_flights_inv
      simp: same_flights_def split: origin.split option.split json.split)

lemma reconnect_inv: "page_inv s \<Longrightarrow> page_inv (reconnect_effect e session s)"
proof -
  have one: "page_inv s \<Longrightarrow> page_inv (reconnect_one e session item s)" for item s
    by (auto simp: reconnect_one_def reconnectToOperation_def same_flights_def
        intro!: launch_inv intro: same_flights_inv split: option.split)
  then have "page_inv s \<Longrightarrow> page_inv (fold (reconnect_one e session) items s)" for items s
    by (induction items arbitrary: s) simp_all
  then show "page_inv s \<Longrightarrow> page_inv (reconnect_effect e session s)"
    by (simp add: reconnect_effect_def)
qed

lemma select_server_inv: "page_inv s \<Longrightarrow> page_inv (setSelectedServerId e session sid s)"
  by (auto simp: setSelectedServerId_def same_flights_def intro!: reconnect_inv intro: same_flights_inv)

lemma operation_started_inv:
  assumes "page_inv s"
  shows "page_inv (runBuild e session now s)" "page_inv (importArchive e session now s)"
    "page_inv (rebuildFromHistory e session now history s)"
proof -
  have p: "page_inv (prepare k now ms s)" for k ms
    by (rule same_flights_inv [OF assms]) (simp add: same_flights_def)
  have n: "page_inv (notify ty msg d s)" for ty msg d
    by (rule same_flights_inv [OF assms]) (simp add: same_flights_def)
  show "page_inv (runBuild e session now s)" "page_inv (importArchive e session now s)"
    "page_inv (rebuildFromHistory e session now history s)"
    using assms p n
    by (simp_all add: runBuild_def importArchive_def rebuildFromHistory_def launch_inv split: option.split)
qed

lemma cancel_inv: "page_inv s \<Longrightarrow> page_inv (cancelOperation e session now k s)"
  by (erule same_flights_inv)
    (simp add: cancelOperation_def same_flights_def abort_def split: option.split)

lemma same_abort: "same_flights s t \<Longrightarrow> same_flights s (abort r t)"
  using abort_same [where s = t and r = r] by (simp add: same_flights_def)

lemma cancelled_inv: "page_inv s \<Longrightarrow> page_inv (cancel_answered platform now j answer s)"
proof (erule same_flights_inv)
  have "same_flights s (s\<lparr>cancelling := x\<rparr>)" for x by (simp add: same_flights_def)
  from same_abort [OF same_abort [OF same_abort [OF this]]]
  show "same_flights s (cancel_answered platform now j answer s)"
    by (auto simp: cancel_answered_def Let_def same_flights_def split: option.split)
qed

lemma build_step_inv: "build_step platform e s t \<Longrightarrow> page_inv s \<Longrightarrow> page_inv t"
proof (induction rule: build_step.induct)
  case (files s x y)
  then show ?case by (rule same_flights_inv) (simp add: same_flights_def)
next
  case (texts s d t r l)
  then show ?case by (rule same_flights_inv) (simp add: same_flights_def)
next
  case (row s history h)
  then show ?case by (rule same_flights_inv) (simp add: same_flights_def rebuild_tag_effect_def)
next
  case (picked s session docker_env servers)
  then show ?case by (simp add: server_effect_def select_server_inv split: option.split)
next
  case (prefilled s history)
  then show ?case
    by (rule same_flights_inv) (simp add: same_flights_def prefillFromHistory_def split: option.split)
qed (simp_all add: select_server_inv operation_started_inv stream_lost_def failed_inv drop_inv chunk_inv ended_inv done_inv
    cancel_inv cancelled_inv reading_flight_def)

interpretation build_life: machine "build_page0 s0" "build_step platform e" "\<lambda>s. sound_slot s0 \<longrightarrow> page_inv s"
  by unfold_locales (simp add: page_inv_def build_page0_def, blast intro: build_step_inv)

section \<open>What the page guarantees\<close>

text \<open>
  C29. Whatever happens on the page, the operations it keeps in the storage of the tab have distinct
  ids that are not empty, so that clearing one of them clears no other.
\<close>

theorem stored_operations_distinct:
  assumes "reached (build_step platform e) (build_page0 s0) s" "sound_slot s0"
  shows "distinct (map op_id (readStoredOperations (opSlot s))) \<and>
    (\<forall>item \<in> set (readStoredOperations (opSlot s)).
       readStoredOperations (clearStoredOperation (op_id item) (opSlot s)) = remove1 item (readStoredOperations (opSlot s)))"
proof -
  let ?ops = "readStoredOperations (opSlot s)"
  have ops: "distinct (map op_id ?ops)" "\<forall>i \<in> set ?ops. truthy (op_id i)"
    using build_life.reached_inv [OF assms(1)] assms(2) by (auto simp: page_inv_def sound_slot_def)
  have "filter (\<lambda>i. op_id i \<noteq> op_id item) xs = remove1 item xs"
    if "distinct (map op_id xs)" "item \<in> set xs" for xs item
    using that
  proof (induction xs)
    case (Cons x xs)
    then have "op_id x \<notin> op_id ` set xs" by simp
    then have "filter (\<lambda>i. op_id i \<noteq> op_id x) xs = xs" by (intro filter_True ballI) (metis image_eqI)
    then show ?case using Cons \<open>op_id x \<notin> op_id ` set xs\<close> by (cases "x = item") force+
  qed simp
  then show ?thesis using ops by (simp add: read_cleared)
qed

text \<open>
  Cancelling one operation disconnects the page from every other: when the server has accepted
  the request, the streams of the build, of the import and of the rebuild are all aborted, whichever of them was
  to be cancelled, and the log says only that this one is to stop.
\<close>

theorem cancel_disconnects_all:
  "flights (cancel_answered platform now j None s) =
     map (\<lambda>f. if Some (fl_id f) \<in> {buildAbort s, importAbort s, rebuildAbort s}
              then f\<lparr>fl_aborted := True\<rparr> else f) (flights s) \<and>
   activityLog (cancel_answered platform now j None s) =
     activityLog s @ [createLogEntry now (kind_name (cancelling s ! j) @ '' cancellation requested.'')]"
proof -
  have refs: "buildAbort (abort r t) = buildAbort t" "importAbort (abort r t) = importAbort t"
    "rebuildAbort (abort r t) = rebuildAbort t" "activityLog (abort r t) = activityLog t"
    "flights (abort r t) = map (\<lambda>f. if r = Some (fl_id f) then f\<lparr>fl_aborted := True\<rparr> else f) (flights t)" for r t
    by (auto simp: abort_def split: option.split)
  have log: "activityLog (notify ty msg d t) = activityLog t" for ty msg d t by (simp add: notify_def)
  show ?thesis
    by (auto simp: cancel_answered_def Let_def refs log appendActivityLine_def)
qed

lemma find_filter: "List.find p xs = Some x \<Longrightarrow> q x \<Longrightarrow> List.find p (filter q xs) = Some x"
  by (induction xs) (auto split: if_splits)

lemma find_found_append: "List.find p xs = Some x \<Longrightarrow> List.find p (xs @ ys) = Some x"
  by (induction xs) (auto split: if_splits)

definition reconnects :: "flight \<Rightarrow> bool" where
  "reconnects f = (case fl_origin f of ByReconnect _ \<Rightarrow> True | _ \<Rightarrow> False)"

text \<open>
  An operation that was cancelled stays stored when its stream is aborted, before the ones that
  follow it. Cancelling the next operation of its kind therefore asks the server to stop the
  old one again, and the new one goes on.
\<close>

theorem cancels_the_oldest:
  assumes "cancel_target k eid (opSlot s) = Some old" "\<not> reconnects (flights s ! i)"
    and "oid \<noteq> old" "wf_json oid"
  shows "cancel_target k eid
    (writeStoredOperation oid k eid (opSlot (stream_lost platform now i (Aborted m) s))) = Some old"
proof -
  have slot: "opSlot (stream_lost platform now i (Aborted m) s) = opSlot s"
    using assms(2) by (auto simp: stream_lost_def flight_failed_def reconnects_def Let_def split: origin.splits)
  obtain item where item: "List.find (op_of k eid) (readStoredOperations (opSlot s)) = Some item"
    "op_id item = Some old" "truthy (Some old)"
    using assms(1) by (auto simp: cancel_target_def split: option.splits if_splits)
  have "List.find (op_of k eid) (filter (\<lambda>i. op_id i \<noteq> Some oid) (readStoredOperations (opSlot s)) @ [stored_op oid k eid]) =
      Some item"
    using item assms(3) by (intro find_found_append find_filter) auto
  then show ?thesis using item by (simp add: cancel_target_def slot read_write [OF assms(4)])
qed

definition cancelled_page :: build_page where
  "cancelled_page = (build_page0 (writeStoredOperation (JStr ''op-1'') Build ''env'' None))
     \<lparr>flights := [\<lparr>fl_id = 0, fl_kind = Build, fl_env = ''env'', fl_origin = ByBuild [], fl_aborted = True,
        fl_reading = reading0, fl_result = None\<rparr>], buildAbort := Some 0, next_flight := 1,
      isBuildRunning := True, selectedServerId := ''env''\<rparr>"

lemma cancels_the_oldest_witness:
  "cancel_target Build ''env'' (writeStoredOperation (JStr ''op-2'') Build ''env''
     (opSlot (stream_lost (\<lambda>_. []) 0 0 (Aborted ''aborted'') cancelled_page))) = Some (JStr ''op-1'')"
  by (rule cancels_the_oldest) code_simp+

text \<open>The streams the effect opens for an environment.\<close>

definition ops_of :: "string \<Rightarrow> slot \<Rightarrow> json list" where
  "ops_of eid s = filter (\<lambda>i. jget ''environmentId'' (Some i) = Some (JStr eid)) (readStoredOperations s)"

definition reconnection :: "json \<Rightarrow> origin" where
  "reconnection item = ByReconnect (jstring (op_id item))"

lemma reconnect_effect_flights:
  assumes "selectedServerId s \<noteq> []" "\<forall>item \<in> set (ops_of (selectedServerId s) (opSlot s)). kind_of item \<noteq> None"
  shows "map fl_origin (flights (reconnect_effect e session s)) =
      map fl_origin (flights s) @ map reconnection (ops_of (selectedServerId s) (opSlot s)) \<and>
    opSlot (reconnect_effect e session s) = opSlot s \<and>
    selectedServerId (reconnect_effect e session s) = selectedServerId s"
proof -
  have sel: "selectedServerId (set_running k b t) = selectedServerId t" for k b t
    by (simp add: set_running_def split: op_kind.split)
  have "map fl_origin (flights (fold (reconnect_one e session) items t)) =
      map fl_origin (flights t) @ map reconnection items \<and>
    opSlot (fold (reconnect_one e session) items t) = opSlot t \<and>
    selectedServerId (fold (reconnect_one e session) items t) = selectedServerId t"
    if "\<forall>item \<in> set items. kind_of item \<noteq> None" for items t
    using that
    by (induction items arbitrary: t)
      (auto simp: reconnect_one_def reconnectToOperation_def launch_def reconnection_def sel)
  then show ?thesis using assms by (simp add: reconnect_effect_def ops_of_def)
qed

text \<open>
  While the console has a docker environment selected, the menu of this page is of no use: what
  is chosen there is undone at once, and on the way there and back every operation that is stored
  for the two environments is opened again, also one whose stream the page is already reading.
\<close>

theorem choice_reverted_and_reopened:
  fixes e :: env and session :: json and servers :: "string list" and s :: build_page
  assumes "selectedServerId s = sid" "sid \<noteq> []" "x \<noteq> []" "x \<noteq> sid"
    and "\<forall>item \<in> set (readStoredOperations (opSlot s)). kind_of item \<noteq> None"
  defines "after \<equiv> server_effect e session (Some sid) servers (setSelectedServerId e session x s)"
  shows "selectedServerId after = sid \<and>
    map fl_origin (flights after) =
      map fl_origin (flights s) @ map reconnection (ops_of x (opSlot s)) @ map reconnection (ops_of sid (opSlot s))"
proof -
  let ?s1 = "setSelectedServerId e session x s"
  have kinds: "\<forall>item \<in> set (ops_of y (opSlot s)). kind_of item \<noteq> None" for y
    using assms(5) by (auto simp: ops_of_def)
  have s1: "map fl_origin (flights ?s1) = map fl_origin (flights s) @ map reconnection (ops_of x (opSlot s))"
    "opSlot ?s1 = opSlot s" "selectedServerId ?s1 = x"
    using reconnect_effect_flights [of "s\<lparr>selectedServerId := x\<rparr>" e session] kinds assms(1,3,4)
    by (auto simp: setSelectedServerId_def)
  then have "after = reconnect_effect e session (?s1\<lparr>selectedServerId := sid\<rparr>)"
    using assms(4) by (simp add: after_def server_effect_def setSelectedServerId_def [of _ _ sid])
  then show ?thesis
    using reconnect_effect_flights [of "?s1\<lparr>selectedServerId := sid\<rparr>" e session] kinds assms(2) s1 by simp
qed

text \<open>
  The unit a size is shown in is the largest power of 1024 that is not above it, up to
  terabytes: the amount is at least one and, below terabytes, less than 1024.
\<close>

theorem size_unit:
  assumes "0 < v"
  shows "1024 ^ size_exponent v \<le> v \<and> (size_exponent v < 4 \<longrightarrow> v < 1024 ^ Suc (size_exponent v))"
proof -
  have log: "1024 ^ log1024 n \<le> n \<and> n < 1024 ^ Suc (log1024 n)" if "0 < n" for n :: int
    using that
  proof (induction n rule: log1024.induct)
    case (1 n)
    show ?case
    proof (cases "n < 1024")
      case True
      then show ?thesis using "1.prems" by (simp add: log1024.simps)
    next
      case False
      then have "1024 ^ log1024 (n div 1024) \<le> n div 1024 \<and> n div 1024 < 1024 ^ Suc (log1024 (n div 1024))"
        using "1.IH" by simp
      moreover have "log1024 n = Suc (log1024 (n div 1024))" using False by (subst log1024.simps) simp
      moreover have "1024 * (n div 1024) \<le> n" "n < 1024 * (n div 1024) + 1024" by simp_all
      ultimately show ?thesis by simp
    qed
  qed
  have "(1024::int) ^ size_exponent v \<le> 1024 ^ log1024 v" by (simp add: size_exponent_def)
  then have "1024 ^ size_exponent v \<le> v" using log [OF assms] by (blast intro: order_trans)
  moreover have "size_exponent v < 4 \<longrightarrow> size_exponent v = log1024 v" by (simp add: size_exponent_def)
  ultimately show ?thesis using log [OF assms] by metis
qed

lemma size_unit_witness: "1024 ^ size_exponent 1536 \<le> (1536::int) \<and> (1536::int) < 1024 ^ Suc (size_exponent 1536)"
  using size_unit [of 1536] by (simp add: size_exponent_def log1024.simps)

lemma kind_of_stored [simp]: "kind_of (stored_op oid k eid) = Some k"
  by (cases k) (simp_all add: kind_of_def op_kinds_def stored_op_def kind_text_def)

definition build_env :: env where
  "build_env = \<lparr>vite_base = [], vite_dev_port = [], is_dev = True,
     location = \<lparr>protocol = ''https:'', hostname = ''h'', port = [], pathname = ''/'', search = []\<rparr>,
     abs_url = (\<lambda>_. \<lparr>protocol = ''https:'', hostname = ''h'', port = [], pathname = ''/'', search = []\<rparr>)\<rparr>"

lemma choice_reverted_and_reopened_witness:
  "selectedServerId (server_effect build_env JNull (Some ''env'') []
      (setSelectedServerId build_env JNull ''other'' cancelled_page)) = ''env''"
  using choice_reverted_and_reopened [where s = cancelled_page and sid = "''env''" and x = "''other''"
      and e = build_env and session = JNull and servers = "[]"]
  by (simp add: cancelled_page_def build_page0_def read_write)
    (simp add: readStoredOperations_def truthy_str_def)

section \<open>A whole operation on the page\<close>

text \<open>What the user and the storage of the tab see of a stream.\<close>

definition view :: "build_page \<Rightarrow> string list \<times> string \<times> slot" where
  "view s = (map le_text (activityLog s), buildOutput s, opSlot s)"

definition arrivals :: "(thrown \<Rightarrow> string) \<Rightarrow> nat \<Rightarrow> (int \<times> string) list \<Rightarrow> build_page \<Rightarrow> build_page" where
  "arrivals platform i chunks s = fold (\<lambda>(now, c). chunk_arrived platform now i c) chunks s"

lemma apply_call_view: "view s = view t \<Longrightarrow> view (apply_call now k eid c s) = view (apply_call now' k eid c t)"
  by (cases c) (auto simp: view_def apply_call_def appendStreamLine_def createLogEntry_def Let_def)

lemma apply_calls_view: "view s = view t \<Longrightarrow> view (apply_calls now k eid cs s) = view (apply_calls now' k eid cs t)"
  unfolding apply_calls_def
proof (induction cs arbitrary: s t)
  case (Cons c cs)
  then show ?case using apply_call_view by fastforce
qed simp

lemma apply_calls_append: "apply_calls now k eid (cs @ ds) s = apply_calls now k eid ds (apply_calls now k eid cs s)"
  by (simp add: apply_calls_def)

lemma view_kept [simp]: "view (set_flight i f s) = view s" "view (result_taken f v s) = view s"
  by (auto simp: view_def set_flight_def result_taken_def Let_def split: origin.split)

lemma flights_set [simp]: "i < length (flights s) \<Longrightarrow> flights (set_flight i f s) = (flights s)[i := f]"
  by (simp add: set_flight_def)

lemma arrivals_view:
  assumes "i < length (flights s)" "read_from (map snd chunks) (fl_reading (flights s ! i)) = (ks, Inr v)"
  shows "view (stream_ended platform now i (arrivals platform i chunks s)) =
    view (apply_calls now (fl_kind (flights s ! i)) (fl_env (flights s ! i)) ks s)"
  using assms
proof (induction chunks arbitrary: s ks)
  case Nil
  then show ?case by (simp add: arrivals_def stream_ended_def Let_def)
next
  case (Cons c chunks)
  obtain t d where c: "c = (t, d)" by (cases c)
  let ?f = "flights s ! i"
  obtain r1 ks1 err where chunk: "read_chunk d (fl_reading ?f) = (r1, ks1, err)" by (metis prod_cases3)
  obtain ks2 res where rest: "read_from (map snd chunks) r1 = (ks2, res)" by (cases "read_from (map snd chunks) r1")
  have ok: "err = None" "ks = ks1 @ ks2" "res = Inr v"
    using Cons.prems chunk rest c by (auto split: option.splits)
  let ?s1 = "set_flight i (?f\<lparr>fl_reading := r1\<rparr>) (apply_calls t (fl_kind ?f) (fl_env ?f) ks1 s)"
  have step: "chunk_arrived platform t i d s = ?s1"
    using chunk ok by (simp add: chunk_arrived_def Let_def)
  have f1: "flights ?s1 ! i = ?f\<lparr>fl_reading := r1\<rparr>" "i < length (flights ?s1)"
    using Cons.prems(1) by (simp_all add: apply_calls_flights)
  have "view (stream_ended platform now i (arrivals platform i chunks ?s1)) =
      view (apply_calls now (fl_kind ?f) (fl_env ?f) ks2 ?s1)"
    using Cons.IH [OF f1(2)] f1 rest ok by simp
  also have "\<dots> = view (apply_calls now (fl_kind ?f) (fl_env ?f) ks2 (apply_calls now (fl_kind ?f) (fl_env ?f) ks1 s))"
    by (rule apply_calls_view) (simp add: apply_calls_view [of s s])
  finally show ?case
    using step c ok by (simp add: arrivals_def apply_calls_append)
qed

lemma rtrim_fixed: "rtrim (rtrim l) = rtrim l"
  by (simp add: rtrim_def)

text \<open>An output grows by lines.\<close>

definition grown :: "string \<Rightarrow> string list \<Rightarrow> string" where
  "grown out ls = unlines ((if out = [] then [] else [out]) @ ls)"

lemma lines_view:
  assumes "\<forall>l \<in> set ls. rtrim l = l \<and> l \<noteq> []"
  shows "view (apply_calls now k eid (map OnLine ls) s) =
    (map le_text (activityLog s) @ ls, grown (buildOutput s) ls, opSlot s)"
  using assms
proof (induction ls arbitrary: s)
  case (Cons l ls)
  have l: "rtrim l = l" "l \<noteq> []" using Cons.prems by simp_all
  let ?s = "apply_call now k eid (OnLine l) s"
  have s: "map le_text (activityLog ?s) = map le_text (activityLog s) @ [l]" "opSlot ?s = opSlot s"
    "buildOutput ?s = (if buildOutput s = [] then l else buildOutput s @ newline @ l)"
    using l by (simp_all add: apply_call_def appendStreamLine_def createLogEntry_def Let_def)
  have "view (apply_calls now k eid (map OnLine (l # ls)) s) = view (apply_calls now k eid (map OnLine ls) ?s)"
    by (simp add: apply_calls_def)
  then show ?case
    using Cons.IH [of ?s] Cons.prems s l by (cases ls) (auto simp: grown_def)
qed (simp add: apply_calls_def view_def grown_def)

text \<open>
  C28. Let the server send for an operation a first line with its id, then lines without carriage returns that do
  not look like its own, then a successful result. Whatever chunks and whenever they arrive, a page
  that reads this stream from its start, and none else meanwhile, shows every line that is not blank once, in order and
  without the white space at its end, in the log and in the output, after what was there. When the stream
  ends, the entry of the operation is the only one gone from the storage of the tab.
\<close>

theorem page_shows_operation:
  fixes platform :: "thrown \<Rightarrow> string" and now :: int and s :: build_page
  assumes "i < length (flights s)" "fl_reading (flights s ! i) = reading0"
    and "concat (map snd chunks) = operation_text m ls t"
    and "plain_line m" "json_parse m = Some meta" "jget ''operation_id'' (Some meta) = Some oid" "truthy (Some oid)"
    and "\<forall>l \<in> set ls. printed_line l"
    and "plain_line t" "json_parse t = Some v" "truthy (Some v)" "jget ''ok'' (Some v) \<noteq> Some (JBool False)"
  defines "s' \<equiv> stream_ended platform now i (arrivals platform i chunks s)"
  shows "map le_text (activityLog s') = map le_text (activityLog s) @ shown_lines ls \<and>
    buildOutput s' = grown (buildOutput s) (shown_lines ls) \<and>
    readStoredOperations (opSlot s') = filter (\<lambda>item. op_id item \<noteq> Some oid) (readStoredOperations (opSlot s))"
proof -
  let ?k = "fl_kind (flights s ! i)" and ?env = "fl_env (flights s ! i)"
  let ?s1 = "apply_call now ?k ?env (WriteStored oid) s"
  have "read_from (map snd chunks) reading0 =
      (WriteStored oid # map OnLine (shown_lines ls) @ [ClearStored (Some oid)], Inr v)"
    using operation_arrives [OF assms(3-12)] by (simp add: read_stream_def)
  from arrivals_view [where platform = platform and now = now, OF assms(1) this [folded assms(2)]]
  have "view s' = view (apply_call now ?k ?env (ClearStored (Some oid))
      (apply_calls now ?k ?env (map OnLine (shown_lines ls)) ?s1))"
    unfolding s'_def by (simp add: apply_calls_def)
  moreover have "\<forall>l \<in> set (shown_lines ls). rtrim l = l \<and> l \<noteq> []" by (auto simp: shown_lines_def rtrim_fixed)
  then have "view (apply_calls now ?k ?env (map OnLine (shown_lines ls)) ?s1) =
      (map le_text (activityLog s) @ shown_lines ls, grown (buildOutput s) (shown_lines ls),
       writeStoredOperation oid ?k ?env (opSlot s))"
    using lines_view [of "shown_lines ls" now ?k ?env ?s1] by (simp add: apply_call_def store_call_def)
  ultimately have "view s' = (map le_text (activityLog s) @ shown_lines ls, grown (buildOutput s) (shown_lines ls),
      clearStoredOperation (Some oid) (writeStoredOperation oid ?k ?env (opSlot s)))"
    by (simp add: view_def apply_call_def store_call_def)
  moreover have "wf_json oid" using parsed_member_wf assms(5,6) .
  ultimately show ?thesis
    using assms(7) by (simp add: view_def read_cleared read_write)
qed

definition demo_page :: build_page where
  "demo_page = (build_page0 None)
     \<lparr>flights := [\<lparr>fl_id = 0, fl_kind = Build, fl_env = ''env'', fl_origin = ByBuild [], fl_aborted = False,
        fl_reading = reading0, fl_result = None\<rparr>], buildAbort := Some 0, next_flight := 1,
      isBuildRunning := True, selectedServerId := ''env''\<rparr>"

definition demo_text :: string where
  "demo_text = operation_text (json_text (JObj [(''operation_id'', JStr ''op'')])) [''#1'', [], ''  done  '']
     (json_text (JObj [(''ok'', JBool True)]))"

lemma page_shows_operation_witness:
  "buildOutput (stream_ended (\<lambda>_. []) 9 0
     (arrivals (\<lambda>_. []) 0 [(7, take 30 demo_text), (8, drop 30 demo_text)] demo_page)) = unlines [''#1'', ''  done'']"
proof -
  let ?ls = "[''#1'', [], ''  done  '']"
  have "buildOutput (stream_ended (\<lambda>_. []) 9 0
     (arrivals (\<lambda>_. []) 0 [(7, take 30 demo_text), (8, drop 30 demo_text)] demo_page)) =
       grown (buildOutput demo_page) (shown_lines ?ls)"
    by (rule page_shows_operation
        [where platform = "\<lambda>_. []" and now = 9 and i = 0 and s = demo_page
           and chunks = "[(7, take 30 demo_text), (8, drop 30 demo_text)]"
           and m = "json_text (JObj [(''operation_id'', JStr ''op'')])" and ls = ?ls
           and t = "json_text (JObj [(''ok'', JBool True)])"
           and meta = "JObj [(''operation_id'', JStr ''op'')]" and v = "JObj [(''ok'', JBool True)]"
           and oid = "JStr ''op''",
         OF _ _ _ _ parse_stringify _ _ _ _ parse_stringify, THEN conjunct2, THEN conjunct1])
      (simp add: demo_page_def build_page0_def demo_text_def | code_simp)+
  also have "\<dots> = unlines [''#1'', ''  done'']" by code_simp
  finally show ?thesis .
qed

text \<open>A build begins on a page that still has an operation of another environment stored.\<close>

definition one_stored :: slot where
  "one_stored = Some (json_text (JArr [stored_op (JStr ''op1'') Import ''other'']))"

definition chosen_page :: build_page where
  "chosen_page = setSelectedServerId build_env JNull ''env''
     ((build_page0 one_stored)\<lparr>buildContextFile := Some ''tar'', importArchiveFile := None\<rparr>)"

definition building_page :: build_page where
  "building_page = chunk_arrived (\<lambda>_. []) 5 0
     (STREAM_META_PREFIX @ json_text (JObj [(''operation_id'', JStr ''op2'')]) @ newline)
     (runBuild build_env JNull 4 chosen_page)"

lemma building_reached: "reached (build_step (\<lambda>_. []) build_env) (build_page0 one_stored) building_page"
proof -
  let ?step = "build_step (\<lambda>_. []) build_env" and ?p0 = "build_page0 one_stored"
  have c: "\<not> isBuildRunning chosen_page" "selectedServerId chosen_page \<noteq> []"
    "reading_flight 0 (runBuild build_env JNull 4 chosen_page)"
    "\<not> fl_aborted (flights (runBuild build_env JNull 4 chosen_page) ! 0)" by code_simp+
  have "reached ?step ?p0 chosen_page"
    unfolding chosen_page_def
    by (rule reached.further, rule reached.further, rule reached.start) (rule build_step.files build_step.server)+
  then have "reached ?step ?p0 (runBuild build_env JNull 4 chosen_page)"
    using build_step.build [OF c(1,2)] by (rule reached.further)
  then show ?thesis
    unfolding building_page_def using build_step.chunk [OF c(3,4)] by (rule reached.further)
qed

theorem stored_operations_distinct_witness:
  "map op_id (readStoredOperations (opSlot building_page)) = [Some (JStr ''op1''), Some (JStr ''op2'')] \<and>
   map op_id (readStoredOperations (clearStoredOperation (Some (JStr ''op1'')) (opSlot building_page))) = [Some (JStr ''op2'')]"
proof -
  let ?ops = "[stored_op (JStr ''op1'') Import ''other'', stored_op (JStr ''op2'') Build ''env'']"
  have s: "sound_slot one_stored" by code_simp
  have ops: "readStoredOperations (opSlot building_page) = ?ops" by code_simp
  have i: "op_id (stored_op x k e) = Some x" for x k e by (simp add: op_id_def stored_op_def)
  show ?thesis
    using stored_operations_distinct [OF building_reached s] unfolding ops by (simp add: i)
qed

end
