(* ===== verification/GeneralSettings.thy ===== *)
theory GeneralSettings
  imports AdminApi Machine
begin

text \<open>
  The general settings, \<open>features/settings/pages/GeneralSettingsPage.tsx\<close>: the system settings as an
  object of texts, the providers of integrations and the rules that hide containers. A handler is
  split into the requests it sends and the state after they were answered, whatever was edited in
  between.
\<close>

section \<open>Reading settings\<close>

type_synonym settings_map = "(string \<times> string) list"

definition setting_value :: "json \<Rightarrow> string" where
  "setting_value item = jstring (jnullish (jget ''value'' (Some item)) (Some (JStr [])))"

definition toMap :: "json list \<Rightarrow> settings_map" where
  "toMap items = foldl (\<lambda>acc item. put (jstring (jget ''key'' (Some item))) (setting_value item) acc) [] items"

definition boolValue :: "settings_map \<Rightarrow> string \<Rightarrow> bool \<Rightarrow> bool" where
  "boolValue m k fallback = (if truthy_str (map_of m k) then the (map_of m k) = ''true'' else fallback)"

definition stringValue :: "settings_map \<Rightarrow> string \<Rightarrow> string \<Rightarrow> string" where
  "stringValue m k fallback = nullish (map_of m k) fallback"

definition bool_text :: "bool \<Rightarrow> string" where
  "bool_text b = (if b then ''true'' else ''false'')"

section \<open>State\<close>

record settings_page =
  gp_systemSettings :: settings_map
  gp_integrations :: "json list"
  gp_filters :: "json list"
  gp_filterName :: string
  gp_filterValue :: string
  gp_backupPassword :: string
  gp_isLoading :: bool
  gp_isSavingKey :: string
  gp_testingKind :: string
  gp_toasts :: "toast list"

definition settings_page0 :: settings_page where
  "settings_page0 = \<lparr>gp_systemSettings = [], gp_integrations = [], gp_filters = [], gp_filterName = [],
     gp_filterValue = [], gp_backupPassword = [], gp_isLoading = True, gp_isSavingKey = [],
     gp_testingKind = [], gp_toasts = []\<rparr>"

definition gp_notify :: "string \<Rightarrow> string \<Rightarrow> string \<Rightarrow> settings_page \<Rightarrow> settings_page" where
  "gp_notify ty msg d s = s\<lparr>gp_toasts := gp_toasts s @ [toast_of ty msg d]\<rparr>"

section \<open>Loading\<close>

text \<open>The two requests are sent whatever becomes of the other; the first failure is the one reported.\<close>

definition loadAll_calls :: "server \<Rightarrow> env \<Rightarrow> (json \<times> json) eff" where
  "loadAll_calls srv e w =
     (case settings_listSystem srv e None w of
        (r1, w1) \<Rightarrow> (case integrations_list srv e w1 of
          (r2, w2) \<Rightarrow> (case (r1, r2) of
              (Inl t, _) \<Rightarrow> (Inl t, w2)
            | (Inr a, Inl t) \<Rightarrow> (Inl t, w2)
            | (Inr a, Inr b) \<Rightarrow> (Inr (a, b), w2))))"

definition hidden_filters :: "settings_map \<Rightarrow> json list \<Rightarrow> json list" where
  "hidden_filters m current =
     (case json_parse (or_ostr (map_of m ''hidden_container_filters'') ''[]'') of
        None \<Rightarrow> []
      | Some (JArr fs) \<Rightarrow> fs
      | Some _ \<Rightarrow> current)"

text \<open>The lists are arrays, as the calls declare them.\<close>

definition elements :: "json \<Rightarrow> json list" where
  "elements v = (case v of JArr vs \<Rightarrow> vs | _ \<Rightarrow> [])"

definition settings_loaded :: "(thrown \<Rightarrow> string) \<Rightarrow> thrown + json \<times> json \<Rightarrow> settings_page \<Rightarrow> settings_page" where
  "settings_loaded platform answer s =
     (case answer of
        Inl t \<Rightarrow> gp_notify ''error'' ''Unable to load settings'' (thrown_message platform t) s
      | Inr (settings, plugins) \<Rightarrow>
          (let m = toMap (elements settings) in
           s\<lparr>gp_systemSettings := m, gp_integrations := elements plugins,
             gp_filters := hidden_filters m (gp_filters s)\<rparr>))\<lparr>gp_isLoading := False\<rparr>"

section \<open>Editing\<close>

definition updateSetting :: "string \<Rightarrow> string \<Rightarrow> settings_page \<Rightarrow> settings_page" where
  "updateSetting k v s = s\<lparr>gp_systemSettings := put k v (gp_systemSettings s)\<rparr>"

text \<open>A click on a switch, which shows \<^const>\<open>boolValue\<close> with the same fallback.\<close>

definition flip_setting :: "string \<Rightarrow> bool \<Rightarrow> settings_page \<Rightarrow> settings_page" where
  "flip_setting k fallback s =
     updateSetting k (bool_text (\<not> boolValue (gp_systemSettings s) k fallback)) s"

definition updateIntegration :: "string \<Rightarrow> (string \<times> json) list \<Rightarrow> settings_page \<Rightarrow> settings_page" where
  "updateIntegration i patch s =
     s\<lparr>gp_integrations := map (\<lambda>item. if jget ''id'' (Some item) = Some (JStr i)
         then JObj (spread (obj_members item) patch) else item) (gp_integrations s)\<rparr>"

definition metadata_of :: "json \<Rightarrow> (string \<times> json) list" where
  "metadata_of item = (case jget ''metadata'' (Some item) of Some v \<Rightarrow> obj_members v | None \<Rightarrow> [])"

definition updateIntegrationMetadata :: "string \<Rightarrow> string \<Rightarrow> string \<Rightarrow> settings_page \<Rightarrow> settings_page" where
  "updateIntegrationMetadata i k v s =
     s\<lparr>gp_integrations := map (\<lambda>item. if jget ''id'' (Some item) = Some (JStr i)
         then JObj (spread (obj_members item) [(''metadata'', JObj (spread (metadata_of item) [(k, JStr v)]))])
         else item) (gp_integrations s)\<rparr>"

definition addFilter :: "settings_page \<Rightarrow> settings_page" where
  "addFilter s =
     (if trim (gp_filterName s) = [] then gp_notify ''error'' ''Label key required'' [] s
      else s\<lparr>gp_filters := gp_filters s @ [JObj [(''name'', JStr (trim (gp_filterName s))),
               (''value'', JStr (trim (gp_filterValue s)))]],
             gp_filterName := [], gp_filterValue := []\<rparr>)"

definition removeFilter :: "nat \<Rightarrow> settings_page \<Rightarrow> settings_page" where
  "removeFilter i s = s\<lparr>gp_filters := remove_at i (gp_filters s)\<rparr>"

section \<open>Saving\<close>

record setting_item =
  si_key :: string
  si_category :: string
  si_value :: string
  si_description :: string

definition setting :: "string \<Rightarrow> string \<Rightarrow> string \<Rightarrow> string \<Rightarrow> setting_item" where
  "setting c k v d = \<lparr>si_key = k, si_category = c, si_value = v, si_description = d\<rparr>"

definition setting_json :: "setting_item \<Rightarrow> json" where
  "setting_json i = JObj [(''key'', JStr (si_key i)), (''category'', JStr (si_category i)),
     (''value'', JStr (si_value i)), (''description'', JStr (si_description i))]"

definition application_items :: "settings_map \<Rightarrow> setting_item list" where
  "application_items m =
     [setting ''application'' ''snapshot_interval'' (stringValue m ''snapshot_interval'' ''5m'')
        ''Environment snapshot interval'',
      setting ''application'' ''edge_poll_frequency'' (stringValue m ''edge_poll_frequency'' ''5 seconds'')
        ''Default edge agent poll frequency'',
      setting ''application'' ''app_templates_url'' (stringValue m ''app_templates_url'' [])
        ''Application templates registry URL'',
      setting ''application'' ''anonymous_statistics'' (bool_text (boolValue m ''anonymous_statistics'' True))
        ''Anonymous telemetry opt-in'',
      setting ''application'' ''login_banner'' (bool_text (boolValue m ''login_banner'' False))
        ''Whether to show login banner'',
      setting ''application'' ''login_banner_title'' (stringValue m ''login_banner_title'' ''Workspace notice'')
        ''Public login banner title'',
      setting ''application'' ''login_banner_message'' (stringValue m ''login_banner_message'' [])
        ''Public login banner message'',
      setting ''application'' ''login_banner_severity'' (stringValue m ''login_banner_severity'' ''info'')
        ''Public login banner severity'',
      setting ''application'' ''login_banner_help_text'' (stringValue m ''login_banner_help_text''
          ''This notice appears before sign-in and helps operators communicate maintenance or policy changes.'')
        ''Public login banner helper text'',
      setting ''application'' ''login_banner_button_label''
        (stringValue m ''login_banner_button_label'' ''Review workspace notice'') ''Public login banner CTA label'']"

definition runtime_items :: "settings_map \<Rightarrow> setting_item list" where
  "runtime_items m =
     [setting ''kubernetes'' ''helm_repo_url'' (stringValue m ''helm_repo_url'' []) ''Global Helm repository'',
      setting ''kubernetes'' ''kubeconfig_expiry'' (stringValue m ''kubeconfig_expiry'' []) ''Kubeconfig expiry policy'',
      setting ''kubernetes'' ''enforce_gitops'' (bool_text (boolValue m ''enforce_gitops'' False))
        ''Require code-first deployment'',
      setting ''kubernetes'' ''require_change_note'' (bool_text (boolValue m ''require_change_note'' False))
        ''Require note for updates'',
      setting ''kubernetes'' ''enable_k8s_stacks'' (bool_text (boolValue m ''enable_k8s_stacks'' True))
        ''Enable Kubernetes stacks'',
      setting ''security'' ''force_https'' (bool_text (boolValue m ''force_https'' False)) ''Force HTTPS connections'']"

definition backup_items :: "settings_page \<Rightarrow> setting_item list" where
  "backup_items s =
     [setting ''backup'' ''backup_password_configured'' (bool_text (trim (gp_backupPassword s) \<noteq> []))
        ''Whether a backup password has been configured in UI'']"

definition filter_items :: "settings_page \<Rightarrow> setting_item list" where
  "filter_items s =
     [setting ''docker'' ''hidden_container_filters'' (json_text (JArr (gp_filters s)))
        ''Container label filters hidden from runtime views'']"

text \<open>What the fields of the form show while a key has no value.\<close>

definition cadence_fields :: "(string \<times> string) list" where
  "cadence_fields =
     [(''snapshot_interval'', ''5m''), (''edge_poll_frequency'', ''5 seconds''),
      (''app_templates_url'', ''https://raw.githubusercontent.com/portainer/templates/master/templates.json'')]"

definition banner_fields :: "(string \<times> string) list" where
  "banner_fields =
     [(''login_banner_title'', ''Workspace notice''), (''login_banner_message'', []),
      (''login_banner_severity'', ''info''), (''login_banner_button_label'', ''Review workspace notice''),
      (''login_banner_help_text'',
       ''This notice appears before sign-in and helps operators communicate maintenance or policy changes.'')]"

definition application_fields :: "(string \<times> string) list" where
  "application_fields = cadence_fields @ banner_fields"

definition runtime_fields :: "(string \<times> string) list" where
  "runtime_fields = [(''helm_repo_url'', ''https://charts.bitnami.com/bitnami''), (''kubeconfig_expiry'', ''No expiry'')]"

definition saveSystem_call :: "server \<Rightarrow> env \<Rightarrow> setting_item list \<Rightarrow> json eff" where
  "saveSystem_call srv e items = settings_saveSystem srv e (map setting_json items)"

definition saving :: "string \<Rightarrow> settings_page \<Rightarrow> settings_page" where
  "saving key s = s\<lparr>gp_isSavingKey := key\<rparr>"

text \<open>After the request of a category; when it succeeded the page loads everything anew.\<close>

definition category_saved ::
  "(thrown \<Rightarrow> string) \<Rightarrow> (thrown + json) \<Rightarrow> (thrown + json \<times> json) \<Rightarrow> settings_page \<Rightarrow> settings_page" where
  "category_saved platform answer reload s =
     (case answer of
        Inl t \<Rightarrow> gp_notify ''error'' ''Unable to save settings'' (thrown_message platform t) s
      | Inr _ \<Rightarrow> settings_loaded platform reload
          (gp_notify ''success'' ''Settings saved'' ''Configuration has been persisted to the backend.''
             (s\<lparr>gp_isLoading := True\<rparr>)))\<lparr>gp_isSavingKey := []\<rparr>"

definition routing_members :: "json \<Rightarrow> (string \<times> json) list" where
  "routing_members item =
     (let or_else = (\<lambda>k d. (k, JStr (jstring (jnullish (map_of (metadata_of item) k) (Some (JStr d)))))) in
      [or_else ''route_tags'' [], or_else ''route_tag_prefixes'' [], or_else ''priority_filter'' ''all'',
       or_else ''channel_filter'' ''all'', or_else ''status_filter'' ''all'', or_else ''type_filter'' ''all''])"

definition integration_body :: "json \<Rightarrow> json" where
  "integration_body item =
     JObj (spread (obj_members item) [(''metadata'', JObj (spread (metadata_of item) (routing_members item)))])"

text \<open>Every provider is saved; the first failure is the one reported.\<close>

fun saveIntegrations_calls :: "server \<Rightarrow> env \<Rightarrow> json list \<Rightarrow> world \<Rightarrow> thrown option \<times> world" where
  "saveIntegrations_calls srv e [] w = (None, w)"
| "saveIntegrations_calls srv e (item # items) w =
     (case integrations_save srv e (jstring (jget ''kind'' (Some item))) (integration_body item) w of
        (r, w1) \<Rightarrow> (case saveIntegrations_calls srv e items w1 of
          (rest, w2) \<Rightarrow> (case r of Inl t \<Rightarrow> (Some t, w2) | Inr _ \<Rightarrow> (rest, w2))))"

definition integrations_saved ::
  "(thrown \<Rightarrow> string) \<Rightarrow> thrown option \<Rightarrow> (thrown + json \<times> json) \<Rightarrow> settings_page \<Rightarrow> settings_page" where
  "integrations_saved platform failed reload s =
     (case failed of
        Some t \<Rightarrow> gp_notify ''error'' ''Unable to save providers'' (thrown_message platform t) s
      | None \<Rightarrow> settings_loaded platform reload
          (gp_notify ''success'' ''Providers saved''
             ''Adapter configuration and delivery channels are now persisted.'' (s\<lparr>gp_isLoading := True\<rparr>)))
     \<lparr>gp_isSavingKey := []\<rparr>"

text \<open>The button that sends a test saves the provider as it is in the form first.\<close>

definition test_calls :: "server \<Rightarrow> env \<Rightarrow> json \<Rightarrow> json eff" where
  "test_calls srv e item =
     (let kind = jstring (jget ''kind'' (Some item)) in
      eff_bind (integrations_save srv e kind item) (\<lambda>_. integrations_test srv e kind))"

definition tested :: "(thrown \<Rightarrow> string) \<Rightarrow> json \<Rightarrow> (thrown + json) \<Rightarrow> settings_page \<Rightarrow> settings_page" where
  "tested platform item answer s =
     (let name = jstring (jget ''name'' (Some item)) in
      (case answer of
         Inr _ \<Rightarrow> gp_notify ''success'' (name @ '' test sent'')
           ''Native adapter or webhook delivery test was triggered.'' s
       | Inl t \<Rightarrow> gp_notify ''error'' (name @ '' test failed'') (thrown_message platform t) s)\<lparr>gp_testingKind := []\<rparr>)"

section \<open>What the page guarantees\<close>

text \<open>A click on a switch turns what it shows and nothing else.\<close>

lemma flip_flips:
  "boolValue (gp_systemSettings (flip_setting k d s)) k' d' =
     (if k' = k then \<not> boolValue (gp_systemSettings s) k d else boolValue (gp_systemSettings s) k' d')"
  by (auto simp: flip_setting_def updateSetting_def boolValue_def bool_text_def truthy_str_def)

text \<open>The sections that have a button of their own, and what the button sends.\<close>

datatype settings_section = ApplicationSection | RuntimeSection | BackupSection | FiltersSection

fun section_key :: "settings_section \<Rightarrow> string" where
  "section_key ApplicationSection = ''application''"
| "section_key RuntimeSection = ''runtime''"
| "section_key BackupSection = ''backup''"
| "section_key FiltersSection = ''filters''"

fun section_items :: "settings_section \<Rightarrow> settings_page \<Rightarrow> setting_item list" where
  "section_items ApplicationSection s = application_items (gp_systemSettings s)"
| "section_items RuntimeSection s = runtime_items (gp_systemSettings s)"
| "section_items BackupSection s = backup_items s"
| "section_items FiltersSection s = filter_items s"

text \<open>A click on the button of a section, with nothing else happening until it is done.\<close>

definition save_section ::
  "(thrown \<Rightarrow> string) \<Rightarrow> server \<Rightarrow> env \<Rightarrow> settings_section \<Rightarrow> settings_page \<Rightarrow> world \<Rightarrow> settings_page \<times> world" where
  "save_section platform srv e sec s w =
     (case saveSystem_call srv e (section_items sec s) w of
        (Inl t, w1) \<Rightarrow> (category_saved platform (Inl t) (Inl t) (saving (section_key sec) s), w1)
      | (Inr ok, w1) \<Rightarrow> (case loadAll_calls srv e w1 of
          (reload, w2) \<Rightarrow> (category_saved platform (Inr ok) reload (saving (section_key sec) s), w2)))"

text \<open>The keys of a section.\<close>

fun section_keys :: "settings_section \<Rightarrow> string list" where
  "section_keys ApplicationSection =
     [''snapshot_interval'', ''edge_poll_frequency'', ''app_templates_url'', ''anonymous_statistics'', ''login_banner'',
      ''login_banner_title'', ''login_banner_message'', ''login_banner_severity'', ''login_banner_help_text'',
      ''login_banner_button_label'']"
| "section_keys RuntimeSection =
     [''helm_repo_url'', ''kubeconfig_expiry'', ''enforce_gitops'', ''require_change_note'', ''enable_k8s_stacks'',
      ''force_https'']"
| "section_keys BackupSection = [''backup_password_configured'']"
| "section_keys FiltersSection = [''hidden_container_filters'']"

lemma keys_sent: "map si_key (section_items sec s) = section_keys sec"
  by (cases sec) (simp_all add: application_items_def runtime_items_def backup_items_def filter_items_def setting_def)

lemma edit_unsent:
  assumes "k \<notin> set (section_keys sec)"
  shows "section_items sec (updateSetting k v (updateIntegration i patch s)) = section_items sec s"
proof -
  have m: "gp_systemSettings (updateSetting k v (updateIntegration i patch s)) = put k v (gp_systemSettings s)"
    "gp_filters (updateSetting k v (updateIntegration i patch s)) = gp_filters s"
    "gp_backupPassword (updateSetting k v (updateIntegration i patch s)) = gp_backupPassword s"
    by (simp_all add: updateSetting_def updateIntegration_def)
  have same: "stringValue (put k v m) k' d = stringValue m k' d" "boolValue (put k v m) k' c = boolValue m k' c"
    if "k' \<noteq> k" for m k' d c
    using that by (simp_all add: stringValue_def boolValue_def)
  show ?thesis
    using assms
    by (cases sec) (simp_all only: section_items.simps section_keys.simps m application_items_def runtime_items_def backup_items_def
      filter_items_def list.set insert_iff empty_iff de_Morgan_disj simp_thms same not_sym)
qed

lemma edit_replaced:
  "category_saved platform (Inr ok) (Inr (settings, plugins)) (saving sk (updateSetting k v (updateIntegration i patch s))) =
     category_saved platform (Inr ok) (Inr (settings, plugins)) (saving sk s)"
  by (simp add: category_saved_def saving_def settings_loaded_def updateSetting_def updateIntegration_def gp_notify_def Let_def)

text \<open>
  C30. Let a provider be edited, and a setting that is not one of a section. Pressing the button of this section then
  sends what it sends without these edits, and when it and the reloading that follows succeed, the page is the one it
  is without them: its settings and providers are those of the server and the edits are lost. When one of the two
  fails the edited setting stays; a backup password that was typed stays in any case.
\<close>

theorem other_edits_lost:
  fixes s :: settings_page and k v i :: string and patch :: "(string \<times> json) list"
  assumes "k \<notin> set (section_keys sec)"
  defines "edited \<equiv> updateSetting k v (updateIntegration i patch s)"
  shows "case save_section platform srv e sec s w of (s1, w1) \<Rightarrow>
    case save_section platform srv e sec edited w of (s2, w2) \<Rightarrow>
    w2 = w1 \<and> gp_backupPassword s2 = gp_backupPassword s \<and>
    (case saveSystem_call srv e (section_items sec s) w of
       (Inl t, w') \<Rightarrow> map_of (gp_systemSettings s2) k = Some v
     | (Inr ok, w') \<Rightarrow> (case fst (loadAll_calls srv e w') of
           Inl t \<Rightarrow> map_of (gp_systemSettings s2) k = Some v
         | Inr (settings, plugins) \<Rightarrow> s2 = s1 \<and>
             gp_systemSettings s2 = toMap (elements settings) \<and> gp_integrations s2 = elements plugins))"
proof -
  have items: "section_items sec edited = section_items sec s" unfolding edited_def using assms(1) by (rule edit_unsent)
  have kept: "map_of (gp_systemSettings edited) k = Some v" "gp_backupPassword edited = gp_backupPassword s"
    by (simp_all add: edited_def updateSetting_def updateIntegration_def)
  note defs = save_section_def items category_saved_def settings_loaded_def gp_notify_def saving_def
  obtain r w' where call: "saveSystem_call srv e (section_items sec s) w = (r, w')" by fastforce
  obtain reload w'' where load: "loadAll_calls srv e w' = (reload, w'')" by fastforce
  show ?thesis
  proof (cases r)
    case (Inl t)
    then show ?thesis by (simp add: defs call kept)
  next
    case (Inr ok)
    show ?thesis
    proof (cases reload)
      case (Inl t)
      then show ?thesis by (simp add: defs call load kept Inr)
    next
      case reloaded: (Inr both)
      obtain settings plugins where "both = (settings, plugins)" by fastforce
      moreover have "category_saved platform (Inr ok) (Inr (settings, plugins)) (saving (section_key sec) edited) =
          category_saved platform (Inr ok) (Inr (settings, plugins)) (saving (section_key sec) s)" for settings plugins
        unfolding edited_def by (rule edit_replaced)
      ultimately show ?thesis
        using reloaded Inr
        by (simp add: save_section_def items call load) (simp add: category_saved_def settings_loaded_def gp_notify_def saving_def Let_def)
    qed
  qed
qed

definition unset_saved_empty :: "string set" where
  "unset_saved_empty = {''app_templates_url'', ''helm_repo_url'', ''kubeconfig_expiry''}"

definition saved_value :: "setting_item list \<Rightarrow> string \<Rightarrow> string option" where
  "saved_value items k = map_of (map (\<lambda>i. (si_key i, si_value i)) items) k"

lemma saved_field:
  "(k, shown) \<in> set application_fields \<Longrightarrow> saved_value (application_items m) k =
     Some (stringValue m k (if k \<in> unset_saved_empty then [] else shown))"
  "(k, shown) \<in> set runtime_fields \<Longrightarrow> saved_value (runtime_items m) k =
     Some (stringValue m k (if k \<in> unset_saved_empty then [] else shown))"
  unfolding application_fields_def cadence_fields_def banner_fields_def append.simps runtime_fields_def list.set insert_iff empty_iff prod.inject
  by (elim disjE conjE FalseE; hypsubst;
      simp add: saved_value_def application_items_def runtime_items_def setting_def unset_saved_empty_def)+

text \<open>
  A text field is saved as it is shown, but for three: the address of the templates, the Helm
  repository and the expiry of the kubeconfig show a default while they are not set and are saved
  as the empty text, which is then shown instead of the default.
\<close>

theorem saved_as_shown:
  assumes "(k, shown) \<in> set application_fields \<and> items = application_items m \<or>
    (k, shown) \<in> set runtime_fields \<and> items = runtime_items m"
  shows "saved_value items k = Some (stringValue m k (if k \<in> unset_saved_empty then [] else shown))"
  using assms saved_field by metis

lemma saved_as_shown_witness:
  "saved_value (runtime_items []) ''helm_repo_url'' = Some [] \<and>
   stringValue [] ''helm_repo_url'' ''https://charts.bitnami.com/bitnami'' \<noteq> []"
  using saved_as_shown [of "''helm_repo_url''" "''https://charts.bitnami.com/bitnami''" "runtime_items []" "[]"]
  by (simp add: runtime_fields_def unset_saved_empty_def stringValue_def nullish_def)

lemma toMap_other:
  "\<forall>item \<in> set items. jstring (jget ''key'' (Some item)) \<noteq> k \<Longrightarrow>
     map_of (foldl (\<lambda>acc item. put (jstring (jget ''key'' (Some item))) (setting_value item) acc) acc items) k = map_of acc k"
  by (induction items arbitrary: acc) auto

lemma toMap_last:
  assumes "\<forall>item \<in> set after. jstring (jget ''key'' (Some item)) \<noteq> jstring (jget ''key'' (Some i))"
  shows "map_of (toMap (before @ i # after)) (jstring (jget ''key'' (Some i))) = Some (setting_value i)"
  using toMap_other [OF assms] by (simp add: toMap_def)

text \<open>
  C31. The rules that hide containers survive being saved and loaded: when the server returns the
  value it was sent, whatever else it returns and whatever the form holds by then, the page
  has the rules it saved.
\<close>

theorem filters_saved_and_loaded:
  assumes "wf_json (JArr (gp_filters s))"
    and "\<forall>item \<in> set after. jstring (jget ''key'' (Some item)) \<noteq> ''hidden_container_filters''"
  shows "gp_filters (category_saved platform (Inr ok)
    (Inr (JArr (before @ map setting_json (filter_items s) @ after), plugins)) t) = gp_filters s"
proof -
  let ?i = "setting_json (hd (filter_items s))" and ?v = "json_text (JArr (gp_filters s))"
  have i: "jstring (jget ''key'' (Some ?i)) = ''hidden_container_filters''" "setting_value ?i = ?v"
    by (simp_all add: setting_json_def filter_items_def setting_def setting_value_def jnullish_def)
  have "map_of (toMap (before @ ?i # after)) ''hidden_container_filters'' = Some ?v"
    using toMap_last [of after ?i before] assms(2) i by simp
  moreover have "json_parse ?v = Some (JArr (gp_filters s))" by (rule parse_stringify [OF assms(1)])
  moreover have "?v \<noteq> []" using json_text_length [of "JArr (gp_filters s)"] by (cases ?v) auto
  ultimately have "hidden_filters (toMap (before @ ?i # after)) x = gp_filters s" for x
    by (simp add: hidden_filters_def or_ostr_def or_str_def truthy_str_def del: json_text.simps)
  moreover have "map setting_json (filter_items s) = [?i]" by (simp add: filter_items_def)
  ultimately show ?thesis by (simp add: category_saved_def settings_loaded_def elements_def Let_def)
qed

lemma filters_saved_and_loaded_witness:
  "gp_filters (category_saved (\<lambda>_. []) (Inr JNull)
     (Inr (JArr ([] @ map setting_json (filter_items (addFilter (settings_page0\<lparr>gp_filterName := ''tier''\<rparr>))) @ []), JArr []))
     settings_page0) = gp_filters (addFilter (settings_page0\<lparr>gp_filterName := ''tier''\<rparr>))"
  by (rule filters_saved_and_loaded) code_simp+

section \<open>Providers\<close>

definition routing_default :: "string \<Rightarrow> string option" where
  "routing_default k =
     map_of [(''route_tags'', []), (''route_tag_prefixes'', []), (''priority_filter'', ''all''),
       (''channel_filter'', ''all''), (''status_filter'', ''all''), (''type_filter'', ''all'')] k"

text \<open>What is sent for a provider: its own metadata, with the routing filled in where it is missing.\<close>

lemma provider_metadata:
  "map_of (metadata_of (integration_body item)) k =
     (case routing_default k of
        Some d \<Rightarrow> Some (JStr (jstring (jnullish (map_of (metadata_of item) k) (Some (JStr d)))))
      | None \<Rightarrow> map_of (metadata_of item) k)"
  by (simp add: metadata_of_def integration_body_def routing_members_def routing_default_def obj_members_def Let_def)

lemma provider_fields: "k \<noteq> ''metadata'' \<Longrightarrow> jget k (Some (integration_body item)) = map_of (obj_members item) k"
  by (simp add: integration_body_def)

text \<open>Filling in twice is filling in once.\<close>

lemma provider_filled_once:
  "map_of (metadata_of (integration_body (integration_body item))) k = map_of (metadata_of (integration_body item)) k"
  by (simp add: provider_metadata jnullish_def split: option.split)

text \<open>The Helm repository is edited and the button of the backup section is pressed.\<close>

definition settings_server :: server where
  "settings_server h rq = Some \<lparr>rs_status = 200, rs_body = json_text (JObj [(''status'', JStr ''ok''), (''items'',
     JArr [JObj [(''key'', JStr ''helm_repo_url''), (''value'', JStr ''https://charts.example'')]])])\<rparr>"

definition settings_world :: world where
  "settings_world = \<lparr>storage = Some (\<lambda>_. None), sent = []\<rparr>"

definition settings_env :: env where
  "settings_env = \<lparr>vite_base = [], vite_dev_port = [], is_dev = True,
     location = \<lparr>protocol = ''https:'', hostname = ''h'', port = [], pathname = ''/'', search = []\<rparr>,
     abs_url = (\<lambda>_. \<lparr>protocol = ''https:'', hostname = ''h'', port = [], pathname = ''/'', search = []\<rparr>)\<rparr>"

theorem other_edits_lost_witness:
  "map_of (gp_systemSettings (fst (save_section (\<lambda>_. []) settings_server settings_env BackupSection
     (updateSetting ''helm_repo_url'' ''https://mine'' (updateIntegration ''p1'' [] settings_page0)) settings_world)))
   ''helm_repo_url'' = Some ''https://charts.example''"
proof -
  let ?call = "saveSystem_call settings_server settings_env (section_items BackupSection settings_page0) settings_world"
  have k: "''helm_repo_url'' \<notin> set (section_keys BackupSection)" by simp
  let ?items = "JArr [JObj [(''key'', JStr ''helm_repo_url''), (''value'', JStr ''https://charts.example'')]]"
  have c: "fst ?call = Inr ?items" by code_simp
  have l: "fst (loadAll_calls settings_server settings_env (snd ?call)) = Inr (?items, ?items)" by code_simp
  have m: "map_of (toMap (elements ?items)) ''helm_repo_url'' = Some ''https://charts.example''" by code_simp
  show ?thesis
    using other_edits_lost [OF k, where s = settings_page0 and platform = "\<lambda>_. []" and srv = settings_server and e = settings_env and
        w = settings_world and v = "''https://mine''" and i = "''p1''" and patch = "[]"] c l m
    by (auto split: prod.splits)
qed

end
