(* ===== verification/Dashboard.thy ===== *)
theory Dashboard
  imports Complex_Main JsDate "HOL-Library.Multiset"
begin

text \<open>
  What the dashboard computes from the answers of its queries, \<open>features/dashboard/pages/DashboardPage.tsx\<close>:
  the charts, the score of a cluster and the rankings. Percentages are rationals; the formatting of
  dates and the comparison of texts by the locale are arguments.
\<close>

section \<open>Rounding and ranking\<close>

text \<open>\<open>Math.round\<close>.\<close>

definition js_round :: "rat \<Rightarrow> int" where
  "js_round x = \<lfloor>x + 1 / 2\<rfloor>"

text \<open>\<open>[...xs].sort((l, r) => f(r) - f(l)).slice(0, n)\<close>; the sort of the engine is stable.\<close>

definition top_by :: "('a \<Rightarrow> rat) \<Rightarrow> nat \<Rightarrow> 'a list \<Rightarrow> 'a list" where
  "top_by f n xs = take n (sort_key (\<lambda>x. - f x) xs)"

section \<open>Alerts\<close>

record alert_day =
  ad_key :: string
  ad_label :: string
  ad_open :: nat
  ad_critical :: nat

record alert_item =
  an_created_at :: "string option"
  an_status :: string
  an_priority :: string
  an_read :: bool

text \<open>The seven days up to now; \<open>label\<close> formats a date. The week has no change of the clocks.\<close>

definition alert_days :: "(int \<Rightarrow> string) \<Rightarrow> int \<Rightarrow> alert_day list" where
  "alert_days label now =
     map (\<lambda>i. let date = now - (6 - i) * 86400000 in
       \<lparr>ad_key = take 10 (iso_string date), ad_label = label date, ad_open = 0, ad_critical = 0\<rparr>) [0..6]"

definition day_key :: "alert_item \<Rightarrow> string" where
  "day_key n = (case an_created_at n of None \<Rightarrow> [] | Some t \<Rightarrow> take 10 t)"

definition count_alert :: "alert_item \<Rightarrow> alert_day list \<Rightarrow> alert_day list" where
  "count_alert n days =
     (if day_key n = [] then days
      else map (\<lambda>d. if ad_key d = day_key n
         then d\<lparr>ad_open := ad_open d + (if an_status n = ''open'' then 1 else 0),
                ad_critical := ad_critical d + (if an_priority n = ''high'' then 1 else 0)\<rparr>
         else d) days)"

definition buildAlertTrend :: "(int \<Rightarrow> string) \<Rightarrow> int \<Rightarrow> alert_item list \<Rightarrow> alert_day list" where
  "buildAlertTrend label now notifications = fold count_alert notifications (alert_days label now)"

section \<open>Distributions\<close>

definition buildDistribution :: "string list \<Rightarrow> (string \<times> nat) list" where
  "buildDistribution values =
     foldl (\<lambda>acc v. let key = or_str v ''unknown'' in put key (nullish (map_of acc key) 0 + 1) acc) [] values"

definition palette :: "string list" where
  "palette = [''#2563eb'', ''#0f766e'', ''#d97706'', ''#dc2626'', ''#7c3aed'', ''#475569'']"

definition distributionToChart :: "(string \<times> nat) list \<Rightarrow> (string \<times> nat \<times> string) list" where
  "distributionToChart d =
     map (\<lambda>(i, name, v). (name, v, palette ! (i mod length palette))) (zip [0..<length d] d)"

section \<open>Capacity\<close>

record sample_point =
  sp_cpu :: "rat option"
  sp_memory :: "rat option"
  sp_recorded :: "string option"

record bucket =
  bk_label :: string
  bk_cpu :: rat
  bk_memory :: rat
  bk_count :: nat

record trend_point =
  tr_label :: string
  tr_cpu :: rat
  tr_memory :: rat

definition add_sample ::
  "(string \<Rightarrow> string) \<Rightarrow> (string \<times> bucket) list \<Rightarrow> sample_point \<Rightarrow> (string \<times> bucket) list" where
  "add_sample time_label acc p =
     (if \<not> truthy_str (sp_recorded p) then acc
      else (let stamp = the (sp_recorded p); key = take 16 stamp;
                b = nullish (map_of acc key) \<lparr>bk_label = time_label stamp, bk_cpu = 0, bk_memory = 0, bk_count = 0\<rparr> in
        put key (b\<lparr>bk_cpu := bk_cpu b + nullish (sp_cpu p) 0, bk_memory := bk_memory b + nullish (sp_memory p) 0,
                   bk_count := bk_count b + 1\<rparr>) acc))"

definition capacity_buckets :: "(string \<Rightarrow> string) \<Rightarrow> sample_point list list \<Rightarrow> (string \<times> bucket) list" where
  "capacity_buckets time_label histories = foldl (add_sample time_label) [] (concat histories)"

definition last_n :: "nat \<Rightarrow> 'a list \<Rightarrow> 'a list" where
  "last_n n xs = drop (length xs - n) xs"

text \<open>The order of the keys is \<open>localeCompare\<close>, given by a rank.\<close>

definition buildCapacityTrend ::
  "(string \<Rightarrow> string) \<Rightarrow> (string \<Rightarrow> int) \<Rightarrow> sample_point list list \<Rightarrow> rat \<Rightarrow> rat \<Rightarrow> trend_point list" where
  "buildCapacityTrend time_label rank histories fallbackCpu fallbackMemory =
     (if histories = [] then [\<lparr>tr_label = ''now'', tr_cpu = fallbackCpu, tr_memory = fallbackMemory\<rparr>]
      else map (\<lambda>(_, b). \<lparr>tr_label = bk_label b,
               tr_cpu = (if bk_count b \<noteq> 0 then of_int (js_round (bk_cpu b / of_nat (bk_count b))) else fallbackCpu),
               tr_memory = (if bk_count b \<noteq> 0 then of_int (js_round (bk_memory b / of_nat (bk_count b)))
                 else fallbackMemory)\<rparr>)
             (last_n 12 (sort_key (rank \<circ> fst) (capacity_buckets time_label histories))))"

section \<open>Texts\<close>

definition normalizeContainerState :: "string option \<Rightarrow> string" where
  "normalizeContainerState state =
     (let value = lower (trim (nullish state [])) in
      if value = [] then ''unknown''
      else if str_includes value ''running'' then ''running''
      else if str_includes value ''paused'' then ''paused''
      else if str_includes value ''restarting'' then ''restarting''
      else if str_includes value ''exited'' then ''exited''
      else value)"

definition normalizePodStatus :: "string option \<Rightarrow> string" where
  "normalizePodStatus status =
     (let value = lower (trim (nullish status [])) in
      if value = [] then ''unknown''
      else if str_includes value ''running'' then ''running''
      else if str_includes value ''pending'' then ''pending''
      else if str_includes value ''failed'' \<or> str_includes value ''crash'' \<or> str_includes value ''error'' then ''failed''
      else if str_includes value ''succeeded'' then ''succeeded''
      else value)"

definition cleanContainerName :: "string \<Rightarrow> string" where
  "cleanContainerName name = (if starts_with ''/'' name then drop 1 name else name)"

definition percent_char :: "char \<Rightarrow> bool" where
  "percent_char c \<longleftrightarrow> is_digit c \<or> c = CHR ''.''"

text \<open>\<open>Number\<close> of a text of digits and dots: at most one dot, and a digit somewhere.\<close>

definition decimal_value :: "string \<Rightarrow> rat option" where
  "decimal_value s =
     (case split_on CHR ''.'' s of
        [a] \<Rightarrow> Some (of_nat (nat_of_digits a))
      | [a, b] \<Rightarrow> if a = [] \<and> b = [] then None
          else Some (of_nat (nat_of_digits a) + of_nat (nat_of_digits b) / 10 ^ length b)
      | _ \<Rightarrow> None)"

text \<open>\<^const>\<open>None\<close> where the number is not one.\<close>

definition parsePercentString :: "string option \<Rightarrow> int option" where
  "parsePercentString value =
     (let m = takeWhile percent_char (dropWhile (\<lambda>c. \<not> percent_char c) (nullish value [])) in
      if m = [] then Some 0 else map_option js_round (decimal_value m))"

text \<open>The time that has passed; \<open>parse\<close> is the date of a text, \<^const>\<open>None\<close> when it has none.\<close>

definition formatRelativeTimestamp :: "(string \<Rightarrow> int option) \<Rightarrow> int \<Rightarrow> string option \<Rightarrow> string" where
  "formatRelativeTimestamp parse now value =
     (if \<not> truthy_str value then ''unknown''
      else case parse (the value) of
        None \<Rightarrow> the value
      | Some t \<Rightarrow>
          (let minutes = max 0 (js_round (of_int (now - t) / 60000));
               hours = js_round (of_int minutes / 60);
               days = js_round (of_int hours / 24) in
           if minutes < 1 then ''just now''
           else if minutes < 60 then show_int minutes @ ''m ago''
           else if hours < 24 then show_int hours @ ''h ago''
           else show_int days @ ''d ago''))"

definition usage_level :: "rat \<Rightarrow> string" where
  "usage_level v = (let safe = max 0 (min 100 v) in
     if safe \<ge> 85 then ''high'' else if safe \<ge> 65 then ''raised'' else ''normal'')"

section \<open>The cluster\<close>

definition calculateClusterHealthScore :: "nat \<Rightarrow> nat \<Rightarrow> nat \<Rightarrow> nat \<Rightarrow> nat \<Rightarrow> nat \<Rightarrow> int" where
  "calculateClusterHealthScore readyNodes totalNodes runningPods totalPods healthyDeployments totalDeployments =
     (let nodeScore = (if totalNodes > 0 then of_nat readyNodes / of_nat totalNodes * 35 else 35);
          podScore = (if totalPods > 0 then of_nat runningPods / of_nat totalPods * 35 else 35);
          deploymentScore = (if totalDeployments > 0
            then of_nat healthyDeployments / of_nat totalDeployments * 30 else 30) in
      js_round (nodeScore + podScore + deploymentScore))"

record k8s_node =
  nd_name :: string
  nd_status :: string

record k8s_pod =
  pd_namespace :: string
  pd_status :: string
  pd_node :: string
  pd_restarts :: "int option"

record k8s_deployment =
  dp_namespace :: string
  dp_ready :: int
  dp_desired :: int

record cluster_data =
  cd_nodes :: "k8s_node list"
  cd_pods :: "k8s_pod list"
  cd_deployments :: "k8s_deployment list"
  cd_namespaces :: "string list"
  cd_claims :: "string list"
  cd_stat_nodes :: "nat option"
  cd_stat_pods :: "nat option"

definition readyNodes :: "cluster_data \<Rightarrow> nat" where
  "readyNodes d = length (filter (\<lambda>n. nd_status n = ''Ready'') (cd_nodes d))"

definition podStatusDistribution :: "cluster_data \<Rightarrow> (string \<times> nat) list" where
  "podStatusDistribution d = buildDistribution (map (\<lambda>p. normalizePodStatus (Some (pd_status p))) (cd_pods d))"

definition runningPods :: "cluster_data \<Rightarrow> nat" where
  "runningPods d = nullish (map_of (podStatusDistribution d) ''running'') 0"

definition healthyDeployments :: "cluster_data \<Rightarrow> nat" where
  "healthyDeployments d = length (filter (\<lambda>x. dp_ready x \<ge> dp_desired x) (cd_deployments d))"

definition clusterHealthScore :: "cluster_data \<Rightarrow> int" where
  "clusterHealthScore d =
     calculateClusterHealthScore (readyNodes d) (max (length (cd_nodes d)) (nullish (cd_stat_nodes d) 0))
       (runningPods d) (max (length (cd_pods d)) (nullish (cd_stat_pods d) 0))
       (healthyDeployments d) (if cd_deployments d = [] then 1 else length (cd_deployments d))"

definition deploymentMismatch :: "cluster_data \<Rightarrow> k8s_deployment list" where
  "deploymentMismatch d = filter (\<lambda>x. dp_ready x \<noteq> dp_desired x) (cd_deployments d)"

definition totalRestarts :: "cluster_data \<Rightarrow> int" where
  "totalRestarts d = foldl (\<lambda>total p. total + nullish (pd_restarts p) 0) 0 (cd_pods d)"

definition namespaceWorkload :: "cluster_data \<Rightarrow> (string \<times> nat \<times> nat \<times> nat) list" where
  "namespaceWorkload d =
     map (\<lambda>ns. (ns, length (filter (\<lambda>p. pd_namespace p = ns) (cd_pods d)),
         length (filter (\<lambda>x. dp_namespace x = ns) (cd_deployments d)),
         length (filter (starts_with (ns @ ''/'')) (cd_claims d)))) (take 6 (cd_namespaces d))"

definition nodeStatusChart :: "cluster_data \<Rightarrow> (string \<times> nat \<times> string) list" where
  "nodeStatusChart d =
     distributionToChart [(''ready'', readyNodes d), (''notReady'', length (cd_nodes d) - readyNodes d)]"

definition selectedNodeName :: "cluster_data \<Rightarrow> string \<Rightarrow> string" where
  "selectedNodeName d selectedNode =
     or_str selectedNode (case cd_nodes d of [] \<Rightarrow> [] | n # _ \<Rightarrow> nd_name n)"

definition selectedNodePods :: "cluster_data \<Rightarrow> string \<Rightarrow> k8s_pod list" where
  "selectedNodePods d selectedNode = filter (\<lambda>p. pd_node p = selectedNodeName d selectedNode) (cd_pods d)"

text \<open>The pressure of memory and of disks.\<close>

definition buildNodePressure :: "k8s_node option \<Rightarrow> bool \<times> bool" where
  "buildNodePressure node =
     (let status = lower (case node of None \<Rightarrow> [] | Some n \<Rightarrow> nd_status n) in
      (str_includes status ''memorypressure'', str_includes status ''diskpressure''))"

definition selectedNodePressure :: "cluster_data \<Rightarrow> string \<Rightarrow> bool \<times> bool" where
  "selectedNodePressure d selectedNode =
     buildNodePressure (List.find (\<lambda>n. nd_name n = selectedNodeName d selectedNode) (cd_nodes d))"

section \<open>The docker host\<close>

record host_env =
  he_id :: string
  he_type :: string
  he_status :: string
  he_cpuPercent :: "rat option"
  he_memPercent :: "rat option"
  he_diskPercent :: "rat option"
  he_stats :: "string \<Rightarrow> rat option"

record agent_state =
  as_has_docker :: bool
  as_online :: bool
  as_cpu :: "rat option"
  as_mem :: "rat option"
  as_disk :: "rat option"

record host_server =
  hs_id :: string
  hs_provider :: string
  hs_status :: string
  hs_cpu_cores :: "rat option"
  hs_memory_gb :: "rat option"
  hs_disk_gb :: "rat option"

record docker_node =
  dn_id :: string
  dn_online :: bool
  dn_cpu :: rat
  dn_memory :: rat
  dn_disk :: rat
  dn_hasDocker :: bool

text \<open>
  The answer of a query is \<^const>\<open>None\<close> until it has one; in it, the agent and its measurements
  (use of the processor, use of the memory) are \<^const>\<open>None\<close> where their call failed.
\<close>

type_synonym node_answer = "host_server \<times> agent_state option \<times> (rat \<times> rat) option"

definition docker_node_of :: "node_answer \<Rightarrow> docker_node" where
  "docker_node_of = (\<lambda>(server, agent, metrics).
     \<lparr>dn_id = hs_id server,
      dn_online = (case agent of None \<Rightarrow> False | Some a \<Rightarrow> as_online a),
      dn_cpu = nullish (Option.bind agent as_cpu) (nullish (map_option fst metrics) 0),
      dn_memory = nullish (Option.bind agent as_mem) (nullish (map_option snd metrics) 0),
      dn_disk = nullish (Option.bind agent as_disk) 0,
      dn_hasDocker = (case agent of None \<Rightarrow> False | Some a \<Rightarrow> as_has_docker a)\<rparr>)"

definition runs_docker :: "node_answer \<Rightarrow> bool" where
  "runs_docker = (\<lambda>(server, agent, metrics).
     (case agent of None \<Rightarrow> False | Some a \<Rightarrow> as_has_docker a) \<or> hs_provider server = ''local-control-plane'')"

definition dockerNodes :: "node_answer option list \<Rightarrow> docker_node list" where
  "dockerNodes answers =
     map docker_node_of (filter runs_docker (map the (filter (\<lambda>a. a \<noteq> None) answers)))"

record run_container =
  rc_Id :: string
  rc_Names :: "string list option"
  rc_State :: string

record top_container =
  tc_name :: string
  tc_cpu :: "int option"
  tc_memory :: "int option"

definition runningContainers :: "run_container list \<Rightarrow> run_container list" where
  "runningContainers cs = filter (\<lambda>c. rc_State c = ''running'') cs"

definition container_title :: "run_container \<Rightarrow> string" where
  "container_title c =
     cleanContainerName (or_str (case rc_Names c of Some (n # _) \<Rightarrow> n | _ \<Rightarrow> []) (rc_Id c))"

text \<open>The first five that run, with the texts of their statistics once they arrived.\<close>

definition topContainerUsage ::
  "(nat \<Rightarrow> (string option \<times> string option) option) \<Rightarrow> run_container list \<Rightarrow> top_container list" where
  "topContainerUsage stats cs =
     map (\<lambda>(i, c). \<lparr>tc_name = container_title c,
         tc_cpu = parsePercentString (Option.bind (stats i) fst),
         tc_memory = parsePercentString (Option.bind (stats i) snd)\<rparr>)
       (zip [0..<5] (take 5 (runningContainers cs)))"

definition idleContainers :: "run_container list \<Rightarrow> nat" where
  "idleContainers cs = length (filter (\<lambda>c. rc_State c \<noteq> ''running'') cs)"

definition usedStoragePercent :: "host_env \<Rightarrow> rat" where
  "usedStoragePercent e = max 0 (min 100 (nullish (he_diskPercent e) 0))"

definition containerCapacityTrend ::
  "(string \<Rightarrow> string) \<Rightarrow> (string \<Rightarrow> int) \<Rightarrow> sample_point list option \<Rightarrow> host_env \<Rightarrow> trend_point list" where
  "containerCapacityTrend time_label rank history e =
     buildCapacityTrend time_label rank [nullish history []]
       (nullish (he_cpuPercent e) 0) (nullish (he_memPercent e) 0)"

record image_item =
  im_Id :: string
  im_RepoTags :: "string list option"
  im_Size :: "rat option"

definition topImages :: "image_item list \<Rightarrow> (string \<times> int) list" where
  "topImages images =
     map (\<lambda>i. (case im_RepoTags i of Some (t # _) \<Rightarrow> t | _ \<Rightarrow> take 12 (im_Id i),
         js_round (nullish (im_Size i) 0 / (1024 * 1024))))
       (top_by (\<lambda>i. nullish (im_Size i) 0) 5 images)"

section \<open>The administration overview\<close>

definition stat :: "string \<Rightarrow> host_env \<Rightarrow> rat" where
  "stat k e = nullish (he_stats e k) 0"

definition scoreDockerEnvironment :: "host_env \<Rightarrow> rat" where
  "scoreDockerEnvironment e = stat ''containers'' e * 5 + stat ''stacks'' e * 3 + stat ''images'' e"

definition scoreKubernetesEnvironment :: "host_env \<Rightarrow> rat" where
  "scoreKubernetesEnvironment e = stat ''nodes'' e * 5 + stat ''pods'' e + stat ''namespaces'' e * 2"

definition average :: "(host_env \<Rightarrow> rat option) \<Rightarrow> host_env list \<Rightarrow> int" where
  "average f inventory =
     (if inventory = [] then 0
      else js_round (foldl (\<lambda>total e. total + nullish (f e) 0) 0 inventory / of_nat (length inventory)))"

definition averageCpu :: "host_env list \<Rightarrow> int" where
  "averageCpu = average he_cpuPercent"

definition averageMemory :: "host_env list \<Rightarrow> int" where
  "averageMemory = average he_memPercent"

definition total :: "(host_server \<Rightarrow> rat option) \<Rightarrow> host_server list \<Rightarrow> rat" where
  "total f servers = foldl (\<lambda>sum x. sum + nullish (f x) 0) 0 servers"

definition onlineServers :: "host_server list \<Rightarrow> host_server list" where
  "onlineServers servers = filter (\<lambda>x. hs_status x = ''online'') servers"

definition offlineServers :: "host_server list \<Rightarrow> host_server list" where
  "offlineServers servers = filter (\<lambda>x. hs_status x \<noteq> ''online'') servers"

definition riskServers :: "host_server list \<Rightarrow> host_server list" where
  "riskServers servers = take 5 (offlineServers servers)"

definition busiestEnvironments :: "host_env list \<Rightarrow> host_env list" where
  "busiestEnvironments inventory = top_by (\<lambda>e. nullish (he_cpuPercent e) 0) 5 inventory"

definition topCapacityServers :: "host_server list \<Rightarrow> host_server list" where
  "topCapacityServers servers = top_by (\<lambda>x. nullish (hs_cpu_cores x) 0) 8 (onlineServers servers)"

definition topDockerEnvironments :: "host_env list \<Rightarrow> host_env list" where
  "topDockerEnvironments inventory =
     top_by scoreDockerEnvironment 5 (filter (\<lambda>e. he_type e = ''docker'') inventory)"

definition topKubernetesEnvironments :: "host_env list \<Rightarrow> host_env list" where
  "topKubernetesEnvironments inventory =
     top_by scoreKubernetesEnvironment 5 (filter (\<lambda>e. he_type e = ''kubernetes'') inventory)"

definition capacityTrend ::
  "(string \<Rightarrow> string) \<Rightarrow> (string \<Rightarrow> int) \<Rightarrow> sample_point list option list \<Rightarrow> host_env list \<Rightarrow> trend_point list" where
  "capacityTrend time_label rank answers inventory =
     buildCapacityTrend time_label rank (filter (\<lambda>h. h \<noteq> []) (map (\<lambda>a. nullish a []) answers))
       (of_int (averageCpu inventory)) (of_int (averageMemory inventory))"

definition downEnvironments :: "host_env list \<Rightarrow> host_env list" where
  "downEnvironments inventory = filter (\<lambda>e. he_status e \<noteq> ''up'') inventory"

definition openNotifications :: "alert_item list \<Rightarrow> alert_item list" where
  "openNotifications ns = filter (\<lambda>n. an_status n = ''open'') ns"

definition unreadNotifications :: "alert_item list \<Rightarrow> alert_item list" where
  "unreadNotifications ns = filter (\<lambda>n. \<not> an_read n) ns"

definition criticalNotifications :: "alert_item list \<Rightarrow> alert_item list" where
  "criticalNotifications ns = filter (\<lambda>n. an_priority n = ''high'') ns"

section \<open>Facts on counting\<close>

definition count_value :: "(string \<times> nat) list \<Rightarrow> string \<Rightarrow> (string \<times> nat) list" where
  "count_value acc v = (let key = or_str v ''unknown'' in put key (nullish (map_of acc key) 0 + 1) acc)"

lemma count_values:
  "nullish (map_of (foldl count_value acc vs) k) 0 =
     nullish (map_of acc k) 0 + length (filter (\<lambda>v. or_str v ''unknown'' = k) vs)"
  by (induction vs arbitrary: acc) (auto simp: count_value_def nullish_def Let_def)

lemma distribution_counts:
  "nullish (map_of (buildDistribution vs) k) 0 = length (filter (\<lambda>v. or_str v ''unknown'' = k) vs)"
  using count_values [of "[]" vs k]
  by (simp add: buildDistribution_def count_value_def [abs_def] nullish_def)

lemma running_pods: "runningPods d = length (filter (\<lambda>p. normalizePodStatus (Some (pd_status p)) = ''running'') (cd_pods d))"
proof -
  have "or_str (normalizePodStatus s) ''unknown'' = normalizePodStatus s" for s
    by (simp add: or_str_def normalizePodStatus_def Let_def)
  then show ?thesis
    by (simp add: runningPods_def podStatusDistribution_def distribution_counts comp_def filter_map)
qed

lemma js_round_mono: "x \<le> y \<Longrightarrow> js_round x \<le> js_round y"
  unfolding js_round_def by (rule floor_mono) simp

lemma js_round_int [simp]: "js_round (of_int n) = n" "js_round 0 = 0" "js_round (numeral m) = numeral m"
proof -
  show int: "js_round (of_int n) = n" for n by (simp add: js_round_def floor_eq_iff)
  show "js_round 0 = 0" "js_round (numeral m) = numeral m"
    using int [of 0] int [of "numeral m"] by simp_all
qed

lemma share_bounds: "a \<le> b \<Longrightarrow> 0 < b \<Longrightarrow> 0 \<le> of_nat a / of_nat b * (c::rat) \<and> of_nat a / of_nat b * c \<le> c" if "0 \<le> c"
  using that mult_right_mono [of "of_nat a / of_nat b" 1 c] by (simp add: divide_le_eq)

section \<open>What the dashboard shows\<close>

text \<open>
  C32. The score of a cluster is a percentage; but a cluster without deployments never scores more
  than 70, because the page counts one deployment, and none that is healthy.
\<close>

theorem score_bounds:
  "0 \<le> clusterHealthScore d \<and> clusterHealthScore d \<le> (if cd_deployments d = [] then 70 else 100)"
proof -
  let ?N = "max (length (cd_nodes d)) (nullish (cd_stat_nodes d) 0)"
  let ?P = "max (length (cd_pods d)) (nullish (cd_stat_pods d) 0)"
  let ?n = "(if ?N > 0 then of_nat (readyNodes d) / of_nat ?N * 35 else 35) :: rat"
  let ?p = "(if ?P > 0 then of_nat (runningPods d) / of_nat ?P * 35 else 35) :: rat"
  let ?h = "of_nat (healthyDeployments d) / of_nat (length (cd_deployments d)) * 30 :: rat"
  have n: "0 \<le> ?n \<and> ?n \<le> 35"
    using share_bounds [of 35 "readyNodes d" ?N] by (simp add: readyNodes_def le_max_iff_disj)
  have p: "0 \<le> ?p \<and> ?p \<le> 35"
    using share_bounds [of 35 "runningPods d" ?P] by (simp add: running_pods le_max_iff_disj)
  have h: "cd_deployments d \<noteq> [] \<Longrightarrow> 0 \<le> ?h \<and> ?h \<le> 30"
    using share_bounds [of 30 "healthyDeployments d" "length (cd_deployments d)"]
    by (simp add: healthyDeployments_def)
  show ?thesis
  proof (cases "cd_deployments d = []")
    case True
    then have "clusterHealthScore d = js_round (?n + ?p)"
      by (simp add: clusterHealthScore_def calculateClusterHealthScore_def healthyDeployments_def Let_def)
    moreover have "0 \<le> ?n + ?p" "?n + ?p \<le> 70" using n p by linarith+
    ultimately show ?thesis
      using True js_round_mono [of 0 "?n + ?p"] js_round_mono [of "?n + ?p" 70] by simp
  next
    case False
    then have "clusterHealthScore d = js_round (?n + ?p + ?h)"
      by (simp add: clusterHealthScore_def calculateClusterHealthScore_def Let_def)
    moreover have "0 \<le> ?n + ?p + ?h" "?n + ?p + ?h \<le> 100" using n p h [OF False] by linarith+
    ultimately show ?thesis
      using False js_round_mono [of 0 "?n + ?p + ?h"] js_round_mono [of "?n + ?p + ?h" 100] by simp
  qed
qed

text \<open>
  The pressure of a node is read from its status, which is one of three words, so that none of them
  is ever shown to be under pressure.
\<close>

theorem pressure_never_shown:
  assumes "\<forall>n \<in> set (cd_nodes d). nd_status n \<in> {''Ready'', ''NotReady'', ''Unknown''}"
  shows "selectedNodePressure d selected = (False, False)"
proof -
  have none: "\<not> str_includes (lower ''Ready'') ''memorypressure''" "\<not> str_includes (lower ''Ready'') ''diskpressure''"
    "\<not> str_includes (lower ''NotReady'') ''memorypressure''" "\<not> str_includes (lower ''NotReady'') ''diskpressure''"
    "\<not> str_includes (lower ''Unknown'') ''memorypressure''" "\<not> str_includes (lower ''Unknown'') ''diskpressure''"
    by code_simp+
  have "buildNodePressure (Some n) = (False, False)" if "nd_status n \<in> {''Ready'', ''NotReady'', ''Unknown''}" for n
    using that unfolding buildNodePressure_def Let_def option.case
    by (elim insertE emptyE) (simp_all only: none)
  moreover have "buildNodePressure None = (False, False)" by code_simp
  moreover have "n \<in> set xs" if "List.find p xs = Some n" for n p and xs :: "k8s_node list"
    using that by (induction xs) (auto split: if_splits)
  ultimately show ?thesis
    using assms unfolding selectedNodePressure_def
    by (cases "List.find (\<lambda>n. nd_name n = selectedNodeName d selected) (cd_nodes d)") (simp, metis)
qed

subsection \<open>The trends\<close>

definition percent :: "rat \<Rightarrow> bool" where
  "percent x \<longleftrightarrow> 0 \<le> x \<and> x \<le> 100"

definition percent_sample :: "sample_point \<Rightarrow> bool" where
  "percent_sample p \<longleftrightarrow> percent (nullish (sp_cpu p) 0) \<and> percent (nullish (sp_memory p) 0)"

definition fair_bucket :: "bucket \<Rightarrow> bool" where
  "fair_bucket b \<longleftrightarrow> 0 \<le> bk_cpu b \<and> bk_cpu b \<le> 100 * of_nat (bk_count b) \<and>
     0 \<le> bk_memory b \<and> bk_memory b \<le> 100 * of_nat (bk_count b) \<and> 0 < bk_count b"

lemma put_set: "set (put k v m) \<subseteq> insert (k, v) (set m)"
proof (induction m)
  case (Cons p m)
  then show ?case by (cases p) auto
qed simp

lemma add_sample_fair:
  assumes "percent_sample p" "\<forall>(k, b) \<in> set acc. fair_bucket b"
  shows "\<forall>(k, b) \<in> set (add_sample time_label acc p). fair_bucket b"
proof (cases "truthy_str (sp_recorded p)")
  case True
  let ?key = "take 16 (the (sp_recorded p))"
  define b where "b = nullish (map_of acc ?key)
    \<lparr>bk_label = time_label (the (sp_recorded p)), bk_cpu = 0, bk_memory = 0, bk_count = 0\<rparr>"
  have old: "0 \<le> bk_cpu b \<and> bk_cpu b \<le> 100 * of_nat (bk_count b) \<and>
      0 \<le> bk_memory b \<and> bk_memory b \<le> 100 * of_nat (bk_count b)"
  proof (cases "map_of acc ?key")
    case (Some x)
    then have "fair_bucket x" using assms(2) map_of_SomeD [OF Some] by auto
    then show ?thesis using Some by (simp add: b_def nullish_def fair_bucket_def)
  qed (simp add: b_def nullish_def)
  let ?b = "b\<lparr>bk_cpu := bk_cpu b + nullish (sp_cpu p) 0, bk_memory := bk_memory b + nullish (sp_memory p) 0,
    bk_count := bk_count b + 1\<rparr>"
  have "fair_bucket ?b"
    using old assms(1) by (simp add: fair_bucket_def percent_sample_def percent_def)
  moreover have "add_sample time_label acc p = put ?key ?b acc"
    using True by (simp add: add_sample_def b_def Let_def)
  ultimately show ?thesis using assms(2) put_set [of ?key ?b acc] by auto
qed (use assms in \<open>simp add: add_sample_def\<close>)

lemma buckets_fair:
  "\<forall>h \<in> set histories. \<forall>p \<in> set h. percent_sample p \<Longrightarrow>
     \<forall>(k, b) \<in> set (capacity_buckets time_label histories). fair_bucket b"
proof -
  have "\<forall>p \<in> set ps. percent_sample p \<Longrightarrow> \<forall>(k, b) \<in> set acc. fair_bucket b \<Longrightarrow>
      \<forall>(k, b) \<in> set (foldl (add_sample time_label) acc ps). fair_bucket b" for ps acc
  proof (induction ps arbitrary: acc)
    case (Cons p ps)
    then show ?case using add_sample_fair [of p acc time_label] by simp
  qed simp
  from this [of "concat histories" "[]"]
  show "\<forall>h \<in> set histories. \<forall>p \<in> set h. percent_sample p \<Longrightarrow>
     \<forall>(k, b) \<in> set (capacity_buckets time_label histories). fair_bucket b"
    unfolding capacity_buckets_def by simp
qed

lemma average_percent:
  "0 \<le> x \<Longrightarrow> x \<le> 100 * of_nat n \<Longrightarrow> 0 < n \<Longrightarrow> percent (of_int (js_round (x / of_nat n)))"
  using js_round_mono [of 0 "x / of_nat n"] js_round_mono [of "x / of_nat n" 100]
  by (simp add: percent_def divide_le_eq mult.commute)

text \<open>
  The trend of the capacity shows twelve points at most, and when what was measured are percentages
  so is everything it shows.
\<close>

theorem trend_percent:
  fixes time_label :: "string \<Rightarrow> string" and rank :: "string \<Rightarrow> int"
  assumes "\<forall>h \<in> set histories. \<forall>p \<in> set h. percent_sample p" "percent cpu" "percent memory"
  defines "trend \<equiv> buildCapacityTrend time_label rank histories cpu memory"
  shows "length trend \<le> 12 \<and> (\<forall>p \<in> set trend. percent (tr_cpu p) \<and> percent (tr_memory p))"
proof (cases "histories = []")
  case False
  let ?bs = "sort_key (rank \<circ> fst) (capacity_buckets time_label histories)"
  have "\<forall>(k, b) \<in> set (last_n 12 ?bs). fair_bucket b"
    using buckets_fair [OF assms(1), of time_label] set_drop_subset [of _ ?bs] by (fastforce simp: last_n_def)
  then show ?thesis
    using False by (auto simp: trend_def buildCapacityTrend_def last_n_def fair_bucket_def average_percent)
qed (use assms in \<open>simp add: buildCapacityTrend_def trend_def\<close>)

text \<open>
  While a docker host has no history its chart is empty, and the current use, which the function
  shows for a host without a history, is never shown: the page passes it one empty history.
\<close>

theorem docker_trend_empty:
  "containerCapacityTrend time_label rank None e = [] \<and> containerCapacityTrend time_label rank (Some []) e = []"
  by (simp add: containerCapacityTrend_def buildCapacityTrend_def nullish_def capacity_buckets_def last_n_def)

subsection \<open>Alerts\<close>

definition count_day :: "alert_item list \<Rightarrow> alert_day \<Rightarrow> alert_day" where
  "count_day ns d =
     d\<lparr>ad_open := ad_open d + length (filter (\<lambda>n. day_key n = ad_key d \<and> an_status n = ''open'') ns),
       ad_critical := ad_critical d + length (filter (\<lambda>n. day_key n = ad_key d \<and> an_priority n = ''high'') ns)\<rparr>"

lemma count_alerts:
  "\<forall>d \<in> set days. ad_key d \<noteq> [] \<Longrightarrow> fold count_alert ns days = map (count_day ns) days"
proof (induction ns arbitrary: days)
  case Nil
  then show ?case by (simp add: count_day_def)
next
  case (Cons n ns)
  have keys: "ad_key (count_day [n] d) = ad_key d" for d by (simp add: count_day_def)
  have one: "count_alert n days = map (count_day [n]) days"
  proof (cases "day_key n = []")
    case True
    then have "\<forall>d \<in> set days. count_day [n] d = d" using Cons.prems by (auto simp: count_day_def)
    then show ?thesis using True by (simp add: count_alert_def map_idI)
  qed (simp add: count_alert_def count_day_def)
  have "count_day ns (count_day [n] d) = count_day (n # ns) d" for d
    by (simp add: count_day_def)
  then show ?case
    using Cons.IH [of "map (count_day [n]) days"] Cons.prems keys one by simp
qed

lemma iso_nonempty: "iso_string t \<noteq> []"
  by (simp add: iso_string_def Let_def split: prod.split)

text \<open>
  The chart of alerts counts each notification on its day if that is one of the last seven: the
  open ones, and as critical every one of high priority, the resolved ones too.
\<close>

theorem alerts_counted:
  "map (\<lambda>d. (ad_open d, ad_critical d)) (buildAlertTrend label now ns) =
     map (\<lambda>d. (length (filter (\<lambda>n. day_key n = ad_key d \<and> an_status n = ''open'') ns),
               length (filter (\<lambda>n. day_key n = ad_key d \<and> an_priority n = ''high'') ns))) (alert_days label now)"
proof -
  have "\<forall>d \<in> set (alert_days label now). ad_key d \<noteq> [] \<and> ad_open d = 0 \<and> ad_critical d = 0"
    by (simp add: alert_days_def Let_def iso_nonempty del: upto_rec_numeral upto.simps)
  then show ?thesis
    by (simp add: buildAlertTrend_def count_alerts count_day_def)
qed

subsection \<open>Rankings\<close>

lemma top_by_split: "mset xs = mset (top_by f n xs) + mset (drop n (sort_key (\<lambda>x. - f x) xs))"
  by (metis append_take_drop_id mset_append mset_sort top_by_def)

lemma top_by_largest:
  assumes "x \<in> set (top_by f n xs)" "y \<in># mset xs - mset (top_by f n xs)"
  shows "f y \<le> f x"
proof -
  let ?s = "sort_key (\<lambda>x. - f x) xs"
  have y: "y \<in> set (drop n ?s)" using assms(2) top_by_split [of xs f n] by simp
  have x: "x \<in> set (take n ?s)" using assms(1) by (simp add: top_by_def)
  have "sorted (map (\<lambda>x. - f x) (take n ?s @ drop n ?s))" by simp
  then have "- f x \<le> - f y" unfolding map_append sorted_append using x y by auto
  then show ?thesis by simp
qed

text \<open>
  The docker environments on top are five, or all if there are fewer, and none that is left out has
  a higher score than one that is shown.
\<close>

theorem top_docker:
  "mset (topDockerEnvironments es) \<subseteq># mset (filter (\<lambda>e. he_type e = ''docker'') es) \<and>
   length (topDockerEnvironments es) = min 5 (length (filter (\<lambda>e. he_type e = ''docker'') es)) \<and>
   (\<forall>x \<in> set (topDockerEnvironments es).
      \<forall>y \<in># mset (filter (\<lambda>e. he_type e = ''docker'') es) - mset (topDockerEnvironments es).
        scoreDockerEnvironment y \<le> scoreDockerEnvironment x)"
proof -
  let ?es = "filter (\<lambda>e. he_type e = ''docker'') es"
  have "mset (top_by f n xs) \<subseteq># mset xs" for f n and xs :: "host_env list"
    using top_by_split [of xs f n] by (simp add: subseteq_mset_def)
  moreover have "length (top_by f n xs) = min n (length xs)" for f n and xs :: "host_env list"
    by (simp add: top_by_def min.commute)
  ultimately show ?thesis
    unfolding topDockerEnvironments_def using top_by_largest [of _ scoreDockerEnvironment 5 ?es]
    by (intro conjI ballI) blast+
qed

definition sample_env :: "string \<Rightarrow> rat \<Rightarrow> host_env" where
  "sample_env name n = \<lparr>he_id = name, he_type = ''docker'', he_status = ''up'', he_cpuPercent = None,
     he_memPercent = None, he_diskPercent = None, he_stats = (\<lambda>k. if k = ''containers'' then Some n else None)\<rparr>"

lemma top_docker_witness:
  "length (topDockerEnvironments [sample_env ''a'' 1, sample_env ''b'' 2]) = 2"
  using top_docker [of "[sample_env ''a'' 1, sample_env ''b'' 2]"] by (simp add: sample_env_def)

definition sample_samples :: "sample_point list" where
  "sample_samples = [\<lparr>sp_cpu = Some 40, sp_memory = None, sp_recorded = Some ''2024-02-29T12:34:56''\<rparr>]"

lemma trend_percent_witness:
  "length (buildCapacityTrend (\<lambda>_. []) (\<lambda>_. 0) [sample_samples] 0 0) \<le> 12"
  using trend_percent [of "[sample_samples]" 0 0 "\<lambda>_. []" "\<lambda>_. 0"]
  by (simp add: sample_samples_def percent_sample_def percent_def nullish_def)

lemma pressure_never_shown_witness:
  "selectedNodePressure \<lparr>cd_nodes = [\<lparr>nd_name = ''n'', nd_status = ''NotReady''\<rparr>], cd_pods = [], cd_deployments = [],
     cd_namespaces = [], cd_claims = [], cd_stat_nodes = None, cd_stat_pods = None\<rparr> [] = (False, False)"
  by (rule pressure_never_shown) simp

end
