(* ===== verification/EditContainer.thy ===== *)
theory EditContainer
  imports DockerApi ContainersPage
begin

text \<open>
  The page that changes a container, \<open>features/docker/pages/EditContainerPage.tsx\<close>: the form filled from
  the configuration of the container, its checks, and the request it sends. The identifiers of the
  rows are drawn at random; they are an argument.
\<close>

section \<open>The form\<close>

record env_row =
  er_id :: string
  er_key :: string
  er_value :: string
  er_sensitive :: bool

datatype protocol = Tcp | Udp

record port_row =
  pr_id :: string
  pr_hostPort :: string
  pr_containerPort :: string
  pr_protocol :: protocol

datatype mount_mode = Rw | Ro

record volume_row =
  vr_id :: string
  vr_hostPath :: string
  vr_containerPath :: string
  vr_mode :: mount_mode

record container_config =
  cc_name :: string
  cc_image :: string
  cc_command :: "string list option"
  cc_environment :: "(string \<times> string) list option"
  cc_ports :: "string list option"
  cc_volumes :: "string list option"
  cc_labels :: "(string \<times> string) list"
  cc_restart_policy :: string
  cc_state :: string
  cc_healthcheck_command :: "string option"
  cc_healthcheck_interval :: "string option"
  cc_healthcheck_timeout :: "string option"
  cc_healthcheck_start_period :: "string option"
  cc_healthcheck_retries :: "int option"
  cc_healthcheck_disabled :: "bool option"

record edit_form =
  ef_name :: string
  ef_image :: string
  ef_command :: string
  ef_restartPolicy :: string
  ef_recreate :: bool
  ef_healthcheckCommand :: string
  ef_healthcheckInterval :: string
  ef_healthcheckTimeout :: string
  ef_healthcheckStartPeriod :: string
  ef_healthcheckRetries :: string
  ef_healthcheckDisabled :: bool
  ef_envRows :: "env_row list"
  ef_portRows :: "port_row list"
  ef_volumeRows :: "volume_row list"

subsection \<open>Filling it\<close>

definition looks_secret :: "string \<Rightarrow> bool" where
  "looks_secret key \<longleftrightarrow> list_ex (str_includes (lower key)) [''token'', ''secret'', ''password'', ''key'']"

definition env_row_of :: "string \<Rightarrow> string \<times> string \<Rightarrow> env_row" where
  "env_row_of i = (\<lambda>(k, v). \<lparr>er_id = i, er_key = k, er_value = v, er_sensitive = looks_secret k\<rparr>)"

text \<open>The parts of a text after the first two are left out.\<close>

definition part :: "nat \<Rightarrow> string list \<Rightarrow> string \<Rightarrow> string" where
  "part n ps otherwise = (if n < length ps then ps ! n else otherwise)"

definition port_row_of :: "string \<Rightarrow> string \<Rightarrow> port_row" where
  "port_row_of i v =
     (let parts = split_on CHR '':'' v; target = split_on CHR ''/'' (part 1 parts []) in
      \<lparr>pr_id = i, pr_hostPort = part 0 parts [], pr_containerPort = part 0 target [],
       pr_protocol = (if part 1 target ''tcp'' = ''udp'' then Udp else Tcp)\<rparr>)"

definition volume_row_of :: "string \<Rightarrow> string \<Rightarrow> volume_row" where
  "volume_row_of i v =
     (let parts = split_on CHR '':'' v in
      \<lparr>vr_id = i, vr_hostPath = part 0 parts [], vr_containerPath = part 1 parts [],
       vr_mode = (if 2 < length parts \<and> parts ! 2 = ''ro'' then Ro else Rw)\<rparr>)"

fun with_ids :: "(nat \<Rightarrow> string) \<Rightarrow> nat \<Rightarrow> (string \<Rightarrow> 'a \<Rightarrow> 'b) \<Rightarrow> 'a list \<Rightarrow> 'b list" where
  "with_ids ids n f [] = []"
| "with_ids ids n f (x # xs) = f (ids n) x # with_ids ids (Suc n) f xs"

definition fill_form :: "(nat \<Rightarrow> string) \<Rightarrow> container_config \<Rightarrow> edit_form" where
  "fill_form ids c =
     (let env = nullish (cc_environment c) []; ports = nullish (cc_ports c) []; volumes = nullish (cc_volumes c) [] in
      \<lparr>ef_name = cc_name c, ef_image = cc_image c,
       ef_command = join_with newline (nullish (cc_command c) []),
       ef_restartPolicy = or_str (cc_restart_policy c) ''unless-stopped'', ef_recreate = False,
       ef_healthcheckCommand = or_ostr (cc_healthcheck_command c) [],
       ef_healthcheckInterval = or_ostr (cc_healthcheck_interval c) [],
       ef_healthcheckTimeout = or_ostr (cc_healthcheck_timeout c) [],
       ef_healthcheckStartPeriod = or_ostr (cc_healthcheck_start_period c) [],
       ef_healthcheckRetries = show_int (let n = nullish (cc_healthcheck_retries c) 0 in if n = 0 then 3 else n),
       ef_healthcheckDisabled = nullish (cc_healthcheck_disabled c) False,
       ef_envRows = with_ids ids 0 env_row_of env,
       ef_portRows = with_ids ids (length env) port_row_of ports,
       ef_volumeRows = with_ids ids (length env + length ports) volume_row_of volumes\<rparr>)"

subsection \<open>Editing the rows\<close>

definition change_row :: "('r \<Rightarrow> string) \<Rightarrow> string \<Rightarrow> ('r \<Rightarrow> 'r) \<Rightarrow> 'r list \<Rightarrow> 'r list" where
  "change_row rid i f rows = map (\<lambda>r. if rid r = i then f r else r) rows"

definition remove_row :: "('r \<Rightarrow> string) \<Rightarrow> string \<Rightarrow> 'r list \<Rightarrow> 'r list" where
  "remove_row rid i rows = filter (\<lambda>r. rid r \<noteq> i) rows"

definition new_env_row :: "string \<Rightarrow> env_row" where
  "new_env_row i = \<lparr>er_id = i, er_key = [], er_value = [], er_sensitive = False\<rparr>"

definition new_port_row :: "string \<Rightarrow> port_row" where
  "new_port_row i = \<lparr>pr_id = i, pr_hostPort = [], pr_containerPort = [], pr_protocol = Tcp\<rparr>"

definition new_volume_row :: "string \<Rightarrow> volume_row" where
  "new_volume_row i = \<lparr>vr_id = i, vr_hostPath = [], vr_containerPath = [], vr_mode = Rw\<rparr>"

section \<open>Checks\<close>

definition envErrors :: "edit_form \<Rightarrow> string list" where
  "envErrors f = map er_id (filter (\<lambda>r. er_value r \<noteq> [] \<and> trim (er_key r) = []) (ef_envRows f))"

definition protocol_text :: "protocol \<Rightarrow> string" where
  "protocol_text p = (case p of Tcp \<Rightarrow> ''tcp'' | Udp \<Rightarrow> ''udp'')"

definition port_key :: "port_row \<Rightarrow> string" where
  "port_key r = pr_hostPort r @ ''/'' @ protocol_text (pr_protocol r)"

definition port_counts :: "port_row list \<Rightarrow> (string \<times> nat) list" where
  "port_counts rows =
     foldl (\<lambda>m r. if trim (pr_hostPort r) \<noteq> [] then put (port_key r) (nullish (map_of m (port_key r)) 0 + 1) m else m) [] rows"

definition portConflicts :: "edit_form \<Rightarrow> string list" where
  "portConflicts f = map fst (filter (\<lambda>(k, n). 1 < n) (port_counts (ef_portRows f)))"

definition hasInvalidPorts :: "edit_form \<Rightarrow> bool" where
  "hasInvalidPorts f \<longleftrightarrow>
     list_ex (\<lambda>r. (trim (pr_hostPort r) = []) \<noteq> (trim (pr_containerPort r) = [])) (ef_portRows f) \<or>
     list_ex (\<lambda>r. port_key r \<in> set (portConflicts f)) (ef_portRows f)"

definition disableSave :: "bool \<Rightarrow> edit_form \<Rightarrow> bool" where
  "disableSave is_pending f \<longleftrightarrow> is_pending \<or> envErrors f \<noteq> [] \<or> hasInvalidPorts f"

section \<open>The request\<close>

definition sent_environment :: "edit_form \<Rightarrow> (string \<times> string) list" where
  "sent_environment f =
     foldl (\<lambda>acc r. if trim (er_key r) \<noteq> [] then put (trim (er_key r)) (trim (er_value r)) acc else acc) [] (ef_envRows f)"

definition sent_ports :: "edit_form \<Rightarrow> string list" where
  "sent_ports f =
     map (\<lambda>r. trim (pr_hostPort r) @ '':'' @ trim (pr_containerPort r) @ ''/'' @ protocol_text (pr_protocol r))
       (filter (\<lambda>r. trim (pr_hostPort r) \<noteq> [] \<and> trim (pr_containerPort r) \<noteq> []) (ef_portRows f))"

definition mode_text :: "mount_mode \<Rightarrow> string" where
  "mode_text m = (case m of Rw \<Rightarrow> ''rw'' | Ro \<Rightarrow> ''ro'')"

definition sent_volumes :: "edit_form \<Rightarrow> string list" where
  "sent_volumes f =
     map (\<lambda>r. trim (vr_hostPath r) @ '':'' @ trim (vr_containerPath r) @ '':'' @ mode_text (vr_mode r))
       (filter (\<lambda>r. trim (vr_hostPath r) \<noteq> [] \<and> trim (vr_containerPath r) \<noteq> []) (ef_volumeRows f))"

text \<open>The command is cut at line feeds; a carriage return before one goes with the white space.\<close>

definition sent_command :: "edit_form \<Rightarrow> string list" where
  "sent_command f = filter (\<lambda>l. l \<noteq> []) (map trim (lines_of (ef_command f)))"

definition update_request :: "container_config option \<Rightarrow> edit_form \<Rightarrow> DockerContainerCreateRequest" where
  "update_request current f =
     \<lparr>cr_name = Some (ef_name f), cr_image = ef_image f, cr_command = Some (sent_command f),
      cr_environment = Some (sent_environment f), cr_ports = Some (sent_ports f),
      cr_volumes = Some (sent_volumes f), cr_labels = None, cr_restart_policy = Some (ef_restartPolicy f),
      cr_registry_id = None,
      cr_auto_start = Some (case current of None \<Rightarrow> False | Some c \<Rightarrow> cc_state c = ''running''),
      cr_healthcheck_command = Some (ef_healthcheckCommand f),
      cr_healthcheck_interval = Some (ef_healthcheckInterval f),
      cr_healthcheck_timeout = Some (ef_healthcheckTimeout f),
      cr_healthcheck_start_period = Some (ef_healthcheckStartPeriod f),
      cr_healthcheck_retries = Some (nullish (number_of_text (ef_healthcheckRetries f)) 0),
      cr_healthcheck_disabled = Some (ef_healthcheckDisabled f)\<rparr>"

definition handleSubmit :: "string \<Rightarrow> string \<Rightarrow> container_config option \<Rightarrow> edit_form \<Rightarrow> mutation" where
  "handleSubmit eid cid current f = useUpdateContainer eid cid (update_request current f) (ef_recreate f)"

definition submitted :: "string \<Rightarrow> edit_form \<Rightarrow> string option option \<Rightarrow> toast" where
  "submitted cid f failed =
     (case failed of
        None \<Rightarrow> toast_of ''success'' (if ef_recreate f then ''Container recreated'' else ''Container updated'')
          (or_str (ef_name f) cid)
      | Some m \<Rightarrow> toast_of ''error'' ''Container update failed'' (or_ostr m ''Unable to update container.''))"

section \<open>Saving what was loaded\<close>

lemma map_with_ids: "(\<And>i x. x \<in> set xs \<Longrightarrow> g (f i x) = h x) \<Longrightarrow> map g (with_ids ids n f xs) = map h xs"
  by (induction xs arbitrary: n) auto

lemma all_with_ids: "(\<And>i x. x \<in> set xs \<Longrightarrow> p (f i x)) \<Longrightarrow> \<forall>r \<in> set (with_ids ids n f xs). p r"
  by (induction xs arbitrary: n) auto

lemma fold_with_ids:
  "(\<And>acc i x. x \<in> set xs \<Longrightarrow> g acc (f i x) = h acc x) \<Longrightarrow> foldl g acc (with_ids ids n f xs) = foldl h acc xs"
  by (induction xs arbitrary: n acc) auto

lemma with_ids_map: "with_ids ids n f (map h xs) = with_ids ids n (\<lambda>i x. f i (h x)) xs"
  by (induction xs arbitrary: n) auto

subsection \<open>Conflicts of ports\<close>

definition filled_port :: "port_row \<Rightarrow> bool" where
  "filled_port r \<longleftrightarrow> trim (pr_hostPort r) \<noteq> []"

definition count_port :: "(string \<times> nat) list \<Rightarrow> port_row \<Rightarrow> (string \<times> nat) list" where
  "count_port m r = (if filled_port r then put (port_key r) (nullish (map_of m (port_key r)) 0 + 1) m else m)"

lemma port_counts_fold: "port_counts rows = foldl count_port [] rows"
  by (simp add: port_counts_def count_port_def [abs_def] filled_port_def)

lemma count_ports:
  "nullish (map_of (foldl count_port m rows) k) 0 =
     nullish (map_of m k) 0 + length (filter (\<lambda>r. filled_port r \<and> port_key r = k) rows)"
  by (induction rows arbitrary: m) (auto simp: count_port_def nullish_def)

lemma counted_distinct: "distinct (map fst m) \<Longrightarrow> distinct (map fst (foldl count_port m rows))"
  by (induction rows arbitrary: m) (auto simp: count_port_def distinct_put)

lemma conflict_iff:
  "k \<in> set (portConflicts f) \<longleftrightarrow> 1 < length (filter (\<lambda>r. filled_port r \<and> port_key r = k) (ef_portRows f))"
proof -
  let ?m = "port_counts (ef_portRows f)"
  have d: "distinct (map fst ?m)" by (simp add: port_counts_fold counted_distinct)
  have n: "nullish (map_of ?m k) 0 = length (filter (\<lambda>r. filled_port r \<and> port_key r = k) (ef_portRows f))"
    using count_ports [of "[]" "ef_portRows f" k] by (simp add: port_counts_fold nullish_def)
  have "k \<in> set (portConflicts f) \<longleftrightarrow> (\<exists>c. (k, c) \<in> set ?m \<and> 1 < c)"
    by (force simp: portConflicts_def)
  also have "\<dots> \<longleftrightarrow> (\<exists>c. map_of ?m k = Some c \<and> 1 < c)" using map_of_eq_Some_iff [OF d] by simp
  also have "\<dots> \<longleftrightarrow> 1 < nullish (map_of ?m k) 0" by (auto simp: nullish_def split: option.split)
  finally show ?thesis using n by simp
qed

lemma no_repetition: "(\<forall>x \<in> set xs. length (filter (\<lambda>y. y = x) xs) \<le> 1) \<longleftrightarrow> distinct xs"
proof (induction xs)
  case (Cons x xs)
  have "filter (\<lambda>y. y = x) xs = [] \<longleftrightarrow> x \<notin> set xs" by (auto simp: filter_empty_conv)
  then show ?case using Cons by (auto simp: le_Suc_eq)
qed simp

lemma valid_ports:
  assumes "\<forall>r \<in> set (ef_portRows f). filled_port r \<and> trim (pr_containerPort r) \<noteq> []"
  shows "hasInvalidPorts f \<longleftrightarrow> \<not> distinct (map port_key (ef_portRows f))"
proof -
  have "length (filter (\<lambda>r. filled_port r \<and> port_key r = k) (ef_portRows f)) =
      length (filter (\<lambda>y. y = k) (map port_key (ef_portRows f)))" for k
    using assms by (simp add: filter_map comp_def) (metis (mono_tags, lifting) filter_cong)
  then have "list_ex (\<lambda>r. port_key r \<in> set (portConflicts f)) (ef_portRows f) \<longleftrightarrow>
      \<not> distinct (map port_key (ef_portRows f))"
    unfolding conflict_iff no_repetition [symmetric] by (auto simp: list_ex_iff not_le)
  moreover have "\<not> list_ex (\<lambda>r. (trim (pr_hostPort r) = []) \<noteq> (trim (pr_containerPort r) = [])) (ef_portRows f)"
    using assms by (auto simp: list_ex_iff filled_port_def)
  ultimately show ?thesis by (simp add: hasInvalidPorts_def)
qed

subsection \<open>A configuration that is not changed\<close>

text \<open>What the server lists: plain parts, ports without their protocol and mounts without their mode.\<close>

definition plain :: "string \<Rightarrow> bool" where
  "plain s \<longleftrightarrow> s \<noteq> [] \<and> trim s = s \<and> CHR '':'' \<notin> set s \<and> CHR ''/'' \<notin> set s"

definition plain_path :: "string \<Rightarrow> bool" where
  "plain_path s \<longleftrightarrow> s \<noteq> [] \<and> trim s = s \<and> CHR '':'' \<notin> set s"

definition pair_text :: "string \<times> string \<Rightarrow> string" where
  "pair_text p = fst p @ '':'' @ snd p"

lemma pair_parts: "CHR '':'' \<notin> set a \<Longrightarrow> CHR '':'' \<notin> set b \<Longrightarrow> split_on CHR '':'' (pair_text (a, b)) = [a, b]"
  using split_on_append [of "CHR '':''" a b] by (simp add: pair_text_def split_on_no_sep)

lemma port_row_pair:
  "plain a \<Longrightarrow> plain b \<Longrightarrow> port_row_of i (pair_text (a, b)) =
     \<lparr>pr_id = i, pr_hostPort = a, pr_containerPort = b, pr_protocol = Tcp\<rparr>"
  by (simp add: port_row_of_def pair_parts plain_def part_def split_on_no_sep)

lemma volume_row_pair:
  "plain_path a \<Longrightarrow> plain_path b \<Longrightarrow> volume_row_of i (pair_text (a, b)) =
     \<lparr>vr_id = i, vr_hostPath = a, vr_containerPath = b, vr_mode = Rw\<rparr>"
  by (simp add: volume_row_of_def pair_parts plain_path_def part_def)

definition one_line_word :: "string \<Rightarrow> bool" where
  "one_line_word s \<longleftrightarrow> s \<noteq> [] \<and> trim s = s \<and> CHR 0x0A \<notin> set s"

lemma command_kept:
  assumes "\<forall>w \<in> set ws. one_line_word w" "ef_command f = join_with newline ws"
  shows "sent_command f = ws"
proof (cases "ws = []")
  case False
  then have "lines_of (ef_command f) = ws" using assms by (simp add: split_join one_line_word_def)
  moreover have "map trim ws = ws" "filter (\<lambda>l. l \<noteq> []) ws = ws"
    using assms(1) by (auto simp: one_line_word_def map_idI filter_id_conv)
  ultimately show ?thesis by (simp add: sent_command_def)
qed (use assms(2) in \<open>simp add: sent_command_def\<close>)

lemma environment_kept:
  assumes "distinct (map fst env)" "\<forall>(k, v) \<in> set env. k \<noteq> [] \<and> trim k = k \<and> trim v = v"
    and "ef_envRows f = with_ids ids n env_row_of env"
  shows "sent_environment f = env"
proof -
  have "sent_environment f = foldl (\<lambda>acc (k, v). put k v acc) [] env"
    unfolding sent_environment_def assms(3)
    by (rule fold_with_ids) (use assms(2) in \<open>auto simp: env_row_of_def\<close>)
  then show ?thesis using assms(1) foldl_put_append [of "[]" env] by simp
qed

text \<open>
  The page does not load the labels of a container, and the call it makes sends an empty object of labels for
  those it was not given.
\<close>

lemma labels_emptied:
  "\<exists>m. opt_body (mu_options (handleSubmit eid cid current f)) = TextBody (json_text (JObj m)) \<and>
     map_of m ''labels'' = Some (JObj [])"
proof -
  have "map_of (members (update_members (update_request current f) (ef_recreate f))) ''labels'' = Some (JObj [])"
    by (simp add: members_def update_members_def update_request_def nullish_def)
  then show ?thesis by (auto simp: handleSubmit_def useUpdateContainer_def send_def body_def)
qed

text \<open>
  C34. Take a container whose command has words of one line without white space around them, whose variables have
  distinct keys that are not empty, with no white space around keys and values, whose ports are pairs of a host and a
  container port and whose mounts are pairs of paths. Saving it as it was loaded sends back its command and its
  environment, its ports as TCP, its mounts as writable and, whatever labels it has, an empty object of
  labels; and it can be saved at all exactly when no two of its ports are bound to the same port of the host.
\<close>

theorem unchanged_container:
  fixes ids :: "nat \<Rightarrow> string" and c :: container_config
  assumes command: "cc_command c = Some ws" "\<forall>w \<in> set ws. one_line_word w"
    and env: "cc_environment c = Some env" "distinct (map fst env)"
      "\<forall>(k, v) \<in> set env. k \<noteq> [] \<and> trim k = k \<and> trim v = v"
    and ports: "cc_ports c = Some (map pair_text ps)" "\<forall>(a, b) \<in> set ps. plain a \<and> plain b"
    and volumes: "cc_volumes c = Some (map pair_text vs)" "\<forall>(a, b) \<in> set vs. plain_path a \<and> plain_path b"
  defines "f \<equiv> fill_form ids c"
  shows "sent_command f = ws \<and> sent_environment f = env \<and>
    sent_ports f = map (\<lambda>p. pair_text p @ ''/tcp'') ps \<and> sent_volumes f = map (\<lambda>p. pair_text p @ '':rw'') vs \<and>
    (\<exists>m. opt_body (mu_options (handleSubmit eid cid (Some c) f)) = TextBody (json_text (JObj m)) \<and>
       map_of m ''labels'' = Some (JObj [])) \<and>
    disableSave False f = (\<not> distinct (map fst ps))"
proof -
  have rows: "ef_command f = join_with newline ws" "ef_envRows f = with_ids ids 0 env_row_of env"
    "ef_portRows f = with_ids ids (length env) port_row_of (map pair_text ps)"
    "ef_volumeRows f = with_ids ids (length env + length ps) volume_row_of (map pair_text vs)"
    using command ports volumes env by (simp_all add: f_def fill_form_def Let_def nullish_def)
  have port: "pr_hostPort (port_row_of i (pair_text p)) = fst p" "pr_containerPort (port_row_of i (pair_text p)) = snd p"
    "pr_protocol (port_row_of i (pair_text p)) = Tcp" "trim (fst p) = fst p" "trim (snd p) = snd p"
    "fst p \<noteq> []" "snd p \<noteq> []" if "p \<in> set ps" for i p
    using ports(2) that port_row_pair [of "fst p" "snd p" i] by (auto simp: plain_def)
  have filled: "\<forall>r \<in> set (ef_portRows f). trim (pr_hostPort r) \<noteq> [] \<and> trim (pr_containerPort r) \<noteq> []"
    unfolding rows by (rule all_with_ids) (use port in auto)
  have "sent_ports f = map (\<lambda>p. p @ ''/tcp'') (map pair_text ps)"
    unfolding sent_ports_def filter_True [OF filled] unfolding rows
    by (rule map_with_ids) (use port in \<open>auto simp: pair_text_def protocol_text_def\<close>)
  then have sent: "sent_ports f = map (\<lambda>p. pair_text p @ ''/tcp'') ps" by simp
  have volume: "vr_hostPath (volume_row_of i (pair_text p)) = fst p" "vr_containerPath (volume_row_of i (pair_text p)) = snd p"
    "vr_mode (volume_row_of i (pair_text p)) = Rw" "trim (fst p) = fst p" "trim (snd p) = snd p"
    "fst p \<noteq> []" "snd p \<noteq> []" if "p \<in> set vs" for i p
    using volumes(2) that volume_row_pair [of "fst p" "snd p" i] by (auto simp: plain_path_def)
  have vfilled: "\<forall>r \<in> set (ef_volumeRows f). trim (vr_hostPath r) \<noteq> [] \<and> trim (vr_containerPath r) \<noteq> []"
    unfolding rows by (rule all_with_ids) (use volume in auto)
  have "sent_volumes f = map (\<lambda>p. p @ '':rw'') (map pair_text vs)"
    unfolding sent_volumes_def filter_True [OF vfilled] unfolding rows
    by (rule map_with_ids) (use volume in \<open>auto simp: pair_text_def mode_text_def\<close>)
  then have mounts: "sent_volumes f = map (\<lambda>p. pair_text p @ '':rw'') vs" by simp
  have "map port_key (ef_portRows f) = map (\<lambda>p. fst p @ ''/tcp'') ps"
    unfolding rows with_ids_map by (rule map_with_ids) (use port in \<open>auto simp: port_key_def protocol_text_def\<close>)
  also have "distinct \<dots> = distinct (map fst ps)" by (auto simp: distinct_map inj_on_def)
  finally have keys: "distinct (map port_key (ef_portRows f)) = distinct (map fst ps)" .
  have "\<forall>r \<in> set (ef_envRows f). trim (er_key r) \<noteq> []"
    unfolding rows by (rule all_with_ids) (use env(3) in \<open>auto simp: env_row_of_def\<close>)
  then have errors: "envErrors f = []" by (simp add: envErrors_def filter_empty_conv)
  have "hasInvalidPorts f \<longleftrightarrow> \<not> distinct (map fst ps)"
    using valid_ports [of f] filled keys by (simp add: filled_port_def)
  then have saved: "disableSave False f \<longleftrightarrow> \<not> distinct (map fst ps)" by (simp add: disableSave_def errors)
  show ?thesis
    using command_kept [OF command(2) rows(1)] environment_kept [OF env(2,3) rows(2)] sent mounts saved
      labels_emptied [of eid cid "Some c" f] by blast
qed

definition listed_config :: container_config where
  "listed_config =
     \<lparr>cc_name = ''web'', cc_image = ''nginx'', cc_command = Some [''nginx'', ''-g''],
      cc_environment = Some [(''MODE'', ''prod'')], cc_ports = Some [''8080:80'', ''8443:443''],
      cc_volumes = Some [''/srv/www:/www''], cc_labels = buildTagLabels [''eu''], cc_restart_policy = ''always'',
      cc_state = ''running'', cc_healthcheck_command = None, cc_healthcheck_interval = None,
      cc_healthcheck_timeout = None, cc_healthcheck_start_period = None, cc_healthcheck_retries = Some 0,
      cc_healthcheck_disabled = None\<rparr>"

theorem unchanged_container_witness:
  "let f = fill_form (\<lambda>n. show_int (int n)) listed_config in
   sent_command f = [''nginx'', ''-g''] \<and> sent_environment f = [(''MODE'', ''prod'')] \<and>
   sent_ports f = [''8080:80/tcp'', ''8443:443/tcp''] \<and> sent_volumes f = [''/srv/www:/www:rw''] \<and>
   (\<exists>m. opt_body (mu_options (handleSubmit ''e1'' ''c1'' (Some listed_config) f)) = TextBody (json_text (JObj m)) \<and>
      map_of m ''labels'' = Some (JObj [])) \<and> cc_labels listed_config \<noteq> [] \<and> disableSave False f = False"
proof -
  have h: "cc_command listed_config = Some [''nginx'', ''-g'']" "\<forall>w \<in> set [''nginx'', ''-g'']. one_line_word w"
    "cc_environment listed_config = Some [(''MODE'', ''prod'')]" "distinct (map fst [(''MODE'', ''prod'')])"
    "\<forall>(k, v) \<in> set [(''MODE'', ''prod'')]. k \<noteq> [] \<and> trim k = k \<and> trim v = v"
    "cc_ports listed_config = Some (map pair_text [(''8080'', ''80''), (''8443'', ''443'')])"
    "\<forall>(a, b) \<in> set [(''8080'', ''80''), (''8443'', ''443'')]. plain a \<and> plain b"
    "cc_volumes listed_config = Some (map pair_text [(''/srv/www'', ''/www'')])"
    "\<forall>(a, b) \<in> set [(''/srv/www'', ''/www'')]. plain_path a \<and> plain_path b"
    by code_simp+
  have t: "map (\<lambda>p. pair_text p @ ''/tcp'') [(''8080'', ''80''), (''8443'', ''443'')] = [''8080:80/tcp'', ''8443:443/tcp'']"
    "map (\<lambda>p. pair_text p @ '':rw'') [(''/srv/www'', ''/www'')] = [''/srv/www:/www:rw'']"
    "distinct (map fst [(''8080'', ''80''), (''8443'', ''443'')])" "cc_labels listed_config \<noteq> []"
    by code_simp+
  show ?thesis
    using unchanged_container [OF h, of "\<lambda>n. show_int (int n)" "''e1''" "''c1''"] t by (simp add: Let_def)
qed

end
