(* ===== verification/TextLines.thy ===== *)
theory TextLines
  imports JsPrelude
begin

text \<open>
  Facts on texts of several lines, shared by the pages that write a text and read it back: cutting at
  line feeds, trimming at line ends, and a dictionary written one entry after the other.
\<close>

lemma lf_ws: "is_ws (CHR 0x0A)"
  by (simp add: is_ws_def)

lemma space_ws: "is_ws (CHR '' '')"
  by (simp add: is_ws_def)

lemma trim_nil [simp]: "trim [] = []"
  by (simp add: trim_def ltrim_def rtrim_def)

lemma lines_ne [simp]: "split_on c s \<noteq> []"
  by (cases s) (auto split: list.splits)

lemma lines_append_lf: "lines_of (a @ CHR 0x0A # b) = lines_of a @ lines_of b"
  by (induction a) (auto split: list.splits)

lemma trim_ws_snoc:
  assumes "is_ws c"
  shows "trim (b @ [c]) = trim b"
proof -
  have "ltrim (b @ [c]) = (if \<forall>x \<in> set b. is_ws x then [] else ltrim b @ [c])"
    using assms by (auto simp: ltrim_def dropWhile_append)
  moreover have "ltrim b = []" if "\<forall>x \<in> set b. is_ws x" using that by (simp add: ltrim_def)
  ultimately show ?thesis using rtrim_snoc [of "ltrim b" c] assms by (auto simp: trim_def)
qed

lemma trim_ws_cons: "is_ws c \<Longrightarrow> trim (c # b) = trim b"
  by (simp add: trim_def ltrim_def)

lemma trim_pad: "trim (spaces n @ b) = trim b"
  by (induction n) (simp_all add: spaces_def trim_ws_cons space_ws)

text \<open>Trimmed texts.\<close>

lemma trimmed_ends: "trim k = k \<Longrightarrow> k \<noteq> [] \<Longrightarrow> \<not> is_ws (hd k) \<and> \<not> is_ws (last k)"
  using trim_ends [of k] by simp

lemma trim_framed:
  assumes "trim a = a" "a \<noteq> []" "trim b = b" "b \<noteq> []"
  shows "trim (a @ m @ b) = a @ m @ b"
  using trimmed_ends [OF assms(1,2)] trimmed_ends [OF assms(3,4)] assms(2,4) by (intro trim_fix) simp


end
