(* ===== verification/StackEditor.thy ===== *)
theory StackEditor
  imports DockerApi Machine TextLines
begin

text \<open>
  The editor of a Compose stack, \<open>features/docker/pages/StackEditorPage.tsx\<close>: its text areas filled
  from a stack, their parsers, what it deploys and what its side cards do. Secrets and configs are
  kept in one text area each, as blocks \<open>name<<EOF ... EOF\<close>.
\<close>

section \<open>The blocks of a text area\<close>

abbreviation marker :: string where
  "marker \<equiv> ''<<EOF''"

definition block_text :: "string \<Rightarrow> string \<Rightarrow> string" where
  "block_text k v = k @ marker @ newline @ v @ newline @ ''EOF''"

definition blocks_text :: "(string \<times> string) list \<Rightarrow> string" where
  "blocks_text m = join_with (newline @ newline) (map (\<lambda>(k, v). block_text k v) m)"

text \<open>The lookahead of \<open>/\\n(?=[^\\s].*<<EOF)/\<close>: its dot stops at a line feed or a carriage return.\<close>

definition on_line :: "char \<Rightarrow> bool" where
  "on_line c \<longleftrightarrow> c \<noteq> CHR 0x0A \<and> c \<noteq> CHR 0x0D"

definition starts_block :: "string \<Rightarrow> bool" where
  "starts_block s = (case s of [] \<Rightarrow> False | c # r \<Rightarrow> \<not> is_ws c \<and> str_includes (takeWhile on_line r) marker)"

fun split_blocks :: "string \<Rightarrow> string list" where
  "split_blocks [] = [[]]"
| "split_blocks (c # s) =
     (if c = CHR 0x0A \<and> starts_block s then [] # split_blocks s
      else (case split_blocks s of [] \<Rightarrow> [[c]] | b # bs \<Rightarrow> (c # b) # bs))"

definition blocks_of :: "string \<Rightarrow> string list" where
  "blocks_of s = filter (\<lambda>b. b \<noteq> []) (map trim (split_blocks s))"

text \<open>
  The rest of \<open>/^([^\\n<]+)<<EOF\\s*\\n([\\s\\S]*?)\\nEOF$/\<close> after the marker: as much white space as leaves a
  line feed and a value that ends in the closing line.
\<close>

definition closed_value :: "string \<Rightarrow> string option" where
  "closed_value s = (if ends_with (newline @ ''EOF'') s then Some (take (length s - 4) s) else None)"

fun block_value :: "string \<Rightarrow> string option" where
  "block_value [] = None"
| "block_value (c # s) =
     (if is_ws c
      then (case block_value s of Some v \<Rightarrow> Some v | None \<Rightarrow> if c = CHR 0x0A then closed_value s else None)
      else None)"

definition name_char :: "char \<Rightarrow> bool" where
  "name_char c \<longleftrightarrow> c \<noteq> CHR 0x0A \<and> c \<noteq> CHR ''<''"

definition match_block :: "string \<Rightarrow> (string \<times> string) option" where
  "match_block b =
     (let name = takeWhile name_char b; rest = dropWhile name_char b in
      if name \<noteq> [] \<and> starts_with marker rest
      then map_option (\<lambda>v. (trim name, v)) (block_value (drop 5 rest)) else None)"

definition add_block :: "(string \<times> string) list \<Rightarrow> string \<Rightarrow> (string \<times> string) list" where
  "add_block acc b = (case match_block b of None \<Rightarrow> acc | Some (k, v) \<Rightarrow> put k v acc)"

definition parseNamedBlocks :: "string \<Rightarrow> (string \<times> string) list" where
  "parseNamedBlocks s = foldl add_block [] (blocks_of s)"

section \<open>Variables\<close>

definition variables_text :: "(string \<times> string) list \<Rightarrow> string" where
  "variables_text m = unlines (map (\<lambda>(k, v). k @ ''='' @ v) m)"

text \<open>A carriage return before a line feed goes with the white space around the line.\<close>

definition filled_lines :: "string \<Rightarrow> string list" where
  "filled_lines s = filter (\<lambda>l. l \<noteq> []) (map trim (lines_of s))"

definition add_variable :: "(string \<times> string) list \<Rightarrow> string \<Rightarrow> (string \<times> string) list" where
  "add_variable acc line =
     (case split_on CHR ''='' line of
        [] \<Rightarrow> acc
      | key # rest \<Rightarrow> if key \<noteq> [] then put (trim key) (trim (join_with ''='' rest)) acc else acc)"

definition parseEnvironment :: "string \<Rightarrow> (string \<times> string) list" where
  "parseEnvironment s = foldl add_variable [] (filled_lines s)"

section \<open>The page\<close>

record stack_detail =
  sd_name :: string
  sd_compose :: string
  sd_environment :: "(string \<times> string) list option"
  sd_secrets :: "(string \<times> string) list option"
  sd_configs :: "(string \<times> string) list option"

record stack_page =
  sp_name :: string
  sp_compose :: string
  sp_environmentVars :: string
  sp_secretEntries :: string
  sp_configEntries :: string
  sp_secretName :: string
  sp_secretValue :: string
  sp_activeTab :: string
  sp_rollbackCandidate :: string
  sp_toasts :: "toast list"
  sp_left :: bool

definition crlf :: string where
  "crlf = [CHR 0x0D, CHR 0x0A]"

definition default_compose :: string where
  "default_compose = concat (map (\<lambda>l. l @ crlf)
     [''version: '' @ [CHR 0x27] @ ''3.8'' @ [CHR 0x27], ''services:'', ''  web:'', ''    image: nginx:latest'',
      ''    ports:'', ''      - '' @ [CHR 0x27] @ ''80:80'' @ [CHR 0x27]])"

definition stack_page0 :: "string option \<Rightarrow> stack_page" where
  "stack_page0 stackName =
     \<lparr>sp_name = or_ostr stackName [], sp_compose = default_compose, sp_environmentVars = [], sp_secretEntries = [],
      sp_configEntries = [], sp_secretName = [], sp_secretValue = [], sp_activeTab = ''compose'',
      sp_rollbackCandidate = [], sp_toasts = [], sp_left = False\<rparr>"

text \<open>The name in the address decides whether a stack is edited or created.\<close>

definition editing :: "string option \<Rightarrow> bool" where
  "editing stackName \<longleftrightarrow> truthy_str stackName"

definition stack_loaded :: "string option \<Rightarrow> stack_detail \<Rightarrow> stack_page \<Rightarrow> stack_page" where
  "stack_loaded stackName d s =
     (if editing stackName
      then s\<lparr>sp_name := sd_name d, sp_compose := sd_compose d,
        sp_environmentVars := variables_text (nullish (sd_environment d) []),
        sp_secretEntries := blocks_text (nullish (sd_secrets d) []),
        sp_configEntries := blocks_text (nullish (sd_configs d) [])\<rparr>
      else s)"

subsection \<open>The summary\<close>

definition composeLineCount :: "stack_page \<Rightarrow> nat" where
  "composeLineCount s = length (lines_of (sp_compose s))"

definition envCount :: "stack_page \<Rightarrow> nat" where
  "envCount s = length (filled_lines (sp_environmentVars s))"

definition secretCount :: "stack_page \<Rightarrow> nat" where
  "secretCount s = length (blocks_of (sp_secretEntries s))"

subsection \<open>Inserting\<close>

definition with_block :: "string \<Rightarrow> string \<Rightarrow> string \<Rightarrow> string" where
  "with_block k v current =
     (if trim current \<noteq> [] then trim current @ newline @ newline @ block_text k v else block_text k v)"

definition insertSecretAsset :: "string \<Rightarrow> string \<Rightarrow> stack_page \<Rightarrow> stack_page" where
  "insertSecretAsset k v s = s\<lparr>sp_secretEntries := with_block k v (sp_secretEntries s)\<rparr>"

text \<open>
  What follows the match of \<open>\\s*[^\\n]+\<close>: the white space runs over line ends, and gives back as little as
  leaves one character for the rest.
\<close>

definition not_lf :: "char \<Rightarrow> bool" where
  "not_lf c \<longleftrightarrow> c \<noteq> CHR 0x0A"

definition after_image :: "string \<Rightarrow> string option" where
  "after_image s =
     (let r = dropWhile is_ws s in
      if r \<noteq> [] then Some (dropWhile not_lf r)
      else if list_ex not_lf s then Some (rev (takeWhile (\<lambda>c. \<not> not_lf c) (rev s)))
      else None)"

fun replace_image :: "string \<Rightarrow> string \<Rightarrow> string" where
  "replace_image ref [] = []"
| "replace_image ref (c # s) =
     (if starts_with ''image:'' (c # s)
      then (case after_image (drop 6 (c # s)) of
          Some rest \<Rightarrow> ''image: '' @ ref @ rest
        | None \<Rightarrow> c # replace_image ref s)
      else c # replace_image ref s)"

definition insertPresetImage :: "string \<Rightarrow> stack_page \<Rightarrow> stack_page" where
  "insertPresetImage ref s =
     s\<lparr>sp_compose :=
         (if str_includes (sp_compose s) ''image:'' then replace_image ref (sp_compose s)
          else trim (sp_compose s) @ newline @ ''    image: '' @ ref @ newline),
       sp_activeTab := ''compose''\<rparr>"

record preset_registry =
  pre_name :: string
  pre_pull_presets :: "string list option"

definition presets :: "preset_registry list \<Rightarrow> (string \<times> string) list" where
  "presets rs = concat (map (\<lambda>r. map (\<lambda>p. (pre_name r, p)) (nullish (pre_pull_presets r) [])) rs)"

subsection \<open>Deploying\<close>

definition may_deploy :: "bool \<Rightarrow> stack_page \<Rightarrow> bool" where
  "may_deploy is_pending s \<longleftrightarrow> \<not> is_pending \<and> trim (sp_name s) \<noteq> [] \<and> trim (sp_compose s) \<noteq> []"

definition deploy_stack :: "string \<Rightarrow> stack_page \<Rightarrow> mutation" where
  "deploy_stack eid s =
     useDeployStack eid (sp_name s) (sp_compose s) (parseEnvironment (sp_environmentVars s))
       (Some (parseNamedBlocks (sp_secretEntries s))) (Some (parseNamedBlocks (sp_configEntries s))) None"

definition say :: "string \<Rightarrow> string \<Rightarrow> string \<Rightarrow> stack_page \<Rightarrow> stack_page" where
  "say ty msg d s = s\<lparr>sp_toasts := sp_toasts s @ [toast_of ty msg d]\<rparr>"

text \<open>The answer: whether it failed, and with what message.\<close>

definition deployed :: "string option \<Rightarrow> string option option \<Rightarrow> stack_page \<Rightarrow> stack_page" where
  "deployed stackName failed s =
     (case failed of
        None \<Rightarrow> say ''success'' (if editing stackName then ''Stack updated'' else ''Stack deployed'')
          (sp_name s @ '' has been applied successfully.'')
          (s\<lparr>sp_left := True\<rparr>)
      | Some m \<Rightarrow> say ''error'' ''Stack deployment failed'' (or_ostr m ''Unable to deploy stack.'') s)"

subsection \<open>Secrets of the cluster\<close>

definition may_save_secret :: "bool \<Rightarrow> stack_page \<Rightarrow> bool" where
  "may_save_secret is_pending s \<longleftrightarrow> \<not> is_pending \<and> trim (sp_secretName s) \<noteq> []"

definition save_secret :: "string \<Rightarrow> stack_page \<Rightarrow> mutation" where
  "save_secret eid s = useSaveDockerSecret eid (sp_secretName s) (sp_secretValue s) None"

definition secret_saved :: "string + string option \<Rightarrow> stack_page \<Rightarrow> stack_page" where
  "secret_saved r s =
     (case r of
        Inl name \<Rightarrow> say ''success'' ''Secret saved'' name (s\<lparr>sp_secretName := [], sp_secretValue := []\<rparr>)
      | Inr m \<Rightarrow> say ''error'' ''Secret save failed'' (or_ostr m ''Unable to save secret asset.'') s)"

definition delete_secret :: "string \<Rightarrow> string \<Rightarrow> mutation" where
  "delete_secret eid name = useDeleteDockerSecret eid name"

subsection \<open>Rolling back\<close>

definition choose_revision :: "string \<Rightarrow> stack_page \<Rightarrow> stack_page" where
  "choose_revision revision s = (if revision = [] then s else s\<lparr>sp_rollbackCandidate := revision\<rparr>)"

definition rollback :: "string \<Rightarrow> string option \<Rightarrow> stack_page \<Rightarrow> mutation option" where
  "rollback eid stackName s =
     (if sp_rollbackCandidate s = [] then None
      else Some (useRollbackStack eid (or_ostr stackName []) (sp_rollbackCandidate s)))"

definition rolled_back :: "string \<Rightarrow> string option option \<Rightarrow> stack_page \<Rightarrow> stack_page" where
  "rolled_back revision failed s =
     (case failed of
        None \<Rightarrow> (say ''success'' ''Rollback completed'' (sp_name s @ '' rolled back to '' @ revision @ ''.'') s)
          \<lparr>sp_rollbackCandidate := []\<rparr>
      | Some m \<Rightarrow> say ''error'' ''Rollback failed'' (or_ostr m ''Unable to rollback stack.'') s)"

section \<open>Reading the blocks back\<close>

subsection \<open>Cutting\<close>

lemma starts_block_line: "starts_block (b @ CHR 0x0A # t) = starts_block b"
proof -
  have "\<not> on_line (CHR 0x0A)" by (simp add: on_line_def)
  then show ?thesis by (cases b) (simp_all add: starts_block_def lf_ws takeWhile_tail)
qed

lemma split_blocks_ne [simp]: "split_blocks s \<noteq> []"
  by (cases s) (auto split: list.splits)

lemma split_blocks_append:
  "starts_block t \<Longrightarrow> split_blocks (s @ CHR 0x0A # t) = split_blocks s @ split_blocks t"
  by (induction s) (auto simp: starts_block_line split: list.splits)

lemma split_blocks_snoc: "split_blocks (s @ newline) = butlast (split_blocks s) @ [last (split_blocks s) @ newline]"
proof (induction s)
  case (Cons c s)
  then show ?case
    using starts_block_line [of s "[]"] by (cases "split_blocks s") auto
qed (simp add: starts_block_def)

text \<open>A text none of whose later lines opens a block is one block.\<close>

lemma starts_block_hd: "starts_block (hd (lines_of s)) = starts_block s"
proof (cases "CHR 0x0A \<in> set s")
  case True
  then obtain a b where "s = a @ CHR 0x0A # b" "CHR 0x0A \<notin> set a" by (meson split_list_first)
  then show ?thesis by (simp add: split_on_append starts_block_line)
qed (simp add: split_on_no_sep)

definition one_block :: "string \<Rightarrow> bool" where
  "one_block s \<longleftrightarrow> (\<forall>l \<in> set (tl (lines_of s)). \<not> starts_block l)"

lemma split_one_block: "one_block s \<Longrightarrow> split_blocks s = [s]"
proof (induction s)
  case (Cons c s)
  show ?case
  proof (cases "c = CHR 0x0A")
    case True
    with Cons.prems have all: "\<forall>l \<in> set (lines_of s). \<not> starts_block l" by (simp add: one_block_def)
    then have "\<not> starts_block s" using starts_block_hd [of s] by (metis hd_in_set lines_ne)
    moreover have "one_block s" using all by (auto simp: one_block_def dest: list.set_sel(2) [rotated])
    ultimately show ?thesis using True Cons.IH by simp
  next
    case False
    with Cons.prems have "one_block s" by (auto simp: one_block_def split: list.splits)
    then show ?thesis using False Cons.IH by simp
  qed
qed simp

subsection \<open>One block\<close>

text \<open>
  Names and values that survive: the value has no line that would open a block, and does not begin with
  blank lines.
\<close>

definition name_ok :: "string \<Rightarrow> bool" where
  "name_ok k \<longleftrightarrow> k \<noteq> [] \<and> trim k = k \<and> (\<forall>c \<in> set k. c \<noteq> CHR ''<'' \<and> on_line c)"

definition value_ok :: "string \<Rightarrow> bool" where
  "value_ok v \<longleftrightarrow> list_all (\<lambda>l. \<not> starts_block l) (lines_of v) \<and> CHR 0x0A \<notin> set (takeWhile is_ws v)"

lemma block_starts:
  assumes "name_ok k"
  shows "starts_block (block_text k v @ r)"
proof -
  obtain c k' where k: "k = c # k'" using assms by (cases k) (auto simp: name_ok_def)
  have "takeWhile on_line (k' @ marker @ newline @ v @ newline @ ''EOF'' @ r) = k' @ marker"
    using assms k by (subst takeWhile_append2) (auto simp: name_ok_def on_line_def)
  moreover have "str_includes (k' @ marker) marker" by (metis append_Nil2 str_includes_iff)
  ultimately show ?thesis
    using trimmed_ends [of k] assms k by (simp add: starts_block_def block_text_def name_ok_def)
qed

lemma block_is_one:
  assumes "name_ok k" "value_ok v"
  shows "one_block (block_text k v)"
proof -
  have "block_text k v = (k @ marker) @ CHR 0x0A # (v @ CHR 0x0A # ''EOF'')" by (simp add: block_text_def)
  moreover have "CHR 0x0A \<notin> set (k @ marker)" using assms(1) by (auto simp: name_ok_def on_line_def)
  moreover have "\<not> starts_block ''EOF''" "lines_of ''EOF'' = [''EOF'']" by code_simp+
  ultimately show ?thesis
    using assms(2) by (simp add: one_block_def lines_append_lf split_on_no_sep value_ok_def list_all_iff del: append_assoc)
qed

lemma f_plain: "\<not> is_ws (CHR ''F'')"
  by (simp add: is_ws_def)

lemma trim_block:
  assumes "name_ok k" "\<forall>c \<in> set w. is_ws c"
  shows "trim (block_text k v @ w) = block_text k v"
proof -
  obtain c k' where k: "k = c # k'" using assms(1) by (cases k) (auto simp: name_ok_def)
  have "\<not> is_ws c" using trimmed_ends [of k] assms(1) k by (simp add: name_ok_def)
  then have "ltrim (block_text k v @ w) = block_text k v @ w" by (simp add: k block_text_def ltrim_def)
  moreover have "dropWhile is_ws (rev w @ rev (block_text k v)) = rev (block_text k v)"
    using assms(2) f_plain by (subst dropWhile_append2) (simp_all add: block_text_def)
  then have "rtrim (block_text k v @ w) = block_text k v" by (simp add: rtrim_def)
  ultimately show ?thesis by (simp add: trim_def)
qed

lemma closing_line: "block_value (newline @ ''EOF'') = None" "block_value ''EOF'' = None"
  by code_simp+

lemma no_blank_start: "CHR 0x0A \<notin> set (takeWhile is_ws v) \<Longrightarrow> block_value (v @ newline @ ''EOF'') = None"
  by (induction v) (use closing_line in \<open>auto split: if_splits\<close>)

lemma closed_value_of: "closed_value (v @ newline @ ''EOF'') = Some v"
  by (simp add: closed_value_def ends_with_def starts_with_def)

lemma match_block_text:
  assumes "name_ok k" "value_ok v"
  shows "match_block (block_text k v) = Some (k, v)"
proof -
  have nc: "\<forall>c \<in> set k. name_char c" using assms(1) by (auto simp: name_ok_def name_char_def on_line_def)
  have "takeWhile name_char (block_text k v) = k"
    using nc by (simp add: block_text_def name_char_def)
  moreover have "dropWhile name_char (block_text k v) = marker @ newline @ v @ newline @ ''EOF''"
    using nc by (simp add: block_text_def name_char_def)
  moreover have "block_value (newline @ v @ newline @ ''EOF'') = Some v"
    using no_blank_start [of v] closed_value_of [of v] assms(2) lf_ws by (simp add: value_ok_def)
  ultimately show ?thesis
    using assms(1) by (simp add: match_block_def Let_def name_ok_def starts_with_def)
qed

subsection \<open>All blocks\<close>

lemma blocks_append:
  assumes "starts_block t"
  shows "blocks_of (s @ newline @ newline @ t) = blocks_of s @ blocks_of t"
proof -
  have "split_blocks (s @ newline @ newline @ t) = split_blocks (s @ newline) @ split_blocks t"
    using split_blocks_append [OF assms, of "s @ newline"] by simp
  moreover have "map trim (split_blocks (s @ newline)) = map trim (split_blocks s)"
    unfolding split_blocks_snoc by (simp add: trim_ws_snoc [OF lf_ws]) (metis append_butlast_last_id list.simps(8,9) map_append split_blocks_ne)
  ultimately show ?thesis by (simp add: blocks_of_def)
qed

lemma blocks_of_one:
  assumes "name_ok k" "value_ok v"
  shows "blocks_of (block_text k v) = [block_text k v]"
  using split_one_block [OF block_is_one [OF assms]] trim_block [OF assms(1), of "[]" v]
  by (simp add: blocks_of_def) (simp add: block_text_def)

lemma blocks_of_text:
  "\<forall>(k, v) \<in> set m. name_ok k \<and> value_ok v \<Longrightarrow> blocks_of (blocks_text m) = map (\<lambda>(k, v). block_text k v) m"
proof (induction m)
  case Nil
  then show ?case by (simp add: blocks_of_def blocks_text_def)
next
  case (Cons p m)
  obtain k v where p: "p = (k, v)" by force
  with Cons.prems have kv: "name_ok k" "value_ok v" by auto
  note IH = Cons.IH and prems = Cons.prems
  show ?case
  proof (cases m)
    case Nil
    then show ?thesis using blocks_of_one [OF kv] by (simp add: blocks_text_def p)
  next
    case (Cons q m')
    obtain k' v' where q: "q = (k', v')" by force
    have joined: "blocks_text (p # m) = block_text k v @ newline @ newline @ blocks_text m"
      by (simp add: blocks_text_def p Cons)
    have "\<exists>r. blocks_text m = block_text k' v' @ r"
      using Cons q by (cases m') (auto simp: blocks_text_def)
    moreover have "name_ok k'" using prems Cons q by auto
    ultimately have "starts_block (blocks_text m)" using block_starts by auto
    then show ?thesis
      using blocks_append [of "blocks_text m"] blocks_of_one [OF kv] IH prems joined by (simp add: p)
  qed
qed

lemma parse_blocks:
  assumes "\<forall>(k, v) \<in> set m. name_ok k \<and> value_ok v" "distinct (map fst m)"
  shows "parseNamedBlocks (blocks_text m) = m"
proof -
  have "foldl add_block acc (map (\<lambda>(k, v). block_text k v) m) = foldl (\<lambda>acc (k, v). put k v acc) acc m" for acc
    using assms(1) by (induction m arbitrary: acc) (auto simp: add_block_def match_block_text)
  then show ?thesis
    using assms(2) foldl_put_append [of "[]" m] by (simp add: parseNamedBlocks_def blocks_of_text [OF assms(1)])
qed

subsection \<open>Variables\<close>

definition variable_ok :: "string \<times> string \<Rightarrow> bool" where
  "variable_ok p \<longleftrightarrow> fst p \<noteq> [] \<and> trim (fst p) = fst p \<and> trim (snd p) = snd p \<and> CHR ''='' \<notin> set (fst p) \<and>
     CHR 0x0A \<notin> set (fst p) \<and> CHR 0x0A \<notin> set (snd p)"

lemma eq_plain: "\<not> is_ws (CHR ''='')"
  by (simp add: is_ws_def)

lemma trim_variable:
  assumes "variable_ok (k, v)"
  shows "trim (k @ ''='' @ v) = k @ ''='' @ v"
proof -
  have k: "k \<noteq> []" "\<not> is_ws (hd k)" using assms trimmed_ends [of k] by (auto simp: variable_ok_def)
  have "\<not> is_ws (last (k @ ''='' @ v))"
    using assms trimmed_ends [of v] eq_plain by (cases "v = []") (auto simp: variable_ok_def)
  then show ?thesis using k ltrim_fix [of "k @ ''='' @ v"] rtrim_fix [of "k @ ''='' @ v"] by (simp add: trim_def)
qed

lemma filled_variables:
  assumes "\<forall>p \<in> set m. variable_ok p"
  shows "filled_lines (variables_text m) = map (\<lambda>(k, v). k @ ''='' @ v) m"
proof (cases "m = []")
  case False
  let ?ls = "map (\<lambda>(k, v). k @ ''='' @ v) m"
  have "\<forall>l \<in> set ?ls. CHR 0x0A \<notin> set l" using assms by (auto simp: variable_ok_def)
  then have "lines_of (variables_text m) = ?ls" using False by (simp add: variables_text_def split_join)
  moreover have "map trim ?ls = ?ls" using assms trim_variable by (auto intro!: map_idI)
  moreover have "filter (\<lambda>l. l \<noteq> []) ?ls = ?ls" by (auto simp: filter_id_conv)
  ultimately show ?thesis by (simp add: filled_lines_def del: map_map map_eq_conv list.map_comp)
qed (simp add: filled_lines_def variables_text_def)

lemma add_variable_text: "variable_ok (k, v) \<Longrightarrow> add_variable acc (k @ ''='' @ v) = put k v acc"
  using split_on_append [of "CHR ''=''" k v] by (simp add: add_variable_def variable_ok_def join_split)

lemma parse_variables:
  assumes "\<forall>p \<in> set m. variable_ok p" "distinct (map fst m)"
  shows "parseEnvironment (variables_text m) = m"
proof -
  have "foldl add_variable acc (map (\<lambda>(k, v). k @ ''='' @ v) m) = foldl (\<lambda>acc (k, v). put k v acc) acc m" for acc
    using assms(1) add_variable_text by (induction m arbitrary: acc) auto
  then show ?thesis
    using assms(2) foldl_put_append [of "[]" m] by (simp add: parseEnvironment_def filled_variables [OF assms(1)])
qed

section \<open>What the page does with them\<close>

definition asset_ok :: "string \<times> string \<Rightarrow> bool" where
  "asset_ok p \<longleftrightarrow> name_ok (fst p) \<and> value_ok (snd p)"

text \<open>
  C35. Deploying a stack as it was loaded asks for what the stack has: its Compose document, its
  variables, its secrets and its configs, provided no value has a line that opens a block or
  begins with blank lines, and no variable has a line end or white space around it.
\<close>

theorem unchanged_stack:
  assumes "sd_environment d = Some env" "\<forall>p \<in> set env. variable_ok p" "distinct (map fst env)"
    and "sd_secrets d = Some secrets" "\<forall>p \<in> set secrets. asset_ok p" "distinct (map fst secrets)"
    and "sd_configs d = Some configs" "\<forall>p \<in> set configs. asset_ok p" "distinct (map fst configs)"
    and "stackName = Some n" "n \<noteq> []"
  shows "deploy_stack eid (stack_loaded stackName d s) =
    useDeployStack eid (sd_name d) (sd_compose d) env (Some secrets) (Some configs) None"
proof -
  have "parseNamedBlocks (blocks_text secrets) = secrets" "parseNamedBlocks (blocks_text configs) = configs"
    using assms(5,6,8,9) by (auto intro!: parse_blocks simp: asset_ok_def)
  then show ?thesis
    using assms parse_variables [of env]
    by (simp add: deploy_stack_def stack_loaded_def editing_def truthy_str_def nullish_def)
qed

text \<open>
  C36. Let a secret of the cluster have a name of one line without \<open><\<close> and without white space around it, and a value
  that has no line that opens a block (\<open><<EOF\<close>) and no line break in the white space it begins with. Inserting it
  sets that secret in what is deployed and keeps every other one, whatever the text area held.
\<close>

theorem inserted_secret:
  assumes "name_ok k" "value_ok v"
  shows "parseNamedBlocks (sp_secretEntries (insertSecretAsset k v s)) =
    put k v (parseNamedBlocks (trim (sp_secretEntries s)))"
proof -
  have one: "foldl add_block acc (blocks_of (block_text k v)) = put k v acc" for acc
    using blocks_of_one [OF assms] match_block_text [OF assms] by (simp add: add_block_def)
  have start: "starts_block (block_text k v)" using block_starts [OF assms(1), of v "[]"] by simp
  show ?thesis
  proof (cases "trim (sp_secretEntries s) = []")
    case True
    then show ?thesis using one by (simp add: insertSecretAsset_def with_block_def parseNamedBlocks_def blocks_of_def)
  next
    case False
    then show ?thesis
      using blocks_append [OF start, of "trim (sp_secretEntries s)"] one
      by (simp add: insertSecretAsset_def with_block_def parseNamedBlocks_def)
  qed
qed

subsection \<open>What goes wrong\<close>

lemma unclosed_block_dropped:
  "parseNamedBlocks (unlines [''token<<EOF'', ''abc'', ''EOF'', [], ''key<<EOF'', ''x'']) = [(''token'', ''abc'')]"
  "secretCount ((stack_page0 None)\<lparr>sp_secretEntries :=
     unlines [''token<<EOF'', ''abc'', ''EOF'', [], ''key<<EOF'', ''x'']\<rparr>) = 2"
  by code_simp+

lemma script_cut:
  "parseNamedBlocks (blocks_text [(''init'', unlines [''set -e'', ''cat <<EOF > /etc/motd'', ''hello''])]) = []"
  by code_simp

lemma blank_start_lost: "parseNamedBlocks (blocks_text [(''motd'', unlines [[], ''hello''])]) = [(''motd'', ''hello'')]"
  by code_simp

lemma long_variable_split:
  "parseEnvironment (variables_text [(''CERT'', unlines [''-----BEGIN'', ''abc'', ''-----END''])]) =
     [(''CERT'', ''-----BEGIN''), (''abc'', []), (''-----END'', [])]"
  by code_simp

text \<open>A service without an image gets the preset in place of its next member, and the first one is always taken.\<close>

lemma image_eats_next_line:
  "replace_image ''redis:7'' (unlines [''  db:'', ''    image:'', ''    ports:'', ''      - 6379'']) =
     unlines [''  db:'', ''    image: redis:7'', ''      - 6379'']"
  "replace_image ''redis:7'' (unlines [''  web:'', ''    image: nginx'', ''  db:'', ''    image: mysql'']) =
     unlines [''  web:'', ''    image: redis:7'', ''  db:'', ''    image: mysql'']"
  by code_simp+

section \<open>At concrete inputs\<close>

definition shop_stack :: stack_detail where
  "shop_stack = \<lparr>sd_name = ''shop'', sd_compose = ''services:'', sd_environment = Some [(''MODE'', ''prod=1'')],
     sd_secrets = Some [(''token'', ''abc''), (''key'', unlines [''a'', ''EOF'', ''b''])],
     sd_configs = Some [(''nginx_conf'', unlines [''server {'', ''}'', []])]\<rparr>"

theorem unchanged_stack_witness:
  "deploy_stack ''e1'' (stack_loaded (Some ''shop'') shop_stack (stack_page0 (Some ''shop''))) =
    useDeployStack ''e1'' ''shop'' ''services:'' [(''MODE'', ''prod=1'')]
      (Some [(''token'', ''abc''), (''key'', unlines [''a'', ''EOF'', ''b''])])
      (Some [(''nginx_conf'', unlines [''server {'', ''}'', []])]) None"
proof -
  let ?s = "[(''token'', ''abc''), (''key'', unlines [''a'', ''EOF'', ''b''])]"
  let ?c = "[(''nginx_conf'', unlines [''server {'', ''}'', []])]"
  have h: "\<forall>p \<in> set [(''MODE'', ''prod=1'')]. variable_ok p" "\<forall>p \<in> set ?s. asset_ok p" "\<forall>p \<in> set ?c. asset_ok p"
    "distinct (map fst [(''MODE'', ''prod=1'')])" "distinct (map fst ?s)" "distinct (map fst ?c)"
    by code_simp+
  have d: "sd_environment shop_stack = Some [(''MODE'', ''prod=1'')]" "sd_secrets shop_stack = Some ?s"
    "sd_configs shop_stack = Some ?c" "sd_name shop_stack = ''shop''" "sd_compose shop_stack = ''services:''"
    by (simp_all add: shop_stack_def)
  show ?thesis
    using unchanged_stack [OF d(1) h(1,4) d(2) h(2,5) d(3) h(3,6), of "Some ''shop''" "''shop''" "''e1''"] d(4,5) by simp
qed

theorem inserted_secret_witness:
  "parseNamedBlocks (sp_secretEntries (insertSecretAsset ''key'' ''x=1''
     ((stack_page0 None)\<lparr>sp_secretEntries := block_text ''token'' ''abc''\<rparr>))) = [(''token'', ''abc''), (''key'', ''x=1'')]"
proof -
  have h: "name_ok ''key''" "value_ok ''x=1''" by code_simp+
  have "parseNamedBlocks (trim (block_text ''token'' ''abc'')) = [(''token'', ''abc'')]" by code_simp
  then show ?thesis using inserted_secret [OF h, of "(stack_page0 None)\<lparr>sp_secretEntries := block_text ''token'' ''abc''\<rparr>"] by simp
qed

end
