(* ===== verification/ConfigMapPage.thy ===== *)
theory ConfigMapPage
  imports YamlView KubernetesApi TextLines
begin

text \<open>
  The page of one ConfigMap, \<open>features/kubernetes/pages/ConfigMapDetailPage.tsx\<close>: the entries read out of
  the YAML of the cluster, the tidied manifest written from them, the search, and the colours.
\<close>

section \<open>Reading the entries\<close>

type_synonym yaml_entry = "string \<times> string"

definition stripWrappedQuotes :: "string \<Rightarrow> string" where
  "stripWrappedQuotes v =
     (if starts_with dquote v \<and> ends_with dquote v \<or> starts_with [CHR 0x27] v \<and> ends_with [CHR 0x27] v
      then butlast (drop 1 v) else v)"

text \<open>An entry being read: its key, the text after the colon and the lines below, the last one first.\<close>

record open_entry =
  oe_key :: string
  oe_first :: string
  oe_rest :: "string list"

definition block_mark :: "string \<Rightarrow> bool" where
  "block_mark s \<longleftrightarrow> s \<in> set [''|'', ''|-'', ''>'', ''>-'']"

definition entry_value :: "open_entry \<Rightarrow> string" where
  "entry_value e =
     (let rest = rev (oe_rest e) in
      if block_mark (trim (oe_first e)) then unlines rest else trim (unlines (oe_first e # rest)))"

definition flush :: "open_entry option \<Rightarrow> yaml_entry list \<Rightarrow> yaml_entry list" where
  "flush current entries =
     (case current of None \<Rightarrow> entries | Some e \<Rightarrow> entries @ [(oe_key e, stripWrappedQuotes (entry_value e))])"

definition push_line :: "string \<Rightarrow> open_entry option \<Rightarrow> open_entry option" where
  "push_line l current = map_option (\<lambda>e. e\<lparr>oe_rest := l # oe_rest e\<rparr>) current"

definition key_line :: "string \<Rightarrow> open_entry option" where
  "key_line content =
     (let key = takeWhile (\<lambda>c. c \<noteq> CHR '':'') content in
      case drop (length key) content of
        [] \<Rightarrow> None
      | _ # r \<Rightarrow> Some \<lparr>oe_key = trim key, oe_first = ltrim r, oe_rest = []\<rparr>)"

text \<open>The indentation of the entries is that of the first line that is not blank.\<close>

fun read_entries ::
  "nat \<Rightarrow> nat option \<Rightarrow> open_entry option \<Rightarrow> yaml_entry list \<Rightarrow> string list \<Rightarrow> yaml_entry list" where
  "read_entries si ei current entries [] = flush current entries"
| "read_entries si ei current entries (line # ls) =
     (if trim line = [] then read_entries si ei (push_line [] current) entries ls
      else let ind = indent_of line; e = nullish ei ind in
        if ind \<le> si then flush current entries
        else (case (if ind = e then key_line (drop e line) else None) of
            Some opened \<Rightarrow> read_entries si (Some e) (Some opened) (flush current entries) ls
          | None \<Rightarrow> read_entries si (Some e) (push_line (drop (min ind (e + 2)) line) current) entries ls))"

definition extractYamlMapSection :: "string \<Rightarrow> string \<Rightarrow> yaml_entry list" where
  "extractYamlMapSection yamlText sectionName =
     (case dropWhile (\<lambda>l. trim l \<noteq> sectionName @ '':'') (lines_of (drop_crlf yamlText)) of
        [] \<Rightarrow> []
      | l # ls \<Rightarrow> read_entries (indent_of l) None None [] ls)"

definition extractConfigMapYamlSections :: "string \<Rightarrow> yaml_entry list \<times> yaml_entry list" where
  "extractConfigMapYamlSections t = (extractYamlMapSection t ''data'', extractYamlMapSection t ''binaryData'')"

section \<open>Writing the manifest\<close>

definition scalar_char :: "char \<Rightarrow> bool" where
  "scalar_char c \<longleftrightarrow> is_alnum c \<or> c \<in> set ''._/-''"

definition toYamlScalar :: "string \<Rightarrow> string" where
  "toYamlScalar v =
     (if v = [] then dquote @ dquote
      else if list_all scalar_char v \<and> \<not> word_value v then v
      else json_string v)"

definition toYamlEntryLines :: "string \<Rightarrow> string \<Rightarrow> nat \<Rightarrow> string list" where
  "toYamlEntryLines key v ind =
     (if CHR 0x0A \<in> set v
      then (spaces ind @ key @ '': |-'') # map (\<lambda>l. spaces ind @ ''  '' @ l) (lines_of v)
      else [spaces ind @ key @ '': '' @ toYamlScalar v])"

definition section_lines :: "string \<Rightarrow> yaml_entry list \<Rightarrow> string list" where
  "section_lines sectionName entries =
     (if entries = [] then []
      else (sectionName @ '':'') # concat (map (\<lambda>(k, v). toYamlEntryLines k v 2) entries))"

definition head_lines :: "string \<Rightarrow> string \<Rightarrow> bool option \<Rightarrow> string list" where
  "head_lines name ns immutable =
     [''apiVersion: v1'', ''kind: ConfigMap'', ''metadata:''] @
     (if trim name \<noteq> [] then [''  name: '' @ toYamlScalar name] else []) @
     (if trim ns \<noteq> [] then [''  namespace: '' @ toYamlScalar ns] else []) @
     (case immutable of None \<Rightarrow> [] | Some b \<Rightarrow> [''immutable: '' @ (if b then ''true'' else ''false'')])"

definition buildNormalizedConfigMapYaml ::
  "string \<Rightarrow> string \<Rightarrow> bool option \<Rightarrow> yaml_entry list \<Rightarrow> yaml_entry list \<Rightarrow> string" where
  "buildNormalizedConfigMapYaml name ns immutable dat bin =
     unlines (head_lines name ns immutable @ section_lines ''data'' dat @ section_lines ''binaryData'' bin)"

section \<open>The page\<close>

datatype yaml_mode = Normalized | Live

record listed_map =
  lm_name :: string
  lm_namespace :: string
  lm_immutable :: "bool option"

record config_page =
  cp_override :: string
  cp_search :: string
  cp_yamlText :: string
  cp_mode :: yaml_mode
  cp_loading :: bool
  cp_flights :: "string list"

definition config_page0 :: "string option \<Rightarrow> config_page" where
  "config_page0 cluster =
     \<lparr>cp_override = or_ostr cluster [], cp_search = [], cp_yamlText = [], cp_mode = Normalized, cp_loading = False,
      cp_flights = []\<rparr>"

definition selectedClusterId :: "(string \<times> string) option \<Rightarrow> string list \<Rightarrow> config_page \<Rightarrow> string" where
  "selectedClusterId env clusters s =
     or_str (cp_override s)
       (or_str (case env of Some (ty, i) \<Rightarrow> if ty = ''kubernetes'' then i else [] | None \<Rightarrow> [])
         (case clusters of [] \<Rightarrow> [] | c # _ \<Rightarrow> c))"

definition yaml_address :: "string \<Rightarrow> string \<Rightarrow> string \<Rightarrow> string" where
  "yaml_address cluster name ns =
     k8s_path cluster (''resources/configmaps/'' @ encodeURIComponent name @ ''/yaml?namespace='' @ encodeURIComponent ns)"

text \<open>The request, cut at its await. Nothing tells a late answer from the last one.\<close>

definition loadYaml :: "string \<Rightarrow> string \<Rightarrow> string \<Rightarrow> config_page \<Rightarrow> config_page \<times> string option" where
  "loadYaml name ns cluster s =
     (if cluster = [] \<or> name = [] then (s, None)
      else (s\<lparr>cp_loading := True, cp_flights := cp_flights s @ [cluster]\<rparr>, Some (yaml_address cluster name ns)))"

definition yaml_answered :: "string \<Rightarrow> string option + string option \<Rightarrow> config_page \<Rightarrow> config_page" where
  "yaml_answered cluster r s =
     s\<lparr>cp_yamlText :=
         (case r of
            Inr yaml \<Rightarrow> or_ostr yaml []
          | Inl m \<Rightarrow> ''# Unable to load YAML'' @ newline @ ''# '' @ nullish m ''Unknown error''),
       cp_loading := False, cp_flights := remove1 cluster (cp_flights s)\<rparr>"

definition selectedConfigMap :: "listed_map list \<Rightarrow> string \<Rightarrow> string \<Rightarrow> listed_map option" where
  "selectedConfigMap maps name ns = List.find (\<lambda>m. lm_name m = name \<and> lm_namespace m = ns) maps"

definition normalizedYaml :: "listed_map list \<Rightarrow> string \<Rightarrow> string \<Rightarrow> config_page \<Rightarrow> string" where
  "normalizedYaml maps name ns s =
     (let m = selectedConfigMap maps name ns; (dat, bin) = extractConfigMapYamlSections (cp_yamlText s) in
      buildNormalizedConfigMapYaml (or_ostr (map_option lm_name m) name) (or_ostr (map_option lm_namespace m) ns)
        (Option.bind m lm_immutable) dat bin)"

definition displayedYaml :: "listed_map list \<Rightarrow> string \<Rightarrow> string \<Rightarrow> config_page \<Rightarrow> string" where
  "displayedYaml maps name ns s =
     (case cp_mode s of
        Live \<Rightarrow> or_str (cp_yamlText s) ''# YAML preview will appear here''
      | Normalized \<Rightarrow> normalizedYaml maps name ns s)"

definition entry_matches :: "string \<Rightarrow> yaml_entry \<Rightarrow> bool" where
  "entry_matches q = (\<lambda>(k, v). q = [] \<or> str_includes (lower k) q \<or> str_includes (lower v) q)"

definition filtered :: "config_page \<Rightarrow> yaml_entry list \<Rightarrow> yaml_entry list" where
  "filtered s entries = filter (entry_matches (lower (trim (cp_search s)))) entries"

definition filteredData :: "config_page \<Rightarrow> yaml_entry list" where
  "filteredData s = filtered s (fst (extractConfigMapYamlSections (cp_yamlText s)))"

definition filteredBinaryData :: "config_page \<Rightarrow> yaml_entry list" where
  "filteredBinaryData s = filtered s (snd (extractConfigMapYamlSections (cp_yamlText s)))"

subsection \<open>Colours\<close>

definition config_key_class :: "string \<Rightarrow> string" where
  "config_key_class key =
     (let k = trim key in
      if k \<in> set [''apiVersion'', ''kind''] then ''fuchsia''
      else if k \<in> set [''metadata'', ''spec'', ''status'', ''template'', ''selector'', ''matchLabels''] then ''sky''
      else if k \<in> set [''name'', ''namespace'', ''labels'', ''annotations''] then ''blue''
      else if k \<in> set [''data'', ''binaryData'', ''stringData'', ''env'', ''ports''] then ''emerald''
      else ''sky'')"

definition config_kind_class :: "string \<Rightarrow> string" where
  "config_kind_class kind = (if lower (trim kind) \<in> set [''configmap'', ''secret''] then ''emerald'' else ''fuchsia'')"

definition config_value :: "string \<Rightarrow> string option \<Rightarrow> string \<times> part_class" where
  "config_value v parentKey =
     (let t = trim v in
      (v, ValuePart
       (if t = [] then Plain
        else if parentKey = Some ''kind'' then KindValue (config_kind_class t)
        else if parentKey = Some ''apiVersion'' then VersionValue
        else if parentKey = Some ''namespace'' \<or> parentKey = Some ''name'' then NameValue
        else if quoted_value t then QuotedValue
        else if word_value t then WordValue
        else if quantity_value t \<or> number_value t then QuantityValue
        else if bracket_value t then BracketValue
        else OtherValue)))"

definition config_highlight :: "string \<Rightarrow> (string \<times> part_class) list" where
  "config_highlight line =
     (if line = [] then [([CHR 0xC2, CHR 0xA0], BlankPart)]
      else
        let source = takeWhile (\<lambda>c. c \<noteq> CHR ''#'') line; comment = drop (length source) line in
        case keyMatch source of
          Some (p, k, colon, rest) \<Rightarrow>
            [(p, PrefixPart), (k, KeyPart (config_key_class (trim k))), (colon, ColonPart),
             config_value rest (Some (trim k))] @ comment_part comment
        | None \<Rightarrow>
            if comment \<noteq> [] then config_value source None # comment_part comment else [config_value line None])"

section \<open>Scalars\<close>

lemma hex_digit_visible: "n < 16 \<Longrightarrow> hex_digit n \<noteq> CHR 0x0A \<and> hex_digit n \<noteq> CHR 0x0D"
proof -
  assume "n < 16"
  then have "n \<in> set [0 ..< 16]" by simp
  moreover have "list_all (\<lambda>n. hex_digit n \<noteq> CHR 0x0A \<and> hex_digit n \<noteq> CHR 0x0D) [0 ..< 16]" by code_simp
  ultimately show ?thesis unfolding list_all_iff by blast
qed

lemma escape_char_one_line: "CHR 0x0A \<notin> set (escape_char c) \<and> CHR 0x0D \<notin> set (escape_char c)"
proof -
  have "(of_char c :: nat) < 32 \<Longrightarrow> of_char c div 16 < (16 :: nat)" by (simp add: div_less_iff_less_mult)
  then show ?thesis
    using hex_digit_visible [of "of_char c div 16"] hex_digit_visible [of "of_char c mod 16"]
    by (auto simp: escape_char_def)
qed

lemma json_string_one_line: "CHR 0x0A \<notin> set (json_string v)" "CHR 0x0D \<notin> set (json_string v)"
  using escape_char_one_line by (auto simp: json_string_def str_body_def)

lemma scalar_visible: "scalar_char c \<Longrightarrow> \<not> is_ws c \<and> \<not> is_quote c \<and> c \<noteq> CHR ''|'' \<and> c \<noteq> CHR ''>''"
  by (auto simp: scalar_char_def is_ws_def is_quote_def is_alnum_def)

text \<open>A text that JSON writes as it is.\<close>

definition unescaped :: "string \<Rightarrow> bool" where
  "unescaped v \<longleftrightarrow> str_body v = v"

lemma scalar_cases:
  obtains "v \<noteq> []" "list_all scalar_char v" "toYamlScalar v = v" | "toYamlScalar v = json_string v"
  by (cases "v = []"; cases "list_all scalar_char v \<and> \<not> word_value v")
    (auto simp: toYamlScalar_def json_string_def str_body_def)

lemma dquote_visible: "\<not> is_ws (CHR 0x22)"
  by (simp add: is_ws_def)

lemma scalar_trimmed: "toYamlScalar v \<noteq> [] \<and> trim (toYamlScalar v) = toYamlScalar v"
proof (cases v rule: scalar_cases)
  case 1
  then have "\<not> is_ws (hd v)" "\<not> is_ws (last v)" using scalar_visible by (auto simp: list_all_iff)
  then show ?thesis using 1 trim_fix [of v] by simp
next
  case 2
  have "trim (json_string v) = json_string v" using dquote_visible by (intro trim_fix) (simp add: json_string_def)
  then show ?thesis using 2 by (simp add: json_string_def)
qed

lemma scalar_one_line: "CHR 0x0A \<notin> set (toYamlScalar v) \<and> CHR 0x0D \<notin> set (toYamlScalar v)"
proof (cases v rule: scalar_cases)
  case 1
  then show ?thesis using scalar_visible by (force simp: list_all_iff is_ws_def)
qed (simp add: json_string_one_line)

lemma scalar_no_mark: "\<not> block_mark (toYamlScalar v)"
proof (cases v rule: scalar_cases)
  case 1
  then have "hd v \<noteq> CHR ''|'' \<and> hd v \<noteq> CHR ''>''" using scalar_visible by (auto simp: list_all_iff)
  then show ?thesis using 1 by (auto simp: block_mark_def)
qed (simp add: json_string_def block_mark_def)

lemma scalar_read:
  assumes "unescaped v"
  shows "stripWrappedQuotes (toYamlScalar v) = v"
proof (cases v rule: scalar_cases)
  case 1
  then have "\<not> is_quote (hd v)" using scalar_visible by (auto simp: list_all_iff)
  then show ?thesis using 1 by (cases v) (auto simp: stripWrappedQuotes_def is_quote_def starts_with_def)
next
  case 2
  then show ?thesis
    using assms by (simp add: json_string_def unescaped_def stripWrappedQuotes_def starts_with_def ends_with_def)
qed

section \<open>One entry\<close>

definition key_ok :: "string \<Rightarrow> bool" where
  "key_ok k \<longleftrightarrow> k \<noteq> [] \<and> trim k = k \<and> CHR '':'' \<notin> set k \<and> CHR 0x0A \<notin> set k \<and> CHR 0x0D \<notin> set k"

definition header_line :: "string \<Rightarrow> bool" where
  "header_line l \<longleftrightarrow> trim l \<in> set [''data:'', ''binaryData:'']"

text \<open>
  A value of one line that needs no escapes; or a value of several lines that has no blank ones but empty
  ones, none that reads like the head of a section, and no quotes around all of it.
\<close>

definition value_kept :: "string \<Rightarrow> bool" where
  "value_kept v \<longleftrightarrow> CHR 0x0D \<notin> set v \<and>
     (if CHR 0x0A \<in> set v
      then list_all (\<lambda>l. (trim l = [] \<longrightarrow> l = []) \<and> \<not> header_line l) (lines_of v) \<and> stripWrappedQuotes v = v
      else unescaped v)"

definition entry_ok :: "yaml_entry \<Rightarrow> bool" where
  "entry_ok p \<longleftrightarrow> key_ok (fst p) \<and> value_kept (snd p)"

lemma trim_field: "\<lbrakk>key_ok k; s \<noteq> []; trim s = s\<rbrakk> \<Longrightarrow> trim (spaces n @ k @ '': '' @ s) = k @ '': '' @ s"
  using trim_framed [of k s "'': ''"] by (simp add: trim_pad key_ok_def)

lemma field_no_header: "\<lbrakk>key_ok k; s \<noteq> []; trim s = s\<rbrakk> \<Longrightarrow> \<not> header_line (spaces n @ k @ '': '' @ s)"
  using trim_field [of k s n]
  by (auto simp: header_line_def key_ok_def append_eq_Cons_conv)

lemma indent_field_line: "key_ok k \<Longrightarrow> indent_of (spaces n @ k @ r) = n"
proof -
  assume k: "key_ok k"
  then obtain c k' where "k = c # k'" "\<not> is_ws c" using trimmed_ends [of k] by (cases k) (auto simp: key_ok_def)
  then show ?thesis using space_ws by (simp add: indent_of_def spaces_def takeWhile_append)
qed

lemma key_line_field:
  assumes "key_ok k" "s \<noteq> []" "trim s = s"
  shows "key_line (k @ '': '' @ s) = Some \<lparr>oe_key = k, oe_first = s, oe_rest = []\<rparr>"
proof -
  have "takeWhile (\<lambda>c. c \<noteq> CHR '':'') (k @ '': '' @ s) = k" using assms(1) by (auto simp: key_ok_def takeWhile_tail takeWhile_eq_all_conv)
  moreover have "ltrim ('' '' @ s) = s" using trimmed_ends [OF assms(3,2)] assms(2) space_ws ltrim_fix [of s] by (simp add: ltrim_def)
  ultimately show ?thesis using assms(1) by (simp add: key_line_def key_ok_def Let_def)
qed

lemma read_field:
  assumes "key_ok k" "s \<noteq> []" "trim s = s" "nullish ei 2 = 2"
  shows "read_entries 0 ei cur acc ((spaces 2 @ k @ '': '' @ s) # ls) =
    read_entries 0 (Some 2) (Some \<lparr>oe_key = k, oe_first = s, oe_rest = []\<rparr>) (flush cur acc) ls"
proof -
  let ?l = "spaces 2 @ k @ '': '' @ s"
  have "trim ?l \<noteq> []" using trim_field [OF assms(1-3), of 2] by simp
  moreover have "indent_of ?l = 2" using indent_field_line [OF assms(1)] by simp
  moreover have "drop 2 ?l = k @ '': '' @ s" by (simp add: spaces_def)
  ultimately show ?thesis using assms(4) key_line_field [OF assms(1-3)] by (simp del: append_assoc)
qed

lemma read_line:
  assumes "trim l = [] \<longrightarrow> l = []"
  shows "read_entries 0 (Some 2) (Some e) acc ((spaces 4 @ l) # ls) =
    read_entries 0 (Some 2) (Some (e\<lparr>oe_rest := l # oe_rest e\<rparr>)) acc ls"
proof (cases "trim l = []")
  case True
  then show ?thesis using assms trim_pad [of 4 "[]"] by (simp add: push_line_def)
next
  case False
  have "indent_of (spaces 4 @ l) = 4 + indent_of l"
    by (simp add: indent_of_def spaces_def space_ws takeWhile_append)
  moreover have "drop 4 (spaces 4 @ l) = l" by (simp add: spaces_def)
  moreover have "min (4 + indent_of l) 4 = 4" by simp
  ultimately show ?thesis using False by (simp add: trim_pad push_line_def nullish_def Let_def del: drop_append)
qed

lemma read_block:
  assumes "\<forall>l \<in> set L. trim l = [] \<longrightarrow> l = []"
  shows "read_entries 0 (Some 2) (Some e) acc (map (\<lambda>l. spaces 4 @ l) L @ ls) =
    read_entries 0 (Some 2) (Some (e\<lparr>oe_rest := rev L @ oe_rest e\<rparr>)) acc ls"
  using assms
proof (induction L arbitrary: e)
  case (Cons l L)
  then show ?case using read_line [of l e acc] by (simp del: read_entries.simps)
qed simp

section \<open>A manifest that is read back\<close>

lemma padded: "spaces 2 @ CHR '' '' # CHR '' '' # l = spaces 4 @ l"
  by (simp add: spaces_def eval_nat_numeral)

lemma block_head: "trim ''|-'' = ''|-''" "block_mark ''|-''"
  by code_simp+

lemma read_entry:
  assumes "entry_ok (k, v)" "nullish ei 2 = 2"
  shows "\<exists>e. read_entries 0 ei cur acc (toYamlEntryLines k v 2 @ ls) = read_entries 0 (Some 2) (Some e) (flush cur acc) ls \<and>
    flush (Some e) xs = xs @ [(k, v)]"
proof (cases "CHR 0x0A \<in> set v")
  case True
  let ?e = "\<lparr>oe_key = k, oe_first = ''|-'', oe_rest = rev (lines_of v)\<rparr>"
  have "read_entries 0 ei cur acc (toYamlEntryLines k v 2 @ ls) = read_entries 0 (Some 2) (Some ?e) (flush cur acc) ls"
    using read_field [of k "''|-''" ei cur acc] read_block [of "lines_of v" "\<lparr>oe_key = k, oe_first = ''|-'', oe_rest = []\<rparr>"]
      assms True block_head
    by (simp add: toYamlEntryLines_def padded entry_ok_def value_kept_def list_all_iff del: read_entries.simps)
  moreover have "flush (Some ?e) xs = xs @ [(k, v)]"
    using assms(1) True block_head by (simp add: flush_def entry_value_def entry_ok_def value_kept_def join_split)
  ultimately show ?thesis by blast
next
  case False
  let ?e = "\<lparr>oe_key = k, oe_first = toYamlScalar v, oe_rest = []\<rparr>"
  have "read_entries 0 ei cur acc (toYamlEntryLines k v 2 @ ls) = read_entries 0 (Some 2) (Some ?e) (flush cur acc) ls"
    using read_field [of k "toYamlScalar v" ei cur acc ls] assms scalar_trimmed [of v] False
    by (simp add: toYamlEntryLines_def entry_ok_def del: read_entries.simps)
  moreover have "flush (Some ?e) xs = xs @ [(k, v)]"
    using assms(1) False scalar_trimmed [of v] scalar_no_mark [of v] scalar_read [of v]
    by (simp add: flush_def entry_value_def entry_ok_def value_kept_def)
  ultimately show ?thesis by blast
qed

definition entries_lines :: "yaml_entry list \<Rightarrow> string list" where
  "entries_lines m = concat (map (\<lambda>(k, v). toYamlEntryLines k v 2) m)"

lemma flush_append: "flush (Some e) [] = [p] \<Longrightarrow> flush (Some e) xs = xs @ [p]"
  by (simp add: flush_def)

text \<open>The lines after a section end it.\<close>

definition ends_section :: "string list \<Rightarrow> bool" where
  "ends_section ls \<longleftrightarrow> (case ls of [] \<Rightarrow> True | l # _ \<Rightarrow> trim l \<noteq> [] \<and> indent_of l = 0)"

lemma read_section:
  assumes "\<forall>p \<in> set m. entry_ok p" "nullish ei 2 = 2" "ends_section ls"
  shows "read_entries 0 ei cur acc (entries_lines m @ ls) = flush cur acc @ m"
  using assms(1,2)
proof (induction m arbitrary: ei cur acc)
  case Nil
  then show ?case using assms(3) by (auto simp: entries_lines_def ends_section_def split: list.splits)
next
  case (Cons p m)
  obtain k v where p: "p = (k, v)" by force
  obtain e where e: "read_entries 0 ei cur acc (toYamlEntryLines k v 2 @ entries_lines m @ ls) =
      read_entries 0 (Some 2) (Some e) (flush cur acc) (entries_lines m @ ls)"
    "flush (Some e) [] = [] @ [(k, v)]"
    using read_entry [of k v ei cur acc "entries_lines m @ ls" "[]"] Cons.prems p by auto
  have "read_entries 0 (Some 2) (Some e) (flush cur acc) (entries_lines m @ ls) = flush (Some e) (flush cur acc) @ m"
    using Cons.prems by (intro Cons.IH) (auto simp: nullish_def)
  then show ?case using e flush_append [of e "(k, v)"] by (simp add: entries_lines_def p)
qed

subsection \<open>Finding the sections\<close>

lemma entry_lines_no_header:
  assumes "entry_ok p"
  shows "\<forall>l \<in> set (toYamlEntryLines (fst p) (snd p) 2). \<not> header_line l"
proof (cases "CHR 0x0A \<in> set (snd p)")
  case True
  have "\<forall>l \<in> set (lines_of (snd p)). \<not> header_line (spaces 4 @ l)"
    using assms True by (simp add: entry_ok_def value_kept_def list_all_iff header_line_def trim_pad)
  then show ?thesis
    using True field_no_header [of "fst p" "''|-''" 2] assms block_head
    by (auto simp: toYamlEntryLines_def padded entry_ok_def)
next
  case False
  then show ?thesis
    using field_no_header [of "fst p" "toYamlScalar (snd p)" 2] assms scalar_trimmed
    by (simp add: toYamlEntryLines_def entry_ok_def)
qed

lemma entries_no_header: "\<forall>p \<in> set m. entry_ok p \<Longrightarrow> \<forall>l \<in> set (entries_lines m). \<not> header_line l"
  using entry_lines_no_header by (fastforce simp: entries_lines_def)

lemma head_no_header: "\<forall>l \<in> set (head_lines name ns immutable). \<not> header_line l"
proof -
  have "key_ok ''name''" "key_ok ''namespace''" by code_simp+
  then have f: "\<not> header_line (''  name: '' @ toYamlScalar name)" "\<not> header_line (''  namespace: '' @ toYamlScalar ns)"
    using field_no_header [of "''name''" "toYamlScalar name" 2] field_no_header [of "''namespace''" "toYamlScalar ns" 2]
      scalar_trimmed by (simp_all add: spaces_def eval_nat_numeral)
  have "\<not> header_line ''apiVersion: v1''" "\<not> header_line ''kind: ConfigMap''" "\<not> header_line ''metadata:''"
    "\<not> header_line ''immutable: true''" "\<not> header_line ''immutable: false''"
    by code_simp+
  with f show ?thesis by (auto simp: head_lines_def split: option.splits)
qed

lemma skip_lines: "\<forall>l \<in> set ls. trim l \<noteq> h \<Longrightarrow> dropWhile (\<lambda>l. trim l \<noteq> h) (ls @ r) = dropWhile (\<lambda>l. trim l \<noteq> h) r"
  by (subst dropWhile_append2) auto

lemma header_lines: "trim ''data:'' = ''data:''" "trim ''binaryData:'' = ''binaryData:''"
  "indent_of ''data:'' = 0" "indent_of ''binaryData:'' = 0"
  by code_simp+

lemma section_lines_eq: "section_lines h m = (if m = [] then [] else (h @ '':'') # entries_lines m)"
  by (simp add: section_lines_def entries_lines_def)

definition manifest_lines :: "string list \<Rightarrow> yaml_entry list \<Rightarrow> yaml_entry list \<Rightarrow> string list" where
  "manifest_lines hs dat bin = hs @ section_lines ''data'' dat @ section_lines ''binaryData'' bin"

lemma no_header: "\<not> header_line l \<Longrightarrow> trim l \<noteq> ''data:'' \<and> trim l \<noteq> ''binaryData:''"
  by (simp add: header_line_def)

lemma find_data:
  assumes "\<forall>l \<in> set hs. \<not> header_line l" "\<forall>p \<in> set bin. entry_ok p"
  shows "dropWhile (\<lambda>l. trim l \<noteq> ''data:'') (manifest_lines hs dat bin) =
    (if dat = [] then [] else ''data:'' # entries_lines dat @ section_lines ''binaryData'' bin)"
proof -
  have "\<forall>l \<in> set (section_lines ''binaryData'' bin). trim l \<noteq> ''data:''"
    using entries_no_header [OF assms(2)] header_lines by (auto simp: section_lines_eq header_line_def)
  then show ?thesis
    using skip_lines [of hs "''data:''"] assms(1) header_lines
    by (auto simp: manifest_lines_def section_lines_eq header_line_def)
qed

lemma find_binary:
  assumes "\<forall>l \<in> set hs. \<not> header_line l" "\<forall>p \<in> set dat. entry_ok p"
  shows "dropWhile (\<lambda>l. trim l \<noteq> ''binaryData:'') (manifest_lines hs dat bin) =
    (if bin = [] then [] else ''binaryData:'' # entries_lines bin)"
proof -
  have "\<forall>l \<in> set (hs @ section_lines ''data'' dat). trim l \<noteq> ''binaryData:''"
    using entries_no_header [OF assms(2)] assms(1) header_lines by (auto simp: section_lines_eq header_line_def)
  from skip_lines [OF this] show ?thesis using header_lines by (simp add: manifest_lines_def section_lines_eq)
qed

subsection \<open>Lines of the whole text\<close>

lemma lines_clean:
  assumes "\<forall>l \<in> set ls. CHR 0x0A \<notin> set l \<and> CHR 0x0D \<notin> set l" "ls \<noteq> []"
  shows "lines_of (drop_crlf (unlines ls)) = ls"
proof -
  have "CHR 0x0D \<notin> set (unlines ls)" using assms(1) by (induction ls rule: induct_list012) auto
  then show ?thesis using assms by (simp add: drop_crlf_id split_join)
qed

lemma entry_lines_clean:
  assumes "entry_ok p"
  shows "\<forall>l \<in> set (toYamlEntryLines (fst p) (snd p) 2). CHR 0x0A \<notin> set l \<and> CHR 0x0D \<notin> set l"
proof -
  have pieces: "\<forall>l \<in> set (lines_of v). CHR 0x0D \<notin> set l" if "CHR 0x0D \<notin> set v" for v :: string
    using that by (induction v) (auto split: list.splits)
  have "CHR 0x0D \<notin> set (snd p)" using assms by (simp add: entry_ok_def value_kept_def)
  from pieces [OF this] show ?thesis
    using assms scalar_one_line [of "snd p"] split_on_pieces [of _ "CHR 0x0A" "snd p"]
    by (auto simp: toYamlEntryLines_def entry_ok_def key_ok_def spaces_def)
qed

lemma head_lines_clean: "\<forall>l \<in> set (head_lines name ns immutable). CHR 0x0A \<notin> set l \<and> CHR 0x0D \<notin> set l"
  using scalar_one_line by (auto simp: head_lines_def split: option.splits)

text \<open>
  C37. The manifest the page writes from the entries of a ConfigMap is read back as the same entries,
  provided no value needs escapes or has quotes around it, no line of a value is blank but not empty, and
  none reads like the head of a section.
\<close>

theorem normalized_read_back:
  assumes "\<forall>p \<in> set (dat @ bin). entry_ok p"
  shows "extractConfigMapYamlSections (buildNormalizedConfigMapYaml name ns immutable dat bin) = (dat, bin)"
proof -
  let ?hs = "head_lines name ns immutable"
  have ok: "\<forall>p \<in> set dat. entry_ok p" "\<forall>p \<in> set bin. entry_ok p" using assms by auto
  have "\<forall>l \<in> set (manifest_lines ?hs dat bin). CHR 0x0A \<notin> set l \<and> CHR 0x0D \<notin> set l"
    using head_lines_clean entry_lines_clean ok
    by (fastforce simp: manifest_lines_def section_lines_eq entries_lines_def split: if_splits)
  moreover have "manifest_lines ?hs dat bin \<noteq> []" by (simp add: manifest_lines_def head_lines_def)
  ultimately have l: "lines_of (drop_crlf (buildNormalizedConfigMapYaml name ns immutable dat bin)) = manifest_lines ?hs dat bin"
    using lines_clean by (simp add: buildNormalizedConfigMapYaml_def manifest_lines_def)
  have e: "ends_section (section_lines ''binaryData'' bin)" "ends_section []"
    using header_lines by (simp_all add: ends_section_def section_lines_eq)
  have "extractYamlMapSection (buildNormalizedConfigMapYaml name ns immutable dat bin) ''data'' = dat"
    using find_data [OF head_no_header ok(2)] read_section [OF ok(1) _ e(1), of None None "[]"] header_lines
    by (auto simp: extractYamlMapSection_def l nullish_def flush_def)
  moreover have "extractYamlMapSection (buildNormalizedConfigMapYaml name ns immutable dat bin) ''binaryData'' = bin"
    using find_binary [OF head_no_header ok(1)] read_section [OF ok(2) _ e(2), of None None "[]"] header_lines
    by (auto simp: extractYamlMapSection_def l nullish_def flush_def)
  ultimately show ?thesis by (simp add: extractConfigMapYamlSections_def)
qed

subsection \<open>What is shown wrong\<close>

text \<open>
  A block that keeps its last line end is written as one that drops it; an escaped value is escaped once
  more; a block in quotes loses them; other marks of a block become part of the value.
\<close>

lemma last_line_end_dropped:
  "extractYamlMapSection (unlines [''data:'', ''  run.sh: |'', ''    #!/bin/sh'', ''    exit 0'']) ''data'' =
     [(''run.sh'', unlines [''#!/bin/sh'', ''exit 0''])]"
  "toYamlEntryLines ''run.sh'' (unlines [''#!/bin/sh'', ''exit 0'']) 2 =
     [''  run.sh: |-'', ''    #!/bin/sh'', ''    exit 0'']"
  by code_simp+

definition quoted_word :: string where
  "quoted_word = [CHR ''a'', CHR 0x22, CHR ''b'']"

lemma escaped_twice:
  "extractYamlMapSection (unlines [''data:'', ''  k: '' @ json_string quoted_word]) ''data'' =
     [(''k'', [CHR ''a'', CHR 0x5C, CHR 0x22, CHR ''b''])]"
  by code_simp

lemma other_marks_kept:
  "extractYamlMapSection (unlines [''data:'', ''  k: |2-'', ''      a'']) ''data'' = [(''k'', unlines [''|2-'', ''  a''])]"
  by code_simp

text \<open>The answer for a cluster that is no longer selected is shown as the selected one's.\<close>

lemma stale_yaml_shown:
  assumes "name \<noteq> []"
  shows "cp_yamlText (yaml_answered ''a'' (Inr (Some ''of a''))
      (yaml_answered ''b'' (Inr (Some ''of b'')) (fst (loadYaml name ns ''b'' (fst (loadYaml name ns ''a'' s)))))) = ''of a''"
  by (simp add: yaml_answered_def or_ostr_def or_str_def)

section \<open>At concrete inputs\<close>

definition shop_entries :: "yaml_entry list" where
  "shop_entries = [(''MODE'', ''prod''), (''DEBUG'', ''true''), (''GREETING'', ''hello, world''), (''EMPTY'', []),
     (''app.conf'', unlines [''server {'', ''  listen: 80'', [], ''}''])]"

theorem normalized_read_back_witness:
  "extractConfigMapYamlSections (buildNormalizedConfigMapYaml ''shop'' ''default'' (Some False) shop_entries
     [(''logo'', ''aGVsbG8='')]) = (shop_entries, [(''logo'', ''aGVsbG8='')])"
proof -
  have "\<forall>p \<in> set (shop_entries @ [(''logo'', ''aGVsbG8='')]). entry_ok p" by code_simp
  then show ?thesis by (rule normalized_read_back)
qed

end
