(* ===== verification/FirewallPages.thy ===== *)
theory FirewallPages
  imports ServerFeatures Machine CronPage
begin

text \<open>
  The rules of a server's firewall as the console shows and changes them: the hooks of
  \<open>features/servers/api/useServerHooks.ts\<close>, the editor \<open>FirewallRuleEditor.tsx\<close> and the list
  \<open>ServerFirewall.tsx\<close> under \<open>features/servers/pages/modules/network\<close>. A direction, a protocol and an
  action reach the pages by a cast, so they are strings.
\<close>

section \<open>Rules\<close>

record rule_dto =
  rd_id :: string
  rd_enabled :: "bool option"
  rd_chain :: string
  rd_action :: string
  rd_protocol :: "string option"
  rd_source_ip :: "string option"
  rd_source_port :: "string option"
  rd_dest_ip :: "string option"
  rd_dest_port :: "string option"
  rd_position :: "int option"
  rd_comment :: "string option"
  rd_description :: "string option"

record fw_rule =
  fw_id :: string
  fw_priority :: int
  fw_direction :: string
  fw_protocol :: string
  fw_port :: string
  fw_source :: string
  fw_action :: string
  fw_enabled :: bool
  fw_note :: "string option"

text \<open>\<open>a || b\<close> where the second may be missing too.\<close>

definition or_opt :: "string option \<Rightarrow> string option \<Rightarrow> string option" where
  "or_opt a b = (if truthy_str a then a else b)"

definition direction_of :: "string \<Rightarrow> string" where
  "direction_of chain = (if chain = ''OUTPUT'' then ''OUTBOUND'' else ''INBOUND'')"

definition chain_of :: "string \<Rightarrow> string" where
  "chain_of direction = (if direction = ''OUTBOUND'' then ''OUTPUT'' else ''INPUT'')"

definition protocol_of :: "rule_dto \<Rightarrow> string" where
  "protocol_of d = upper (or_ostr (rd_protocol d) ''ANY'')"

definition target_of :: "rule_dto \<Rightarrow> string" where
  "target_of d = or_ostr (or_opt (rd_source_ip d) (rd_dest_ip d)) ''Any''"

definition rule_of :: "nat \<Rightarrow> rule_dto \<Rightarrow> fw_rule" where
  "rule_of idx d =
     \<lparr>fw_id = rd_id d, fw_priority = nullish (rd_position d) (int idx + 1), fw_direction = direction_of (rd_chain d),
      fw_protocol = protocol_of d, fw_port = or_ostr (or_opt (rd_dest_port d) (rd_source_port d)) ''*'',
      fw_source = target_of d, fw_action = or_str (rd_action d) ''ALLOW'', fw_enabled = nullish (rd_enabled d) True,
      fw_note = or_opt (rd_comment d) (rd_description d)\<rparr>"

definition useFirewallRules :: "rule_dto list \<Rightarrow> fw_rule list" where
  "useFirewallRules ds = map (\<lambda>(i, d). rule_of i d) (enumerate 0 ds)"

record rule_body =
  rb_enabled :: bool
  rb_chain :: string
  rb_action :: string
  rb_protocol :: string
  rb_dest_port :: string
  rb_source_ip :: string
  rb_position :: int
  rb_comment :: "string option"

definition body_json :: "rule_body \<Rightarrow> json" where
  "body_json b = JObj (members
     [(''enabled'', Some (JBool (rb_enabled b))), (''chain'', Some (JStr (rb_chain b))),
      (''action'', Some (JStr (rb_action b))), (''protocol'', Some (JStr (rb_protocol b))),
      (''dest_port'', Some (JStr (rb_dest_port b))), (''source_ip'', Some (JStr (rb_source_ip b))),
      (''position'', Some (JNum (rb_position b))), (''comment'', map_option JStr (rb_comment b))])"

datatype fw_call = AddRule rule_body | UpdateRule string rule_body | DeleteRule string | ApplyRules | RefetchRules

text \<open>The call as the client object sends it; what it answers is not used but for failing.\<close>

definition run_call :: "server \<Rightarrow> string \<Rightarrow> fw_call \<Rightarrow> unit eff" where
  "run_call srv sid call =
     (case call of
        AddRule b \<Rightarrow> eff_bind (iptables_add srv sid (body_json b)) (\<lambda>_. eff_ret ())
      | UpdateRule i b \<Rightarrow> eff_bind (iptables_update srv sid i (body_json b)) (\<lambda>_. eff_ret ())
      | DeleteRule i \<Rightarrow> eff_bind (iptables_delete srv sid i) (\<lambda>_. eff_ret ())
      | ApplyRules \<Rightarrow> eff_bind (iptables_apply srv sid) (\<lambda>_. eff_ret ())
      | RefetchRules \<Rightarrow> eff_bind (iptables_list srv sid) (\<lambda>_. eff_ret ()))"

text \<open>After a change, but not after applying, the list is fetched anew.\<close>

definition refetches :: "fw_call \<Rightarrow> bool" where
  "refetches call = (case call of ApplyRules \<Rightarrow> False | RefetchRules \<Rightarrow> False | _ \<Rightarrow> True)"

section \<open>The list\<close>

record policy =
  po_inbound :: string
  po_outbound :: string

record fw_list =
  fl_rules :: "fw_rule list"
  fl_original :: "fw_rule list"
  fl_policy :: policy
  fl_hasChanges :: bool
  fl_applying :: bool
  fl_refreshing :: bool
  fl_candidate :: "string option"
  fl_toasts :: "toast list"

definition INITIAL_POLICY :: policy where
  "INITIAL_POLICY = \<lparr>po_inbound = ''DENY'', po_outbound = ''ALLOW''\<rparr>"

definition fw_list0 :: fw_list where
  "fw_list0 =
     \<lparr>fl_rules = [], fl_original = [], fl_policy = INITIAL_POLICY, fl_hasChanges = False, fl_applying = False,
      fl_refreshing = False, fl_candidate = None, fl_toasts = []\<rparr>"


text \<open>The effect runs when the query has new data; equal data are the same object and do not count.\<close>

definition rules_fetched :: "fw_rule list \<Rightarrow> fw_list \<Rightarrow> fw_list" where
  "rules_fetched rs s = s\<lparr>fl_rules := rs, fl_original := rs\<rparr>"







definition toggle_body :: "fw_rule \<Rightarrow> rule_body" where
  "toggle_body r =
     \<lparr>rb_enabled = (\<not> fw_enabled r), rb_chain = chain_of (fw_direction r), rb_action = fw_action r,
      rb_protocol = fw_protocol r, rb_dest_port = fw_port r, rb_source_ip = fw_source r,
      rb_position = fw_priority r, rb_comment = fw_note r\<rparr>"

definition handleToggle :: "string \<Rightarrow> fw_list \<Rightarrow> fw_call option" where
  "handleToggle i s = map_option (\<lambda>r. UpdateRule (fw_id r) (toggle_body r)) (List.find (\<lambda>r. fw_id r = i) (fl_rules s))"














subsection \<open>Runs of the list\<close>





section \<open>The editor\<close>

record fw_editor =
  fe_serverIp :: string
  fe_existing :: "rule_dto list"
  fe_form :: fw_rule
  fe_errors :: "string list"
  fe_saving :: bool
  fe_loading :: bool
  fe_isTesting :: bool
  fe_testLogs :: "string list"
  fe_testResult :: "bool option"
  fe_toasts :: "toast list"
  fe_left :: bool

definition empty_rule :: fw_rule where
  "empty_rule =
     \<lparr>fw_id = [], fw_priority = 100, fw_direction = ''INBOUND'', fw_protocol = ''TCP'', fw_port = [],
      fw_source = ''Any'', fw_action = ''ALLOW'', fw_enabled = True, fw_note = Some []\<rparr>"

definition fw_editor0 :: fw_editor where
  "fw_editor0 =
     \<lparr>fe_serverIp = [], fe_existing = [], fe_form = empty_rule, fe_errors = [], fe_saving = False, fe_loading = True,
      fe_isTesting = False, fe_testLogs = [], fe_testResult = None, fe_toasts = [], fe_left = False\<rparr>"

definition mapRule :: "rule_dto \<Rightarrow> fw_rule" where
  "mapRule d =
     \<lparr>fw_id = rd_id d, fw_priority = nullish (rd_position d) 100, fw_direction = direction_of (rd_chain d),
      fw_protocol = protocol_of d, fw_port = or_ostr (or_opt (rd_dest_port d) (rd_source_port d)) [],
      fw_source = target_of d, fw_action = or_str (rd_action d) ''ALLOW'', fw_enabled = nullish (rd_enabled d) True,
      fw_note = Some (or_ostr (or_opt (rd_comment d) (rd_description d)) [])\<rparr>"

definition fe_say :: "string \<Rightarrow> string \<Rightarrow> string \<Rightarrow> fw_editor \<Rightarrow> fw_editor" where
  "fe_say ty msg d s = s\<lparr>fe_toasts := fe_toasts s @ [toast_of ty msg d]\<rparr>"

text \<open>Loading, of a rule where the address names one. It fails as a whole.\<close>

definition editor_loaded ::
  "string option \<Rightarrow> (string \<times> rule_dto list) + string option \<Rightarrow> fw_editor \<Rightarrow> fw_editor" where
  "editor_loaded ruleId r s =
     (case r of
        Inl (ip, rules) \<Rightarrow>
          (let s' = s\<lparr>fe_serverIp := ip, fe_existing := rules, fe_loading := False\<rparr> in
           if truthy_str ruleId
           then (case List.find (\<lambda>d. Some (rd_id d) = ruleId) rules of
               Some found \<Rightarrow> s'\<lparr>fe_form := mapRule found\<rparr>
             | None \<Rightarrow> s')
           else s')
      | Inr m \<Rightarrow> fe_say ''error'' ''Unable to load firewall editor'' (nullish m ''Request failed.'') (s\<lparr>fe_loading := False\<rparr>))"

definition same_rule :: "fw_rule \<Rightarrow> rule_dto \<Rightarrow> bool" where
  "same_rule f d \<longleftrightarrow>
     direction_of (rd_chain d) = fw_direction f \<and> protocol_of d = fw_protocol f \<and>
     or_ostr (or_opt (rd_dest_port d) (rd_source_port d)) ''*'' = or_str (fw_port f) ''*'' \<and>
     target_of d = or_str (fw_source f) ''Any''"

definition duplicateRule :: "string option \<Rightarrow> fw_editor \<Rightarrow> rule_dto option" where
  "duplicateRule ruleId s = List.find (\<lambda>d. Some (rd_id d) \<noteq> ruleId \<and> same_rule (fe_form s) d) (fe_existing s)"

definition handleChange :: "(fw_rule \<Rightarrow> fw_rule) \<Rightarrow> fw_editor \<Rightarrow> fw_editor" where
  "handleChange f s = s\<lparr>fe_form := f (fe_form s), fe_errors := [], fe_testResult := None, fe_testLogs := []\<rparr>"

text \<open>The menu of the target: every other choice empties the field.\<close>

definition choose_target :: "string \<Rightarrow> fw_editor \<Rightarrow> fw_editor" where
  "choose_target v = handleChange (\<lambda>f. f\<lparr>fw_source := (if v = ''Custom'' then [] else v)\<rparr>)"

definition portless :: "string \<Rightarrow> bool" where
  "portless p \<longleftrightarrow> p = ''ICMP'' \<or> p = ''ANY''"

definition rule_errors :: "string option \<Rightarrow> fw_editor \<Rightarrow> string list" where
  "rule_errors ruleId s =
     (let f = fe_form s in
      (if \<not> portless (fw_protocol f) \<and> trim (fw_port f) = [] then [''Port is required for TCP/UDP rules.''] else []) @
      (if duplicateRule ruleId s \<noteq> None
       then [''A rule with the same direction, protocol, port, and target already exists.''] else []) @
      (if CHR '' '' \<in> set (fw_port f) then [''Port or range should not include spaces.''] else []))"

definition rule_body_of :: "fw_rule \<Rightarrow> rule_body" where
  "rule_body_of f =
     \<lparr>rb_enabled = fw_enabled f, rb_chain = chain_of (fw_direction f), rb_action = fw_action f,
      rb_protocol = (if fw_protocol f = ''ANY'' then [] else fw_protocol f),
      rb_dest_port = (if portless (fw_protocol f) then [] else fw_port f),
      rb_source_ip = or_str (fw_source f) ''Any'', rb_position = fw_priority f,
      rb_comment = Some (nullish (fw_note f) [])\<rparr>"

definition handleSave :: "string \<Rightarrow> string option \<Rightarrow> fw_editor \<Rightarrow> fw_editor \<times> fw_call option" where
  "handleSave serverId ruleId s =
     (if serverId = [] then (s, None)
      else let errs = rule_errors ruleId s; s' = s\<lparr>fe_errors := errs\<rparr> in
        if errs \<noteq> [] then (s', None)
        else (s'\<lparr>fe_saving := True\<rparr>,
          Some (case ruleId of Some i \<Rightarrow> if i \<noteq> [] then UpdateRule i (rule_body_of (fe_form s)) else AddRule (rule_body_of (fe_form s))
                | None \<Rightarrow> AddRule (rule_body_of (fe_form s)))))"

definition rule_saved :: "string option \<Rightarrow> fw_rule \<Rightarrow> string option option \<Rightarrow> fw_editor \<Rightarrow> fw_editor" where
  "rule_saved ruleId f failed s =
     (case failed of
        None \<Rightarrow> fe_say ''success'' (if truthy_str ruleId then ''Firewall rule updated'' else ''Firewall rule created'')
          (fw_direction f @ '' '' @ fw_protocol f @ '' '' @ or_str (fw_port f) ''*'' @ '' has been saved.'') (s\<lparr>fe_left := True\<rparr>)
      | Some m \<Rightarrow> fe_say ''error'' ''Unable to save firewall rule'' (nullish m ''Request failed.'') s)\<lparr>fe_saving := False\<rparr>"

subsection \<open>Testing a rule\<close>

datatype test_call = CheckHost string | TestPort string "int option"

definition first_port :: "string \<Rightarrow> string" where
  "first_port s = takeWhile (\<lambda>c. c \<noteq> CHR '','' \<and> c \<noteq> CHR ''-'') s"

definition connectivity_call :: "fw_editor \<Rightarrow> test_call option" where
  "connectivity_call s =
     (let f = fe_form s; host = or_str (fe_serverIp s) ''127.0.0.1'' in
      if fw_protocol f = ''ICMP'' then Some (CheckHost host)
      else if fw_port f \<noteq> [] then Some (TestPort host (parseInt (or_str (first_port (fw_port f)) ''0'')))
      else None)"

definition handleTestRule :: "string \<Rightarrow> fw_editor \<Rightarrow> fw_editor \<times> test_call option" where
  "handleTestRule serverId s =
     (if serverId = [] then (s, None)
      else let f = fe_form s in
        (s\<lparr>fe_isTesting := True, fe_testResult := None, fe_testLogs :=
             [''> validating '' @ fw_direction f @ '' '' @ fw_protocol f @ '' '' @ or_str (fw_port f) ''*'',
              ''> target server: '' @ or_str (fe_serverIp s) ''unknown'']\<rparr>, connectivity_call s))"

definition tested :: "string option option \<Rightarrow> fw_editor \<Rightarrow> fw_editor" where
  "tested failed s =
     (case failed of
        None \<Rightarrow> fe_say ''success'' ''Connectivity test queued''
          ''Firewall verification was sent to the backend using the current server IP.''
          (s\<lparr>fe_testLogs := fe_testLogs s @ [''> connectivity test request accepted''], fe_testResult := Some True\<rparr>)
      | Some m \<Rightarrow> (let message = nullish m ''Test failed.'' in
          fe_say ''error'' ''Connectivity test failed'' message
            (s\<lparr>fe_testLogs := fe_testLogs s @ [''> '' @ message], fe_testResult := Some False\<rparr>)))\<lparr>fe_isTesting := False\<rparr>"

subsection \<open>Warnings and commands\<close>

definition isDangerous :: "fw_rule \<Rightarrow> bool" where
  "isDangerous f \<longleftrightarrow> fw_direction f = ''INBOUND'' \<and> (fw_action f = ''DENY'' \<or> fw_action f = ''REJECT'') \<and>
     (fw_port f = ''22'' \<or> fw_protocol f = ''ANY'') \<and> fw_source f = ''Any''"

text \<open>\<open>replace(/\\s+/g, " ")\<close>.\<close>

fun squeeze :: "bool \<Rightarrow> string \<Rightarrow> string" where
  "squeeze inside [] = []"
| "squeeze inside (c # s) = (if is_ws c then (if inside then [] else '' '') @ squeeze True s else c # squeeze False s)"

definition generateCommand :: "fw_rule \<Rightarrow> string" where
  "generateCommand f =
     (let chain = (if fw_direction f = ''INBOUND'' then ''INPUT'' else ''OUTPUT'');
          proto = (if fw_protocol f \<noteq> ''ANY'' then ''-p '' @ lower (fw_protocol f) else []);
          port = (if (fw_protocol f = ''TCP'' \<or> fw_protocol f = ''UDP'') \<and> fw_port f \<noteq> [] then ''--dport '' @ fw_port f else []);
          src = (if fw_source f \<noteq> [] \<and> fw_source f \<noteq> ''Any'' then ''-s '' @ fw_source f else []);
          jump = (if fw_action f = ''ALLOW'' then ''ACCEPT'' else fw_action f) in
      trim (squeeze False (''iptables -A '' @ chain @ '' '' @ proto @ '' '' @ port @ '' '' @ src @ '' -j '' @ jump)))"

definition generateTestCommand :: "string \<Rightarrow> fw_rule \<Rightarrow> string" where
  "generateTestCommand serverIp f =
     (let ip = or_str serverIp ''<server_ip>'' in
      if fw_protocol f = ''TCP'' \<and> fw_port f \<noteq> [] then ''nc -zv '' @ ip @ '' '' @ first_port (fw_port f)
      else if fw_protocol f = ''ICMP'' then ''ping '' @ ip
      else ''nc -zv '' @ ip @ '' <port>'')"

section \<open>Toggling a rule\<close>

text \<open>
  What a request keeps of a rule: every field it names, but for the flag, has the value the rule has. What it does
  not name is left to the server.
\<close>

definition keeps_rule :: "rule_dto \<Rightarrow> rule_body \<Rightarrow> bool" where
  "keeps_rule d b \<longleftrightarrow>
     rb_chain b = rd_chain d \<and> rb_action b = rd_action d \<and> rd_protocol d = Some (rb_protocol b) \<and>
     rd_dest_port d = Some (rb_dest_port b) \<and> rd_source_ip d = Some (rb_source_ip b) \<and>
     rd_position d = Some (rb_position b) \<and> (rb_comment b = None \<or> rb_comment b = rd_comment d)"

definition plain_rule :: "rule_dto \<Rightarrow> bool" where
  "plain_rule d \<longleftrightarrow>
     rd_chain d \<in> {''INPUT'', ''OUTPUT''} \<and> rd_action d \<noteq> [] \<and>
     truthy_str (rd_protocol d) \<and> upper (nullish (rd_protocol d) []) = nullish (rd_protocol d) [] \<and>
     truthy_str (rd_dest_port d) \<and> truthy_str (rd_source_ip d) \<and> rd_position d \<noteq> None \<and>
     (truthy_str (rd_comment d) \<or> rd_description d = None \<or> rd_description d = rd_comment d)"

lemma truthy_some: "truthy_str a \<longleftrightarrow> (\<exists>s. a = Some s \<and> s \<noteq> [])"
  by (auto simp: truthy_str_def split: option.splits)

lemma or_ostr_truthy: "truthy_str a \<Longrightarrow> or_ostr a b = the a"
  by (auto simp: truthy_some or_ostr_def or_str_def)

lemma or_ostr_falsy: "\<not> truthy_str a \<Longrightarrow> or_ostr a b = b"
  by (auto simp: truthy_some or_ostr_def or_str_def split: option.splits)

lemma chain_kept: "chain_of (direction_of c) = c \<longleftrightarrow> c \<in> {''INPUT'', ''OUTPUT''}"
  by (auto simp: chain_of_def direction_of_def)

lemma kept_text: "z \<noteq> [] \<Longrightarrow> a = Some (or_ostr (or_opt a b) z) \<longleftrightarrow> truthy_str a"
  by (cases a; cases b) (auto simp: or_opt_def truthy_some or_ostr_def or_str_def)

lemma upper_any: "upper ''ANY'' = ''ANY''"
  by code_simp

lemma kept_protocol:
  "rd_protocol d = Some (protocol_of d) \<longleftrightarrow> truthy_str (rd_protocol d) \<and> upper (nullish (rd_protocol d) []) = nullish (rd_protocol d) []"
  by (cases "rd_protocol d") (auto simp: protocol_of_def or_ostr_def or_str_def truthy_str_def nullish_def upper_any upper_def)

lemma kept_note: "or_opt a b = None \<or> or_opt a b = a \<longleftrightarrow> truthy_str a \<or> b = None \<or> b = a"
  by (simp add: or_opt_def)

lemma kept_place: "p = Some (nullish p (int i + 1)) \<longleftrightarrow> p \<noteq> None"
  by (cases p) (simp_all add: nullish_def)

lemma toggle_kept: "keeps_rule d (toggle_body (rule_of i d)) \<longleftrightarrow> plain_rule d"
proof -
  let ?b = "toggle_body (rule_of i d)"
  have f: "rb_chain ?b = chain_of (direction_of (rd_chain d))" "rb_action ?b = or_str (rd_action d) ''ALLOW''"
    "rb_protocol ?b = protocol_of d" "rb_dest_port ?b = or_ostr (or_opt (rd_dest_port d) (rd_source_port d)) ''*''"
    "rb_source_ip ?b = or_ostr (or_opt (rd_source_ip d) (rd_dest_ip d)) ''Any''"
    "rb_position ?b = nullish (rd_position d) (int i + 1)" "rb_comment ?b = or_opt (rd_comment d) (rd_description d)"
    by (simp_all add: toggle_body_def rule_of_def target_of_def)
  have a: "or_str (rd_action d) ''ALLOW'' = rd_action d \<longleftrightarrow> rd_action d \<noteq> []" by (auto simp: or_str_def)
  have p: "rd_dest_port d = Some (rb_dest_port ?b) \<longleftrightarrow> truthy_str (rd_dest_port d)"
    "rd_source_ip d = Some (rb_source_ip ?b) \<longleftrightarrow> truthy_str (rd_source_ip d)"
    unfolding f by (rule kept_text; simp)+
  show ?thesis
    unfolding keeps_rule_def plain_rule_def p f(1-3,6-) chain_kept a kept_protocol kept_note kept_place by blast
qed

lemma find_listed:
  assumes "d \<in> set ds" "distinct (map rd_id ds)"
  shows "\<exists>i. List.find (\<lambda>r. fw_id r = rd_id d) (useFirewallRules ds) = Some (rule_of i d)"
proof -
  have "\<exists>i. List.find (\<lambda>r. fw_id r = rd_id d) (map (\<lambda>(i, d). rule_of i d) (enumerate n ds)) = Some (rule_of i d)" for n
    using assms by (induction ds arbitrary: n) (auto simp: rule_of_def rev_image_eqI)
  then show ?thesis by (simp add: useFirewallRules_def)
qed

text \<open>
  C39. In a list that shows the rules of the server, which have distinct ids, toggling a rule asks for the opposite of its flag and names seven other fields of it. They are those of the
  rule exactly when its chain is one of two, its action, its position, a destination port and a source address
  are given, its protocol is named in capitals, and a missing comment is not replaced by another description.
\<close>

theorem toggle_rewrites_rule:
  assumes "fl_rules s = useFirewallRules ds" "d \<in> set ds" "distinct (map rd_id ds)"
  shows "\<exists>b. handleToggle (rd_id d) s = Some (UpdateRule (rd_id d) b) \<and>
    rb_enabled b = (rd_enabled d = Some False) \<and> (keeps_rule d b \<longleftrightarrow> plain_rule d)"
proof -
  obtain i where "List.find (\<lambda>r. fw_id r = rd_id d) (fl_rules s) = Some (rule_of i d)"
    using find_listed [OF assms(2,3)] assms(1) by auto
  then have "handleToggle (rd_id d) s = Some (UpdateRule (rd_id d) (toggle_body (rule_of i d)))"
    by (simp add: handleToggle_def rule_of_def)
  moreover have "rb_enabled (toggle_body (rule_of i d)) = (rd_enabled d = Some False)"
    by (cases "rd_enabled d") (auto simp: toggle_body_def rule_of_def nullish_def)
  ultimately show ?thesis using toggle_kept by blast
qed

section \<open>Order and policy\<close>
















section \<open>No rule twice\<close>

definition rule_key :: "rule_dto \<Rightarrow> string \<times> string \<times> string \<times> string" where
  "rule_key d = (direction_of (rd_chain d), protocol_of d, or_ostr (or_opt (rd_dest_port d) (rd_source_port d)) ''*'', target_of d)"

definition form_key :: "fw_rule \<Rightarrow> string \<times> string \<times> string \<times> string" where
  "form_key f = (fw_direction f, fw_protocol f, or_str (fw_port f) ''*'', or_str (fw_source f) ''Any'')"

text \<open>The rule a request makes: what it does not name is missing.\<close>

definition dto_of :: "string \<Rightarrow> rule_body \<Rightarrow> rule_dto" where
  "dto_of i b =
     \<lparr>rd_id = i, rd_enabled = Some (rb_enabled b), rd_chain = rb_chain b, rd_action = rb_action b,
      rd_protocol = Some (rb_protocol b), rd_source_ip = Some (rb_source_ip b), rd_source_port = None, rd_dest_ip = None,
      rd_dest_port = Some (rb_dest_port b), rd_position = Some (rb_position b), rd_comment = rb_comment b,
      rd_description = None\<rparr>"

definition after_call :: "string \<Rightarrow> fw_call \<Rightarrow> rule_dto list \<Rightarrow> rule_dto list" where
  "after_call new call ds =
     (case call of
        AddRule b \<Rightarrow> ds @ [dto_of new b]
      | UpdateRule i b \<Rightarrow> map (\<lambda>d. if rd_id d = i then dto_of i b else d) ds
      | DeleteRule i \<Rightarrow> filter (\<lambda>d. rd_id d \<noteq> i) ds
      | _ \<Rightarrow> ds)"

lemma same_rule_key: "same_rule f d \<longleftrightarrow> rule_key d = form_key f"
  by (simp add: same_rule_def rule_key_def form_key_def)

lemma saved_key:
  assumes "fw_direction f \<in> {''INBOUND'', ''OUTBOUND''}" "fw_protocol f \<in> {''TCP'', ''UDP''}" "fw_port f \<noteq> []"
  shows "rule_key (dto_of i (rule_body_of f)) = form_key f"
proof -
  have "upper ''TCP'' = ''TCP''" "upper ''UDP'' = ''UDP''" by code_simp+
  then show ?thesis
    using assms
    by (auto simp: rule_key_def form_key_def dto_of_def rule_body_of_def direction_of_def chain_of_def protocol_of_def
        target_of_def or_opt_def or_ostr_def or_str_def truthy_str_def portless_def)
qed

lemma replaced_distinct:
  assumes "distinct (map k ds)" "distinct (map rd_id ds)" "\<forall>d \<in> set ds. rd_id d \<noteq> i \<longrightarrow> k d \<noteq> k n"
  shows "distinct (map k (map (\<lambda>d. if rd_id d = i then n else d) ds))"
  using assms by (induction ds) (auto simp: image_iff)

text \<open>
  C38. A rule for TCP or UDP that the editor lets through is no repetition: if no two rules of the server have
  the same direction, protocol, port and target, none have after the request, be it a new rule or a
  change.
\<close>

theorem no_rule_twice:
  assumes "handleSave serverId ruleId s = (s', Some call)" "ruleId = None \<or> (\<exists>i. i \<noteq> [] \<and> ruleId = Some i)"
    and "fw_direction (fe_form s) \<in> {''INBOUND'', ''OUTBOUND''}" "fw_protocol (fe_form s) \<in> {''TCP'', ''UDP''}"
    and "distinct (map rd_id (fe_existing s))" "distinct (map rule_key (fe_existing s))"
  shows "distinct (map rule_key (after_call new call (fe_existing s)))"
proof -
  let ?f = "fe_form s" and ?b = "rule_body_of (fe_form s)"
  have ok: "rule_errors ruleId s = []" and id: "serverId \<noteq> []"
    using assms(1) by (auto simp: handleSave_def Let_def split: if_splits)
  have p: "\<not> portless (fw_protocol ?f)" using assms(4) by (auto simp: portless_def)
  then have "fw_port ?f \<noteq> []" using ok by (auto simp: rule_errors_def Let_def trim_def ltrim_def rtrim_def split: if_splits)
  then have key: "rule_key (dto_of i ?b) = form_key ?f" for i using saved_key assms(3,4) by blast
  have free: "\<forall>d \<in> set (fe_existing s). Some (rd_id d) \<noteq> ruleId \<longrightarrow> rule_key d \<noteq> form_key ?f"
    using ok by (auto simp: rule_errors_def Let_def duplicateRule_def find_None_iff same_rule_key split: if_splits)
  have c: "call = (case ruleId of None \<Rightarrow> AddRule ?b | Some i \<Rightarrow> UpdateRule i ?b)"
    using assms(1,2) ok id by (auto simp: handleSave_def Let_def)
  show ?thesis
  proof (cases ruleId)
    case None
    then show ?thesis using c free key assms(6) by (auto simp: after_call_def)
  next
    case (Some i)
    then show ?thesis
      using c free key replaced_distinct [OF assms(6,5), of i "dto_of i ?b"] by (simp add: after_call_def)
  qed
qed

subsection \<open>What goes wrong\<close>

definition icmp_rule :: rule_dto where
  "icmp_rule = dto_of ''r1'' (rule_body_of (empty_rule\<lparr>fw_protocol := ''ICMP''\<rparr>))"

text \<open>A port typed before the protocol was changed hides a repetition; for a rule of all protocols it cannot be left out.\<close>

lemma hidden_repetition:
  "rule_errors None (fw_editor0\<lparr>fe_existing := [icmp_rule], fe_form := empty_rule\<lparr>fw_protocol := ''ICMP'', fw_port := ''80''\<rparr>\<rparr>) = []"
  "rule_key (dto_of ''r2'' (rule_body_of (empty_rule\<lparr>fw_protocol := ''ICMP'', fw_port := ''80''\<rparr>))) = rule_key icmp_rule"
  by code_simp+

lemma all_protocols_unsavable:
  "rule_errors (Some ''r1'') (fw_editor0\<lparr>fe_form := mapRule (icmp_rule\<lparr>rd_protocol := Some ''all''\<rparr>)\<rparr>) =
     [''Port is required for TCP/UDP rules.'']"
  by code_simp

text \<open>Leaving the custom target empty closes the port to everyone without the warning; so does a range.\<close>

lemma danger_missed:
  "\<not> isDangerous (empty_rule\<lparr>fw_action := ''DENY'', fw_port := ''22'', fw_source := []\<rparr>)"
  "rb_source_ip (rule_body_of (empty_rule\<lparr>fw_action := ''DENY'', fw_port := ''22'', fw_source := []\<rparr>)) = ''Any''"
  "\<not> isDangerous (empty_rule\<lparr>fw_action := ''DENY'', fw_port := ''20-30''\<rparr>)"
  by code_simp+

text \<open>The command that is shown allows by \<open>ACCEPT\<close>, but denies by a target that does not exist.\<close>

lemma shown_commands:
  "generateCommand (empty_rule\<lparr>fw_port := ''22''\<rparr>) = ''iptables -A INPUT -p tcp --dport 22 -j ACCEPT''"
  "generateCommand (empty_rule\<lparr>fw_port := ''22'', fw_action := ''DENY''\<rparr>) = ''iptables -A INPUT -p tcp --dport 22 -j DENY''"
  by code_simp+

lemma nothing_tested:
  "connectivity_call fw_editor0 = None"
  "fe_testResult (tested None (fst (handleTestRule ''s1'' fw_editor0))) = Some True"
  by code_simp+

section \<open>At concrete inputs\<close>

definition ssh_rule :: rule_dto where
  "ssh_rule = (dto_of ''r1'' (rule_body_of (empty_rule\<lparr>fw_port := ''22''\<rparr>)))\<lparr>rd_protocol := Some ''TCP''\<rparr>"

definition dns_rule :: rule_dto where
  "dns_rule = ssh_rule\<lparr>rd_id := ''r2'', rd_chain := ''OUTPUT'', rd_dest_port := Some ''53'', rd_dest_ip := Some ''10.0.0.2'',
     rd_source_ip := None\<rparr>"

definition two_rules :: fw_list where
  "two_rules = rules_fetched (useFirewallRules [ssh_rule, dns_rule]) fw_list0"

theorem toggle_rewrites_rule_witness:
  "(\<exists>b. handleToggle ''r1'' two_rules = Some (UpdateRule ''r1'' b) \<and> \<not> rb_enabled b \<and> keeps_rule ssh_rule b) \<and>
   (\<exists>b. handleToggle ''r2'' two_rules = Some (UpdateRule ''r2'' b) \<and> \<not> rb_enabled b \<and> \<not> keeps_rule dns_rule b)"
proof -
  have l: "fl_rules two_rules = useFirewallRules [ssh_rule, dns_rule]" by (simp add: two_rules_def rules_fetched_def)
  have i: "distinct (map rd_id [ssh_rule, dns_rule])" "rd_id ssh_rule = ''r1''" "rd_id dns_rule = ''r2''"
    "rd_enabled ssh_rule = Some True" "rd_enabled dns_rule = Some True" "plain_rule ssh_rule" "\<not> plain_rule dns_rule"
    by code_simp+
  show ?thesis
    using toggle_rewrites_rule [OF l, of ssh_rule] toggle_rewrites_rule [OF l, of dns_rule] i by simp
qed



definition second_rule :: fw_editor where
  "second_rule = fw_editor0\<lparr>fe_existing := [ssh_rule], fe_form := empty_rule\<lparr>fw_port := ''80''\<rparr>\<rparr>"

theorem no_rule_twice_witness:
  "distinct (map rule_key [ssh_rule, dto_of ''r9'' (rule_body_of (fe_form second_rule))])"
proof -
  have e: "rule_errors None second_rule = []" "fw_direction (fe_form second_rule) \<in> {''INBOUND'', ''OUTBOUND''}"
    "fw_protocol (fe_form second_rule) \<in> {''TCP'', ''UDP''}" "fe_existing second_rule = [ssh_rule]"
    by code_simp+
  have "handleSave ''s1'' None second_rule =
      (second_rule\<lparr>fe_errors := [], fe_saving := True\<rparr>, Some (AddRule (rule_body_of (fe_form second_rule))))"
    by (simp add: handleSave_def e)
  from no_rule_twice [OF this, of "''r9''"] e show ?thesis by (simp add: after_call_def)
qed

end
