(* ===== verification/Spec2Isabelle.thy ===== *)
theory Spec2Isabelle
  imports DeployModal LiveStream ServerFeatures AgentSocket Cron Firewall Access ServerServices Onboarding OnboardingPage
    GenericPage DockerPresets CronPage AppSession
    IamPages AdminPages ContainerDetail BuildArtifacts GeneralSettings Dashboard EditContainer StackEditor
    ConfigMapPage FirewallPages
begin

text \<open>
  Verification of the einfra web console, the TypeScript program under \<open>src/app/src\<close>. File names
  below are relative to that directory.

  \<^bold>\<open>The program.\<close> The console is a single page application. Every page keeps its state in React
  hooks, calls typed client objects, and these call one of two request functions, which add the
  token of the stored session and repeat a request once after refreshing it. Session, templates
  and the jobs and logs of the cron service live in the browser's local storage as JSON text.
  Some pages follow the server over a web socket. Others work on services kept in memory that
  stand in for a server.

  \<^bold>\<open>Which theory models what.\<close>

  \<^item> \<open>JsPrelude\<close>: strings, numbers and lists as JavaScript has them, and the shared facts about them.
    \<open>JsDate\<close>: dates. \<open>Json\<close> and \<open>JsonCodec\<close>: \<open>JSON.stringify\<close>, \<open>JSON.parse\<close> and typed readers.
    \<open>Url\<close>: the encodings of addresses. \<open>Browser\<close>: local storage, requests sent, the server as a
    parameter, and effects that may throw.
  \<^item> \<open>Machine\<close>: what pages share, and the interface of a state machine with an invariant.
    \<open>Repository\<close>: the interface of a store of entities filed under a key.
  \<^item> \<open>Auth\<close>: \<open>features/authentication/auth-session.ts\<close> and \<open>api.ts\<close>.
    \<open>HttpClient\<close>: the request functions of \<open>core/api-client.ts\<close> and \<open>shared/api/client.ts\<close>.
    \<open>ServerApi\<close> and \<open>ServerFeatures\<close>: the client objects of \<open>shared/api/client.ts\<close>; the loop that
    polls a command is here.
  \<^item> \<open>AgentSocket\<close>: \<open>features/servers/hooks/useAgentSocket.ts\<close>.
    \<open>Onboarding\<close>, \<open>ServerServices\<close>, \<open>Access\<close> and \<open>Firewall\<close>: the in-memory services of
    \<open>features/servers/pages/modules/shared\<close>. \<open>Cron\<close>: \<open>features/cron/cronService.ts\<close>.
    \<open>FirewallPages\<close>: the list and the editor of firewall rules, \<open>ServerFirewall.tsx\<close> and
    \<open>FirewallRuleEditor.tsx\<close> under \<open>features/servers/pages/modules/network\<close>, with their hooks.
    \<open>ServerForm\<close> and \<open>OnboardingPage\<close>: \<open>features/servers/pages/ServerOnboardingPage.tsx\<close> and the
    mutations it runs.
  \<^item> \<open>DockerPresets\<close>: \<open>features/docker/runtime-image-presets.ts\<close> and the stored templates.
    \<open>ApiHooks\<close>: queries, mutations and keys. \<open>DockerApi\<close> and \<open>KubernetesApi\<close>: the data hooks.
    \<open>LiveStream\<close>: the hooks over a web socket.
    \<open>DockerCompose\<close> and \<open>DeployModal\<close>: \<open>features/docker/components/DeployContainerModal.tsx\<close>.
  \<^item> \<open>Manifest\<close>: \<open>features/kubernetes/manifest-assistant.ts\<close>. \<open>CreateResource\<close>:
    \<open>createResourceConfig.ts\<close> beside it. \<open>YamlView\<close>, \<open>KeyValueEditor\<close> and \<open>CreatePage\<close>:
    \<open>features/kubernetes/pages/K8sCreateResourcePage.tsx\<close>. \<open>YamlSections\<close>, \<open>GenericPage\<close>:
    \<open>GenericK8sResourcePage.tsx\<close>; \<open>K8sPages\<close>: the pages that only configure it.
  \<^item> \<open>CronPage\<close>: the schedule builder, the editor and the list of jobs, \<open>CronScheduleBuilder.tsx\<close>,
    \<open>ServerCronEditorPage.tsx\<close> and \<open>ServerCron.tsx\<close>. \<open>Contexts\<close>: the notification, environment and
    theme contexts under \<open>core\<close>. \<open>AppSession\<close>: \<open>LoginPage.tsx\<close> and the session kept by \<open>App.tsx\<close>.
    \<open>AdminApi\<close>: the client objects of users, teams, catalog, notifications, settings, dashboard and
    audit logs. \<open>IamPages\<close>: the pages of users, roles and teams, three records edited through one
    form. \<open>AdminPages\<close>: the pages of routing rules, license keys, feature flags, tags and the inbox.
  \<^item> \<open>LineEditor\<close> and \<open>TerminalPane\<close>: \<open>features/docker/components/DockerTerminalWorkspaceModal.tsx\<close>.
    The keys edit a line that is redrawn on the screen of the terminal library, and the commands
    are sent to a socket or, when it fails, one by one to the exec call. The screen is a parameter;
    the calls that are awaited are tasks of the state, and the steps of the machine are the
    keys, the messages of the socket and the answers to the tasks.
    \<open>ContainersPage\<close>: \<open>ContainersPage.tsx\<close> with its tabs of terminals kept in storage.
    \<open>ContainerDetail\<close>: \<open>ContainerDetailPage.tsx\<close>, with the same tabs and a browser of files.
    \<open>EditContainer\<close>: \<open>EditContainerPage.tsx\<close>, a container as rows and the request made of them.
  \<^item> \<open>BuildStream\<close> and \<open>BuildArtifacts\<close>: \<open>features/docker/pages/BuildArtifactsPage.tsx\<close>. A build, an import
    and a rebuild each read a stream of lines; an operation is stored in the tab while it runs, to be
    joined again or cancelled. The step relation \<open>build_step\<close> has the handlers, the chunks and the
    ends of the streams as its steps.
    \<open>StackEditor\<close>: \<open>StackEditorPage.tsx\<close> beside it, the text areas of a stack and their parsers.
  \<^item> \<open>ConfigMapPage\<close>: \<open>features/kubernetes/pages/ConfigMapDetailPage.tsx\<close>, the entries read out of the YAML
    of the cluster and the manifest written from them. \<open>TextLines\<close> has the facts on texts of several
    lines it shares with \<open>StackEditor\<close>.
  \<^item> \<open>GeneralSettings\<close>: \<open>features/settings/pages/GeneralSettingsPage.tsx\<close>, three sections loaded together and
    saved one by one. \<open>Dashboard\<close>: what \<open>features/dashboard/pages/DashboardPage.tsx\<close> computes from the
    answers of its queries.

  \<^bold>\<open>How code becomes definitions.\<close> An interface is a record, a union of string literals a datatype
  or, where the code compares with other strings too, a string. A pure function keeps its name.
  A function that awaits requests is an effect: from a world (storage and the requests sent so far)
  to a thrown value or a result, and the world after. A React component is a record of its state
  with one definition per handler and effect, each from state to state. An asynchronous handler
  is one step where nothing the model follows can come between, and two, up to the first
  \<open>await\<close> and after it, where something can. Hooks with sockets and timers are step relations whose
  steps are the callbacks of the platform.

  \<^bold>\<open>Conventions.\<close> A string is the list of the bytes of its UTF-8 form; lower case, upper case and
  white space are the ASCII ones, and a place or a length in a text outside ASCII counts bytes. Regular expressions are written out as string functions.
  Numbers of JSON are integers; other numbers are integers, naturals or rationals, as the code uses
  them, without the rounding of floating point. The keys of an object keep the order of insertion.
  The server, the clock, random numbers and the formatting of a locale are arguments. The matching
  of query keys by the query library is an argument too, with the documented matching by prefix as a
  named hypothesis where a statement relies on it.

  \<^bold>\<open>What the lemmas show.\<close>

  \<^item> Requests: a call sends at most three requests, one of them a refresh; the repeated one carries
    the new token; a failed refresh clears the session. Sessions survive the trip through storage,
    and queries keep their parameters.
  \<^item> Stores: the cron service and the firewall implement a store of entities (the locale
    \<open>repository\<close> and its refinement, interpreted in \<open>Cron\<close>, \<open>Firewall\<close> and \<open>Access\<close>). Memberships of
    users and groups stay symmetric under some operations and not under others.
  \<^item> Terminals: the editing of a line with ASCII keys and pastes is shown by every terminal that obeys the
    laws of \<open>row_terminal\<close> while the line fits its row; one such terminal is executable
    (\<open>simple_terminal\<close>); a pane has one command in flight
    at most; the output of a command is found whatever it prints.
  \<^item> Machines: the locale \<open>machine\<close> is interpreted on the agent's socket, the onboarding service,
    its page, the live streams, the terminal pane, the list of containers and the build page. Invariants hold in
    every reachable state, and runs end.
  \<^item> Documents: what the Compose and manifest writers print has the sections and rows that were
    entered; the data rows of a manifest, the secrets of a stack and the entries of a ConfigMap survive
    being written and read again, under conditions on their text that are stated.
  \<^item> Streams: what a stream calls and returns does not depend on where its chunks are cut, and the page
    shows every line that is not blank once, in order and without trailing white space.
  \<^item> Firewall: what the request that toggles a rule keeps of it, that the editor lets no rule through twice, and that the
    policy is in no request and the order only in the request that toggles a rule, though both are
    shown as applied. The runs of the list (\<open>fw_run\<close>) are compared step by step.
  \<^item> Pages: which requests a page sends and when it sends none; which edits it ignores; what stays
    selected, visible or shown after each handler.

  \<^bold>\<open>Fuel and bounds.\<close> The reader of JSON has fuel, the length of the text plus one; \<open>Json\<close> proves this
  enough for every text it can have written. The request loops have as many rounds as the code
  allows. The polling loop takes the readings of the clock as an argument and is proved to end when
  the clock passes the deadline. Nothing else needs fuel.

  \<^bold>\<open>Not modelled.\<close> Rendering, styles and icons; clipboard and downloads; the interleaving of
  requests made with \<open>Promise.all\<close>; React Query beyond keys and invalidation; constants that stand
  in for a server (parts of \<open>mockServerService.ts\<close>, the Docker and Kubernetes stubs at the end of
  \<open>shared/api/client.ts\<close>); the routes and the layout around the pages; the pages that mostly show the
  results of the hooks (images, volumes, networks, templates and the topology of Docker, nodes,
  environments and the detail panel of Kubernetes) or call the client objects
  (users, keys, services, packages and backups of a server). Some files nothing imports and are older copies of
  modelled ones: those under \<open>pages\<close> but the loading screen, \<open>TerminalModal.tsx\<close>, \<open>K8sApplyManifestModal.tsx\<close>,
  \<open>EditContainerModal.tsx\<close> and \<open>StackEditorModal.tsx\<close>. The Go services are another language; the console
  sees them only as a server.
\<close>

end
